(* ===== verification/Prelude.thy ===== *)
theory Prelude
  imports Complex_Main
begin

text \<open>
  Shared vocabulary of the development.

  \<^item> JavaScript strings over the ASCII characters: \<open>trim\<close>, \<open>toLowerCase\<close>,
    \<open>toUpperCase\<close>, \<open>startsWith\<close>, \<open>includes\<close>, \<open>slice(-n)\<close>, digit tests.
  \<^item> Errors as values: one constructor per exception class the services throw, with the status
    that \<open>HttpException.getStatus\<close> reports for it.
  \<^item> The effects a service leaves behind besides its rows: audit and notification events and cache
    invalidations, kept as a log.
  \<^item> Database tables as lists of rows with the operations the services use on them
    (\<open>findUnique\<close>, \<open>findFirst\<close>, \<open>updateMany\<close>, \<open>count\<close>, \<open>_sum\<close>).
  \<^item> The interfaces shared by the components, as locales: a table whose rows are claimed by a
    status-guarded \<open>updateMany\<close>, a status transition table, and a step system with an invariant.
\<close>

named_theorems frame "what an operation leaves alone"

section \<open>JavaScript strings\<close>

type_synonym jstring = "char list"

definition is_ws :: "char \<Rightarrow> bool" where
  "is_ws c \<longleftrightarrow> (of_char c :: nat) \<in> {9, 10, 11, 12, 13, 32}"

definition js_trim :: "jstring \<Rightarrow> jstring" where
  "js_trim s = rev (dropWhile is_ws (rev (dropWhile is_ws s)))"

definition code_of :: "char \<Rightarrow> nat" where
  "code_of c = of_char c"

definition upper_char :: "char \<Rightarrow> char" where
  "upper_char c = (if 97 \<le> code_of c \<and> code_of c \<le> 122 then char_of (code_of c - 32) else c)"

definition lower_char :: "char \<Rightarrow> char" where
  "lower_char c = (if 65 \<le> code_of c \<and> code_of c \<le> 90 then char_of (code_of c + 32) else c)"

definition js_upper :: "jstring \<Rightarrow> jstring" where
  "js_upper s = map upper_char s"

definition js_lower :: "jstring \<Rightarrow> jstring" where
  "js_lower s = map lower_char s"

definition is_digit :: "char \<Rightarrow> bool" where
  "is_digit c \<longleftrightarrow> 48 \<le> code_of c \<and> code_of c \<le> 57"

definition starts_with :: "jstring \<Rightarrow> jstring \<Rightarrow> bool" where
  "starts_with p s \<longleftrightarrow> take (length p) s = p"

fun js_includes :: "jstring \<Rightarrow> jstring \<Rightarrow> bool" where
  "js_includes p [] = (p = [])"
| "js_includes p (c # s) = (starts_with p (c # s) \<or> js_includes p s)"

text \<open>\<open>s.slice(-n)\<close> for \<open>n > 0\<close>.\<close>

definition slice_last :: "nat \<Rightarrow> jstring \<Rightarrow> jstring" where
  "slice_last n s = drop (length s - n) s"

text \<open>An optional string is truthy when it is present and not empty.\<close>

definition truthy :: "jstring option \<Rightarrow> bool" where
  "truthy s \<longleftrightarrow> (case s of None \<Rightarrow> False | Some t \<Rightarrow> t \<noteq> [])"

lemma truthy_simps [simp]: "truthy None = False" "truthy (Some t) = (t \<noteq> [])"
  by (simp_all add: truthy_def)

lemma js_lower_length [simp]: "length (js_lower s) = length s"
  by (simp add: js_lower_def)

lemma js_upper_length [simp]: "length (js_upper s) = length s"
  by (simp add: js_upper_def)

lemma code_of_char_of [simp]: "n < 256 \<Longrightarrow> code_of (char_of n) = n"
  by (simp add: code_of_def)

lemma upper_char_idem [simp]: "upper_char (upper_char c) = upper_char c"
proof (cases "97 \<le> code_of c \<and> code_of c \<le> 122")
  case True
  then have "code_of (upper_char c) = code_of c - 32"
    by (auto simp: upper_char_def)
  with True have "\<not> 97 \<le> code_of (upper_char c)" by linarith
  then show ?thesis
    by (simp add: upper_char_def [of "upper_char c"])
next
  case False
  then have "upper_char c = c" unfolding upper_char_def by (rule if_not_P)
  then show ?thesis by simp
qed

lemma js_upper_idem [simp]: "js_upper (js_upper s) = js_upper s"
  by (simp add: js_upper_def)

lemma dropWhile_rev_keeps_head:
  "s \<noteq> [] \<Longrightarrow> \<not> P (hd s) \<Longrightarrow> \<exists>t. rev (dropWhile P (rev s)) = hd s # t"
proof (cases s)
  case (Cons a u)
  assume "\<not> P (hd s)"
  then have "dropWhile P (rev u @ [a]) = dropWhile P (rev u) @ [a]"
    using Cons by (induction u rule: rev_induct) (auto simp: dropWhile_append3)
  with Cons show ?thesis by simp
qed simp

lemma js_trim_idem [simp]: "js_trim (js_trim s) = js_trim s"
proof -
  define u where "u = dropWhile is_ws s"
  have step: "dropWhile is_ws (rev (dropWhile is_ws (rev u))) = rev (dropWhile is_ws (rev u))"
  proof (cases "u = []")
    case False
    then have "\<not> is_ws (hd u)" unfolding u_def by (rule hd_dropWhile)
    from dropWhile_rev_keeps_head [where P = is_ws, OF False this]
    obtain t where "rev (dropWhile is_ws (rev u)) = hd u # t" by blast
    with \<open>\<not> is_ws (hd u)\<close> show ?thesis by simp
  qed simp
  show ?thesis
    unfolding js_trim_def using step by (simp add: u_def)
qed

section \<open>Errors as values\<close>

datatype error =
    BadRequest jstring
  | Unauthorized jstring
  | Forbidden jstring
  | NotFound jstring
  | Conflict jstring
  | TooManyRequests jstring
  | ServiceUnavailable jstring
  | UniqueViolation \<comment> \<open>\<open>PrismaClientKnownRequestError\<close> with code \<open>P2002\<close>\<close>
  | DatabaseError \<comment> \<open>any other rejected statement, e.g. a numeric overflow\<close>
  | PlainError jstring \<comment> \<open>a thrown \<open>Error\<close>: network failure, timeout, malformed number\<close>

type_synonym 'a result = "error + 'a"

text \<open>\<open>err instanceof HttpException\<close> and \<open>err.getStatus()\<close>.\<close>

fun http_status :: "error \<Rightarrow> nat option" where
  "http_status (BadRequest _) = Some 400"
| "http_status (Unauthorized _) = Some 401"
| "http_status (Forbidden _) = Some 403"
| "http_status (NotFound _) = Some 404"
| "http_status (Conflict _) = Some 409"
| "http_status (TooManyRequests _) = Some 429"
| "http_status (ServiceUnavailable _) = Some 503"
| "http_status UniqueViolation = None"
| "http_status DatabaseError = None"
| "http_status (PlainError _) = None"

text \<open>\<open>err.message\<close>.\<close>

fun err_message :: "error \<Rightarrow> jstring" where
  "err_message (BadRequest m) = m"
| "err_message (Unauthorized m) = m"
| "err_message (Forbidden m) = m"
| "err_message (NotFound m) = m"
| "err_message (Conflict m) = m"
| "err_message (TooManyRequests m) = m"
| "err_message (ServiceUnavailable m) = m"
| "err_message UniqueViolation = ''Unique constraint failed''"
| "err_message DatabaseError = ''Database error''"
| "err_message (PlainError m) = m"

section \<open>Sequencing and bulk calls\<close>

text \<open>\<open>await f(); g()\<close>: what throws ends the call, with the state it left behind.\<close>

definition res_bind :: "'a result \<times> 's \<Rightarrow> ('a \<Rightarrow> 's \<Rightarrow> 'b result \<times> 's) \<Rightarrow> 'b result \<times> 's" where
  "res_bind m k = (case m of (Inl e, s) \<Rightarrow> (Inl e, s) | (Inr x, s) \<Rightarrow> k x s)"

definition void :: "'a result \<times> 's \<Rightarrow> unit result \<times> 's" where
  "void m = res_bind m (\<lambda>_ s. (Inr (), s))"

text \<open>\<open>[...new Set(ids)]\<close>: the first occurrence of each id, in order.\<close>

fun unique_ids :: "'i list \<Rightarrow> 'i list" where
  "unique_ids [] = []"
| "unique_ids (i # is) = i # filter (\<lambda>j. j \<noteq> i) (unique_ids is)"

text \<open>Bulk calls catch the error of each id: the ids that succeeded, and the failed ones with the message.\<close>

type_synonym bulk_answer = "jstring list \<times> (jstring \<times> jstring) list"

fun bulk_loop :: "(jstring \<Rightarrow> 's \<Rightarrow> 'a result \<times> 's) \<Rightarrow> jstring list \<Rightarrow> 's \<Rightarrow> bulk_answer \<times> 's" where
  "bulk_loop fn [] s = (([], []), s)"
| "bulk_loop fn (i # is) s =
     (let (r, s1) = fn i s; ((oks, bad), s2) = bulk_loop fn is s1
      in case r of Inl e \<Rightarrow> ((oks, (i, err_message e) # bad), s2) | Inr _ \<Rightarrow> ((i # oks, bad), s2))"

section \<open>JSON values and the effect log\<close>

text \<open>
  Values as they reach the audit log. \<open>JFixed r\<close> stands for the text that
  \<open>Decimal.toFixed(2)\<close> renders for \<open>r\<close>.
\<close>

datatype jval =
    JUndefined
  | JNull
  | JBool bool
  | JInt int
  | JFixed rat
  | JStr jstring
  | JDate int
  | JBuffer
  | JArr "jval list"
  | JObj "(jstring \<times> jval) list"

definition jstr_opt :: "jstring option \<Rightarrow> jval" where
  "jstr_opt s = (case s of None \<Rightarrow> JNull | Some t \<Rightarrow> JStr t)"

datatype actor_type = USER | ADMIN | SUPER_ADMIN | SYSTEM | ANONYMOUS

datatype audit_outcome = SUCCESS | FAILURE | DENIED

datatype audit_severity = INFO | WARNING | CRITICAL

record audit_event =
  ae_userId :: "jstring option"
  ae_targetUserId :: "jstring option"
  ae_actorType :: actor_type
  ae_action :: jstring
  ae_outcome :: audit_outcome
  ae_severity :: audit_severity
  ae_entity :: jstring
  ae_entityId :: "jstring option"
  ae_entityLabel :: "jstring option"
  ae_reason :: "jstring option"
  ae_diff :: "(jstring \<times> jval) list"
  ae_metadata :: "(jstring \<times> jval) list"

text \<open>
  An audit payload with the fields every emitter sets; the optional ones are filled in by record
  update where the source sets them. An absent \<open>outcome\<close> or \<open>severity\<close> is recorded by the
  listener with these defaults.
\<close>

definition audit_base :: "actor_type \<Rightarrow> jstring \<Rightarrow> jstring \<Rightarrow> jstring \<Rightarrow> audit_event" where
  "audit_base actor action entity entityId = \<lparr>ae_userId = None, ae_targetUserId = None,
     ae_actorType = actor, ae_action = action, ae_outcome = SUCCESS, ae_severity = INFO,
     ae_entity = entity, ae_entityId = Some entityId, ae_entityLabel = None, ae_reason = None,
     ae_diff = [], ae_metadata = []\<rparr>"

datatype effect =
    Audit audit_event
  | Notify jstring "(jstring \<times> jval) list"
  | Invalidate jstring jstring \<comment> \<open>cache family and the id whose entries are dropped\<close>
  | Purge jstring \<comment> \<open>an object removed from the media bucket\<close>

record current_user =
  cu_id :: jstring
  cu_roles :: "jstring list"

section \<open>Tables\<close>

text \<open>
  A table is the list of its rows in insertion order. \<open>update_where\<close> is \<open>updateMany\<close>:
  every row that satisfies the \<open>where\<close> clause is rewritten; \<open>count_where\<close> is the
  \<open>count\<close> it returns (and the \<open>count\<close> query).
\<close>

definition find_where :: "('r \<Rightarrow> bool) \<Rightarrow> 'r list \<Rightarrow> 'r option" where
  "find_where P xs = List.find P xs"

definition update_where :: "('r \<Rightarrow> bool) \<Rightarrow> ('r \<Rightarrow> 'r) \<Rightarrow> 'r list \<Rightarrow> 'r list" where
  "update_where P f xs = map (\<lambda>r. if P r then f r else r) xs"

definition count_where :: "('r \<Rightarrow> bool) \<Rightarrow> 'r list \<Rightarrow> nat" where
  "count_where P xs = length (filter P xs)"

definition sum_where :: "('r \<Rightarrow> bool) \<Rightarrow> ('r \<Rightarrow> 'n::comm_monoid_add) \<Rightarrow> 'r list \<Rightarrow> 'n" where
  "sum_where P f xs = sum_list (map f (filter P xs))"

lemma find_where_None_iff: "find_where P xs = None \<longleftrightarrow> (\<forall>r \<in> set xs. \<not> P r)"
  by (auto simp: find_where_def find_None_iff)

lemma find_where_SomeD: "find_where P xs = Some r \<Longrightarrow> r \<in> set xs \<and> P r"
  by (auto simp: find_where_def find_Some_iff)

lemma find_where_Nil [simp]: "find_where P [] = None"
  by (simp add: find_where_def)

lemma find_where_Cons [simp]:
  "find_where P (x # xs) = (if P x then Some x else find_where P xs)"
  by (simp add: find_where_def)

lemma find_where_append:
  "find_where P (xs @ ys) = (case find_where P xs of None \<Rightarrow> find_where P ys | Some r \<Rightarrow> Some r)"
  by (induction xs) (auto split: option.splits)

lemma update_where_Nil [simp]: "update_where P f [] = []"
  by (simp add: update_where_def)

lemma update_where_Cons [simp]:
  "update_where P f (x # xs) = (if P x then f x else x) # update_where P f xs"
  by (simp add: update_where_def)

lemma update_where_append [simp]:
  "update_where P f (xs @ ys) = update_where P f xs @ update_where P f ys"
  by (simp add: update_where_def)

lemma length_update_where [simp]: "length (update_where P f xs) = length xs"
  by (simp add: update_where_def)

lemma count_where_Nil [simp]: "count_where P [] = 0"
  by (simp add: count_where_def)

lemma count_where_Cons [simp]:
  "count_where P (x # xs) = (if P x then Suc (count_where P xs) else count_where P xs)"
  by (simp add: count_where_def)

lemma count_where_append [simp]: "count_where P (xs @ ys) = count_where P xs + count_where P ys"
  by (simp add: count_where_def)

lemma sum_where_Nil [simp]: "sum_where P f [] = 0"
  by (simp add: sum_where_def)

lemma sum_where_Cons [simp]:
  "sum_where P f (x # xs) = (if P x then f x + sum_where P f xs else sum_where P f xs)"
  by (simp add: sum_where_def)

lemma sum_where_append [simp]: "sum_where P f (xs @ ys) = sum_where P f xs + sum_where P f ys"
  by (simp add: sum_where_def)

lemma count_where_0_iff: "count_where P xs = 0 \<longleftrightarrow> (\<forall>r \<in> set xs. \<not> P r)"
  by (induction xs) auto

lemma update_where_none: "count_where P xs = 0 \<Longrightarrow> update_where P f xs = xs"
  by (induction xs) (auto split: if_splits)

lemma in_update_where:
  "r \<in> set (update_where P f xs) \<longleftrightarrow> (\<exists>q \<in> set xs. r = (if P q then f q else q))"
  by (auto simp: update_where_def)

lemma map_update_where:
  "(\<And>r. P r \<Longrightarrow> k (f r) = k r) \<Longrightarrow> map k (update_where P f xs) = map k xs"
  by (induction xs) auto

lemma sum_where_update_same:
  "(\<And>r. P r \<Longrightarrow> Q (f r) = Q r \<and> g (f r) = g r) \<Longrightarrow>
   sum_where Q g (update_where P f xs) = sum_where Q g xs"
  by (induction xs) auto

lemma count_where_update_same:
  "(\<And>r. P r \<Longrightarrow> Q (f r) = Q r) \<Longrightarrow> count_where Q (update_where P f xs) = count_where Q xs"
  by (induction xs) auto

lemma sum_where_nonneg:
  fixes g :: "'r \<Rightarrow> 'n::ordered_comm_monoid_add"
  shows "(\<And>r. r \<in> set xs \<Longrightarrow> P r \<Longrightarrow> 0 \<le> g r) \<Longrightarrow> 0 \<le> sum_where P g xs"
  by (induction xs) (auto intro: add_nonneg_nonneg)

lemma sum_where_update_le:
  fixes g :: "'r \<Rightarrow> 'n::ordered_comm_monoid_add"
  shows "(\<And>r. P r \<Longrightarrow> g (f r) = g r \<and> (Q (f r) \<longrightarrow> Q r)) \<Longrightarrow> (\<And>r. r \<in> set xs \<Longrightarrow> 0 \<le> g r) \<Longrightarrow>
    sum_where Q g (update_where P f xs) \<le> sum_where Q g xs"
  by (induction xs) (auto intro: add_mono add_increasing)

lemma count_where_update_le:
  "(\<And>r. P r \<Longrightarrow> Q (f r) \<Longrightarrow> Q r) \<Longrightarrow> count_where Q (update_where P f xs) \<le> count_where Q xs"
  by (induction xs) (auto intro: le_SucI)

text \<open>A predicate that pins the primary key holds for at most one row of a keyed table.\<close>

lemma key_pinned_tail:
  assumes "distinct (map k (x # xs))" "P x" "\<And>r. P r \<Longrightarrow> k r = v"
  shows "\<forall>r \<in> set xs. \<not> P r"
proof
  fix r assume "r \<in> set xs"
  with assms(1) have "k r \<noteq> k x" by (auto simp: image_iff)
  with assms(2,3) show "\<not> P r" by metis
qed

lemma count_key_le_1:
  "distinct (map k xs) \<Longrightarrow> (\<And>r. P r \<Longrightarrow> k r = v) \<Longrightarrow> count_where P xs \<le> 1"
proof (induction xs)
  case (Cons x xs)
  show ?case
  proof (cases "P x")
    case True
    with Cons.prems have "\<forall>r \<in> set xs. \<not> P r"
      using key_pinned_tail [of k x xs P v] by blast
    then have "count_where P xs = 0" by (simp add: count_where_0_iff)
    with True show ?thesis by simp
  qed (use Cons in auto)
qed simp

lemma find_key_unique:
  "distinct (map k xs) \<Longrightarrow> r \<in> set xs \<Longrightarrow> find_where (\<lambda>q. k q = k r) xs = Some r"
  by (induction xs) force+

lemma find_update_key:
  assumes "\<And>r. k (f r) = k r"
  shows "find_where (\<lambda>q. k q = v) (update_where P f xs) =
    map_option (\<lambda>r. if P r then f r else r) (find_where (\<lambda>q. k q = v) xs)"
  by (induction xs) (auto simp: assms)

lemma find_update_where:
  "(\<And>r. P (f r) = P r) \<Longrightarrow> find_where P (update_where Q f xs) = map_option (\<lambda>r. if Q r then f r else r) (find_where P xs)"
  by (induction xs) auto

text \<open>Splitting a sum over a keyed table at the one row an update touches.\<close>

lemma sum_where_update_key:
  fixes g :: "'r \<Rightarrow> 'n::ab_group_add"
  assumes "distinct (map k xs)" "r \<in> set xs" "P r" "\<And>q. P q \<Longrightarrow> k q = k r"
  shows "sum_where Q g (update_where P f xs) =
    sum_where Q g xs - (if Q r then g r else 0) + (if Q (f r) then g (f r) else 0)"
  using assms(1,2)
proof (induction xs)
  case (Cons x xs)
  show ?case
  proof (cases "x = r")
    case True
    have "\<forall>q \<in> set xs. \<not> P q"
      using key_pinned_tail [of k x xs P "k r"] True Cons.prems(1) assms(3,4) by blast
    then have "update_where P f xs = xs" by (simp add: update_where_none count_where_0_iff)
    with True assms(3) show ?thesis by simp
  next
    case False
    with Cons.prems(2) have r: "r \<in> set xs" by auto
    with Cons.prems(1) have "k x \<noteq> k r" by (auto simp: image_iff)
    with assms(4) have "\<not> P x" by metis
    moreover have "sum_where Q g (update_where P f xs) =
        sum_where Q g xs - (if Q r then g r else 0) + (if Q (f r) then g (f r) else 0)"
      using Cons.prems(1) r by (intro Cons.IH) simp_all
    ultimately show ?thesis by simp
  qed
qed simp

section \<open>Decimal rendering\<close>

fun show_nat :: "nat \<Rightarrow> jstring" where
  "show_nat n = (if n < 10 then [char_of (48 + n)]
     else show_nat (n div 10) @ [char_of (48 + n mod 10)])"

declare show_nat.simps [simp del]

lemma code_of_inj: "code_of x = code_of y \<longleftrightarrow> x = y"
  by (auto simp: code_of_def)

lemma is_digit_char_of: "(d :: nat) < 10 \<Longrightarrow> is_digit (char_of (48 + d))"
  by (simp add: is_digit_def)

lemma show_nat_digits: "list_all is_digit (show_nat n)"
proof (induction n rule: show_nat.induct)
  case (1 n)
  then show ?case by (subst show_nat.simps) (simp add: is_digit_char_of)
qed

lemma show_nat_length: "n < 10 ^ Suc k \<Longrightarrow> length (show_nat n) \<le> Suc k"
proof (induction k arbitrary: n)
  case (Suc k)
  then have "n div 10 < 10 ^ Suc k" by (simp add: less_mult_imp_div_less mult.commute)
  from Suc.IH [OF this] show ?case by (subst show_nat.simps) simp
qed (simp add: show_nat.simps)

section \<open>Interfaces\<close>

text \<open>The \<open>where\<close> clause of a status-guarded write to one row.\<close>

definition claimable :: "('r \<Rightarrow> 'k) \<Rightarrow> ('r \<Rightarrow> 's) \<Rightarrow> 's list \<Rightarrow> 'k \<Rightarrow> 'r \<Rightarrow> bool" where
  "claimable key status froms k r \<longleftrightarrow> key r = k \<and> status r \<in> set froms"

text \<open>
  A row is claimed by \<open>updateMany({ where: { id, status: { in: froms } }, data })\<close>: the write
  happens only while the row still has one of the expected statuses, and it moves the row out of
  them. Whoever relies on such a claim relies on these two facts about the \<open>data\<close>.
\<close>

locale guarded_table =
  fixes key :: "'r \<Rightarrow> 'k" and status :: "'r \<Rightarrow> 's" and froms :: "'s list" and upd :: "'r \<Rightarrow> 'r"
  assumes upd_key: "key (upd r) = key r"
    and upd_leaves: "status (upd r) \<notin> set froms"
begin

lemma keys_kept: "map key (update_where (claimable key status froms k) upd xs) = map key xs"
  by (rule map_update_where) (simp add: upd_key)

lemma claimed_once: "count_where (claimable key status froms k) (update_where (claimable key status froms k) upd xs) = 0"
  by (induction xs) (auto simp: claimable_def upd_leaves)

lemma claim_at_most_one: "distinct (map key xs) \<Longrightarrow> count_where (claimable key status froms k) xs \<le> 1"
  by (rule count_key_le_1 [where k = key and v = k]) (auto simp: claimable_def)

lemma others_untouched:
  "key r \<noteq> k \<Longrightarrow> r \<in> set (update_where (claimable key status froms k) upd xs) \<longleftrightarrow> r \<in> set xs"
  by (auto simp: in_update_where claimable_def upd_key)

lemma claim_won:
  assumes "distinct (map key xs)" "count_where (claimable key status froms k) xs \<noteq> 0"
  obtains r where "r \<in> set xs" "claimable key status froms k r"
    "find_where (\<lambda>q. key q = k) (update_where (claimable key status froms k) upd xs) = Some (upd r)"
proof -
  from assms(2) obtain r where r: "r \<in> set xs" "claimable key status froms k r"
    by (auto simp: count_where_0_iff)
  then have "key r = k" by (simp add: claimable_def)
  with assms(1) r(1) have "find_where (\<lambda>q. key q = k) xs = Some r"
    using find_key_unique by fastforce
  with r(2) have "find_where (\<lambda>q. key q = k) (update_where (claimable key status froms k) upd xs) = Some (upd r)"
    using find_update_key [of key upd k "claimable key status froms k" xs] upd_key by simp
  with r that show thesis by blast
qed

end

text \<open>
  A status table \<open>ALLOWED_STATUS_TRANSITIONS\<close> with its terminal statuses; \<open>moves\<close> is any
  number of allowed transitions.
\<close>

locale transition_table =
  fixes allowed :: "'s \<Rightarrow> 's list" and terminal :: "'s \<Rightarrow> bool"
  assumes terminal_stuck: "terminal s \<Longrightarrow> allowed s = []"
begin

definition move :: "'s \<Rightarrow> 's \<Rightarrow> bool" where
  "move s t \<longleftrightarrow> t \<in> set (allowed s)"

lemma terminal_final: "terminal s \<Longrightarrow> move\<^sup>*\<^sup>* s t \<Longrightarrow> t = s"
  by (erule converse_rtranclpE) (auto simp: move_def terminal_stuck)

end

text \<open>An invariant of a step relation holds in every state that steps reach.\<close>

locale invariant_system =
  fixes step :: "'s \<Rightarrow> 's \<Rightarrow> bool" and inv :: "'s \<Rightarrow> bool"
  assumes step_inv: "step s t \<Longrightarrow> inv s \<Longrightarrow> inv t"
begin

lemma reach_inv: "step\<^sup>*\<^sup>* s t \<Longrightarrow> inv s \<Longrightarrow> inv t"
  by (induction rule: rtranclp_induct) (auto intro: step_inv)

end

end
