(* ===== verification/Chapa.thy ===== *)
theory Chapa
  imports Prelude
begin

text \<open>
  The payment provider client, \<open>src/infrastructure/chapa/chapa.service.ts\<close>.

  What the network answers is a parameter: a call either fails (connection error, timeout) or comes
  back with an HTTP status and a body that is JSON or is not. Everything the service does with the
  answer is modelled: which exception it becomes (\<open>chapa_request\<close>), whether that exception counts
  as a refusal (\<open>isDefiniteRejection\<close>), the exact-amount comparison, the webhook signature rule and
  the text sanitiser. HMAC-SHA256 and the decimal constructor of the database client are parameters.
\<close>

section \<open>Data\<close>

datatype chapa_message = NoMessage | TextMessage jstring | FieldMessages "(jstring \<times> jstring list) list"

record 'd envelope =
  env_status :: jstring
  env_message :: chapa_message
  env_data :: 'd

datatype 'd http_answer =
    NetworkFailure jstring
  | Answer nat "'d envelope option" \<comment> \<open>HTTP status; \<open>None\<close> when the body is not JSON\<close>

record chapa_config =
  cc_secretKey :: jstring
  cc_webhookSecret :: jstring
  cc_currency :: jstring
  cc_titleMaxLength :: nat
  cc_descriptionMaxLength :: nat

record verify_data =
  vd_currency :: jstring
  vd_amount :: jstring
  vd_charge :: "jstring option"
  vd_status :: jstring
  vd_reference :: "jstring option"
  vd_tx_ref :: jstring

record transfer_input =
  ti_accountName :: jstring
  ti_accountNumber :: jstring
  ti_bankCode :: jstring
  ti_amount :: rat
  ti_reference :: jstring

record init_input =
  ii_amount :: rat
  ii_email :: jstring
  ii_firstName :: jstring
  ii_lastName :: jstring
  ii_txRef :: jstring
  ii_returnUrl :: jstring
  ii_callbackUrl :: jstring
  ii_title :: jstring
  ii_description :: jstring

record refund_input =
  ri_chapaReference :: jstring
  ri_amount :: rat
  ri_reason :: "jstring option"
  ri_reference :: jstring

section \<open>Requests and how their answers become errors\<close>

definition js_join :: "jstring \<Rightarrow> jstring list \<Rightarrow> jstring" where
  "js_join sep xs = (case xs of [] \<Rightarrow> [] | y # ys \<Rightarrow> y @ concat (map (\<lambda>z. sep @ z) ys))"

fun messageToString :: "chapa_message \<Rightarrow> jstring" where
  "messageToString NoMessage = ''Unknown error''"
| "messageToString (TextMessage t) = (if t = [] then ''Unknown error'' else t)"
| "messageToString (FieldMessages fs) =
     js_join '' | '' (map (\<lambda>(field, errs). field @ '': '' @ js_join '', '' errs) fs)"

definition isUncertainStatus :: "nat \<Rightarrow> bool" where
  "isUncertainStatus status \<longleftrightarrow> status \<ge> 500 \<or> status = 408 \<or> status = 429"

definition res_ok :: "nat \<Rightarrow> bool" where
  "res_ok status \<longleftrightarrow> 200 \<le> status \<and> status \<le> 299"

fun chapa_request :: "chapa_config \<Rightarrow> 'd http_answer \<Rightarrow> 'd envelope result" where
  "chapa_request cfg (NetworkFailure m) =
     (if cc_secretKey cfg = [] then Inl (ServiceUnavailable ''Payments are not configured'')
      else Inl (PlainError m))"
| "chapa_request cfg (Answer status None) =
     (if cc_secretKey cfg = [] then Inl (ServiceUnavailable ''Payments are not configured'')
      else if isUncertainStatus status
      then Inl (ServiceUnavailable (''Chapa request failed: HTTP '' @ show_nat status))
      else Inl (BadRequest (''Chapa request failed: HTTP '' @ show_nat status)))"
| "chapa_request cfg (Answer status (Some data)) =
     (if cc_secretKey cfg = [] then Inl (ServiceUnavailable ''Payments are not configured'')
      else if \<not> res_ok status \<or> env_status data \<noteq> ''success'' then
        (let m = messageToString (env_message data);
             msg = (if m = [] then ''HTTP '' @ show_nat status else m)
         in if isUncertainStatus status
            then Inl (ServiceUnavailable (''Chapa request failed: '' @ msg))
            else Inl (BadRequest (''Chapa request failed: '' @ msg)))
      else Inr data)"

definition isDefiniteRejection :: "error \<Rightarrow> bool" where
  "isDefiniteRejection err = (case http_status err of None \<Rightarrow> False
     | Some status \<Rightarrow> status \<ge> 400 \<and> status < 500 \<and> status \<noteq> 408 \<and> status \<noteq> 429)"

text \<open>The calls of the API; each one projects the part of the answer its caller reads.\<close>

definition chapa_call :: "chapa_config \<Rightarrow> 'd http_answer \<Rightarrow> 'd result" where
  "chapa_call cfg ans = (case chapa_request cfg ans of Inl e \<Rightarrow> Inl e | Inr d \<Rightarrow> Inr (env_data d))"

section \<open>Amounts\<close>

text \<open>\<open>dec\<close> is the constructor of \<open>Prisma.Decimal\<close>: \<open>None\<close> when it throws.\<close>

definition paidAmountMatches ::
    "(jstring \<Rightarrow> rat option) \<Rightarrow> jstring \<Rightarrow> jstring \<Rightarrow> rat \<Rightarrow> jstring \<Rightarrow> bool" where
  "paidAmountMatches dec ret_amount ret_currency exp_amount exp_currency =
     (case dec ret_amount of None \<Rightarrow> False
      | Some a \<Rightarrow> a = exp_amount \<and> js_upper ret_currency = js_upper exp_currency)"

section \<open>Webhook signatures\<close>

definition hex_val :: "char \<Rightarrow> nat option" where
  "hex_val c = (let n = code_of c in
     if 48 \<le> n \<and> n \<le> 57 then Some (n - 48)
     else if 97 \<le> n \<and> n \<le> 102 then Some (n - 87)
     else if 65 \<le> n \<and> n \<le> 70 then Some (n - 55) else None)"

text \<open>\<open>Buffer.from(s, 'hex')\<close>: whole byte pairs up to the first character that is not hex.\<close>

fun hex_decode :: "jstring \<Rightarrow> nat list" where
  "hex_decode (a # b # s) = (case (hex_val a, hex_val b) of
       (Some x, Some y) \<Rightarrow> (16 * x + y) # hex_decode s | _ \<Rightarrow> [])"
| "hex_decode _ = []"

definition hmacMatches :: "(jstring \<Rightarrow> jstring \<Rightarrow> nat list) \<Rightarrow> chapa_config \<Rightarrow> jstring \<Rightarrow> jstring \<Rightarrow> bool" where
  "hmacMatches hmac cfg signature data =
     (let expected = hmac (cc_webhookSecret cfg) data;
          received = hex_decode (js_trim signature)
      in length received = length expected \<and> received = expected)"

definition verifyWebhookSignature :: "(jstring \<Rightarrow> jstring \<Rightarrow> nat list) \<Rightarrow> chapa_config \<Rightarrow> jstring
    \<Rightarrow> jstring option \<Rightarrow> jstring option \<Rightarrow> bool" where
  "verifyWebhookSignature hmac cfg rawBody payloadSignature secretSignature =
     (if cc_webhookSecret cfg = [] then False
      else if truthy payloadSignature then hmacMatches hmac cfg (the payloadSignature) rawBody
      else if truthy secretSignature then hmacMatches hmac cfg (the secretSignature) (cc_webhookSecret cfg)
      else False)"

section \<open>Text the provider accepts\<close>

definition title_char :: "char \<Rightarrow> bool" where
  "title_char c \<longleftrightarrow> (let n = code_of c in
     (97 \<le> n \<and> n \<le> 122) \<or> (65 \<le> n \<and> n \<le> 90) \<or> is_digit c \<or> c \<in> set ''-_ .'')"

fun collapse_ws :: "jstring \<Rightarrow> jstring" where
  "collapse_ws [] = []"
| "collapse_ws [c] = (if is_ws c then '' '' else [c])"
| "collapse_ws (c # d # s) =
     (if is_ws c then (if is_ws d then collapse_ws (d # s) else CHR '' '' # collapse_ws (d # s))
      else c # collapse_ws (d # s))"

definition sanitize :: "jstring \<Rightarrow> nat \<Rightarrow> jstring" where
  "sanitize str maxLen =
     (let clean = take maxLen (js_trim (collapse_ws (map (\<lambda>c. if title_char c then c else CHR '' '') str)))
      in if clean = [] then ''Ehte'' else clean)"

record init_body =
  ib_amount :: rat
  ib_currency :: jstring
  ib_email :: jstring
  ib_first_name :: jstring
  ib_last_name :: jstring
  ib_tx_ref :: jstring
  ib_return_url :: jstring
  ib_callback_url :: jstring
  ib_title :: jstring
  ib_description :: jstring

definition initialize_body :: "chapa_config \<Rightarrow> init_input \<Rightarrow> init_body" where
  "initialize_body cfg i = \<lparr>
     ib_amount = ii_amount i,
     ib_currency = cc_currency cfg,
     ib_email = js_trim (ii_email i),
     ib_first_name = js_trim (if ii_firstName i = [] then ''Supporter'' else ii_firstName i),
     ib_last_name = js_trim (if ii_lastName i = [] then ''Ehte'' else ii_lastName i),
     ib_tx_ref = ii_txRef i,
     ib_return_url = ii_returnUrl i,
     ib_callback_url = ii_callbackUrl i,
     ib_title = sanitize (ii_title i) (cc_titleMaxLength cfg),
     ib_description = sanitize (ii_description i) (cc_descriptionMaxLength cfg)\<rparr>"

text \<open>\<open>generateTxRef\<close>: the prefix and twelve random bytes in hexadecimal.\<close>

definition hex_digit :: "nat \<Rightarrow> char" where
  "hex_digit n = (if n < 10 then char_of (48 + n) else char_of (87 + n))"

definition to_hex :: "nat list \<Rightarrow> jstring" where
  "to_hex bytes = concat (map (\<lambda>b. [hex_digit (b div 16), hex_digit (b mod 16)]) bytes)"

definition generateTxRef :: "jstring \<Rightarrow> nat list \<Rightarrow> jstring" where
  "generateTxRef prefix bytes = prefix @ ''-'' @ to_hex bytes"

section \<open>Properties\<close>

lemma chapa_request_ok_iff:
  "chapa_request cfg ans = Inr d \<longleftrightarrow>
   cc_secretKey cfg \<noteq> [] \<and> (\<exists>st. ans = Answer st (Some d) \<and> res_ok st \<and> env_status d = ''success'')"
  by (cases "(cfg, ans)" rule: chapa_request.cases) (auto simp: Let_def split: if_splits)

text \<open>The answers whose exception the callers treat as a refusal.\<close>

fun refused :: "'d http_answer \<Rightarrow> bool" where
  "refused (NetworkFailure _) = False"
| "refused (Answer st None) = (\<not> isUncertainStatus st)"
| "refused (Answer st (Some d)) =
     ((\<not> res_ok st \<or> env_status d \<noteq> ''success'') \<and> \<not> isUncertainStatus st)"

lemma definite_rejection_iff:
  "(\<exists>e. chapa_request cfg ans = Inl e \<and> isDefiniteRejection e) \<longleftrightarrow> cc_secretKey cfg \<noteq> [] \<and> refused ans"
  by (cases "(cfg, ans)" rule: chapa_request.cases) (auto simp: Let_def isDefiniteRejection_def)

lemma hmacMatches_iff:
  "hmacMatches hmac cfg sig data \<longleftrightarrow> hex_decode (js_trim sig) = hmac (cc_webhookSecret cfg) data"
  by (auto simp: hmacMatches_def Let_def)

end
