(* ===== verification/Access.thy ===== *)
theory Access
  imports Prelude
begin

text \<open>
  Roles, permissions and the route guards:
  \<open>src/common/utils/actor-type.util.ts\<close>, \<open>role-protection.util.ts\<close>,
  \<open>permission-risk.util.ts\<close>, \<open>src/common/guards/roles.guard.ts\<close> and
  \<open>permissions.guard.ts\<close>. A permission is its name, which is its key in the enumeration.
\<close>

section \<open>Actor types\<close>

definition resolveActorType :: "jstring list \<Rightarrow> actor_type" where
  "resolveActorType roles =
     (if ''SUPER_ADMIN'' \<in> set roles then SUPER_ADMIN
      else if ''ADMIN'' \<in> set roles then ADMIN
      else USER)"

section \<open>Protected roles\<close>

definition PROTECTED_ROLE_NAMES :: "jstring list" where
  "PROTECTED_ROLE_NAMES = [''SUPER_ADMIN'', ''ADMIN'', ''SYSTEM'']"

definition PERMISSION_LOCKED_ROLE_NAMES :: "jstring list" where
  "PERMISSION_LOCKED_ROLE_NAMES = [''SUPER_ADMIN'', ''SYSTEM'']"

definition NON_INVITABLE_ROLE_NAMES :: "jstring list" where
  "NON_INVITABLE_ROLE_NAMES = [''USER'', ''SYSTEM'']"

definition isProtectedRole :: "jstring \<Rightarrow> bool \<Rightarrow> bool" where
  "isProtectedRole name isProtected \<longleftrightarrow> isProtected \<or> name \<in> set PROTECTED_ROLE_NAMES"

definition isPermissionLockedRole :: "jstring \<Rightarrow> bool" where
  "isPermissionLockedRole name \<longleftrightarrow> name \<in> set PERMISSION_LOCKED_ROLE_NAMES"

text \<open>Any role other than \<open>USER\<close> and \<open>SYSTEM\<close> makes a member of staff.\<close>

definition hasStaffRole :: "jstring list \<Rightarrow> bool" where
  "hasStaffRole roles \<longleftrightarrow> (\<exists>n \<in> set roles. n \<noteq> ''USER'' \<and> n \<noteq> ''SYSTEM'')"

section \<open>Route guards\<close>

text \<open>The argument \<open>None\<close> is a route without the decorator, or a request without a user.\<close>

definition guard_norm :: "jstring \<Rightarrow> jstring" where
  "guard_norm r = js_upper (js_trim r)"

definition RolesGuard :: "jstring list option \<Rightarrow> jstring list option \<Rightarrow> error option" where
  "RolesGuard required roles = (case required of
       None \<Rightarrow> None
     | Some rs \<Rightarrow>
         if rs = [] then None
         else if roles = None \<or> roles = Some [] then Some (Forbidden ''Missing roles'')
         else if \<exists>r \<in> set rs. guard_norm r \<in> guard_norm ` set (the roles) then None
         else Some (Forbidden ''Insufficient role''))"

definition PermissionsGuard :: "jstring list option \<Rightarrow> jstring list option \<Rightarrow> error option" where
  "PermissionsGuard required permissions = (case required of
       None \<Rightarrow> None
     | Some ps \<Rightarrow>
         if ps = [] then None
         else if permissions = None \<or> permissions = Some [] then Some (Forbidden ''Missing permissions'')
         else if \<forall>p \<in> set ps. guard_norm p \<in> guard_norm ` set (the permissions) then None
         else Some (Forbidden ''Insufficient permissions''))"

section \<open>Risk of a permission\<close>

definition SENSITIVE :: "jstring list" where
  "SENSITIVE = [
    ''REPORT_REVEAL_REPORTER'', ''REPORTER_INFO_READ'', ''REPORT_EVIDENCE_MANAGE'',
    ''REPORT_SENSITIVITY_MANAGE'', ''REPORT_AUDIT_READ'', ''REPORT_LOCATION_READ'', ''REPORT_EXPORT'',
    ''REPORT_DELETE'', ''MISSING_PERSON_DELETE'', ''MISSING_PERSON_REDACT'', ''POST_DELETE'', ''POST_TAKEDOWN'',
    ''POST_APPEAL_DECIDE'', ''PROFILE_DELETE'', ''PROFILE_CHILD_SAFETY_REVIEW'', ''PROFILE_BANK_DETAILS_MANAGE'',
    ''PROFILE_CONSENT_MANAGE'', ''SUPPORT_PAYMENT_MANAGE'', ''DISBURSEMENTS_CREATE'', ''DISBURSEMENTS_APPROVE'',
    ''DISBURSEMENTS_EXECUTE'', ''USER_SUSPEND'', ''USER_DELETE'', ''USER_FORCE_LOGOUT'', ''USER_UNLOCK'',
    ''USER_ROLE_ASSIGN'', ''USER_PROMOTE'', ''ROLE_CREATE'', ''ROLE_UPDATE'', ''ROLE_DELETE'',
    ''PERMISSION_ASSIGN'', ''PERMISSION_REVOKE'', ''PERMISSION_MANAGE'', ''USER_2FA_RESET'',
    ''AUDIT_LOG_READ_SENSITIVE'', ''AUDIT_LOG_EXPORT'', ''AUDIT_LOG_PURGE'', ''AUDIT_LOG_ANONYMIZE'',
    ''AUDIT_ALERT_MANAGE'', ''NOTIFICATION_BROADCAST_SEND'', ''NOTIFICATION_USER_DATA_EXPORT'',
    ''NOTIFICATION_USER_DATA_ERASE'', ''SECURITY_SETTINGS_UPDATE'']"

definition TWO_PERSON_APPROVAL :: "jstring list" where
  "TWO_PERSON_APPROVAL = [
    ''REPORT_REVEAL_REPORTER'', ''PROFILE_BANK_DETAILS_MANAGE'', ''SUPPORT_PAYMENT_MANAGE'',
    ''DISBURSEMENTS_CREATE'', ''DISBURSEMENTS_APPROVE'', ''DISBURSEMENTS_EXECUTE'', ''USER_DELETE'',
    ''USER_ROLE_ASSIGN'', ''USER_PROMOTE'', ''USER_2FA_RESET'', ''ROLE_CREATE'', ''ROLE_UPDATE'',
    ''ROLE_DELETE'', ''PERMISSION_ASSIGN'', ''PERMISSION_REVOKE'', ''PERMISSION_MANAGE'',
    ''SECURITY_SETTINGS_UPDATE'', ''AUDIT_LOG_PURGE'', ''AUDIT_LOG_ANONYMIZE'', ''NOTIFICATION_USER_DATA_ERASE'']"

definition isSensitivePermission :: "jstring \<Rightarrow> bool" where
  "isSensitivePermission name \<longleftrightarrow> name \<in> set SENSITIVE"

definition requiresTwoPersonApproval :: "jstring \<Rightarrow> bool" where
  "requiresTwoPersonApproval name \<longleftrightarrow> name \<in> set TWO_PERSON_APPROVAL"

record duty_conflict =
  dc_rule :: jstring
  dc_permissions :: "jstring \<times> jstring"
  dc_why :: jstring

definition DUTY_RULES :: "duty_conflict list" where
  "DUTY_RULES = [
    \<lparr>dc_rule = ''disbursement-create-approve'', dc_permissions = (''DISBURSEMENTS_CREATE'', ''DISBURSEMENTS_APPROVE''),
      dc_why = ''The person who creates a disbursement could also approve it.''\<rparr>,
    \<lparr>dc_rule = ''disbursement-approve-execute'', dc_permissions = (''DISBURSEMENTS_APPROVE'', ''DISBURSEMENTS_EXECUTE''),
      dc_why = ''The person who approves a disbursement could also pay it out.''\<rparr>,
    \<lparr>dc_rule = ''disbursement-create-execute'', dc_permissions = (''DISBURSEMENTS_CREATE'', ''DISBURSEMENTS_EXECUTE''),
      dc_why = ''The person who creates a disbursement could also pay it out.''\<rparr>,
    \<lparr>dc_rule = ''profile-create-approve'', dc_permissions = (''PROFILE_CREATE'', ''PROFILE_APPROVE''),
      dc_why = ''The person who creates a victim profile could also approve it.''\<rparr>,
    \<lparr>dc_rule = ''official-post-create-approve'', dc_permissions = (''POST_CREATE_OFFICIAL'', ''POST_APPROVE''),
      dc_why = ''The person who writes an official post could also approve it.''\<rparr>,
    \<lparr>dc_rule = ''role-edit-assign'', dc_permissions = (''PERMISSION_ASSIGN'', ''USER_ROLE_ASSIGN''),
      dc_why = ''Someone could give a role more permissions and then give that role to themselves.''\<rparr>,
    \<lparr>dc_rule = ''role-update-assign'', dc_permissions = (''ROLE_UPDATE'', ''USER_ROLE_ASSIGN''),
      dc_why = ''Someone could change a role and then give that role to themselves.''\<rparr>,
    \<lparr>dc_rule = ''audit-purge-read'', dc_permissions = (''AUDIT_LOG_PURGE'', ''AUDIT_LOG_READ_SENSITIVE''),
      dc_why = ''The person who can read sensitive logs could also erase them.''\<rparr>]"

definition findDutyConflicts :: "jstring list \<Rightarrow> duty_conflict list" where
  "findDutyConflicts held = filter (\<lambda>r. fst (dc_permissions r) \<in> set held \<and> snd (dc_permissions r) \<in> set held) DUTY_RULES"

end
