(* ===== verification/Payments_Data.thy ===== *)
theory Payments_Data
  imports Chapa Access "HOL-Library.List_Lexorder" "HOL-Library.Char_ord"
begin

text \<open>
  State of the payments module: the rows of \<open>payments\<close>, \<open>disbursements\<close> and
  \<open>victim_profile\<close> that \<open>src/modules/payments\<close> reads and writes
  (\<open>prisma/schema/payment.prisma\<close>, \<open>disbursement.prisma\<close>, \<open>payout-destination.prisma\<close>,
  \<open>victim-profile.prisma\<close>), the cached checkout pages, the events it emits and the requests it sends
  to the provider. Amounts are exact rationals; a \<open>Decimal(p, 2)\<close> column rounds what is stored
  to two places and refuses a value with more than \<open>p - 2\<close> integer digits.

  The single SQL statements of the services are definitions of their own (\<open>pay_fail\<close>,
  \<open>dis_mark_paid\<close>, \dots), because they are the atomic actions that concurrent calls interleave.
\<close>

section \<open>Rows\<close>

datatype payment_status = PAY_PENDING | PAY_PAID | PAY_FAILED | PAY_REVIEW_REQUIRED | PAY_REFUNDED

datatype disbursement_status = DIS_CREATED | DIS_SUBMITTED | DIS_PAID | DIS_FAILED | DIS_UNKNOWN

record payment =
  p_id :: jstring
  p_status :: payment_status
  p_victimProfileId :: jstring
  p_payerUserId :: "jstring option"
  p_isAnonymous :: bool
  p_amount :: rat
  p_currency :: jstring
  p_txRef :: jstring
  p_chapaReference :: "jstring option"
  p_chapaFee :: "rat option"
  p_failureReason :: "jstring option"
  p_paidAt :: "int option"
  p_createdAt :: int
  p_updatedAt :: int

record destination_snapshot =
  sn_destinationId :: jstring
  sn_bankName :: jstring
  sn_bankCode :: jstring
  sn_accountNumber :: jstring
  sn_accountHolder :: jstring

record disbursement =
  d_id :: jstring
  d_victimProfileId :: jstring
  d_status :: disbursement_status
  d_amount :: rat
  d_currency :: jstring
  d_reference :: jstring
  d_transferFee :: "rat option"
  d_failureReason :: "jstring option"
  d_destinationSnapshot :: "destination_snapshot option"
  d_submittedAt :: "int option"
  d_paidAt :: "int option"
  d_createdAt :: int
  d_updatedAt :: int

record payout_destination =
  pd_id :: jstring
  pd_bankName :: jstring
  pd_bankCode :: jstring
  pd_accountNumber :: jstring
  pd_accountHolder :: jstring
  pd_isVerified :: bool

record victim_profile =
  v_id :: jstring
  v_status :: jstring
  v_isPublished :: bool
  v_isVerified :: bool
  v_isSafetyReviewed :: bool
  v_hasConsent :: bool
  v_isPrivacyReviewed :: bool
  v_isAdminApproved :: bool
  v_deletedAt :: "int option"
  v_takedownAt :: "int option"
  v_legalHold :: bool
  v_completedAt :: "int option"
  v_fundingEndsAt :: "int option"
  v_donationsPaused :: bool
  v_payoutsPaused :: bool
  v_totalRaised :: rat
  v_createdByUserId :: "jstring option"
  v_payoutDestination :: "payout_destination option"

record pay_user =
  pu_id :: jstring
  pu_email :: "jstring option"
  pu_name :: "jstring option"

section \<open>State and environment\<close>

datatype chapa_sent =
    SentInitialize init_body
  | SentVerify jstring
  | SentTransfer transfer_input
  | SentVerifyTransfer jstring
  | SentRefund refund_input

record pay_state =
  ps_payments :: "payment list"
  ps_disbursements :: "disbursement list"
  ps_profiles :: "victim_profile list"
  ps_users :: "pay_user list"
  ps_checkout :: "(jstring \<times> jstring) list" \<comment> \<open>cached checkout URL per \<open>txRef\<close>\<close>
  ps_log :: "effect list"
  ps_sent :: "chapa_sent list"

text \<open>
  What a call sees of its surroundings: the configuration values the constructors read, the clock,
  the answers of the provider, the random sources, and the third-party functions the code calls
  (\<open>Prisma.Decimal\<close>, SHA-256, URL parsing).
\<close>

record pay_env =
  pe_now :: int
  pe_enabled :: bool
  pe_currency :: jstring
  pe_minAmount :: rat
  pe_returnUrl :: jstring
  pe_callbackUrl :: jstring
  pe_fallbackEmail :: jstring
  pe_minTransfer :: rat
  pe_retryAfterFailureMinutes :: int
  pe_timeoutMinutes :: int
  pe_chapa :: chapa_config
  pe_initialize :: "init_body \<Rightarrow> jstring http_answer"
  pe_verify :: "jstring \<Rightarrow> verify_data http_answer"
  pe_transfer :: "transfer_input \<Rightarrow> unit http_answer"
  pe_verifyTransfer :: "jstring \<Rightarrow> jstring http_answer"
  pe_refund :: "refund_input \<Rightarrow> unit http_answer"
  pe_dec :: "jstring \<Rightarrow> rat option"
  pe_sha256 :: "jstring \<Rightarrow> jstring"
  pe_withTxRef :: "jstring \<Rightarrow> jstring \<Rightarrow> jstring option"
  pe_newId :: "nat \<Rightarrow> jstring" \<comment> \<open>\<open>uuid()\<close> default of the \<open>n\<close>-th row of a table\<close>
  pe_bytes :: "nat \<Rightarrow> nat list" \<comment> \<open>\<open>randomBytes(12)\<close> drawn for it\<close>

definition emit :: "effect \<Rightarrow> pay_state \<Rightarrow> pay_state" where
  "emit e s = s\<lparr>ps_log := ps_log s @ [e]\<rparr>"

text \<open>A request reaches the network only when the secret key is configured.\<close>

definition send :: "pay_env \<Rightarrow> chapa_sent \<Rightarrow> pay_state \<Rightarrow> pay_state" where
  "send env c s = (if cc_secretKey (pe_chapa env) = [] then s else s\<lparr>ps_sent := ps_sent s @ [c]\<rparr>)"

section \<open>Decimal columns\<close>

definition round2 :: "rat \<Rightarrow> rat" where
  "round2 r = (if 0 \<le> r then of_int \<lfloor>r * 100 + 1 / 2\<rfloor> / 100
               else - (of_int \<lfloor>- r * 100 + 1 / 2\<rfloor> / 100))"

definition decimal_column :: "nat \<Rightarrow> rat \<Rightarrow> rat option" where
  "decimal_column p r = (if \<bar>round2 r\<bar> < 10 ^ (p - 2) then Some (round2 r) else None)"

definition is_cents :: "rat \<Rightarrow> bool" where
  "is_cents r \<longleftrightarrow> r * 100 = of_int \<lfloor>r * 100\<rfloor>"

lemma is_cents_iff: "is_cents r \<longleftrightarrow> (\<exists>n. r = of_int n / 100)"
  by (auto simp: is_cents_def intro: exI [of _ "\<lfloor>r * 100\<rfloor>"])

lemma is_cents_0 [simp]: "is_cents 0"
  by (simp add: is_cents_def)

lemma is_cents_add: "is_cents a \<Longrightarrow> is_cents b \<Longrightarrow> is_cents (a + b)"
  by (auto simp: is_cents_iff add_divide_distrib [symmetric] intro: exI [of _ "_ + _"] simp flip: of_int_add)

lemma is_cents_diff: "is_cents a \<Longrightarrow> is_cents b \<Longrightarrow> is_cents (a - b)"
  by (auto simp: is_cents_iff diff_divide_distrib [symmetric] simp flip: of_int_diff)

lemma is_cents_sum_where: "(\<And>r. r \<in> set xs \<Longrightarrow> is_cents (g r)) \<Longrightarrow> is_cents (sum_where P g xs)"
  by (induction xs) (auto intro: is_cents_add)

lemma is_cents_round2 [simp]: "is_cents (round2 r)"
  by (auto simp: round2_def is_cents_iff simp flip: of_int_minus minus_divide_left)

lemma round2_nonneg: "0 \<le> r \<Longrightarrow> 0 \<le> round2 r"
  by (simp add: round2_def)

lemma round2_add_cents:
  assumes "is_cents x" "0 \<le> x" "0 \<le> a"
  shows "round2 (x + a) = x + round2 a"
proof -
  from assms(1) obtain n where x: "x = of_int n / 100" by (auto simp: is_cents_iff)
  have "\<lfloor>(x + a) * 100 + 1 / 2\<rfloor> = n + \<lfloor>a * 100 + 1 / 2\<rfloor>"
    using floor_add_int [of "a * 100 + 1 / 2" n] by (simp add: x algebra_simps)
  with assms show ?thesis by (simp add: round2_def x add_divide_distrib)
qed

lemma round2_0 [simp]: "round2 0 = 0"
  by (simp add: round2_def floor_eq_iff)

lemma round2_cents: "is_cents x \<Longrightarrow> 0 \<le> x \<Longrightarrow> round2 x = x"
  using round2_add_cents [of x 0] by simp

lemma decimal_column_SomeD: "decimal_column p r = Some q \<Longrightarrow> q = round2 r"
  by (simp add: decimal_column_def split: if_splits)

section \<open>Single statements\<close>

definition pay_is :: "jstring \<Rightarrow> payment_status list \<Rightarrow> payment \<Rightarrow> bool" where
  "pay_is pid froms = claimable p_id p_status froms pid"

definition dis_is :: "jstring \<Rightarrow> disbursement_status list \<Rightarrow> disbursement \<Rightarrow> bool" where
  "dis_is did froms = claimable d_id d_status froms did"

definition ACTIVE_DISBURSEMENT :: "disbursement_status list" where
  "ACTIVE_DISBURSEMENT = [DIS_CREATED, DIS_SUBMITTED, DIS_UNKNOWN]"

definition find_payment :: "jstring \<Rightarrow> pay_state \<Rightarrow> payment option" where
  "find_payment pid s = find_where (\<lambda>p. p_id p = pid) (ps_payments s)"

definition find_by_txRef :: "jstring \<Rightarrow> pay_state \<Rightarrow> payment option" where
  "find_by_txRef txRef s = find_where (\<lambda>p. p_txRef p = txRef) (ps_payments s)"

definition find_disbursement :: "jstring \<Rightarrow> pay_state \<Rightarrow> disbursement option" where
  "find_disbursement did s = find_where (\<lambda>d. d_id d = did) (ps_disbursements s)"

definition find_profile :: "jstring \<Rightarrow> pay_state \<Rightarrow> victim_profile option" where
  "find_profile vid s = find_where (\<lambda>v. v_id v = vid) (ps_profiles s)"

text \<open>\<open>chapaReference\<close> is unique: storing one that another payment has is rejected.\<close>

definition reference_taken :: "jstring \<Rightarrow> jstring option \<Rightarrow> pay_state \<Rightarrow> bool" where
  "reference_taken pid ref s \<longleftrightarrow> (case ref of None \<Rightarrow> False
     | Some r \<Rightarrow> (\<exists>p \<in> set (ps_payments s). p_id p \<noteq> pid \<and> p_chapaReference p = Some r))"

definition pay_update :: "jstring \<Rightarrow> payment_status list \<Rightarrow> (payment \<Rightarrow> payment) \<Rightarrow> pay_state \<Rightarrow> pay_state" where
  "pay_update pid froms f s = s\<lparr>ps_payments := update_where (pay_is pid froms) f (ps_payments s)\<rparr>"

definition dis_update :: "jstring \<Rightarrow> disbursement_status list \<Rightarrow> (disbursement \<Rightarrow> disbursement) \<Rightarrow> pay_state \<Rightarrow> pay_state" where
  "dis_update did froms f s = s\<lparr>ps_disbursements := update_where (dis_is did froms) f (ps_disbursements s)\<rparr>"

definition pay_count :: "jstring \<Rightarrow> payment_status list \<Rightarrow> pay_state \<Rightarrow> nat" where
  "pay_count pid froms s = count_where (pay_is pid froms) (ps_payments s)"

definition dis_count :: "jstring \<Rightarrow> disbursement_status list \<Rightarrow> pay_state \<Rightarrow> nat" where
  "dis_count did froms s = count_where (dis_is did froms) (ps_disbursements s)"

definition pay_fail :: "int \<Rightarrow> jstring \<Rightarrow> jstring \<Rightarrow> pay_state \<Rightarrow> pay_state" where
  "pay_fail now pid reason = pay_update pid [PAY_PENDING]
     (\<lambda>p. p\<lparr>p_status := PAY_FAILED, p_failureReason := Some reason, p_updatedAt := now\<rparr>)"

definition pay_review :: "int \<Rightarrow> jstring \<Rightarrow> jstring option \<Rightarrow> jstring \<Rightarrow> pay_state \<Rightarrow> pay_state" where
  "pay_review now pid ref reason = pay_update pid [PAY_PENDING]
     (\<lambda>p. p\<lparr>p_status := PAY_REVIEW_REQUIRED, p_chapaReference := ref,
            p_failureReason := Some reason, p_updatedAt := now\<rparr>)"

definition pay_claim_refund :: "int \<Rightarrow> jstring \<Rightarrow> jstring \<Rightarrow> pay_state \<Rightarrow> pay_state" where
  "pay_claim_refund now pid ref = pay_update pid [PAY_REVIEW_REQUIRED]
     (\<lambda>p. p\<lparr>p_status := PAY_REFUNDED, p_chapaReference := Some ref, p_updatedAt := now\<rparr>)"

definition pay_undo_refund :: "int \<Rightarrow> jstring \<Rightarrow> pay_state \<Rightarrow> pay_state" where
  "pay_undo_refund now pid = pay_update pid [PAY_REFUNDED]
     (\<lambda>p. p\<lparr>p_status := PAY_REVIEW_REQUIRED, p_updatedAt := now\<rparr>)"

definition dis_submit :: "int \<Rightarrow> jstring \<Rightarrow> disbursement_status list \<Rightarrow> int \<Rightarrow> pay_state \<Rightarrow> pay_state" where
  "dis_submit now did froms when = dis_update did froms
     (\<lambda>d. d\<lparr>d_status := DIS_SUBMITTED, d_submittedAt := Some when, d_updatedAt := now\<rparr>)"

definition dis_unknown :: "int \<Rightarrow> jstring \<Rightarrow> pay_state \<Rightarrow> pay_state" where
  "dis_unknown now did = dis_update did [DIS_CREATED]
     (\<lambda>d. d\<lparr>d_status := DIS_UNKNOWN, d_failureReason := Some ''chapa_no_clear_answer'', d_updatedAt := now\<rparr>)"

definition dis_paid :: "int \<Rightarrow> jstring \<Rightarrow> pay_state \<Rightarrow> pay_state" where
  "dis_paid now did = dis_update did ACTIVE_DISBURSEMENT
     (\<lambda>d. d\<lparr>d_status := DIS_PAID, d_paidAt := Some now, d_failureReason := None, d_updatedAt := now\<rparr>)"

definition dis_failed :: "int \<Rightarrow> jstring \<Rightarrow> jstring \<Rightarrow> pay_state \<Rightarrow> pay_state" where
  "dis_failed now did reason = dis_update did ACTIVE_DISBURSEMENT
     (\<lambda>d. d\<lparr>d_status := DIS_FAILED, d_failureReason := Some reason, d_updatedAt := now\<rparr>)"

end
