(* ===== verification/Payout.thy ===== *)
theory Payout
  imports Payments_Data
begin

text \<open>
  Transfers of collected money to a victim, \<open>src/modules/payments/service/payout.service.ts\<close>:
  the balance, the one-transfer-at-a-time decision made under the row lock, sending it, checking an
  unclear one later, and the timer job.
\<close>

section \<open>Balance\<close>

record victim_balance =
  b_raised :: rat
  b_sent :: rat
  b_onTheWay :: rat
  b_waiting :: rat

definition all_disbursement_statuses :: "disbursement_status list" where
  "all_disbursement_statuses = [DIS_CREATED, DIS_SUBMITTED, DIS_PAID, DIS_FAILED, DIS_UNKNOWN]"

text \<open>\<open>groupBy({ by: ['status'], where, _sum: { amount } })\<close>: one group per status that occurs.\<close>

definition disbursement_groups :: "(disbursement \<Rightarrow> bool) \<Rightarrow> (disbursement \<Rightarrow> 'n::comm_monoid_add) \<Rightarrow> disbursement list
    \<Rightarrow> (disbursement_status \<times> 'n) list" where
  "disbursement_groups P f ds =
     map (\<lambda>st. (st, sum_where (\<lambda>d. P d \<and> d_status d = st) f ds))
       (filter (\<lambda>st. \<exists>d \<in> set ds. P d \<and> d_status d = st) all_disbursement_statuses)"

fun add_group :: "disbursement_status \<times> rat \<Rightarrow> rat \<times> rat \<Rightarrow> rat \<times> rat" where
  "add_group (st, amount) (sent, onTheWay) =
     (if st = DIS_PAID then (sent + amount, onTheWay)
      else if st \<in> set ACTIVE_DISBURSEMENT then (sent, onTheWay + amount)
      else (sent, onTheWay))"

definition getBalance :: "jstring \<Rightarrow> pay_state \<Rightarrow> victim_balance" where
  "getBalance vid s =
     (let raised = sum_where (\<lambda>p. p_victimProfileId p = vid \<and> p_status p = PAY_PAID) p_amount (ps_payments s);
          (sent, onTheWay) = fold add_group (disbursement_groups (\<lambda>d. d_victimProfileId d = vid) d_amount (ps_disbursements s)) (0, 0);
          left = raised - sent - onTheWay
      in \<lparr>b_raised = raised, b_sent = sent, b_onTheWay = onTheWay,
          b_waiting = (if left < 0 then 0 else left)\<rparr>)"

section \<open>Audit\<close>

definition maskAccount :: "jstring \<Rightarrow> jstring option" where
  "maskAccount n = (if n = [] then None
     else Some (replicate (length n - 4) (CHR 0x95) @ slice_last 4 n))"

definition audit_disbursement :: "jstring \<Rightarrow> disbursement \<Rightarrow> current_user option
    \<Rightarrow> (jstring \<times> jval) list \<Rightarrow> audit_outcome \<Rightarrow> effect" where
  "audit_disbursement action d actor diff outcome =
     Audit ((audit_base (case actor of None \<Rightarrow> SYSTEM | Some a \<Rightarrow> resolveActorType (cu_roles a))
              action ''Disbursement'' (d_id d))
       \<lparr>ae_userId := map_option cu_id actor, ae_outcome := outcome, ae_severity := WARNING,
        ae_entityLabel := Some (d_reference d), ae_diff := diff,
        ae_metadata := [(''victimProfileId'', JStr (d_victimProfileId d))]\<rparr>)"

section \<open>Deciding on and recording a transfer\<close>

datatype prepared = Skip jstring | Prepared disbursement destination_snapshot

definition create_disbursement :: "pay_env \<Rightarrow> disbursement \<Rightarrow> pay_state \<Rightarrow> disbursement result \<times> pay_state" where
  "create_disbursement env d s =
     (case decimal_column 14 (d_amount d) of
        None \<Rightarrow> (Inl DatabaseError, s)
      | Some a \<Rightarrow>
        if \<exists>e \<in> set (ps_disbursements s). d_id e = d_id d \<or> d_reference e = d_reference d
        then (Inl UniqueViolation, s)
        else (Inr (d\<lparr>d_amount := a\<rparr>), s\<lparr>ps_disbursements := ps_disbursements s @ [d\<lparr>d_amount := a\<rparr>]\<rparr>))"

definition snapshot_of :: "payout_destination \<Rightarrow> destination_snapshot" where
  "snapshot_of dest = \<lparr>sn_destinationId = pd_id dest, sn_bankName = pd_bankName dest,
     sn_bankCode = pd_bankCode dest, sn_accountNumber = pd_accountNumber dest,
     sn_accountHolder = pd_accountHolder dest\<rparr>"

definition new_disbursement :: "pay_env \<Rightarrow> jstring \<Rightarrow> rat \<Rightarrow> destination_snapshot \<Rightarrow> pay_state \<Rightarrow> disbursement" where
  "new_disbursement env vid amount snap s =
     (let n = length (ps_disbursements s) in
      \<lparr>d_id = pe_newId env n, d_victimProfileId = vid, d_status = DIS_CREATED, d_amount = amount,
       d_currency = pe_currency env, d_reference = ''ehte-tr-'' @ to_hex (pe_bytes env n),
       d_transferFee = None, d_failureReason = None, d_destinationSnapshot = Some snap,
       d_submittedAt = None, d_paidAt = None, d_createdAt = pe_now env, d_updatedAt = pe_now env\<rparr>)"

definition blocked :: "victim_profile \<Rightarrow> bool" where
  "blocked v \<longleftrightarrow> v_deletedAt v \<noteq> None \<or> v_takedownAt v \<noteq> None \<or> v_legalHold v"

definition has_active :: "jstring \<Rightarrow> pay_state \<Rightarrow> bool" where
  "has_active vid s \<longleftrightarrow> find_where (\<lambda>d. d_victimProfileId d = vid \<and> d_status d \<in> set ACTIVE_DISBURSEMENT)
     (ps_disbursements s) \<noteq> None"

definition has_recent_failure :: "pay_env \<Rightarrow> jstring \<Rightarrow> pay_state \<Rightarrow> bool" where
  "has_recent_failure env vid s \<longleftrightarrow>
     find_where (\<lambda>d. d_victimProfileId d = vid \<and> d_status d = DIS_FAILED \<and>
        d_updatedAt d > pe_now env - pe_retryAfterFailureMinutes env * 60000) (ps_disbursements s) \<noteq> None"

definition prepare_transfer :: "pay_env \<Rightarrow> jstring \<Rightarrow> pay_state \<Rightarrow> prepared result \<times> pay_state" where
  "prepare_transfer env vid s =
     (case find_profile vid s of
        None \<Rightarrow> (Inl (NotFound ''victim_profile_not_found''), s)
      | Some profile \<Rightarrow>
        if v_payoutsPaused profile then (Inr (Skip ''payouts_paused''), s)
        else if blocked profile then (Inr (Skip ''profile_blocked''), s)
        else (case v_payoutDestination profile of
          None \<Rightarrow> (Inr (Skip ''no_verified_destination''), s)
        | Some dest \<Rightarrow>
          if \<not> pd_isVerified dest then (Inr (Skip ''no_verified_destination''), s)
          else if has_active vid s then (Inr (Skip ''transfer_in_progress''), s)
          else if has_recent_failure env vid s then (Inr (Skip ''recent_failure''), s)
          else let balance = getBalance vid s in
            if b_waiting balance < pe_minTransfer env then (Inr (Skip ''nothing_to_send''), s)
            else (case create_disbursement env
                    (new_disbursement env vid (b_waiting balance) (snapshot_of dest) s) s of
                (Inl e, s') \<Rightarrow> (Inl e, s')
              | (Inr d, s') \<Rightarrow> (Inr (Prepared d (snapshot_of dest)), s'))))"

section \<open>Outcomes of a transfer\<close>

definition markPaid :: "pay_env \<Rightarrow> disbursement \<Rightarrow> current_user option \<Rightarrow> pay_state \<Rightarrow> pay_state" where
  "markPaid env d actor s =
     (if dis_count (d_id d) ACTIVE_DISBURSEMENT s = 0 then s
      else let s1 = dis_paid (pe_now env) (d_id d) s;
               s2 = emit (audit_disbursement ''DISBURSEMENT_EXECUTED'' d actor
                      [(''amount'', JFixed (d_amount d))] SUCCESS) s1
           in (case find_profile (d_victimProfileId d) s2 of
                 None \<Rightarrow> s2
               | Some v \<Rightarrow> if truthy (v_createdByUserId v)
                   then emit (Notify ''DISBURSEMENT_PAID_OUT''
                     [(''userId'', jstr_opt (v_createdByUserId v)), (''disbursementId'', JStr (d_id d)),
                      (''partyType'', JStr ''VICTIM'')]) s2
                   else s2))"

definition markFailed :: "pay_env \<Rightarrow> jstring \<Rightarrow> jstring \<Rightarrow> current_user option \<Rightarrow> pay_state \<Rightarrow> pay_state" where
  "markFailed env did reason actor s =
     (if dis_count did ACTIVE_DISBURSEMENT s = 0 then s
      else let s1 = dis_failed (pe_now env) did reason s
           in (case find_disbursement did s1 of
                 None \<Rightarrow> s1
               | Some d \<Rightarrow> emit (audit_disbursement ''DISBURSEMENT_FAILED'' d actor
                   [(''reason'', JStr reason)] FAILURE) s1))"

definition transfer_request :: "disbursement \<Rightarrow> destination_snapshot \<Rightarrow> transfer_input" where
  "transfer_request d snap = \<lparr>ti_accountName = sn_accountHolder snap,
     ti_accountNumber = sn_accountNumber snap, ti_bankCode = sn_bankCode snap,
     ti_amount = d_amount d, ti_reference = d_reference d\<rparr>"

definition send_transfer :: "pay_env \<Rightarrow> disbursement \<Rightarrow> destination_snapshot \<Rightarrow> current_user option
    \<Rightarrow> pay_state \<Rightarrow> pay_state" where
  "send_transfer env d snap actor s =
     (let req = transfer_request d snap; s1 = send env (SentTransfer req) s in
      case chapa_call (pe_chapa env) (pe_transfer env req) of
        Inr _ \<Rightarrow> dis_submit (pe_now env) (d_id d) [DIS_CREATED] (pe_now env) s1
      | Inl err \<Rightarrow>
          if isDefiniteRejection err
          then markFailed env (d_id d) (take 500 (err_message err)) actor s1
          else dis_unknown (pe_now env) (d_id d) s1)"

definition runForVictim :: "pay_env \<Rightarrow> jstring \<Rightarrow> current_user option \<Rightarrow> pay_state
    \<Rightarrow> (jstring option \<times> jstring option) result \<times> pay_state" where
  "runForVictim env vid actor s =
     (if \<not> pe_enabled env then (Inr (None, Some ''payments_disabled''), s)
      else case prepare_transfer env vid s of
        (Inl e, s') \<Rightarrow> (Inl e, s')
      | (Inr (Skip reason), s') \<Rightarrow> (Inr (None, Some reason), s')
      | (Inr (Prepared d snap), s') \<Rightarrow>
          (Inr (Some (d_id d), None),
           send_transfer env d snap actor
             (emit (audit_disbursement ''DISBURSEMENT_CREATED'' d actor
               [(''amount'', JFixed (d_amount d)),
                (''accountNumberMasked'', jstr_opt (maskAccount (sn_accountNumber snap)))] SUCCESS) s')))"

section \<open>Checking an unclear transfer\<close>

definition checkDisbursement :: "pay_env \<Rightarrow> jstring \<Rightarrow> current_user option \<Rightarrow> pay_state
    \<Rightarrow> disbursement result \<times> pay_state" where
  "checkDisbursement env did actor s =
     (case find_disbursement did s of
        None \<Rightarrow> (Inl (NotFound ''disbursement_not_found''), s)
      | Some d \<Rightarrow>
        if d_status d \<notin> set ACTIVE_DISBURSEMENT then (Inr d, s)
        else let s1 = send env (SentVerifyTransfer (d_reference d)) s;
                 finish = (\<lambda>s'. (Inr (case find_disbursement did s' of None \<Rightarrow> d | Some d' \<Rightarrow> d'), s'))
             in (case chapa_call (pe_chapa env) (pe_verifyTransfer env (d_reference d)) of
               Inl err \<Rightarrow>
                 finish (if isDefiniteRejection err \<and>
                             pe_now env - d_createdAt d \<ge> pe_timeoutMinutes env * 60000
                         then markFailed env did ''not_found_at_chapa_after_timeout'' actor s1
                         else s1)
             | Inr raw \<Rightarrow>
                 let status = js_lower raw in
                 finish (if status = ''success'' then markPaid env d actor s1
                   else if status = ''failed'' \<or> status = ''reverted''
                   then markFailed env did (''chapa_'' @ status) actor s1
                   else if d_status d \<noteq> DIS_SUBMITTED
                   then dis_submit (pe_now env) did [DIS_CREATED, DIS_UNKNOWN]
                          (case d_submittedAt d of None \<Rightarrow> pe_now env | Some t \<Rightarrow> t) s1
                   else s1)))"

definition checkByReference :: "pay_env \<Rightarrow> jstring \<Rightarrow> pay_state \<Rightarrow> unit result \<times> pay_state" where
  "checkByReference env reference s =
     (case find_where (\<lambda>d. d_reference d = reference) (ps_disbursements s) of
        None \<Rightarrow> (Inr (), s)
      | Some d \<Rightarrow> (case checkDisbursement env (d_id d) None s of
          (Inl e, s') \<Rightarrow> (Inl e, s') | (Inr _, s') \<Rightarrow> (Inr (), s')))"

section \<open>Timer job\<close>

text \<open>
  \<open>held\<close> says whether \<open>runExclusive\<close> runs the job (it got the cron lock, or the lock store is down). A failure of one item is
  logged and the loop goes on with the state that item left.
\<close>

definition stale_ids :: "pay_env \<Rightarrow> pay_state \<Rightarrow> jstring list" where
  "stale_ids env s = map d_id (take 100 (sort_key d_updatedAt
     (filter (\<lambda>d. d_status d \<in> set ACTIVE_DISBURSEMENT \<and> d_updatedAt d < pe_now env - 2 * 60000)
       (ps_disbursements s))))"

definition payable_victims :: "pay_state \<Rightarrow> jstring list" where
  "payable_victims s = take 1000 (sort (remdups (map p_victimProfileId
     (filter (\<lambda>p. p_status p = PAY_PAID \<and>
        (case find_profile (p_victimProfileId p) s of None \<Rightarrow> False | Some v \<Rightarrow> \<not> v_payoutsPaused v))
       (ps_payments s)))))"

definition sweep :: "pay_env \<Rightarrow> bool \<Rightarrow> pay_state \<Rightarrow> pay_state" where
  "sweep env held s =
     (if \<not> pe_enabled env \<or> \<not> held then s
      else let s1 = fold (\<lambda>did s'. snd (checkDisbursement env did None s')) (stale_ids env s) s
           in fold (\<lambda>vid s'. snd (runForVictim env vid None s')) (payable_victims s1) s1)"

section \<open>Reference balance\<close>

text \<open>The balance as sums over the rows, without grouping.\<close>

definition raised_of :: "jstring \<Rightarrow> pay_state \<Rightarrow> rat" where
  "raised_of vid s = sum_where (\<lambda>p. p_victimProfileId p = vid \<and> p_status p = PAY_PAID) p_amount (ps_payments s)"

definition sent_of :: "jstring \<Rightarrow> pay_state \<Rightarrow> rat" where
  "sent_of vid s = sum_where (\<lambda>d. d_victimProfileId d = vid \<and> d_status d = DIS_PAID) d_amount (ps_disbursements s)"

definition on_the_way_of :: "jstring \<Rightarrow> pay_state \<Rightarrow> rat" where
  "on_the_way_of vid s = sum_where (\<lambda>d. d_victimProfileId d = vid \<and> d_status d \<in> set ACTIVE_DISBURSEMENT)
     d_amount (ps_disbursements s)"

definition committed_of :: "jstring \<Rightarrow> pay_state \<Rightarrow> rat" where
  "committed_of vid s = sum_where (\<lambda>d. d_victimProfileId d = vid \<and> d_status d \<noteq> DIS_FAILED)
     d_amount (ps_disbursements s)"

definition active_of :: "jstring \<Rightarrow> pay_state \<Rightarrow> nat" where
  "active_of vid s = count_where (\<lambda>d. d_victimProfileId d = vid \<and> d_status d \<in> set ACTIVE_DISBURSEMENT)
     (ps_disbursements s)"

lemma fold_groups_drop_empty:
  assumes "\<And>st. \<not> occ st \<Longrightarrow> g st = 0"
  shows "fold add_group (map (\<lambda>st. (st, g st)) (filter occ sts)) (a, b) =
         fold add_group (map (\<lambda>st. (st, g st)) sts) (a, b)"
  by (induction sts arbitrary: a b) (auto simp: assms)

lemma sum_active_split:
  fixes f :: "disbursement \<Rightarrow> rat"
  shows "sum_where (\<lambda>d. P d \<and> d_status d \<in> set ACTIVE_DISBURSEMENT) f ds =
    sum_where (\<lambda>d. P d \<and> d_status d = DIS_CREATED) f ds +
    sum_where (\<lambda>d. P d \<and> d_status d = DIS_SUBMITTED) f ds +
    sum_where (\<lambda>d. P d \<and> d_status d = DIS_UNKNOWN) f ds"
  by (induction ds) (auto simp: ACTIVE_DISBURSEMENT_def)

lemma groups_sum:
  "fold add_group (disbursement_groups P d_amount ds) (0, 0) =
    (sum_where (\<lambda>d. P d \<and> d_status d = DIS_PAID) d_amount ds,
     sum_where (\<lambda>d. P d \<and> d_status d \<in> set ACTIVE_DISBURSEMENT) d_amount ds)"
proof -
  let ?g = "\<lambda>st. sum_where (\<lambda>d. P d \<and> d_status d = st) d_amount ds"
  have empty: "?g st = 0" if "\<not> (\<exists>d \<in> set ds. P d \<and> d_status d = st)" for st
  proof -
    from that have "filter (\<lambda>d. P d \<and> d_status d = st) ds = []" by (auto simp: filter_empty_conv)
    then show ?thesis by (simp add: sum_where_def)
  qed
  show ?thesis
    unfolding disbursement_groups_def
    by (subst fold_groups_drop_empty [where g = ?g, OF empty])
      (auto simp: all_disbursement_statuses_def sum_active_split, auto simp: ACTIVE_DISBURSEMENT_def)
qed

lemma getBalance_eq:
  "getBalance vid s = \<lparr>b_raised = raised_of vid s, b_sent = sent_of vid s, b_onTheWay = on_the_way_of vid s,
     b_waiting = max 0 (raised_of vid s - sent_of vid s - on_the_way_of vid s)\<rparr>"
  by (simp add: getBalance_def groups_sum raised_of_def sent_of_def on_the_way_of_def Let_def max_def)

lemma committed_split: "committed_of vid s = sent_of vid s + on_the_way_of vid s"
proof -
  have "sum_where (\<lambda>d. d_victimProfileId d = vid \<and> d_status d \<noteq> DIS_FAILED) d_amount ds =
      sum_where (\<lambda>d. d_victimProfileId d = vid \<and> d_status d = DIS_PAID) d_amount ds +
      sum_where (\<lambda>d. d_victimProfileId d = vid \<and> d_status d \<in> set ACTIVE_DISBURSEMENT) d_amount ds" for ds
  proof (induction ds)
    case (Cons d ds)
    then show ?case by (cases "d_status d") (auto simp: ACTIVE_DISBURSEMENT_def)
  qed simp
  then show ?thesis by (simp add: committed_of_def sent_of_def on_the_way_of_def)
qed

lemma prepare_transfer_cases:
  assumes "prepare_transfer env vid s = (Inr (Prepared d snap), t)"
  obtains v dest where "find_profile vid s = Some v" "\<not> v_payoutsPaused v" "\<not> blocked v"
    "v_payoutDestination v = Some dest" "pd_isVerified dest" "snap = snapshot_of dest"
    "\<not> has_active vid s" "\<not> has_recent_failure env vid s"
    "pe_minTransfer env \<le> b_waiting (getBalance vid s)"
    "create_disbursement env (new_disbursement env vid (b_waiting (getBalance vid s)) snap s) s = (Inr d, t)"
  using assms
  by (auto simp: prepare_transfer_def Let_def split: option.splits if_splits prod.splits sum.splits)

end
