(* ===== verification/Settlement.thy ===== *)
theory Settlement
  imports Payout
begin

text \<open>
  Settling a donation and answering the provider's callbacks:
  \<open>src/modules/payments/service/chapa-webhook.service.ts\<close> and the two routes of
  \<open>src/modules/payments/controller/chapa-webhook.controller.ts\<close>.
\<close>

record settle_result =
  sr_status :: payment_status
  sr_amount :: rat
  sr_currency :: jstring

definition settle_result :: "payment \<Rightarrow> settle_result" where
  "settle_result p = \<lparr>sr_status = p_status p, sr_amount = p_amount p, sr_currency = p_currency p\<rparr>"

definition audit_payment :: "jstring \<Rightarrow> jstring \<Rightarrow> jstring \<Rightarrow> (jstring \<times> jval) list \<Rightarrow> audit_outcome \<Rightarrow> effect" where
  "audit_payment action pid vid diff outcome =
     Audit ((audit_base SYSTEM action ''Payment'' pid)
       \<lparr>ae_outcome := outcome,
        ae_severity := (if outcome = SUCCESS then INFO else WARNING),
        ae_diff := diff, ae_metadata := [(''victimProfileId'', JStr vid)]\<rparr>)"

text \<open>\<open>Decimal.toFixed(2)\<close> as text.\<close>

definition toFixed2 :: "rat \<Rightarrow> jstring" where
  "toFixed2 r = (let n = \<lfloor>\<bar>round2 r\<bar> * 100\<rfloor> in
     (if round2 r < 0 then ''-'' else []) @ show_nat (nat (n div 100)) @ ''.'' @
     [char_of (48 + nat (n mod 100 div 10)), char_of (48 + nat (n mod 10))])"

section \<open>The settling transaction\<close>

text \<open>
  One transaction: claim the payment row while it has one of the expected statuses, then add the
  amount to the profile's total. \<open>Inr False\<close> when another caller settled it first; an error
  rolls everything back.
\<close>

definition pay_settle :: "pay_env \<Rightarrow> payment \<Rightarrow> payment_status list \<Rightarrow> rat \<Rightarrow> verify_data \<Rightarrow> pay_state
    \<Rightarrow> bool result \<times> pay_state" where
  "pay_settle env payment froms paidAmount data s =
     (case (case vd_charge data of None \<Rightarrow> Some None | Some c \<Rightarrow> map_option Some (pe_dec env c)) of
        None \<Rightarrow> (Inl (PlainError ''[DecimalError] Invalid argument''), s)
      | Some fee \<Rightarrow>
        if pay_count (p_id payment) froms s = 0 then (Inr False, s)
        else (case (decimal_column 14 paidAmount,
                    case fee of None \<Rightarrow> Some None | Some f \<Rightarrow> map_option Some (decimal_column 14 f)) of
            (Some amount, Some feeCol) \<Rightarrow>
              if reference_taken (p_id payment) (vd_reference data) s then (Inl UniqueViolation, s)
              else (case find_profile (p_victimProfileId payment) s of
                  None \<Rightarrow> (Inl DatabaseError, s)
                | Some v \<Rightarrow> (case decimal_column 12 (v_totalRaised v + paidAmount) of
                    None \<Rightarrow> (Inl DatabaseError, s)
                  | Some newTotal \<Rightarrow> (Inr True,
                      (pay_update (p_id payment) froms
                         (\<lambda>p. p\<lparr>p_status := PAY_PAID, p_amount := amount, p_paidAt := Some (pe_now env),
                                p_chapaReference := vd_reference data, p_chapaFee := feeCol,
                                p_failureReason := None, p_updatedAt := pe_now env\<rparr>) s)
                      \<lparr>ps_profiles := update_where (\<lambda>w. v_id w = p_victimProfileId payment)
                         (\<lambda>w. w\<lparr>v_totalRaised := newTotal\<rparr>) (ps_profiles s)\<rparr>)))
          | _ \<Rightarrow> (Inl DatabaseError, s)))"

definition after_paid :: "pay_env \<Rightarrow> payment \<Rightarrow> rat \<Rightarrow> verify_data \<Rightarrow> pay_state \<Rightarrow> pay_state" where
  "after_paid env payment paidAmount data s =
     (let s1 = emit (Invalidate ''victimProfile'' (p_victimProfileId payment)) s;
          s2 = emit (audit_payment ''PAYMENT_PAID'' (p_id payment) (p_victimProfileId payment)
                 [(''amount'', JFixed paidAmount), (''chapaFee'', jstr_opt (vd_charge data))] SUCCESS) s1;
          s3 = (if truthy (p_payerUserId payment)
                then emit (Notify ''PAYMENT_VERIFIED''
                  [(''userId'', jstr_opt (p_payerUserId payment)), (''paymentId'', JStr (p_id payment))]) s2
                else s2)
      in snd (runForVictim env (p_victimProfileId payment) None s3))"

definition settle_confirmed :: "pay_env \<Rightarrow> bool \<Rightarrow> payment \<Rightarrow> verify_data \<Rightarrow> pay_state
    \<Rightarrow> settle_result result \<times> pay_state" where
  "settle_confirmed env accept payment data s =
     (case pe_dec env (vd_amount data) of
        None \<Rightarrow> (Inl (PlainError ''[DecimalError] Invalid argument''), s)
      | Some paidAmount \<Rightarrow>
        if js_upper (vd_currency data) \<noteq> js_upper (p_currency payment) then (Inr (settle_result payment), s)
        else let froms = (if accept then [PAY_PENDING, PAY_REVIEW_REQUIRED] else [PAY_PENDING]) in
        (case pay_settle env payment froms paidAmount data s of
          (Inl e, s') \<Rightarrow> (Inl e, s')
        | (Inr won, s') \<Rightarrow>
            if \<not> won
            then (Inr (settle_result (case find_payment (p_id payment) s' of None \<Rightarrow> payment | Some p \<Rightarrow> p)), s')
            else (Inr (settle_result (payment\<lparr>p_status := PAY_PAID, p_amount := paidAmount\<rparr>)),
                  after_paid env payment paidAmount data s')))"

definition settlePayment :: "pay_env \<Rightarrow> bool \<Rightarrow> jstring \<Rightarrow> pay_state \<Rightarrow> settle_result result \<times> pay_state" where
  "settlePayment env accept txRef s =
     (case find_by_txRef txRef s of
        None \<Rightarrow> (Inl (NotFound ''payment_not_found''), s)
      | Some payment \<Rightarrow>
        if p_status payment \<in> {PAY_PAID, PAY_REFUNDED} then (Inr (settle_result payment), s)
        else if p_status payment = PAY_REVIEW_REQUIRED \<and> \<not> accept then (Inr (settle_result payment), s)
        else let s1 = send env (SentVerify txRef) s in
        (case chapa_call (pe_chapa env) (pe_verify env txRef) of
          Inl e \<Rightarrow> (Inl e, s1)
        | Inr data \<Rightarrow>
          if vd_status data = ''failed'' then
            (Inr (settle_result (payment\<lparr>p_status := PAY_FAILED\<rparr>)),
             emit (audit_payment ''PAYMENT_FAILED'' (p_id payment) (p_victimProfileId payment) [] FAILURE)
               (pay_fail (pe_now env) (p_id payment) ''chapa_reported_failed'' s1))
          else if vd_status data \<noteq> ''success'' then (Inr (settle_result payment), s1)
          else if \<not> paidAmountMatches (pe_dec env) (vd_amount data) (vd_currency data)
                     (p_amount payment) (p_currency payment) \<and> \<not> accept then
            (if pay_count (p_id payment) [PAY_PENDING] s1 \<noteq> 0 \<and>
                reference_taken (p_id payment) (vd_reference data) s1
             then (Inl UniqueViolation, s1)
             else (Inr (settle_result (payment\<lparr>p_status := PAY_REVIEW_REQUIRED\<rparr>)),
               emit (audit_payment ''PAYMENT_MISMATCH'' (p_id payment) (p_victimProfileId payment)
                   [(''expected'', JFixed (p_amount payment)), (''got'', JStr (vd_amount data)),
                    (''currency'', JStr (vd_currency data))] FAILURE)
                 (pay_review (pe_now env) (p_id payment) (vd_reference data)
                   (''amount_mismatch expected='' @ toFixed2 (p_amount payment) @ '' got='' @
                     vd_amount data @ '' '' @ vd_currency data) s1)))
          else settle_confirmed env accept payment data s1))"

section \<open>Webhook entry\<close>

definition str_field :: "jval option \<Rightarrow> jstring option" where
  "str_field v = (case v of Some (JStr t) \<Rightarrow> if js_trim t = [] then None else Some (js_trim t) | _ \<Rightarrow> None)"

definition invalid_payload_event :: effect where
  "invalid_payload_event =
     Audit ((audit_base SYSTEM ''PAYMENT_WEBHOOK_PAYLOAD_INVALID'' ''ProviderEvent'' [])
       \<lparr>ae_outcome := FAILURE, ae_entityId := None\<rparr>)"

definition handleEvent :: "pay_env \<Rightarrow> (jstring \<times> jval) list \<Rightarrow> pay_state \<Rightarrow> unit result \<times> pay_state" where
  "handleEvent env payload s =
     (case str_field (map_of payload ''tx_ref'') of
        Some txRef \<Rightarrow> (case settlePayment env False txRef s of
            (Inl e, s') \<Rightarrow> (Inl e, s') | (Inr _, s') \<Rightarrow> (Inr (), s'))
      | None \<Rightarrow>
        (case (case str_field (map_of payload ''reference'') of
                 Some r \<Rightarrow> Some r | None \<Rightarrow> str_field (map_of payload ''transfer_reference'')) of
           Some ref \<Rightarrow> checkByReference env ref s
         | None \<Rightarrow> (Inr (), emit invalid_payload_event s)))"

text \<open>\<open>rawBody\<close> and its parsed form come from the framework; \<open>parsed\<close> is \<open>None\<close>
  when \<open>JSON.parse\<close> throws.\<close>

definition events_route :: "(jstring \<Rightarrow> jstring \<Rightarrow> nat list) \<Rightarrow> pay_env \<Rightarrow> jstring option
    \<Rightarrow> (jstring \<Rightarrow> (jstring \<times> jval) list option) \<Rightarrow> jstring option \<Rightarrow> jstring option
    \<Rightarrow> pay_state \<Rightarrow> unit result \<times> pay_state" where
  "events_route hmac env rawBody parse payloadSignature secretSignature s =
     (case rawBody of
        None \<Rightarrow> (Inl (BadRequest ''raw_body_missing''), s)
      | Some raw \<Rightarrow>
        if \<not> verifyWebhookSignature hmac (pe_chapa env) raw payloadSignature secretSignature
        then (Inl (Unauthorized ''invalid_signature''), s)
        else (case parse raw of
            None \<Rightarrow> (Inl (BadRequest ''invalid_json''), s)
          | Some payload \<Rightarrow> handleEvent env payload s))"

section \<open>Approval of a transfer\<close>

record transfer_approval =
  ta_amount :: jstring
  ta_reference :: jstring
  ta_account_name :: jstring
  ta_account_number :: jstring

definition approveTransfer :: "pay_env \<Rightarrow> transfer_approval \<Rightarrow> pay_state \<Rightarrow> bool result" where
  "approveTransfer env dto s =
     (case find_where (\<lambda>d. d_reference d = ta_reference dto) (ps_disbursements s) of
        None \<Rightarrow> Inr False
      | Some d \<Rightarrow>
        if d_status d \<notin> {DIS_CREATED, DIS_SUBMITTED} then Inr False
        else (case pe_dec env (ta_amount dto) of
          None \<Rightarrow> Inr False
        | Some asked \<Rightarrow>
          if asked \<noteq> d_amount d then Inr False
          else (case d_destinationSnapshot d of
            None \<Rightarrow> Inr False
          | Some snap \<Rightarrow>
            if sn_accountNumber snap \<noteq> ta_account_number dto then Inr False
            else if js_lower (js_trim (sn_accountHolder snap)) \<noteq> js_lower (js_trim (ta_account_name dto))
            then Inr False
            else (case find_profile (d_victimProfileId d) s of
              None \<Rightarrow> Inl (PlainError ''Cannot read properties of undefined'')
            | Some p \<Rightarrow>
              if v_payoutsPaused p \<or> blocked p then Inr False
              else (case v_payoutDestination p of
                None \<Rightarrow> Inr False
              | Some dest \<Rightarrow>
                if \<not> pd_isVerified dest \<or> pd_accountNumber dest \<noteq> sn_accountNumber snap then Inr False
                else let balance = getBalance (d_victimProfileId d) s;
                         others = b_sent balance + b_onTheWay balance - d_amount d
                     in Inr (\<not> b_raised balance - others < d_amount d))))))"

definition approveTransfer_route :: "(jstring \<Rightarrow> jstring \<Rightarrow> nat list) \<Rightarrow> pay_env \<Rightarrow> transfer_approval
    \<Rightarrow> jstring option \<Rightarrow> pay_state \<Rightarrow> unit result" where
  "approveTransfer_route hmac env body signature s =
     (if \<not> verifyWebhookSignature hmac (pe_chapa env) [] None signature
      then Inl (BadRequest ''transfer_rejected'')
      else (case approveTransfer env body s of
          Inr True \<Rightarrow> Inr ()
        | _ \<Rightarrow> Inl (BadRequest ''transfer_rejected'')))"

end
