(* ===== verification/Donation.thy ===== *)
theory Donation
  imports Settlement
begin

text \<open>
  Starting a donation, the donor's return page and the public totals,
  \<open>src/modules/payments/service/donation.service.ts\<close>, and the review decisions and totals of
  \<open>src/modules/payments/service/payments-admin.service.ts\<close>.
\<close>

section \<open>Checks\<close>

definition parseAmount :: "pay_env \<Rightarrow> jstring \<Rightarrow> rat result" where
  "parseAmount env value =
     (case pe_dec env value of
        None \<Rightarrow> Inl (BadRequest ''amount_invalid'')
      | Some amount \<Rightarrow>
        if amount < pe_minAmount env
        then Inl (BadRequest (''amount_below_minimum_'' @ show_nat (nat \<lfloor>pe_minAmount env + 1 / 2\<rfloor>)))
        else Inr amount)"

definition cleanKey :: "jstring option \<Rightarrow> jstring option result" where
  "cleanKey key =
     (case map_option js_trim key of
        None \<Rightarrow> Inr None
      | Some k \<Rightarrow> if k = [] then Inr None
          else if length k < 8 \<or> length k > 100 then Inl (BadRequest ''idempotency_key_invalid'')
          else Inr (Some k))"

definition public_profile :: "victim_profile \<Rightarrow> bool" where
  "public_profile v \<longleftrightarrow> v_status v = ''PUBLISHED'' \<and> v_isPublished v \<and> v_isVerified v \<and>
     v_isSafetyReviewed v \<and> v_hasConsent v \<and> v_isPrivacyReviewed v \<and> v_isAdminApproved v \<and>
     v_deletedAt v = None"

definition getDonatableProfile :: "pay_env \<Rightarrow> jstring \<Rightarrow> pay_state \<Rightarrow> victim_profile result" where
  "getDonatableProfile env vid s =
     (case find_where (\<lambda>v. v_id v = vid \<and> public_profile v) (ps_profiles s) of
        None \<Rightarrow> Inl (NotFound ''victim_profile_not_found'')
      | Some v \<Rightarrow>
        if v_donationsPaused v then Inl (Conflict ''donations_paused'')
        else if v_takedownAt v \<noteq> None \<or> v_legalHold v then Inl (Conflict ''profile_not_accepting_donations'')
        else if v_completedAt v \<noteq> None then Inl (Conflict ''profile_completed'')
        else if (case v_fundingEndsAt v of None \<Rightarrow> False | Some t \<Rightarrow> t < pe_now env)
        then Inl (Conflict ''funding_ended'')
        else if \<not> (case v_payoutDestination v of None \<Rightarrow> False | Some d \<Rightarrow> pd_isVerified d)
        then Inl (Conflict ''profile_not_accepting_donations'')
        else Inr v)"

definition audit_donation :: "jstring \<Rightarrow> payment \<Rightarrow> current_user \<Rightarrow> (jstring \<times> jval) list \<Rightarrow> audit_outcome \<Rightarrow> effect" where
  "audit_donation action p actor diff outcome =
     Audit ((audit_base (resolveActorType (cu_roles actor)) action ''Payment'' (p_id p))
       \<lparr>ae_userId := Some (cu_id actor), ae_outcome := outcome,
        ae_severity := (if outcome = SUCCESS then INFO else WARNING), ae_diff := diff,
        ae_metadata := [(''victimProfileId'', JStr (p_victimProfileId p))]\<rparr>)"

section \<open>Recording the payment\<close>

record create_donation =
  cd_victimProfileId :: jstring
  cd_amount :: jstring
  cd_isAnonymous :: "bool option"

definition donation_txRef :: "pay_env \<Rightarrow> current_user \<Rightarrow> jstring option \<Rightarrow> pay_state \<Rightarrow> jstring" where
  "donation_txRef env user key s =
     (case key of
        Some k \<Rightarrow> ''ehte-'' @ take 24 (pe_sha256 env (cu_id user @ '':'' @ k))
      | None \<Rightarrow> generateTxRef ''ehte'' (pe_bytes env (length (ps_payments s))))"

definition create_payment :: "payment \<Rightarrow> pay_state \<Rightarrow> payment result \<times> pay_state" where
  "create_payment p s =
     (case decimal_column 14 (p_amount p) of
        None \<Rightarrow> (Inl DatabaseError, s)
      | Some a \<Rightarrow>
        if \<exists>q \<in> set (ps_payments s). p_id q = p_id p \<or> p_txRef q = p_txRef p
        then (Inl UniqueViolation, s)
        else (Inr (p\<lparr>p_amount := a\<rparr>), s\<lparr>ps_payments := ps_payments s @ [p\<lparr>p_amount := a\<rparr>]\<rparr>))"

definition new_payment :: "pay_env \<Rightarrow> victim_profile \<Rightarrow> current_user \<Rightarrow> bool \<Rightarrow> rat \<Rightarrow> jstring \<Rightarrow> pay_state \<Rightarrow> payment" where
  "new_payment env v user anon amount txRef s =
     \<lparr>p_id = pe_newId env (length (ps_payments s)), p_status = PAY_PENDING, p_victimProfileId = v_id v,
      p_payerUserId = Some (cu_id user), p_isAnonymous = anon, p_amount = amount,
      p_currency = pe_currency env, p_txRef = txRef, p_chapaReference = None, p_chapaFee = None,
      p_failureReason = None, p_paidAt = None, p_createdAt = pe_now env, p_updatedAt = pe_now env\<rparr>"

text \<open>
  \<open>created\<close> tells a new row from a repeat with the same key. The repeat is accepted only for
  the same donor, profile and amount while the payment is still pending.
\<close>

definition record_payment :: "pay_env \<Rightarrow> current_user \<Rightarrow> victim_profile \<Rightarrow> bool \<Rightarrow> rat \<Rightarrow> jstring option
    \<Rightarrow> jstring \<Rightarrow> pay_state \<Rightarrow> (payment \<times> bool) result \<times> pay_state" where
  "record_payment env user v anon amount key txRef s =
     (case create_payment (new_payment env v user anon amount txRef s) s of
        (Inr p, s') \<Rightarrow> (Inr (p, True), s')
      | (Inl err, s') \<Rightarrow>
        if key = None \<or> err \<noteq> UniqueViolation then (Inl err, s')
        else (case find_by_txRef txRef s' of
            None \<Rightarrow> (Inl err, s')
          | Some existing \<Rightarrow>
            if p_payerUserId existing \<noteq> Some (cu_id user) \<or> p_victimProfileId existing \<noteq> v_id v \<or>
               p_amount existing \<noteq> amount
            then (Inl (Conflict ''idempotency_key_reused''), s')
            else if p_status existing \<noteq> PAY_PENDING
            then (Inl (Conflict ''donation_already_processed''), s')
            else (Inr (existing, False), s')))"

section \<open>Opening the checkout page\<close>

fun split_ws :: "jstring \<Rightarrow> jstring list" where
  "split_ws [] = [[]]"
| "split_ws (c # s) =
     (case split_ws s of
        [] \<Rightarrow> [[c]]
      | w # ws \<Rightarrow> if is_ws c then (if s \<noteq> [] \<and> is_ws (hd s) then w # ws else [] # w # ws)
                  else (c # w) # ws)"

definition donor_names :: "jstring option \<Rightarrow> jstring \<times> jstring" where
  "donor_names name =
     (let parts = split_ws (js_trim (case name of None \<Rightarrow> [] | Some n \<Rightarrow> n));
          rest = js_join '' '' (tl parts)
      in (if hd parts = [] then ''Supporter'' else hd parts, if rest = [] then ''Ehte'' else rest))"

definition init_request :: "pay_env \<Rightarrow> rat \<Rightarrow> jstring \<Rightarrow> jstring option \<Rightarrow> jstring \<Rightarrow> jstring \<Rightarrow> init_body" where
  "init_request env amount email name txRef returnUrl =
     initialize_body (pe_chapa env)
       \<lparr>ii_amount = amount, ii_email = email, ii_firstName = fst (donor_names name),
        ii_lastName = snd (donor_names name), ii_txRef = txRef, ii_returnUrl = returnUrl,
        ii_callbackUrl = pe_callbackUrl env, ii_title = ''Ehte'', ii_description = ''Ehte support''\<rparr>"

definition initialize :: "pay_env \<Rightarrow> rat \<Rightarrow> jstring \<Rightarrow> jstring option \<Rightarrow> jstring \<Rightarrow> pay_state
    \<Rightarrow> jstring result \<times> pay_state" where
  "initialize env amount email name txRef s =
     (case pe_withTxRef env (pe_returnUrl env) txRef of
        None \<Rightarrow> (Inl (ServiceUnavailable ''payments_return_url_invalid''), s)
      | Some url \<Rightarrow>
        let body = init_request env amount email name txRef url
        in (chapa_call (pe_chapa env) (pe_initialize env body), send env (SentInitialize body) s))"

text \<open>\<open>cache.wrap\<close> with the checkout key: a hit answers without calling the provider.\<close>

definition checkout :: "pay_env \<Rightarrow> jstring option \<Rightarrow> rat \<Rightarrow> jstring \<Rightarrow> jstring option \<Rightarrow> jstring \<Rightarrow> pay_state
    \<Rightarrow> jstring result \<times> pay_state" where
  "checkout env key amount email name txRef s =
     (case key of
        None \<Rightarrow> initialize env amount email name txRef s
      | Some _ \<Rightarrow>
        (case map_of (ps_checkout s) txRef of
           Some url \<Rightarrow> (Inr url, s)
         | None \<Rightarrow>
           (case initialize env amount email name txRef s of
              (Inl e, s') \<Rightarrow> (Inl e, s')
            | (Inr url, s') \<Rightarrow> (Inr url, s'\<lparr>ps_checkout := (txRef, url) # ps_checkout s'\<rparr>))))"

record start_result =
  st_paymentId :: jstring
  st_txRef :: jstring
  st_checkoutUrl :: jstring

definition open_checkout :: "pay_env \<Rightarrow> current_user \<Rightarrow> jstring option \<Rightarrow> rat \<Rightarrow> jstring \<Rightarrow> jstring option
    \<Rightarrow> jstring \<Rightarrow> payment \<Rightarrow> bool \<Rightarrow> pay_state \<Rightarrow> start_result result \<times> pay_state" where
  "open_checkout env user key amount email name txRef payment created s =
     (case checkout env key amount email name txRef s of
        (Inr url, s') \<Rightarrow>
          (Inr \<lparr>st_paymentId = p_id payment, st_txRef = txRef, st_checkoutUrl = url\<rparr>, s')
      | (Inl err, s') \<Rightarrow>
          (Inl err,
           if created \<and> isDefiniteRejection err
           then emit (audit_donation ''PAYMENT_FAILED'' payment user [] FAILURE)
                  (pay_fail (pe_now env) (p_id payment) ''chapa_initialize_rejected'' s')
           else s'))"

definition donor_email :: "pay_env \<Rightarrow> pay_user \<Rightarrow> jstring" where
  "donor_email env u =
     (let mail = (case pu_email u of None \<Rightarrow> [] | Some m \<Rightarrow> js_trim m)
      in if mail = [] then pe_fallbackEmail env else mail)"

definition start :: "pay_env \<Rightarrow> current_user \<Rightarrow> create_donation \<Rightarrow> jstring option \<Rightarrow> pay_state
    \<Rightarrow> start_result result \<times> pay_state" where
  "start env user dto idempotencyKey s =
     (if \<not> pe_enabled env then (Inl (ServiceUnavailable ''payments_disabled''), s)
      else if pe_returnUrl env = [] then (Inl (ServiceUnavailable ''payments_return_url_not_configured''), s)
      else case parseAmount env (cd_amount dto) of
        Inl e \<Rightarrow> (Inl e, s)
      | Inr amount \<Rightarrow>
        (case cleanKey idempotencyKey of
          Inl e \<Rightarrow> (Inl e, s)
        | Inr key \<Rightarrow>
          (case getDonatableProfile env (cd_victimProfileId dto) s of
            Inl e \<Rightarrow> (Inl e, s)
          | Inr profile \<Rightarrow>
            (case find_where (\<lambda>u. pu_id u = cu_id user) (ps_users s) of
              None \<Rightarrow> (Inl (NotFound ''user_not_found''), s)
            | Some payer \<Rightarrow>
              let email = donor_email env payer
              in if email = [] then (Inl (BadRequest ''donor_email_required''), s)
                 else let txRef = donation_txRef env user key s in
                 (case record_payment env user profile (cd_isAnonymous dto = Some True) amount key txRef s of
                   (Inl e, s1) \<Rightarrow> (Inl e, s1)
                 | (Inr (payment, created), s1) \<Rightarrow>
                   let s2 = (if created
                        then emit (audit_donation ''PAYMENT_INITIATED'' payment user
                               [(''amount'', JFixed amount), (''isAnonymous'', JBool (p_isAnonymous payment))] SUCCESS) s1
                        else s1)
                   in open_checkout env user key amount email (pu_name payer) txRef payment created s2)))))"

definition verifyForPayer :: "pay_env \<Rightarrow> current_user \<Rightarrow> jstring \<Rightarrow> pay_state \<Rightarrow> settle_result result \<times> pay_state" where
  "verifyForPayer env user txRef s =
     (case find_where (\<lambda>p. p_txRef p = txRef \<and> p_payerUserId p = Some (cu_id user)) (ps_payments s) of
        None \<Rightarrow> (Inl (NotFound ''payment_not_found''), s)
      | Some _ \<Rightarrow> settlePayment env False txRef s)"

section \<open>Public totals\<close>

text \<open>Each signed-in donor counts once; payments with no donor attached count one by one.\<close>

definition payer_groups :: "payment list \<Rightarrow> (jstring option \<times> nat) list" where
  "payer_groups ps = map (\<lambda>u. (u, count_where (\<lambda>p. p_payerUserId p = u) ps)) (remdups (map p_payerUserId ps))"

definition donorCount :: "payment list \<Rightarrow> nat" where
  "donorCount ps = fold (\<lambda>(payer, cnt) n. n + (if payer = None then cnt else 1)) (payer_groups ps) 0"

definition getPublicTotals :: "jstring \<Rightarrow> pay_state \<Rightarrow> (rat \<times> nat) result" where
  "getPublicTotals vid s =
     (case find_where (\<lambda>v. v_id v = vid \<and> public_profile v) (ps_profiles s) of
        None \<Rightarrow> Inl (NotFound ''victim_profile_not_found'')
      | Some _ \<Rightarrow>
        let paid = filter (\<lambda>p. p_victimProfileId p = vid \<and> p_status p = PAY_PAID) (ps_payments s)
        in Inr (sum_where (\<lambda>_. True) p_amount paid, donorCount paid))"

section \<open>Administration\<close>

datatype decision = ACCEPT | REFUND

definition audit_admin_payment :: "jstring \<Rightarrow> current_user \<Rightarrow> jstring \<Rightarrow> (jstring \<times> jval) list \<Rightarrow> audit_outcome \<Rightarrow> effect" where
  "audit_admin_payment action admin pid diff outcome =
     Audit ((audit_base (resolveActorType (cu_roles admin)) action ''Payment'' pid)
       \<lparr>ae_userId := Some (cu_id admin), ae_outcome := outcome, ae_severity := WARNING, ae_diff := diff\<rparr>)"

definition audit_admin_profile :: "jstring \<Rightarrow> current_user \<Rightarrow> jstring \<Rightarrow> (jstring \<times> jval) list \<Rightarrow> effect" where
  "audit_admin_profile action admin vid diff =
     Audit ((audit_base (resolveActorType (cu_roles admin)) action ''VictimProfile'' vid)
       \<lparr>ae_userId := Some (cu_id admin), ae_severity := WARNING, ae_diff := diff,
        ae_metadata := [(''victimProfileId'', JStr vid)]\<rparr>)"

definition set_payouts_paused :: "jstring \<Rightarrow> bool \<Rightarrow> pay_state \<Rightarrow> pay_state" where
  "set_payouts_paused vid b s = s\<lparr>ps_profiles :=
     update_where (\<lambda>v. v_id v = vid \<and> v_payoutsPaused v = (\<not> b)) (\<lambda>v. v\<lparr>v_payoutsPaused := b\<rparr>) (ps_profiles s)\<rparr>"

definition pausePayouts :: "current_user \<Rightarrow> jstring \<Rightarrow> jstring \<Rightarrow> pay_state \<Rightarrow> unit result \<times> pay_state" where
  "pausePayouts admin vid reason s =
     (case find_profile vid s of
        None \<Rightarrow> (Inl (NotFound ''victim_profile_not_found''), s)
      | Some _ \<Rightarrow>
        let n = count_where (\<lambda>v. v_id v = vid \<and> v_payoutsPaused v = False) (ps_profiles s);
            s1 = set_payouts_paused vid True s
        in (Inr (), if n > 0 then emit (audit_admin_profile ''DISBURSEMENT_HELD'' admin vid
                 [(''payoutsPaused'', JObj [(''from'', JBool False), (''to'', JBool True)]),
                  (''reason'', JStr reason)]) s1 else s1))"

definition resumePayouts :: "current_user \<Rightarrow> jstring \<Rightarrow> pay_state \<Rightarrow> unit result \<times> pay_state" where
  "resumePayouts admin vid s =
     (case find_profile vid s of
        None \<Rightarrow> (Inl (NotFound ''victim_profile_not_found''), s)
      | Some _ \<Rightarrow>
        let n = count_where (\<lambda>v. v_id v = vid \<and> v_payoutsPaused v = True) (ps_profiles s);
            s1 = set_payouts_paused vid False s
        in (Inr (), if n > 0 then emit (audit_admin_profile ''DISBURSEMENT_RELEASED'' admin vid
                 [(''payoutsPaused'', JObj [(''from'', JBool True), (''to'', JBool False)])]) s1 else s1))"

definition resolveRefund :: "pay_env \<Rightarrow> current_user \<Rightarrow> payment \<Rightarrow> jstring \<Rightarrow> pay_state
    \<Rightarrow> payment result \<times> pay_state" where
  "resolveRefund env admin payment reason s =
     (let s1 = send env (SentVerify (p_txRef payment)) s in
      case chapa_call (pe_chapa env) (pe_verify env (p_txRef payment)) of
        Inl e \<Rightarrow> (Inl e, s1)
      | Inr data \<Rightarrow>
        if vd_status data \<noteq> ''success'' then (Inl (Conflict ''payment_not_successful_at_chapa''), s1)
        else let ref = (case p_chapaReference payment of Some r \<Rightarrow> Some r | None \<Rightarrow> vd_reference data) in
        if \<not> truthy ref then (Inl (Conflict ''chapa_reference_missing''), s1)
        else (case pe_dec env (vd_amount data) of
          None \<Rightarrow> (Inl (PlainError ''[DecimalError] Invalid argument''), s1)
        | Some refundAmount \<Rightarrow>
          if pay_count (p_id payment) [PAY_REVIEW_REQUIRED] s1 = 0
          then (Inl (Conflict ''payment_not_in_review''), s1)
          else if reference_taken (p_id payment) ref s1 then (Inl UniqueViolation, s1)
          else let s2 = pay_claim_refund (pe_now env) (p_id payment) (the ref) s1;
                   s3 = emit (audit_admin_payment ''PAYMENT_REFUND_REQUESTED'' admin (p_id payment)
                          [(''reason'', JStr reason), (''amount'', JFixed refundAmount)] SUCCESS) s2;
                   req = \<lparr>ri_chapaReference = the ref, ri_amount = refundAmount, ri_reason = Some reason,
                          ri_reference = ''ehte-rf-'' @ p_id payment\<rparr>;
                   s4 = send env (SentRefund req) s3
               in (case chapa_call (pe_chapa env) (pe_refund env req) of
                 Inl err \<Rightarrow>
                   (Inl err, emit (audit_admin_payment ''PAYMENT_REFUND_REJECTED'' admin (p_id payment)
                       [(''reason'', JStr (take 300 (err_message err)))] FAILURE)
                     (pay_undo_refund (pe_now env) (p_id payment) s4))
               | Inr _ \<Rightarrow>
                   let s5 = emit (audit_admin_payment ''PAYMENT_REFUND_EXECUTED'' admin (p_id payment)
                              [(''amount'', JFixed refundAmount)] SUCCESS) s4;
                       s6 = emit (audit_admin_payment ''PAYMENT_REVIEW_RESOLVED'' admin (p_id payment)
                              [(''decision'', JStr ''REFUND''), (''reason'', JStr reason)] SUCCESS) s5;
                       s7 = emit (Invalidate ''victimProfile'' (p_victimProfileId payment)) s6
                   in (case find_payment (p_id payment) s7 of
                         None \<Rightarrow> (Inl (NotFound ''payment_not_found''), s7)
                       | Some p \<Rightarrow> (Inr p, s7)))))"

definition resolveReview :: "pay_env \<Rightarrow> current_user \<Rightarrow> jstring \<Rightarrow> decision \<Rightarrow> jstring \<Rightarrow> pay_state
    \<Rightarrow> payment result \<times> pay_state" where
  "resolveReview env admin paymentId decision reason s =
     (case find_payment paymentId s of
        None \<Rightarrow> (Inl (NotFound ''payment_not_found''), s)
      | Some payment \<Rightarrow>
        if p_status payment \<noteq> PAY_REVIEW_REQUIRED then (Inl (Conflict ''payment_not_in_review''), s)
        else (case decision of
          ACCEPT \<Rightarrow>
            (case settlePayment env True (p_txRef payment) s of
              (Inl e, s1) \<Rightarrow> (Inl e, s1)
            | (Inr settled, s1) \<Rightarrow>
              if sr_status settled \<noteq> PAY_PAID then (Inl (Conflict ''payment_not_confirmed_by_chapa''), s1)
              else let s2 = emit (audit_admin_payment ''PAYMENT_REVIEW_RESOLVED'' admin (p_id payment)
                         [(''decision'', JStr ''ACCEPT''), (''reason'', JStr reason),
                          (''expected'', JFixed (p_amount payment)), (''recorded'', JFixed (sr_amount settled))] SUCCESS) s1
                   in (case find_payment (p_id payment) s2 of
                         None \<Rightarrow> (Inl (NotFound ''payment_not_found''), s2)
                       | Some p \<Rightarrow> (Inr p, s2)))
        | REFUND \<Rightarrow> resolveRefund env admin payment reason s))"

record totals =
  t_raised :: rat
  t_sent :: rat
  t_onTheWay :: rat
  t_waiting :: rat
  t_collectionFees :: rat
  t_transferFees :: rat

definition opt_sum :: "('r \<Rightarrow> bool) \<Rightarrow> ('r \<Rightarrow> rat option) \<Rightarrow> 'r list \<Rightarrow> rat" where
  "opt_sum P f xs = sum_where P (\<lambda>r. case f r of None \<Rightarrow> 0 | Some x \<Rightarrow> x) xs"

text \<open>The loop over the groups, each with the sums of \<open>amount\<close> and \<open>transferFee\<close>.\<close>

fun add_total :: "disbursement_status \<times> rat \<times> rat \<Rightarrow> rat \<times> rat \<times> rat \<Rightarrow> rat \<times> rat \<times> rat" where
  "add_total (st, amount, fee) (sent, onTheWay, fees) =
     (if st = DIS_PAID then (sent + amount, onTheWay, fees + fee)
      else if st \<in> set ACTIVE_DISBURSEMENT then (sent, onTheWay + amount, fees)
      else (sent, onTheWay, fees))"

definition total_groups :: "(disbursement \<Rightarrow> bool) \<Rightarrow> disbursement list \<Rightarrow> (disbursement_status \<times> rat \<times> rat) list" where
  "total_groups P ds = map (\<lambda>(st, amount). (st, amount, opt_sum (\<lambda>d. P d \<and> d_status d = st) d_transferFee ds))
     (disbursement_groups P d_amount ds)"

definition getTotals :: "jstring option \<Rightarrow> pay_state \<Rightarrow> totals result" where
  "getTotals vid s =
     (if truthy vid \<and> find_profile (the vid) s = None then Inl (NotFound ''victim_profile_not_found'')
      else let inScope = (\<lambda>w. \<not> truthy vid \<or> w = the vid);
               isPaid = (\<lambda>p. inScope (p_victimProfileId p) \<and> p_status p = PAY_PAID);
               raised = sum_where isPaid p_amount (ps_payments s);
               (sent, onTheWay, transferFees) =
                 fold add_total (total_groups (\<lambda>d. inScope (d_victimProfileId d)) (ps_disbursements s)) (0, 0, 0);
               left = raised - sent - onTheWay
           in Inr \<lparr>t_raised = raised, t_sent = sent, t_onTheWay = onTheWay,
                t_waiting = (if left < 0 then 0 else left),
                t_collectionFees = opt_sum isPaid p_chapaFee (ps_payments s),
                t_transferFees = transferFees\<rparr>)"

end
