(* ===== verification/Payment_Safety.thy ===== *)
theory Payment_Safety
  imports Donation
begin

text \<open>
  The atomic database actions of the payments module as a step relation, the money invariant they
  keep, and the fact that every service call is a sequence of such steps. A concurrent execution of
  any number of calls interleaves exactly these actions, with arguments read earlier, so the
  invariant holds in every state it can reach.
\<close>

section \<open>The money invariant\<close>

definition rows_ok :: "pay_state \<Rightarrow> bool" where
  "rows_ok s \<longleftrightarrow> distinct (map p_id (ps_payments s)) \<and> distinct (map p_txRef (ps_payments s)) \<and>
     distinct (map d_id (ps_disbursements s)) \<and> distinct (map v_id (ps_profiles s)) \<and>
     (\<forall>p \<in> set (ps_payments s). is_cents (p_amount p) \<and> 0 \<le> p_amount p) \<and>
     (\<forall>d \<in> set (ps_disbursements s). is_cents (d_amount d) \<and> 0 \<le> d_amount d)"

definition totals_ok :: "pay_state \<Rightarrow> bool" where
  "totals_ok s \<longleftrightarrow> (\<forall>v \<in> set (ps_profiles s). v_totalRaised v = raised_of (v_id v) s)"

definition one_active :: "pay_state \<Rightarrow> bool" where
  "one_active s \<longleftrightarrow> (\<forall>vid. active_of vid s \<le> 1)"

definition covered :: "pay_state \<Rightarrow> bool" where
  "covered s \<longleftrightarrow> (\<forall>vid. committed_of vid s \<le> raised_of vid s)"

definition pay_inv :: "pay_state \<Rightarrow> bool" where
  "pay_inv s \<longleftrightarrow> rows_ok s \<and> totals_ok s \<and> one_active s \<and> covered s"

definition empty_pay :: pay_state where
  "empty_pay = \<lparr>ps_payments = [], ps_disbursements = [], ps_profiles = [], ps_users = [],
     ps_checkout = [], ps_log = [], ps_sent = []\<rparr>"

section \<open>Atomic actions\<close>

inductive pay_step :: "pay_state \<Rightarrow> pay_state \<Rightarrow> bool" where
  donate: "create_payment p s = (Inr q, t) \<Longrightarrow> p_status p = PAY_PENDING \<Longrightarrow> 0 \<le> p_amount p \<Longrightarrow> pay_step s t"
| fail: "pay_step s (pay_fail now pid reason s)"
| review: "pay_step s (pay_review now pid ref reason s)"
| settle: "pay_settle env payment froms paid data s = (Inr True, t) \<Longrightarrow> 0 \<le> paid \<Longrightarrow>
    set froms \<subseteq> {PAY_PENDING, PAY_REVIEW_REQUIRED} \<Longrightarrow>
    \<exists>p \<in> set (ps_payments s). p_id p = p_id payment \<and> p_victimProfileId p = p_victimProfileId payment \<Longrightarrow>
    pay_step s t"
| claim_refund: "pay_step s (pay_claim_refund now pid r s)"
| undo_refund: "pay_step s (pay_undo_refund now pid s)"
| transfer: "prepare_transfer env vid s = (Inr (Prepared d snap), t) \<Longrightarrow> pay_step s t"
| submit: "set froms \<subseteq> {DIS_CREATED, DIS_UNKNOWN} \<Longrightarrow> pay_step s (dis_submit now did froms when s)"
| unknown: "pay_step s (dis_unknown now did s)"
| paid_out: "pay_step s (dis_paid now did s)"
| failed: "pay_step s (dis_failed now did reason s)"
| new_profile: "v_id v \<notin> v_id ` set (ps_profiles s) \<Longrightarrow>
    \<forall>p \<in> set (ps_payments s). p_victimProfileId p \<noteq> v_id v \<Longrightarrow> v_totalRaised v = 0 \<Longrightarrow>
    pay_step s (s\<lparr>ps_profiles := ps_profiles s @ [v]\<rparr>)"
| edit_profiles: "map (\<lambda>v. (v_id v, v_totalRaised v)) vs = map (\<lambda>v. (v_id v, v_totalRaised v)) (ps_profiles s) \<Longrightarrow>
    pay_step s (s\<lparr>ps_profiles := vs\<rparr>)"
| effects: "pay_step s (s\<lparr>ps_log := l, ps_sent := out, ps_checkout := c, ps_users := u\<rparr>)"

section \<open>Status-guarded writes\<close>

interpretation fail_claim: guarded_table p_id p_status "[PAY_PENDING]"
  "\<lambda>p. p\<lparr>p_status := PAY_FAILED, p_failureReason := Some reason, p_updatedAt := now\<rparr>" for now reason
  by unfold_locales simp_all

interpretation settle_claim: guarded_table p_id p_status "[PAY_PENDING, PAY_REVIEW_REQUIRED]"
  "\<lambda>p. p\<lparr>p_status := PAY_PAID, p_amount := amount, p_paidAt := Some now, p_chapaReference := ref,
         p_chapaFee := fee, p_failureReason := None, p_updatedAt := now\<rparr>" for amount now ref fee
  by unfold_locales simp_all

interpretation refund_claim: guarded_table p_id p_status "[PAY_REVIEW_REQUIRED]"
  "\<lambda>p. p\<lparr>p_status := PAY_REFUNDED, p_chapaReference := Some ref, p_updatedAt := now\<rparr>" for ref now
  by unfold_locales simp_all

interpretation paid_claim: guarded_table d_id d_status ACTIVE_DISBURSEMENT
  "\<lambda>d. d\<lparr>d_status := DIS_PAID, d_paidAt := Some now, d_failureReason := None, d_updatedAt := now\<rparr>" for now
  by unfold_locales (simp_all add: ACTIVE_DISBURSEMENT_def)

interpretation failed_claim: guarded_table d_id d_status ACTIVE_DISBURSEMENT
  "\<lambda>d. d\<lparr>d_status := DIS_FAILED, d_failureReason := Some reason, d_updatedAt := now\<rparr>" for reason now
  by unfold_locales (simp_all add: ACTIVE_DISBURSEMENT_def)

section \<open>Every action keeps the invariant\<close>

lemmas inv_defs = pay_inv_def rows_ok_def totals_ok_def one_active_def covered_def
lemmas sum_defs = raised_of_def committed_of_def active_of_def

lemma pay_invD:
  assumes "pay_inv s"
  shows "committed_of vid s \<le> raised_of vid s" "active_of vid s \<le> 1"
    "distinct (map p_id (ps_payments s))" "distinct (map p_txRef (ps_payments s))"
    "v \<in> set (ps_profiles s) \<Longrightarrow> v_totalRaised v = raised_of (v_id v) s"
  using assms by (simp_all add: inv_defs)

lemma key_row_unique:
  "distinct (map k xs) \<Longrightarrow> a \<in> set xs \<Longrightarrow> b \<in> set xs \<Longrightarrow> k a = k b \<Longrightarrow> a = b"
  by (auto simp: distinct_map dest: inj_onD)

lemma pay_inv_frame:
  "ps_payments t = ps_payments s \<Longrightarrow> ps_disbursements t = ps_disbursements s \<Longrightarrow>
   ps_profiles t = ps_profiles s \<Longrightarrow> pay_inv t = pay_inv s"
  by (simp add: inv_defs sum_defs)

lemma pay_update_inv:
  assumes inv: "pay_inv s"
    and keep: "\<And>p. p_id (f p) = p_id p \<and> p_txRef (f p) = p_txRef p \<and> p_amount (f p) = p_amount p \<and>
      p_victimProfileId (f p) = p_victimProfileId p"
    and unpaid: "PAY_PAID \<notin> set froms" "\<And>p. p_status (f p) \<noteq> PAY_PAID"
  shows "pay_inv (pay_update pid froms f s)"
proof -
  let ?ps = "update_where (pay_is pid froms) f (ps_payments s)"
  have raised: "raised_of vid (s\<lparr>ps_payments := ?ps\<rparr>) = raised_of vid s" for vid
    unfolding raised_of_def
    by (simp, rule sum_where_update_same) (use keep unpaid in \<open>auto simp: pay_is_def claimable_def\<close>)
  have "map p_id ?ps = map p_id (ps_payments s)" "map p_txRef ?ps = map p_txRef (ps_payments s)"
    by (rule map_update_where, simp add: keep)+
  moreover have "\<forall>p \<in> set ?ps. is_cents (p_amount p) \<and> 0 \<le> p_amount p"
    using inv keep by (auto simp: inv_defs in_update_where)
  ultimately show ?thesis
    using inv raised by (simp add: pay_update_def inv_defs committed_of_def active_of_def)
qed

lemma dis_update_inv:
  assumes inv: "pay_inv s"
    and keep: "\<And>d. d_id (f d) = d_id d \<and> d_amount (f d) = d_amount d \<and>
      d_victimProfileId (f d) = d_victimProfileId d"
    and froms: "set froms \<subseteq> set ACTIVE_DISBURSEMENT"
  shows "pay_inv (dis_update did froms f s)"
proof -
  let ?ds = "update_where (dis_is did froms) f (ps_disbursements s)"
  have amounts: "\<And>d. d \<in> set (ps_disbursements s) \<Longrightarrow> 0 \<le> d_amount d" using inv by (simp add: inv_defs)
  have active: "d_status d \<in> set ACTIVE_DISBURSEMENT" if "dis_is did froms d" for d
    using that froms by (auto simp: dis_is_def claimable_def)
  then have unfailed: "d_status d \<noteq> DIS_FAILED" if "dis_is did froms d" for d
    using that by (force simp: ACTIVE_DISBURSEMENT_def)
  have committed: "committed_of vid (s\<lparr>ps_disbursements := ?ds\<rparr>) \<le> committed_of vid s" for vid
    unfolding committed_of_def
    by (simp, rule sum_where_update_le) (use keep unfailed amounts in auto)
  have one: "active_of vid (s\<lparr>ps_disbursements := ?ds\<rparr>) \<le> active_of vid s" for vid
    unfolding active_of_def
    by (simp, rule count_where_update_le) (use keep active in auto)
  have "map d_id ?ds = map d_id (ps_disbursements s)"
    by (rule map_update_where) (simp add: keep)
  moreover have "\<forall>d \<in> set ?ds. is_cents (d_amount d) \<and> 0 \<le> d_amount d"
    using inv keep by (auto simp: inv_defs in_update_where)
  moreover have "covered (s\<lparr>ps_disbursements := ?ds\<rparr>)"
    unfolding covered_def
  proof
    fix vid
    have "raised_of vid (s\<lparr>ps_disbursements := ?ds\<rparr>) = raised_of vid s" by (simp add: raised_of_def)
    moreover have "committed_of vid s \<le> raised_of vid s" using inv by (simp add: inv_defs)
    ultimately show "committed_of vid (s\<lparr>ps_disbursements := ?ds\<rparr>) \<le> raised_of vid (s\<lparr>ps_disbursements := ?ds\<rparr>)"
      using committed [of vid] by simp
  qed
  moreover have "one_active (s\<lparr>ps_disbursements := ?ds\<rparr>)"
    unfolding one_active_def using inv one by (meson inv_defs order_trans)
  ultimately show ?thesis
    using inv by (simp add: dis_update_def pay_inv_def rows_ok_def totals_ok_def raised_of_def)
qed

lemma donate_inv:
  assumes "pay_inv s" "create_payment p s = (Inr q, t)" "p_status p = PAY_PENDING" "0 \<le> p_amount p"
  shows "pay_inv t"
proof -
  from assms(2) obtain a where a: "a = round2 (p_amount p)"
    and t: "t = s\<lparr>ps_payments := ps_payments s @ [p\<lparr>p_amount := a\<rparr>]\<rparr>"
    and fresh: "\<forall>q \<in> set (ps_payments s). p_id q \<noteq> p_id p \<and> p_txRef q \<noteq> p_txRef p"
    by (auto simp: create_payment_def dest: decimal_column_SomeD split: option.splits if_splits)
  have "raised_of vid t = raised_of vid s" for vid
    by (simp add: t raised_of_def assms(3))
  then show ?thesis
    using assms(1,4) fresh by (auto simp: t a inv_defs committed_of_def active_of_def round2_nonneg)
qed

lemma transfer_inv:
  assumes inv: "pay_inv s" and prep: "prepare_transfer env vid s = (Inr (Prepared d snap), t)"
  shows "pay_inv t"
proof -
  from prep have idle: "\<not> has_active vid s"
    and create: "create_disbursement env (new_disbursement env vid (b_waiting (getBalance vid s)) snap s) s = (Inr d, t)"
    by (blast elim: prepare_transfer_cases)+
  let ?w = "max 0 (raised_of vid s - sent_of vid s - on_the_way_of vid s)"
  from create have t: "t = s\<lparr>ps_disbursements := ps_disbursements s @ [d]\<rparr>"
    and d: "d_status d = DIS_CREATED" "d_victimProfileId d = vid" "d_amount d = round2 ?w"
    and fresh: "d_id d \<notin> d_id ` set (ps_disbursements s)"
    by (auto simp: create_disbursement_def new_disbursement_def Let_def getBalance_eq
        dest!: decimal_column_SomeD split: option.splits if_splits)
  have "active_of vid s = 0"
    using idle by (auto simp: has_active_def active_of_def count_where_0_iff find_where_None_iff)
  then have none: "on_the_way_of vid s = 0"
    by (auto simp: active_of_def on_the_way_of_def count_where_0_iff sum_where_def filter_empty_conv
        intro!: sum_list_0)
  have "is_cents (raised_of vid s)" "is_cents (sent_of vid s)"
    using inv by (auto simp: raised_of_def sent_of_def inv_defs intro!: is_cents_sum_where)
  then have "is_cents ?w" by (auto simp: max_def none intro: is_cents_diff)
  then have amount: "d_amount d = ?w" using d(3) by (simp add: round2_cents)
  have "sent_of vid s \<le> raised_of vid s"
    using pay_invD(1) [OF inv, of vid] committed_split [of vid s] none by simp
  then have w: "committed_of vid s + ?w = raised_of vid s"
    by (simp add: committed_split none)
  have "committed_of u t = committed_of u s + (if u = vid then ?w else 0)" for u
    by (simp add: t committed_of_def d(1,2) amount)
  then have "committed_of u t \<le> raised_of u t" for u
    using w pay_invD(1) [OF inv, of u] by (auto simp: t raised_of_def)
  moreover have "active_of u t \<le> 1" for u
    using pay_invD(2) [OF inv, of u] \<open>active_of vid s = 0\<close> by (auto simp: t active_of_def d(1,2))
  ultimately show ?thesis
    using inv fresh \<open>is_cents ?w\<close> by (auto simp: t inv_defs raised_of_def amount)
qed

lemma settle_cases:
  assumes "pay_settle env payment froms paid data s = (Inr True, t)"
  obtains v newTotal fee where "find_profile (p_victimProfileId payment) s = Some v"
    "newTotal = round2 (v_totalRaised v + paid)" "pay_count (p_id payment) froms s \<noteq> 0"
    "t = (pay_update (p_id payment) froms
           (\<lambda>p. p\<lparr>p_status := PAY_PAID, p_amount := round2 paid, p_paidAt := Some (pe_now env),
                  p_chapaReference := vd_reference data, p_chapaFee := fee,
                  p_failureReason := None, p_updatedAt := pe_now env\<rparr>) s)
         \<lparr>ps_profiles := update_where (\<lambda>w. v_id w = p_victimProfileId payment)
            (\<lambda>w. w\<lparr>v_totalRaised := newTotal\<rparr>) (ps_profiles s)\<rparr>"
  using assms
  by (auto simp: pay_settle_def dest!: decimal_column_SomeD split: option.splits if_splits prod.splits)

lemma settle_inv:
  assumes inv: "pay_inv s" and run: "pay_settle env payment froms paid data s = (Inr True, t)"
    and paid: "0 \<le> paid" and froms: "set froms \<subseteq> {PAY_PENDING, PAY_REVIEW_REQUIRED}"
    and row: "\<exists>p \<in> set (ps_payments s). p_id p = p_id payment \<and> p_victimProfileId p = p_victimProfileId payment"
  shows "pay_inv t"
proof -
  let ?vid = "p_victimProfileId payment"
  from run obtain v newTotal fee where v: "find_profile ?vid s = Some v"
    and newTotal: "newTotal = round2 (v_totalRaised v + paid)"
    and won: "pay_count (p_id payment) froms s \<noteq> 0"
    and t: "t = (pay_update (p_id payment) froms
           (\<lambda>p. p\<lparr>p_status := PAY_PAID, p_amount := round2 paid, p_paidAt := Some (pe_now env),
                  p_chapaReference := vd_reference data, p_chapaFee := fee,
                  p_failureReason := None, p_updatedAt := pe_now env\<rparr>) s)
         \<lparr>ps_profiles := update_where (\<lambda>w. v_id w = ?vid)
            (\<lambda>w. w\<lparr>v_totalRaised := newTotal\<rparr>) (ps_profiles s)\<rparr>"
    by (rule settle_cases)
  let ?f = "\<lambda>p. p\<lparr>p_status := PAY_PAID, p_amount := round2 paid, p_paidAt := Some (pe_now env),
      p_chapaReference := vd_reference data, p_chapaFee := fee, p_failureReason := None,
      p_updatedAt := pe_now env\<rparr>"
  let ?ps = "update_where (pay_is (p_id payment) froms) ?f (ps_payments s)"
  from won obtain r where r: "r \<in> set (ps_payments s)" "pay_is (p_id payment) froms r"
    by (auto simp: pay_count_def count_where_0_iff)
  then have "p_id r = p_id payment" "p_status r \<noteq> PAY_PAID"
    using froms by (auto simp: pay_is_def claimable_def)
  moreover have ids: "distinct (map p_id (ps_payments s))" using inv by (simp add: inv_defs)
  ultimately have "p_victimProfileId r = ?vid"
    using row key_row_unique [OF ids r(1)] by metis
  note vid_r = this
  have pinned: "p_id q = p_id r" if "pay_is (p_id payment) froms q" for q
    using that \<open>p_id r = p_id payment\<close> by (simp add: pay_is_def claimable_def)
  have raised: "raised_of u t = raised_of u s + (if u = ?vid then round2 paid else 0)" for u
    using sum_where_update_key [where P = "pay_is (p_id payment) froms" and f = ?f and g = p_amount
        and Q = "\<lambda>p. p_victimProfileId p = u \<and> p_status p = PAY_PAID", OF ids r pinned]
      vid_r \<open>p_status r \<noteq> PAY_PAID\<close>
    by (simp add: raised_of_def t pay_update_def split: if_splits)
  have total: "v_totalRaised w = raised_of (v_id w) s" if "w \<in> set (ps_profiles s)" for w
    using that inv by (simp add: inv_defs)
  have v': "v \<in> set (ps_profiles s)" "v_id v = ?vid"
    using find_where_SomeD [OF v [unfolded find_profile_def]] by auto
  have "is_cents (raised_of ?vid s)" "0 \<le> raised_of ?vid s"
    using inv by (auto simp: raised_of_def inv_defs intro!: is_cents_sum_where sum_where_nonneg)
  then have newTotal': "newTotal = raised_of ?vid s + round2 paid"
    using paid total [OF v'(1)] v'(2) by (simp add: newTotal round2_add_cents)
  have "map p_id ?ps = map p_id (ps_payments s)" "map p_txRef ?ps = map p_txRef (ps_payments s)"
    by (rule map_update_where, simp)+
  moreover have "map v_id (ps_profiles t) = map v_id (ps_profiles s)"
    by (simp add: t) (rule map_update_where, simp)
  moreover have "\<forall>p \<in> set ?ps. is_cents (p_amount p) \<and> 0 \<le> p_amount p"
    using inv paid by (auto simp: inv_defs in_update_where round2_nonneg)
  ultimately have "rows_ok t" using inv by (simp add: inv_defs t pay_update_def)
  moreover have "ps_profiles t = update_where (\<lambda>w. v_id w = ?vid) (\<lambda>w. w\<lparr>v_totalRaised := newTotal\<rparr>) (ps_profiles s)"
    by (simp add: t)
  then have "totals_ok t"
    by (auto simp: totals_ok_def raised in_update_where total newTotal')
  moreover have "one_active t" "covered t"
    using inv raised paid
    by (auto simp: inv_defs t pay_update_def active_of_def committed_of_def round2_nonneg intro: add_increasing2)
  ultimately show ?thesis by (simp add: pay_inv_def)
qed

lemma new_profile_inv:
  assumes "pay_inv s" "v_id v \<notin> v_id ` set (ps_profiles s)"
    "\<forall>p \<in> set (ps_payments s). p_victimProfileId p \<noteq> v_id v" "v_totalRaised v = 0"
  shows "pay_inv (s\<lparr>ps_profiles := ps_profiles s @ [v]\<rparr>)"
proof -
  have "raised_of (v_id v) s = 0"
    using assms(3) by (auto simp: raised_of_def sum_where_def filter_empty_conv intro!: sum_list_0)
  with assms show ?thesis
    by (auto simp: inv_defs committed_of_def active_of_def raised_of_def)
qed

lemma edit_profiles_inv:
  assumes "pay_inv s"
    and same: "map (\<lambda>v. (v_id v, v_totalRaised v)) vs = map (\<lambda>v. (v_id v, v_totalRaised v)) (ps_profiles s)"
  shows "pay_inv (s\<lparr>ps_profiles := vs\<rparr>)"
proof -
  from same have "map fst (map (\<lambda>v. (v_id v, v_totalRaised v)) vs) =
      map fst (map (\<lambda>v. (v_id v, v_totalRaised v)) (ps_profiles s))" by simp
  then have ids: "map v_id vs = map v_id (ps_profiles s)" by (simp add: comp_def)
  from same have "(\<lambda>v. (v_id v, v_totalRaised v)) ` set vs = (\<lambda>v. (v_id v, v_totalRaised v)) ` set (ps_profiles s)"
    by (metis set_map)
  then have "v_totalRaised v = raised_of (v_id v) s" if "v \<in> set vs" for v
    using that assms(1) pay_invD(5) [OF assms(1)] by (auto simp: image_iff set_eq_iff) (metis prod.inject)
  with ids assms(1) show ?thesis
    by (auto simp: inv_defs committed_of_def active_of_def raised_of_def)
qed

lemma pay_step_inv: "pay_step s t \<Longrightarrow> pay_inv s \<Longrightarrow> pay_inv t"
proof (induction rule: pay_step.induct)
  case (donate p s q t) then show ?case by (blast intro: donate_inv)
next
  case (settle env payment froms paid data s t) then show ?case by (blast intro: settle_inv)
next
  case (transfer env vid s d snap t) then show ?case by (blast intro: transfer_inv)
next
  case (new_profile v s) then show ?case by (blast intro: new_profile_inv)
next
  case (edit_profiles vs s) then show ?case by (blast intro: edit_profiles_inv)
next
  case (effects s u c out l) then show ?case
    using pay_inv_frame [of "s\<lparr>ps_log := l, ps_sent := out, ps_checkout := c, ps_users := u\<rparr>" s] by simp
qed (auto simp: pay_fail_def pay_review_def pay_claim_refund_def pay_undo_refund_def dis_submit_def
      dis_unknown_def dis_paid_def dis_failed_def ACTIVE_DISBURSEMENT_def
      intro!: pay_update_inv dis_update_inv)

interpretation money: invariant_system pay_step pay_inv
  by unfold_locales (rule pay_step_inv)

lemma pay_inv_empty: "pay_inv empty_pay"
  by (simp add: inv_defs empty_pay_def sum_defs)

section \<open>Service calls are sequences of atomic actions\<close>

named_theorems steps "composition rules for runs of atomic actions"

abbreviation pay_run :: "pay_state \<Rightarrow> pay_state \<Rightarrow> bool" where
  "pay_run \<equiv> pay_step\<^sup>*\<^sup>*"

lemma run_step: "pay_run s u \<Longrightarrow> pay_step u t \<Longrightarrow> pay_run s t"
  by (rule rtranclp.rtrancl_into_rtrancl)

lemma run_effects:
  "pay_run s u \<Longrightarrow> pay_run s (u\<lparr>ps_log := l, ps_sent := out, ps_checkout := c, ps_users := us\<rparr>)"
  by (erule run_step) (rule pay_step.effects)

lemma run_emit [steps]: "pay_run s u \<Longrightarrow> pay_run s (emit e u)"
  using run_effects [where s = s and u = u and l = "ps_log u @ [e]" and out = "ps_sent u" and c = "ps_checkout u" and us = "ps_users u"]
  by (simp add: emit_def)

lemma run_send [steps]: "pay_run s u \<Longrightarrow> pay_run s (send env x u)"
  using run_effects [where s = s and u = u and l = "ps_log u" and out = "ps_sent u @ [x]" and c = "ps_checkout u" and us = "ps_users u"]
  by (simp add: send_def)

lemma run_checkout [steps]: "pay_run s u \<Longrightarrow> pay_run s (u\<lparr>ps_checkout := c\<rparr>)"
  using run_effects [where s = s and u = u and l = "ps_log u" and out = "ps_sent u" and c = c and us = "ps_users u"] by simp

lemma run_actions [steps]:
  "pay_run s u \<Longrightarrow> pay_run s (pay_fail now pid reason u)"
  "pay_run s u \<Longrightarrow> pay_run s (pay_review now pid ref reason u)"
  "pay_run s u \<Longrightarrow> pay_run s (pay_claim_refund now pid r u)"
  "pay_run s u \<Longrightarrow> pay_run s (pay_undo_refund now pid u)"
  "pay_run s u \<Longrightarrow> pay_run s (dis_unknown now did u)"
  "pay_run s u \<Longrightarrow> pay_run s (dis_paid now did u)"
  "pay_run s u \<Longrightarrow> pay_run s (dis_failed now did reason u)"
  "pay_run s u \<Longrightarrow> pay_run s (dis_submit now did [DIS_CREATED] when u)"
  "pay_run s u \<Longrightarrow> pay_run s (dis_submit now did [DIS_CREATED, DIS_UNKNOWN] when u)"
  by (erule run_step, rule pay_step.intros, simp?)+

lemma run_markPaid [steps]: "pay_run s u \<Longrightarrow> pay_run s (markPaid env d actor u)"
  by (auto simp: markPaid_def Let_def split: option.splits intro!: steps)

lemma run_markFailed [steps]: "pay_run s u \<Longrightarrow> pay_run s (markFailed env did reason actor u)"
  by (auto simp: markFailed_def Let_def split: option.splits intro!: steps)

lemma run_send_transfer [steps]: "pay_run s u \<Longrightarrow> pay_run s (send_transfer env d snap actor u)"
  by (auto simp: send_transfer_def Let_def split: sum.splits intro!: steps)

lemma prepare_transfer_skip:
  "prepare_transfer env vid s = (r, t) \<Longrightarrow> \<forall>d snap. r \<noteq> Inr (Prepared d snap) \<Longrightarrow> t = s"
  by (auto simp: prepare_transfer_def create_disbursement_def Let_def
      split: option.splits if_splits prod.splits sum.splits)

lemma run_prepare [steps]: "pay_run s u \<Longrightarrow> pay_run s (snd (prepare_transfer env vid u))"
proof (cases "prepare_transfer env vid u")
  case (Pair r t)
  assume "pay_run s u"
  show ?thesis
  proof (cases "\<exists>d snap. r = Inr (Prepared d snap)")
    case True
    with Pair \<open>pay_run s u\<close> show ?thesis by (auto intro: run_step pay_step.transfer)
  next
    case False
    with Pair \<open>pay_run s u\<close> show ?thesis using prepare_transfer_skip [OF Pair] by auto
  qed
qed

lemma run_runForVictim [steps]: "pay_run s u \<Longrightarrow> pay_run s (snd (runForVictim env vid actor u))"
  using run_prepare [of s u env vid]
  by (auto simp: runForVictim_def split: prod.splits sum.splits prepared.splits intro!: steps)

lemma run_checkDisbursement [steps]: "pay_run s u \<Longrightarrow> pay_run s (snd (checkDisbursement env did actor u))"
  by (auto simp: checkDisbursement_def Let_def split: option.splits sum.splits intro!: steps)

lemma run_checkByReference [steps]:
  assumes "pay_run s u"
  shows "pay_run s (snd (checkByReference env ref u))"
proof -
  have "pay_run s t" if "checkDisbursement env did actor u = (r, t)" for did actor r t
    using run_checkDisbursement [OF assms, of env did actor] that by simp
  then show ?thesis
    using assms by (auto simp: checkByReference_def split: option.splits sum.splits prod.splits)
qed

lemma run_fold:
  assumes "\<And>x u. pay_run s u \<Longrightarrow> pay_run s (f x u)"
  shows "pay_run s u \<Longrightarrow> pay_run s (fold f xs u)"
  by (induction xs arbitrary: u) (auto intro: assms)

lemma run_sweep [steps]: "pay_run s u \<Longrightarrow> pay_run s (sweep env held u)"
  by (auto simp: sweep_def Let_def intro!: run_fold steps)

text \<open>
  The one thing the code relies on and does not check: the provider never reports a negative
  collected amount.
\<close>

definition collects_nonneg :: "pay_env \<Rightarrow> bool" where
  "collects_nonneg env \<longleftrightarrow> (\<forall>txRef st d a. pe_verify env txRef = Answer st (Some d) \<longrightarrow>
     pe_dec env (vd_amount (env_data d)) = Some a \<longrightarrow> 0 \<le> a)"

lemma chapa_call_verify_nonneg:
  "collects_nonneg env \<Longrightarrow> chapa_call cfg (pe_verify env txRef) = Inr data \<Longrightarrow>
   pe_dec env (vd_amount data) = Some a \<Longrightarrow> 0 \<le> a"
  by (auto simp: chapa_call_def collects_nonneg_def chapa_request_ok_iff split: sum.splits)

lemma pay_settle_unchanged: "pay_settle env p froms paid data s = (r, t) \<Longrightarrow> r \<noteq> Inr True \<Longrightarrow> t = s"
  by (auto simp: pay_settle_def split: option.splits if_splits prod.splits)

lemma send_rows [simp]:
  "ps_payments (send env x s) = ps_payments s" "ps_disbursements (send env x s) = ps_disbursements s"
  "ps_profiles (send env x s) = ps_profiles s"
  by (simp_all add: send_def)

lemma emit_rows [simp]:
  "ps_payments (emit e s) = ps_payments s" "ps_disbursements (emit e s) = ps_disbursements s"
  "ps_profiles (emit e s) = ps_profiles s" "ps_sent (emit e s) = ps_sent s"
  by (simp_all add: emit_def)

lemma run_after_paid [steps]: "pay_run s u \<Longrightarrow> pay_run s (after_paid env payment paid data u)"
  by (auto simp: after_paid_def Let_def intro!: steps)

lemma run_pay_settle:
  assumes "pay_run s u" "pay_settle env payment froms paid data u = (r, t)" "0 \<le> paid"
    "set froms \<subseteq> {PAY_PENDING, PAY_REVIEW_REQUIRED}" "payment \<in> set (ps_payments u)"
  shows "pay_run s t"
proof (cases "r = Inr True")
  case True
  with assms have "pay_step u t" by (blast intro: pay_step.settle)
  with assms(1) show ?thesis by (rule run_step)
next
  case False
  with assms(1,2) show ?thesis using pay_settle_unchanged by blast
qed

lemma run_settle_confirmed:
  assumes "pay_run s u" "payment \<in> set (ps_payments u)" "\<And>a. pe_dec env (vd_amount data) = Some a \<Longrightarrow> 0 \<le> a"
  shows "pay_run s (snd (settle_confirmed env accept payment data u))"
proof (cases "pe_dec env (vd_amount data)")
  case None
  with assms(1) show ?thesis by (simp add: settle_confirmed_def)
next
  case (Some paid)
  let ?froms = "if accept then [PAY_PENDING, PAY_REVIEW_REQUIRED] else [PAY_PENDING]"
  obtain r t where r: "pay_settle env payment ?froms paid data u = (r, t)" by fastforce
  have "pay_run s t"
    by (rule run_pay_settle [OF assms(1) r]) (use Some assms(2,3) in auto)
  then show ?thesis
    unfolding settle_confirmed_def Some Let_def r option.case
    using assms(1) by (cases r) (auto intro: run_after_paid)
qed

lemma run_settlePayment [steps]:
  assumes "collects_nonneg env" "pay_run s u"
  shows "pay_run s (snd (settlePayment env accept txRef u))"
proof (cases "find_by_txRef txRef u")
  case None
  with assms(2) show ?thesis by (simp add: settlePayment_def)
next
  case (Some payment)
  then have mem: "payment \<in> set (ps_payments u)"
    using find_where_SomeD [of _ "ps_payments u" payment] by (simp add: find_by_txRef_def)
  let ?s1 = "send env (SentVerify txRef) u"
  have s1: "pay_run s ?s1" using assms(2) by (rule run_send)
  show ?thesis
  proof (cases "chapa_call (pe_chapa env) (pe_verify env txRef)")
    case (Inl e)
    with Some s1 assms(2) show ?thesis by (simp add: settlePayment_def Let_def)
  next
    case (Inr data)
    then have "pay_run s (snd (settle_confirmed env accept payment data ?s1))"
      by (intro run_settle_confirmed s1) (use mem assms(1) in \<open>auto dest: chapa_call_verify_nonneg\<close>)
    with Some Inr s1 assms(2) show ?thesis
      by (simp add: settlePayment_def Let_def steps)
  qed
qed

lemma run_handleEvent [steps]:
  assumes "collects_nonneg env" "pay_run s u"
  shows "pay_run s (snd (handleEvent env payload u))"
proof -
  have "pay_run s t" if "settlePayment env False ref u = (r, t)" for ref r t
    using run_settlePayment [OF assms, of False ref] that by simp
  then show ?thesis
    using assms(2)
    by (auto simp: handleEvent_def split: option.splits prod.splits sum.splits intro!: steps)
qed

lemma run_verifyForPayer [steps]:
  "collects_nonneg env \<Longrightarrow> pay_run s u \<Longrightarrow> pay_run s (snd (verifyForPayer env user txRef u))"
  by (auto simp: verifyForPayer_def split: option.splits intro!: steps)

lemma run_resolveRefund [steps]: "pay_run s u \<Longrightarrow> pay_run s (snd (resolveRefund env admin p reason u))"
  by (auto simp: resolveRefund_def Let_def split: sum.splits option.splits intro!: steps)

lemma run_resolveReview [steps]:
  assumes "collects_nonneg env" "pay_run s u"
  shows "pay_run s (snd (resolveReview env admin pid decision reason u))"
proof -
  have "pay_run s t" if "settlePayment env True ref u = (r, t)" for ref r t
    using run_settlePayment [OF assms, of True ref] that by simp
  then show ?thesis
    using assms(2)
    by (auto simp: resolveReview_def Let_def split: sum.splits option.splits prod.splits decision.splits
        intro!: steps)
qed

lemma run_initialize [steps]: "pay_run s u \<Longrightarrow> pay_run s (snd (initialize env amount email name txRef u))"
  by (auto simp: initialize_def Let_def split: option.splits intro!: steps)

lemma run_checkout_page [steps]: "pay_run s u \<Longrightarrow> pay_run s (snd (checkout env key amount email name txRef u))"
  using run_initialize [of s u env amount email name txRef]
  by (auto simp: checkout_def split: option.splits prod.splits sum.splits intro!: steps)

lemma run_open_checkout [steps]:
  "pay_run s u \<Longrightarrow> pay_run s (snd (open_checkout env user key amount email name txRef payment created u))"
  using run_checkout_page [of s u env key amount email name txRef]
  by (auto simp: open_checkout_def split: prod.splits sum.splits intro!: steps)

lemma run_record_payment:
  assumes "pay_run s u" "record_payment env user v anon amount key txRef u = (r, t)" "0 \<le> amount"
  shows "pay_run s t"
proof (cases "create_payment (new_payment env v user anon amount txRef u) u")
  case (Pair res t')
  show ?thesis
  proof (cases res)
    case (Inl e)
    then have "t' = u" using Pair by (auto simp: create_payment_def split: option.splits if_splits)
    with assms Pair Inl show ?thesis
      by (auto simp: record_payment_def split: if_splits option.splits)
  next
    case (Inr q)
    with Pair assms(3) have "pay_step u t'"
      by (intro pay_step.donate [of "new_payment env v user anon amount txRef u" u q])
        (simp_all add: new_payment_def)
    with assms Pair Inr show ?thesis by (auto simp: record_payment_def intro: run_step)
  qed
qed

lemma run_start [steps]:
  assumes "0 \<le> pe_minAmount env" "pay_run s u"
  shows "pay_run s (snd (start env user dto key u))"
proof -
  have "pay_run s t" if "record_payment env user v anon amount k txRef u = (r, t)"
      "parseAmount env (cd_amount dto) = Inr amount" for v anon amount k txRef r t
    by (rule run_record_payment [OF assms(2) that(1)])
      (use that assms(1) in \<open>auto simp: parseAmount_def split: option.splits if_splits\<close>)
  then show ?thesis
    using assms(2)
    by (auto simp: start_def Let_def split: sum.splits option.splits prod.splits intro!: steps)
qed

lemma run_set_paused [steps]: "pay_run s u \<Longrightarrow> pay_run s (set_payouts_paused vid b u)"
  unfolding set_payouts_paused_def
  by (erule run_step, rule pay_step.edit_profiles, rule map_update_where) simp

lemma run_pause [steps]:
  "pay_run s u \<Longrightarrow> pay_run s (snd (pausePayouts admin vid reason u))"
  "pay_run s u \<Longrightarrow> pay_run s (snd (resumePayouts admin vid u))"
  by (auto simp: pausePayouts_def resumePayouts_def Let_def split: option.splits intro!: steps)

end
