(* ===== verification/Payment_Properties.thy ===== *)
theory Payment_Properties
  imports Payment_Safety
begin

text \<open>
  What the payments module guarantees, stated over its service functions, and concrete runs that
  show the statements are not empty.
\<close>

section \<open>All calls of the module\<close>

datatype pay_call =
    CallStart current_user create_donation "jstring option"
  | CallWebhook "(jstring \<times> jval) list"
  | CallVerify current_user jstring
  | CallReview current_user jstring decision jstring
  | CallPause current_user jstring jstring
  | CallResume current_user jstring
  | CallRun jstring "current_user option"
  | CallCheck jstring "current_user option"
  | CallSweep bool

fun exec_call :: "pay_env \<Rightarrow> pay_call \<Rightarrow> pay_state \<Rightarrow> pay_state" where
  "exec_call env (CallStart user dto key) s = snd (start env user dto key s)"
| "exec_call env (CallWebhook payload) s = snd (handleEvent env payload s)"
| "exec_call env (CallVerify user txRef) s = snd (verifyForPayer env user txRef s)"
| "exec_call env (CallReview admin pid decision reason) s = snd (resolveReview env admin pid decision reason s)"
| "exec_call env (CallPause admin vid reason) s = snd (pausePayouts admin vid reason s)"
| "exec_call env (CallResume admin vid) s = snd (resumePayouts admin vid s)"
| "exec_call env (CallRun vid actor) s = snd (runForVictim env vid actor s)"
| "exec_call env (CallCheck did actor) s = snd (checkDisbursement env did actor s)"
| "exec_call env (CallSweep held) s = sweep env held s"

lemma exec_call_run:
  assumes "collects_nonneg env" "0 \<le> pe_minAmount env"
  shows "pay_run s (exec_call env c s)"
  by (cases c) (simp_all add: steps assms)

section \<open>A concrete deployment\<close>

definition demo_profile :: victim_profile where
  "demo_profile = \<lparr>v_id = ''v1'', v_status = ''PUBLISHED'', v_isPublished = True, v_isVerified = True,
     v_isSafetyReviewed = True, v_hasConsent = True, v_isPrivacyReviewed = True, v_isAdminApproved = True,
     v_deletedAt = None, v_takedownAt = None, v_legalHold = False, v_completedAt = None,
     v_fundingEndsAt = None, v_donationsPaused = False, v_payoutsPaused = False, v_totalRaised = 0,
     v_createdByUserId = Some ''owner'',
     v_payoutDestination = Some \<lparr>pd_id = ''dest1'', pd_bankName = ''CBE'', pd_bankCode = ''946'',
       pd_accountNumber = ''1000123'', pd_accountHolder = ''Abebe'', pd_isVerified = True\<rparr>\<rparr>"

definition demo_verify :: "jstring \<Rightarrow> jstring \<Rightarrow> verify_data http_answer" where
  "demo_verify status amount = Answer 200 (Some \<lparr>env_status = ''success'', env_message = NoMessage,
     env_data = \<lparr>vd_currency = ''ETB'', vd_amount = amount, vd_charge = None, vd_status = status,
       vd_reference = Some ''CH1'', vd_tx_ref = ''tx''\<rparr>\<rparr>)"

definition ok_answer :: "'d \<Rightarrow> 'd http_answer" where
  "ok_answer d = Answer 200 (Some \<lparr>env_status = ''success'', env_message = NoMessage, env_data = d\<rparr>)"

definition demo_dec :: "jstring \<Rightarrow> rat option" where
  "demo_dec t = (if t = ''100'' then Some 100 else if t = ''90'' then Some 90
     else if t = ''20000000000'' then Some 20000000000 else None)"

definition demo_env :: pay_env where
  "demo_env = \<lparr>pe_now = 0, pe_enabled = True, pe_currency = ''ETB'', pe_minAmount = 10,
     pe_returnUrl = ''https://e'', pe_callbackUrl = ''https://e'', pe_fallbackEmail = ''s@e.et'',
     pe_minTransfer = 1, pe_retryAfterFailureMinutes = 15, pe_timeoutMinutes = 60,
     pe_chapa = \<lparr>cc_secretKey = ''k'', cc_webhookSecret = ''w'', cc_currency = ''ETB'',
       cc_titleMaxLength = 16, cc_descriptionMaxLength = 50\<rparr>,
     pe_initialize = (\<lambda>_. ok_answer ''https://pay''),
     pe_verify = (\<lambda>_. demo_verify ''success'' ''100''),
     pe_transfer = (\<lambda>_. ok_answer ()), pe_verifyTransfer = (\<lambda>_. ok_answer ''pending''),
     pe_refund = (\<lambda>_. ok_answer ()), pe_dec = demo_dec, pe_sha256 = id,
     pe_withTxRef = (\<lambda>u t. Some (u @ t)),
     pe_newId = (\<lambda>n. ''row-'' @ show_nat n), pe_bytes = (\<lambda>n. [n])\<rparr>"

definition demo_user :: current_user where
  "demo_user = \<lparr>cu_id = ''u1'', cu_roles = [''USER'']\<rparr>"

definition demo_donation :: create_donation where
  "demo_donation = \<lparr>cd_victimProfileId = ''v1'', cd_amount = ''100'', cd_isAnonymous = None\<rparr>"

definition demo_start :: pay_state where
  "demo_start = empty_pay\<lparr>ps_profiles := [demo_profile],
     ps_users := [\<lparr>pu_id = ''u1'', pu_email = Some ''a@b.c'', pu_name = Some ''Sara T''\<rparr>]\<rparr>"

definition demo_key :: "jstring option" where
  "demo_key = Some ''key-0001''"

definition demo_txRef :: jstring where
  "demo_txRef = donation_txRef demo_env demo_user demo_key demo_start"

definition demo_pending :: pay_state where
  "demo_pending = exec_call demo_env (CallStart demo_user demo_donation demo_key) demo_start"

definition demo_paid :: pay_state where
  "demo_paid = exec_call demo_env (CallWebhook [(''tx_ref'', JStr demo_txRef)]) demo_pending"

lemma demo_env_ok: "collects_nonneg demo_env" "0 \<le> pe_minAmount demo_env"
  by (auto simp: collects_nonneg_def demo_env_def demo_verify_def demo_dec_def split: if_splits)

lemma demo_start_run: "pay_run empty_pay demo_start"
proof -
  have "pay_step empty_pay (empty_pay\<lparr>ps_profiles := ps_profiles empty_pay @ [demo_profile]\<rparr>)"
    by (rule pay_step.new_profile) (simp_all add: empty_pay_def demo_profile_def)
  then have "pay_run empty_pay (empty_pay\<lparr>ps_profiles := [demo_profile]\<rparr>)"
    by (simp add: empty_pay_def r_into_rtranclp)
  from run_effects [OF this, where l = "[]" and out = "[]" and c = "[]" and us = "ps_users demo_start"] show ?thesis
    by (simp add: demo_start_def empty_pay_def)
qed

lemma demo_paid_run: "pay_run empty_pay demo_paid"
  unfolding demo_paid_def demo_pending_def
  using demo_start_run exec_call_run [OF demo_env_ok] by (blast intro: rtranclp_trans)

lemma demo_balance: "getBalance ''v1'' demo_paid =
    \<lparr>b_raised = 100, b_sent = 0, b_onTheWay = 100, b_waiting = 0\<rparr>"
  by code_simp

section \<open>Final rows\<close>

text \<open>A payment row that is paid, and a transfer row that is paid, is never written again.\<close>

lemma pay_update_keeps: "p \<in> set (ps_payments s) \<Longrightarrow> p_status p \<notin> set froms \<Longrightarrow> p \<in> set (ps_payments (pay_update pid froms f s))"
  by (force simp: pay_update_def in_update_where pay_is_def claimable_def)

lemma dis_update_keeps:
  "d \<in> set (ps_disbursements s) \<Longrightarrow> d_status d \<notin> set froms \<Longrightarrow> d \<in> set (ps_disbursements (dis_update did froms f s))"
  by (force simp: dis_update_def in_update_where dis_is_def claimable_def)

lemma update_other_table [simp]:
  "ps_disbursements (pay_update pid pf f s) = ps_disbursements s"
  "ps_payments (dis_update did df g s) = ps_payments s"
  by (simp_all add: pay_update_def dis_update_def)

lemmas statement_defs = pay_fail_def pay_review_def pay_claim_refund_def pay_undo_refund_def
  dis_submit_def dis_unknown_def dis_paid_def dis_failed_def

lemma prepare_rows:
  assumes "prepare_transfer env vid s = (Inr (Prepared d snap), t)"
  shows "ps_payments t = ps_payments s" "ps_disbursements t = ps_disbursements s @ [d]"
    "ps_profiles t = ps_profiles s"
  using assms
  by (auto elim!: prepare_transfer_cases simp: create_disbursement_def split: option.splits if_splits)

lemma settle_rows:
  assumes "pay_settle env payment froms paid data s = (Inr True, t)"
  obtains f where "ps_payments t = update_where (pay_is (p_id payment) froms) f (ps_payments s)"
    "\<And>p. p_id (f p) = p_id p \<and> p_status (f p) = PAY_PAID" "ps_disbursements t = ps_disbursements s"
    "pay_count (p_id payment) froms s \<noteq> 0"
  using assms by (elim settle_cases) (auto simp: pay_update_def)

lemma step_keeps_paid_payment:
  "pay_step s t \<Longrightarrow> p \<in> set (ps_payments s) \<and> p_status p = PAY_PAID \<Longrightarrow> p \<in> set (ps_payments t) \<and> p_status p = PAY_PAID"
proof (induction rule: pay_step.induct)
  case (settle env payment froms paid data s t)
  from settle(1) obtain f where "ps_payments t = update_where (pay_is (p_id payment) froms) f (ps_payments s)"
    by (rule settle_rows)
  moreover have "\<not> pay_is (p_id payment) froms p"
    using settle(3,5) by (auto simp: pay_is_def claimable_def)
  ultimately show ?case using settle(5) by (auto simp: in_update_where intro!: bexI [of _ p])
next
  case (transfer env vid s d snap t) then show ?case by (simp add: prepare_rows)
qed (auto simp: statement_defs create_payment_def intro!: pay_update_keeps split: option.splits if_splits)

lemma step_keeps_paid_transfer:
  "pay_step s t \<Longrightarrow> d \<in> set (ps_disbursements s) \<and> d_status d = DIS_PAID \<Longrightarrow> d \<in> set (ps_disbursements t) \<and> d_status d = DIS_PAID"
proof (induction rule: pay_step.induct)
  case (settle env payment froms paid data s t)
  then show ?case by (auto elim: settle_rows)
next
  case (transfer env vid s e snap t) then show ?case by (simp add: prepare_rows)
next
  case (submit froms s now did at_time)
  then show ?case by (auto simp: dis_submit_def intro!: dis_update_keeps)
qed (auto simp: statement_defs create_payment_def ACTIVE_DISBURSEMENT_def intro!: dis_update_keeps
      split: option.splits if_splits)

interpretation paid_payment: invariant_system pay_step "\<lambda>s. p \<in> set (ps_payments s) \<and> p_status p = PAY_PAID" for p
  by unfold_locales (rule step_keeps_paid_payment)

interpretation paid_transfer: invariant_system pay_step "\<lambda>s. d \<in> set (ps_disbursements s) \<and> d_status d = DIS_PAID" for d
  by unfold_locales (rule step_keeps_paid_transfer)

section \<open>Properties\<close>

text \<open>
  C1. Money safety under every interleaving of the module's atomic database actions, starting from an
  empty database: what was sent to a victim together with what is on the way never exceeds what was
  raised for that victim, at most one transfer per victim is unresolved, and the running total on the
  profile equals the sum of its paid payments.
\<close>

theorem money_safe:
  assumes "pay_run empty_pay s"
  shows "b_sent (getBalance vid s) + b_onTheWay (getBalance vid s) \<le> b_raised (getBalance vid s) \<and>
    active_of vid s \<le> 1 \<and> (\<forall>v \<in> set (ps_profiles s). v_totalRaised v = b_raised (getBalance (v_id v) s))"
proof -
  from assms pay_inv_empty have inv: "pay_inv s" by (rule money.reach_inv)
  show ?thesis
    using pay_invD(1,2) [OF inv, of vid] committed_split [of vid s] pay_invD(5) [OF inv]
    by (simp add: getBalance_eq)
qed

theorem money_safe_witness:
  "b_sent (getBalance ''v1'' demo_paid) + b_onTheWay (getBalance ''v1'' demo_paid) \<le> b_raised (getBalance ''v1'' demo_paid) \<and>
   b_onTheWay (getBalance ''v1'' demo_paid) = 100"
  using money_safe [OF demo_paid_run, of "''v1''"] demo_balance by simp

text \<open>
  C2. Every call of the module (donation start, webhook, donor verification, review decision, pause,
  resume, payout run, transfer check, timer job) is a sequence of those atomic actions, whatever the
  provider answers, as long as it never reports a negative collected amount.
\<close>

theorem calls_refine_actions:
  assumes "collects_nonneg env" "0 \<le> pe_minAmount env"
  shows "pay_step\<^sup>*\<^sup>* s (exec_call env c s)"
  using assms by (rule exec_call_run)

theorem calls_refine_actions_witness:
  "pay_step\<^sup>*\<^sup>* demo_start (exec_call demo_env (CallStart demo_user demo_donation demo_key) demo_start) \<and>
   length (ps_payments (exec_call demo_env (CallStart demo_user demo_donation demo_key) demo_start)) = 1"
proof
  show "pay_step\<^sup>*\<^sup>* demo_start (exec_call demo_env (CallStart demo_user demo_donation demo_key) demo_start)"
    by (rule calls_refine_actions [OF demo_env_ok])
  show "length (ps_payments (exec_call demo_env (CallStart demo_user demo_donation demo_key) demo_start)) = 1"
    by code_simp
qed

text \<open>
  C3. Exactly-once settlement: once a settling transaction has won a payment, no later settling
  transaction on it wins, whatever ran in between and whatever the provider reports to the later
  caller; so its amount is added to the profile total once.
\<close>

theorem settle_exactly_once:
  assumes "pay_inv s" "pay_settle env payment froms paid data s = (Inr True, t)" "0 \<le> paid"
    "set froms \<subseteq> {PAY_PENDING, PAY_REVIEW_REQUIRED}" "payment \<in> set (ps_payments s)"
    "pay_run t u" "set froms' \<subseteq> {PAY_PENDING, PAY_REVIEW_REQUIRED}"
  shows "fst (pay_settle env' payment froms' paid' data' u) \<noteq> Inr True"
proof -
  let ?row = "\<lambda>r. p_id r = p_id payment \<and> p_status r = PAY_PAID"
  obtain r where r: "r \<in> set (ps_payments t)" "?row r"
  proof (rule settle_rows [OF assms(2)])
    fix f
    assume f: "ps_payments t = update_where (pay_is (p_id payment) froms) f (ps_payments s)"
      "\<And>p. p_id (f p) = p_id p \<and> p_status (f p) = PAY_PAID" "pay_count (p_id payment) froms s \<noteq> 0"
    then obtain q where "q \<in> set (ps_payments s)" "pay_is (p_id payment) froms q"
      by (auto simp: pay_count_def count_where_0_iff)
    with f(1,2) show thesis
      by (intro that [of "f q"]) (auto simp: in_update_where pay_is_def claimable_def intro!: bexI [of _ q])
  qed
  have "pay_step s t" using assms by (blast intro: pay_step.settle)
  then have "pay_inv t" using assms(1) by (rule pay_step_inv)
  with assms(6) have "pay_inv u" by (rule money.reach_inv)
  have "r \<in> set (ps_payments u)" using paid_payment.reach_inv [OF assms(6)] r by blast
  then have "\<not> pay_is (p_id payment) froms' q" if "q \<in> set (ps_payments u)" for q
    using key_row_unique [OF pay_invD(3) [OF \<open>pay_inv u\<close>] _ that, of r] r(2) assms(7)
    by (auto simp: pay_is_def claimable_def)
  then have "pay_count (p_id payment) froms' u = 0" by (simp add: pay_count_def count_where_0_iff)
  then show ?thesis by (auto simp: pay_settle_def split: option.splits)
qed

definition demo_payment :: payment where
  "demo_payment = hd (ps_payments demo_pending)"

definition demo_data :: verify_data where
  "demo_data = \<lparr>vd_currency = ''ETB'', vd_amount = ''100'', vd_charge = None, vd_status = ''success'',
     vd_reference = Some ''CH1'', vd_tx_ref = ''tx''\<rparr>"

lemma demo_pending_inv: "pay_inv demo_pending"
proof -
  have "pay_run empty_pay demo_pending"
    unfolding demo_pending_def using demo_start_run exec_call_run [OF demo_env_ok] by (blast intro: rtranclp_trans)
  then show ?thesis using pay_inv_empty by (rule money.reach_inv)
qed

theorem settle_exactly_once_witness:
  "fst (pay_settle demo_env demo_payment [PAY_PENDING] 100 demo_data demo_pending) = Inr True \<and>
   fst (pay_settle demo_env demo_payment [PAY_PENDING, PAY_REVIEW_REQUIRED] 90 demo_data
     (snd (pay_settle demo_env demo_payment [PAY_PENDING] 100 demo_data demo_pending))) \<noteq> Inr True"
proof -
  let ?t = "snd (pay_settle demo_env demo_payment [PAY_PENDING] 100 demo_data demo_pending)"
  have won: "fst (pay_settle demo_env demo_payment [PAY_PENDING] 100 demo_data demo_pending) = Inr True"
    by code_simp
  then have run: "pay_settle demo_env demo_payment [PAY_PENDING] 100 demo_data demo_pending = (Inr True, ?t)"
    by (simp add: prod_eq_iff)
  have "ps_payments demo_pending = [demo_payment]" by code_simp
  then have mem: "demo_payment \<in> set (ps_payments demo_pending)" by simp
  show ?thesis
    using won settle_exactly_once [OF demo_pending_inv run _ _ mem rtranclp.rtrancl_refl] by simp
qed

lemma ps_sent_statements [simp]:
  "ps_sent (dis_update did df g s) = ps_sent s" "ps_sent (pay_update pid pf f s) = ps_sent s"
  by (simp_all add: pay_update_def dis_update_def)

lemma ps_sent_marks [simp]:
  "ps_sent (markFailed env did reason actor s) = ps_sent s" "ps_sent (markPaid env d actor s) = ps_sent s"
  "ps_sent (dis_submit now did froms when s) = ps_sent s" "ps_sent (dis_unknown now did s) = ps_sent s"
  by (auto simp: markFailed_def markPaid_def Let_def statement_defs split: option.splits)

lemma ps_sent_send_transfer:
  "cc_secretKey (pe_chapa env) \<noteq> [] \<Longrightarrow>
   ps_sent (send_transfer env d snap actor s) = ps_sent s @ [SentTransfer (transfer_request d snap)]"
  by (auto simp: send_transfer_def send_def Let_def split: sum.splits)

text \<open>
  C4. A payout run that records a transfer found payments enabled, the profile neither paused nor
  deleted, taken down or on legal hold, a verified bank account and no unresolved transfer, and sends
  exactly one request to the provider: the victim's whole unsent balance, at least the minimum, to that
  account.
\<close>

theorem transfer_only_when_allowed:
  assumes "runForVictim env vid actor s = (Inr (Some did, why), t)" "cc_secretKey (pe_chapa env) \<noteq> []"
  shows "pe_enabled env \<and> (\<exists>v dest ref. find_profile vid s = Some v \<and> \<not> v_payoutsPaused v \<and>
    v_deletedAt v = None \<and> v_takedownAt v = None \<and> \<not> v_legalHold v \<and>
    v_payoutDestination v = Some dest \<and> pd_isVerified dest \<and> active_of vid s = 0 \<and>
    pe_minTransfer env \<le> b_waiting (getBalance vid s) \<and>
    ps_sent t = ps_sent s @ [SentTransfer \<lparr>ti_accountName = pd_accountHolder dest,
      ti_accountNumber = pd_accountNumber dest, ti_bankCode = pd_bankCode dest,
      ti_amount = round2 (b_waiting (getBalance vid s)), ti_reference = ref\<rparr>])"
proof -
  from assms(1) have enabled: "pe_enabled env"
    by (auto simp: runForVictim_def split: if_splits)
  with assms(1) obtain d snap u e where prep: "prepare_transfer env vid s = (Inr (Prepared d snap), u)"
    and t: "t = send_transfer env d snap actor (emit e u)"
    by (auto simp: runForVictim_def split: prod.splits sum.splits prepared.splits if_splits)
  from prep show ?thesis
  proof (rule prepare_transfer_cases)
    fix v dest
    assume *: "find_profile vid s = Some v" "\<not> v_payoutsPaused v" "\<not> blocked v"
      "v_payoutDestination v = Some dest" "pd_isVerified dest" "snap = snapshot_of dest" "\<not> has_active vid s"
      "pe_minTransfer env \<le> b_waiting (getBalance vid s)"
      "create_disbursement env (new_disbursement env vid (b_waiting (getBalance vid s)) snap s) s = (Inr d, u)"
    from *(9) have "d_amount d = round2 (b_waiting (getBalance vid s))" "ps_sent u = ps_sent s"
      by (auto simp: create_disbursement_def new_disbursement_def Let_def dest!: decimal_column_SomeD
          split: option.splits if_splits)
    with * enabled assms(2) show ?thesis
      by (auto simp: t ps_sent_send_transfer transfer_request_def snapshot_of_def blocked_def has_active_def
          active_of_def find_where_None_iff count_where_0_iff)
  qed
qed

definition demo_paid_unsent :: pay_state where
  "demo_paid_unsent = snd (pay_settle demo_env demo_payment [PAY_PENDING] 100 demo_data demo_pending)"

theorem transfer_only_when_allowed_witness:
  "\<exists>(dest :: payout_destination) ref. pd_isVerified dest \<and>
     ps_sent (snd (runForVictim demo_env ''v1'' None demo_paid_unsent)) = ps_sent demo_paid_unsent @
       [SentTransfer \<lparr>ti_accountName = pd_accountHolder dest, ti_accountNumber = pd_accountNumber dest,
         ti_bankCode = pd_bankCode dest, ti_amount = round2 (b_waiting (getBalance ''v1'' demo_paid_unsent)),
         ti_reference = ref\<rparr>]"
proof -
  let ?r = "runForVictim demo_env ''v1'' None demo_paid_unsent"
  have "fst ?r = Inr (Some ''row-0'', None)" by code_simp
  then have run: "?r = (Inr (Some ''row-0'', None), snd ?r)" by (simp add: prod_eq_iff)
  have key: "cc_secretKey (pe_chapa demo_env) \<noteq> []" by (simp add: demo_env_def)
  from transfer_only_when_allowed [OF run key] obtain dest :: payout_destination and ref where
    "pd_isVerified dest" "ps_sent (snd ?r) = ps_sent demo_paid_unsent @
       [SentTransfer \<lparr>ti_accountName = pd_accountHolder dest, ti_accountNumber = pd_accountNumber dest,
         ti_bankCode = pd_bankCode dest, ti_amount = round2 (b_waiting (getBalance ''v1'' demo_paid_unsent)),
         ti_reference = ref\<rparr>]" by blast
  then show ?thesis by (intro exI [of _ dest] exI [of _ ref] conjI)
qed

fun is_transfer :: "chapa_sent \<Rightarrow> bool" where
  "is_transfer (SentTransfer _) = True"
| "is_transfer _ = False"

definition transfers :: "pay_state \<Rightarrow> chapa_sent list" where
  "transfers s = filter is_transfer (ps_sent s)"

lemma payments_marks [simp]:
  "ps_payments (markFailed env did reason actor s) = ps_payments s" "ps_payments (markPaid env d actor s) = ps_payments s"
  "ps_payments (dis_submit now did froms when s) = ps_payments s"
  by (auto simp: markFailed_def markPaid_def Let_def statement_defs split: option.splits)

lemma dis_update_other:
  "(\<And>e. d_id (f e) = d_id e) \<Longrightarrow> d_id d \<noteq> did \<Longrightarrow>
   d \<in> set (ps_disbursements (dis_update did froms f s)) \<longleftrightarrow> d \<in> set (ps_disbursements s)"
  by (auto simp: dis_update_def in_update_where dis_is_def claimable_def)

lemma marks_other:
  "d_id d \<noteq> did \<Longrightarrow> d \<in> set (ps_disbursements (markFailed env did reason actor s)) \<longleftrightarrow> d \<in> set (ps_disbursements s)"
  "d_id d \<noteq> d_id e \<Longrightarrow> d \<in> set (ps_disbursements (markPaid env e actor s)) \<longleftrightarrow> d \<in> set (ps_disbursements s)"
  "d_id d \<noteq> did \<Longrightarrow> d \<in> set (ps_disbursements (dis_submit now did froms when s)) \<longleftrightarrow> d \<in> set (ps_disbursements s)"
  by (auto simp: markFailed_def markPaid_def Let_def statement_defs dis_update_other split: option.splits)

text \<open>
  C5. Checking an unclear transfer never resends it: whatever the provider answers, the transfer
  requests on record are unchanged, only rows of that one disbursement can change, and the balance
  already raised is untouched.
\<close>

theorem check_never_resends:
  "transfers (snd (checkDisbursement env did actor s)) = transfers s \<and>
   ps_payments (snd (checkDisbursement env did actor s)) = ps_payments s \<and>
   (\<forall>d. d_id d = did \<or> (d \<in> set (ps_disbursements (snd (checkDisbursement env did actor s))) \<longleftrightarrow>
     d \<in> set (ps_disbursements s)))"
proof (cases "find_disbursement did s")
  case None
  then show ?thesis by (simp add: checkDisbursement_def)
next
  case (Some d)
  then have "d_id d = did" by (auto simp: find_disbursement_def dest: find_where_SomeD)
  with Some show ?thesis
    by (auto simp: checkDisbursement_def Let_def transfers_def send_def marks_other split: sum.splits)
qed

text \<open>
  The exception of a provider call counts as a definite refusal exactly when an answer arrived and
  its status is not uncertain (5xx, 408, 429), and either the body was not JSON or it did not say
  success. In particular an HTTP 200 whose body cannot be parsed counts as a refusal.
\<close>

theorem definite_rejection_characterised:
  "((\<exists>e. chapa_request cfg ans = Inl e \<and> isDefiniteRejection e) \<longleftrightarrow>
     cc_secretKey cfg \<noteq> [] \<and> (\<exists>st body. ans = Answer st body \<and> \<not> isUncertainStatus st \<and>
       (case body of None \<Rightarrow> True | Some d \<Rightarrow> \<not> (res_ok st \<and> env_status d = ''success'')))) \<and>
   isDefiniteRejection (projl (chapa_request (pe_chapa demo_env) (Answer 200 None :: unit http_answer)))"
proof
  show "(\<exists>e. chapa_request cfg ans = Inl e \<and> isDefiniteRejection e) \<longleftrightarrow>
     cc_secretKey cfg \<noteq> [] \<and> (\<exists>st body. ans = Answer st body \<and> \<not> isUncertainStatus st \<and>
       (case body of None \<Rightarrow> True | Some d \<Rightarrow> \<not> (res_ok st \<and> env_status d = ''success'')))"
    unfolding definite_rejection_iff by (cases ans rule: refused.cases) auto
  show "isDefiniteRejection (projl (chapa_request (pe_chapa demo_env) (Answer 200 None :: unit http_answer)))"
    by (simp add: demo_env_def isUncertainStatus_def isDefiniteRejection_def)
qed

end
