(* ===== verification/Payment_Flows.thy ===== *)
theory Payment_Flows
  imports Payment_Properties
begin

text \<open>
  Whole flows of the payments module: repeating a donation start, the provider's approval question,
  and concrete histories in which the recorded amounts and the provider's side drift apart.
\<close>

section \<open>Repeating a donation start\<close>

lemma find_by_txRef_append:
  "\<forall>q \<in> set ps. p_txRef q \<noteq> p_txRef p \<Longrightarrow> find_where (\<lambda>q. p_txRef q = p_txRef p) (ps @ [p]) = Some p"
  by (induction ps) (auto simp: find_where_def)

lemma record_payment_repeat:
  assumes "record_payment env user v anon amount (Some k) txRef s = (Inr (p, created), s1)"
    "is_cents amount" "0 \<le> amount" "ps_payments s2 = ps_payments s1"
    "pe_newId env' = pe_newId env" "pe_now env' = pe_now env" "pe_currency env' = pe_currency env"
  shows "record_payment env' user v anon amount (Some k) txRef s2 = (Inr (p, False), s2)"
proof -
  have col: "decimal_column 14 amount = Some amount" and p: "p_payerUserId p = Some (cu_id user)" "p_victimProfileId p = v_id v"
    "p_amount p = amount" "p_status p = PAY_PENDING" "find_where (\<lambda>q. p_txRef q = txRef) (ps_payments s1) = Some p"
    using assms(1-3) find_by_txRef_append [of "ps_payments s" "(new_payment env v user anon amount txRef s)"]
    by (auto simp: record_payment_def create_payment_def new_payment_def find_by_txRef_def round2_cents
        dest!: decimal_column_SomeD split: option.splits if_splits prod.splits sum.splits)
  have "p \<in> set (ps_payments s1)" "p_txRef p = txRef" using find_where_SomeD [OF p(5)] by auto
  then show ?thesis using col p assms(4)
    by (auto simp: record_payment_def create_payment_def new_payment_def find_by_txRef_def)
qed

lemma checkout_repeat:
  assumes "checkout env (Some k) a e n txRef s = (Inr url, s')"
  shows "checkout env' (Some k) a e n txRef s' = (Inr url, s')"
    "ps_payments s' = ps_payments s" "ps_profiles s' = ps_profiles s" "ps_users s' = ps_users s"
  using assms
  by (auto simp: checkout_def initialize_def send_def Let_def split: option.splits sum.splits if_splits prod.splits)

lemma record_payment_rest:
  "record_payment env user v anon amount k txRef s = (r, s1) \<Longrightarrow> ps_profiles s1 = ps_profiles s \<and> ps_users s1 = ps_users s"
  by (auto simp: record_payment_def create_payment_def split: option.splits if_splits prod.splits sum.splits)

lemma getDonatableProfile_local:
  assumes "pe_now env' = pe_now env" "ps_profiles t = ps_profiles s"
  shows "getDonatableProfile env' vid t = getDonatableProfile env vid s"
  unfolding getDonatableProfile_def assms by (rule refl)

lemma payments_send_transfer [simp]: "ps_payments (send_transfer env d snap actor s) = ps_payments s"
  by (auto simp: send_transfer_def send_def Let_def dis_unknown_def split: sum.splits)

lemma payments_runForVictim [simp]: "ps_payments (snd (runForVictim env vid actor s)) = ps_payments s"
  by (auto simp: runForVictim_def prepare_transfer_def create_disbursement_def emit_def Let_def
      split: option.splits if_splits prod.splits sum.splits prepared.splits)

lemma payments_after_paid [simp]: "ps_payments (after_paid env p paid data s) = ps_payments s"
  by (simp add: after_paid_def emit_def Let_def)

lemma payments_send [simp]: "ps_payments (send env c s) = ps_payments s"
  by (simp add: send_def)

lemma payments_emit [simp]: "ps_payments (emit e s) = ps_payments s"
  by (simp add: emit_def)

lemma settled_row:
  assumes "find_where (\<lambda>q. p_id q = p_id p) (ps_payments s) = Some p" "ps_payments u = ps_payments s"
    "p_status p \<in> set froms" "pay_settle env p froms paid data u = (Inr won, t)"
  shows "\<exists>q. find_where (\<lambda>q. p_id q = p_id p) (ps_payments t) = Some q \<and>
    won \<and> p_status q = PAY_PAID \<and> p_amount q = round2 paid"
proof -
  have "won"
    using assms find_where_SomeD [OF assms(1)]
    by (auto simp: pay_settle_def pay_count_def count_where_0_iff pay_is_def claimable_def
        split: option.splits if_splits prod.splits)
  with assms(4) have "pay_settle env p froms paid data u = (Inr True, t)" by simp
  then show ?thesis
    using assms(1-3) \<open>won\<close>
    by (elim settle_cases) (simp add: pay_update_def find_update_key pay_is_def claimable_def)
qed

lemma settle_confirmed_row:
  assumes "find_where (\<lambda>q. p_id q = p_id p) (ps_payments s) = Some p" "ps_payments u = ps_payments s"
    "p_status p = PAY_PENDING" "settle_confirmed env accept p data u = (Inr r, t)"
  shows "\<exists>q. find_where (\<lambda>q. p_id q = p_id p) (ps_payments t) = Some q \<and> sr_status r = p_status q \<and>
    (sr_amount r = p_amount q \<or> round2 (sr_amount r) = p_amount q)"
proof -
  define froms where "froms = (if accept then [PAY_PENDING, PAY_REVIEW_REQUIRED] else [PAY_PENDING])"
  from assms(4) consider "t = u" "r = settle_result p" |
      paid won t1 where "pay_settle env p froms paid data u = (Inr won, t1)"
        "won \<longrightarrow> r = settle_result (p\<lparr>p_status := PAY_PAID, p_amount := paid\<rparr>) \<and> ps_payments t = ps_payments t1"
    by (auto simp: settle_confirmed_def froms_def Let_def split: option.splits if_splits prod.splits sum.splits)
  then show ?thesis
  proof cases
    case 1
    with assms(1,2) show ?thesis by (simp add: settle_result_def)
  next
    case (2 paid won t1)
    have "p_status p \<in> set froms" using assms(3) by (simp add: froms_def)
    from settled_row [OF assms(1,2) this 2(1)] 2(2) show ?thesis by (auto simp: settle_result_def)
  qed
qed

section \<open>Properties\<close>

text \<open>
  A donation start with an idempotency key can be repeated: the repeat answers with the same
  payment, reference and checkout page, whatever the provider would answer now, and changes nothing,
  so no second payment is recorded and no second checkout opened.
\<close>

theorem start_idempotent:
  assumes "start env user dto key s = (Inr r, t)" "cleanKey key = Inr (Some k)"
    "parseAmount env (cd_amount dto) = Inr amount" "is_cents amount" "0 \<le> amount"
  shows "start (env\<lparr>pe_initialize := answers\<rparr>) user dto key t = (Inr r, t)"
proof -
  let ?env = "env\<lparr>pe_initialize := answers\<rparr>"
  let ?tx = "donation_txRef env user (Some k) s"
  from assms(1-3) obtain v u p created s1 e where
    v: "pe_enabled env" "pe_returnUrl env \<noteq> []" "getDonatableProfile env (cd_victimProfileId dto) s = Inr v"
       "find_where (\<lambda>u. pu_id u = cu_id user) (ps_users s) = Some u" "donor_email env u \<noteq> []"
    and rec: "record_payment env user v (cd_isAnonymous dto = Some True) amount (Some k) ?tx s
       = (Inr (p, created), s1)"
    and oc: "open_checkout env user (Some k) amount (donor_email env u) (pu_name u) ?tx p created
       (if created then emit e s1 else s1) = (Inr r, t)"
    by (auto simp: start_def Let_def split: if_splits sum.splits option.splits prod.splits)
  from oc obtain url where co: "checkout env (Some k) amount (donor_email env u) (pu_name u) ?tx
       (if created then emit e s1 else s1) = (Inr url, t)"
    and r: "r = \<lparr>st_paymentId = p_id p, st_txRef = ?tx, st_checkoutUrl = url\<rparr>"
    by (auto simp: open_checkout_def split: prod.splits sum.splits)
  have same: "ps_payments t = ps_payments s1" "ps_profiles t = ps_profiles s" "ps_users t = ps_users s"
    using checkout_repeat(2-4) [OF co] record_payment_rest [OF rec] by (simp_all add: emit_def split: if_splits)
  have tx: "donation_txRef ?env user (Some k) t = ?tx" by (simp add: donation_txRef_def)
  have "record_payment ?env user v (cd_isAnonymous dto = Some True) amount (Some k) ?tx t = (Inr (p, False), t)"
    using record_payment_repeat [OF rec assms(4,5) same(1)] by simp
  moreover have "getDonatableProfile ?env (cd_victimProfileId dto) t = Inr v"
    using v(3) getDonatableProfile_local [of ?env env t s] same(2) by simp
  moreover have "open_checkout ?env user (Some k) amount (donor_email env u) (pu_name u) ?tx p False t = (Inr r, t)"
    using checkout_repeat(1) [OF co] by (simp add: open_checkout_def r)
  moreover have "parseAmount ?env (cd_amount dto) = Inr amount" using assms(3)
    by (auto simp: parseAmount_def split: option.splits)
  moreover have "donor_email ?env u = donor_email env u" by (simp add: donor_email_def Let_def)
  ultimately show ?thesis
    using v assms(2) same(3) by (simp add: start_def tx)
qed

theorem start_idempotent_witness:
  "start (demo_env\<lparr>pe_initialize := \<lambda>_. NetworkFailure ''timeout''\<rparr>) demo_user demo_donation demo_key demo_pending =
     (fst (start demo_env demo_user demo_donation demo_key demo_start), demo_pending) \<and>
   length (ps_payments demo_pending) = 1"
proof
  obtain r where r: "fst (start demo_env demo_user demo_donation demo_key demo_start) = Inr r"
  proof -
    have "isl (fst (start demo_env demo_user demo_donation demo_key demo_start)) = False" by code_simp
    then show thesis by (cases "fst (start demo_env demo_user demo_donation demo_key demo_start)") (auto intro: that)
  qed
  then have "start demo_env demo_user demo_donation demo_key demo_start = (Inr r, demo_pending)"
    by (simp add: prod_eq_iff demo_pending_def)
  moreover have "cleanKey demo_key = Inr (Some ''key-0001'')" by code_simp
  moreover have "parseAmount demo_env (cd_amount demo_donation) = Inr 100" by code_simp
  moreover have "is_cents 100" by (simp add: is_cents_iff exI [of _ 10000])
  ultimately show "start (demo_env\<lparr>pe_initialize := \<lambda>_. NetworkFailure ''timeout''\<rparr>) demo_user demo_donation demo_key
      demo_pending = (fst (start demo_env demo_user demo_donation demo_key demo_start), demo_pending)"
    unfolding r by (rule start_idempotent) simp
  show "length (ps_payments demo_pending) = 1" by code_simp
qed

text \<open>
  The provider's question whether a transfer may go out is answered yes exactly when the reference
  is a transfer of ours that is created or submitted, amount, account number and account name agree
  with what was recorded, the profile is neither paused nor blocked and its present destination is
  verified and has the same account. The closing balance comparison never refuses on its own: it is
  implied by the invariant.
\<close>

theorem approve_transfer_iff:
  assumes "pay_inv s"
  shows "approveTransfer env dto s = Inr True \<longleftrightarrow>
    (\<exists>d snap v dest. find_where (\<lambda>d. d_reference d = ta_reference dto) (ps_disbursements s) = Some d \<and>
       d_status d \<in> {DIS_CREATED, DIS_SUBMITTED} \<and> pe_dec env (ta_amount dto) = Some (d_amount d) \<and>
       d_destinationSnapshot d = Some snap \<and> sn_accountNumber snap = ta_account_number dto \<and>
       js_lower (js_trim (sn_accountHolder snap)) = js_lower (js_trim (ta_account_name dto)) \<and>
       find_profile (d_victimProfileId d) s = Some v \<and> \<not> v_payoutsPaused v \<and> \<not> blocked v \<and>
       v_payoutDestination v = Some dest \<and> pd_isVerified dest \<and> pd_accountNumber dest = ta_account_number dto)"
proof -
  have "\<not> b_raised b - (b_sent b + b_onTheWay b - a) < a" if "b = getBalance vid s" for b vid a
    using pay_invD(1) [OF assms, of vid] committed_split [of vid s] by (simp add: that getBalance_eq)
  then show ?thesis
    by (auto simp: approveTransfer_def Let_def split: option.splits if_splits)
qed

definition demo_question :: transfer_approval where
  "demo_question = \<lparr>ta_amount = ''100'', ta_reference = d_reference (hd (ps_disbursements demo_paid)),
     ta_account_name = '' abebe'', ta_account_number = ''1000123''\<rparr>"

theorem approve_transfer_iff_witness:
  "\<exists>d. find_where (\<lambda>d. d_reference d = ta_reference demo_question) (ps_disbursements demo_paid) = Some d \<and>
     d_status d \<in> {DIS_CREATED, DIS_SUBMITTED} \<and> pe_dec demo_env (ta_amount demo_question) = Some (d_amount d)"
proof -
  have "pay_inv demo_paid" using demo_paid_run pay_inv_empty by (rule money.reach_inv)
  moreover have "approveTransfer demo_env demo_question demo_paid = Inr True" by code_simp
  ultimately show ?thesis using approve_transfer_iff [of demo_paid demo_env demo_question] by blast
qed

definition garbled_env :: "int \<Rightarrow> pay_env" where
  "garbled_env now = demo_env\<lparr>pe_now := now, pe_transfer := (\<lambda>_. Answer 200 None)\<rparr>"

definition sent_amounts :: "pay_state \<Rightarrow> rat list" where
  "sent_amounts s = concat (map (\<lambda>c. case c of SentTransfer r \<Rightarrow> [ti_amount r] | _ \<Rightarrow> []) (ps_sent s))"

definition garbled_once :: pay_state where
  "garbled_once = exec_call (garbled_env 0) (CallRun ''v1'' None) demo_paid_unsent"

definition garbled_twice :: pay_state where
  "garbled_twice = exec_call (garbled_env (16 * 60000)) (CallRun ''v1'' None) garbled_once"

text \<open>
  A transfer whose answer has status 200 and a body that is not JSON counts as refused: the row
  becomes failed, the amount waits again, and once the retry interval is over the same money is sent
  a second time under a new reference. The provider then holds transfer requests for twice the amount
  that was raised.
\<close>

theorem garbled_answer_sends_twice:
  "map d_status (ps_disbursements garbled_once) = [DIS_FAILED] \<and>
   map d_status (ps_disbursements garbled_twice) = [DIS_FAILED, DIS_FAILED] \<and>
   sent_amounts garbled_twice = [100, 100] \<and> b_raised (getBalance ''v1'' garbled_twice) = 100"
  by code_simp

definition review_env :: pay_env where
  "review_env = demo_env\<lparr>pe_verify := (\<lambda>_. demo_verify ''success'' ''90''),
     pe_refund := (\<lambda>_. NetworkFailure ''The operation was aborted due to timeout'')\<rparr>"

definition demo_admin :: current_user where
  "demo_admin = \<lparr>cu_id = ''a1'', cu_roles = [''ADMIN'']\<rparr>"

definition in_review :: pay_state where
  "in_review = exec_call review_env (CallWebhook [(''tx_ref'', JStr demo_txRef)]) demo_pending"

definition refund_unclear :: pay_state where
  "refund_unclear = exec_call review_env (CallReview demo_admin ''row-0'' REFUND ''x'') in_review"

definition refund_then_accept :: pay_state where
  "refund_then_accept = exec_call review_env (CallReview demo_admin ''row-0'' ACCEPT ''x'') refund_unclear"

definition refund_amounts :: "pay_state \<Rightarrow> rat list" where
  "refund_amounts s = concat (map (\<lambda>c. case c of SentRefund r \<Rightarrow> [ri_amount r] | _ \<Rightarrow> []) (ps_sent s))"

text \<open>
  A refund request that times out is undone, after which the same payment can be accepted: the
  provider holds a refund request and a transfer request for the same money.
\<close>

theorem unclear_refund_can_be_accepted:
  "map p_status (ps_payments in_review) = [PAY_REVIEW_REQUIRED] \<and>
   map p_status (ps_payments refund_unclear) = [PAY_REVIEW_REQUIRED] \<and>
   map p_status (ps_payments refund_then_accept) = [PAY_PAID] \<and>
   refund_amounts refund_then_accept = [90] \<and> sent_amounts refund_then_accept = [90]"
  by code_simp

text \<open>
  A payment whose amount would push the profile's total to ten thousand million or more never
  settles: the transaction always ends in a database error and changes nothing, although the amount
  itself fits the payments table and the request rules.
\<close>

theorem large_payment_never_settles:
  assumes "find_profile (p_victimProfileId payment) s = Some v" "0 \<le> v_totalRaised v" "10 ^ 10 \<le> paid"
    "pay_count (p_id payment) froms s \<noteq> 0" "\<not> reference_taken (p_id payment) (vd_reference data) s"
    "vd_charge data = None"
  shows "pay_settle env payment froms paid data s = (Inl DatabaseError, s)"
proof -
  have "decimal_column 12 (v_totalRaised v + paid) = None"
  proof -
    have "10 ^ 12 \<le> (v_totalRaised v + paid) * 100 + 1 / 2" using assms(2,3) by simp
    then have "10 ^ 12 \<le> \<lfloor>(v_totalRaised v + paid) * 100 + 1 / 2\<rfloor>" by (simp add: le_floor_iff)
    then have "(10 ^ 12 :: rat) \<le> of_int \<lfloor>(v_totalRaised v + paid) * 100 + 1 / 2\<rfloor>" by simp
    then show ?thesis using assms(2,3) by (simp add: decimal_column_def round2_def)
  qed
  then show ?thesis using assms by (simp add: pay_settle_def split: option.splits)
qed

theorem large_payment_never_settles_witness:
  "pay_settle demo_env demo_payment [PAY_PENDING] 20000000000 demo_data demo_pending = (Inl DatabaseError, demo_pending) \<and>
   decimal_column 14 20000000000 = Some 20000000000"
proof
  have "find_profile (p_victimProfileId demo_payment) demo_pending = Some demo_profile" by code_simp
  then show "pay_settle demo_env demo_payment [PAY_PENDING] 20000000000 demo_data demo_pending = (Inl DatabaseError, demo_pending)"
    by (rule large_payment_never_settles) (simp add: demo_profile_def, simp, code_simp, code_simp, simp add: demo_data_def)
  show "decimal_column 14 20000000000 = Some (20000000000 :: rat)" by code_simp
qed

text \<open>
  What settling reports is what the row says: when the payment is pending and settling succeeds,
  whatever the provider said, the reported status is the status of the row afterwards, and so is the
  amount up to the rounding of the column.
\<close>

theorem settle_reports_row:
  assumes "pay_inv s" "find_by_txRef txRef s = Some p" "p_status p = PAY_PENDING"
    "settlePayment env accept txRef s = (Inr r, t)"
  shows "\<exists>q. find_payment (p_id p) t = Some q \<and> sr_status r = p_status q \<and>
    (sr_amount r = p_amount q \<or> round2 (sr_amount r) = p_amount q)"
proof -
  have p: "p \<in> set (ps_payments s)" using assms(2) by (auto simp: find_by_txRef_def dest: find_where_SomeD)
  have found: "find_where (\<lambda>q. p_id q = p_id p) (ps_payments s) = Some p"
    using find_key_unique [OF pay_invD(3) [OF assms(1)] p] .
  have confirmed: "settle_confirmed env a p data (send env c s) = (Inr r, t) \<Longrightarrow>
      \<exists>q. find_where (\<lambda>q. p_id q = p_id p) (ps_payments t) = Some q \<and> sr_status r = p_status q \<and>
        (sr_amount r = p_amount q \<or> round2 (sr_amount r) = p_amount q)" for a data c
    by (rule settle_confirmed_row [OF found _ assms(3)]) simp_all
  show ?thesis
    using assms(2-4) found
    by (auto dest: confirmed simp: settlePayment_def Let_def settle_result_def find_payment_def pay_fail_def pay_review_def pay_update_def
        find_update_key pay_is_def claimable_def
        split: sum.splits if_splits option.splits prod.splits)
qed

theorem settle_reports_row_witness:
  "\<exists>q. find_payment (p_id demo_payment) (snd (settlePayment demo_env False demo_txRef demo_pending)) = Some q \<and>
     p_status q = PAY_PAID"
proof -
  let ?call = "settlePayment demo_env False demo_txRef demo_pending"
  have row: "find_by_txRef demo_txRef demo_pending = Some demo_payment" by code_simp
  have pending: "p_status demo_payment = PAY_PENDING" by code_simp
  have "map_sum (\<lambda>_. ()) sr_status (fst ?call) = Inr PAY_PAID" by code_simp
  then obtain r where r: "fst ?call = Inr r" "sr_status r = PAY_PAID" by (cases "fst ?call") auto
  then have "?call = (Inr r, snd ?call)" by (simp add: prod_eq_iff)
  from settle_reports_row [OF demo_pending_inv row pending this] r(2) show ?thesis by auto
qed

lemma fold_donors: "fold (\<lambda>(payer, cnt) n. n + (if payer = None then cnt else 1)) gs (m::nat) =
    m + (\<Sum>(payer, cnt) \<leftarrow> gs. if payer = None then cnt else 1)"
  by (induction gs arbitrary: m) auto

lemma sum_one_special:
  "finite A \<Longrightarrow> (\<Sum>u \<in> A. if u = x then c else (1::nat)) = card (A - {x}) + (if x \<in> A then c else 0)"
  by (induction A rule: finite_induct) (auto simp: insert_Diff_if)

text \<open>
  The public donor count is the number of different signed-in donors plus the number of payments
  that have no donor attached.
\<close>

theorem donorCount_correct:
  "donorCount ps = card {u. \<exists>p \<in> set ps. p_payerUserId p = Some u} + count_where (\<lambda>p. p_payerUserId p = None) ps"
proof -
  let ?L = "map p_payerUserId ps" and ?c = "count_where (\<lambda>p. p_payerUserId p = None) ps"
  have some: "set ?L - {None} = Some ` {u. \<exists>p \<in> set ps. p_payerUserId p = Some u}"
    by (auto simp: image_iff) (metis option.exhaust)+
  have "donorCount ps = (\<Sum>u \<leftarrow> remdups ?L. if u = None then ?c else 1)"
    unfolding donorCount_def fold_donors payer_groups_def
    by (simp add: comp_def cong: if_cong)
  also have "\<dots> = (\<Sum>u \<in> set ?L. if u = None then ?c else 1)"
    by (simp add: sum_list_distinct_conv_sum_set del: set_map)
  also have "\<dots> = card (set ?L - {None}) + (if None \<in> set ?L then ?c else 0)"
    by (rule sum_one_special) simp
  also have "card (set ?L - {None}) = card {u. \<exists>p \<in> set ps. p_payerUserId p = Some u}"
    unfolding some by (simp add: card_image)
  also have "(if None \<in> set ?L then ?c else 0) = ?c"
    by (force simp: count_where_0_iff simp del: not_None_eq)
  finally show ?thesis .
qed

end
