(* ===== verification/Media.thy ===== *)
theory Media
  imports Prelude
begin

text \<open>
  Attachments: the six media columns that posts, victim profiles, missing persons and submissions
  share, the change an edit makes to them, and the checks every service makes before it accepts
  files (\<open>diffMediaFields\<close>, \<open>validateMediaFilesExist\<close>, \<open>assertAttachmentCounts\<close>,
  \<open>assertTotalBytes\<close>).
\<close>

section \<open>Columns and limits\<close>

record media =
  m_photo :: "jstring list"
  m_video :: "jstring list"
  m_audio :: "jstring list"
  m_pdf :: "jstring list"
  m_document :: "jstring list"
  m_other :: "jstring list"

definition media_fields :: "media \<Rightarrow> jstring list list" where
  "media_fields m = [m_photo m, m_video m, m_audio m, m_pdf m, m_document m, m_other m]"

definition collectMediaFields :: "media \<Rightarrow> jstring list" where
  "collectMediaFields m = concat (media_fields m)"

text \<open>
  The limits read from the configuration and the media bucket: whether an object exists, and its
  size and type, \<open>None\<close> when the query fails.
\<close>

record media_env =
  me_maxFileSize :: nat
  me_allowedMime :: "jstring list"
  me_maxPhotos :: nat
  me_maxVideos :: nat
  me_maxOther :: nat
  me_maxTotalBytes :: int
  me_exists :: "jstring \<Rightarrow> bool"
  me_stat :: "jstring \<Rightarrow> (nat \<times> jstring) option"

section \<open>Checks\<close>

record media_dto =
  md_photo :: "jstring list option"
  md_video :: "jstring list option"
  md_audio :: "jstring list option"
  md_pdf :: "jstring list option"
  md_document :: "jstring list option"
  md_other :: "jstring list option"

definition dto_fields :: "media_dto \<Rightarrow> jstring list option list" where
  "dto_fields d = [md_photo d, md_video d, md_audio d, md_pdf d, md_document d, md_other d]"

definition or_else :: "'a option \<Rightarrow> 'a \<Rightarrow> 'a" where
  "or_else x d = (case x of None \<Rightarrow> d | Some y \<Rightarrow> y)"

definition merge_media :: "media_dto \<Rightarrow> media \<Rightarrow> media" where
  "merge_media d m = \<lparr>m_photo = or_else (md_photo d) (m_photo m), m_video = or_else (md_video d) (m_video m),
     m_audio = or_else (md_audio d) (m_audio m), m_pdf = or_else (md_pdf d) (m_pdf m),
     m_document = or_else (md_document d) (m_document m), m_other = or_else (md_other d) (m_other m)\<rparr>"

definition no_media :: media where
  "no_media = \<lparr>m_photo = [], m_video = [], m_audio = [], m_pdf = [], m_document = [], m_other = []\<rparr>"

text \<open>The loop over the six fields; an absent field of the request is skipped.\<close>

fun diff_loop :: "jstring list list \<Rightarrow> jstring list option list \<Rightarrow> jstring list \<times> jstring list \<Rightarrow> jstring list \<times> jstring list" where
  "diff_loop (prev # ps) (next # ns) (added, removed) =
     (case next of
        None \<Rightarrow> diff_loop ps ns (added, removed)
      | Some fs \<Rightarrow> diff_loop ps ns (added @ filter (\<lambda>f. f \<notin> set prev) fs, removed @ filter (\<lambda>f. f \<notin> set fs) prev))"
| "diff_loop _ _ acc = acc"

definition diffMediaFields :: "media \<Rightarrow> media_dto \<Rightarrow> jstring list \<times> jstring list" where
  "diffMediaFields before incoming = diff_loop (media_fields before) (dto_fields incoming) ([], [])"

datatype media_check = MediaOk nat | MediaBad jstring | MediaQueryFailed

definition check_media :: "'e media_env_scheme \<Rightarrow> jstring \<Rightarrow> media_check" where
  "check_media env path =
     (if \<not> me_exists env path then MediaBad ''not_found''
      else case me_stat env path of
        None \<Rightarrow> MediaQueryFailed
      | Some (bytes, mime) \<Rightarrow>
          if bytes > me_maxFileSize env then MediaBad ''too_large''
          else if me_allowedMime env \<noteq> [] \<and> mime \<notin> set (me_allowedMime env) then MediaBad ''disallowed_type''
          else MediaOk bytes)"

fun bad_text :: "jstring \<times> media_check \<Rightarrow> jstring option" where
  "bad_text (path, MediaBad reason) = Some (path @ '':'' @ reason)"
| "bad_text _ = None"

fun ok_size :: "media_check \<Rightarrow> nat" where
  "ok_size (MediaOk n) = n"
| "ok_size _ = 0"

definition validateMediaFilesExist :: "'e media_env_scheme \<Rightarrow> jstring list \<Rightarrow> (jstring \<times> nat) list result" where
  "validateMediaFilesExist env paths =
     (let checks = map (\<lambda>f. (f, check_media env f)) paths;
          bad = List.map_filter bad_text checks
      in if MediaQueryFailed \<in> snd ` set checks then Inl (PlainError ''statObject failed'')
         else if bad \<noteq> [] then Inl (BadRequest (''media_validation_failed:'' @
           hd bad @ concat (map (\<lambda>b. '','' @ b) (tl bad))))
         else Inr (map (\<lambda>(f, c). (f, ok_size c)) checks))"

definition assertAttachmentCounts :: "'e media_env_scheme \<Rightarrow> media \<Rightarrow> unit result" where
  "assertAttachmentCounts env m =
     (if length (m_photo m) > me_maxPhotos env
      then Inl (BadRequest (''too_many_photos:max_'' @ show_nat (me_maxPhotos env)))
      else if length (m_video m) > me_maxVideos env
      then Inl (BadRequest (''too_many_videos:max_'' @ show_nat (me_maxVideos env)))
      else if length (m_audio m) + length (m_pdf m) + length (m_document m) + length (m_other m) > me_maxOther env
      then Inl (BadRequest (''too_many_other_files:max_'' @ show_nat (me_maxOther env)))
      else Inr ())"

definition assertTotalBytes :: "'e media_env_scheme \<Rightarrow> int \<Rightarrow> unit result" where
  "assertTotalBytes env totalBytes =
     (if totalBytes > me_maxTotalBytes env
      then Inl (BadRequest (''upload_total_size_exceeded:max_'' @ show_nat (nat (me_maxTotalBytes env))))
      else Inr ())"

definition total_size :: "(jstring \<times> nat) list \<Rightarrow> int" where
  "total_size vs = int (sum_list (map snd vs))"

text \<open>Sizes of removed objects; an object whose query fails counts nothing.\<close>

definition removed_bytes :: "'e media_env_scheme \<Rightarrow> jstring list \<Rightarrow> int" where
  "removed_bytes env removed = int (sum_list (map (\<lambda>f. case me_stat env f of None \<Rightarrow> 0 | Some (n, _) \<Rightarrow> n) removed))"

text \<open>The three checks in the order the services make them; the result is the total size.\<close>

definition accept_media :: "'e media_env_scheme \<Rightarrow> media \<Rightarrow> jstring list \<Rightarrow> (int \<Rightarrow> int) \<Rightarrow> int result" where
  "accept_media env merged toValidate totalBytes =
     (case assertAttachmentCounts env merged of
        Inl e \<Rightarrow> Inl e
      | Inr _ \<Rightarrow> (case validateMediaFilesExist env toValidate of
          Inl e \<Rightarrow> Inl e
        | Inr vs \<Rightarrow> (case assertTotalBytes env (totalBytes (total_size vs)) of
            Inl e \<Rightarrow> Inl e | Inr _ \<Rightarrow> Inr (totalBytes (total_size vs)))))"

end
