(* ===== verification/Post_Data.thy ===== *)
theory Post_Data
  imports Access Media
begin

text \<open>
  Posts: the rows of \<open>post\<close>, \<open>post_flag\<close> and \<open>post_appeal\<close>
  (\<open>prisma/schema/post.prisma\<close>), the status table and limits of
  \<open>src/modules/core/post/service/post.constants.ts\<close>, and the shared checks of
  \<open>post-common.service.ts\<close>.

  A service call reads a row first and writes later, guarded by the status it read. The operations
  are therefore split: \<open>f_from\<close> takes the row as it was read, which another call may have made
  stale, and \<open>f\<close> reads the row from the state it runs in.
\<close>

section \<open>Rows\<close>

datatype post_type = INCIDENT | AWARENESS

datatype post_status = PO_DRAFT | PO_PENDING | PO_APPROVED | PO_PUBLISHED | PO_REJECTED | PO_UNPUBLISHED
  | PO_CHANGES_REQUESTED

record post_row =
  po_id :: jstring
  po_userId :: jstring
  po_title :: "jstring option"
  po_content :: jstring
  po_type :: post_type
  po_status :: post_status
  po_media :: media
  po_createdAt :: int
  po_updatedAt :: int
  po_involvesChild :: bool
  po_reviewNote :: "jstring option"
  po_idempotencyKey :: "jstring option"
  po_claimedByUserId :: "jstring option"
  po_claimedAt :: "int option"
  po_firstConfirmedBy :: "jstring option" \<comment> \<open>\<open>childSafetyFirstConfirmedByUserId\<close>\<close>
  po_firstConfirmedAt :: "int option"
  po_mediaTotalBytes :: int
  po_ownerSuspendedAt :: "int option"
  po_takedownReason :: "jstring option"
  po_takedownAt :: "int option"
  po_takedownById :: "jstring option"

datatype flag_status = FLAG_OPEN | FLAG_DISMISSED | FLAG_ACTIONED

record flag_row =
  fl_id :: jstring
  fl_postId :: jstring
  fl_reporterId :: jstring
  fl_reason :: jstring
  fl_details :: "jstring option"
  fl_status :: flag_status
  fl_resolvedById :: "jstring option"
  fl_resolvedAt :: "int option"
  fl_note :: "jstring option"

datatype appeal_status = APPEAL_OPEN | APPEAL_UPHELD | APPEAL_OVERTURNED

datatype appeal_target = TARGET_REJECTION | TARGET_TAKEDOWN

record appeal_row =
  ap_id :: jstring
  ap_postId :: jstring
  ap_authorId :: jstring
  ap_target :: appeal_target
  ap_message :: jstring
  ap_status :: appeal_status
  ap_decidedById :: "jstring option"
  ap_decidedAt :: "int option"
  ap_decisionNote :: "jstring option"

record post_state =
  pst_posts :: "post_row list"
  pst_flags :: "flag_row list"
  pst_appeals :: "appeal_row list"
  pst_created :: nat \<comment> \<open>rows created so far, counts the draws of \<open>uuid()\<close>\<close>
  pst_log :: "effect list"

text \<open>
  The clock, the limits read from the configuration, the media limits and bucket of \<open>media_env\<close>,
  and the generated ids.
\<close>

record post_env = media_env +
  poe_now :: int
  poe_cooldownSeconds :: int
  poe_maxPending :: nat
  poe_rejectThreshold :: nat
  poe_rejectWindowDays :: int
  poe_draftTtlDays :: int
  poe_rejectedRetentionDays :: int
  poe_newId :: "nat \<Rightarrow> jstring"

section \<open>Status table\<close>

fun ALLOWED_POST_TRANSITIONS :: "post_status \<Rightarrow> post_status list" where
  "ALLOWED_POST_TRANSITIONS PO_DRAFT = [PO_PENDING]"
| "ALLOWED_POST_TRANSITIONS PO_PENDING = [PO_APPROVED, PO_REJECTED, PO_CHANGES_REQUESTED, PO_DRAFT]"
| "ALLOWED_POST_TRANSITIONS PO_CHANGES_REQUESTED = [PO_PENDING]"
| "ALLOWED_POST_TRANSITIONS PO_APPROVED = [PO_PUBLISHED, PO_REJECTED]"
| "ALLOWED_POST_TRANSITIONS PO_PUBLISHED = [PO_UNPUBLISHED]"
| "ALLOWED_POST_TRANSITIONS PO_UNPUBLISHED = [PO_PUBLISHED]"
| "ALLOWED_POST_TRANSITIONS PO_REJECTED = []"

definition OWNER_EDITABLE_STATUSES :: "post_status list" where
  "OWNER_EDITABLE_STATUSES = [PO_DRAFT, PO_CHANGES_REQUESTED]"

definition STATUSES_THAT_CHANGE_PUBLIC_VISIBILITY :: "post_status list" where
  "STATUSES_THAT_CHANGE_PUBLIC_VISIBILITY = [PO_PUBLISHED, PO_UNPUBLISHED]"

fun post_status_name :: "post_status \<Rightarrow> jstring" where
  "post_status_name PO_DRAFT = ''DRAFT''"
| "post_status_name PO_PENDING = ''PENDING''"
| "post_status_name PO_APPROVED = ''APPROVED''"
| "post_status_name PO_PUBLISHED = ''PUBLISHED''"
| "post_status_name PO_REJECTED = ''REJECTED''"
| "post_status_name PO_UNPUBLISHED = ''UNPUBLISHED''"
| "post_status_name PO_CHANGES_REQUESTED = ''CHANGES_REQUESTED''"

fun post_type_name :: "post_type \<Rightarrow> jstring" where
  "post_type_name INCIDENT = ''INCIDENT''"
| "post_type_name AWARENESS = ''AWARENESS''"

definition jstatus :: "post_status \<Rightarrow> jval" where
  "jstatus st = JStr (post_status_name st)"

definition jtype :: "post_row \<Rightarrow> jval" where
  "jtype p = JStr (post_type_name (po_type p))"

section \<open>Shared helpers\<close>

definition po_emit :: "effect \<Rightarrow> post_state \<Rightarrow> post_state" where
  "po_emit e s = s\<lparr>pst_log := pst_log s @ [e]\<rparr>"

definition ENTITY_LABEL_MAX_LENGTH :: nat where
  "ENTITY_LABEL_MAX_LENGTH = 120"

definition postLabel :: "post_row \<Rightarrow> jstring" where
  "postLabel p =
     (let t = (case po_title p of None \<Rightarrow> [] | Some x \<Rightarrow> js_trim x);
          raw = (if t = [] then ''Untitled '' @ post_type_name (po_type p) @ '' post'' else t)
      in if length raw > ENTITY_LABEL_MAX_LENGTH
         then take (ENTITY_LABEL_MAX_LENGTH - 3) raw @ ''...'' else raw)"

definition auditTarget :: "post_row \<Rightarrow> jstring \<Rightarrow> jstring option" where
  "auditTarget p actorUserId = (if po_userId p \<noteq> actorUserId then Some (po_userId p) else None)"

text \<open>The audit entry of a signed-in actor about a post, as all services fill it in.\<close>

definition audit_post :: "current_user \<Rightarrow> post_row \<Rightarrow> jstring \<Rightarrow> (jstring \<times> jval) list \<Rightarrow> audit_event" where
  "audit_post user p action diff =
     (audit_base (resolveActorType (cu_roles user)) action ''Post'' (po_id p))
       \<lparr>ae_userId := Some (cu_id user), ae_targetUserId := auditTarget p (cu_id user),
        ae_entityLabel := Some (postLabel p), ae_diff := diff\<rparr>"

text \<open>The owner's own actions are recorded with actor type \<open>USER\<close> and no target.\<close>

definition audit_own_post :: "jstring \<Rightarrow> post_row \<Rightarrow> jstring \<Rightarrow> (jstring \<times> jval) list \<Rightarrow> audit_event" where
  "audit_own_post userId p action diff =
     (audit_base USER action ''Post'' (po_id p))
       \<lparr>ae_userId := Some userId, ae_entityLabel := Some (postLabel p), ae_diff := diff\<rparr>"

definition emitBlockedAttempt :: "audit_outcome \<Rightarrow> audit_severity \<Rightarrow> current_user \<Rightarrow> post_row \<Rightarrow> jstring
    \<Rightarrow> jstring \<Rightarrow> (jstring \<times> jval) list \<Rightarrow> (jstring \<times> jval) list \<Rightarrow> effect" where
  "emitBlockedAttempt outcome severity user p action reason diff metadata =
     Audit ((audit_post user p action
              ((''result'', JStr (if outcome = DENIED then ''denied'' else ''failure'')) # diff))
       \<lparr>ae_outcome := outcome, ae_severity := severity, ae_reason := Some reason, ae_metadata := metadata\<rparr>)"

text \<open>
  A check either passes (\<open>None\<close>) or names the exception together with the audit entry written
  before it is thrown.
\<close>

type_synonym check = "(error \<times> effect) option"

definition po_check :: "check \<Rightarrow> post_state \<Rightarrow> 'a result \<times> post_state \<Rightarrow> 'a result \<times> post_state" where
  "po_check c s rest = (case c of None \<Rightarrow> rest | Some (e, eff) \<Rightarrow> (Inl e, po_emit eff s))"

definition assertTransitionAllowed :: "current_user \<Rightarrow> post_row \<Rightarrow> post_status \<Rightarrow> jstring
    \<Rightarrow> (jstring \<times> jval) list \<Rightarrow> check" where
  "assertTransitionAllowed user p to action metadata =
     (if to \<in> set (ALLOWED_POST_TRANSITIONS (po_status p)) then None
      else Some (BadRequest (''post_transition_not_allowed:'' @ post_status_name (po_status p) @ ''->'' @ post_status_name to),
        emitBlockedAttempt FAILURE WARNING user p action ''post_transition_not_allowed''
          [(''attemptedStatus'', jstatus to), (''currentStatus'', jstatus (po_status p))] metadata))"

definition find_post :: "jstring \<Rightarrow> post_state \<Rightarrow> post_row option" where
  "find_post pid s = find_where (\<lambda>p. po_id p = pid) (pst_posts s)"

text \<open>\<open>findOne\<close>, with the continuation that uses the row.\<close>

definition with_post :: "jstring \<Rightarrow> post_state \<Rightarrow> (post_row \<Rightarrow> 'a result \<times> post_state) \<Rightarrow> 'a result \<times> post_state" where
  "with_post pid s f = (case find_post pid s of None \<Rightarrow> (Inl (NotFound ''post_not_found''), s) | Some p \<Rightarrow> f p)"

text \<open>\<open>findFirst({ where: { id, userId } })\<close>.\<close>

definition with_own_post :: "jstring \<Rightarrow> jstring \<Rightarrow> post_state \<Rightarrow> (post_row \<Rightarrow> 'a result \<times> post_state) \<Rightarrow> 'a result \<times> post_state" where
  "with_own_post userId pid s f =
     (case find_where (\<lambda>p. po_id p = pid \<and> po_userId p = userId) (pst_posts s) of
        None \<Rightarrow> (Inl (NotFound ''post_not_found''), s) | Some p \<Rightarrow> f p)"

text \<open>\<open>findUniqueOrThrow\<close> after a write.\<close>

definition fetch_post :: "jstring \<Rightarrow> post_state \<Rightarrow> (post_row \<Rightarrow> 'a result \<times> post_state) \<Rightarrow> 'a result \<times> post_state" where
  "fetch_post pid s f = (case find_post pid s of None \<Rightarrow> (Inl (PlainError ''No Post found''), s) | Some p \<Rightarrow> f p)"

section \<open>Writes\<close>

text \<open>The two forms of a write: \<open>updateMany\<close> guarded by a status, and \<open>update\<close> by id alone.\<close>

definition po_is :: "jstring \<Rightarrow> post_status list \<Rightarrow> post_row \<Rightarrow> bool" where
  "po_is pid froms = claimable po_id po_status froms pid"

definition po_move :: "int \<Rightarrow> jstring \<Rightarrow> post_status list \<Rightarrow> (post_row \<Rightarrow> post_row) \<Rightarrow> post_state \<Rightarrow> post_state" where
  "po_move now pid froms f s =
     s\<lparr>pst_posts := update_where (po_is pid froms) (\<lambda>p. (f p)\<lparr>po_updatedAt := now\<rparr>) (pst_posts s)\<rparr>"

definition po_count :: "jstring \<Rightarrow> post_status list \<Rightarrow> post_state \<Rightarrow> nat" where
  "po_count pid froms s = count_where (po_is pid froms) (pst_posts s)"

definition po_write :: "int \<Rightarrow> jstring \<Rightarrow> (post_row \<Rightarrow> post_row) \<Rightarrow> post_state \<Rightarrow> post_state" where
  "po_write now pid f s =
     s\<lparr>pst_posts := update_where (\<lambda>p. po_id p = pid) (\<lambda>p. (f p)\<lparr>po_updatedAt := now\<rparr>) (pst_posts s)\<rparr>"

definition post_exists :: "jstring \<Rightarrow> post_state \<Rightarrow> bool" where
  "post_exists pid s \<longleftrightarrow> find_post pid s \<noteq> None"

definition transition_conflict :: "current_user \<Rightarrow> post_row \<Rightarrow> post_status \<Rightarrow> jstring \<Rightarrow> (jstring \<times> jval) list \<Rightarrow> effect" where
  "transition_conflict user p to action metadata =
     emitBlockedAttempt FAILURE WARNING user p action ''post_transition_conflict''
       [(''attemptedStatus'', jstatus to), (''currentStatus'', jstatus (po_status p))] metadata"

text \<open>
  The guarded status change every review operation ends in: the row must still have the status that
  was read, otherwise the conflict is recorded and thrown.
\<close>

definition po_transition :: "int \<Rightarrow> current_user \<Rightarrow> post_row \<Rightarrow> post_status \<Rightarrow> jstring \<Rightarrow> (jstring \<times> jval) list
    \<Rightarrow> (post_row \<Rightarrow> post_row) \<Rightarrow> (post_row \<Rightarrow> post_state \<Rightarrow> 'a result \<times> post_state) \<Rightarrow> post_state
    \<Rightarrow> 'a result \<times> post_state" where
  "po_transition now user p to action metadata f done s =
     (if po_count (po_id p) [po_status p] s = 0
      then (Inl (BadRequest ''post_transition_conflict''), po_emit (transition_conflict user p to action metadata) s)
      else let s1 = po_move now (po_id p) [po_status p] (\<lambda>q. (f q)\<lparr>po_status := to\<rparr>) s
           in fetch_post (po_id p) s1 (\<lambda>updated. done updated s1))"

end
