(* ===== verification/Post_Review.thy ===== *)
theory Post_Review
  imports Post_Data
begin

text \<open>
  Review of posts by administrators, \<open>src/modules/core/post/service/post-review.service.ts\<close>:
  claiming, the two-person child-safety rule, approval, change requests, publishing, rejection and
  the bulk operations.
\<close>

section \<open>Claims\<close>

definition assertNotClaimedByOther :: "current_user \<Rightarrow> post_row \<Rightarrow> jstring \<Rightarrow> (jstring \<times> jval) list \<Rightarrow> check" where
  "assertNotClaimedByOther user p action metadata =
     (if truthy (po_claimedByUserId p) \<and> po_claimedByUserId p \<noteq> Some (cu_id user)
      then Some (BadRequest ''post_claimed_by_another_admin'',
        emitBlockedAttempt DENIED WARNING user p action ''claimed_by_another_admin'' []
          (metadata @ [(''claimedByUserId'', jstr_opt (po_claimedByUserId p))]))
      else None)"

definition set_claim :: "int \<Rightarrow> jstring option \<Rightarrow> post_row \<Rightarrow> post_row" where
  "set_claim now who p = p\<lparr>po_claimedByUserId := who, po_claimedAt := map_option (\<lambda>_. now) who\<rparr>"

definition change_claim :: "post_env \<Rightarrow> current_user \<Rightarrow> post_row \<Rightarrow> jstring option \<Rightarrow> jstring \<Rightarrow> post_state
    \<Rightarrow> post_row result \<times> post_state" where
  "change_claim env user p who field s =
     po_check (assertNotClaimedByOther user p ''POST_UPDATED'' []) s
      (if \<not> post_exists (po_id p) s then (Inl (PlainError ''Record to update not found''), s)
       else let s1 = po_write (poe_now env) (po_id p) (set_claim (poe_now env) who) s
            in fetch_post (po_id p) s1 (\<lambda>updated. (Inr updated,
              po_emit (Audit (audit_post user p ''POST_UPDATED''
                [(field, JStr (cu_id user)), (''result'', JStr ''success'')])) s1)))"

definition claimPost :: "post_env \<Rightarrow> current_user \<Rightarrow> jstring \<Rightarrow> post_state \<Rightarrow> post_row result \<times> post_state" where
  "claimPost env user pid s = with_post pid s (\<lambda>p. change_claim env user p (Some (cu_id user)) ''claimedBy'' s)"

definition unclaimPost :: "post_env \<Rightarrow> current_user \<Rightarrow> jstring \<Rightarrow> post_state \<Rightarrow> post_row result \<times> post_state" where
  "unclaimPost env user pid s = with_post pid s (\<lambda>p. change_claim env user p None ''unclaimedBy'' s)"

section \<open>Child safety\<close>

datatype safety = NotRequired | FirstConfirmationRecorded | Satisfied

definition ensureChildSafetySatisfied :: "post_env \<Rightarrow> post_row \<Rightarrow> current_user \<Rightarrow> bool option \<Rightarrow> jstring
    \<Rightarrow> (jstring \<times> jval) list \<Rightarrow> post_state \<Rightarrow> safety result \<times> post_state" where
  "ensureChildSafetySatisfied env p user confirmed action metadata s =
     (if \<not> po_involvesChild p then (Inr NotRequired, s)
      else if confirmed \<noteq> Some True then
        (Inl (BadRequest ''child_safety_confirmation_required''),
         po_emit (emitBlockedAttempt FAILURE WARNING user p action ''child_safety_confirmation_required'' [] metadata) s)
      else if \<not> truthy (po_firstConfirmedBy p) then
        (if \<not> post_exists (po_id p) s then (Inl (PlainError ''Record to update not found''), s)
         else (Inr FirstConfirmationRecorded,
           po_write (poe_now env) (po_id p)
             (\<lambda>q. q\<lparr>po_firstConfirmedBy := Some (cu_id user), po_firstConfirmedAt := Some (poe_now env)\<rparr>) s))
      else if po_firstConfirmedBy p = Some (cu_id user) then
        (Inl (BadRequest ''child_safety_requires_second_distinct_admin''),
         po_emit (emitBlockedAttempt DENIED WARNING user p action ''child_safety_requires_second_distinct_admin'' []
           (metadata @ [(''firstConfirmedByUserId'', jstr_opt (po_firstConfirmedBy p))])) s)
      else (Inr Satisfied, s))"

definition emitChildSafetyFirstConfirmation :: "current_user \<Rightarrow> post_row \<Rightarrow> effect" where
  "emitChildSafetyFirstConfirmation user p = Audit (audit_post user p ''POST_UPDATED''
     [(''childSafetyFirstConfirmationBy'', JStr (cu_id user)),
      (''result'', JStr ''pending_second_admin_confirmation'')])"

text \<open>Answer of an operation under the two-person rule: the row, and whether a second person is awaited.\<close>

type_synonym reviewed = "post_row \<times> bool"

definition after_safety :: "post_env \<Rightarrow> post_row \<Rightarrow> current_user \<Rightarrow> bool option \<Rightarrow> jstring
    \<Rightarrow> (jstring \<times> jval) list \<Rightarrow> (post_state \<Rightarrow> reviewed result \<times> post_state) \<Rightarrow> post_state
    \<Rightarrow> reviewed result \<times> post_state" where
  "after_safety env p user confirmed action metadata rest s =
     (case ensureChildSafetySatisfied env p user confirmed action metadata s of
        (Inl e, s1) \<Rightarrow> (Inl e, s1)
      | (Inr FirstConfirmationRecorded, s1) \<Rightarrow>
          fetch_post (po_id p) s1 (\<lambda>partial.
            (Inr (partial, True), po_emit (emitChildSafetyFirstConfirmation user p) s1))
      | (Inr _, s1) \<Rightarrow> rest s1)"

section \<open>Status changes\<close>

definition moves_diff :: "post_row \<Rightarrow> post_status \<Rightarrow> (jstring \<times> jval) list \<Rightarrow> (jstring \<times> jval) list" where
  "moves_diff p to extra = [(''previousStatus'', jstatus (po_status p)), (''newStatus'', jstatus to)] @ extra @
     [(''result'', JStr ''success'')]"

definition post_meta :: "post_row \<Rightarrow> (jstring \<times> jval) list" where
  "post_meta p = [(''postType'', jtype p), (''involvesChild'', JBool (po_involvesChild p))]"

definition updateStatus_from :: "post_env \<Rightarrow> current_user \<Rightarrow> post_row \<Rightarrow> post_status \<Rightarrow> bool option
    \<Rightarrow> post_state \<Rightarrow> reviewed result \<times> post_state" where
  "updateStatus_from env user p status confirmed s =
     po_check (assertTransitionAllowed user p status ''POST_UPDATED'' []) s
      (po_check (assertNotClaimedByOther user p ''POST_UPDATED'' []) s
        (let live = (status = PO_APPROVED \<or> status = PO_PUBLISHED);
             rest = po_transition (poe_now env) user p status ''POST_UPDATED'' [] id
               (\<lambda>updated s1.
                  let s2 = (if status \<in> set STATUSES_THAT_CHANGE_PUBLIC_VISIBILITY
                            then po_emit (Invalidate ''post'' (po_id p)) s1 else s1)
                  in (Inr (updated, False), po_emit (Audit ((audit_post user p ''POST_UPDATED''
                       (moves_diff p status [(''childSafetyDualControlSatisfied'',
                          if po_involvesChild p \<and> live then JBool True else JUndefined)]))
                       \<lparr>ae_entityLabel := Some (postLabel updated), ae_metadata := post_meta p\<rparr>)) s2))
         in if po_involvesChild p \<and> live
            then after_safety env p user confirmed ''POST_UPDATED'' [] rest s
            else rest s))"

definition updateStatus :: "post_env \<Rightarrow> current_user \<Rightarrow> jstring \<Rightarrow> post_status \<Rightarrow> bool option \<Rightarrow> post_state
    \<Rightarrow> reviewed result \<times> post_state" where
  "updateStatus env user pid status confirmed s =
     with_post pid s (\<lambda>p. updateStatus_from env user p status confirmed s)"

definition clear_claim :: "post_row \<Rightarrow> post_row" where
  "clear_claim p = p\<lparr>po_claimedByUserId := None, po_claimedAt := None\<rparr>"

definition post_event :: "post_row \<Rightarrow> (jstring \<times> jval) list" where
  "post_event p = [(''postId'', JStr (po_id p)), (''userId'', JStr (po_userId p))]"

definition title_event :: "post_row \<Rightarrow> (jstring \<times> jval) list" where
  "title_event p = post_event p @ [(''title'', case po_title p of None \<Rightarrow> JUndefined | Some t \<Rightarrow> JStr t)]"

definition approve_from :: "post_env \<Rightarrow> current_user \<Rightarrow> post_row \<Rightarrow> bool option \<Rightarrow> bool \<Rightarrow> post_state
    \<Rightarrow> reviewed result \<times> post_state" where
  "approve_from env user p confirmed bulk s =
     (let meta = [(''bulk'', JBool bulk)] in
      po_check (assertTransitionAllowed user p PO_APPROVED ''POST_APPROVED'' meta) s
       (po_check (assertNotClaimedByOther user p ''POST_APPROVED'' meta) s
         (after_safety env p user confirmed ''POST_APPROVED'' meta
           (po_transition (poe_now env) user p PO_APPROVED ''POST_APPROVED'' meta clear_claim
             (\<lambda>updated s1.
                (Inr (updated, False),
                 po_emit (Notify ''POST_APPROVED'' (title_event p))
                  (po_emit (Audit ((audit_post user p ''POST_APPROVED''
                     (moves_diff p PO_APPROVED [(''involvesChild'', JBool (po_involvesChild p)),
                       (''childSafetyDualControlSatisfied'', if po_involvesChild p then JBool True else JUndefined)]))
                     \<lparr>ae_metadata := (''postType'', jtype p) # meta\<rparr>)) s1)))) s)))"

definition approve :: "post_env \<Rightarrow> current_user \<Rightarrow> jstring \<Rightarrow> bool option \<Rightarrow> bool \<Rightarrow> post_state
    \<Rightarrow> reviewed result \<times> post_state" where
  "approve env user pid confirmed bulk s = with_post pid s (\<lambda>p. approve_from env user p confirmed bulk s)"

definition requestChanges_from :: "post_env \<Rightarrow> current_user \<Rightarrow> post_row \<Rightarrow> jstring \<Rightarrow> post_state
    \<Rightarrow> post_row result \<times> post_state" where
  "requestChanges_from env user p message s =
     po_check (assertTransitionAllowed user p PO_CHANGES_REQUESTED ''POST_UPDATED'' []) s
      (po_check (assertNotClaimedByOther user p ''POST_UPDATED'' []) s
        (po_transition (poe_now env) user p PO_CHANGES_REQUESTED ''POST_UPDATED'' []
          (\<lambda>q. (clear_claim q)\<lparr>po_reviewNote := Some message\<rparr>)
          (\<lambda>updated s1. (Inr updated,
             po_emit (Notify ''POST_CHANGES_REQUESTED'' (post_event p @ [(''message'', JStr message)]))
              (po_emit (Audit ((audit_post user p ''POST_UPDATED'' (moves_diff p PO_CHANGES_REQUESTED []))
                 \<lparr>ae_reason := Some message, ae_metadata := post_meta p\<rparr>)) s1))) s))"

definition requestChanges :: "post_env \<Rightarrow> current_user \<Rightarrow> jstring \<Rightarrow> jstring \<Rightarrow> post_state \<Rightarrow> post_row result \<times> post_state" where
  "requestChanges env user pid message s = with_post pid s (\<lambda>p. requestChanges_from env user p message s)"

definition publish_from :: "post_env \<Rightarrow> current_user \<Rightarrow> post_row \<Rightarrow> post_state \<Rightarrow> post_row result \<times> post_state" where
  "publish_from env user p s =
     po_check (assertTransitionAllowed user p PO_PUBLISHED ''POST_PUBLISHED'' []) s
      (po_transition (poe_now env) user p PO_PUBLISHED ''POST_PUBLISHED'' [] id
        (\<lambda>updated s1. (Inr updated,
           po_emit (Audit ((audit_post user p ''POST_PUBLISHED'' (moves_diff p PO_PUBLISHED []))
               \<lparr>ae_metadata := post_meta p\<rparr>))
            (po_emit (Invalidate ''post'' (po_id p)) s1))) s)"

definition publish :: "post_env \<Rightarrow> current_user \<Rightarrow> jstring \<Rightarrow> post_state \<Rightarrow> post_row result \<times> post_state" where
  "publish env user pid s = with_post pid s (\<lambda>p. publish_from env user p s)"

definition maybeFlagUserForRejections :: "post_env \<Rightarrow> jstring \<Rightarrow> post_state \<Rightarrow> post_state" where
  "maybeFlagUserForRejections env userId s =
     (let since = poe_now env - poe_rejectWindowDays env * 24 * 60 * 60 * 1000;
          recent = count_where (\<lambda>p. po_userId p = userId \<and> po_status p = PO_REJECTED \<and> po_updatedAt p \<ge> since) (pst_posts s)
      in if recent \<ge> poe_rejectThreshold env
         then po_emit (Audit ((audit_base SYSTEM ''USER_AUTO_FLAGGED'' ''User'' userId)
           \<lparr>ae_targetUserId := Some userId, ae_reason := Some ''repeated_post_rejections'',
            ae_diff := [(''rejectionCount'', JInt (int recent)), (''windowDays'', JInt (poe_rejectWindowDays env)),
              (''result'', JStr ''flagged_for_review'')],
            ae_metadata := [(''threshold'', JInt (int (poe_rejectThreshold env)))]\<rparr>)) s
         else s)"

definition reject_from :: "post_env \<Rightarrow> current_user \<Rightarrow> post_row \<Rightarrow> jstring \<Rightarrow> bool \<Rightarrow> post_state
    \<Rightarrow> post_row result \<times> post_state" where
  "reject_from env user p reason bulk s =
     (let meta = [(''bulk'', JBool bulk)] in
      po_check (assertTransitionAllowed user p PO_REJECTED ''POST_REJECTED'' meta) s
       (po_check (assertNotClaimedByOther user p ''POST_REJECTED'' meta) s
         (po_transition (poe_now env) user p PO_REJECTED ''POST_REJECTED'' meta
           (\<lambda>q. (clear_claim q)\<lparr>po_reviewNote := Some reason\<rparr>)
           (\<lambda>updated s1. (Inr updated,
              po_emit (Notify ''POST_REJECTED'' (title_event p))
               (maybeFlagUserForRejections env (po_userId p)
                 (po_emit (Audit ((audit_post user p ''POST_REJECTED'' (moves_diff p PO_REJECTED []))
                    \<lparr>ae_reason := Some reason, ae_metadata := post_meta p @ meta\<rparr>)) s1)))) s)))"

definition reject :: "post_env \<Rightarrow> current_user \<Rightarrow> jstring \<Rightarrow> jstring \<Rightarrow> bool \<Rightarrow> post_state \<Rightarrow> post_row result \<times> post_state" where
  "reject env user pid reason bulk s = with_post pid s (\<lambda>p. reject_from env user p reason bulk s)"

definition unpublish_from :: "post_env \<Rightarrow> current_user \<Rightarrow> post_row \<Rightarrow> post_state \<Rightarrow> post_row result \<times> post_state" where
  "unpublish_from env user p s =
     po_check (assertTransitionAllowed user p PO_UNPUBLISHED ''POST_UNPUBLISHED'' []) s
      (po_transition (poe_now env) user p PO_UNPUBLISHED ''POST_UNPUBLISHED'' [] id
        (\<lambda>updated s1. (Inr updated,
           po_emit (Notify ''POST_UNPUBLISHED'' (post_event p))
            (po_emit (Audit ((audit_post user p ''POST_UNPUBLISHED'' (moves_diff p PO_UNPUBLISHED []))
                \<lparr>ae_metadata := post_meta p\<rparr>))
             (po_emit (Invalidate ''post'' (po_id p)) s1)))) s)"

definition unpublish :: "post_env \<Rightarrow> current_user \<Rightarrow> jstring \<Rightarrow> post_state \<Rightarrow> post_row result \<times> post_state" where
  "unpublish env user pid s = with_post pid s (\<lambda>p. unpublish_from env user p s)"

section \<open>Bulk operations\<close>

text \<open>Per id: the error message, \<open>None\<close> for success. A failing id does not stop the loop.\<close>

definition bulk_item :: "current_user \<Rightarrow> jstring \<Rightarrow> jstring \<Rightarrow> (post_state \<Rightarrow> 'a result \<times> post_state) \<Rightarrow> jstring
    \<Rightarrow> post_state \<Rightarrow> jstring option \<times> post_state" where
  "bulk_item user action childError op pid s =
     (case find_post pid s of
        None \<Rightarrow> (Some ''post_not_found'', s)
      | Some p \<Rightarrow>
        if po_involvesChild p
        then (Some childError, po_emit (emitBlockedAttempt DENIED INFO user p action childError [] [(''bulk'', JBool True)]) s)
        else (case op s of (Inl e, s1) \<Rightarrow> (Some (err_message e), s1) | (Inr _, s1) \<Rightarrow> (None, s1)))"

fun bulk_loop :: "(jstring \<Rightarrow> post_state \<Rightarrow> jstring option \<times> post_state) \<Rightarrow> jstring list \<Rightarrow> post_state
    \<Rightarrow> (jstring \<times> jstring option) list \<times> post_state" where
  "bulk_loop item [] s = ([], s)"
| "bulk_loop item (pid # ids) s =
     (let (r, s1) = item pid s; (rs, s2) = bulk_loop item ids s1 in ((pid, r) # rs, s2))"

definition bulkApprove :: "post_env \<Rightarrow> current_user \<Rightarrow> jstring list \<Rightarrow> post_state
    \<Rightarrow> (jstring \<times> jstring option) list \<times> post_state" where
  "bulkApprove env user = bulk_loop (\<lambda>pid. bulk_item user ''POST_APPROVED'' ''requires_individual_child_safety_review''
     (approve env user pid None True) pid)"

definition bulkReject :: "post_env \<Rightarrow> current_user \<Rightarrow> jstring list \<Rightarrow> jstring \<Rightarrow> post_state
    \<Rightarrow> (jstring \<times> jstring option) list \<times> post_state" where
  "bulkReject env user ids reason = bulk_loop (\<lambda>pid. bulk_item user ''POST_REJECTED'' ''requires_individual_review''
     (reject env user pid reason True) pid) ids"

end
