(* ===== verification/Post_Submission.thy ===== *)
theory Post_Submission
  imports Post_Review
begin

text \<open>
  What authors do with their posts, \<open>src/modules/core/post/service/post-submission.service.ts\<close>
  and the appeal of \<open>post-mine.service.ts\<close>: creating, editing, submitting, withdrawing,
  deleting and appealing, with the media limits.
\<close>

definition deleteMediaFiles :: "jstring list \<Rightarrow> post_state \<Rightarrow> post_state" where
  "deleteMediaFiles paths s = fold (\<lambda>f. po_emit (Purge f)) paths s"

section \<open>Creating\<close>

record create_post =
  cp_title :: "jstring option"
  cp_content :: jstring
  cp_type :: post_type
  cp_involvesChild :: "bool option"
  cp_media :: media_dto

definition insert_post :: "post_row \<Rightarrow> post_state \<Rightarrow> post_row result \<times> post_state" where
  "insert_post p s =
     (if (\<exists>q \<in> set (pst_posts s). po_id q = po_id p \<or>
           (po_idempotencyKey p \<noteq> None \<and> po_userId q = po_userId p \<and> po_idempotencyKey q = po_idempotencyKey p))
      then (Inl UniqueViolation, s)
      else (Inr p, s\<lparr>pst_posts := pst_posts s @ [p], pst_created := pst_created s + 1\<rparr>))"

definition new_post :: "post_env \<Rightarrow> jstring \<Rightarrow> create_post \<Rightarrow> post_status \<Rightarrow> media \<Rightarrow> int \<Rightarrow> jstring option \<Rightarrow> post_state \<Rightarrow> post_row" where
  "new_post env userId data status merged totalBytes key s =
     \<lparr>po_id = poe_newId env (pst_created s), po_userId = userId, po_title = cp_title data,
      po_content = cp_content data, po_type = cp_type data, po_status = status, po_media = merged,
      po_createdAt = poe_now env, po_updatedAt = poe_now env,
      po_involvesChild = or_else (cp_involvesChild data) False, po_reviewNote = None,
      po_idempotencyKey = key, po_claimedByUserId = None, po_claimedAt = None,
      po_firstConfirmedBy = None, po_firstConfirmedAt = None, po_mediaTotalBytes = totalBytes,
      po_ownerSuspendedAt = None, po_takedownReason = None, po_takedownAt = None, po_takedownById = None\<rparr>"

definition enforceCreateRateLimit :: "post_env \<Rightarrow> jstring \<Rightarrow> post_state \<Rightarrow> unit result" where
  "enforceCreateRateLimit env userId s =
     (case map po_createdAt (filter (\<lambda>p. po_userId p = userId) (pst_posts s)) of
        [] \<Rightarrow> Inr ()
      | t # ts \<Rightarrow>
        if poe_now env - fold max ts t < poe_cooldownSeconds env * 1000
        then Inl (BadRequest ''post_creation_rate_limited'') else Inr ())"

definition media_meta :: "media \<Rightarrow> int \<Rightarrow> (jstring \<times> jval) list" where
  "media_meta m totalBytes = [(''mediaCount'', JInt (int (length (collectMediaFields m)))), (''mediaTotalBytes'', JInt totalBytes)]"

definition create :: "post_env \<Rightarrow> jstring \<Rightarrow> create_post \<Rightarrow> jstring option \<Rightarrow> post_state \<Rightarrow> post_row result \<times> post_state" where
  "create env userId data key s =
     (case (if truthy key then find_where (\<lambda>p. po_userId p = userId \<and> po_idempotencyKey p = key) (pst_posts s) else None) of
        Some existing \<Rightarrow> (Inr existing, s)
      | None \<Rightarrow>
        (case enforceCreateRateLimit env userId s of
          Inl e \<Rightarrow> (Inl e, s)
        | Inr _ \<Rightarrow>
          let merged = merge_media (cp_media data) no_media in
          (case accept_media env merged (collectMediaFields merged) id of
            Inl e \<Rightarrow> (Inl e, s)
          | Inr totalBytes \<Rightarrow>
            (case insert_post (new_post env userId data PO_DRAFT merged totalBytes key s) s of
              (Inl e, s1) \<Rightarrow> (Inl e, s1)
            | (Inr p, s1) \<Rightarrow> (Inr p, po_emit (Audit ((audit_own_post userId p ''POST_CREATED''
                [(''status'', jstatus PO_DRAFT), (''result'', JStr ''success'')])
                \<lparr>ae_metadata := post_meta p @ media_meta merged totalBytes @
                   [(''idempotencyKeyProvided'', JBool (key \<noteq> None))]\<rparr>)) s1)))))"

definition createOfficial :: "post_env \<Rightarrow> current_user \<Rightarrow> create_post \<Rightarrow> bool option \<Rightarrow> bool option \<Rightarrow> post_state
    \<Rightarrow> post_row result \<times> post_state" where
  "createOfficial env actor data publishNow confirmed s =
     (let publishImmediately = or_else publishNow True;
          child = or_else (cp_involvesChild data) False
      in if publishImmediately \<and> child \<and> confirmed \<noteq> Some True
         then (Inl (BadRequest ''child_safety_confirmation_required''), s)
         else let merged = merge_media (cp_media data) no_media;
                  status = (if publishImmediately then PO_APPROVED else PO_PENDING)
              in (case accept_media env merged (collectMediaFields merged) id of
                Inl e \<Rightarrow> (Inl e, s)
              | Inr totalBytes \<Rightarrow>
                (case insert_post (new_post env (cu_id actor) data status merged totalBytes None s) s of
                  (Inl e, s1) \<Rightarrow> (Inl e, s1)
                | (Inr p, s1) \<Rightarrow>
                  let s2 = po_emit (Audit ((audit_base (resolveActorType (cu_roles actor)) ''POST_CREATED'' ''Post'' (po_id p))
                        \<lparr>ae_userId := Some (cu_id actor), ae_entityLabel := Some (postLabel p),
                         ae_diff := [(''official'', JBool True), (''status'', jstatus status), (''involvesChild'', JBool child),
                           (''childSafetyConfirmed'', if publishImmediately \<and> child then JBool True else JUndefined),
                           (''result'', JStr ''success'')],
                         ae_metadata := [(''postType'', jtype p), (''publishImmediately'', JBool publishImmediately)] @
                           media_meta merged totalBytes\<rparr>)) s1
                  in (Inr p, if publishImmediately then s2
                       else po_emit (Notify ''NEW_POST'' [(''postId'', JStr (po_id p)), (''userId'', JStr (cu_id actor))]) s2))))"

section \<open>Editing\<close>

record update_post =
  up_title :: "jstring option"
  up_content :: "jstring option"
  up_type :: "post_type option"
  up_involvesChild :: "bool option"
  up_media :: media_dto

definition apply_update :: "update_post \<Rightarrow> int \<Rightarrow> post_row \<Rightarrow> post_row" where
  "apply_update d totalBytes p = p\<lparr>po_title := (case up_title d of None \<Rightarrow> po_title p | Some t \<Rightarrow> Some t),
     po_content := or_else (up_content d) (po_content p), po_type := or_else (up_type d) (po_type p),
     po_involvesChild := or_else (up_involvesChild d) (po_involvesChild p),
     po_media := merge_media (up_media d) (po_media p), po_mediaTotalBytes := totalBytes\<rparr>"

definition opt_field :: "jstring \<Rightarrow> 'a option \<Rightarrow> jstring list" where
  "opt_field name x = (case x of None \<Rightarrow> [] | Some _ \<Rightarrow> [name])"

definition updated_fields :: "update_post \<Rightarrow> jstring list" where
  "updated_fields d = opt_field ''title'' (up_title d) @ opt_field ''content'' (up_content d) @
     opt_field ''type'' (up_type d) @ opt_field ''involvesChild'' (up_involvesChild d) @
     opt_field ''photo'' (md_photo (up_media d)) @ opt_field ''video'' (md_video (up_media d)) @
     opt_field ''audio'' (md_audio (up_media d)) @ opt_field ''pdf'' (md_pdf (up_media d)) @
     opt_field ''document'' (md_document (up_media d)) @ opt_field ''other'' (md_other (up_media d))"

definition updateMyPost_from :: "post_env \<Rightarrow> jstring \<Rightarrow> post_row \<Rightarrow> update_post \<Rightarrow> post_state \<Rightarrow> post_row result \<times> post_state" where
  "updateMyPost_from env userId existing data s =
     (if po_status existing \<notin> set OWNER_EDITABLE_STATUSES
      then (Inl (BadRequest ''post_cannot_be_edited_in_current_status''), s)
      else let (added, removed) = diffMediaFields (po_media existing) (up_media data);
               merged = merge_media (up_media data) (po_media existing)
           in (case accept_media env merged added
                     (\<lambda>addedBytes. max 0 (po_mediaTotalBytes existing + addedBytes - removed_bytes env removed)) of
             Inl e \<Rightarrow> (Inl e, s)
           | Inr totalBytes \<Rightarrow>
             if \<not> post_exists (po_id existing) s then (Inl (PlainError ''Record to update not found''), s)
             else let s1 = po_write (poe_now env) (po_id existing) (apply_update data totalBytes) s
                  in fetch_post (po_id existing) s1 (\<lambda>p. (Inr p,
                    po_emit (Audit ((audit_own_post userId p ''POST_UPDATED''
                        [(''updatedFields'', JArr (map JStr (updated_fields data))), (''result'', JStr ''success'')])
                      \<lparr>ae_metadata := [(''mediaAdded'', JInt (int (length added))),
                         (''mediaRemoved'', JInt (int (length removed))), (''mediaTotalBytes'', JInt totalBytes)]\<rparr>))
                     (deleteMediaFiles removed s1)))))"

definition updateMyPost :: "post_env \<Rightarrow> jstring \<Rightarrow> jstring \<Rightarrow> update_post \<Rightarrow> post_state \<Rightarrow> post_row result \<times> post_state" where
  "updateMyPost env userId pid data s = with_own_post userId pid s (\<lambda>p. updateMyPost_from env userId p data s)"

section \<open>Submitting, withdrawing, deleting\<close>

definition submitMyPost_from :: "post_env \<Rightarrow> jstring \<Rightarrow> post_row \<Rightarrow> post_state \<Rightarrow> post_row result \<times> post_state" where
  "submitMyPost_from env userId existing s =
     (if po_status existing \<notin> set OWNER_EDITABLE_STATUSES
      then (Inl (BadRequest ''post_cannot_be_submitted_in_current_status''), s)
      else if count_where (\<lambda>p. po_userId p = userId \<and> po_status p = PO_PENDING) (pst_posts s) \<ge> poe_maxPending env
      then (Inl (BadRequest ''too_many_pending_posts''), s)
      else if po_count (po_id existing) [po_status existing] s = 0
      then (Inl (BadRequest ''post_cannot_be_submitted_in_current_status''), s)
      else let s1 = po_move (poe_now env) (po_id existing) [po_status existing] (\<lambda>p. p\<lparr>po_status := PO_PENDING\<rparr>) s
           in fetch_post (po_id existing) s1 (\<lambda>p. (Inr p,
             po_emit (Notify ''NEW_POST'' [(''postId'', JStr (po_id p)), (''userId'', JStr userId)])
              (po_emit (Audit (audit_own_post userId p ''POST_UPDATED'' (moves_diff existing PO_PENDING []))) s1))))"

definition submitMyPost :: "post_env \<Rightarrow> jstring \<Rightarrow> jstring \<Rightarrow> post_state \<Rightarrow> post_row result \<times> post_state" where
  "submitMyPost env userId pid s = with_own_post userId pid s (\<lambda>p. submitMyPost_from env userId p s)"

definition cancelMyPost_from :: "post_env \<Rightarrow> jstring \<Rightarrow> post_row \<Rightarrow> post_state \<Rightarrow> post_row result \<times> post_state" where
  "cancelMyPost_from env userId existing s =
     (if po_status existing \<noteq> PO_PENDING \<or> po_count (po_id existing) [PO_PENDING] s = 0
      then (Inl (BadRequest ''only_pending_posts_can_be_withdrawn''), s)
      else let s1 = po_move (poe_now env) (po_id existing) [PO_PENDING] (\<lambda>p. p\<lparr>po_status := PO_DRAFT\<rparr>) s
           in fetch_post (po_id existing) s1 (\<lambda>p. (Inr p,
             po_emit (Audit ((audit_own_post userId p ''POST_UPDATED'' (moves_diff existing PO_DRAFT []))
               \<lparr>ae_reason := Some ''withdrawn_by_owner''\<rparr>)) s1)))"

definition cancelMyPost :: "post_env \<Rightarrow> jstring \<Rightarrow> jstring \<Rightarrow> post_state \<Rightarrow> post_row result \<times> post_state" where
  "cancelMyPost env userId pid s = with_own_post userId pid s (\<lambda>p. cancelMyPost_from env userId p s)"

text \<open>Deleting a post cascades to its flags and appeals.\<close>

definition delete_row :: "jstring \<Rightarrow> post_state \<Rightarrow> post_state" where
  "delete_row pid s = s\<lparr>pst_posts := filter (\<lambda>p. po_id p \<noteq> pid) (pst_posts s),
     pst_flags := filter (\<lambda>f. fl_postId f \<noteq> pid) (pst_flags s),
     pst_appeals := filter (\<lambda>a. ap_postId a \<noteq> pid) (pst_appeals s)\<rparr>"

definition deleteMyPost_from :: "jstring \<Rightarrow> post_row \<Rightarrow> post_state \<Rightarrow> jstring result \<times> post_state" where
  "deleteMyPost_from userId existing s =
     (if po_status existing \<noteq> PO_DRAFT then (Inl (BadRequest ''only_draft_posts_can_be_deleted''), s)
      else if \<not> post_exists (po_id existing) s then (Inl (PlainError ''Record to delete does not exist''), s)
      else let purge = collectMediaFields (po_media existing)
           in (Inr (po_id existing),
               po_emit (Audit ((audit_own_post userId existing ''POST_DELETED''
                   [(''previousStatus'', jstatus PO_DRAFT), (''result'', JStr ''success'')])
                 \<lparr>ae_metadata := [(''postType'', jtype existing), (''mediaFilesPurged'', JInt (int (length purge)))]\<rparr>))
                (deleteMediaFiles purge (delete_row (po_id existing) s))))"

definition deleteMyPost :: "jstring \<Rightarrow> jstring \<Rightarrow> post_state \<Rightarrow> jstring result \<times> post_state" where
  "deleteMyPost userId pid s = with_own_post userId pid s (\<lambda>p. deleteMyPost_from userId p s)"

section \<open>Appealing\<close>

definition appealMyPost :: "post_env \<Rightarrow> jstring \<Rightarrow> jstring \<Rightarrow> jstring \<Rightarrow> post_state \<Rightarrow> appeal_row result \<times> post_state" where
  "appealMyPost env userId pid message s = with_own_post userId pid s (\<lambda>p.
     let wasTakenDown = (po_status p = PO_UNPUBLISHED \<and> po_takedownAt p \<noteq> None);
         target = (if wasTakenDown then TARGET_TAKEDOWN else TARGET_REJECTION)
     in if po_status p \<noteq> PO_REJECTED \<and> \<not> wasTakenDown then (Inl (BadRequest ''post_not_appealable''), s)
        else if find_where (\<lambda>a. ap_postId a = pid \<and> ap_status a = APPEAL_OPEN) (pst_appeals s) \<noteq> None
        then (Inl (BadRequest ''appeal_already_open''), s)
        else let a = \<lparr>ap_id = poe_newId env (pst_created s), ap_postId = pid, ap_authorId = userId, ap_target = target,
                      ap_message = message, ap_status = APPEAL_OPEN, ap_decidedById = None, ap_decidedAt = None,
                      ap_decisionNote = None\<rparr>
             in if (\<exists>b \<in> set (pst_appeals s). ap_id b = ap_id a) then (Inl UniqueViolation, s)
                else (Inr a, po_emit (Audit ((audit_own_post userId p ''POST_APPEAL_SUBMITTED''
                    [(''appealId'', JStr (ap_id a)), (''result'', JStr ''appeal_open'')])
                    \<lparr>ae_reason := Some ''post_appeal_submitted'',
                     ae_metadata := [(''postType'', jtype p), (''appealTarget'',
                       JStr (if wasTakenDown then ''TAKEDOWN'' else ''REJECTION''))]\<rparr>))
                  (s\<lparr>pst_appeals := pst_appeals s @ [a], pst_created := pst_created s + 1\<rparr>)))"

end
