(* ===== verification/Post_Moderation.thy ===== *)
theory Post_Moderation
  imports Post_Submission
begin

text \<open>
  Moderation of published posts, \<open>src/modules/core/post/service/post-moderation.service.ts\<close>:
  suspension of an author, flags, takedowns and appeal decisions, and the retention job of
  \<open>post-retention.service.ts\<close>.
\<close>

section \<open>Suspension\<close>

definition handleUserSuspended :: "post_env \<Rightarrow> jstring \<Rightarrow> post_state \<Rightarrow> post_state" where
  "handleUserSuspended env userId s =
     (let now = poe_now env;
          pending = (\<lambda>p. po_userId p = userId \<and> po_status p = PO_PENDING);
          s1 = s\<lparr>pst_posts := update_where pending
                (\<lambda>p. p\<lparr>po_status := PO_DRAFT, po_ownerSuspendedAt := Some now, po_updatedAt := now\<rparr>) (pst_posts s)\<rparr>;
          unstamped = (\<lambda>p. po_userId p = userId \<and> po_status p \<in> set [PO_DRAFT, PO_CHANGES_REQUESTED] \<and>
                po_ownerSuspendedAt p = None);
          s2 = s1\<lparr>pst_posts := update_where unstamped
                (\<lambda>p. p\<lparr>po_ownerSuspendedAt := Some now, po_updatedAt := now\<rparr>) (pst_posts s1)\<rparr>
      in po_emit (Audit ((audit_base SYSTEM ''POST_UPDATED'' ''User'' userId)
           \<lparr>ae_targetUserId := Some userId, ae_reason := Some ''owner_account_suspended'',
            ae_diff := [(''result'', JStr ''success'')],
            ae_metadata := [(''pendingPostsWithdrawn'', JInt (int (count_where pending (pst_posts s)))),
              (''otherPostsTimestamped'', JInt (int (count_where unstamped (pst_posts s1))))]\<rparr>)) s2)"

section \<open>Flags\<close>

definition flagPost :: "post_env \<Rightarrow> current_user \<Rightarrow> jstring \<Rightarrow> jstring \<Rightarrow> jstring option \<Rightarrow> post_state
    \<Rightarrow> flag_row result \<times> post_state" where
  "flagPost env user pid reason details s =
     (case find_where (\<lambda>p. po_id p = pid \<and> po_status p = PO_PUBLISHED) (pst_posts s) of
        None \<Rightarrow> (Inl (NotFound ''post_not_found''), s)
      | Some p \<Rightarrow>
        if po_userId p = cu_id user then (Inl (BadRequest ''cannot_flag_own_post''), s)
        else if (\<exists>f \<in> set (pst_flags s). fl_postId f = pid \<and> fl_reporterId f = cu_id user)
        then (Inl (BadRequest ''post_already_flagged''), s)
        else let f = \<lparr>fl_id = poe_newId env (pst_created s), fl_postId = pid, fl_reporterId = cu_id user,
                      fl_reason = reason, fl_details = details, fl_status = FLAG_OPEN,
                      fl_resolvedById = None, fl_resolvedAt = None, fl_note = None\<rparr>
             in if (\<exists>g \<in> set (pst_flags s). fl_id g = fl_id f) then (Inl (BadRequest ''post_already_flagged''), s)
                else (Inr f, po_emit (Audit ((audit_post user p ''POST_FLAGGED''
                    [(''flagId'', JStr (fl_id f)), (''flagReason'', JStr reason), (''result'', JStr ''flag_open'')])
                    \<lparr>ae_reason := Some ''post_flagged'', ae_metadata := post_meta p\<rparr>))
                  (s\<lparr>pst_flags := pst_flags s @ [f], pst_created := pst_created s + 1\<rparr>)))"

definition resolveFlags :: "post_env \<Rightarrow> current_user \<Rightarrow> jstring \<Rightarrow> flag_status \<Rightarrow> jstring option \<Rightarrow> post_state
    \<Rightarrow> nat result \<times> post_state" where
  "resolveFlags env admin pid verdict note s = with_post pid s (\<lambda>p.
     let open_flag = (\<lambda>f. fl_postId f = pid \<and> fl_status f = FLAG_OPEN);
         n = count_where open_flag (pst_flags s)
     in if n = 0 then (Inl (BadRequest ''no_open_flags_on_post''), s)
        else (Inr n, po_emit (Audit ((audit_post admin p ''POST_FLAGS_RESOLVED''
            [(''flagOutcome'', JStr (if verdict = FLAG_DISMISSED then ''DISMISSED'' else ''ACTIONED'')),
             (''flagsResolved'', JInt (int n)), (''result'', JStr ''success'')])
            \<lparr>ae_reason := Some (or_else note ''post_flags_resolved''), ae_metadata := [(''postType'', jtype p)]\<rparr>))
          (s\<lparr>pst_flags := update_where open_flag
             (\<lambda>f. f\<lparr>fl_status := verdict, fl_note := note, fl_resolvedById := Some (cu_id admin),
                    fl_resolvedAt := Some (poe_now env)\<rparr>) (pst_flags s)\<rparr>)))"

section \<open>Takedowns and appeals\<close>

definition takedown_from :: "post_env \<Rightarrow> current_user \<Rightarrow> post_row \<Rightarrow> jstring \<Rightarrow> bool option \<Rightarrow> post_state
    \<Rightarrow> post_row result \<times> post_state" where
  "takedown_from env admin p reason notifyAuthor s =
     po_check (assertTransitionAllowed admin p PO_UNPUBLISHED ''POST_TAKEN_DOWN'' []) s
      (if po_status p \<noteq> PO_PUBLISHED then (Inl (BadRequest ''only_published_posts_can_be_taken_down''), s)
       else po_transition (poe_now env) admin p PO_UNPUBLISHED ''POST_TAKEN_DOWN'' []
         (\<lambda>q. q\<lparr>po_takedownReason := Some reason, po_takedownAt := Some (poe_now env), po_takedownById := Some (cu_id admin)\<rparr>)
         (\<lambda>updated s1.
            let s2 = po_emit (Invalidate ''post'' (po_id p)) s1;
                s3 = po_emit (Audit ((audit_post admin p ''POST_TAKEN_DOWN''
                       (moves_diff p PO_UNPUBLISHED [(''takedown'', JBool True)]))
                       \<lparr>ae_reason := Some reason, ae_severity := WARNING, ae_metadata := post_meta p\<rparr>)) s2
            in (Inr updated, if notifyAuthor = Some False then s3
                 else po_emit (Notify ''POST_UNPUBLISHED'' (post_event p @
                   [(''reason'', JStr reason), (''canAppeal'', JBool True)])) s3)) s)"

definition takedown :: "post_env \<Rightarrow> current_user \<Rightarrow> jstring \<Rightarrow> jstring \<Rightarrow> bool option \<Rightarrow> post_state
    \<Rightarrow> post_row result \<times> post_state" where
  "takedown env admin pid reason notifyAuthor s = with_post pid s (\<lambda>p. takedown_from env admin p reason notifyAuthor s)"

text \<open>
  The transaction of an appeal decision: the appeal row is claimed while open, then the post is moved
  outside the status table. The flag says whether the post became public again.
\<close>

definition apply_overturn :: "int \<Rightarrow> jstring \<Rightarrow> appeal_target \<Rightarrow> post_state \<Rightarrow> bool \<times> post_state" where
  "apply_overturn now pid target s =
     (case target of
        TARGET_REJECTION \<Rightarrow> (False, po_move now pid [PO_REJECTED] (\<lambda>p. p\<lparr>po_status := PO_PENDING, po_reviewNote := None\<rparr>) s)
      | TARGET_TAKEDOWN \<Rightarrow> (po_count pid [PO_UNPUBLISHED] s > 0,
          po_move now pid [PO_UNPUBLISHED] (\<lambda>p. p\<lparr>po_status := PO_PUBLISHED, po_takedownReason := None,
            po_takedownAt := None, po_takedownById := None\<rparr>) s))"

definition decide_tx :: "post_env \<Rightarrow> current_user \<Rightarrow> jstring \<Rightarrow> appeal_row \<Rightarrow> appeal_status \<Rightarrow> jstring \<Rightarrow> post_state
    \<Rightarrow> bool result \<times> post_state" where
  "decide_tx env admin pid appeal verdict note s =
     (let isOpen = claimable ap_id ap_status [APPEAL_OPEN] (ap_id appeal) in
      if count_where isOpen (pst_appeals s) = 0 then (Inl (BadRequest ''appeal_already_decided''), s)
      else let s1 = s\<lparr>pst_appeals := update_where isOpen
                 (\<lambda>a. a\<lparr>ap_status := verdict, ap_decisionNote := Some note, ap_decidedById := Some (cu_id admin),
                        ap_decidedAt := Some (poe_now env)\<rparr>) (pst_appeals s)\<rparr>
           in if verdict \<noteq> APPEAL_OVERTURNED then (Inr False, s1)
              else (case apply_overturn (poe_now env) pid (ap_target appeal) s1 of (restored, s2) \<Rightarrow> (Inr restored, s2)))"

definition decideAppeal :: "post_env \<Rightarrow> current_user \<Rightarrow> jstring \<Rightarrow> jstring \<Rightarrow> appeal_status \<Rightarrow> jstring \<Rightarrow> post_state
    \<Rightarrow> appeal_row result \<times> post_state" where
  "decideAppeal env admin pid appealId verdict note s = with_post pid s (\<lambda>p.
     case find_where (\<lambda>a. ap_id a = appealId \<and> ap_postId a = pid) (pst_appeals s) of
       None \<Rightarrow> (Inl (NotFound ''appeal_not_found''), s)
     | Some appeal \<Rightarrow>
       if ap_status appeal \<noteq> APPEAL_OPEN then (Inl (BadRequest ''appeal_already_decided''), s)
       else (case decide_tx env admin pid appeal verdict note s of
           (Inl e, s1) \<Rightarrow> (Inl e, s1)
         | (Inr restoredPublic, s1) \<Rightarrow>
           let decision = JStr (if verdict = APPEAL_OVERTURNED then ''OVERTURNED'' else ''UPHELD'');
               s2 = (if restoredPublic then po_emit (Invalidate ''post'' pid) s1 else s1);
               s3 = po_emit (Audit ((audit_post admin p ''POST_APPEAL_DECIDED''
                      [(''appealId'', JStr appealId), (''appealDecision'', decision), (''result'', JStr ''success'')])
                      \<lparr>ae_reason := Some note, ae_severity := WARNING,
                       ae_metadata := [(''postType'', jtype p), (''restoredPublic'', JBool restoredPublic),
                         (''appealTarget'', JStr (if ap_target appeal = TARGET_TAKEDOWN then ''TAKEDOWN'' else ''REJECTION''))]\<rparr>)) s2;
               s4 = po_emit (Notify ''POST_APPEAL_DECIDED'' (post_event p @ [(''appealId'', JStr appealId),
                      (''decision'', decision), (''note'', JStr note)])) s3
           in (case find_where (\<lambda>a. ap_id a = appealId) (pst_appeals s4) of
                 None \<Rightarrow> (Inl (PlainError ''No PostAppeal found''), s4) | Some a \<Rightarrow> (Inr a, s4))))"

section \<open>Retention\<close>

definition purge_one :: "jstring \<Rightarrow> post_row \<Rightarrow> post_state \<Rightarrow> post_state" where
  "purge_one reason p s =
     (if \<not> post_exists (po_id p) s then s
      else let files = collectMediaFields (po_media p)
           in po_emit (Audit ((audit_base SYSTEM ''POST_RETENTION_PURGED'' ''Post'' (po_id p))
                \<lparr>ae_reason := Some reason, ae_metadata := [(''mediaFiles'', JInt (int (length files)))]\<rparr>))
              (deleteMediaFiles files (delete_row (po_id p) s)))"

definition expired :: "post_status \<Rightarrow> int \<Rightarrow> post_env \<Rightarrow> post_state \<Rightarrow> post_row list" where
  "expired st days env s =
     filter (\<lambda>p. po_status p = st \<and> po_updatedAt p < poe_now env - days * 24 * 60 * 60 * 1000) (pst_posts s)"

definition purgeExpiredPosts :: "post_env \<Rightarrow> post_state \<Rightarrow> post_state" where
  "purgeExpiredPosts env s =
     (let s1 = fold (purge_one ''draft_ttl_expired'') (expired PO_DRAFT (poe_draftTtlDays env) env s) s
      in fold (purge_one ''rejected_retention_expired'') (expired PO_REJECTED (poe_rejectedRetentionDays env) env s1) s1)"

end
