(* ===== verification/Post_Safety.thy ===== *)
theory Post_Safety
  imports Post_Moderation
begin

text \<open>
  What the writes of the post services do to the post table, and the step relation of the component:
  an operation runs on a row that was read earlier and may be stale.
\<close>

section \<open>Frames\<close>

lemma po_emit_frame [simp]:
  "pst_posts (po_emit e s) = pst_posts s" "pst_flags (po_emit e s) = pst_flags s"
  "pst_appeals (po_emit e s) = pst_appeals s" "pst_created (po_emit e s) = pst_created s"
  by (simp_all add: po_emit_def)

lemma deleteMediaFiles_frame [simp]:
  "pst_posts (deleteMediaFiles fs s) = pst_posts s" "pst_appeals (deleteMediaFiles fs s) = pst_appeals s"
  by (induction fs arbitrary: s) (simp_all add: deleteMediaFiles_def)

lemma maybeFlag_frame [simp]:
  "pst_posts (maybeFlagUserForRejections env u s) = pst_posts s"
  by (simp add: maybeFlagUserForRejections_def Let_def)

lemma po_move_posts [simp]:
  "pst_posts (po_move now pid froms f s) =
     update_where (po_is pid froms) (\<lambda>p. (f p)\<lparr>po_updatedAt := now\<rparr>) (pst_posts s)"
  by (simp add: po_move_def)

lemma po_write_posts [simp]:
  "pst_posts (po_write now pid f s) = update_where (\<lambda>p. po_id p = pid) (\<lambda>p. (f p)\<lparr>po_updatedAt := now\<rparr>) (pst_posts s)"
  by (simp add: po_write_def)

lemmas lookup_defs = with_post_def with_own_post_def fetch_post_def

section \<open>How a table may change\<close>

text \<open>
  \<open>table_step R xs ys\<close>: every row that is in the table before and after is related by \<open>R\<close>,
  and rows are matched by their id.
\<close>

definition table_step :: "(post_row \<Rightarrow> post_row \<Rightarrow> bool) \<Rightarrow> post_row list \<Rightarrow> post_row list \<Rightarrow> bool" where
  "table_step R xs ys \<longleftrightarrow> (\<forall>pid q r. find_where (\<lambda>p. po_id p = pid) xs = Some q \<longrightarrow>
     find_where (\<lambda>p. po_id p = pid) ys = Some r \<longrightarrow> R q r)"

lemma table_stepD:
  "table_step R (pst_posts s) (pst_posts t) \<Longrightarrow> find_post pid s = Some q \<Longrightarrow> find_post pid t = Some r \<Longrightarrow> R q r"
  by (simp add: table_step_def find_post_def)

lemma table_step_refl: "(\<And>p. R p p) \<Longrightarrow> table_step R xs xs"
  by (simp add: table_step_def)

lemma table_step_update:
  assumes "\<And>p. P p \<Longrightarrow> R p (f p)" "\<And>p. \<not> P p \<Longrightarrow> R p p" "\<And>p. po_id (f p) = po_id p"
  shows "table_step R xs (update_where P f xs)"
  using assms by (auto simp: table_step_def find_update_key)

lemma table_step_append: "(\<And>p. R p p) \<Longrightarrow> table_step R xs (xs @ [p])"
  by (auto simp: table_step_def find_where_append split: option.splits)

lemma find_where_filter_id:
  "find_where (\<lambda>p. po_id p = pid) (filter (\<lambda>p. po_id p \<noteq> x) xs) =
     (if pid = x then None else find_where (\<lambda>p. po_id p = pid) xs)"
  by (induction xs) auto

lemma table_step_delete: "(\<And>p. R p p) \<Longrightarrow> table_step R xs (filter (\<lambda>p. po_id p \<noteq> x) xs)"
  by (simp add: table_step_def find_where_filter_id)

section \<open>Operations on rows read earlier\<close>

datatype post_op =
    OpClaim current_user post_row "jstring option" jstring
  | OpUpdateStatus current_user post_row post_status "bool option"
  | OpApprove current_user post_row "bool option" bool
  | OpRequestChanges current_user post_row jstring
  | OpPublish current_user post_row
  | OpReject current_user post_row jstring bool
  | OpUnpublish current_user post_row
  | OpCreate jstring create_post "jstring option"
  | OpCreateOfficial current_user create_post "bool option" "bool option"
  | OpUpdateMine jstring post_row update_post
  | OpSubmit jstring post_row
  | OpCancel jstring post_row
  | OpDelete jstring post_row
  | OpAppeal jstring jstring jstring
  | OpSuspend jstring
  | OpFlag current_user jstring jstring "jstring option"
  | OpResolveFlags current_user jstring flag_status "jstring option"
  | OpTakedown current_user post_row jstring "bool option"
  | OpDecide current_user jstring jstring appeal_status jstring
  | OpPurgeOne jstring post_row

fun exec_op :: "post_env \<Rightarrow> post_op \<Rightarrow> post_state \<Rightarrow> post_state" where
  "exec_op env (OpClaim u p who field) s = snd (change_claim env u p who field s)"
| "exec_op env (OpUpdateStatus u p st c) s = snd (updateStatus_from env u p st c s)"
| "exec_op env (OpApprove u p c b) s = snd (approve_from env u p c b s)"
| "exec_op env (OpRequestChanges u p m) s = snd (requestChanges_from env u p m s)"
| "exec_op env (OpPublish u p) s = snd (publish_from env u p s)"
| "exec_op env (OpReject u p m b) s = snd (reject_from env u p m b s)"
| "exec_op env (OpUnpublish u p) s = snd (unpublish_from env u p s)"
| "exec_op env (OpCreate u d k) s = snd (create env u d k s)"
| "exec_op env (OpCreateOfficial u d n c) s = snd (createOfficial env u d n c s)"
| "exec_op env (OpUpdateMine u p d) s = snd (updateMyPost_from env u p d s)"
| "exec_op env (OpSubmit u p) s = snd (submitMyPost_from env u p s)"
| "exec_op env (OpCancel u p) s = snd (cancelMyPost_from env u p s)"
| "exec_op env (OpDelete u p) s = snd (deleteMyPost_from u p s)"
| "exec_op env (OpAppeal u pid m) s = snd (appealMyPost env u pid m s)"
| "exec_op env (OpSuspend u) s = handleUserSuspended env u s"
| "exec_op env (OpFlag u pid r d) s = snd (flagPost env u pid r d s)"
| "exec_op env (OpResolveFlags u pid v n) s = snd (resolveFlags env u pid v n s)"
| "exec_op env (OpTakedown u p r n) s = snd (takedown_from env u p r n s)"
| "exec_op env (OpDecide u pid a v n) s = snd (decideAppeal env u pid a v n s)"
| "exec_op env (OpPurgeOne r p) s = purge_one r p s"

section \<open>Status moves\<close>

definition status_ok :: "post_row \<Rightarrow> post_row \<Rightarrow> bool" where
  "status_ok q r \<longleftrightarrow> po_status r = po_status q \<or> po_status r \<in> set (ALLOWED_POST_TRANSITIONS (po_status q))"

lemma status_ok_refl [simp]: "status_ok p p"
  by (simp add: status_ok_def)

lemma po_move_status:
  assumes "\<And>p. po_id (f p) = po_id p" "\<And>p. po_status p \<in> set froms \<Longrightarrow> po_status (f p) = to"
    "\<And>st. st \<in> set froms \<Longrightarrow> to \<in> set (ALLOWED_POST_TRANSITIONS st)"
  shows "table_step status_ok (pst_posts s) (pst_posts (po_move now pid froms f s))"
  unfolding po_move_posts
  by (rule table_step_update) (auto simp: status_ok_def po_is_def claimable_def assms)

lemma po_write_status:
  assumes "\<And>p. po_id (f p) = po_id p" "\<And>p. po_status (f p) = po_status p"
  shows "table_step status_ok (pst_posts s) (pst_posts (po_write now pid f s))"
  unfolding po_write_posts by (rule table_step_update) (auto simp: status_ok_def assms)

lemma po_transition_status:
  assumes "to \<in> set (ALLOWED_POST_TRANSITIONS (po_status p))" "\<And>q. po_id (f q) = po_id q"
    "\<And>u t. pst_posts (snd (done u t)) = pst_posts t"
  shows "table_step status_ok (pst_posts s) (pst_posts (snd (po_transition now user p to action meta f done s)))"
  using assms po_move_status [of "\<lambda>q. (f q)\<lparr>po_status := to\<rparr>" "[po_status p]" to s now "po_id p"]
  by (auto simp: po_transition_def fetch_post_def Let_def table_step_refl split: option.splits)

lemma after_safety_status:
  assumes "\<And>t. table_step status_ok (pst_posts t) (pst_posts (snd (rest t)))"
  shows "table_step status_ok (pst_posts s) (pst_posts (snd (after_safety env p user c action meta rest s)))"
proof -
  have "table_step status_ok (pst_posts s) (pst_posts (po_write now pid
      (\<lambda>q. q\<lparr>po_firstConfirmedBy := a, po_firstConfirmedAt := b\<rparr>) s))" for now pid a b
    by (rule po_write_status) simp_all
  then show ?thesis
    using assms [of s]
    by (auto simp: after_safety_def ensureChildSafetySatisfied_def fetch_post_def table_step_refl
        split: prod.splits sum.splits safety.splits option.splits if_splits)
qed

lemma transition_allowed: "assertTransitionAllowed user p to action meta = None \<longleftrightarrow>
    to \<in> set (ALLOWED_POST_TRANSITIONS (po_status p))"
  by (simp add: assertTransitionAllowed_def)

lemma po_check_status:
  assumes "c = None \<Longrightarrow> table_step status_ok (pst_posts s) (pst_posts (snd rest))"
  shows "table_step status_ok (pst_posts s) (pst_posts (snd (po_check c s rest)))"
  using assms by (auto simp: po_check_def table_step_refl split: option.splits)

lemmas review_defs = updateStatus_from_def approve_from_def requestChanges_from_def publish_from_def
  reject_from_def unpublish_from_def takedown_from_def

named_theorems status_steps "each operation moves statuses along the table"

lemma review_status [status_steps]:
  "table_step status_ok (pst_posts s) (pst_posts (snd (updateStatus_from env u p st c s)))"
  "table_step status_ok (pst_posts s) (pst_posts (snd (approve_from env u p c b s)))"
  "table_step status_ok (pst_posts s) (pst_posts (snd (requestChanges_from env u p m s)))"
  "table_step status_ok (pst_posts s) (pst_posts (snd (publish_from env u p s)))"
  "table_step status_ok (pst_posts s) (pst_posts (snd (reject_from env u p m b s)))"
  "table_step status_ok (pst_posts s) (pst_posts (snd (unpublish_from env u p s)))"
  "table_step status_ok (pst_posts s) (pst_posts (snd (takedown_from env u p m n s)))"
  by (auto simp: review_defs Let_def transition_allowed clear_claim_def table_step_refl
      intro!: po_check_status po_transition_status after_safety_status)

lemma claim_status [status_steps]:
  "table_step status_ok (pst_posts s) (pst_posts (snd (change_claim env u p who field s)))"
  unfolding change_claim_def
  by (rule po_check_status)
    (auto simp: fetch_post_def Let_def table_step_refl set_claim_def simp del: po_write_posts
      intro!: po_write_status split: option.splits)

lemma insert_status:
  "insert_post p s = (r, t) \<Longrightarrow> table_step status_ok (pst_posts s) (pst_posts t)"
  by (auto simp: insert_post_def table_step_refl table_step_append split: if_splits)

lemma create_status [status_steps]:
  "table_step status_ok (pst_posts s) (pst_posts (snd (create env u d k s)))"
  "table_step status_ok (pst_posts s) (pst_posts (snd (createOfficial env a d n c s)))"
  by (auto simp: create_def createOfficial_def Let_def table_step_refl dest: insert_status
      split: option.splits sum.splits prod.splits)

lemma apply_update_simps [simp]:
  "po_id (apply_update d n p) = po_id p" "po_status (apply_update d n p) = po_status p"
  "po_userId (apply_update d n p) = po_userId p" "po_firstConfirmedBy (apply_update d n p) = po_firstConfirmedBy p"
  by (simp_all add: apply_update_def)

lemma edit_status [status_steps]:
  "table_step status_ok (pst_posts s) (pst_posts (snd (updateMyPost_from env u p d s)))"
  by (auto simp: updateMyPost_from_def fetch_post_def Let_def table_step_refl simp del: po_write_posts
      intro!: po_write_status split: option.splits sum.splits prod.splits)

lemma submit_status [status_steps]:
  "table_step status_ok (pst_posts s) (pst_posts (snd (submitMyPost_from env u p s)))"
  "table_step status_ok (pst_posts s) (pst_posts (snd (cancelMyPost_from env u p s)))"
  by (auto simp: submitMyPost_from_def cancelMyPost_from_def OWNER_EDITABLE_STATUSES_def fetch_post_def Let_def
      table_step_refl simp del: po_move_posts intro!: po_move_status split: option.splits)

lemma delete_row_posts [simp]: "pst_posts (delete_row x s) = filter (\<lambda>p. po_id p \<noteq> x) (pst_posts s)"
  by (simp add: delete_row_def)

lemma delete_status [status_steps]:
  "table_step status_ok (pst_posts s) (pst_posts (snd (deleteMyPost_from u p s)))"
  "table_step status_ok (pst_posts s) (pst_posts (purge_one r p s))"
  by (auto simp: deleteMyPost_from_def purge_one_def Let_def table_step_refl table_step_delete)

lemma flag_appeal_posts [simp]:
  "pst_posts (snd (flagPost env u pid r d s)) = pst_posts s"
  "pst_posts (snd (resolveFlags env u pid v n s)) = pst_posts s"
  "pst_posts (snd (appealMyPost env i pid m s)) = pst_posts s"
  by (auto simp: flagPost_def resolveFlags_def appealMyPost_def lookup_defs Let_def split: option.splits)

lemma suspend_status [status_steps]:
  "table_step status_ok (pst_posts s) (pst_posts (handleUserSuspended env u s))"
  by (auto simp: handleUserSuspended_def Let_def table_step_def find_update_key status_ok_def)

definition status_ok_or_overturned :: "post_row \<Rightarrow> post_row \<Rightarrow> bool" where
  "status_ok_or_overturned q r \<longleftrightarrow> status_ok q r \<or> (po_status q = PO_REJECTED \<and> po_status r = PO_PENDING)"

lemma decide_status:
  "table_step status_ok_or_overturned (pst_posts s) (pst_posts (snd (decideAppeal env u pid a v n s)))"
  by (auto simp: decideAppeal_def decide_tx_def apply_overturn_def lookup_defs Let_def table_step_refl
      status_ok_or_overturned_def status_ok_def po_is_def claimable_def
      intro!: table_step_update split: option.splits appeal_target.splits prod.splits sum.splits if_splits)

end
