(* ===== verification/Post_Invariants.thy ===== *)
theory Post_Invariants
  imports Post_Safety
begin

text \<open>
  Invariants of the post table under operations that run one at a time: each operation sees the row
  as it is. The contract a row predicate has to satisfy is the locale \<open>row_invariant\<close>; it is
  interpreted for the two-person rule on posts about children and for the media limits.
\<close>

definition live :: "post_row \<Rightarrow> bool" where
  "live p \<longleftrightarrow> po_status p \<in> {PO_APPROVED, PO_PUBLISHED, PO_UNPUBLISHED}"

fun reads_fresh :: "post_op \<Rightarrow> post_state \<Rightarrow> bool" where
  "reads_fresh (OpClaim _ p _ _) s = (find_post (po_id p) s = Some p)"
| "reads_fresh (OpUpdateStatus _ p _ _) s = (find_post (po_id p) s = Some p)"
| "reads_fresh (OpApprove _ p _ _) s = (find_post (po_id p) s = Some p)"
| "reads_fresh (OpRequestChanges _ p _) s = (find_post (po_id p) s = Some p)"
| "reads_fresh (OpPublish _ p) s = (find_post (po_id p) s = Some p)"
| "reads_fresh (OpReject _ p _ _) s = (find_post (po_id p) s = Some p)"
| "reads_fresh (OpUnpublish _ p) s = (find_post (po_id p) s = Some p)"
| "reads_fresh (OpUpdateMine _ p _) s = (find_post (po_id p) s = Some p)"
| "reads_fresh (OpSubmit _ p) s = (find_post (po_id p) s = Some p)"
| "reads_fresh (OpCancel _ p) s = (find_post (po_id p) s = Some p)"
| "reads_fresh (OpDelete _ p) s = (find_post (po_id p) s = Some p)"
| "reads_fresh (OpTakedown _ p _ _) s = (find_post (po_id p) s = Some p)"
| "reads_fresh (OpPurgeOne _ p) s = (find_post (po_id p) s = Some p)"
| "reads_fresh _ s = True"

fun official_child :: "post_op \<Rightarrow> bool" where
  "official_child (OpCreateOfficial _ d n _) = (or_else n True \<and> or_else (cp_involvesChild d) False)"
| "official_child _ = False"

definition rows :: "(post_row \<Rightarrow> bool) \<Rightarrow> post_row list \<Rightarrow> bool" where
  "rows Q xs \<longleftrightarrow> distinct (map po_id xs) \<and> (\<forall>p \<in> set xs. Q p)"

lemma rows_update:
  assumes "rows Q xs" "\<And>p. po_id (f p) = po_id p" "\<And>p. p \<in> set xs \<Longrightarrow> P p \<Longrightarrow> Q p \<Longrightarrow> Q (f p)"
  shows "rows Q (update_where P f xs)"
  using assms map_update_where [of P po_id f xs] by (auto simp: rows_def in_update_where)

lemma rows_filter: "rows Q xs \<Longrightarrow> rows Q (filter P xs)"
  by (auto simp: rows_def distinct_map_filter)

lemma rows_unique:
  "rows Q (pst_posts s) \<Longrightarrow> find_post (po_id p) s = Some p \<Longrightarrow> q \<in> set (pst_posts s) \<Longrightarrow> po_id q = po_id p \<Longrightarrow> q = p"
  by (auto simp: rows_def find_post_def distinct_map dest!: find_where_SomeD dest: inj_onD)

lemma rows_found: "rows Q (pst_posts s) \<Longrightarrow> find_post pid s = Some p \<Longrightarrow> Q p"
  by (auto simp: rows_def find_post_def dest: find_where_SomeD)

lemma po_check_rows:
  assumes "rows Q (pst_posts s)" "c = None \<Longrightarrow> rows Q (pst_posts (snd rest))"
  shows "rows Q (pst_posts (snd (po_check c s rest)))"
  using assms by (auto simp: po_check_def split: option.splits)

lemma po_transition_rows:
  assumes "rows Q (pst_posts s)" "find_post (po_id p) s = Some p" "\<And>q. po_id (f q) = po_id q"
    "Q p \<Longrightarrow> Q ((f p)\<lparr>po_status := to, po_updatedAt := now\<rparr>)" "\<And>u t. pst_posts (snd (done u t)) = pst_posts t"
  shows "rows Q (pst_posts (snd (po_transition now user p to action meta f done s)))"
proof -
  have "rows Q (pst_posts (po_move now (po_id p) [po_status p] (\<lambda>q. (f q)\<lparr>po_status := to\<rparr>) s))"
    unfolding po_move_posts
    by (rule rows_update [OF assms(1)])
      (use assms rows_unique [OF assms(1,2)] in \<open>auto simp: po_is_def claimable_def\<close>)
  with assms show ?thesis by (auto simp: po_transition_def fetch_post_def Let_def split: option.splits)
qed

lemma after_safety_rows:
  assumes "rows Q (pst_posts s)" "find_post (po_id p) s = Some p"
    "Q p \<Longrightarrow> Q (p\<lparr>po_firstConfirmedBy := Some (cu_id user), po_firstConfirmedAt := Some (poe_now env), po_updatedAt := poe_now env\<rparr>)"
    "\<not> po_involvesChild p \<or> po_firstConfirmedBy p \<noteq> None \<Longrightarrow> rows Q (pst_posts (snd (rest s)))"
  shows "rows Q (pst_posts (snd (after_safety env p user c action meta rest s)))"
proof -
  have "rows Q (pst_posts (po_write (poe_now env) (po_id p)
      (\<lambda>q. q\<lparr>po_firstConfirmedBy := Some (cu_id user), po_firstConfirmedAt := Some (poe_now env)\<rparr>) s))"
    unfolding po_write_posts
    by (rule rows_update [OF assms(1)]) (use assms(3) rows_unique [OF assms(1,2)] in auto)
  then show ?thesis
    using assms(1,4)
    by (auto simp: after_safety_def ensureChildSafetySatisfied_def fetch_post_def truthy_def
        split: prod.splits sum.splits safety.splits option.splits if_splits)
qed

text \<open>
  The contract. \<open>keep\<close>: a row may change in everything but its child flag, media and size, may
  gain but not lose a first confirmation, and may become live only from a live row, or when no child
  is involved or a first confirmation exists. \<open>created\<close> and \<open>edited\<close>: rows whose media
  passed the checks. \<open>official\<close> tells whether official posts about children count as created.
\<close>

locale row_invariant =
  fixes env :: post_env and Q :: "post_row \<Rightarrow> bool" and official :: bool
  assumes keep: "Q p \<Longrightarrow> po_involvesChild r = po_involvesChild p \<Longrightarrow> po_media r = po_media p \<Longrightarrow>
      po_mediaTotalBytes r = po_mediaTotalBytes p \<Longrightarrow>
      po_firstConfirmedBy p \<noteq> None \<longrightarrow> po_firstConfirmedBy r \<noteq> None \<Longrightarrow>
      live r \<longrightarrow> live p \<or> \<not> po_involvesChild p \<or> po_firstConfirmedBy p \<noteq> None \<Longrightarrow> Q r"
    and created: "accept_media env m (collectMediaFields m) id = Inr n \<Longrightarrow> po_media r = m \<Longrightarrow>
      po_mediaTotalBytes r = n \<Longrightarrow> \<not> live r \<or> \<not> po_involvesChild r \<or> official \<Longrightarrow> Q r"
    and edited: "Q p \<Longrightarrow> accept_media env (merge_media d (po_media p)) added f = Inr n \<Longrightarrow>
      po_media r = merge_media d (po_media p) \<Longrightarrow> po_mediaTotalBytes r = n \<Longrightarrow> \<not> live r \<Longrightarrow> Q r"
begin

lemma review_rows:
  assumes "rows Q (pst_posts s)" "find_post (po_id p) s = Some p"
  shows "rows Q (pst_posts (snd (updateStatus_from env u p st c s)))"
    "rows Q (pst_posts (snd (approve_from env u p c b s)))"
    "rows Q (pst_posts (snd (requestChanges_from env u p m s)))"
    "rows Q (pst_posts (snd (publish_from env u p s)))"
    "rows Q (pst_posts (snd (reject_from env u p m b s)))"
    "rows Q (pst_posts (snd (unpublish_from env u p s)))"
    "rows Q (pst_posts (snd (takedown_from env u p m n s)))"
proof -
  note q = rows_found [OF assms]
  have live_to: "live p" if "to \<in> set (ALLOWED_POST_TRANSITIONS (po_status p))"
      "to = PO_PUBLISHED \<or> to = PO_UNPUBLISHED" for to
    using that by (cases "po_status p") (auto simp: live_def)
  show "rows Q (pst_posts (snd (updateStatus_from env u p st c s)))"
    using q live_to unfolding updateStatus_from_def Let_def
    by (intro po_check_rows)
      (auto simp: transition_allowed live_def intro!: po_transition_rows after_safety_rows assms elim: keep split: if_splits)
  show "rows Q (pst_posts (snd (approve_from env u p c b s)))"
    using q unfolding approve_from_def Let_def
    by (intro po_check_rows after_safety_rows po_transition_rows assms)
      (auto simp: clear_claim_def live_def elim!: keep)
  show "rows Q (pst_posts (snd (requestChanges_from env u p m s)))"
    using q unfolding requestChanges_from_def
    by (intro po_check_rows po_transition_rows assms) (auto simp: clear_claim_def live_def elim!: keep)
  show "rows Q (pst_posts (snd (publish_from env u p s)))"
    using q live_to unfolding publish_from_def
    by (intro po_check_rows po_transition_rows assms) (auto simp: transition_allowed elim!: keep)
  show "rows Q (pst_posts (snd (reject_from env u p m b s)))"
    using q unfolding reject_from_def Let_def
    by (intro po_check_rows po_transition_rows assms) (auto simp: clear_claim_def live_def elim!: keep)
  show "rows Q (pst_posts (snd (unpublish_from env u p s)))"
    using q live_to unfolding unpublish_from_def
    by (intro po_check_rows po_transition_rows assms) (auto simp: transition_allowed elim!: keep)
  show "rows Q (pst_posts (snd (takedown_from env u p m n s)))"
    using q live_to unfolding takedown_from_def
    by (intro po_check_rows) (auto simp: transition_allowed Let_def intro!: po_transition_rows assms elim: keep)
qed

lemma claim_rows:
  assumes "rows Q (pst_posts s)"
  shows "rows Q (pst_posts (snd (change_claim env u p who field s)))"
proof -
  have "rows Q (pst_posts (po_write (poe_now env) (po_id p) (set_claim (poe_now env) who) s))"
    unfolding po_write_posts by (rule rows_update [OF assms]) (auto simp: set_claim_def live_def elim!: keep)
  with assms show ?thesis
    unfolding change_claim_def by (intro po_check_rows) (auto simp: fetch_post_def Let_def split: option.splits)
qed

lemma insert_rows:
  assumes "rows Q (pst_posts s)" "insert_post p s = (r, t)" "Q p"
  shows "rows Q (pst_posts t)"
  using assms by (fastforce simp: insert_post_def rows_def split: if_splits)

lemma create_rows:
  assumes "rows Q (pst_posts s)"
  shows "rows Q (pst_posts (snd (create env u d k s)))"
    "official \<or> \<not> official_child (OpCreateOfficial a d n c) \<Longrightarrow>
     rows Q (pst_posts (snd (createOfficial env a d n c s)))"
  using assms
  by (auto simp: create_def createOfficial_def Let_def new_post_def live_def
      intro: created elim!: insert_rows split: option.splits sum.splits prod.splits)

lemma edit_rows:
  assumes "rows Q (pst_posts s)" "find_post (po_id p) s = Some p"
  shows "rows Q (pst_posts (snd (updateMyPost_from env u p d s)))"
proof -
  have "rows Q (pst_posts (po_write (poe_now env) (po_id p) (apply_update d n) s))"
    if "accept_media env (merge_media (up_media d) (po_media p)) added f = Inr n"
      "po_status p \<in> set OWNER_EDITABLE_STATUSES" for added f n
    unfolding po_write_posts
  proof (rule rows_update [OF assms(1)])
    fix q assume "q \<in> set (pst_posts s)" "po_id q = po_id p" "Q q"
    then have "q = p" using rows_unique [OF assms] by blast
    with \<open>Q q\<close> that show "Q ((apply_update d n q)\<lparr>po_updatedAt := poe_now env\<rparr>)"
      by (auto simp: apply_update_def live_def OWNER_EDITABLE_STATUSES_def elim!: edited)
  qed simp
  with assms(1) show ?thesis
    by (auto simp: updateMyPost_from_def fetch_post_def Let_def simp del: po_write_posts
        split: option.splits sum.splits prod.splits)
qed

lemma move_rows:
  assumes "rows Q (pst_posts s)" "\<And>q. po_id (f q) = po_id q"
    "\<And>q. Q q \<Longrightarrow> po_status q \<in> set froms \<Longrightarrow> Q ((f q)\<lparr>po_updatedAt := now\<rparr>)"
  shows "rows Q (pst_posts (po_move now pid froms f s))"
  unfolding po_move_posts
  by (rule rows_update [OF assms(1)]) (use assms in \<open>auto simp: po_is_def claimable_def\<close>)

lemma submit_rows:
  assumes "rows Q (pst_posts s)"
  shows "rows Q (pst_posts (snd (submitMyPost_from env u p s)))"
    "rows Q (pst_posts (snd (cancelMyPost_from env u p s)))"
  using assms
  by (auto simp: submitMyPost_from_def cancelMyPost_from_def fetch_post_def Let_def live_def simp del: po_move_posts
      intro!: move_rows elim: keep split: option.splits)

lemma delete_rows:
  assumes "rows Q (pst_posts s)"
  shows "rows Q (pst_posts (snd (deleteMyPost_from u p s)))" "rows Q (pst_posts (purge_one r p s))"
  using assms by (auto simp: deleteMyPost_from_def purge_one_def Let_def rows_filter)

lemma suspend_rows:
  assumes "rows Q (pst_posts s)"
  shows "rows Q (pst_posts (handleUserSuspended env u s))"
  unfolding handleUserSuspended_def Let_def
  by (auto intro!: rows_update assms simp: live_def elim: keep)

lemma decide_rows:
  assumes "rows Q (pst_posts s)"
  shows "rows Q (pst_posts (snd (decideAppeal env u pid a v n s)))"
  using assms
  by (auto simp: decideAppeal_def decide_tx_def apply_overturn_def lookup_defs Let_def live_def simp del: po_move_posts
      intro!: move_rows elim: keep split: option.splits appeal_target.splits prod.splits sum.splits if_splits)

theorem ops_keep_rows:
  assumes "reads_fresh op s" "official \<or> \<not> official_child op" "rows Q (pst_posts s)"
  shows "rows Q (pst_posts (exec_op env op s))"
  using assms
  by (cases op) (auto simp: review_rows claim_rows create_rows edit_rows submit_rows delete_rows suspend_rows decide_rows)

end

end
