(* ===== verification/Post_Properties.thy ===== *)
theory Post_Properties
  imports Post_Invariants
begin

text \<open>
  What the post services guarantee, with concrete runs, and three histories in which the two-person
  rule on posts about children is weaker than it is meant to be.
\<close>

section \<open>Invariants as instances\<close>

definition dual_ok :: "post_row \<Rightarrow> bool" where
  "dual_ok p \<longleftrightarrow> (live p \<and> po_involvesChild p \<longrightarrow> po_firstConfirmedBy p \<noteq> None)"

definition media_within :: "post_env \<Rightarrow> post_row \<Rightarrow> bool" where
  "media_within env p \<longleftrightarrow> length (m_photo (po_media p)) \<le> me_maxPhotos env \<and>
     length (m_video (po_media p)) \<le> me_maxVideos env \<and>
     length (m_audio (po_media p)) + length (m_pdf (po_media p)) + length (m_document (po_media p)) +
       length (m_other (po_media p)) \<le> me_maxOther env \<and>
     po_mediaTotalBytes p \<le> me_maxTotalBytes env"

lemma accept_media_within:
  "accept_media env m paths f = Inr n \<Longrightarrow> po_media r = m \<Longrightarrow> po_mediaTotalBytes r = n \<Longrightarrow> media_within env r"
  by (auto simp: accept_media_def media_within_def assertAttachmentCounts_def assertTotalBytes_def
      split: sum.splits if_splits)

interpretation dual: row_invariant env dual_ok False for env
  by unfold_locales (auto simp: dual_ok_def)

interpretation limits: row_invariant env "media_within env" True for env
  by unfold_locales (auto simp: media_within_def dest: accept_media_within)

interpretation ids: row_invariant env "\<lambda>_. True" True for env
  by unfold_locales auto

interpretation post_table: transition_table ALLOWED_POST_TRANSITIONS "\<lambda>st. st = PO_REJECTED"
  by unfold_locales simp

section \<open>A concrete site\<close>

definition site :: post_env where
  "site = \<lparr>me_maxFileSize = 50, me_allowedMime = [''image/png''], me_maxPhotos = 5, me_maxVideos = 1,
     me_maxOther = 2, me_maxTotalBytes = 100, me_exists = (\<lambda>_. True),
     me_stat = (\<lambda>_. Some (10, ''image/png'')), poe_now = 100000000, poe_cooldownSeconds = 60,
     poe_maxPending = 5, poe_rejectThreshold = 3, poe_rejectWindowDays = 7, poe_draftTtlDays = 30,
     poe_rejectedRetentionDays = 90, poe_newId = (\<lambda>n. ''post-'' @ show_nat n)\<rparr>"

definition no_dto :: media_dto where
  "no_dto = \<lparr>md_photo = None, md_video = None, md_audio = None, md_pdf = None, md_document = None, md_other = None\<rparr>"

definition child_post :: create_post where
  "child_post = \<lparr>cp_title = Some ''t'', cp_content = ''first text'', cp_type = AWARENESS,
     cp_involvesChild = Some True, cp_media = no_dto\<lparr>md_photo := Some [''a.png'']\<rparr>\<rparr>"

definition admin_a :: current_user where
  "admin_a = \<lparr>cu_id = ''a'', cu_roles = [''ADMIN'']\<rparr>"

definition admin_b :: current_user where
  "admin_b = \<lparr>cu_id = ''b'', cu_roles = [''ADMIN'']\<rparr>"

definition empty_posts :: post_state where
  "empty_posts = \<lparr>pst_posts = [], pst_flags = [], pst_appeals = [], pst_created = 0, pst_log = []\<rparr>"

definition drafted :: post_state where
  "drafted = snd (create site ''author'' child_post None empty_posts)"

definition submitted :: post_state where
  "submitted = snd (submitMyPost site ''author'' ''post-0'' drafted)"

definition confirmed_once :: post_state where
  "confirmed_once = snd (approve site admin_a ''post-0'' (Some True) False submitted)"

definition approved :: post_state where
  "approved = snd (approve site admin_b ''post-0'' (Some True) False confirmed_once)"

definition the_post :: "post_state \<Rightarrow> post_row" where
  "the_post s = hd (pst_posts s)"

section \<open>Properties\<close>

text \<open>
  C6. Whatever row an operation read and however stale it is, the status of a post changes only along
  \<open>ALLOWED_STATUS_TRANSITIONS\<close>; the one exception is a rejection overturned on appeal, which goes back
  to the review queue.
\<close>

theorem post_status_moves:
  assumes "find_post pid s = Some q" "find_post pid (exec_op env op s) = Some r"
  shows "po_status r = po_status q \<or> po_status r \<in> set (ALLOWED_POST_TRANSITIONS (po_status q)) \<or>
    (\<exists>u i a v n. op = OpDecide u i a v n \<and> po_status q = PO_REJECTED \<and> po_status r = PO_PENDING)"
proof (cases "\<exists>u i a v n. op = OpDecide u i a v n")
  case True
  then have "table_step status_ok_or_overturned (pst_posts s) (pst_posts (exec_op env op s))"
    using decide_status by auto
  from table_stepD [OF this assms] True show ?thesis by (auto simp: status_ok_or_overturned_def status_ok_def)
next
  case False
  then have "table_step status_ok (pst_posts s) (pst_posts (exec_op env op s))"
    by (cases op) (auto simp: status_steps table_step_refl)
  from table_stepD [OF this assms] show ?thesis by (auto simp: status_ok_def)
qed

theorem post_status_moves_witness:
  "po_status (the_post approved) = PO_APPROVED \<and>
   (PO_APPROVED = PO_PENDING \<or> PO_APPROVED \<in> set (ALLOWED_POST_TRANSITIONS PO_PENDING) \<or>
     (\<exists>u i a v n. OpApprove admin_b (the_post confirmed_once) (Some True) False = OpDecide u i a v n \<and>
        PO_PENDING = PO_REJECTED \<and> PO_APPROVED = PO_PENDING))"
proof -
  let ?op = "OpApprove admin_b (the_post confirmed_once) (Some True) False"
  have "find_post ''post-0'' confirmed_once = Some (the_post confirmed_once)" by code_simp
  moreover have "find_post ''post-0'' (exec_op site ?op confirmed_once) = Some (the_post approved)" by code_simp
  moreover have "po_status (the_post confirmed_once) = PO_PENDING" "po_status (the_post approved) = PO_APPROVED"
    by code_simp+
  ultimately show ?thesis using post_status_moves [of "''post-0''" confirmed_once _ site ?op "the_post approved"] by metis
qed

text \<open>
  C7. Two-person rule as an invariant: as long as each operation sees the current row, every approved,
  published or unpublished post about a child has a recorded first confirmation, whatever sequence of
  operations produced it, official posts about children apart.
\<close>

theorem dual_control_kept:
  assumes "reads_fresh op s" "\<not> official_child op" "distinct (map po_id (pst_posts s))" "\<forall>p \<in> set (pst_posts s). dual_ok p"
  shows "distinct (map po_id (pst_posts (exec_op env op s))) \<and> (\<forall>p \<in> set (pst_posts (exec_op env op s)). dual_ok p)"
  using dual.ops_keep_rows [OF assms(1), of env] assms(2-4) by (simp add: rows_def)

theorem dual_control_kept_witness:
  "dual_ok (the_post approved) \<and> po_status (the_post approved) = PO_APPROVED"
proof
  let ?op = "OpApprove admin_b (the_post confirmed_once) (Some True) False"
  have fresh: "reads_fresh ?op confirmed_once" by code_simp
  have ids: "distinct (map po_id (pst_posts confirmed_once))" by code_simp
  have ok: "\<forall>p \<in> set (pst_posts confirmed_once). dual_ok p" by code_simp
  have "exec_op site ?op confirmed_once = approved" by code_simp
  moreover have "the_post approved \<in> set (pst_posts approved)" by code_simp
  ultimately show "dual_ok (the_post approved)"
    using dual_control_kept [OF fresh _ ids ok, of site] by simp
  show "po_status (the_post approved) = PO_APPROVED" by code_simp
qed

text \<open>
  C8. Approving a post about a child: it becomes approved only when the caller confirmed, someone else
  had confirmed before, the post was pending and no other administrator holds it; the first
  confirmation is recorded without changing the status.
\<close>

theorem approve_child_outcome:
  assumes "find_post pid s = Some p" "po_involvesChild p" "approve env user pid confirmed bulk s = (Inr (r, awaiting), t)"
  shows "confirmed = Some True \<and> po_status p = PO_PENDING \<and>
    (if awaiting then \<not> truthy (po_firstConfirmedBy p) \<and> po_status r = PO_PENDING \<and> po_firstConfirmedBy r = Some (cu_id user)
     else po_status r = PO_APPROVED \<and> (\<exists>first. po_firstConfirmedBy p = Some first \<and> first \<noteq> cu_id user)) \<and>
    (\<not> truthy (po_claimedByUserId p) \<or> po_claimedByUserId p = Some (cu_id user))"
proof -
  have id: "po_id p = pid" using assms(1) by (auto simp: find_post_def dest: find_where_SomeD)
  have pending: "PO_APPROVED \<in> set (ALLOWED_POST_TRANSITIONS st) \<longleftrightarrow> st = PO_PENDING" for st by (cases st) auto
  show ?thesis
    using assms id
    by (auto simp: approve_def approve_from_def with_post_def fetch_post_def po_check_def assertTransitionAllowed_def
        assertNotClaimedByOther_def after_safety_def ensureChildSafetySatisfied_def po_transition_def Let_def pending
        truthy_def find_post_def find_update_key po_is_def claimable_def clear_claim_def
        split: option.splits if_splits prod.splits sum.splits)
qed

theorem approve_child_outcome_witness:
  "\<exists>first. po_firstConfirmedBy (the_post confirmed_once) = Some first \<and> first \<noteq> cu_id admin_b"
proof -
  let ?a = "approve site admin_b ''post-0'' (Some True) False confirmed_once"
  have "find_post ''post-0'' confirmed_once = Some (the_post confirmed_once)" by code_simp
  moreover have "po_involvesChild (the_post confirmed_once)" by code_simp
  moreover have "?a = (Inr (the_post approved, False), approved)" by code_simp
  ultimately show ?thesis using approve_child_outcome by fastforce
qed

text \<open>
  The limits on attachments hold for every post at all times: an operation that sees the current
  row never leaves a post with more photos, videos or other files, or more bytes, than configured.
\<close>

theorem media_limits_kept:
  assumes "reads_fresh op s" "distinct (map po_id (pst_posts s))" "\<forall>p \<in> set (pst_posts s). media_within env p"
  shows "\<forall>p \<in> set (pst_posts (exec_op env op s)). media_within env p"
  using limits.ops_keep_rows [OF assms(1), of env] assms(2-3) by (simp add: rows_def)

theorem media_limits_kept_witness:
  "list_all (media_within site) (pst_posts (exec_op site (OpCreate ''author'' child_post None) empty_posts))"
  unfolding list_all_iff by (rule media_limits_kept) (simp_all add: empty_posts_def)

text \<open>
  A claimed post is protected: while one administrator holds it, approving, rejecting, requesting
  changes, setting a status, claiming or releasing it by another one fails and changes no post.
\<close>

theorem claimed_posts_protected:
  assumes "find_post pid s = Some p" "po_claimedByUserId p = Some holder" "holder \<noteq> []" "holder \<noteq> cu_id user"
  shows "isl (fst (approve env user pid c b s)) \<and> pst_posts (snd (approve env user pid c b s)) = pst_posts s \<and>
    isl (fst (reject env user pid m b s)) \<and> pst_posts (snd (reject env user pid m b s)) = pst_posts s \<and>
    isl (fst (requestChanges env user pid m s)) \<and> pst_posts (snd (requestChanges env user pid m s)) = pst_posts s \<and>
    isl (fst (updateStatus env user pid st c s)) \<and> pst_posts (snd (updateStatus env user pid st c s)) = pst_posts s \<and>
    isl (fst (claimPost env user pid s)) \<and> pst_posts (snd (claimPost env user pid s)) = pst_posts s \<and>
    isl (fst (unclaimPost env user pid s)) \<and> pst_posts (snd (unclaimPost env user pid s)) = pst_posts s"
  using assms
  by (auto simp: approve_def reject_def requestChanges_def updateStatus_def claimPost_def unclaimPost_def
      approve_from_def reject_from_def requestChanges_from_def updateStatus_from_def change_claim_def
      with_post_def po_check_def assertNotClaimedByOther_def truthy_def Let_def split: option.splits)

theorem claimed_posts_protected_witness:
  "isl (fst (reject site admin_b ''post-0'' ''m'' False (snd (claimPost site admin_a ''post-0'' submitted))))"
proof -
  let ?s = "snd (claimPost site admin_a ''post-0'' submitted)"
  have "find_post ''post-0'' ?s = Some (the_post ?s)" by code_simp
  moreover have "po_claimedByUserId (the_post ?s) = Some ''a''" by code_simp
  moreover have "''a'' \<noteq> cu_id admin_b" by (simp add: admin_b_def)
  ultimately show ?thesis using claimed_posts_protected [of "''post-0''" ?s "the_post ?s" "''a''" admin_b] by blast
qed

lemma po_transition_others:
  assumes "q \<in> set (pst_posts s)" "po_id q \<noteq> po_id p" "\<And>u t. pst_posts (snd (done u t)) = pst_posts t"
  shows "q \<in> set (pst_posts (snd (po_transition now user p to action meta f done s)))"
  using assms
  by (auto simp: po_transition_def fetch_post_def Let_def in_update_where po_is_def claimable_def
      intro!: bexI [of _ q] split: option.splits)

lemma review_others:
  assumes "q \<in> set (pst_posts s)" "po_id q \<noteq> po_id p" "\<not> po_involvesChild p"
  shows "q \<in> set (pst_posts (snd (approve_from env user p c b s)))"
    "q \<in> set (pst_posts (snd (reject_from env user p m b s)))"
  using assms
  by (auto simp: approve_from_def reject_from_def po_check_def after_safety_def ensureChildSafetySatisfied_def Let_def
      intro!: po_transition_others split: option.splits)

lemma bulk_loop_inv:
  assumes "I s" "\<And>pid s. I s \<Longrightarrow> I (snd (item pid s))"
  shows "I (snd (bulk_loop item ids s))"
  using assms(1) by (induction ids arbitrary: s) (auto simp: Let_def split: prod.splits dest: assms(2), metis assms(2) snd_conv)

definition keeps_row :: "post_row \<Rightarrow> post_state \<Rightarrow> bool" where
  "keeps_row q s \<longleftrightarrow> rows (\<lambda>_. True) (pst_posts s) \<and> q \<in> set (pst_posts s)"

lemma bulk_item_keeps:
  assumes "keeps_row q s" "po_involvesChild q"
    "\<And>p. find_post pid s = Some p \<Longrightarrow> \<not> po_involvesChild p \<Longrightarrow> po_id q \<noteq> po_id p \<Longrightarrow> keeps_row q (snd (act s))"
  shows "keeps_row q (snd (bulk_item user action e act pid s))"
proof (cases "find_post pid s")
  case None
  with assms(1) show ?thesis by (simp add: bulk_item_def)
next
  case (Some p)
  then have p: "find_post (po_id p) s = Some p" by (auto simp: find_post_def dest: find_where_SomeD)
  then have "po_id q \<noteq> po_id p" if "\<not> po_involvesChild p"
    using rows_unique [OF _ p, of _ q] assms(1,2) that by (auto simp: keeps_row_def)
  then have "\<not> po_involvesChild p \<Longrightarrow> keeps_row q (snd (act s))" using assms(3) [OF Some] by blast
  with Some assms(1) show ?thesis
    by (auto simp: bulk_item_def keeps_row_def split: prod.splits sum.splits)
qed

text \<open>
  Bulk approval and bulk rejection never change a post about a child, whatever ids are listed.
\<close>

theorem bulk_never_touches_children:
  assumes "distinct (map po_id (pst_posts s))" "q \<in> set (pst_posts s)" "po_involvesChild q"
  shows "q \<in> set (pst_posts (snd (bulkApprove env user pids s))) \<and> q \<in> set (pst_posts (snd (bulkReject env user pids reason s)))"
proof -
  have start: "keeps_row q s" using assms by (simp add: keeps_row_def rows_def)
  have fresh: "find_post pid t = Some p \<Longrightarrow> find_post (po_id p) t = Some p" for pid t p
    by (auto simp: find_post_def dest: find_where_SomeD)
  have "keeps_row q (snd (bulkApprove env user pids s))"
    unfolding bulkApprove_def
    by (rule bulk_loop_inv [where I = "keeps_row q", OF start], rule bulk_item_keeps [OF _ assms(3)])
      (auto simp: keeps_row_def approve_def with_post_def ids.review_rows fresh review_others)
  moreover have "keeps_row q (snd (bulkReject env user pids reason s))"
    unfolding bulkReject_def
    by (rule bulk_loop_inv [where I = "keeps_row q", OF start], rule bulk_item_keeps [OF _ assms(3)])
      (auto simp: keeps_row_def reject_def with_post_def ids.review_rows fresh review_others)
  ultimately show ?thesis by (simp add: keeps_row_def)
qed

theorem bulk_never_touches_children_witness:
  "the_post submitted \<in> set (pst_posts (snd (bulkApprove site admin_a [''post-0''] submitted)))"
proof -
  have "distinct (map po_id (pst_posts submitted))" "the_post submitted \<in> set (pst_posts submitted)"
    "po_involvesChild (the_post submitted)" by code_simp+
  from bulk_never_touches_children [OF this] show ?thesis by blast
qed

lemma purge_one_posts: "pst_posts (purge_one reason p s) = filter (\<lambda>q. po_id q \<noteq> po_id p) (pst_posts s)"
proof (cases "post_exists (po_id p) s")
  case False
  then have "\<forall>q \<in> set (pst_posts s). po_id q \<noteq> po_id p"
    by (simp add: post_exists_def find_post_def find_where_None_iff)
  with False show ?thesis by (simp add: purge_one_def filter_id_conv)
qed (simp add: purge_one_def Let_def)

lemma purge_fold_posts:
  "pst_posts (fold (purge_one reason) ps s) = filter (\<lambda>q. po_id q \<notin> po_id ` set ps) (pst_posts s)"
  by (induction ps arbitrary: s) (auto simp: purge_one_posts intro!: filter_cong)

lemma id_in_expired:
  "distinct (map po_id (pst_posts s)) \<Longrightarrow> q \<in> set (pst_posts s) \<Longrightarrow>
   po_id q \<in> po_id ` set (expired st days env s) \<longleftrightarrow> q \<in> set (expired st days env s)"
  by (auto simp: expired_def distinct_map dest: inj_onD)

text \<open>
  The retention job deletes exactly the drafts and rejected posts that have been untouched longer
  than configured, and nothing else.
\<close>

theorem purge_exact:
  assumes "distinct (map po_id (pst_posts s))"
  shows "pst_posts (purgeExpiredPosts env s) =
    filter (\<lambda>p. \<not> (po_status p = PO_DRAFT \<and> po_updatedAt p < poe_now env - poe_draftTtlDays env * 86400000) \<and>
      \<not> (po_status p = PO_REJECTED \<and> po_updatedAt p < poe_now env - poe_rejectedRetentionDays env * 86400000)) (pst_posts s)"
proof -
  have pass: "pst_posts (fold (purge_one reason) (expired st days env t) t) =
      filter (\<lambda>p. \<not> (po_status p = st \<and> po_updatedAt p < poe_now env - days * 86400000)) (pst_posts t)"
    if "distinct (map po_id (pst_posts t))" for reason st days t
    unfolding purge_fold_posts by (rule filter_cong) (simp_all add: id_in_expired [OF that], simp add: expired_def mult.commute)
  let ?s1 = "fold (purge_one ''draft_ttl_expired'') (expired PO_DRAFT (poe_draftTtlDays env) env s) s"
  have "distinct (map po_id (pst_posts ?s1))" using assms by (simp add: pass distinct_map_filter)
  with assms show ?thesis
    by (auto simp: purgeExpiredPosts_def Let_def pass intro!: filter_cong)
qed

theorem purge_exact_witness:
  "pst_posts (purgeExpiredPosts (site\<lparr>poe_now := 100000000 + 31 * 86400000\<rparr>) drafted) = []"
proof -
  have "distinct (map po_id (pst_posts drafted))" by code_simp
  from purge_exact [OF this, of "site\<lparr>poe_now := 100000000 + 31 * 86400000\<rparr>"] show ?thesis
    by (simp add: filter_empty_conv) code_simp
qed

lemma decided_once:
  assumes "verdict \<noteq> APPEAL_OPEN"
  shows "count_where (claimable ap_id ap_status [APPEAL_OPEN] i)
    (update_where (claimable ap_id ap_status [APPEAL_OPEN] i)
      (\<lambda>a. a\<lparr>ap_status := verdict, ap_decisionNote := note, ap_decidedById := who, ap_decidedAt := t\<rparr>) xs) = 0"
proof -
  have "guarded_table ap_id ap_status [APPEAL_OPEN]
      (\<lambda>a. a\<lparr>ap_status := verdict, ap_decisionNote := note, ap_decidedById := who, ap_decidedAt := t\<rparr>)"
    using assms by unfold_locales auto
  then show ?thesis by (rule guarded_table.claimed_once)
qed

text \<open>
  An appeal is decided once: after one decision went through, every later decision on the same
  appeal is refused and changes nothing.
\<close>

theorem appeal_decided_once:
  assumes "decide_tx env admin pid appeal verdict note s = (Inr restored, t)" "verdict \<noteq> APPEAL_OPEN"
  shows "decide_tx env' admin' pid' appeal verdict' note' t = (Inl (BadRequest ''appeal_already_decided''), t)"
proof -
  have "pst_appeals (po_move now i froms f u) = pst_appeals u" for now i froms f u by (simp add: po_move_def)
  with assms decided_once [OF assms(2)] show ?thesis
    by (auto simp: decide_tx_def apply_overturn_def Let_def split: if_splits appeal_target.splits prod.splits)
qed

definition rejected :: post_state where
  "rejected = snd (appealMyPost site ''author'' ''post-0'' ''please look again''
     (snd (reject site admin_a ''post-0'' ''no'' False submitted)))"

theorem appeal_decided_once_witness:
  "fst (decide_tx site admin_b ''post-0'' (hd (pst_appeals rejected)) APPEAL_UPHELD ''n''
     (snd (decide_tx site admin_a ''post-0'' (hd (pst_appeals rejected)) APPEAL_OVERTURNED ''y'' rejected))) =
   Inl (BadRequest ''appeal_already_decided'')"
proof -
  let ?d = "decide_tx site admin_a ''post-0'' (hd (pst_appeals rejected)) APPEAL_OVERTURNED ''y'' rejected"
  have "fst ?d = Inr False" by code_simp
  then have "?d = (Inr False, snd ?d)" by (simp add: prod_eq_iff)
  from appeal_decided_once [OF this] show ?thesis by simp
qed

definition plain_post :: create_post where
  "plain_post = child_post\<lparr>cp_involvesChild := Some False\<rparr>"

definition late_edit :: update_post where
  "late_edit = \<lparr>up_title = None, up_content = Some ''other text'', up_type = None, up_involvesChild = Some True, up_media = no_dto\<rparr>"

definition plain_draft :: post_state where
  "plain_draft = snd (create site ''author'' plain_post None empty_posts)"

definition plain_approved :: post_state where
  "plain_approved = snd (approve site admin_a ''post-0'' None False (snd (submitMyPost site ''author'' ''post-0'' plain_draft)))"

text \<open>
  An edit is not tied to the status it was checked against: an edit that read the draft and writes
  after the post was submitted and approved changes the text of the approved post and marks it as
  being about a child without any confirmation.
\<close>

theorem stale_edit_changes_approved_post:
  "po_status (the_post plain_approved) = PO_APPROVED \<and> po_content (the_post plain_approved) = ''first text'' \<and>
   (let p = the_post (exec_op site (OpUpdateMine ''author'' (the_post plain_draft) late_edit) plain_approved)
    in po_status p = PO_APPROVED \<and> po_content p = ''other text'' \<and> po_involvesChild p \<and> po_firstConfirmedBy p = None)"
  by code_simp

definition resubmitted :: post_state where
  "resubmitted = snd (submitMyPost site ''author'' ''post-0''
     (snd (updateMyPost site ''author'' ''post-0'' (late_edit\<lparr>up_involvesChild := None\<rparr>)
       (snd (requestChanges site admin_b ''post-0'' ''rewrite'' confirmed_once)))))"

text \<open>
  The first confirmation is never withdrawn: it survives a request for changes, a new text and a
  new submission, so one further confirmation approves a text the first administrator never saw.
\<close>

theorem confirmation_outlives_edit:
  "po_content (the_post confirmed_once) = ''first text'' \<and> po_content (the_post resubmitted) = ''other text'' \<and>
   po_firstConfirmedBy (the_post resubmitted) = Some ''a'' \<and>
   po_status (the_post (snd (approve site admin_b ''post-0'' (Some True) False resubmitted))) = PO_APPROVED"
  by code_simp

end
