(* ===== verification/Report_Data.thy ===== *)
theory Report_Data
  imports Access
begin

text \<open>
  Incident reports: the rows of \<open>report\<close> and of its history tables
  (\<open>prisma/schema/report.prisma\<close>), the status table of
  \<open>src/modules/core/report/service/report.constants.ts\<close> and the access rules, lookups and the
  guarded transition of \<open>report-common.service.ts\<close>.
\<close>

section \<open>Rows\<close>

datatype report_status = RS_PENDING | RS_RECEIVED | RS_UNDER_REVIEW | RS_ASSIGNED | RS_IN_PROGRESS | RS_ESCALATED
  | RS_CLOSED | RS_UNABLE_TO_VERIFY | RS_REJECTED

datatype report_category = HARASSMENT | ABUSE | FRAUD | THREAT | DISCRIMINATION | SAFETY_CONCERN | OTHER_CATEGORY

datatype report_priority = RP_LOW | RP_MEDIUM | RP_HIGH | RP_CRITICAL

datatype report_sensitivity = SENS_STANDARD | SENS_RESTRICTED | SENS_CHILD_INVOLVED

datatype resolution_outcome = RESOLVED | NO_ACTION | REFERRED | UNFOUNDED

record report =
  r_id :: jstring
  r_userId :: "jstring option"
  r_caseReference :: jstring
  r_status :: report_status
  r_createdAt :: int
  r_updatedAt :: int
  r_assignedToId :: "jstring option"
  r_category :: report_category
  r_priority :: report_priority
  r_sensitivity :: report_sensitivity
  r_assignedTeamId :: "jstring option"
  r_isAnonymous :: bool
  r_reporterUpdatedAt :: int
  r_dueAt :: "int option"
  r_lastActivityAt :: int
  r_closedAt :: "int option"
  r_resolutionOutcome :: "resolution_outcome option"
  r_resolutionSummary :: "jstring option"
  r_resolvedById :: "jstring option"
  r_archivedAt :: "int option"
  r_deletedAt :: "int option"
  r_mergedIntoId :: "jstring option"

record access_grant =
  g_reportId :: jstring
  g_adminId :: jstring
  g_expiresAt :: "int option"
  g_revokedAt :: "int option"

record status_history =
  sh_reportId :: jstring
  sh_fromStatus :: "report_status option"
  sh_toStatus :: report_status
  sh_changedById :: "jstring option"
  sh_note :: "jstring option"

record assignment_history =
  ah_reportId :: jstring
  ah_assignedToId :: "jstring option"
  ah_assignedById :: "jstring option"
  ah_note :: "jstring option"

record escalation =
  es_id :: jstring
  es_reportId :: jstring
  es_createdAt :: int
  es_deEscalatedAt :: "int option"
  es_deEscalatedById :: "jstring option"
  es_deEscalationReason :: "jstring option"

record revision =
  rv_reportId :: jstring
  rv_editedById :: jstring
  rv_changes :: "(jstring \<times> jval) list"

record report_user =
  ru_id :: jstring
  ru_name :: "jstring option"
  ru_roles :: "jstring list"

record report_state =
  rs_reports :: "report list"
  rs_users :: "report_user list"
  rs_grants :: "access_grant list"
  rs_statusHistory :: "status_history list"
  rs_assignmentHistory :: "assignment_history list"
  rs_escalations :: "escalation list"
  rs_revisions :: "revision list"
  rs_log :: "effect list"

record report_env =
  re_now :: int
  re_rejectThreshold :: nat
  re_rejectWindowDays :: int

section \<open>Status table\<close>

fun ALLOWED_REPORT_TRANSITIONS :: "report_status \<Rightarrow> report_status list" where
  "ALLOWED_REPORT_TRANSITIONS RS_PENDING = [RS_RECEIVED, RS_REJECTED]"
| "ALLOWED_REPORT_TRANSITIONS RS_RECEIVED = [RS_UNDER_REVIEW, RS_REJECTED]"
| "ALLOWED_REPORT_TRANSITIONS RS_UNDER_REVIEW = [RS_ASSIGNED, RS_ESCALATED, RS_UNABLE_TO_VERIFY, RS_REJECTED]"
| "ALLOWED_REPORT_TRANSITIONS RS_ASSIGNED = [RS_IN_PROGRESS, RS_ESCALATED]"
| "ALLOWED_REPORT_TRANSITIONS RS_IN_PROGRESS = [RS_ESCALATED, RS_CLOSED, RS_UNABLE_TO_VERIFY]"
| "ALLOWED_REPORT_TRANSITIONS RS_ESCALATED = [RS_IN_PROGRESS, RS_CLOSED]"
| "ALLOWED_REPORT_TRANSITIONS RS_UNABLE_TO_VERIFY = [RS_CLOSED, RS_UNDER_REVIEW]"
| "ALLOWED_REPORT_TRANSITIONS RS_CLOSED = []"
| "ALLOWED_REPORT_TRANSITIONS RS_REJECTED = []"

definition TERMINAL_STATUSES :: "report_status list" where
  "TERMINAL_STATUSES = [RS_CLOSED, RS_REJECTED]"

definition ADMIN_ROLE_NAMES :: "jstring list" where
  "ADMIN_ROLE_NAMES = [''ADMIN'', ''SUPER_ADMIN'']"

fun report_status_name :: "report_status \<Rightarrow> jstring" where
  "report_status_name RS_PENDING = ''PENDING''"
| "report_status_name RS_RECEIVED = ''RECEIVED''"
| "report_status_name RS_UNDER_REVIEW = ''UNDER_REVIEW''"
| "report_status_name RS_ASSIGNED = ''ASSIGNED''"
| "report_status_name RS_IN_PROGRESS = ''IN_PROGRESS''"
| "report_status_name RS_ESCALATED = ''ESCALATED''"
| "report_status_name RS_CLOSED = ''CLOSED''"
| "report_status_name RS_UNABLE_TO_VERIFY = ''UNABLE_TO_VERIFY''"
| "report_status_name RS_REJECTED = ''REJECTED''"

definition jrs :: "report_status \<Rightarrow> jval" where
  "jrs st = JStr (report_status_name st)"

fun category_name :: "report_category \<Rightarrow> jstring" where
  "category_name HARASSMENT = ''HARASSMENT''"
| "category_name ABUSE = ''ABUSE''"
| "category_name FRAUD = ''FRAUD''"
| "category_name THREAT = ''THREAT''"
| "category_name DISCRIMINATION = ''DISCRIMINATION''"
| "category_name SAFETY_CONCERN = ''SAFETY_CONCERN''"
| "category_name OTHER_CATEGORY = ''OTHER''"

fun priority_name :: "report_priority \<Rightarrow> jstring" where
  "priority_name RP_LOW = ''LOW''"
| "priority_name RP_MEDIUM = ''MEDIUM''"
| "priority_name RP_HIGH = ''HIGH''"
| "priority_name RP_CRITICAL = ''CRITICAL''"

fun outcome_name :: "resolution_outcome \<Rightarrow> jstring" where
  "outcome_name RESOLVED = ''RESOLVED''"
| "outcome_name NO_ACTION = ''NO_ACTION''"
| "outcome_name REFERRED = ''REFERRED''"
| "outcome_name UNFOUNDED = ''UNFOUNDED''"

section \<open>Shared operations\<close>

definition rs_emit :: "effect \<Rightarrow> report_state \<Rightarrow> report_state" where
  "rs_emit e s = s\<lparr>rs_log := rs_log s @ [e]\<rparr>"

definition audit_report :: "current_user \<Rightarrow> jstring \<Rightarrow> report \<Rightarrow> (jstring \<times> jval) list \<Rightarrow> audit_event" where
  "audit_report actor action r diff =
     (audit_base (resolveActorType (cu_roles actor)) action ''Report'' (r_id r))
       \<lparr>ae_userId := Some (cu_id actor), ae_entityLabel := Some (r_caseReference r), ae_diff := diff\<rparr>"

definition failed_report :: "current_user \<Rightarrow> jstring \<Rightarrow> report \<Rightarrow> audit_outcome \<Rightarrow> (jstring \<times> jval) list \<Rightarrow> audit_event" where
  "failed_report actor action r outcome diff =
     (audit_report actor action r diff)\<lparr>ae_outcome := outcome, ae_severity := WARNING\<rparr>"

definition is_super :: "current_user \<Rightarrow> bool" where
  "is_super u \<longleftrightarrow> ''SUPER_ADMIN'' \<in> set (cu_roles u)"

text \<open>\<open>None\<close> when access is granted, otherwise the exception and the audit entry written first.\<close>

definition assertAdminCanAccessReport :: "current_user \<Rightarrow> report \<Rightarrow> jstring \<Rightarrow> (error \<times> effect) option" where
  "assertAdminCanAccessReport admin r action =
     (if \<not> is_super admin \<and> truthy (r_assignedToId r) \<and> r_assignedToId r \<noteq> Some (cu_id admin)
      then Some (Forbidden ''report_assigned_to_another_admin'',
        Audit (failed_report admin action r DENIED
          [(''result'', JStr ''denied''), (''reason'', JStr ''assigned_to_another_admin'')]))
      else None)"

definition rs_check :: "(error \<times> effect) option \<Rightarrow> report_state \<Rightarrow> 'a result \<times> report_state \<Rightarrow> 'a result \<times> report_state" where
  "rs_check c s rest = (case c of None \<Rightarrow> rest | Some (e, eff) \<Rightarrow> (Inl e, rs_emit eff s))"

definition active_grant :: "report_env \<Rightarrow> jstring \<Rightarrow> access_grant \<Rightarrow> bool" where
  "active_grant env adminId g \<longleftrightarrow> g_adminId g = adminId \<and> g_revokedAt g = None \<and>
     (case g_expiresAt g of None \<Rightarrow> True | Some t \<Rightarrow> t > re_now env)"

definition visible :: "report_env \<Rightarrow> current_user \<Rightarrow> report_state \<Rightarrow> report \<Rightarrow> bool" where
  "visible env admin s r \<longleftrightarrow> is_super admin \<or> r_sensitivity r = SENS_STANDARD \<or>
     r_assignedToId r = Some (cu_id admin) \<or>
     (\<exists>g \<in> set (rs_grants s). g_reportId g = r_id r \<and> active_grant env (cu_id admin) g)"

definition find_report :: "jstring \<Rightarrow> report_state \<Rightarrow> report option" where
  "find_report rid s = find_where (\<lambda>r. r_id r = rid) (rs_reports s)"

definition loadForAdmin :: "report_env \<Rightarrow> current_user \<Rightarrow> jstring \<Rightarrow> bool \<Rightarrow> report_state \<Rightarrow> report result" where
  "loadForAdmin env admin rid includeDeleted s =
     (case find_where (\<lambda>r. r_id r = rid \<and> (includeDeleted \<or> r_deletedAt r = None) \<and> visible env admin s r) (rs_reports s) of
        None \<Rightarrow> Inl (NotFound ''report_not_found'') | Some r \<Rightarrow> Inr r)"

text \<open>\<open>loadForAdminWrite\<close>, with the continuation that uses the row.\<close>

definition loadForAdminWrite :: "report_env \<Rightarrow> current_user \<Rightarrow> jstring \<Rightarrow> jstring \<Rightarrow> report_state
    \<Rightarrow> (report \<Rightarrow> 'a result \<times> report_state) \<Rightarrow> 'a result \<times> report_state" where
  "loadForAdminWrite env admin rid action s f =
     (case loadForAdmin env admin rid False s of
        Inl e \<Rightarrow> (Inl e, s)
      | Inr r \<Rightarrow> rs_check (assertAdminCanAccessReport admin r action) s (f r))"

definition with_report :: "jstring \<Rightarrow> report_state \<Rightarrow> (report \<Rightarrow> 'a result \<times> report_state) \<Rightarrow> 'a result \<times> report_state" where
  "with_report rid s f = (case find_report rid s of None \<Rightarrow> (Inl (NotFound ''report_not_found''), s) | Some r \<Rightarrow> f r)"

definition fetch_report :: "jstring \<Rightarrow> report_state \<Rightarrow> (report \<Rightarrow> 'a result \<times> report_state) \<Rightarrow> 'a result \<times> report_state" where
  "fetch_report rid s f = (case find_report rid s of None \<Rightarrow> (Inl (PlainError ''No Report found''), s) | Some r \<Rightarrow> f r)"

definition loadOwned :: "current_user \<Rightarrow> jstring \<Rightarrow> report_state \<Rightarrow> report result" where
  "loadOwned user rid s =
     (case find_where (\<lambda>r. r_id r = rid \<and> r_userId r = Some (cu_id user) \<and> r_deletedAt r = None) (rs_reports s) of
        None \<Rightarrow> Inl (NotFound ''report_not_found'') | Some r \<Rightarrow> Inr r)"

text \<open>Presentation of the reporter in administrator lists; the keyed hash is a parameter.\<close>

datatype presented = AnonymousReporter "jstring option" | NamedReporter jstring "jstring option"

definition maskUserId :: "(jstring \<Rightarrow> jstring) \<Rightarrow> jstring \<Rightarrow> jstring" where
  "maskUserId hmac userId = ''anon_'' @ take 12 (hmac userId)"

definition presentReporter :: "(jstring \<Rightarrow> jstring) \<Rightarrow> bool \<Rightarrow> jstring option \<Rightarrow> report_user option \<Rightarrow> presented" where
  "presentReporter hmac isAnonymous userId user =
     (if isAnonymous \<or> \<not> truthy userId
      then AnonymousReporter (if truthy userId then Some (maskUserId hmac (the userId)) else None)
      else NamedReporter (case user of None \<Rightarrow> the userId | Some u \<Rightarrow> ru_id u)
        (case user of None \<Rightarrow> None | Some u \<Rightarrow> ru_name u))"

section \<open>Writes\<close>

definition rep_is :: "jstring \<Rightarrow> report_status list \<Rightarrow> report \<Rightarrow> bool" where
  "rep_is rid froms = claimable r_id r_status froms rid"

definition rep_move :: "int \<Rightarrow> jstring \<Rightarrow> report_status list \<Rightarrow> (report \<Rightarrow> report) \<Rightarrow> report_state \<Rightarrow> report_state" where
  "rep_move now rid froms f s =
     s\<lparr>rs_reports := update_where (rep_is rid froms) (\<lambda>r. (f r)\<lparr>r_updatedAt := now\<rparr>) (rs_reports s)\<rparr>"

definition rep_count :: "jstring \<Rightarrow> report_status list \<Rightarrow> report_state \<Rightarrow> nat" where
  "rep_count rid froms s = count_where (rep_is rid froms) (rs_reports s)"

definition rep_write :: "int \<Rightarrow> jstring \<Rightarrow> (report \<Rightarrow> report) \<Rightarrow> report_state \<Rightarrow> report_state" where
  "rep_write now rid f s =
     s\<lparr>rs_reports := update_where (\<lambda>r. r_id r = rid) (\<lambda>r. (f r)\<lparr>r_updatedAt := now\<rparr>) (rs_reports s)\<rparr>"

text \<open>
  One transaction: the guarded status change together with its history entry. \<open>None\<close> when the row
  no longer has the status that was read.
\<close>

definition applyTransition :: "report_env \<Rightarrow> report \<Rightarrow> report_status \<Rightarrow> jstring option \<Rightarrow> (report \<Rightarrow> report)
    \<Rightarrow> jstring option \<Rightarrow> report_state \<Rightarrow> report option \<times> report_state" where
  "applyTransition env existing to changedBy extra note s =
     (if rep_count (r_id existing) [r_status existing] s = 0 then (None, s)
      else let s1 = rep_move (re_now env) (r_id existing) [r_status existing]
                 (\<lambda>r. extra (r\<lparr>r_status := to, r_lastActivityAt := re_now env, r_reporterUpdatedAt := re_now env\<rparr>)) s;
               s2 = s1\<lparr>rs_statusHistory := rs_statusHistory s1 @
                 [\<lparr>sh_reportId = r_id existing, sh_fromStatus = Some (r_status existing), sh_toStatus = to,
                   sh_changedById = changedBy, sh_note = note\<rparr>]\<rparr>
           in (find_report (r_id existing) s2, s2))"

definition notifyReporter :: "report \<Rightarrow> report_state \<Rightarrow> report_state" where
  "notifyReporter r = rs_emit (Notify ''REPORT_UPDATED'' [(''reportId'', JStr (r_id r)), (''userId'', jstr_opt (r_userId r)),
     (''caseReference'', JStr (r_caseReference r)), (''status'', jrs (r_status r))])"

definition maybeFlagReporter :: "report_env \<Rightarrow> jstring \<Rightarrow> report_state \<Rightarrow> report_state" where
  "maybeFlagReporter env userId s =
     (let since = re_now env - re_rejectWindowDays env * 24 * 60 * 60 * 1000;
          recent = count_where (\<lambda>r. r_userId r = Some userId \<and> r_status r = RS_REJECTED \<and> r_updatedAt r \<ge> since) (rs_reports s)
      in if recent \<ge> re_rejectThreshold env
         then rs_emit (Audit ((audit_base SYSTEM ''USER_AUTO_FLAGGED'' ''User'' userId)
           \<lparr>ae_targetUserId := Some userId,
            ae_entityLabel := (case find_where (\<lambda>u. ru_id u = userId) (rs_users s) of None \<Rightarrow> None | Some u \<Rightarrow> ru_name u),
            ae_diff := [(''reason'', JStr ''repeated_report_rejections''), (''rejectionCount'', JInt (int recent)),
              (''windowDays'', JInt (re_rejectWindowDays env)), (''result'', JStr ''flagged_for_review'')]\<rparr>)) s
         else s)"

end
