(* ===== verification/Report_Workflow.thy ===== *)
theory Report_Workflow
  imports Report_Data
begin

text \<open>
  Working on reports, \<open>src/modules/core/report/service/report-workflow.service.ts\<close>: status
  changes, assignment, escalation, resolution, the work queue and the bulk operations. As for posts,
  \<open>f_from\<close> takes the row as it was read.
\<close>

section \<open>Reading\<close>

definition findOneForAdmin :: "current_user \<Rightarrow> jstring \<Rightarrow> report_state \<Rightarrow> report result \<times> report_state" where
  "findOneForAdmin admin rid s = with_report rid s (\<lambda>r.
     (Inr r, rs_emit (Audit ((audit_report admin ''REPORTER_INFORMATION_OPENED'' r [(''result'', JStr ''success'')])
        \<lparr>ae_targetUserId := r_userId r\<rparr>))
      (rs_emit (Audit (audit_report admin ''REPORT_OPENED'' r [(''result'', JStr ''success'')])) s)))"

section \<open>Status\<close>

definition invalid_transition :: "report_status \<Rightarrow> report_status \<Rightarrow> error" where
  "invalid_transition a b =
     BadRequest (''invalid_status_transition: '' @ report_status_name a @ '' -> '' @ report_status_name b)"

text \<open>The guarded update of \<open>updateStatus\<close> and \<open>escalate\<close>, with the failure entry each writes.\<close>

definition rep_transition :: "report_env \<Rightarrow> report \<Rightarrow> report_status \<Rightarrow> audit_event
    \<Rightarrow> (report \<Rightarrow> report_state \<Rightarrow> 'a result \<times> report_state) \<Rightarrow> report_state \<Rightarrow> 'a result \<times> report_state" where
  "rep_transition env existing to conflict done s =
     (if rep_count (r_id existing) [r_status existing] s = 0
      then (Inl (BadRequest ''report_transition_conflict''), rs_emit (Audit conflict) s)
      else let s1 = rep_move (re_now env) (r_id existing) [r_status existing] (\<lambda>r. r\<lparr>r_status := to\<rparr>) s
           in fetch_report (r_id existing) s1 (\<lambda>r. done r s1))"

definition updateStatus_report_from :: "report_env \<Rightarrow> current_user \<Rightarrow> report \<Rightarrow> report_status \<Rightarrow> jstring option
    \<Rightarrow> report_state \<Rightarrow> report result \<times> report_state" where
  "updateStatus_report_from env admin existing status note s =
     rs_check (assertAdminCanAccessReport admin existing ''REPORT_STATUS_CHANGED'') s
      (if status \<notin> set (ALLOWED_REPORT_TRANSITIONS (r_status existing))
       then (Inl (invalid_transition (r_status existing) status),
         rs_emit (Audit (failed_report admin ''REPORT_STATUS_CHANGED'' existing FAILURE
           [(''result'', JStr ''failure''), (''attemptedStatus'', jrs status), (''currentStatus'', jrs (r_status existing))])) s)
       else rep_transition env existing status
         (failed_report admin ''REPORT_STATUS_CHANGED'' existing FAILURE
           [(''result'', JStr ''failure''), (''reason'', JStr ''report_transition_conflict''), (''attemptedStatus'', jrs status)])
         (\<lambda>r s1.
            let action = (if r_status r = RS_CLOSED then ''REPORT_CLOSED''
                          else if r_status r = RS_REJECTED then ''REPORT_REJECTED'' else ''REPORT_STATUS_CHANGED'');
                s2 = rs_emit (Audit ((audit_report admin action r
                       [(''result'', JStr ''success''), (''previousStatus'', jrs (r_status existing)),
                        (''currentStatus'', jrs (r_status r))])\<lparr>ae_reason := note\<rparr>)) s1;
                s3 = notifyReporter r s2
            in (Inr r, if status = RS_REJECTED \<and> truthy (r_userId r) then maybeFlagReporter env (the (r_userId r)) s3 else s3)) s)"

definition updateStatus_report :: "report_env \<Rightarrow> current_user \<Rightarrow> jstring \<Rightarrow> report_status \<Rightarrow> jstring option
    \<Rightarrow> report_state \<Rightarrow> report result \<times> report_state" where
  "updateStatus_report env admin rid status note s =
     with_report rid s (\<lambda>r. updateStatus_report_from env admin r status note s)"

section \<open>Assignment\<close>

definition assign_from :: "report_env \<Rightarrow> current_user \<Rightarrow> report \<Rightarrow> jstring \<Rightarrow> jstring option \<Rightarrow> report_state
    \<Rightarrow> report result \<times> report_state" where
  "assign_from env admin existing toUser note s =
     (case find_where (\<lambda>u. ru_id u = toUser) (rs_users s) of
        None \<Rightarrow> (Inl (NotFound ''assignee_not_found''), s)
      | Some target \<Rightarrow>
        let fail = (\<lambda>reason. rs_emit (Audit ((failed_report admin ''REPORT_ASSIGNED'' existing FAILURE
                 [(''result'', JStr ''failure''), (''reason'', JStr reason)])\<lparr>ae_targetUserId := Some toUser\<rparr>)) s);
            auto_set = (r_status existing \<noteq> RS_ASSIGNED \<and> RS_ASSIGNED \<in> set (ALLOWED_REPORT_TRANSITIONS (r_status existing)));
            matches = (if auto_set then rep_is (r_id existing) [r_status existing] else (\<lambda>r. r_id r = r_id existing))
        in if \<not> (\<exists>n \<in> set (ru_roles target). n \<in> set ADMIN_ROLE_NAMES)
           then (Inl (BadRequest ''assignee_must_be_an_admin''), fail ''assignee_must_be_an_admin'')
           else if count_where matches (rs_reports s) = 0
           then (Inl (BadRequest ''report_transition_conflict''), fail ''report_transition_conflict'')
           else let s1 = s\<lparr>rs_reports := update_where matches
                      (\<lambda>r. r\<lparr>r_assignedToId := Some toUser, r_status := (if auto_set then RS_ASSIGNED else r_status r),
                             r_updatedAt := re_now env\<rparr>) (rs_reports s)\<rparr>
                in fetch_report (r_id existing) s1 (\<lambda>r. (Inr r,
                  rs_emit (Notify ''REPORT_ASSIGNED'' [(''reportId'', JStr (r_id existing)),
                      (''caseReference'', JStr (r_caseReference r)), (''assignedToUserId'', JStr toUser)])
                   (rs_emit (Audit ((audit_report admin ''REPORT_ASSIGNED'' r
                      [(''result'', JStr ''success''), (''assignedToUserId'', JStr toUser),
                       (''previousStatus'', jrs (r_status existing)), (''currentStatus'', jrs (r_status r))])
                      \<lparr>ae_targetUserId := Some toUser, ae_reason := note,
                       ae_metadata := [(''assignedToName'', jstr_opt (ru_name target))]\<rparr>)) s1))))"

definition assign :: "report_env \<Rightarrow> current_user \<Rightarrow> jstring \<Rightarrow> jstring \<Rightarrow> jstring option \<Rightarrow> report_state
    \<Rightarrow> report result \<times> report_state" where
  "assign env admin rid toUser note s = with_report rid s (\<lambda>r. assign_from env admin r toUser note s)"

definition unassign_from :: "report_env \<Rightarrow> current_user \<Rightarrow> report \<Rightarrow> report_state \<Rightarrow> report result \<times> report_state" where
  "unassign_from env admin existing s =
     (if find_report (r_id existing) s = None then (Inl (PlainError ''Record to update not found''), s)
      else let s1 = rep_write (re_now env) (r_id existing) (\<lambda>r. r\<lparr>r_assignedToId := None\<rparr>) s
           in fetch_report (r_id existing) s1 (\<lambda>r. (Inr r,
             rs_emit (Audit ((audit_report admin ''REPORT_UNASSIGNED'' r
               [(''result'', JStr ''success''), (''previousAssignedToId'', jstr_opt (r_assignedToId existing))])
               \<lparr>ae_targetUserId := (if truthy (r_assignedToId existing) then r_assignedToId existing else None)\<rparr>)) s1)))"

definition unassign :: "report_env \<Rightarrow> current_user \<Rightarrow> jstring \<Rightarrow> report_state \<Rightarrow> report result \<times> report_state" where
  "unassign env admin rid s = with_report rid s (\<lambda>r. unassign_from env admin r s)"

section \<open>Escalation\<close>

definition escalate_from :: "report_env \<Rightarrow> current_user \<Rightarrow> report \<Rightarrow> jstring \<Rightarrow> report_state \<Rightarrow> report result \<times> report_state" where
  "escalate_from env admin existing reason s =
     rs_check (assertAdminCanAccessReport admin existing ''REPORT_ESCALATED'') s
      (if RS_ESCALATED \<notin> set (ALLOWED_REPORT_TRANSITIONS (r_status existing))
       then (Inl (invalid_transition (r_status existing) RS_ESCALATED),
         rs_emit (Audit (failed_report admin ''REPORT_ESCALATED'' existing FAILURE
           [(''result'', JStr ''failure''), (''currentStatus'', jrs (r_status existing))])) s)
       else rep_transition env existing RS_ESCALATED
         (failed_report admin ''REPORT_ESCALATED'' existing FAILURE
           [(''result'', JStr ''failure''), (''reason'', JStr ''report_transition_conflict'')])
         (\<lambda>r s1. (Inr r,
            rs_emit (Notify ''HIGH_PRIORITY_REPORT'' [(''reportId'', JStr (r_id r)),
                (''caseReference'', JStr (r_caseReference r)), (''reason'', JStr reason)])
             (rs_emit (Audit ((audit_report admin ''REPORT_ESCALATED'' r
                [(''result'', JStr ''success''), (''previousStatus'', jrs (r_status existing))])
                \<lparr>ae_reason := Some reason\<rparr>)) s1))) s)"

definition escalate :: "report_env \<Rightarrow> current_user \<Rightarrow> jstring \<Rightarrow> jstring \<Rightarrow> report_state \<Rightarrow> report result \<times> report_state" where
  "escalate env admin rid reason s = with_report rid s (\<lambda>r. escalate_from env admin r reason s)"

definition close_escalation :: "report_env \<Rightarrow> current_user \<Rightarrow> jstring \<Rightarrow> jstring \<Rightarrow> report_state \<Rightarrow> report_state" where
  "close_escalation env admin rid reason s =
     (case find_where (\<lambda>e. es_reportId e = rid \<and> es_deEscalatedAt e = None) (rev (sort_key es_createdAt (rs_escalations s))) of
        None \<Rightarrow> s
      | Some open_esc \<Rightarrow> s\<lparr>rs_escalations := update_where (\<lambda>e. es_id e = es_id open_esc)
          (\<lambda>e. e\<lparr>es_deEscalatedAt := Some (re_now env), es_deEscalatedById := Some (cu_id admin),
                 es_deEscalationReason := Some reason\<rparr>) (rs_escalations s)\<rparr>)"

definition deEscalate :: "report_env \<Rightarrow> current_user \<Rightarrow> jstring \<Rightarrow> jstring \<Rightarrow> report_state \<Rightarrow> report result \<times> report_state" where
  "deEscalate env admin rid reason s = loadForAdminWrite env admin rid ''REPORT_DE_ESCALATED'' s (\<lambda>existing.
     if r_status existing \<noteq> RS_ESCALATED then (Inl (BadRequest ''report_not_escalated''), s)
     else (case applyTransition env existing RS_IN_PROGRESS (Some (cu_id admin)) id (Some (''de_escalated: '' @ reason)) s of
         (None, s1) \<Rightarrow> (Inl (BadRequest ''report_transition_conflict''), s1)
       | (Some r, s1) \<Rightarrow> (Inr r, notifyReporter r
           (rs_emit (Audit ((audit_report admin ''REPORT_DE_ESCALATED'' r [(''result'', JStr ''success''),
              (''previousStatus'', jrs (r_status existing)), (''currentStatus'', jrs (r_status r))])
              \<lparr>ae_reason := Some reason\<rparr>)) (close_escalation env admin rid reason s1)))))"

section \<open>Category, priority, team\<close>

definition add_revision :: "jstring \<Rightarrow> jstring \<Rightarrow> (jstring \<times> jval) list \<Rightarrow> report_state \<Rightarrow> report_state" where
  "add_revision rid who changes s =
     s\<lparr>rs_revisions := rs_revisions s @ [\<lparr>rv_reportId = rid, rv_editedById = who, rv_changes = changes\<rparr>]\<rparr>"

definition reason_entry :: "jstring option \<Rightarrow> (jstring \<times> jval) list" where
  "reason_entry reason = (if truthy reason then [(''reason'', jstr_opt reason)] else [])"

definition updateCategory :: "report_env \<Rightarrow> current_user \<Rightarrow> jstring \<Rightarrow> report_category \<Rightarrow> jstring option \<Rightarrow> report_state
    \<Rightarrow> report result \<times> report_state" where
  "updateCategory env admin rid category reason s =
     loadForAdminWrite env admin rid ''REPORT_CATEGORY_CHANGED'' s (\<lambda>existing.
       if r_category existing = category then (Inr existing, s)
       else let change = [(''from'', JStr (category_name (r_category existing))), (''to'', JStr (category_name category))];
                s1 = add_revision rid (cu_id admin) ((''category'', JObj change) # reason_entry reason)
                  (rep_write (re_now env) rid (\<lambda>r. r\<lparr>r_category := category, r_lastActivityAt := re_now env\<rparr>) s)
            in fetch_report rid s1 (\<lambda>r. (Inr r, rs_emit (Audit ((audit_report admin ''REPORT_CATEGORY_CHANGED'' r
                 ((''result'', JStr ''success'') # change))
                 \<lparr>ae_reason := reason,
                  ae_targetUserId := (if r_isAnonymous r \<or> \<not> truthy (r_userId r) then None else r_userId r)\<rparr>)) s1)))"

definition updatePriority :: "report_env \<Rightarrow> current_user \<Rightarrow> jstring \<Rightarrow> report_priority \<Rightarrow> jstring option \<Rightarrow> report_state
    \<Rightarrow> report result \<times> report_state" where
  "updatePriority env admin rid priority reason s =
     loadForAdminWrite env admin rid ''REPORT_PRIORITY_CHANGED'' s (\<lambda>existing.
       if r_priority existing = priority then (Inr existing, s)
       else let change = [(''from'', JStr (priority_name (r_priority existing))), (''to'', JStr (priority_name priority))];
                s1 = add_revision rid (cu_id admin) ((''priority'', JObj change) # reason_entry reason)
                  (rep_write (re_now env) rid (\<lambda>r. r\<lparr>r_priority := priority, r_lastActivityAt := re_now env\<rparr>) s)
            in fetch_report rid s1 (\<lambda>r. (Inr r, rs_emit (Audit ((audit_report admin ''REPORT_PRIORITY_CHANGED'' r
                 ((''result'', JStr ''success'') # change))\<lparr>ae_reason := reason\<rparr>)) s1)))"

definition assignTeam :: "report_env \<Rightarrow> current_user \<Rightarrow> jstring \<Rightarrow> jstring option \<Rightarrow> report_state \<Rightarrow> report result \<times> report_state" where
  "assignTeam env admin rid team s =
     (case loadForAdmin env admin rid False s of
        Inl e \<Rightarrow> (Inl e, s)
      | Inr existing \<Rightarrow>
        let s1 = rep_write (re_now env) rid (\<lambda>r. r\<lparr>r_assignedTeamId := team, r_lastActivityAt := re_now env\<rparr>) s
        in fetch_report rid s1 (\<lambda>r. (Inr r, rs_emit (Audit (audit_report admin ''REPORT_TEAM_ASSIGNED'' r
             [(''result'', JStr ''success''), (''from'', jstr_opt (r_assignedTeamId existing)), (''to'', jstr_opt team)])) s1)))"

section \<open>Resolution\<close>

definition resolve :: "report_env \<Rightarrow> current_user \<Rightarrow> jstring \<Rightarrow> resolution_outcome \<Rightarrow> jstring \<Rightarrow> report_state
    \<Rightarrow> report result \<times> report_state" where
  "resolve env admin rid verdict summary s = loadForAdminWrite env admin rid ''REPORT_RESOLVED'' s (\<lambda>existing.
     if RS_CLOSED \<notin> set (ALLOWED_REPORT_TRANSITIONS (r_status existing))
     then (Inl (invalid_transition (r_status existing) RS_CLOSED), s)
     else (case applyTransition env existing RS_CLOSED (Some (cu_id admin))
             (\<lambda>r. r\<lparr>r_closedAt := Some (re_now env), r_resolutionOutcome := Some verdict,
                    r_resolutionSummary := Some summary, r_resolvedById := Some (cu_id admin)\<rparr>)
             (Some (''resolved:'' @ outcome_name verdict)) s of
         (None, s1) \<Rightarrow> (Inl (BadRequest ''report_transition_conflict''), s1)
       | (Some r, s1) \<Rightarrow> (Inr r, notifyReporter r
           (rs_emit (Audit ((audit_report admin ''REPORT_STATUS_CHANGED'' r [(''result'', JStr ''success''),
              (''previousStatus'', jrs (r_status existing)), (''currentStatus'', jrs (r_status r)),
              (''outcome'', JStr (outcome_name verdict))])\<lparr>ae_reason := Some summary\<rparr>)) s1))))"

section \<open>Work queue\<close>

fun priority_rank :: "report_priority \<Rightarrow> int" where
  "priority_rank RP_LOW = 0"
| "priority_rank RP_MEDIUM = 1"
| "priority_rank RP_HIGH = 2"
| "priority_rank RP_CRITICAL = 3"

text \<open>Most urgent first: priority, then due date with none last, then age. The sorts are stable.\<close>

definition queue_order :: "report list \<Rightarrow> report list" where
  "queue_order rs = sort_key (\<lambda>r. - priority_rank (r_priority r))
     (sort_key (\<lambda>r. if r_dueAt r = None then 1 else 0 :: int)
       (sort_key (\<lambda>r. case r_dueAt r of None \<Rightarrow> 0 | Some t \<Rightarrow> t) (sort_key r_createdAt rs)))"

definition queueable :: "report_env \<Rightarrow> current_user \<Rightarrow> jstring option \<Rightarrow> report_state \<Rightarrow> report \<Rightarrow> bool" where
  "queueable env admin team s r \<longleftrightarrow> r_deletedAt r = None \<and> r_archivedAt r = None \<and> r_mergedIntoId r = None \<and>
     r_assignedToId r = None \<and> r_status r \<notin> set TERMINAL_STATUSES \<and>
     (\<not> truthy team \<or> r_assignedTeamId r = team) \<and> visible env admin s r"

definition queue_candidate :: "report_env \<Rightarrow> current_user \<Rightarrow> jstring option \<Rightarrow> report_state \<Rightarrow> report option" where
  "queue_candidate env admin team s =
     (case queue_order (filter (queueable env admin team s) (rs_reports s)) of [] \<Rightarrow> None | r # _ \<Rightarrow> Some r)"

definition unassigned_as :: "report \<Rightarrow> report \<Rightarrow> bool" where
  "unassigned_as candidate r \<longleftrightarrow> r_id r = r_id candidate \<and> r_assignedToId r = None \<and> r_status r = r_status candidate"

definition auto_assigned :: "report \<Rightarrow> bool" where
  "auto_assigned candidate \<longleftrightarrow>
     r_status candidate \<noteq> RS_ASSIGNED \<and> RS_ASSIGNED \<in> set (ALLOWED_REPORT_TRANSITIONS (r_status candidate))"

definition claimed_row :: "report_env \<Rightarrow> current_user \<Rightarrow> report \<Rightarrow> report \<Rightarrow> report" where
  "claimed_row env admin candidate r =
     r\<lparr>r_assignedToId := Some (cu_id admin), r_lastActivityAt := re_now env,
       r_status := (if auto_assigned candidate then RS_ASSIGNED else r_status r),
       r_reporterUpdatedAt := (if auto_assigned candidate then re_now env else r_reporterUpdatedAt r),
       r_updatedAt := re_now env\<rparr>"

definition take_candidate :: "report_env \<Rightarrow> current_user \<Rightarrow> report \<Rightarrow> report_state \<Rightarrow> report result \<times> report_state" where
  "take_candidate env admin candidate s =
     (let s1 = s\<lparr>rs_reports := update_where (unassigned_as candidate) (claimed_row env admin candidate) (rs_reports s)\<rparr>;
          s2 = s1\<lparr>rs_assignmentHistory := rs_assignmentHistory s1 @ [\<lparr>ah_reportId = r_id candidate,
            ah_assignedToId = Some (cu_id admin), ah_assignedById = Some (cu_id admin), ah_note = Some ''queue_next''\<rparr>]\<rparr>;
          s3 = (if auto_assigned candidate then s2\<lparr>rs_statusHistory := rs_statusHistory s2 @ [\<lparr>sh_reportId = r_id candidate,
            sh_fromStatus = Some (r_status candidate), sh_toStatus = RS_ASSIGNED, sh_changedById = Some (cu_id admin),
            sh_note = Some ''queue_next''\<rparr>]\<rparr> else s2)
      in fetch_report (r_id candidate) s3 (\<lambda>r. (Inr r,
           rs_emit (Notify ''REPORT_ASSIGNED'' [(''reportId'', JStr (r_id r)), (''caseReference'', JStr (r_caseReference r)),
               (''assignedToUserId'', JStr (cu_id admin))])
            (rs_emit (Audit ((audit_report admin ''REPORT_ASSIGNED'' r [(''result'', JStr ''success''),
               (''assignedToUserId'', JStr (cu_id admin)), (''previousStatus'', jrs (r_status candidate)),
               (''currentStatus'', jrs (r_status r))])\<lparr>ae_metadata := [(''source'', JStr ''queue_next'')]\<rparr>)) s3))))"

text \<open>
  The retry loop. \<open>others n\<close> is what other calls do between the read and the claim of the attempt
  with \<open>n\<close> attempts left; five attempts as in the source.
\<close>

fun queue_loop :: "nat \<Rightarrow> report_env \<Rightarrow> (nat \<Rightarrow> report_state \<Rightarrow> report_state) \<Rightarrow> current_user \<Rightarrow> jstring option
    \<Rightarrow> report_state \<Rightarrow> report option result \<times> report_state" where
  "queue_loop 0 env others admin team s = (Inr None, s)"
| "queue_loop (Suc n) env others admin team s =
     (case queue_candidate env admin team s of
        None \<Rightarrow> (Inr None, s)
      | Some candidate \<Rightarrow>
        let s1 = others n s in
        if count_where (unassigned_as candidate) (rs_reports s1) = 0 then queue_loop n env others admin team s1
        else (case take_candidate env admin candidate s1 of (Inl e, s2) \<Rightarrow> (Inl e, s2) | (Inr r, s2) \<Rightarrow> (Inr (Some r), s2)))"

definition queueNext :: "report_env \<Rightarrow> (nat \<Rightarrow> report_state \<Rightarrow> report_state) \<Rightarrow> current_user \<Rightarrow> jstring option
    \<Rightarrow> report_state \<Rightarrow> report option result \<times> report_state" where
  "queueNext = queue_loop 5"

section \<open>Bulk operations\<close>

text \<open>\<open>[...new Set(ids)]\<close> keeps first occurrences. Per id \<open>None\<close> for success.\<close>

definition js_unique :: "'a list \<Rightarrow> 'a list" where
  "js_unique xs = rev (remdups (rev xs))"

fun run_loop :: "(jstring \<Rightarrow> report_state \<Rightarrow> unit result \<times> report_state) \<Rightarrow> jstring list \<Rightarrow> report_state
    \<Rightarrow> (jstring \<times> jstring option) list \<times> report_state" where
  "run_loop f [] s = ([], s)"
| "run_loop f (rid # ids) s =
     (let (r, s1) = f rid s; (rs, s2) = run_loop f ids s1
      in ((rid, case r of Inl e \<Rightarrow> Some (err_message e) | Inr _ \<Rightarrow> None) # rs, s2))"

definition runBulk :: "jstring list \<Rightarrow> (jstring \<Rightarrow> report_state \<Rightarrow> unit result \<times> report_state) \<Rightarrow> report_state
    \<Rightarrow> (jstring \<times> jstring option) list \<times> report_state" where
  "runBulk ids f s = run_loop f (js_unique ids) s"

definition bulk_audit :: "current_user \<Rightarrow> jstring option \<Rightarrow> (jstring \<times> jval) list \<Rightarrow> (jstring \<times> jstring option) list \<Rightarrow> effect" where
  "bulk_audit admin target op results =
     Audit ((audit_base (resolveActorType (cu_roles admin)) ''REPORT_BULK_ACTION'' ''Report'' ''bulk'')
       \<lparr>ae_userId := Some (cu_id admin), ae_targetUserId := target,
        ae_diff := op @ [(''requested'', JInt (int (length results))),
          (''failed'', JInt (int (length (filter (\<lambda>(_, r). r \<noteq> None) results))))]\<rparr>)"

definition then_write :: "('a result \<times> report_state) \<Rightarrow> (report_state \<Rightarrow> report_state) \<Rightarrow> unit result \<times> report_state" where
  "then_write res f = (case res of (Inl e, s) \<Rightarrow> (Inl e, s) | (Inr _, s) \<Rightarrow> (Inr (), f s))"

definition add_assignment :: "jstring \<Rightarrow> jstring option \<Rightarrow> jstring \<Rightarrow> jstring \<Rightarrow> report_state \<Rightarrow> report_state" where
  "add_assignment rid toUser by note s = s\<lparr>rs_assignmentHistory := rs_assignmentHistory s @
     [\<lparr>ah_reportId = rid, ah_assignedToId = toUser, ah_assignedById = Some by, ah_note = Some note\<rparr>]\<rparr>"

definition bulkAssign :: "report_env \<Rightarrow> current_user \<Rightarrow> jstring list \<Rightarrow> jstring \<Rightarrow> report_state
    \<Rightarrow> (jstring \<times> jstring option) list \<times> report_state" where
  "bulkAssign env admin ids toUser s =
     (let (rs, s1) = runBulk ids (\<lambda>rid t. then_write (assign env admin rid toUser None t)
            (add_assignment rid (Some toUser) (cu_id admin) ''bulk_assign'')) s
      in (rs, rs_emit (bulk_audit admin (Some toUser) [(''op'', JStr ''assign'')] rs) s1))"

definition bulkUpdateStatus :: "report_env \<Rightarrow> current_user \<Rightarrow> jstring list \<Rightarrow> report_status \<Rightarrow> jstring option \<Rightarrow> report_state
    \<Rightarrow> (jstring \<times> jstring option) list \<times> report_state" where
  "bulkUpdateStatus env admin ids status note s =
     (let (rs, s1) = runBulk ids (\<lambda>rid t. then_write (updateStatus_report env admin rid status note t)
            (\<lambda>u. u\<lparr>rs_statusHistory := rs_statusHistory u @ [\<lparr>sh_reportId = rid, sh_fromStatus = None, sh_toStatus = status,
               sh_changedById = Some (cu_id admin), sh_note = Some (case note of None \<Rightarrow> ''bulk_status'' | Some n \<Rightarrow> n)\<rparr>]\<rparr>)) s
      in (rs, rs_emit (bulk_audit admin None [(''op'', JStr ''status''), (''status'', jrs status)] rs) s1))"

definition bulkUnassign :: "report_env \<Rightarrow> current_user \<Rightarrow> jstring list \<Rightarrow> report_state
    \<Rightarrow> (jstring \<times> jstring option) list \<times> report_state" where
  "bulkUnassign env admin ids s =
     (let (rs, s1) = runBulk ids (\<lambda>rid t. then_write (unassign env admin rid t)
            (add_assignment rid None (cu_id admin) ''bulk_unassign'')) s
      in (rs, rs_emit (bulk_audit admin None [(''op'', JStr ''unassign'')] rs) s1))"

definition getAllowedTransitions :: "report_env \<Rightarrow> current_user \<Rightarrow> jstring \<Rightarrow> report_state
    \<Rightarrow> (report_status \<times> report_status list) result" where
  "getAllowedTransitions env admin rid s =
     (case loadForAdmin env admin rid False s of
        Inl e \<Rightarrow> Inl e | Inr r \<Rightarrow> Inr (r_status r, ALLOWED_REPORT_TRANSITIONS (r_status r)))"

end
