(* ===== verification/Report_Properties.thy ===== *)
theory Report_Properties
  imports Report_Workflow
begin

text \<open>
  What the report workflow guarantees: statuses follow the table however stale the read was, the work
  queue hands each report to one administrator, and the access rules; and where the older routes do
  not apply the rules of the newer ones.
\<close>

section \<open>Frames\<close>

lemma rs_emit_frame [simp]:
  "rs_reports (rs_emit e s) = rs_reports s" "rs_statusHistory (rs_emit e s) = rs_statusHistory s"
  "rs_escalations (rs_emit e s) = rs_escalations s" "rs_users (rs_emit e s) = rs_users s"
  by (simp_all add: rs_emit_def)

lemma notify_flag_frame [simp]:
  "rs_reports (notifyReporter r s) = rs_reports s" "rs_reports (maybeFlagReporter env u s) = rs_reports s"
  "rs_statusHistory (notifyReporter r s) = rs_statusHistory s" "rs_statusHistory (maybeFlagReporter env u s) = rs_statusHistory s"
  "rs_escalations (notifyReporter r s) = rs_escalations s" "rs_escalations (maybeFlagReporter env u s) = rs_escalations s"
  by (simp_all add: notifyReporter_def maybeFlagReporter_def Let_def)

lemma write_frame [simp]:
  "rs_reports (rep_move now rid froms f s) = update_where (rep_is rid froms) (\<lambda>r. (f r)\<lparr>r_updatedAt := now\<rparr>) (rs_reports s)"
  "rs_reports (rep_write now rid f s) = update_where (\<lambda>r. r_id r = rid) (\<lambda>r. (f r)\<lparr>r_updatedAt := now\<rparr>) (rs_reports s)"
  "rs_statusHistory (rep_move now rid froms f s) = rs_statusHistory s"
  "rs_escalations (rep_move now rid froms f s) = rs_escalations s"
  "rs_reports (add_revision rid who c s) = rs_reports s"
  "rs_reports (close_escalation env admin rid reason s) = rs_reports s"
  by (simp_all add: rep_move_def rep_write_def add_revision_def close_escalation_def split: option.splits)

section \<open>Operations on rows read earlier\<close>

datatype report_op =
    ROpStatus current_user report report_status "jstring option"
  | ROpAssign current_user report jstring "jstring option"
  | ROpUnassign current_user report
  | ROpEscalate current_user report jstring
  | ROpDeEscalate current_user jstring jstring
  | ROpCategory current_user jstring report_category "jstring option"
  | ROpPriority current_user jstring report_priority "jstring option"
  | ROpTeam current_user jstring "jstring option"
  | ROpResolve current_user jstring resolution_outcome jstring
  | ROpTake current_user report
  | ROpOpen current_user jstring

fun exec_report :: "report_env \<Rightarrow> report_op \<Rightarrow> report_state \<Rightarrow> report_state" where
  "exec_report env (ROpStatus a r st n) s = snd (updateStatus_report_from env a r st n s)"
| "exec_report env (ROpAssign a r u n) s = snd (assign_from env a r u n s)"
| "exec_report env (ROpUnassign a r) s = snd (unassign_from env a r s)"
| "exec_report env (ROpEscalate a r m) s = snd (escalate_from env a r m s)"
| "exec_report env (ROpDeEscalate a i m) s = snd (deEscalate env a i m s)"
| "exec_report env (ROpCategory a i c m) s = snd (updateCategory env a i c m s)"
| "exec_report env (ROpPriority a i p m) s = snd (updatePriority env a i p m s)"
| "exec_report env (ROpTeam a i t) s = snd (assignTeam env a i t s)"
| "exec_report env (ROpResolve a i v m) s = snd (resolve env a i v m s)"
| "exec_report env (ROpTake a c) s = snd (take_candidate env a c s)"
| "exec_report env (ROpOpen a i) s = snd (findOneForAdmin a i s)"

definition follows_table :: "report_status \<Rightarrow> report_status \<Rightarrow> bool" where
  "follows_table a b \<longleftrightarrow> b = a \<or> b \<in> set (ALLOWED_REPORT_TRANSITIONS a)"

definition reports_follow :: "report list \<Rightarrow> report list \<Rightarrow> bool" where
  "reports_follow xs ys \<longleftrightarrow> (\<forall>rid q r. find_where (\<lambda>r. r_id r = rid) xs = Some q \<longrightarrow>
     find_where (\<lambda>r. r_id r = rid) ys = Some r \<longrightarrow> follows_table (r_status q) (r_status r))"

lemma reports_followD:
  "reports_follow (rs_reports s) (rs_reports t) \<Longrightarrow> find_report rid s = Some q \<Longrightarrow> find_report rid t = Some r \<Longrightarrow>
   follows_table (r_status q) (r_status r)"
  by (simp add: reports_follow_def find_report_def)

lemma reports_follow_refl [simp]: "reports_follow xs xs"
  by (simp add: reports_follow_def follows_table_def)

lemma reports_follow_update:
  assumes "\<And>r. P r \<Longrightarrow> follows_table (r_status r) (r_status (f r))" "\<And>r. r_id (f r) = r_id r"
  shows "reports_follow xs (update_where P f xs)"
  using assms by (auto simp: reports_follow_def find_update_key follows_table_def)

interpretation report_table: transition_table ALLOWED_REPORT_TRANSITIONS "\<lambda>st. st \<in> set TERMINAL_STATUSES"
  by unfold_locales (auto simp: TERMINAL_STATUSES_def)

lemmas report_row_defs = follows_table_def rep_is_def claimable_def

lemma rep_transition_follows:
  assumes "to \<in> set (ALLOWED_REPORT_TRANSITIONS (r_status existing))" "\<And>r t. rs_reports (snd (done r t)) = rs_reports t"
  shows "reports_follow (rs_reports s) (rs_reports (snd (rep_transition env existing to conflict done s)))"
  using assms
  by (auto simp: rep_transition_def fetch_report_def Let_def report_row_defs intro!: reports_follow_update split: option.splits)

lemma applyTransition_follows:
  assumes "to \<in> set (ALLOWED_REPORT_TRANSITIONS (r_status existing))" "\<And>r. r_status (extra r) = r_status r" "\<And>r. r_id (extra r) = r_id r"
  shows "reports_follow (rs_reports s) (rs_reports (snd (applyTransition env existing to who extra note s)))"
  using assms by (auto simp: applyTransition_def Let_def report_row_defs intro!: reports_follow_update)

lemma rs_check_follows:
  assumes "reports_follow (rs_reports s) (rs_reports (snd rest))"
  shows "reports_follow (rs_reports s) (rs_reports (snd (rs_check c s rest)))"
  using assms by (auto simp: rs_check_def split: option.splits)

lemma loadForAdminWrite_follows:
  assumes "\<And>r. reports_follow (rs_reports s) (rs_reports (snd (f r)))"
  shows "reports_follow (rs_reports s) (rs_reports (snd (loadForAdminWrite env admin rid action s f)))"
  using assms by (auto simp: loadForAdminWrite_def intro: rs_check_follows split: sum.splits)

named_theorems follow_steps "each report operation moves statuses along the table"

lemma guarded_follow [follow_steps]:
  "reports_follow (rs_reports s) (rs_reports (snd (updateStatus_report_from env a r st n s)))"
  "reports_follow (rs_reports s) (rs_reports (snd (escalate_from env a r m s)))"
  unfolding updateStatus_report_from_def escalate_from_def
  by (auto simp: Let_def intro!: rs_check_follows rep_transition_follows)

lemma assign_follow [follow_steps]:
  "reports_follow (rs_reports s) (rs_reports (snd (assign_from env a r u n s)))"
  by (auto simp: assign_from_def fetch_report_def Let_def report_row_defs intro!: reports_follow_update split: option.splits)

lemma plain_follow [follow_steps]:
  "reports_follow (rs_reports s) (rs_reports (snd (unassign_from env a r s)))"
  "reports_follow (rs_reports s) (rs_reports (snd (updateCategory env a i c m s)))"
  "reports_follow (rs_reports s) (rs_reports (snd (updatePriority env a i p m s)))"
  "reports_follow (rs_reports s) (rs_reports (snd (assignTeam env a i t s)))"
  "reports_follow (rs_reports s) (rs_reports (snd (findOneForAdmin a i s)))"
  unfolding updateCategory_def updatePriority_def
  by (auto simp: unassign_from_def assignTeam_def findOneForAdmin_def with_report_def fetch_report_def Let_def follows_table_def
      intro!: loadForAdminWrite_follows reports_follow_update split: option.splits sum.splits)

lemma transition_follow [follow_steps]:
  "reports_follow (rs_reports s) (rs_reports (snd (deEscalate env a i m s)))"
  "reports_follow (rs_reports s) (rs_reports (snd (resolve env a i v m s)))"
proof -
  have *: "applyTransition env r to who extra nt s = (res, t) \<Longrightarrow> to \<in> set (ALLOWED_REPORT_TRANSITIONS (r_status r)) \<Longrightarrow>
      (\<And>r. r_status (extra r) = r_status r) \<Longrightarrow> (\<And>r. r_id (extra r) = r_id r) \<Longrightarrow>
      reports_follow (rs_reports s) (rs_reports t)" for r to who extra nt res t
    using applyTransition_follows [of to r extra s env who nt] by simp
  show "reports_follow (rs_reports s) (rs_reports (snd (deEscalate env a i m s)))"
    "reports_follow (rs_reports s) (rs_reports (snd (resolve env a i v m s)))"
    unfolding deEscalate_def resolve_def
    by (auto intro!: loadForAdminWrite_follows split: prod.splits option.splits elim!: *)
qed

lemma take_reports [simp]:
  "rs_reports (snd (take_candidate env a c s)) = update_where (unassigned_as c) (claimed_row env a c) (rs_reports s)"
  by (auto simp: take_candidate_def fetch_report_def Let_def split: option.splits)

lemma claimed_row_id [simp]: "r_id (claimed_row env a c r) = r_id r" "r_priority (claimed_row env a c r) = r_priority r"
  "r_assignedToId (claimed_row env a c r) = Some (cu_id a)"
  by (simp_all add: claimed_row_def)

lemma take_follow [follow_steps]:
  "reports_follow (rs_reports s) (rs_reports (snd (take_candidate env a c s)))"
  unfolding take_reports
  by (rule reports_follow_update) (auto simp: follows_table_def unassigned_as_def claimed_row_def auto_assigned_def)

section \<open>A concrete desk\<close>

definition desk_env :: report_env where
  "desk_env = \<lparr>re_now = 1000, re_rejectThreshold = 3, re_rejectWindowDays = 7\<rparr>"

definition plain_report :: report where
  "plain_report = \<lparr>r_id = ''r1'', r_userId = Some ''victim'', r_caseReference = ''EHT-1'', r_status = RS_UNDER_REVIEW,
     r_createdAt = 1, r_updatedAt = 1, r_assignedToId = None, r_category = ABUSE, r_priority = RP_MEDIUM,
     r_sensitivity = SENS_STANDARD, r_assignedTeamId = None, r_isAnonymous = True, r_reporterUpdatedAt = 1,
     r_dueAt = None, r_lastActivityAt = 1, r_closedAt = None, r_resolutionOutcome = None, r_resolutionSummary = None,
     r_resolvedById = None, r_archivedAt = None, r_deletedAt = None, r_mergedIntoId = None\<rparr>"

definition urgent_report :: report where
  "urgent_report = plain_report\<lparr>r_id := ''r2'', r_caseReference := ''EHT-2'', r_priority := RP_CRITICAL, r_createdAt := 5\<rparr>"

definition hidden_report :: report where
  "hidden_report = plain_report\<lparr>r_id := ''r3'', r_caseReference := ''EHT-3'', r_sensitivity := SENS_CHILD_INVOLVED\<rparr>"

definition desk :: report_state where
  "desk = \<lparr>rs_reports = [plain_report, urgent_report, hidden_report],
     rs_users = [\<lparr>ru_id = ''ann'', ru_name = Some ''Ann'', ru_roles = [''ADMIN'']\<rparr>], rs_grants = [],
     rs_statusHistory = [], rs_assignmentHistory = [], rs_escalations = [], rs_revisions = [], rs_log = []\<rparr>"

definition ann :: current_user where
  "ann = \<lparr>cu_id = ''ann'', cu_roles = [''ADMIN'']\<rparr>"

definition bob :: current_user where
  "bob = \<lparr>cu_id = ''bob'', cu_roles = [''ADMIN'']\<rparr>"

section \<open>Properties\<close>



lemma find_unassigned:
  assumes "distinct (map r_id (rs_reports s))" "count_where (unassigned_as c) (rs_reports s) \<noteq> 0"
  obtains q where "find_report (r_id c) s = Some q" "unassigned_as c q"
proof -
  from assms(2) obtain q where q: "q \<in> set (rs_reports s)" "unassigned_as c q" by (auto simp: count_where_0_iff)
  with find_key_unique [OF assms(1) q(1)] that show thesis by (auto simp: find_report_def unassigned_as_def)
qed

lemma take_candidate_result:
  assumes "find_report (r_id c) s = Some q" "unassigned_as c q"
  obtains t where "take_candidate env admin c s = (Inr (claimed_row env admin c q), t)"
    "find_report (r_id c) t = Some (claimed_row env admin c q)"
proof -
  have "find_report (r_id c) (snd (take_candidate env admin c s)) = Some (claimed_row env admin c q)"
    using assms by (simp add: find_report_def find_update_key)
  moreover from this have "fst (take_candidate env admin c s) = Inr (claimed_row env admin c q)"
    using take_reports [of env admin c s]
    by (auto simp: take_candidate_def fetch_report_def find_report_def Let_def split: option.splits)
  ultimately show thesis using that [of "snd (take_candidate env admin c s)"] by (simp add: prod_eq_iff)
qed

lemma candidate_queueable: "queue_candidate env admin team s = Some c \<Longrightarrow> c \<in> set (rs_reports s) \<and> queueable env admin team s c"
proof -
  assume "queue_candidate env admin team s = Some c"
  then obtain cs where "queue_order (filter (queueable env admin team s) (rs_reports s)) = c # cs"
    by (auto simp: queue_candidate_def split: list.splits)
  then have "c \<in> set (queue_order (filter (queueable env admin team s) (rs_reports s)))" by simp
  then show ?thesis by (auto simp: queue_order_def)
qed


definition interference :: "nat \<Rightarrow> report_state \<Rightarrow> report_state" where
  "interference n s = (if n = 4 then snd (take_candidate desk_env bob urgent_report s) else s)"

lemma interference_ids: "distinct (map r_id (rs_reports v)) \<Longrightarrow> distinct (map r_id (rs_reports (interference n v)))"
proof -
  have "map r_id (rs_reports (snd (take_candidate desk_env bob urgent_report v))) = map r_id (rs_reports v)"
    by (simp add: map_update_where)
  then show "distinct (map r_id (rs_reports v)) \<Longrightarrow> distinct (map r_id (rs_reports (interference n v)))"
    by (simp add: interference_def)
qed


lemma hd_sort_key_le: "sort_key k xs = y # ys \<Longrightarrow> x \<in> set xs \<Longrightarrow> k y \<le> k x"
proof -
  assume "sort_key k xs = y # ys" "x \<in> set xs"
  moreover from this have "x \<in> set (y # ys)" using set_sort [of k xs] by simp
  moreover have "sorted (map k (sort_key k xs))" by simp
  ultimately show "k y \<le> k x" by auto
qed

lemma candidate_urgent:
  assumes "q \<in> set (rs_reports s)" "queueable env admin team s q"
  obtains c where "queue_candidate env admin team s = Some c" "priority_rank (r_priority q) \<le> priority_rank (r_priority c)"
proof -
  let ?xs = "filter (queueable env admin team s) (rs_reports s)"
  let ?ys = "sort_key (\<lambda>r. if r_dueAt r = None then 1 else 0 :: int)
       (sort_key (\<lambda>r. case r_dueAt r of None \<Rightarrow> 0 | Some t \<Rightarrow> t) (sort_key r_createdAt ?xs))"
  have q: "q \<in> set ?ys" using assms by simp
  then have "sort_key (\<lambda>r. - priority_rank (r_priority r)) ?ys \<noteq> []"
    by (metis empty_iff list.set(1) set_sort)
  then obtain c cs where c: "sort_key (\<lambda>r. - priority_rank (r_priority r)) ?ys = c # cs"
    by (auto simp: neq_Nil_conv)
  from hd_sort_key_le [OF c q] have "priority_rank (r_priority q) \<le> priority_rank (r_priority c)" by simp
  moreover from c have "queue_candidate env admin team s = Some c"
    by (simp add: queue_candidate_def queue_order_def)
  ultimately show thesis using that by blast
qed

text \<open>
  Undisturbed, the queue serves: when some report is open to the caller, the call returns one, and no
  report open to the caller has a higher priority.
\<close>

theorem queue_serves_most_urgent:
  assumes "distinct (map r_id (rs_reports s))" "q \<in> set (rs_reports s)" "queueable env admin team s q"
  shows "\<exists>r. fst (queueNext env (\<lambda>_ v. v) admin team s) = Inr (Some r) \<and>
    priority_rank (r_priority q) \<le> priority_rank (r_priority r)"
proof -
  obtain c where c: "queue_candidate env admin team s = Some c" "priority_rank (r_priority q) \<le> priority_rank (r_priority c)"
    using candidate_urgent [OF assms(2,3)] .
  have cq: "c \<in> set (rs_reports s)" "queueable env admin team s c" using candidate_queueable [OF c(1)] by auto
  then have n0: "count_where (unassigned_as c) (rs_reports s) \<noteq> 0"
    by (auto simp: count_where_0_iff unassigned_as_def queueable_def)
  have find: "find_where (\<lambda>r. r_id r = r_id c) (rs_reports s) = Some c" using find_key_unique [OF assms(1) cq(1)] .
  then have "find_report (r_id c) s = Some c" "unassigned_as c c"
    using cq(2) by (auto simp: find_report_def unassigned_as_def queueable_def)
  then obtain r t where "take_candidate env admin c s = (Inr r, t)" "r_priority r = r_priority c"
    by (metis take_candidate_result claimed_row_id(2))
  then have "queue_loop (Suc n) env (\<lambda>_ v. v) admin team s = (Inr (Some r), t)" for n
    using c(1) n0 by (simp add: Let_def)
  from this [of 4] have "queueNext env (\<lambda>_ v. v) admin team s = (Inr (Some r), t)"
    by (simp add: queueNext_def numeral_eq_Suc)
  with c(2) \<open>r_priority r = r_priority c\<close> show ?thesis by simp
qed

theorem queue_serves_most_urgent_witness:
  "\<exists>r. fst (queueNext desk_env (\<lambda>_ v. v) ann None desk) = Inr (Some r) \<and> 3 \<le> priority_rank (r_priority r)"
proof -
  have "distinct (map r_id (rs_reports desk))" "urgent_report \<in> set (rs_reports desk)"
    "queueable desk_env ann None desk urgent_report" by code_simp+
  from queue_serves_most_urgent [OF this] show ?thesis by (simp add: urgent_report_def)
qed

lemma write_gate_blocked:
  assumes "find_report rid s = Some r" "\<not> is_super admin" "r_assignedToId r = Some other" "other \<noteq> []" "other \<noteq> cu_id admin"
    "distinct (map r_id (rs_reports s))"
  shows "isl (fst (loadForAdminWrite env admin rid action s f)) \<and>
    rs_reports (snd (loadForAdminWrite env admin rid action s f)) = rs_reports s"
proof (cases "loadForAdmin env admin rid False s")
  case (Inr q)
  then have q: "q \<in> set (rs_reports s)" "r_id q = rid"
    by (auto simp: loadForAdmin_def dest: find_where_SomeD split: option.splits)
  with find_key_unique [OF assms(6) q(1)] assms(1) have "q = r" by (simp add: find_report_def)
  with Inr assms show ?thesis
    by (simp add: loadForAdminWrite_def rs_check_def assertAdminCanAccessReport_def truthy_def)
qed (simp add: loadForAdminWrite_def)

text \<open>
  An administrator who is not a super administrator and not the assignee cannot work on a report that
  is assigned to someone else: changing its status, escalating, resolving, de-escalating,
  re-categorising and re-prioritising fail and change no report.
\<close>

theorem assigned_reports_protected:
  assumes "find_report rid s = Some r" "\<not> is_super admin" "r_assignedToId r = Some other" "other \<noteq> []" "other \<noteq> cu_id admin"
    "distinct (map r_id (rs_reports s))"
  shows "isl (fst (updateStatus_report env admin rid st n s)) \<and> rs_reports (snd (updateStatus_report env admin rid st n s)) = rs_reports s \<and>
    isl (fst (escalate env admin rid m s)) \<and> rs_reports (snd (escalate env admin rid m s)) = rs_reports s \<and>
    isl (fst (resolve env admin rid v m s)) \<and> rs_reports (snd (resolve env admin rid v m s)) = rs_reports s \<and>
    isl (fst (deEscalate env admin rid m s)) \<and> rs_reports (snd (deEscalate env admin rid m s)) = rs_reports s \<and>
    isl (fst (updateCategory env admin rid c n s)) \<and> rs_reports (snd (updateCategory env admin rid c n s)) = rs_reports s \<and>
    isl (fst (updatePriority env admin rid p n s)) \<and> rs_reports (snd (updatePriority env admin rid p n s)) = rs_reports s"
  using assms
  by (simp add: write_gate_blocked [OF assms] resolve_def deEscalate_def updateCategory_def updatePriority_def updateStatus_report_def escalate_def
      with_report_def updateStatus_report_from_def escalate_from_def rs_check_def assertAdminCanAccessReport_def truthy_def)

definition taken_desk :: report_state where
  "taken_desk = snd (assign desk_env bob ''r1'' ''ann'' None desk)"

theorem assigned_reports_protected_witness:
  "isl (fst (resolve desk_env bob ''r1'' RESOLVED ''done'' taken_desk)) \<and>
   rs_reports (snd (resolve desk_env bob ''r1'' RESOLVED ''done'' taken_desk)) = rs_reports taken_desk"
proof -
  let ?r = "hd (rs_reports taken_desk)"
  have "find_report ''r1'' taken_desk = Some ?r" by code_simp
  moreover have "\<not> is_super bob" by code_simp
  moreover have "r_assignedToId ?r = Some ''ann''" by code_simp
  moreover have "''ann'' \<noteq> cu_id bob" by (simp add: bob_def)
  moreover have "distinct (map r_id (rs_reports taken_desk))" by code_simp
  ultimately show ?thesis using assigned_reports_protected by blast
qed

text \<open>
  A report hidden from an administrator by its sensitivity looks missing to the newer routes, and they
  change nothing: loading it, resolving, de-escalating, re-categorising, re-prioritising, assigning a
  team and asking for its transitions all answer not found.
\<close>

theorem hidden_reports_look_missing:
  assumes "\<And>r. r \<in> set (rs_reports s) \<Longrightarrow> r_id r = rid \<Longrightarrow> \<not> visible env admin s r"
  shows "loadForAdmin env admin rid d s = Inl (NotFound ''report_not_found'') \<and>
    resolve env admin rid v m s = (Inl (NotFound ''report_not_found''), s) \<and>
    deEscalate env admin rid m s = (Inl (NotFound ''report_not_found''), s) \<and>
    updateCategory env admin rid c n s = (Inl (NotFound ''report_not_found''), s) \<and>
    updatePriority env admin rid p n s = (Inl (NotFound ''report_not_found''), s) \<and>
    assignTeam env admin rid t s = (Inl (NotFound ''report_not_found''), s) \<and>
    getAllowedTransitions env admin rid s = Inl (NotFound ''report_not_found'')"
proof -
  have "loadForAdmin env admin rid d s = Inl (NotFound ''report_not_found'')" for d
  proof -
    have "find_where (\<lambda>r. r_id r = rid \<and> (d \<or> r_deletedAt r = None) \<and> visible env admin s r) (rs_reports s) = None"
      using assms by (auto simp: find_where_None_iff)
    then show ?thesis by (simp add: loadForAdmin_def)
  qed
  then show ?thesis
    by (simp add: resolve_def deEscalate_def updateCategory_def updatePriority_def assignTeam_def getAllowedTransitions_def
        loadForAdminWrite_def)
qed

theorem hidden_reports_look_missing_witness:
  "resolve desk_env ann ''r3'' RESOLVED ''done'' desk = (Inl (NotFound ''report_not_found''), desk)"
proof -
  have "\<forall>r \<in> set (rs_reports desk). r_id r = ''r3'' \<longrightarrow> \<not> visible desk_env ann desk r" by code_simp
  then show ?thesis using hidden_reports_look_missing [of desk "''r3''" desk_env ann] by blast
qed

text \<open>
  The older routes do not know sensitivity: the same administrator who cannot load a report about a
  child opens it, with its anonymous reporter's identity, changes its status and escalates it.
\<close>

theorem older_routes_ignore_sensitivity:
  "isl (loadForAdmin desk_env ann ''r3'' False desk) \<and>
   fst (findOneForAdmin ann ''r3'' desk) = Inr hidden_report \<and> r_userId hidden_report = Some ''victim'' \<and>
   r_isAnonymous hidden_report \<and>
   map_sum (\<lambda>_. ()) r_status (fst (updateStatus_report desk_env ann ''r3'' RS_REJECTED None desk)) = Inr RS_REJECTED \<and>
   map_sum (\<lambda>_. ()) r_status (fst (escalate desk_env ann ''r3'' ''x'' desk)) = Inr RS_ESCALATED"
  by code_simp

text \<open>
  The status route and the escalation route leave no trace in the case record: whatever they do, no
  status history and no escalation entry is written, and closing through the status route records
  neither closing time nor outcome.
\<close>

theorem older_routes_leave_no_history:
  "rs_statusHistory (snd (updateStatus_report env admin rid st n s)) = rs_statusHistory s \<and>
   rs_statusHistory (snd (escalate env admin rid m s)) = rs_statusHistory s \<and>
   rs_escalations (snd (escalate env admin rid m s)) = rs_escalations s \<and>
   map (\<lambda>r. (r_closedAt r, r_resolutionOutcome r, r_resolvedById r)) (rs_reports (snd (updateStatus_report env admin rid st n s))) =
     map (\<lambda>r. (r_closedAt r, r_resolutionOutcome r, r_resolvedById r)) (rs_reports s)"
proof -
  have "map (\<lambda>r. (r_closedAt r, r_resolutionOutcome r, r_resolvedById r))
      (update_where P (\<lambda>r. r\<lparr>r_status := st, r_updatedAt := t\<rparr>) xs) =
      map (\<lambda>r. (r_closedAt r, r_resolutionOutcome r, r_resolvedById r)) xs" for P t xs
    by (rule map_update_where) simp
  then show ?thesis
    by (auto simp: updateStatus_report_def escalate_def updateStatus_report_from_def escalate_from_def with_report_def
        fetch_report_def rs_check_def rep_transition_def Let_def split: option.splits)
qed

end
