(* ===== verification/Ussd_Input.thy ===== *)
theory Ussd_Input
  imports Prelude
begin

text \<open>
  What reaches the USSD menu and how its text is read: the gateway adapter
  (\<open>src/modules/ussd/service/adapters/africastalking-style.adapter.ts\<close>), JavaScript's \<open>Number(text)\<close>
  as the category choice uses it, and the date entry \<open>parseDdMmYyyy\<close> of \<open>ussd-menu.service.ts\<close> with
  the calendar of the ECMAScript \<open>Date\<close> object. Decimal text is read exactly: the rounding of very long
  fractions to a double is left out.
\<close>

section \<open>Gateway adapter\<close>

fun split_on :: "char \<Rightarrow> jstring \<Rightarrow> jstring list" where
  "split_on c [] = [[]]"
| "split_on c (d # s) =
     (if d = c then [] # split_on c s
      else case split_on c s of [] \<Rightarrow> [[d]] | w # ws \<Rightarrow> (d # w) # ws)"

record ussd_inbound =
  in_sessionId :: jstring
  in_phoneNumber :: jstring
  in_input :: jstring

record ussd_outbound =
  out_text :: jstring
  out_continue :: bool

text \<open>\<open>text\<close> is what the caller typed since dialling, the answers separated by \<open>*\<close>.\<close>

definition parseInbound :: "jstring \<Rightarrow> jstring \<Rightarrow> jstring option \<Rightarrow> ussd_inbound" where
  "parseInbound sessionId phoneNumber text =
     (let segments = filter (\<lambda>w. w \<noteq> []) (split_on (CHR ''*'') (case text of None \<Rightarrow> [] | Some t \<Rightarrow> t))
      in \<lparr>in_sessionId = sessionId, in_phoneNumber = phoneNumber,
          in_input = (if segments \<noteq> [] then last segments else [])\<rparr>)"

definition formatOutbound :: "ussd_outbound \<Rightarrow> jstring" where
  "formatOutbound r = (if out_continue r then ''CON '' else ''END '') @ out_text r"

section \<open>Numbers in text\<close>

definition digit_val :: "char \<Rightarrow> nat" where
  "digit_val c = code_of c - 48"

definition digits_val :: "jstring \<Rightarrow> nat" where
  "digits_val ds = foldl (\<lambda>n c. 10 * n + digit_val c) 0 ds"

definition all_digits :: "jstring \<Rightarrow> bool" where
  "all_digits s \<longleftrightarrow> s \<noteq> [] \<and> list_all is_digit s"

text \<open>A sign, if there is one, and the rest.\<close>

fun split_sign :: "jstring \<Rightarrow> bool \<times> jstring" where
  "split_sign [] = (False, [])"
| "split_sign (c # s) = (if c = CHR ''-'' then (True, s) else if c = CHR ''+'' then (False, s) else (False, c # s))"

definition exponent_of :: "jstring \<Rightarrow> rat option" where
  "exponent_of s = (case s of
       [] \<Rightarrow> Some 1
     | c # t \<Rightarrow>
        (case split_sign t of (neg, ds) \<Rightarrow>
           if c \<in> {CHR ''e'', CHR ''E''} \<and> all_digits ds
           then Some (if neg then 1 / 10 ^ digits_val ds else 10 ^ digits_val ds) else None))"

definition decimal_of :: "jstring \<Rightarrow> rat option" where
  "decimal_of s =
     (let ip = takeWhile is_digit s; r = dropWhile is_digit s;
          fp = (case r of c # t \<Rightarrow> if c = CHR ''.'' then takeWhile is_digit t else [] | [] \<Rightarrow> []);
          r2 = (case r of c # t \<Rightarrow> if c = CHR ''.'' then dropWhile is_digit t else r | [] \<Rightarrow> r)
      in if ip = [] \<and> fp = [] then None
         else map_option (\<lambda>e. (of_nat (digits_val ip) + of_nat (digits_val fp) / 10 ^ length fp) * e) (exponent_of r2))"

definition radix_digit :: "nat \<Rightarrow> char \<Rightarrow> nat option" where
  "radix_digit b c =
     (let n = (if is_digit c then digit_val c else if 97 \<le> code_of (lower_char c) then code_of (lower_char c) - 87 else b)
      in if n < b then Some n else None)"

fun radix_of :: "nat \<Rightarrow> nat \<Rightarrow> jstring \<Rightarrow> rat option" where
  "radix_of b acc [] = Some (of_nat acc)"
| "radix_of b acc (c # s) = (case radix_digit b c of None \<Rightarrow> None | Some d \<Rightarrow> radix_of b (b * acc + d) s)"

text \<open>\<open>Number(s)\<close>; \<open>None\<close> is \<open>NaN\<close> or an infinity, neither of which indexes an array.\<close>

definition js_Number :: "jstring \<Rightarrow> rat option" where
  "js_Number s = (let t = js_trim s in
     if t = [] then Some 0
     else if 2 < length t \<and> js_lower (take 2 t) = ''0x'' then radix_of 16 0 (drop 2 t)
     else if 2 < length t \<and> js_lower (take 2 t) = ''0o'' then radix_of 8 0 (drop 2 t)
     else if 2 < length t \<and> js_lower (take 2 t) = ''0b'' then radix_of 2 0 (drop 2 t)
     else case split_sign t of (neg, u) \<Rightarrow> map_option (\<lambda>q. if neg then - q else q) (decimal_of u))"

section \<open>Calendar dates\<close>

definition leap :: "int \<Rightarrow> bool" where
  "leap y \<longleftrightarrow> y mod 4 = 0 \<and> (y mod 100 \<noteq> 0 \<or> y mod 400 = 0)"

definition days_in_month :: "int \<Rightarrow> nat \<Rightarrow> nat" where
  "days_in_month y m = (if m = 2 then (if leap y then 29 else 28) else if m \<in> {4, 6, 9, 11} then 30 else 31)"

text \<open>\<open>DayFromYear\<close> of the ECMAScript standard, and the days of the year before a month.\<close>

definition day_from_year :: "int \<Rightarrow> int" where
  "day_from_year y = 365 * (y - 1970) + (y - 1969) div 4 - (y - 1901) div 100 + (y - 1601) div 400"

definition month_start :: "int \<Rightarrow> nat \<Rightarrow> int" where
  "month_start y m = (\<Sum>k \<leftarrow> [1..<m]. int (days_in_month y k))"

definition date_ms :: "int \<Rightarrow> nat \<Rightarrow> nat \<Rightarrow> int" where
  "date_ms y m d = 86400000 * (day_from_year y + month_start y m + int d - 1)"

text \<open>
  The three comparisons of \<open>isRealDate\<close>: \<open>Date.UTC\<close> carries a day or a month out of range over to
  another month, so that reading it back differs, and moves the years 0 to 99 to 1900 to 1999.
\<close>

definition real_date :: "int \<Rightarrow> nat \<Rightarrow> nat \<Rightarrow> bool" where
  "real_date y m d \<longleftrightarrow> 100 \<le> y \<and> 1 \<le> m \<and> m \<le> 12 \<and> 1 \<le> d \<and> d \<le> days_in_month y m"

definition pad_digits :: "nat \<Rightarrow> nat \<Rightarrow> jstring" where
  "pad_digits w n = (let s = show_nat n in replicate (w - length s) (CHR ''0'') @ s)"

definition ISO_TIME :: jstring where
  "ISO_TIME = ''T00:00:00.000Z''"

definition iso_date :: "nat \<Rightarrow> nat \<Rightarrow> nat \<Rightarrow> jstring" where
  "iso_date y m d = pad_digits 4 y @ ''-'' @ pad_digits 2 m @ ''-'' @ pad_digits 2 d @ ISO_TIME"

definition date_fields :: "jstring \<Rightarrow> (nat \<times> nat \<times> nat) option" where
  "date_fields s = (case split_on (CHR ''/'') s of
      [a, b, c] \<Rightarrow> if all_digits a \<and> length a \<le> 2 \<and> all_digits b \<and> length b \<le> 2 \<and> all_digits c \<and> length c = 4
                   then Some (digits_val a, digits_val b, digits_val c) else None
    | _ \<Rightarrow> None)"

definition parseDdMmYyyy :: "int \<Rightarrow> jstring \<Rightarrow> jstring option" where
  "parseDdMmYyyy now s = (case date_fields s of
      None \<Rightarrow> None
    | Some (day, month, year) \<Rightarrow>
       if real_date (int year) month day \<and> date_ms (int year) month day \<le> now
       then Some (iso_date year month day) else None)"

text \<open>\<open>new Date(text)\<close> on a text of the form \<open>toISOString\<close> gives at midnight; anything else is an invalid date here.\<close>

definition parse_iso :: "jstring \<Rightarrow> int option" where
  "parse_iso s =
     (let y = take 4 s; m = take 2 (drop 5 s); d = take 2 (drop 8 s)
      in if length s = 24 \<and> all_digits y \<and> all_digits m \<and> all_digits d \<and> s ! 4 = CHR ''-'' \<and> s ! 7 = CHR ''-'' \<and>
            drop 10 s = ISO_TIME \<and> real_date (int (digits_val y)) (digits_val m) (digits_val d)
         then Some (date_ms (int (digits_val y)) (digits_val m) (digits_val d)) else None)"

subsection \<open>A date survives being stored as text\<close>

lemma digits_val_snoc: "digits_val (ds @ [c]) = 10 * digits_val ds + digit_val c"
  by (simp add: digits_val_def)

lemma digit_val_char_of: "d < 10 \<Longrightarrow> digit_val (char_of (48 + d)) = d"
  by (simp add: digit_val_def)

lemma digits_val_show_nat: "digits_val (show_nat n) = n"
proof (induction n rule: show_nat.induct)
  case (1 n)
  show ?case
  proof (cases "n < 10")
    case True
    then show ?thesis by (simp add: show_nat.simps digits_val_def digit_val_char_of)
  next
    case False
    with 1 have "digits_val (show_nat (n div 10)) = n div 10" by simp
    with False show ?thesis
      by (subst show_nat.simps) (simp add: digits_val_snoc digit_val_char_of)
  qed
qed

lemma digits_val_zeros: "digits_val (replicate k (CHR ''0'') @ s) = digits_val s"
proof (induction k)
  case (Suc k)
  have "digits_val (CHR ''0'' # t) = digits_val t" for t
    by (simp add: digits_val_def digit_val_def code_of_def)
  with Suc show ?case by simp
qed simp

lemma pad_digits:
  assumes "n < 10 ^ Suc k"
  shows "digits_val (pad_digits (Suc k) n) = n" "length (pad_digits (Suc k) n) = Suc k" "all_digits (pad_digits (Suc k) n)"
proof -
  show "digits_val (pad_digits (Suc k) n) = n"
    by (simp add: pad_digits_def Let_def digits_val_zeros digits_val_show_nat)
  show len: "length (pad_digits (Suc k) n) = Suc k"
    using show_nat_length [OF assms] by (simp add: pad_digits_def Let_def)
  have "list_all is_digit (pad_digits (Suc k) n)"
    using show_nat_digits [of n] by (auto simp: pad_digits_def Let_def list_all_iff is_digit_def code_of_def)
  with len show "all_digits (pad_digits (Suc k) n)" by (auto simp: all_digits_def)
qed

lemma digits_val_less: "digits_val ds < 10 ^ length ds" if "list_all is_digit ds"
  using that
proof (induction ds rule: rev_induct)
  case (snoc c ds)
  then have "digits_val ds < 10 ^ length ds" "digit_val c < 10"
    by (auto simp: digit_val_def is_digit_def)
  then show ?case by (simp add: digits_val_snoc)
qed (simp add: digits_val_def)

lemma parse_iso_date:
  assumes "real_date (int y) m d" "y < 10000"
  shows "parse_iso (iso_date y m d) = Some (date_ms (int y) m d)"
proof -
  have "m < 10 ^ Suc 1" "d < 10 ^ Suc 1" "y < 10 ^ Suc 3"
    using assms by (auto simp: real_date_def days_in_month_def split: if_splits)
  note p = pad_digits [OF this(3)] pad_digits [OF this(1)] pad_digits [OF this(2)]
  then have "take 4 (iso_date y m d) = pad_digits 4 y" "take 2 (drop 5 (iso_date y m d)) = pad_digits 2 m"
    "take 2 (drop 8 (iso_date y m d)) = pad_digits 2 d" "drop 10 (iso_date y m d) = ISO_TIME"
    "length (iso_date y m d) = 24" "iso_date y m d ! 4 = CHR ''-''" "iso_date y m d ! 7 = CHR ''-''"
    by (simp_all add: iso_date_def ISO_TIME_def nth_append numeral_eq_Suc)
  with p assms show ?thesis by (simp add: parse_iso_def Let_def numeral_eq_Suc)
qed

text \<open>What the menu stores for an accepted date.\<close>

lemma parseDdMmYyyy_Some:
  assumes "parseDdMmYyyy now s = Some text"
  obtains y m d where "text = iso_date y m d" "real_date (int y) m d" "y < 10000" "date_ms (int y) m d \<le> now"
proof -
  from assms obtain a b c where f: "split_on (CHR ''/'') s = [a, b, c]" "all_digits c" "length c = 4"
    and r: "real_date (int (digits_val c)) (digits_val b) (digits_val a)"
      "date_ms (int (digits_val c)) (digits_val b) (digits_val a) \<le> now"
      "text = iso_date (digits_val c) (digits_val b) (digits_val a)"
    by (auto simp: parseDdMmYyyy_def date_fields_def split: list.splits if_splits)
  have "digits_val c < 10 ^ length c" using f by (intro digits_val_less) (simp add: all_digits_def)
  with f r that show thesis by simp
qed

end
