(* ===== verification/Redis.thy ===== *)
theory Redis
  imports Prelude
begin

text \<open>
  The key-value store behind sessions, counters and locks, \<open>src/infrastructure/redis/redis.service.ts\<close>
  and \<open>cron-lock.service.ts\<close>: keys that expire, the atomic \<open>INCR\<close>-with-expiry script and the
  lock that lets one instance run a scheduled job. \<open>up\<close> says whether the store answers; every method of
  \<open>RedisService\<close> turns an unreachable store into a value.

  What clients rely on of the counter is the locale \<open>attempt_counter\<close>.
\<close>

section \<open>Keys with an expiry\<close>

text \<open>Key to value and the time (in milliseconds) at which the key is gone.\<close>

type_synonym 'v redis = "jstring \<Rightarrow> ('v \<times> int) option"

definition live :: "int \<Rightarrow> 'v redis \<Rightarrow> jstring \<Rightarrow> 'v option" where
  "live now m k = (case m k of None \<Rightarrow> None | Some (v, e) \<Rightarrow> if now < e then Some v else None)"

definition redis_get :: "bool \<Rightarrow> int \<Rightarrow> jstring \<Rightarrow> 'v redis \<Rightarrow> 'v option" where
  "redis_get up now k m = (if up then live now m k else None)"

definition redis_set :: "bool \<Rightarrow> int \<Rightarrow> int \<Rightarrow> jstring \<Rightarrow> 'v \<Rightarrow> 'v redis \<Rightarrow> 'v redis" where
  "redis_set up now ttlSeconds k v m = (if up then m(k \<mapsto> (v, now + ttlSeconds * 1000)) else m)"

definition redis_del :: "bool \<Rightarrow> jstring \<Rightarrow> 'v redis \<Rightarrow> 'v redis" where
  "redis_del up k m = (if up then m(k := None) else m)"

text \<open>\<open>INCR_TTL_SCRIPT\<close>: an expired or missing counter starts again at one with a new expiry.\<close>

definition incr_script :: "int \<Rightarrow> int \<Rightarrow> jstring \<Rightarrow> nat redis \<Rightarrow> nat \<times> nat redis" where
  "incr_script now ttlSeconds k m = (case m k of
       Some (v, e) \<Rightarrow> if now < e then (Suc v, m(k \<mapsto> (Suc v, e))) else (1, m(k \<mapsto> (1, now + ttlSeconds * 1000)))
     | None \<Rightarrow> (1, m(k \<mapsto> (1, now + ttlSeconds * 1000))))"

definition incrementWithTtl :: "bool \<Rightarrow> int \<Rightarrow> int \<Rightarrow> jstring \<Rightarrow> nat redis \<Rightarrow> nat option \<times> nat redis" where
  "incrementWithTtl up now ttlSeconds k m =
     (if up then (case incr_script now ttlSeconds k m of (v, m') \<Rightarrow> (Some v, m')) else (None, m))"

section \<open>One instance per period\<close>

text \<open>
  \<open>runExclusive\<close>: \<open>SET key token PX ttl NX\<close>, then the job. The job is a function on the rest of the
  state; \<open>Inl\<close> is an exception, after which the lock is released if it still holds the token.
\<close>

definition runExclusive :: "bool \<Rightarrow> int \<Rightarrow> jstring \<Rightarrow> int \<Rightarrow> jstring \<Rightarrow> ('s \<Rightarrow> unit result \<times> 's)
    \<Rightarrow> jstring redis \<times> 's \<Rightarrow> bool result \<times> jstring redis \<times> 's" where
  "runExclusive up now key ttlMs token job = (\<lambda>(locks, s).
     if \<not> up then (case job s of (Inl e, s') \<Rightarrow> (Inl e, locks, s') | (Inr _, s') \<Rightarrow> (Inr True, locks, s'))
     else if live now locks key \<noteq> None then (Inr False, locks, s)
     else let held = locks(key \<mapsto> (token, now + ttlMs))
          in case job s of
               (Inr _, s') \<Rightarrow> (Inr True, held, s')
             | (Inl e, s') \<Rightarrow> (Inl e, if map_option fst (held key) = Some token then held(key := None) else held, s'))"

section \<open>Counting attempts\<close>

text \<open>The count a key stands for, and when its window closes if it is counted at \<open>now\<close>.\<close>

definition level :: "int \<Rightarrow> nat redis \<Rightarrow> jstring \<Rightarrow> nat" where
  "level now m k = (case live now m k of None \<Rightarrow> 0 | Some v \<Rightarrow> v)"

definition closes :: "int \<Rightarrow> int \<Rightarrow> nat redis \<Rightarrow> jstring \<Rightarrow> int" where
  "closes ttlSeconds now m k = (case m k of
       Some (v, e) \<Rightarrow> if now < e then e else now + ttlSeconds * 1000
     | None \<Rightarrow> now + ttlSeconds * 1000)"

text \<open>
  A client that limits attempts relies on three laws: a bump returns one more than the count, the new
  count stands until the window closes, and bumping while the window is open does not move its end.
\<close>

locale attempt_counter =
  fixes bump :: "int \<Rightarrow> 'k \<Rightarrow> 's \<Rightarrow> nat \<times> 's"
    and count :: "int \<Rightarrow> 's \<Rightarrow> 'k \<Rightarrow> nat"
    and closing :: "int \<Rightarrow> 's \<Rightarrow> 'k \<Rightarrow> int"
  assumes bump_counts: "fst (bump now k s) = Suc (count now s k)"
    and bump_stands: "t < closing now s k \<Longrightarrow> count t (snd (bump now k s)) k = Suc (count now s k)"
    and bump_window: "t < closing now s k \<Longrightarrow> closing t (snd (bump now k s)) k = closing now s k"
    and bump_other: "k' \<noteq> k \<Longrightarrow> count t (snd (bump now k s)) k' = count t s k'"
begin

text \<open>Bumping at the given times, and the counts returned.\<close>

primrec bumps :: "int list \<Rightarrow> 'k \<Rightarrow> 's \<Rightarrow> nat list \<times> 's" where
  "bumps [] k s = ([], s)"
| "bumps (t # ts) k s =
     (case bumps ts k (snd (bump t k s)) of (vs, s') \<Rightarrow> (fst (bump t k s) # vs, s'))"

text \<open>Within one window the returned counts are consecutive.\<close>

lemma bumps_consecutive:
  assumes "\<forall>t \<in> set (t0 # ts). t < closing t0 s k"
  shows "fst (bumps (t0 # ts) k s) = map (\<lambda>i. count t0 s k + i + 1) [0..<Suc (length ts)]"
  using assms
proof (induction ts arbitrary: t0 s)
  case Nil
  then show ?case by (simp add: bump_counts)
next
  case (Cons t ts)
  let ?s = "snd (bump t0 k s)"
  have "\<forall>u \<in> set (t # ts). u < closing t ?s k" using Cons.prems by (simp add: bump_window)
  from Cons.IH [OF this] have "fst (bumps (t # ts) k ?s) = map (\<lambda>i. count t0 s k + Suc i + 1) [0..<Suc (length ts)]"
    using Cons.prems by (simp add: bump_stands del: upt_Suc)
  also have "\<dots> = map (\<lambda>i. count t0 s k + i + 1) [Suc 0..<Suc (Suc (length ts))]"
    by (simp add: map_Suc_upt [symmetric] comp_def del: upt_Suc)
  finally show ?case
    by (simp add: bump_counts case_prod_beta upt_conv_Cons [of 0 "Suc (Suc (length ts))"] del: upt_Suc)
qed

end

interpretation redis_counter: attempt_counter "\<lambda>now. incr_script now ttl" level "closes ttl" for ttl
  by unfold_locales (auto simp: incr_script_def level_def closes_def live_def split: option.splits if_splits)

text \<open>Counts and windows depend on the key's entry alone, and do not change while the window is open.\<close>

lemma counter_cong:
  "m' k = m k \<Longrightarrow> level t m' k = level t m k" "m' k = m k \<Longrightarrow> closes ttl t m' k = closes ttl t m k"
  by (simp_all add: level_def live_def closes_def)

lemma window_later:
  assumes "t0 \<le> t" "t < closes ttl t0 m k"
  shows "level t m k = level t0 m k" "closes ttl t0 m k \<le> closes ttl t m k"
  using assms by (auto simp: level_def live_def closes_def split: option.splits if_splits)

end
