(* ===== verification/Ussd.thy ===== *)
theory Ussd
  imports Ussd_Input Redis Report_Data
begin

text \<open>
  The USSD channel, \<open>src/modules/ussd\<close>: sessions kept in Redis (\<open>ussd-session.service.ts\<close>), the
  three services that write the rows of anonymous callers (\<open>ussd-report.service.ts\<close>,
  \<open>ussd-missing-person.service.ts\<close>, \<open>ussd-information-submission.service.ts\<close>), the menu
  (\<open>ussd-menu.service.ts\<close>, one definition per \<open>from\<close> method) and the caller check of the controller.
\<close>

section \<open>Sessions and rows\<close>

datatype ussd_step =
    ROOT
  | REPORT_CATEGORY | REPORT_DESCRIPTION | REPORT_CONFIRM
  | STATUS_INPUT_REF
  | MISSING_PERSON_TYPE | MISSING_PERSON_NAME | MISSING_PERSON_DESCRIPTION
  | MISSING_PERSON_DATE_LAST_SEEN | MISSING_PERSON_LAST_AREA | MISSING_PERSON_CONFIRM
  | INFO_MISSING_PERSON_ID | INFO_DESCRIPTION | INFO_CONFIRM

record ussd_session =
  se_sessionId :: jstring
  se_phoneNumber :: jstring
  se_step :: ussd_step
  se_data :: "jstring \<Rightarrow> jstring option"
  se_createdAt :: int

datatype channel = APP | USSD

record ussd_report =
  ur_id :: jstring
  ur_userId :: "jstring option"
  ur_caseReference :: jstring
  ur_category :: report_category
  ur_description :: jstring
  ur_status :: report_status
  ur_channel :: channel

datatype person_type = WOMAN | CHILD

datatype missing_status = MP_PENDING | MP_UNDER_REVIEW | MP_APPROVED | MP_REJECTED | MP_FOUND
  | MP_MORE_INFORMATION_REQUESTED | MP_EXPIRED | MP_CANCELLED

record ussd_missing =
  um_id :: jstring
  um_userId :: "jstring option"
  um_contactPhone :: "jstring option"
  um_personType :: person_type
  um_name :: "jstring option"
  um_description :: jstring
  um_dateLastSeen :: int
  um_lastKnownArea :: jstring
  um_status :: missing_status
  um_channel :: channel

datatype information_status = INF_PENDING | INF_UNDER_REVIEW | INF_REVIEWED | INF_REJECTED

record ussd_information =
  ui_id :: jstring
  ui_userId :: "jstring option"
  ui_missingPersonId :: jstring
  ui_information :: jstring
  ui_status :: information_status
  ui_channel :: channel

record ussd_state =
  us_sessions :: "ussd_session redis"
  us_counters :: "nat redis"
  us_reports :: "ussd_report list"
  us_missing :: "ussd_missing list"
  us_information :: "ussd_information list"
  us_log :: "effect list"

text \<open>
  What one request draws from its surroundings: whether Redis answers, the clock, the id the database
  gives a new row, the year, and the random part of the case reference of each attempt.
\<close>

record ussd_env =
  ue_up :: bool
  ue_now :: int
  ue_newId :: jstring
  ue_year :: nat
  ue_random :: "nat \<Rightarrow> jstring"

definition us_emit :: "effect \<Rightarrow> ussd_state \<Rightarrow> ussd_state" where
  "us_emit e s = s\<lparr>us_log := us_log s @ [e]\<rparr>"

section \<open>Session service\<close>

definition SESSION_TTL_SECONDS :: int where
  "SESSION_TTL_SECONDS = 180"

definition session_key :: "jstring \<Rightarrow> jstring" where
  "session_key sid = ''ussd:session:'' @ sid"

definition session_get :: "ussd_env \<Rightarrow> jstring \<Rightarrow> ussd_state \<Rightarrow> ussd_session option" where
  "session_get env sid s = redis_get (ue_up env) (ue_now env) (session_key sid) (us_sessions s)"

definition session_save :: "ussd_env \<Rightarrow> ussd_session \<Rightarrow> ussd_state \<Rightarrow> ussd_state" where
  "session_save env se s = s\<lparr>us_sessions :=
     redis_set (ue_up env) (ue_now env) SESSION_TTL_SECONDS (session_key (se_sessionId se)) se (us_sessions s)\<rparr>"

definition session_start :: "ussd_env \<Rightarrow> jstring \<Rightarrow> jstring \<Rightarrow> ussd_state \<Rightarrow> ussd_state" where
  "session_start env sid phone s =
     session_save env \<lparr>se_sessionId = sid, se_phoneNumber = phone, se_step = ROOT, se_data = Map.empty,
       se_createdAt = ue_now env\<rparr> s"

definition setStep :: "ussd_env \<Rightarrow> ussd_session \<Rightarrow> ussd_step \<Rightarrow> (jstring \<times> jstring) list \<Rightarrow> ussd_state \<Rightarrow> ussd_state" where
  "setStep env se step patch s =
     session_save env (se\<lparr>se_step := step, se_data := se_data se ++ map_of patch\<rparr>) s"

definition session_end :: "ussd_env \<Rightarrow> jstring \<Rightarrow> ussd_state \<Rightarrow> ussd_state" where
  "session_end env sid s = s\<lparr>us_sessions := redis_del (ue_up env) (session_key sid) (us_sessions s)\<rparr>"

section \<open>Rows of anonymous callers\<close>

definition CASE_REFERENCE_MAX_ATTEMPTS :: nat where
  "CASE_REFERENCE_MAX_ATTEMPTS = 5"

definition generateCaseReference :: "ussd_env \<Rightarrow> nat \<Rightarrow> jstring" where
  "generateCaseReference env attempt = ''EHT-'' @ show_nat (ue_year env) @ ''-'' @ ue_random env attempt"

text \<open>\<open>state.data.category as ReportCategory\<close>: the database rejects a text that names no category.\<close>

definition REPORT_CATEGORIES :: "(jstring \<times> report_category) list" where
  "REPORT_CATEGORIES = [(''Harassment'', HARASSMENT), (''Abuse'', ABUSE), (''Fraud'', FRAUD), (''Threat'', THREAT),
     (''Discrimination'', DISCRIMINATION), (''Safety concern'', SAFETY_CONCERN), (''Other'', OTHER_CATEGORY)]"

definition category_named :: "jstring \<Rightarrow> report_category option" where
  "category_named n = map_option snd (find_where (\<lambda>(_, c). category_name c = n) REPORT_CATEGORIES)"

text \<open>The attempts of \<open>createWithUniqueCaseReference\<close>: a reference that is taken violates the unique index.\<close>

function create_report :: "ussd_env \<Rightarrow> report_category \<Rightarrow> jstring \<Rightarrow> nat \<Rightarrow> ussd_state \<Rightarrow> ussd_report result \<times> ussd_state" where
  "create_report env category description attempt s =
     (if CASE_REFERENCE_MAX_ATTEMPTS < attempt then (Inl (PlainError ''failed_to_generate_unique_case_reference''), s)
      else let ref = generateCaseReference env attempt
           in if ref \<in> ur_caseReference ` set (us_reports s)
              then (if attempt < CASE_REFERENCE_MAX_ATTEMPTS then create_report env category description (Suc attempt) s
                    else (Inl UniqueViolation, s))
              else let r = \<lparr>ur_id = ue_newId env, ur_userId = None, ur_caseReference = ref, ur_category = category,
                            ur_description = description, ur_status = RS_PENDING, ur_channel = USSD\<rparr>
                   in (Inr r, s\<lparr>us_reports := us_reports s @ [r]\<rparr>))"
  by pat_completeness auto
termination
  by (relation "measure (\<lambda>(_, _, _, attempt, _). CASE_REFERENCE_MAX_ATTEMPTS - attempt)") auto

declare create_report.simps [simp del]

definition createAnonymousReport :: "ussd_env \<Rightarrow> jstring \<Rightarrow> jstring \<Rightarrow> ussd_state \<Rightarrow> ussd_report result \<times> ussd_state" where
  "createAnonymousReport env category description s = (case category_named category of
       None \<Rightarrow> (Inl DatabaseError, s)
     | Some c \<Rightarrow> (case create_report env c description 1 s of
          (Inl e, s1) \<Rightarrow> (Inl e, s1)
        | (Inr r, s1) \<Rightarrow> (Inr r,
            us_emit (Notify ''NEW_REPORT'' [(''reportId'', JStr (ur_id r)), (''caseReference'', JStr (ur_caseReference r))])
             (us_emit (Audit ((audit_base SYSTEM ''REPORT_CREATED'' ''Report'' (ur_id r))
                \<lparr>ae_entityLabel := Some (ur_caseReference r),
                 ae_diff := [(''result'', JStr ''success''), (''status'', jrs (ur_status r))],
                 ae_metadata := [(''category'', JStr (category_name (ur_category r))), (''channel'', JStr ''USSD'')]\<rparr>)) s1))))"

definition findStatusByCaseReferencePublic :: "jstring \<Rightarrow> ussd_state \<Rightarrow> (jstring \<times> report_status) option" where
  "findStatusByCaseReferencePublic ref s =
     map_option (\<lambda>r. (ur_caseReference r, ur_status r)) (find_where (\<lambda>r. ur_caseReference r = ref) (us_reports s))"

fun person_type_name :: "person_type \<Rightarrow> jstring" where
  "person_type_name WOMAN = ''WOMAN''"
| "person_type_name CHILD = ''CHILD''"

definition person_type_named :: "jstring \<Rightarrow> person_type option" where
  "person_type_named n = find_where (\<lambda>t. person_type_name t = n) [WOMAN, CHILD]"

text \<open>A child's name never reaches the audit log.\<close>

definition caseLabel :: "ussd_missing \<Rightarrow> jstring option" where
  "caseLabel m = (if um_personType m = CHILD then Some (''Child case '' @ take 8 (um_id m)) else um_name m)"

definition createAnonymousMissing :: "ussd_env \<Rightarrow> jstring \<Rightarrow> jstring \<Rightarrow> jstring \<Rightarrow> jstring \<Rightarrow> jstring \<Rightarrow> jstring
    \<Rightarrow> ussd_state \<Rightarrow> ussd_missing result \<times> ussd_state" where
  "createAnonymousMissing env personType description dateLastSeen area name phone s =
     (case (person_type_named personType, parse_iso dateLastSeen) of
        (Some t, Some ms) \<Rightarrow>
          let m = \<lparr>um_id = ue_newId env, um_userId = None, um_contactPhone = Some phone, um_personType = t,
                   um_name = (if name = [] then None else Some name), um_description = description,
                   um_dateLastSeen = ms, um_lastKnownArea = area, um_status = MP_PENDING, um_channel = USSD\<rparr>
          in (Inr m,
              us_emit (Notify ''NEW_MISSING_PERSON_REQUEST'' [(''missingPersonId'', JStr (um_id m))])
               (us_emit (Audit ((audit_base SYSTEM ''MISSING_PERSON_CREATED'' ''MissingPerson'' (um_id m))
                  \<lparr>ae_entityLabel := caseLabel m,
                   ae_diff := [(''personType'', JStr (person_type_name t)), (''status'', JStr ''PENDING''), (''result'', JStr ''success'')],
                   ae_metadata := [(''channel'', JStr ''USSD'')]\<rparr>))
                (s\<lparr>us_missing := us_missing s @ [m]\<rparr>)))
      | _ \<Rightarrow> (Inl DatabaseError, s))"

definition findApprovedPublic :: "jstring \<Rightarrow> ussd_state \<Rightarrow> ussd_missing result" where
  "findApprovedPublic mid s = (case find_where (\<lambda>m. um_id m = mid) (us_missing s) of
       None \<Rightarrow> Inl (NotFound ''missing_person_not_found'')
     | Some m \<Rightarrow> if um_status m = MP_APPROVED then Inr m else Inl (NotFound ''missing_person_not_found''))"

definition createAnonymousInformation :: "ussd_env \<Rightarrow> jstring \<Rightarrow> jstring \<Rightarrow> ussd_state \<Rightarrow> ussd_information result \<times> ussd_state" where
  "createAnonymousInformation env mid information s = (case findApprovedPublic mid s of
       Inl e \<Rightarrow> (Inl e, s)
     | Inr _ \<Rightarrow>
        let i = \<lparr>ui_id = ue_newId env, ui_userId = None, ui_missingPersonId = mid, ui_information = information,
                 ui_status = INF_PENDING, ui_channel = USSD\<rparr>
        in (Inr i,
            us_emit (Audit ((audit_base SYSTEM ''INFORMATION_SUBMITTED'' ''InformationSubmission'' (ui_id i))
              \<lparr>ae_diff := [(''result'', JStr ''success''), (''status'', JStr ''PENDING'')],
               ae_metadata := [(''missingPersonId'', JStr mid), (''channel'', JStr ''USSD'')]\<rparr>))
             (s\<lparr>us_information := us_information s @ [i]\<rparr>)))"

end
