(* ===== verification/Ussd_Menu.thy ===== *)
theory Ussd_Menu
  imports Ussd
begin

text \<open>
  The menu, \<open>src/modules/ussd/service/ussd-menu.service.ts\<close>: one definition per \<open>from\<close> method, the
  dispatch on the session's step, and the check the controller makes of the caller.
\<close>

section \<open>Throttling\<close>

definition STATUS_LOOKUP_MAX_ATTEMPTS :: nat where
  "STATUS_LOOKUP_MAX_ATTEMPTS = 5"

definition STATUS_LOOKUP_WINDOW_SECONDS :: int where
  "STATUS_LOOKUP_WINDOW_SECONDS = 600"

definition status_key :: "jstring \<Rightarrow> jstring" where
  "status_key phone = ''ussd:status-lookup-attempts:'' @ phone"

definition TIP_SUBMIT_MAX_ATTEMPTS :: nat where
  "TIP_SUBMIT_MAX_ATTEMPTS = 5"

definition TIP_SUBMIT_WINDOW_SECONDS :: int where
  "TIP_SUBMIT_WINDOW_SECONDS = 3600"

definition tip_key :: "jstring \<Rightarrow> jstring" where
  "tip_key phone = ''ussd:tip-submit-attempts:'' @ phone"

definition checkAndIncrementThrottle :: "ussd_env \<Rightarrow> jstring \<Rightarrow> int \<Rightarrow> nat \<Rightarrow> ussd_state \<Rightarrow> bool \<times> ussd_state" where
  "checkAndIncrementThrottle env key windowSeconds maxAttempts s =
     (case incrementWithTtl (ue_up env) (ue_now env) windowSeconds key (us_counters s) of
        (attempts, counters) \<Rightarrow>
          ((case attempts of None \<Rightarrow> True | Some n \<Rightarrow> n \<le> maxAttempts), s\<lparr>us_counters := counters\<rparr>))"

section \<open>Answers\<close>

type_synonym menu_result = "ussd_outbound result \<times> ussd_state"

definition cont :: "jstring \<Rightarrow> ussd_state \<Rightarrow> menu_result" where
  "cont text s = (Inr \<lparr>out_text = text, out_continue = True\<rparr>, s)"

definition fin :: "jstring \<Rightarrow> ussd_state \<Rightarrow> menu_result" where
  "fin text s = (Inr \<lparr>out_text = text, out_continue = False\<rparr>, s)"

definition NL :: jstring where
  "NL = [char_of (10 :: nat)]"

definition ROOT_TEXT :: jstring where
  "ROOT_TEXT = ''Ehte'' @ NL @ ''1. Report an incident'' @ NL @ ''2. Report a missing person'' @ NL @
     ''3. Provide info on a missing person'' @ NL @ ''4. Check report status'' @ NL @
     ''5. Get help / guidance'' @ NL @ ''0. Exit''"

definition HELP_MESSAGE :: jstring where
  "HELP_MESSAGE = ''If you are in immediate danger, contact local police or a nearby health facility. '' @
     ''For confidential support, use Ehte to report or ask a trusted person for help.''"

definition category_list :: jstring where
  "category_list = concat (map (\<lambda>(i, c). (if i = 0 then [] else NL) @ show_nat (Suc i) @ ''. '' @ fst c)
     (enumerate 0 REPORT_CATEGORIES))"

definition YES_NO :: jstring where
  "YES_NO = NL @ ''1. Yes'' @ NL @ ''2. No, cancel''"

text \<open>
  A field of the session as a template prints it; a missing one is \<open>undefined\<close>. Where a missing field
  would reach the database instead, the database client rejects the call.
\<close>

definition field :: "ussd_session \<Rightarrow> jstring \<Rightarrow> jstring" where
  "field se k = (case se_data se k of None \<Rightarrow> ''undefined'' | Some v \<Rightarrow> v)"

definition fromRoot :: "ussd_env \<Rightarrow> ussd_session \<Rightarrow> jstring \<Rightarrow> ussd_state \<Rightarrow> menu_result" where
  "fromRoot env se input s =
     (if input = ''1'' then cont (''Select category:'' @ NL @ category_list) (setStep env se REPORT_CATEGORY [] s)
      else if input = ''2'' then cont (''Who is missing?'' @ NL @ ''1. Woman'' @ NL @ ''2. Child'') (setStep env se MISSING_PERSON_TYPE [] s)
      else if input = ''3'' then cont ''Enter the Missing Person ID (from the poster or Ehte app):'' (setStep env se INFO_MISSING_PERSON_ID [] s)
      else if input = ''4'' then cont ''Enter your Case Reference number:'' (setStep env se STATUS_INPUT_REF [] s)
      else if input = ''5'' then fin HELP_MESSAGE (session_end env (se_sessionId se) s)
      else if input = ''0'' then fin ''Thank you for using Ehte.'' (session_end env (se_sessionId se) s)
      else cont (''Invalid choice.'' @ NL @ ROOT_TEXT) s)"

definition chosen_category :: "jstring \<Rightarrow> (jstring \<times> report_category) option" where
  "chosen_category input = (case js_Number input of
       None \<Rightarrow> None
     | Some q \<Rightarrow> map_option snd (find_where (\<lambda>(i, _). q - 1 = of_nat i) (enumerate 0 REPORT_CATEGORIES)))"

definition fromReportCategory :: "ussd_env \<Rightarrow> ussd_session \<Rightarrow> jstring \<Rightarrow> ussd_state \<Rightarrow> menu_result" where
  "fromReportCategory env se input s = (case chosen_category input of
       None \<Rightarrow> cont ''Invalid category. Please enter a number from the list.'' s
     | Some (label, c) \<Rightarrow> cont ''Briefly describe what happened:''
         (setStep env se REPORT_DESCRIPTION [(''category'', category_name c), (''categoryLabel'', label)] s))"

definition fromReportDescription :: "ussd_env \<Rightarrow> ussd_session \<Rightarrow> jstring \<Rightarrow> ussd_state \<Rightarrow> menu_result" where
  "fromReportDescription env se input s =
     (if js_trim input = [] then cont ''Please enter a short description, or 0 to cancel.'' s
      else cont (''Category: '' @ field se ''categoryLabel'' @ NL @ ''Submit this report?'' @ YES_NO)
        (setStep env se REPORT_CONFIRM [(''description'', js_trim input)] s))"

definition fromReportConfirm :: "ussd_env \<Rightarrow> ussd_session \<Rightarrow> jstring \<Rightarrow> ussd_state \<Rightarrow> menu_result" where
  "fromReportConfirm env se input s =
     (if input = ''1''
      then (case (case (se_data se ''category'', se_data se ''description'') of
                    (Some c, Some d) \<Rightarrow> createAnonymousReport env c d s
                  | _ \<Rightarrow> (Inl DatabaseError, s)) of
              (Inl e, s1) \<Rightarrow> (Inl e, s1)
            | (Inr r, s1) \<Rightarrow> fin (''Report submitted. Your Case Reference is '' @ ur_caseReference r @
                ''. Keep it to check status later.'') (session_end env (se_sessionId se) s1))
      else fin ''Report cancelled.'' (session_end env (se_sessionId se) s))"

definition fromStatusInputRef :: "ussd_env \<Rightarrow> ussd_session \<Rightarrow> jstring \<Rightarrow> ussd_state \<Rightarrow> menu_result" where
  "fromStatusInputRef env se input s0 =
     (let s = session_end env (se_sessionId se) s0; reference = js_trim input
      in if reference = [] then fin ''No reference entered.'' s
         else case checkAndIncrementThrottle env (status_key (se_phoneNumber se)) STATUS_LOOKUP_WINDOW_SECONDS
                STATUS_LOOKUP_MAX_ATTEMPTS s of (withinLimit, s1) \<Rightarrow>
           if \<not> withinLimit then fin ''Too many attempts. Please try again later.'' s1
           else case findStatusByCaseReferencePublic reference s1 of
                  None \<Rightarrow> fin ''No report found for that reference.'' s1
                | Some (ref, st) \<Rightarrow> fin (''Status for '' @ ref @ '': '' @ report_status_name st) s1)"

definition fromMissingPersonType :: "ussd_env \<Rightarrow> ussd_session \<Rightarrow> jstring \<Rightarrow> ussd_state \<Rightarrow> menu_result" where
  "fromMissingPersonType env se input s =
     (case (if input = ''1'' then Some WOMAN else if input = ''2'' then Some CHILD else None) of
        None \<Rightarrow> cont (''Invalid choice.'' @ NL @ ''1. Woman'' @ NL @ ''2. Child'') s
      | Some t \<Rightarrow> cont ''Enter their name, or 0 to skip:''
          (setStep env se MISSING_PERSON_NAME [(''personType'', person_type_name t)] s))"

definition fromMissingPersonName :: "ussd_env \<Rightarrow> ussd_session \<Rightarrow> jstring \<Rightarrow> ussd_state \<Rightarrow> menu_result" where
  "fromMissingPersonName env se input s =
     cont ''Briefly describe them (appearance, clothing, etc.):''
       (setStep env se MISSING_PERSON_DESCRIPTION
          [(''name'', if js_trim input = ''0'' then [] else js_trim input)] s)"

definition fromMissingPersonDescription :: "ussd_env \<Rightarrow> ussd_session \<Rightarrow> jstring \<Rightarrow> ussd_state \<Rightarrow> menu_result" where
  "fromMissingPersonDescription env se input s =
     (if js_trim input = [] then cont ''Please enter a short description.'' s
      else cont ''Date last seen? Enter as DD/MM/YYYY:''
        (setStep env se MISSING_PERSON_DATE_LAST_SEEN [(''description'', js_trim input)] s))"

definition fromMissingPersonDateLastSeen :: "ussd_env \<Rightarrow> ussd_session \<Rightarrow> jstring \<Rightarrow> ussd_state \<Rightarrow> menu_result" where
  "fromMissingPersonDateLastSeen env se input s =
     (case (if js_trim input = [] then None else parseDdMmYyyy (ue_now env) (js_trim input)) of
        None \<Rightarrow> cont ''Invalid date. Please enter as DD/MM/YYYY, e.g. 15/09/2026:'' s
      | Some text \<Rightarrow> cont ''Last known area (town/neighborhood):''
          (setStep env se MISSING_PERSON_LAST_AREA [(''dateLastSeen'', text)] s))"

definition fromMissingPersonLastArea :: "ussd_env \<Rightarrow> ussd_session \<Rightarrow> jstring \<Rightarrow> ussd_state \<Rightarrow> menu_result" where
  "fromMissingPersonLastArea env se input s =
     (if js_trim input = [] then cont ''Please enter the last known area.'' s
      else cont (''Submit this missing person report?'' @ YES_NO)
        (setStep env se MISSING_PERSON_CONFIRM [(''lastKnownArea'', js_trim input)] s))"

definition fromMissingPersonConfirm :: "ussd_env \<Rightarrow> ussd_session \<Rightarrow> jstring \<Rightarrow> ussd_state \<Rightarrow> menu_result" where
  "fromMissingPersonConfirm env se input s =
     (if input = ''1''
      then (case (case (se_data se ''personType'', se_data se ''description'', se_data se ''dateLastSeen'', se_data se ''lastKnownArea'') of
                    (Some t, Some d, Some l, Some a) \<Rightarrow>
                      createAnonymousMissing env t d l a (case se_data se ''name'' of None \<Rightarrow> [] | Some n \<Rightarrow> n) (se_phoneNumber se) s
                  | _ \<Rightarrow> (Inl DatabaseError, s)) of
              (Inl e, s1) \<Rightarrow> (Inl e, s1)
            | (Inr m, s1) \<Rightarrow> fin (''Missing person report submitted for review. Reference ID: '' @ um_id m)
                (session_end env (se_sessionId se) s1))
      else fin ''Missing person report cancelled.'' (session_end env (se_sessionId se) s))"

definition fromInfoMissingPersonId :: "ussd_env \<Rightarrow> ussd_session \<Rightarrow> jstring \<Rightarrow> ussd_state \<Rightarrow> menu_result" where
  "fromInfoMissingPersonId env se input s =
     (let mid = js_trim input
      in if mid = [] then fin ''No ID entered.'' (session_end env (se_sessionId se) s)
         else case findApprovedPublic mid s of
                Inl _ \<Rightarrow> fin ''Case not found. It may not be published yet.'' (session_end env (se_sessionId se) s)
              | Inr _ \<Rightarrow> cont ''What information do you have?''
                  (setStep env se INFO_DESCRIPTION [(''missingPersonId'', mid)] s))"

definition fromInfoDescription :: "ussd_env \<Rightarrow> ussd_session \<Rightarrow> jstring \<Rightarrow> ussd_state \<Rightarrow> menu_result" where
  "fromInfoDescription env se input s =
     (if js_trim input = [] then cont ''Please enter your information, or 0 to cancel.'' s
      else cont (''Submit this information?'' @ YES_NO) (setStep env se INFO_CONFIRM [(''information'', js_trim input)] s))"

definition fromInfoConfirm :: "ussd_env \<Rightarrow> ussd_session \<Rightarrow> jstring \<Rightarrow> ussd_state \<Rightarrow> menu_result" where
  "fromInfoConfirm env se input s =
     (if input = ''1''
      then (case checkAndIncrementThrottle env (tip_key (se_phoneNumber se)) TIP_SUBMIT_WINDOW_SECONDS TIP_SUBMIT_MAX_ATTEMPTS s of
              (withinLimit, s1) \<Rightarrow>
                let s2 = session_end env (se_sessionId se) s1
                in if \<not> withinLimit then fin ''Too many submissions. Please try again later.'' s2
                   else case (case (se_data se ''missingPersonId'', se_data se ''information'') of
                                (Some m, Some i) \<Rightarrow> createAnonymousInformation env m i s2
                              | _ \<Rightarrow> (Inl DatabaseError, s2)) of
                          (Inl e, s3) \<Rightarrow> (Inl e, s3)
                        | (Inr _, s3) \<Rightarrow> fin ''Thank you. Your information has been submitted for review.'' s3)
      else fin ''Cancelled.'' (session_end env (se_sessionId se) s))"

section \<open>Dispatch\<close>

fun route :: "ussd_env \<Rightarrow> ussd_step \<Rightarrow> ussd_session \<Rightarrow> jstring \<Rightarrow> ussd_state \<Rightarrow> menu_result" where
  "route env ROOT = fromRoot env"
| "route env REPORT_CATEGORY = fromReportCategory env"
| "route env REPORT_DESCRIPTION = fromReportDescription env"
| "route env REPORT_CONFIRM = fromReportConfirm env"
| "route env STATUS_INPUT_REF = fromStatusInputRef env"
| "route env MISSING_PERSON_TYPE = fromMissingPersonType env"
| "route env MISSING_PERSON_NAME = fromMissingPersonName env"
| "route env MISSING_PERSON_DESCRIPTION = fromMissingPersonDescription env"
| "route env MISSING_PERSON_DATE_LAST_SEEN = fromMissingPersonDateLastSeen env"
| "route env MISSING_PERSON_LAST_AREA = fromMissingPersonLastArea env"
| "route env MISSING_PERSON_CONFIRM = fromMissingPersonConfirm env"
| "route env INFO_MISSING_PERSON_ID = fromInfoMissingPersonId env"
| "route env INFO_DESCRIPTION = fromInfoDescription env"
| "route env INFO_CONFIRM = fromInfoConfirm env"

definition ussd_handle :: "ussd_env \<Rightarrow> ussd_inbound \<Rightarrow> ussd_state \<Rightarrow> menu_result" where
  "ussd_handle env inb s = (case session_get env (in_sessionId inb) s of
       None \<Rightarrow> cont ROOT_TEXT (session_start env (in_sessionId inb) (in_phoneNumber inb) s)
     | Some se \<Rightarrow> route env (se_step se) se (in_input inb) s)"

section \<open>Who may call\<close>

record gateway_config =
  gw_secret :: jstring
  gw_allowedIps :: jstring
  gw_env :: jstring

text \<open>\<open>header\<close>, \<open>query\<close> and \<open>ip\<close> are the caller's secret header, secret parameter and address.\<close>

definition assertFromGateway :: "gateway_config \<Rightarrow> jstring option \<Rightarrow> jstring option \<Rightarrow> jstring \<Rightarrow> unit result" where
  "assertFromGateway cfg header query ip0 =
     (let allowed = filter (\<lambda>ip. ip \<noteq> []) (map js_trim (split_on (CHR '','') (gw_allowedIps cfg)))
      in if gw_secret cfg = [] \<and> allowed = []
         then (if gw_env cfg = ''development'' \<or> gw_env cfg = ''test'' then Inr ()
               else Inl (Forbidden ''ussd_gateway_not_configured''))
         else let provided = (case header of Some h \<Rightarrow> h | None \<Rightarrow> (case query of Some q \<Rightarrow> q | None \<Rightarrow> []));
                  ip = (if starts_with ''::ffff:'' ip0 then drop 7 ip0 else ip0)
              in if gw_secret cfg \<noteq> [] \<and> provided \<noteq> [] \<and> provided = gw_secret cfg then Inr ()
                 else if ip \<noteq> [] \<and> ip \<in> set allowed then Inr ()
                 else Inl (Forbidden ''ussd_caller_not_allowed''))"

definition handleSession :: "gateway_config \<Rightarrow> jstring option \<Rightarrow> jstring option \<Rightarrow> jstring \<Rightarrow> ussd_env
    \<Rightarrow> jstring \<Rightarrow> jstring \<Rightarrow> jstring option \<Rightarrow> ussd_state \<Rightarrow> jstring result \<times> ussd_state" where
  "handleSession cfg header query ip env sid phone text s = (case assertFromGateway cfg header query ip of
       Inl e \<Rightarrow> (Inl e, s)
     | Inr _ \<Rightarrow> (case ussd_handle env (parseInbound sid phone text) s of
         (Inl e, s1) \<Rightarrow> (Inl e, s1)
       | (Inr out, s1) \<Rightarrow> (Inr (formatOutbound out), s1)))"

end
