(* ===== verification/Ussd_Properties.thy ===== *)
theory Ussd_Properties
  imports Ussd_Menu
begin

text \<open>
  What holds of the USSD channel: sessions carry the fields their step needs, so that a confirmation
  never fails on a missing or malformed field; lookups of case references are limited per phone; the
  case reference loop ends; dates survive being stored; and two places where a prompt promises more
  than the code does.
\<close>

section \<open>What a session holds at each step\<close>

definition filled :: "(jstring \<Rightarrow> jstring option) \<Rightarrow> jstring \<Rightarrow> bool" where
  "filled d k \<longleftrightarrow> (case d k of None \<Rightarrow> False | Some v \<Rightarrow> v \<noteq> [] \<and> js_trim v = v)"

definition has_category :: "(jstring \<Rightarrow> jstring option) \<Rightarrow> bool" where
  "has_category d \<longleftrightarrow> (case d ''category'' of None \<Rightarrow> False | Some n \<Rightarrow> category_named n \<noteq> None) \<and> d ''categoryLabel'' \<noteq> None"

definition has_type :: "(jstring \<Rightarrow> jstring option) \<Rightarrow> bool" where
  "has_type d \<longleftrightarrow> (case d ''personType'' of None \<Rightarrow> False | Some n \<Rightarrow> person_type_named n \<noteq> None)"

definition has_date :: "(jstring \<Rightarrow> jstring option) \<Rightarrow> bool" where
  "has_date d \<longleftrightarrow> (case d ''dateLastSeen'' of None \<Rightarrow> False | Some t \<Rightarrow> parse_iso t \<noteq> None)"

fun data_ok :: "ussd_step \<Rightarrow> (jstring \<Rightarrow> jstring option) \<Rightarrow> bool" where
  "data_ok REPORT_DESCRIPTION d = has_category d"
| "data_ok REPORT_CONFIRM d = (has_category d \<and> filled d ''description'')"
| "data_ok MISSING_PERSON_NAME d = has_type d"
| "data_ok MISSING_PERSON_DESCRIPTION d = (has_type d \<and> d ''name'' \<noteq> None)"
| "data_ok MISSING_PERSON_DATE_LAST_SEEN d = (has_type d \<and> d ''name'' \<noteq> None \<and> filled d ''description'')"
| "data_ok MISSING_PERSON_LAST_AREA d = (has_type d \<and> d ''name'' \<noteq> None \<and> filled d ''description'' \<and> has_date d)"
| "data_ok MISSING_PERSON_CONFIRM d =
     (has_type d \<and> d ''name'' \<noteq> None \<and> filled d ''description'' \<and> has_date d \<and> filled d ''lastKnownArea'')"
| "data_ok INFO_DESCRIPTION d = filled d ''missingPersonId''"
| "data_ok INFO_CONFIRM d = (filled d ''missingPersonId'' \<and> filled d ''information'')"
| "data_ok _ d = True"

definition sessions_ok :: "ussd_state \<Rightarrow> bool" where
  "sessions_ok s \<longleftrightarrow> (\<forall>k se e. us_sessions s k = Some (se, e) \<longrightarrow> data_ok (se_step se) (se_data se))"

lemmas session_defs = session_save_def session_start_def setStep_def session_end_def us_emit_def
  redis_set_def redis_del_def

lemma sessions_ok_set:
  "sessions_ok s \<Longrightarrow> data_ok step (se_data se ++ map_of patch) \<Longrightarrow> sessions_ok (setStep env se step patch s)"
  by (auto simp: sessions_ok_def session_defs)

lemma sessions_ok_start: "sessions_ok s \<Longrightarrow> sessions_ok (session_start env sid phone s)"
  by (auto simp: sessions_ok_def session_defs)

lemma sessions_ok_end: "sessions_ok s \<Longrightarrow> sessions_ok (session_end env sid s)"
  by (auto simp: sessions_ok_def session_defs split: if_splits)

lemma session_get_ok: "session_get env sid s = Some se \<Longrightarrow> sessions_ok s \<Longrightarrow> data_ok (se_step se) (se_data se)"
proof -
  assume "session_get env sid s = Some se"
  then obtain e where "us_sessions s (session_key sid) = Some (se, e)"
    by (auto simp: session_get_def redis_get_def live_def split: option.splits if_splits)
  then show "sessions_ok s \<Longrightarrow> ?thesis" unfolding sessions_ok_def by blast
qed

text \<open>The services leave sessions and counters alone.\<close>

lemma create_report_cases:
  "create_report env c d a s =
     (if CASE_REFERENCE_MAX_ATTEMPTS < a then (Inl (PlainError ''failed_to_generate_unique_case_reference''), s)
      else case find_where (\<lambda>n. generateCaseReference env n \<notin> ur_caseReference ` set (us_reports s)) [a..<Suc CASE_REFERENCE_MAX_ATTEMPTS] of
        None \<Rightarrow> (Inl UniqueViolation, s)
      | Some n \<Rightarrow> let r = \<lparr>ur_id = ue_newId env, ur_userId = None, ur_caseReference = generateCaseReference env n,
            ur_category = c, ur_description = d, ur_status = RS_PENDING, ur_channel = USSD\<rparr>
          in (Inr r, s\<lparr>us_reports := us_reports s @ [r]\<rparr>))"
proof (induction env c d a s rule: create_report.induct)
  case (1 env c d a s)
  show ?case
  proof (cases "CASE_REFERENCE_MAX_ATTEMPTS < a")
    case False
    then have u: "[a..<Suc CASE_REFERENCE_MAX_ATTEMPTS] = a # [Suc a..<Suc CASE_REFERENCE_MAX_ATTEMPTS]"
      by (intro upt_conv_Cons) simp
    show ?thesis
    proof (cases "generateCaseReference env a \<in> ur_caseReference ` set (us_reports s) \<and> a < CASE_REFERENCE_MAX_ATTEMPTS")
      case True
      with 1 False show ?thesis by (subst create_report.simps) (simp add: u del: upt_Suc)
    next
      case no: False
      with False show ?thesis by (subst create_report.simps) (auto simp: u Let_def simp del: upt_Suc)
    qed
  qed (simp add: create_report.simps)
qed

lemma create_report_frame:
  "create_report env c d a s = (res, s1) \<Longrightarrow> us_sessions s1 = us_sessions s \<and> us_counters s1 = us_counters s"
  by (auto simp: create_report_cases Let_def split: if_splits option.splits)

lemma report_frame:
  "createAnonymousReport env c d s = (res, s1) \<Longrightarrow> us_sessions s1 = us_sessions s \<and> us_counters s1 = us_counters s"
  by (auto simp: createAnonymousReport_def us_emit_def split: option.splits prod.splits sum.splits dest: create_report_frame)

lemma missing_frame:
  "createAnonymousMissing env t d l a n p s = (res, s1) \<Longrightarrow> us_sessions s1 = us_sessions s \<and> us_counters s1 = us_counters s"
  by (auto simp: createAnonymousMissing_def us_emit_def Let_def split: option.splits)

lemma information_frame:
  "createAnonymousInformation env m i s = (res, s1) \<Longrightarrow> us_sessions s1 = us_sessions s \<and> us_counters s1 = us_counters s"
  by (auto simp: createAnonymousInformation_def us_emit_def Let_def split: sum.splits)

lemma throttle_frame:
  "checkAndIncrementThrottle env k w m s = (b, s1) \<Longrightarrow> us_sessions s1 = us_sessions s \<and> us_reports s1 = us_reports s \<and> us_missing s1 = us_missing s"
  by (auto simp: checkAndIncrementThrottle_def split: prod.splits)

lemma sessions_ok_keep: "us_sessions s1 = us_sessions s \<Longrightarrow> sessions_ok s \<Longrightarrow> sessions_ok s1"
  by (simp add: sessions_ok_def)

lemma ok_after:
  "us_sessions s1 = us_sessions s \<Longrightarrow> sessions_ok s \<Longrightarrow> sessions_ok (session_end env sid s1)"
  by (rule sessions_ok_end) (rule sessions_ok_keep)

lemmas ok_intros = sessions_ok_end sessions_ok_keep ok_after

lemma category_named_name [simp]: "category_named (category_name c) = Some c"
  by (cases c; erule ssubst; code_simp)

lemma person_type_named [simp]: "person_type_named (person_type_name t) = Some t"
  by (cases t; erule ssubst; code_simp)

lemma accepted_date: "parseDdMmYyyy now s = Some text \<Longrightarrow> parse_iso text \<noteq> None"
  by (erule parseDdMmYyyy_Some) (simp add: parse_iso_date)

lemmas field_defs = filled_def has_category_def has_type_def has_date_def

lemmas menu_defs = fromRoot_def fromReportCategory_def fromReportDescription_def fromReportConfirm_def
  fromStatusInputRef_def fromMissingPersonType_def fromMissingPersonName_def fromMissingPersonDescription_def
  fromMissingPersonDateLastSeen_def fromMissingPersonLastArea_def fromMissingPersonConfirm_def
  fromInfoMissingPersonId_def fromInfoDescription_def fromInfoConfirm_def cont_def fin_def

text \<open>Each step keeps sessions well-formed.\<close>

lemma report_confirm_sessions: "sessions_ok s \<Longrightarrow> sessions_ok (snd (fromReportConfirm env se input s))"
  unfolding fromReportConfirm_def fin_def
  by (auto split: option.splits prod.splits sum.splits dest!: report_frame intro: ok_intros)

lemma missing_confirm_sessions: "sessions_ok s \<Longrightarrow> sessions_ok (snd (fromMissingPersonConfirm env se input s))"
  unfolding fromMissingPersonConfirm_def fin_def
  by (auto split: option.splits prod.splits sum.splits dest!: missing_frame intro: ok_intros)

lemma info_confirm_sessions: "sessions_ok s \<Longrightarrow> sessions_ok (snd (fromInfoConfirm env se input s))"
  unfolding fromInfoConfirm_def fin_def Let_def
  by (auto split: option.splits prod.splits sum.splits dest!: information_frame throttle_frame intro: ok_intros)

lemma status_sessions: "sessions_ok s \<Longrightarrow> sessions_ok (snd (fromStatusInputRef env se input s))"
  unfolding fromStatusInputRef_def fin_def Let_def
  by (auto split: option.splits prod.splits dest!: throttle_frame intro: ok_intros)

lemma route_sessions:
  assumes s: "sessions_ok s" and d: "data_ok step (se_data se)"
  shows "sessions_ok (snd (route env step se input s))"
proof (cases step)
  case REPORT_CATEGORY
  with s show ?thesis
    by (auto simp: fromReportCategory_def cont_def field_defs intro!: sessions_ok_set split: option.splits)
next
  case MISSING_PERSON_DATE_LAST_SEEN
  with s d show ?thesis
    by (auto simp: fromMissingPersonDateLastSeen_def cont_def field_defs dest: accepted_date intro!: sessions_ok_set split: option.splits if_splits)
next
  case MISSING_PERSON_TYPE
  with s d show ?thesis
    by (auto simp: fromMissingPersonType_def cont_def field_defs simp del: person_type_name.simps intro!: sessions_ok_set)
next
  case INFO_MISSING_PERSON_ID
  with s d show ?thesis
    by (auto simp: fromInfoMissingPersonId_def cont_def fin_def Let_def field_defs intro!: sessions_ok_set sessions_ok_end split: sum.splits)
next
  case ROOT
  with s d show ?thesis
    by (simp add: fromRoot_def cont_def fin_def sessions_ok_set sessions_ok_end)
qed (use s d in \<open>simp_all add: fromReportDescription_def fromMissingPersonName_def fromMissingPersonDescription_def
       fromMissingPersonLastArea_def fromInfoDescription_def report_confirm_sessions missing_confirm_sessions
       info_confirm_sessions status_sessions cont_def field_defs sessions_ok_set\<close>)

section \<open>Requests and everyone else\<close>

text \<open>
  The system moves by a request of the gateway, or by other parts of the program changing the tables
  (reviews, deletions); those never touch the sessions or the counters of this channel.
\<close>

inductive ussd_sys :: "ussd_state \<Rightarrow> ussd_state \<Rightarrow> bool" where
  request: "ussd_sys s (snd (ussd_handle env inb s))"
| others: "ussd_sys s (s\<lparr>us_reports := rs, us_missing := ms, us_information := infos, us_log := l\<rparr>)"

inductive_cases ussd_sysE: "ussd_sys s t"

lemma handle_sessions: "sessions_ok s \<Longrightarrow> sessions_ok (snd (ussd_handle env inb s))"
  by (auto simp: ussd_handle_def cont_def sessions_ok_start intro: route_sessions session_get_ok split: option.splits)

interpretation ussd_typed: invariant_system ussd_sys sessions_ok
  by unfold_locales (auto elim!: ussd_sysE intro: handle_sessions sessions_ok_keep)

definition anonymous_report :: "ussd_report \<Rightarrow> bool" where
  "anonymous_report r \<longleftrightarrow> ur_userId r = None \<and> ur_status r = RS_PENDING \<and> ur_channel r = USSD \<and>
     ur_description r \<noteq> [] \<and> js_trim (ur_description r) = ur_description r"

definition anonymous_missing :: "ussd_missing \<Rightarrow> bool" where
  "anonymous_missing m \<longleftrightarrow> um_userId m = None \<and> um_status m = MP_PENDING \<and> um_channel m = USSD \<and>
     um_contactPhone m \<noteq> None \<and> um_description m \<noteq> [] \<and> um_lastKnownArea m \<noteq> []"

text \<open>The outcome of a request as far as rows and database errors go.\<close>

definition good_outcome :: "ussd_state \<Rightarrow> menu_result \<Rightarrow> bool" where
  "good_outcome s res \<longleftrightarrow> fst res \<noteq> Inl DatabaseError \<and>
     (\<forall>r \<in> set (us_reports (snd res)) - set (us_reports s). anonymous_report r) \<and>
     (\<forall>m \<in> set (us_missing (snd res)) - set (us_missing s). anonymous_missing m)"

lemma tables_frame [simp]:
  "us_reports (setStep env se st p s) = us_reports s" "us_missing (setStep env se st p s) = us_missing s"
  "us_reports (session_end env sid s) = us_reports s" "us_missing (session_end env sid s) = us_missing s"
  "us_reports (session_start env sid ph s) = us_reports s" "us_missing (session_start env sid ph s) = us_missing s"
  "us_counters (setStep env se st p s) = us_counters s" "us_counters (session_end env sid s) = us_counters s"
  "us_counters (session_start env sid ph s) = us_counters s"
  by (simp_all add: session_defs)

lemma report_rows:
  "createAnonymousReport env c d s = (res, s1) \<Longrightarrow> category_named c \<noteq> None \<Longrightarrow> d \<noteq> [] \<Longrightarrow> js_trim d = d \<Longrightarrow>
     res \<noteq> Inl DatabaseError \<and> us_missing s1 = us_missing s \<and>
     (\<forall>r \<in> set (us_reports s1) - set (us_reports s). anonymous_report r)"
  by (auto simp: createAnonymousReport_def create_report_cases us_emit_def anonymous_report_def Let_def
      split: option.splits prod.splits sum.splits if_splits)

lemma missing_rows:
  "createAnonymousMissing env t d l a n p s = (res, s1) \<Longrightarrow> person_type_named t \<noteq> None \<Longrightarrow> parse_iso l \<noteq> None \<Longrightarrow>
     d \<noteq> [] \<Longrightarrow> a \<noteq> [] \<Longrightarrow>
     res \<noteq> Inl DatabaseError \<and> us_reports s1 = us_reports s \<and>
     (\<forall>m \<in> set (us_missing s1) - set (us_missing s). anonymous_missing m)"
  by (auto simp: createAnonymousMissing_def us_emit_def anonymous_missing_def Let_def split: option.splits)

lemma information_rows:
  "createAnonymousInformation env m i s = (res, s1) \<Longrightarrow>
     res \<noteq> Inl DatabaseError \<and> us_reports s1 = us_reports s \<and> us_missing s1 = us_missing s"
  by (auto simp: createAnonymousInformation_def findApprovedPublic_def us_emit_def Let_def split: option.splits sum.splits if_splits)

lemma good_cont [simp]:
  "us_reports s1 = us_reports s \<Longrightarrow> us_missing s1 = us_missing s \<Longrightarrow> good_outcome s (cont t s1)"
  "us_reports s1 = us_reports s \<Longrightarrow> us_missing s1 = us_missing s \<Longrightarrow> good_outcome s (fin t s1)"
  by (simp_all add: good_outcome_def cont_def fin_def)

lemma report_outcome:
  "data_ok REPORT_CONFIRM (se_data se) \<Longrightarrow> good_outcome s (fromReportConfirm env se input s)"
  by (auto simp: fromReportConfirm_def fin_def good_outcome_def field_defs
      split: option.splits prod.splits sum.splits dest!: report_rows)

lemma missing_outcome:
  "data_ok MISSING_PERSON_CONFIRM (se_data se) \<Longrightarrow> good_outcome s (fromMissingPersonConfirm env se input s)"
  by (auto simp: fromMissingPersonConfirm_def fin_def good_outcome_def field_defs
      split: option.splits prod.splits sum.splits dest!: missing_rows)

lemma information_outcome:
  "data_ok INFO_CONFIRM (se_data se) \<Longrightarrow> good_outcome s (fromInfoConfirm env se input s)"
  by (auto simp: fromInfoConfirm_def fin_def good_outcome_def field_defs Let_def
      split: option.splits prod.splits sum.splits dest!: information_rows throttle_frame)

lemma status_outcome: "good_outcome s (fromStatusInputRef env se input s)"
  by (auto simp: fromStatusInputRef_def fin_def good_outcome_def Let_def
      split: option.splits prod.splits dest!: throttle_frame)

lemma route_outcome: "data_ok step (se_data se) \<Longrightarrow> good_outcome s (route env step se input s)"
  by (cases step)
    (auto simp: report_outcome missing_outcome information_outcome status_outcome fromRoot_def fromReportCategory_def
      fromReportDescription_def fromMissingPersonType_def fromMissingPersonName_def fromMissingPersonDescription_def
      fromMissingPersonDateLastSeen_def fromMissingPersonLastArea_def fromInfoMissingPersonId_def
      fromInfoDescription_def Let_def simp del: data_ok.simps split: option.splits sum.splits)

lemma handle_outcome: "sessions_ok s \<Longrightarrow> good_outcome s (ussd_handle env inb s)"
  by (auto simp: ussd_handle_def intro: route_outcome session_get_ok split: option.splits)

section \<open>Guessing case references\<close>

definition tells_status :: "ussd_outbound \<Rightarrow> bool" where
  "tells_status out \<longleftrightarrow> out_text out = ''No report found for that reference.'' \<or> starts_with ''Status for '' (out_text out)"

text \<open>A request, in a session of the given phone, that is told whether a reference exists.\<close>

definition revealed :: "jstring \<Rightarrow> ussd_env \<Rightarrow> ussd_inbound \<Rightarrow> ussd_state \<Rightarrow> bool" where
  "revealed phone env inb s \<longleftrightarrow> (case session_get env (in_sessionId inb) s of
       None \<Rightarrow> False
     | Some se \<Rightarrow> se_phoneNumber se = phone \<and>
         (case fst (ussd_handle env inb s) of Inl _ \<Rightarrow> False | Inr out \<Rightarrow> tells_status out))"

fun lookups :: "jstring \<Rightarrow> (ussd_env \<times> ussd_inbound) list \<Rightarrow> ussd_state \<Rightarrow> nat" where
  "lookups phone [] s = 0"
| "lookups phone ((env, inb) # reqs) s =
     (if revealed phone env inb s then 1 else 0) + lookups phone reqs (snd (ussd_handle env inb s))"

lemma silent_texts:
  "fst (cont t s) = Inr out \<Longrightarrow> tells_status out = tells_status \<lparr>out_text = t, out_continue = True\<rparr>"
  "fst (fin t s) = Inr out \<Longrightarrow> tells_status out = tells_status \<lparr>out_text = t, out_continue = True\<rparr>"
  by (auto simp: cont_def fin_def tells_status_def)

lemma starts_with_Cons [simp]:
  "starts_with (c # p) (d # s) = (c = d \<and> starts_with p s)" "starts_with [] s" "\<not> starts_with (c # p) []"
  by (auto simp: starts_with_def)

lemma other_steps_silent:
  assumes "step \<noteq> STATUS_INPUT_REF" "fst (route env step se input s) = Inr out"
  shows "\<not> tells_status out"
  using assms
  by (cases step)
    (auto simp: menu_defs Let_def tells_status_def ROOT_TEXT_def HELP_MESSAGE_def NL_def
      split: if_splits option.splits prod.splits sum.splits)

lemma keys_differ [simp]:
  "tip_key p \<noteq> status_key q" "status_key q \<noteq> tip_key p" "status_key p = status_key q \<longleftrightarrow> p = q"
  by (simp_all add: tip_key_def status_key_def)

lemma incr_script_other: "k' \<noteq> k \<Longrightarrow> snd (incr_script now ttl k m) k' = m k'"
  by (auto simp: incr_script_def split: option.splits)

lemma throttle_eq:
  "checkAndIncrementThrottle env k w n s =
     (if ue_up env then (fst (incr_script (ue_now env) w k (us_counters s)) \<le> n,
        s\<lparr>us_counters := snd (incr_script (ue_now env) w k (us_counters s))\<rparr>)
      else (True, s))"
  by (simp add: checkAndIncrementThrottle_def incrementWithTtl_def case_prod_beta)

lemma info_confirm_counters:
  "us_counters (snd (fromInfoConfirm env se input s)) (status_key phone) = us_counters s (status_key phone)"
  by (auto simp: fromInfoConfirm_def fin_def Let_def throttle_eq incr_script_other
      split: option.splits prod.splits sum.splits dest!: information_frame)

lemma other_steps_counters:
  assumes "step \<noteq> STATUS_INPUT_REF"
  shows "us_counters (snd (route env step se input s)) (status_key phone) = us_counters s (status_key phone)"
proof (cases "step = INFO_CONFIRM")
  case False
  with assms show ?thesis
    by (cases step) (auto simp: menu_defs Let_def split: option.splits prod.splits sum.splits
        dest!: report_frame missing_frame)
qed (simp add: info_confirm_counters)

text \<open>A lookup that tells something is a bump of the phone's counter to at most five.\<close>

lemma status_step:
  assumes "ue_up env"
  obtains (blank) "js_trim input = []" "fst (fromStatusInputRef env se input s) = Inr \<lparr>out_text = ''No reference entered.'', out_continue = False\<rparr>"
      "us_counters (snd (fromStatusInputRef env se input s)) = us_counters s"
    | (many) "fst (fromStatusInputRef env se input s) = Inr \<lparr>out_text = ''Too many attempts. Please try again later.'', out_continue = False\<rparr>"
      "us_counters (snd (fromStatusInputRef env se input s)) = snd (incr_script (ue_now env) 600 (status_key (se_phoneNumber se)) (us_counters s))"
    | (told) "fst (incr_script (ue_now env) 600 (status_key (se_phoneNumber se)) (us_counters s)) \<le> 5"
      "us_counters (snd (fromStatusInputRef env se input s)) = snd (incr_script (ue_now env) 600 (status_key (se_phoneNumber se)) (us_counters s))"
proof (cases "js_trim input = []")
  case True
  then show thesis by (intro blank) (simp_all add: fromStatusInputRef_def fin_def)
next
  case False
  let ?i = "incr_script (ue_now env) 600 (status_key (se_phoneNumber se)) (us_counters s)"
  have c: "us_counters (snd (fromStatusInputRef env se input s)) = snd ?i"
    using False assms
    by (auto simp: fromStatusInputRef_def fin_def Let_def throttle_eq STATUS_LOOKUP_WINDOW_SECONDS_def split: option.splits)
  show thesis
  proof (cases "fst ?i \<le> 5")
    case no: False
    with False assms have "fst (fromStatusInputRef env se input s) = Inr \<lparr>out_text = ''Too many attempts. Please try again later.'', out_continue = False\<rparr>"
      by (simp add: fromStatusInputRef_def fin_def Let_def throttle_eq STATUS_LOOKUP_WINDOW_SECONDS_def STATUS_LOOKUP_MAX_ATTEMPTS_def)
    with c show thesis by (intro many)
  qed (use c told in blast)
qed

text \<open>One request, seen from the counter of one phone.\<close>

lemma handle_step:
  assumes "ue_up env"
  shows "(\<not> revealed phone env inb s \<and> us_counters (snd (ussd_handle env inb s)) (status_key phone) = us_counters s (status_key phone)) \<or>
    (us_counters (snd (ussd_handle env inb s)) (status_key phone) =
       snd (incr_script (ue_now env) 600 (status_key phone) (us_counters s)) (status_key phone) \<and>
     (revealed phone env inb s \<longrightarrow> fst (incr_script (ue_now env) 600 (status_key phone) (us_counters s)) \<le> 5))"
proof (cases "session_get env (in_sessionId inb) s")
  case None
  then show ?thesis by (simp add: revealed_def ussd_handle_def cont_def)
next
  case (Some se)
  show ?thesis
  proof (cases "se_step se = STATUS_INPUT_REF")
    case False
    with Some other_steps_silent [OF False] other_steps_counters [OF False] show ?thesis
      by (auto simp: revealed_def ussd_handle_def split: sum.splits)
  next
    case True
    from assms show ?thesis
      using Some True incr_script_other [of "status_key phone" "status_key (se_phoneNumber se)"]
      by (cases rule: status_step [of env "in_input inb" se s])
        (auto simp: revealed_def ussd_handle_def tells_status_def)
  qed
qed

lemma lookups_le:
  assumes "\<forall>(env, inb) \<in> set reqs. ue_up env \<and> t0 \<le> ue_now env \<and> ue_now env < closes 600 t0 (us_counters s) (status_key phone)"
    and "sorted (map (\<lambda>r. ue_now (fst r)) reqs)"
  shows "lookups phone reqs s \<le> 5 - level t0 (us_counters s) (status_key phone)"
  using assms
proof (induction reqs arbitrary: t0 s)
  case (Cons r reqs)
  obtain env inb where r: "r = (env, inb)" by fastforce
  define t where "t = ue_now env"
  define m where "m = us_counters s"
  define m' where "m' = us_counters (snd (ussd_handle env inb s))"
  define k where "k = status_key phone"
  have up: "ue_up env" and t: "t0 \<le> t" "t < closes 600 t0 m k"
    using Cons.prems(1) by (auto simp: r t_def m_def k_def)
  note later = window_later [OF t]
  have now: "t < closes 600 t m k" using t later by simp
  have rest: "\<forall>(e, i) \<in> set reqs. ue_up e \<and> t \<le> ue_now e \<and> ue_now e < closes 600 t m k"
    using Cons.prems later(2) by (fastforce simp: r t_def m_def k_def)
  from handle_step [OF up, of phone inb s] show ?case
  proof (elim disjE conjE)
    assume "\<not> revealed phone env inb s" and same: "us_counters (snd (ussd_handle env inb s)) (status_key phone) = us_counters s (status_key phone)"
    have mk: "m' k = m k" using same by (simp only: m'_def k_def m_def)
    have "lookups phone reqs (snd (ussd_handle env inb s)) \<le> 5 - level t m' k"
      unfolding m'_def k_def
    proof (rule Cons.IH)
      show "\<forall>(e, i) \<in> set reqs. ue_up e \<and> t \<le> ue_now e \<and>
          ue_now e < closes 600 t (us_counters (snd (ussd_handle env inb s))) (status_key phone)"
        using rest counter_cong(2) [where k = k and m = m and m' = m', OF mk, of 600 t] by (simp add: m'_def k_def)
    qed (use Cons.prems(2) in simp)
    with \<open>\<not> revealed phone env inb s\<close> later(1) counter_cong(1) [where k = k and m = m and m' = m', OF mk, of t] show ?thesis
      by (simp add: r k_def m_def)
  next
    assume bump: "us_counters (snd (ussd_handle env inb s)) (status_key phone) =
       snd (incr_script (ue_now env) 600 (status_key phone) (us_counters s)) (status_key phone)"
      and five: "revealed phone env inb s \<longrightarrow> fst (incr_script (ue_now env) 600 (status_key phone) (us_counters s)) \<le> 5"
    have mk: "m' k = snd (incr_script t 600 k m) k" using bump by (simp only: m'_def k_def m_def t_def)
    have lev: "level t m' k = Suc (level t m k)" and clo: "closes 600 t m' k = closes 600 t m k"
      using redis_counter.bump_stands [OF now] redis_counter.bump_window [OF now]
        counter_cong(1) [where k = k and m' = m' and m = "snd (incr_script t 600 k m)", OF mk, of t]
        counter_cong(2) [where k = k and m' = m' and m = "snd (incr_script t 600 k m)", OF mk, of 600 t] by simp_all
    have "lookups phone reqs (snd (ussd_handle env inb s)) \<le> 5 - level t m' k"
      unfolding m'_def k_def
    proof (rule Cons.IH)
      show "\<forall>(e, i) \<in> set reqs. ue_up e \<and> t \<le> ue_now e \<and>
          ue_now e < closes 600 t (us_counters (snd (ussd_handle env inb s))) (status_key phone)"
        using rest clo by (simp add: m'_def k_def)
    qed (use Cons.prems(2) in simp)
    moreover have "revealed phone env inb s \<longrightarrow> Suc (level t m k) \<le> 5"
      using five redis_counter.bump_counts [of t 600 k m] by (simp add: t_def k_def m_def)
    ultimately show ?thesis using lev later(1) by (auto simp: r k_def m_def)
  qed
qed simp

section \<open>A dialogue and its row\<close>

definition say :: "jstring \<Rightarrow> jstring \<Rightarrow> jstring \<Rightarrow> ussd_inbound" where
  "say sid phone input = \<lparr>in_sessionId = sid, in_phoneNumber = phone, in_input = input\<rparr>"

definition ussd_run :: "(ussd_env \<times> ussd_inbound) list \<Rightarrow> ussd_state \<Rightarrow> ussd_state" where
  "ussd_run reqs s = foldl (\<lambda>s (env, inb). snd (ussd_handle env inb s)) s reqs"

lemma ussd_run_simps [simp]:
  "ussd_run [] s = s" "ussd_run ((env, inb) # reqs) s = ussd_run reqs (snd (ussd_handle env inb s))"
  by (simp_all add: ussd_run_def)

lemma ussd_run_sys: "ussd_sys\<^sup>*\<^sup>* s (ussd_run reqs s)"
proof (induction reqs arbitrary: s)
  case (Cons r reqs)
  obtain env inb where "r = (env, inb)" by fastforce
  with Cons [of "snd (ussd_handle env inb s)"] show ?case
    by (simp add: converse_rtranclp_into_rtranclp [of ussd_sys, OF ussd_sys.request])
qed simp

text \<open>A step saved in time is what the next request of the session finds.\<close>

definition in_time :: "ussd_env \<Rightarrow> ussd_env \<Rightarrow> bool" where
  "in_time env env' \<longleftrightarrow> ue_up env' \<and> ue_now env' < ue_now env + 180000"

lemma next_request:
  assumes "ue_up env" "in_time env env'" "se_sessionId se = sid"
  shows "ussd_handle env' (say sid phone input) (setStep env se step patch s) =
    route env' step (se\<lparr>se_step := step, se_data := se_data se ++ map_of patch\<rparr>) input (setStep env se step patch s)"
  using assms
  by (simp add: ussd_handle_def say_def session_get_def redis_get_def live_def session_defs in_time_def SESSION_TTL_SECONDS_def)

lemma first_request:
  assumes "ue_up env" "in_time env env'"
  shows "ussd_handle env' (say sid phone input) (session_start env sid phone s) =
    fromRoot env' \<lparr>se_sessionId = sid, se_phoneNumber = phone, se_step = ROOT, se_data = Map.empty, se_createdAt = ue_now env\<rparr>
      input (session_start env sid phone s)"
  using assms
  by (simp add: ussd_handle_def say_def session_get_def redis_get_def live_def session_defs in_time_def SESSION_TTL_SECONDS_def)

text \<open>The eight requests of a missing person report.\<close>

definition missing_dialogue :: "(nat \<Rightarrow> ussd_env) \<Rightarrow> jstring \<Rightarrow> jstring \<Rightarrow> person_type \<Rightarrow> jstring \<Rightarrow> jstring \<Rightarrow> jstring \<Rightarrow> jstring
    \<Rightarrow> (ussd_env \<times> ussd_inbound) list" where
  "missing_dialogue e sid phone t name description date area =
     [(e 0, say sid phone []), (e 1, say sid phone ''2''),
      (e 2, say sid phone (if t = WOMAN then ''1'' else ''2'')), (e 3, say sid phone name),
      (e 4, say sid phone description), (e 5, say sid phone date), (e 6, say sid phone area), (e 7, say sid phone ''1'')]"

section \<open>Properties\<close>

text \<open>A concrete channel: one request a second from 21 September 2026 on.\<close>

definition demo_call :: "nat \<Rightarrow> ussd_env" where
  "demo_call i = \<lparr>ue_up = True, ue_now = 1790000000000 + int i * 1000, ue_newId = ''row-'' @ show_nat i, ue_year = 2026,
     ue_random = (\<lambda>n. ''REF'' @ show_nat n)\<rparr>"

definition no_calls :: ussd_state where
  "no_calls = \<lparr>us_sessions = Map.empty, us_counters = Map.empty, us_reports = [], us_missing = [], us_information = [], us_log = []\<rparr>"


definition demo_report :: "(ussd_env \<times> ussd_inbound) list" where
  "demo_report = map (\<lambda>(i, x). (demo_call i, say ''S'' ''+251911000000'' x))
     [(0, []), (1, ''1''), (2, '' 2 ''), (3, '' followed home '')]"


text \<open>
  C27. While Redis answers, the requests made from one phone number within the ten minutes of a counting
  window are told about at most five case references in all, whatever sessions, steps and inputs they use.
\<close>

theorem status_lookups_limited:
  assumes "\<forall>(env, inb) \<in> set reqs. ue_up env \<and> t0 \<le> ue_now env \<and>
      ue_now env < closes STATUS_LOOKUP_WINDOW_SECONDS t0 (us_counters s) (status_key phone)"
    and "sorted (map (\<lambda>r. ue_now (fst r)) reqs)"
  shows "lookups phone reqs s \<le> STATUS_LOOKUP_MAX_ATTEMPTS - level t0 (us_counters s) (status_key phone)"
  using lookups_le assms by (simp add: STATUS_LOOKUP_WINDOW_SECONDS_def STATUS_LOOKUP_MAX_ATTEMPTS_def)

text \<open>Six calls that each ask for one reference: five are answered.\<close>

definition demo_lookups :: "(ussd_env \<times> ussd_inbound) list" where
  "demo_lookups = concat (map (\<lambda>c. map (\<lambda>(i, x). (demo_call (3 * c + i), say ''S'' ''+251911000000'' x))
     [(0, []), (1, ''4''), (2, ''EHT-2026-XYZ'')]) [0..<6])"

theorem status_lookups_limited_witness:
  "lookups ''+251911000000'' demo_lookups no_calls \<le> STATUS_LOOKUP_MAX_ATTEMPTS - 0 \<and>
   lookups ''+251911000000'' demo_lookups no_calls = 5"
proof
  have l: "level 1790000000000 (us_counters no_calls) (status_key ''+251911000000'') = 0" by code_simp
  have w: "\<forall>(env, inb) \<in> set demo_lookups. ue_up env \<and> 1790000000000 \<le> ue_now env \<and>
      ue_now env < closes STATUS_LOOKUP_WINDOW_SECONDS 1790000000000 (us_counters no_calls) (status_key ''+251911000000'')"
    by code_simp
  have o: "sorted (map (\<lambda>r. ue_now (fst r)) demo_lookups)" by code_simp
  show "lookups ''+251911000000'' demo_lookups no_calls \<le> STATUS_LOOKUP_MAX_ATTEMPTS - 0"
    using status_lookups_limited [OF w o] unfolding l .
  show "lookups ''+251911000000'' demo_lookups no_calls = 5" by code_simp
qed

lemma find_first:
  "find_where P [a..<b] = Some n \<longleftrightarrow> a \<le> n \<and> n < b \<and> P n \<and> (\<forall>i. a \<le> i \<and> i < n \<longrightarrow> \<not> P i)"
proof (induction "b - a" arbitrary: a)
  case (Suc k)
  then have "[a..<b] = a # [Suc a..<b]" "k = b - Suc a" by (auto simp: upt_conv_Cons)
  with Suc(1) [of "Suc a"] Suc(2) show ?case
    by (auto simp: le_Suc_eq Suc_le_eq dest: le_neq_implies_less)
qed auto

definition taken_references :: "ussd_state \<Rightarrow> jstring set" where
  "taken_references s = ur_caseReference ` set (us_reports s)"

text \<open>
  C28. Creating a report ends after at most five references: it succeeds with the first of them that is
  not taken, adding exactly that row, and fails with the unique violation of the fifth when all five are
  taken, adding nothing.
\<close>

theorem case_reference_loop:
  "case create_report env c d 1 s of
     (Inl e, s') \<Rightarrow> e = UniqueViolation \<and> s' = s \<and> (\<forall>n \<in> {1..5}. generateCaseReference env n \<in> taken_references s)
   | (Inr r, s') \<Rightarrow> s' = s\<lparr>us_reports := us_reports s @ [r]\<rparr> \<and> ur_caseReference r \<notin> taken_references s \<and>
       (\<exists>n \<in> {1..5}. ur_caseReference r = generateCaseReference env n \<and>
          (\<forall>i \<in> {1..<n}. generateCaseReference env i \<in> taken_references s))"
proof -
  let ?free = "\<lambda>n. generateCaseReference env n \<notin> ur_caseReference ` set (us_reports s)"
  let ?row = "\<lambda>n. \<lparr>ur_id = ue_newId env, ur_userId = None, ur_caseReference = generateCaseReference env n,
     ur_category = c, ur_description = d, ur_status = RS_PENDING, ur_channel = USSD\<rparr>"
  have "[1..<Suc CASE_REFERENCE_MAX_ATTEMPTS] = [1..<6]" "\<not> CASE_REFERENCE_MAX_ATTEMPTS < 1"
    by (simp_all add: CASE_REFERENCE_MAX_ATTEMPTS_def)
  then have eq: "create_report env c d 1 s = (case find_where ?free [1..<6] of None \<Rightarrow> (Inl UniqueViolation, s)
      | Some n \<Rightarrow> (Inr (?row n), s\<lparr>us_reports := us_reports s @ [?row n]\<rparr>))"
    unfolding create_report_cases Let_def by presburger
  show ?thesis
  proof (cases "find_where ?free [1..<6]")
    case None
    then have "\<forall>n \<in> {1..5}. \<not> ?free n" by (auto simp: find_where_None_iff)
    with None show ?thesis unfolding eq taken_references_def by simp
  next
    case (Some n)
    then have n: "n \<in> {1..5}" "?free n" "\<forall>i \<in> {1..<n}. \<not> ?free i" by (auto simp: find_first)
    have "ur_caseReference (?row n) = generateCaseReference env n" by simp
    with Some n show ?thesis unfolding eq taken_references_def by auto
  qed
qed

definition one_report :: ussd_state where
  "one_report = ussd_run (demo_report @ [(demo_call 4, say ''S'' ''+251911000000'' ''1'')]) no_calls"

theorem case_reference_loop_witness:
  "taken_references one_report = {''EHT-2026-REF1''} \<and>
   map_sum id ur_caseReference (fst (create_report (demo_call 9) FRAUD ''again'' 1 one_report)) = Inr ''EHT-2026-REF2'' \<and>
   (case create_report (demo_call 9) FRAUD ''again'' 1 one_report of
     (Inl e, s') \<Rightarrow> e = UniqueViolation \<and> s' = one_report \<and>
       (\<forall>n \<in> {1..5}. generateCaseReference (demo_call 9) n \<in> taken_references one_report)
   | (Inr r, s') \<Rightarrow> s' = one_report\<lparr>us_reports := us_reports one_report @ [r]\<rparr> \<and> ur_caseReference r \<notin> taken_references one_report \<and>
       (\<exists>n \<in> {1..5}. ur_caseReference r = generateCaseReference (demo_call 9) n \<and>
          (\<forall>i \<in> {1..<n}. generateCaseReference (demo_call 9) i \<in> taken_references one_report)))"
proof (intro conjI)
  have "map ur_caseReference (us_reports one_report) = [''EHT-2026-REF1'']" by code_simp
  then show "taken_references one_report = {''EHT-2026-REF1''}"
    by (metis taken_references_def list.set_map list.simps(15) empty_set)
  show "map_sum id ur_caseReference (fst (create_report (demo_call 9) FRAUD ''again'' 1 one_report)) = Inr ''EHT-2026-REF2''"
    by code_simp
qed (rule case_reference_loop)

text \<open>
  A caller who answers the seven prompts of a missing person report in time, with an existing
  date that is not in the future, leaves exactly one pending row: the answers trimmed, no name for an
  empty answer or \<open>0\<close>, and the date last seen the midnight (UTC) of the day typed, whatever route it
  took through the session's text.
\<close>

theorem missing_dialogue_row:
  assumes "\<forall>i < 7. in_time (e i) (e (Suc i))" "ue_up (e 0)" "session_get (e 0) sid s = None"
    and "js_trim description \<noteq> []" "js_trim area \<noteq> []"
    and "date_fields (js_trim date) = Some (d, m, y)" "real_date (int y) m d" "date_ms (int y) m d \<le> ue_now (e 5)"
  shows "us_missing (ussd_run (missing_dialogue e sid phone t name description date area) s) = us_missing s @
    [\<lparr>um_id = ue_newId (e 7), um_userId = None, um_contactPhone = Some phone, um_personType = t,
      um_name = (if js_trim name = [] \<or> js_trim name = ''0'' then None else Some (js_trim name)),
      um_description = js_trim description, um_dateLastSeen = date_ms (int y) m d,
      um_lastKnownArea = js_trim area, um_status = MP_PENDING, um_channel = USSD\<rparr>]"
proof -
  have t: "in_time (e 0) (e 1)" "in_time (e 1) (e 2)" "in_time (e 2) (e 3)" "in_time (e 3) (e 4)"
    "in_time (e 4) (e 5)" "in_time (e 5) (e 6)" "in_time (e 6) (e 7)"
    using assms(1) by (auto simp: numeral_eq_Suc)
  then have up: "ue_up (e 1)" "ue_up (e 2)" "ue_up (e 3)" "ue_up (e 4)" "ue_up (e 5)" "ue_up (e 6)"
    by (auto simp: in_time_def)
  have start: "ussd_handle (e 0) (say sid phone []) s = cont ROOT_TEXT (session_start (e 0) sid phone s)"
    using assms(3) by (simp add: ussd_handle_def say_def)
  have date: "parseDdMmYyyy (ue_now (e 5)) (js_trim date) = Some (iso_date y m d)" "js_trim date \<noteq> []"
    using assms(6-8) by (auto simp: parseDdMmYyyy_def date_fields_def)
  have "digits_val c < 10000" if "all_digits c" "length c = 4" for c
    using digits_val_less [of c] that by (simp add: all_digits_def)
  with assms(6) have "y < 10000" by (auto simp: date_fields_def split: list.splits if_splits)
  with assms(7) have iso: "parse_iso (iso_date y m d) = Some (date_ms (int y) m d)" by (rule parse_iso_date)
  note steps = fromRoot_def fromMissingPersonType_def fromMissingPersonName_def fromMissingPersonDescription_def
      fromMissingPersonDateLastSeen_def fromMissingPersonLastArea_def fromMissingPersonConfirm_def cont_def fin_def
  show ?thesis
    by (cases t) (simp_all add: missing_dialogue_def start first_request next_request steps t up assms(2,4,5) date iso
        createAnonymousMissing_def us_emit_def Let_def del: person_type_name.simps One_nat_def)
qed

theorem missing_dialogue_row_witness:
  "us_missing (ussd_run (missing_dialogue demo_call ''S'' ''+251911000000'' CHILD ''0'' '' red shirt'' ''15/9/2026'' ''Adama '') no_calls) =
    [\<lparr>um_id = ''row-7'', um_userId = None, um_contactPhone = Some ''+251911000000'', um_personType = CHILD, um_name = None,
      um_description = ''red shirt'', um_dateLastSeen = 1789430400000, um_lastKnownArea = ''Adama'', um_status = MP_PENDING,
      um_channel = USSD\<rparr>]"
proof -
  have e: "\<forall>i < 7. in_time (demo_call i) (demo_call (Suc i))"
    by (simp add: in_time_def demo_call_def)
  have x: "ue_up (demo_call 0)" "session_get (demo_call 0) ''S'' no_calls = None" "js_trim '' red shirt'' = ''red shirt''"
    "js_trim ''Adama '' = ''Adama''" "date_fields (js_trim ''15/9/2026'') = Some (15, 9, 2026)" "real_date (int 2026) 9 15"
    "date_ms (int 2026) 9 15 \<le> ue_now (demo_call 5)" "date_ms (int 2026) 9 15 = 1789430400000" "js_trim ''0'' = ''0''"
    "ue_newId (demo_call 7) = ''row-7''" "us_missing no_calls = []"
    by code_simp+
  show ?thesis
    using missing_dialogue_row [OF e x(1,2) _ _ x(5-7), where description = "'' red shirt''" and area = "''Adama ''"
        and name = "''0''" and t = CHILD and phone = "''+251911000000''"] x
    by simp
qed

section \<open>Two prompts\<close>

text \<open>
  Both free-text prompts of the report and information dialogues offer \<open>0 to cancel\<close>; a zero is stored as
  the text and the dialogue goes on to its confirmation.
\<close>

lemma zero_does_not_cancel:
  "fst (fromReportDescription env se ''0'' s) = fst (fromReportDescription env se ''help'' s) \<and>
   snd (fromReportDescription env se ''0'' s) = setStep env se REPORT_CONFIRM [(''description'', ''0'')] s \<and>
   snd (fromInfoDescription env se ''0'' s) = setStep env se INFO_CONFIRM [(''information'', ''0'')] s"
proof -
  have "js_trim ''0'' = ''0''" "js_trim ''help'' = ''help''" by code_simp+
  then show ?thesis by (simp add: fromReportDescription_def fromInfoDescription_def cont_def)
qed

text \<open>
  A gateway that sends the answers joined by \<open>*\<close> ends the text with \<open>*\<close> for an empty answer. The
  adapter drops empty segments, so the menu reads the previous answer once more and its checks for an empty
  text are not reached.
\<close>

lemma split_on_snoc: "split_on c (t @ [c]) = split_on c t @ [[]]"
proof (induction t)
  case (Cons d t)
  have "split_on c t \<noteq> []" by (cases t) (auto split: list.splits)
  with Cons show ?case by (cases "split_on c t") auto
qed simp

lemma empty_answer_repeats: "parseInbound sid phone (Some (t @ ''*'')) = parseInbound sid phone (Some t)"
  by (simp add: parseInbound_def split_on_snoc)

end
