(* ===== verification/Two_Factor.thy ===== *)
theory Two_Factor
  imports Prelude "HOL-Library.Word"
begin

text \<open>
  \<open>src/common/utils/two-factor.util.ts\<close>: base32 in both directions with the 32-bit integers the
  JavaScript bit operators work on, HOTP and TOTP (RFC 4226, RFC 6238) with the replay guard, the
  comparison of codes, and recovery codes. The keyed hash is a parameter: it comes from the
  platform's crypto library.
\<close>

unbundle bit_operations_syntax

type_synonym byte = "8 word"

section \<open>Base32\<close>

definition BASE32 :: jstring where
  "BASE32 = ''ABCDEFGHIJKLMNOPQRSTUVWXYZ234567''"

text \<open>\<open>BASE32[v & 31]\<close>.\<close>

definition sym :: "32 word \<Rightarrow> char" where
  "sym v = BASE32 ! unat (v AND 31)"

text \<open>The inner loop of the encoder: characters while at least five bits are pending.\<close>

fun enc_drain :: "32 word \<Rightarrow> nat \<Rightarrow> jstring \<times> nat" where
  "enc_drain value bits =
     (if 5 \<le> bits then
        (case enc_drain value (bits - 5) of (out, rest) \<Rightarrow> (sym (drop_bit (bits - 5) value) # out, rest))
      else ([], bits))"

declare enc_drain.simps [simp del]

fun enc_loop :: "32 word \<Rightarrow> nat \<Rightarrow> byte list \<Rightarrow> jstring" where
  "enc_loop value bits [] = (if 0 < bits then [sym (push_bit (5 - bits) value)] else [])"
| "enc_loop value bits (b # bytes) =
     (let value' = push_bit 8 value OR ucast b
      in case enc_drain value' (bits + 8) of (out, bits') \<Rightarrow> out @ enc_loop value' bits' bytes)"

definition base32Encode :: "byte list \<Rightarrow> jstring" where
  "base32Encode buffer = enc_loop 0 0 buffer"

text \<open>\<open>indexOf\<close> of one character; \<open>None\<close> is \<open>-1\<close>.\<close>

fun index_of :: "char \<Rightarrow> jstring \<Rightarrow> nat option" where
  "index_of c [] = None"
| "index_of c (d # s) = (if c = d then Some 0 else map_option Suc (index_of c s))"

fun dec_loop :: "32 word \<Rightarrow> nat \<Rightarrow> jstring \<Rightarrow> byte list result" where
  "dec_loop value bits [] = Inr []"
| "dec_loop value bits (c # cs) = (case index_of c BASE32 of
     None \<Rightarrow> Inl (PlainError ''invalid_base32'')
   | Some i \<Rightarrow>
      (let value' = push_bit 5 value OR of_nat i; bits' = bits + 5
       in if 8 \<le> bits'
          then map_sum id ((#) (ucast (drop_bit (bits' - 8) value' AND 255))) (dec_loop value' (bits' - 8) cs)
          else dec_loop value' bits' cs))"

definition clean32 :: "jstring \<Rightarrow> jstring" where
  "clean32 s = js_upper (filter (\<lambda>c. \<not> is_ws c) (rev (dropWhile (\<lambda>c. c = CHR ''='') (rev s))))"

definition base32Decode :: "jstring \<Rightarrow> byte list result" where
  "base32Decode s = dec_loop 0 0 (clean32 s)"

subsection \<open>Decoding inverts encoding\<close>

lemma and_31: "(v :: 32 word) AND 31 = take_bit 5 v"
  by (simp add: take_bit_eq_mask mask_eq_exp_minus_1)

lemma and_255: "(v :: 32 word) AND 255 = take_bit 8 v"
  by (simp add: take_bit_eq_mask mask_eq_exp_minus_1)

lemma index_of_BASE32: "k < 32 \<Longrightarrow> index_of (BASE32 ! k) BASE32 = Some k"
proof -
  have "\<forall>k \<in> set [0..<32]. index_of (BASE32 ! k) BASE32 = Some k"
    unfolding BASE32_def by code_simp
  then show "k < 32 \<Longrightarrow> ?thesis" by simp
qed

lemma index_of_sym: "index_of (sym v) BASE32 = Some (unat (take_bit 5 v))"
proof -
  have "unat (take_bit 5 v) < 32"
    using take_bit_nat_less_exp [of 5 "unat v"] by (simp add: unsigned_take_bit_eq)
  then show ?thesis
    by (simp add: sym_def and_31 index_of_BASE32)
qed

text \<open>The decoder's register after a character, and the byte it gives when \<open>k\<close> bits stay pending.\<close>

definition shift_in :: "32 word \<Rightarrow> 32 word \<Rightarrow> 32 word" where
  "shift_in value v = push_bit 5 value OR take_bit 5 v"

definition byte_above :: "nat \<Rightarrow> 32 word \<Rightarrow> byte" where
  "byte_above k value = ucast (take_bit 8 (drop_bit k value))"

lemma dec_sym:
  "dec_loop value bits (sym v # cs) =
     (if 3 \<le> bits
      then map_sum id ((#) (byte_above (bits - 3) (shift_in value v))) (dec_loop (shift_in value v) (bits - 3) cs)
      else dec_loop (shift_in value v) (bits + 5) cs)"
  by (simp add: index_of_sym and_255 Let_def shift_in_def byte_above_def)

lemma bit_shift_in: "i < 32 \<Longrightarrow> bit (shift_in value v) i = (if i < 5 then bit v i else bit value (i - 5))"
  by (auto simp: shift_in_def bit_simps)

lemma bit_byte_above: "i < 8 \<Longrightarrow> bit (byte_above k value) i = bit value (k + i)"
  by (auto simp: byte_above_def bit_simps add.commute)

text \<open>
  While the encoder holds \<open>eb\<close> pending bits, the decoder holds the other \<open>8 - eb\<close> bits of the byte
  in transit, or neither holds any.
\<close>

definition in_transit :: "nat \<Rightarrow> 32 word \<Rightarrow> 32 word \<Rightarrow> byte \<Rightarrow> bool" where
  "in_transit eb ev dv p \<longleftrightarrow>
     (\<forall>i < 8 - eb. bit dv i = bit p (eb + i)) \<and> (\<forall>i < eb. bit ev i = bit p i)"

lemma transit_out:
  assumes "in_transit eb ev dv p" "eb \<le> 4"
    and "\<And>i. i < eb \<Longrightarrow> bit v (5 - eb + i) = bit ev i"
  shows "byte_above (5 - eb) (shift_in dv v) = p"
proof (rule bit_word_eqI)
  fix n assume "n < LENGTH(8)"
  then have n: "n < 8" by simp
  show "bit (byte_above (5 - eb) (shift_in dv v)) n = bit p n"
  proof (cases "n < eb")
    case True
    then have "bit v (5 - eb + n) = bit p n" using assms by (auto simp: in_transit_def)
    moreover have "5 - eb + n < 5" using True assms(2) by arith
    ultimately show ?thesis using n by (simp add: bit_byte_above bit_shift_in)
  next
    case False
    then have "bit dv (n - eb) = bit p n" using assms(1) n by (auto simp: in_transit_def)
    moreover have "\<not> 5 - eb + n < 5" "5 - eb + n - 5 = n - eb" using False assms(2) by arith+
    ultimately show ?thesis using n by (simp add: bit_byte_above bit_shift_in)
  qed
qed

lemma enc_drain_eval:
  "enc_drain v 8 = ([sym (drop_bit 3 v)], 3)"
  "enc_drain v 9 = ([sym (drop_bit 4 v)], 4)"
  "enc_drain v 10 = ([sym (drop_bit 5 v), sym v], 0)"
  "enc_drain v 11 = ([sym (drop_bit 6 v), sym (drop_bit 1 v)], 1)"
  "enc_drain v 12 = ([sym (drop_bit 7 v), sym (drop_bit 2 v)], 2)"
  by (simp_all add: enc_drain.simps [of v 12] enc_drain.simps [of v 11] enc_drain.simps [of v 10]
      enc_drain.simps [of v 9] enc_drain.simps [of v 8] enc_drain.simps [of v 7] enc_drain.simps [of v 6]
      enc_drain.simps [of v 5] enc_drain.simps [of v 4] enc_drain.simps [of v 3] enc_drain.simps [of v 2]
      enc_drain.simps [of v 1] enc_drain.simps [of v "Suc 0"] enc_drain.simps [of v 0])

text \<open>The encoder's register after a byte: the byte below what was there.\<close>

lemma bit_shifted_in:
  "i < 8 \<Longrightarrow> bit (push_bit 8 ev OR ucast (b :: byte) :: 32 word) i = bit b i"
  "i < 24 \<Longrightarrow> bit (push_bit 8 ev OR ucast (b :: byte) :: 32 word) (8 + i) = bit ev i"
  by (auto simp: bit_simps dest: bit_imp_le_length)

lemma dec_enc:
  assumes "eb \<le> 4" "0 < eb \<Longrightarrow> in_transit eb ev dv p"
  shows "dec_loop dv ((8 - eb) mod 8) (enc_loop ev eb bytes) = Inr ((if eb = 0 then [] else [p]) @ bytes)"
  using assms
proof (induction bytes arbitrary: eb ev dv p)
  case Nil
  consider "eb = 0" | "0 < eb" by auto
  then show ?case
  proof cases
    case 2
    then have out: "byte_above (5 - eb) (shift_in dv (push_bit (5 - eb) ev)) = p"
      using Nil by (intro transit_out) (auto simp: bit_simps)
    from 2 Nil.prems(1) have "(8 - eb) mod 8 = 8 - eb" "3 \<le> 8 - eb" "8 - eb - 3 = 5 - eb" by auto
    with 2 out show ?thesis by (simp add: dec_sym del: dec_loop.simps(2))
  qed simp
next
  case (Cons b bytes)
  define w :: "32 word" where "w = push_bit 8 ev OR ucast b"
  define d where "d = shift_in dv (drop_bit (eb + 3) w)"
  have low: "bit w i = bit b i" if "i < 8" for i using that by (simp add: w_def bit_shifted_in)
  have out: "byte_above (5 - eb) d = p" if "0 < eb"
    unfolding d_def using that Cons.prems
  proof (intro transit_out)
    fix i assume "i < eb"
    with Cons.prems(1) have "eb + 3 + (5 - eb + i) = 8 + i" "i < 24" by auto
    then show "bit (drop_bit (eb + 3) w) (5 - eb + i) = bit ev i"
      unfolding bit_drop_bit_eq o_apply w_def by (simp only: bit_shifted_in)
  qed auto
  have d: "bit d i = bit b (eb + 3 + i)" if "i < 5" "eb + 3 + i < 8" for i
    using that by (simp add: d_def bit_shift_in bit_drop_bit_eq low)
  consider "eb = 0" | "eb = 1" | "eb = 2" | "eb = 3" | "eb = 4" using Cons.prems(1) by linarith
  then show ?case
  proof cases
    case 1
    then have dd: "shift_in dv (drop_bit 3 w) = d" by (simp add: d_def)
    have "in_transit 3 w d b" using low d 1 by (auto simp: in_transit_def)
    from Cons.IH [of 3, OF _ this] 1 show ?thesis
      by (simp add: w_def [symmetric] enc_drain_eval dec_sym dd del: dec_loop.simps(2))
  next
    case 2
    then have dd: "shift_in dv (drop_bit 4 w) = d" by (simp add: d_def)
    have "in_transit 4 w d b" using low d 2 by (auto simp: in_transit_def)
    from Cons.IH [of 4, OF _ this] 2 out show ?thesis
      by (simp add: w_def [symmetric] enc_drain_eval dec_sym dd del: dec_loop.simps(2))
  next
    case 3
    then have dd: "shift_in dv (drop_bit 5 w) = d" by (simp add: d_def)
    have "byte_above 0 (shift_in d w) = b"
      using low d 3 by (intro bit_word_eqI) (auto simp: bit_byte_above bit_shift_in)
    with Cons.IH [of 0 w "shift_in d w"] 3 out show ?thesis
      by (simp add: w_def [symmetric] enc_drain_eval dec_sym dd del: dec_loop.simps(2))
  next
    case 4
    then have dd: "shift_in dv (drop_bit 6 w) = d" by (simp add: d_def)
    have "in_transit 1 w (shift_in d (drop_bit 1 w)) b"
      using low d 4 by (auto simp: in_transit_def bit_shift_in bit_drop_bit_eq)
    from Cons.IH [of 1, OF _ this] 4 out show ?thesis
      by (simp add: w_def [symmetric] enc_drain_eval dec_sym dd del: dec_loop.simps(2))
  next
    case 5
    then have dd: "shift_in dv (drop_bit 7 w) = d" by (simp add: d_def)
    have "bit (shift_in d (drop_bit 2 w)) i = bit b (2 + i)" if "i < 6" for i
      using that low d 5 by (cases "i = 5") (auto simp: bit_shift_in bit_drop_bit_eq)
    then have "in_transit 2 w (shift_in d (drop_bit 2 w)) b"
      using low by (auto simp: in_transit_def)
    from Cons.IH [of 2, OF _ this] 5 out show ?thesis
      by (simp add: w_def [symmetric] enc_drain_eval dec_sym dd del: dec_loop.simps(2))
  qed
qed

lemma BASE32_chars: "c \<in> set BASE32 \<Longrightarrow> \<not> is_ws c \<and> upper_char c = c \<and> upper_char (lower_char c) = c \<and> c \<noteq> CHR ''='' \<and>
    \<not> is_ws (lower_char c) \<and> lower_char c \<noteq> CHR ''=''"
proof -
  have "\<forall>c \<in> set BASE32. \<not> is_ws c \<and> upper_char c = c \<and> upper_char (lower_char c) = c \<and> c \<noteq> CHR ''='' \<and>
    \<not> is_ws (lower_char c) \<and> lower_char c \<noteq> CHR ''=''"
    unfolding BASE32_def by code_simp
  then show "c \<in> set BASE32 \<Longrightarrow> ?thesis" by blast
qed

lemma sym_in_BASE32: "sym v \<in> set BASE32"
proof -
  have "unat (take_bit 5 v) < length BASE32"
    using take_bit_nat_less_exp [of 5 "unat v"] by (simp add: unsigned_take_bit_eq BASE32_def)
  then show ?thesis by (simp add: sym_def and_31)
qed

lemma enc_drain_chars: "set (fst (enc_drain v bits)) \<subseteq> set BASE32"
  by (induction v bits rule: enc_drain.induct)
    (subst enc_drain.simps, auto simp: sym_in_BASE32 split: prod.splits)

lemma enc_chars: "set (enc_loop v bits bytes) \<subseteq> set BASE32"
proof (induction bytes arbitrary: v bits)
  case (Cons b bytes)
  obtain out rest where d: "enc_drain (push_bit 8 v OR ucast b) (bits + 8) = (out, rest)" by fastforce
  with enc_drain_chars [of "push_bit 8 v OR ucast b" "bits + 8"] Cons show ?case by simp
qed (auto simp: sym_in_BASE32)

text \<open>Padding, white space and lower case are all undone by the decoder's first line.\<close>

lemma clean32_noise:
  assumes s: "set s \<subseteq> set BASE32"
    and t: "filter (\<lambda>c. \<not> is_ws c) t = s \<or> filter (\<lambda>c. \<not> is_ws c) t = js_lower s"
  shows "clean32 (t @ replicate k (CHR ''='')) = s"
proof -
  have "c \<noteq> CHR ''=''" if "c \<in> set t" for c
  proof (cases "is_ws c")
    case False
    with that have "c \<in> set (filter (\<lambda>c. \<not> is_ws c) t)" by simp
    moreover have "set (filter (\<lambda>c. \<not> is_ws c) t) \<subseteq> set s \<union> lower_char ` set s"
      using t by (elim disjE) (simp_all only: js_lower_def set_map Un_upper1 Un_upper2)
    ultimately consider "c \<in> set s" | d where "d \<in> set s" "c = lower_char d" by (elim subsetCE UnE imageE) auto
    then show ?thesis by cases (use s BASE32_chars in auto)
  qed (auto simp: is_ws_def)
  then have "dropWhile (\<lambda>c. c = CHR ''='') (rev t) = rev t"
    by (cases "rev t") (auto simp: dropWhile_eq_self_iff hd_rev)
  then have "clean32 (t @ replicate k (CHR ''='')) = js_upper (filter (\<lambda>c. \<not> is_ws c) t)"
    by (simp add: clean32_def dropWhile_append)
  moreover have "upper_char c = c \<and> upper_char (lower_char c) = c" if "c \<in> set s" for c
    using BASE32_chars [of c] that s by auto
  then have "js_upper (filter (\<lambda>c. \<not> is_ws c) t) = s"
    using t by (elim disjE) (auto simp: js_upper_def js_lower_def intro!: map_idI)
  ultimately show ?thesis by simp
qed

lemma decode_encode:
  assumes "filter (\<lambda>c. \<not> is_ws c) t = base32Encode bytes \<or> filter (\<lambda>c. \<not> is_ws c) t = js_lower (base32Encode bytes)"
  shows "base32Decode (t @ replicate k (CHR ''='')) = Inr bytes"
proof -
  have "clean32 (t @ replicate k (CHR ''='')) = base32Encode bytes"
    by (rule clean32_noise [OF _ assms]) (simp add: base32Encode_def enc_chars)
  then show ?thesis
    using dec_enc [of 0 0 0 0 bytes] by (simp add: base32Decode_def base32Encode_def)
qed

lemma enc_drain_lengths: "length (fst (enc_drain v bits)) = bits div 5 \<and> snd (enc_drain v bits) = bits mod 5"
proof (induction v bits rule: enc_drain.induct)
  case (1 v bits)
  show ?case
  proof (cases "5 \<le> bits")
    case True
    with 1 have "length (fst (enc_drain v (bits - 5))) = (bits - 5) div 5" "snd (enc_drain v (bits - 5)) = (bits - 5) mod 5"
      by auto
    with True show ?thesis
      by (subst (1 2) enc_drain.simps) (simp add: case_prod_beta le_div_geq le_mod_geq)
  qed (simp add: enc_drain.simps)
qed

lemma length_enc_loop: "bits < 5 \<Longrightarrow> length (enc_loop v bits bytes) = (bits + 8 * length bytes + 4) div 5"
proof (induction bytes arbitrary: v bits)
  case (Cons b bytes)
  define d where "d = enc_drain (push_bit 8 v OR ucast b) (bits + 8)"
  have d: "length (fst d) = (bits + 8) div 5" "snd d = (bits + 8) mod 5"
    using enc_drain_lengths by (auto simp: d_def)
  have "length (enc_loop v bits (b # bytes)) = (bits + 8) div 5 + ((bits + 8) mod 5 + 8 * length bytes + 4) div 5"
    using Cons.IH [of "snd d"] d by (simp add: d_def [symmetric] case_prod_beta)
  also have "\<dots> = (bits + 8 * length (b # bytes) + 4) div 5"
    using div_mult_self1 [of 5 "(bits + 8) mod 5 + 8 * length bytes + 4" "(bits + 8) div 5"]
      div_mult_mod_eq [of "bits + 8" 5] by simp
  finally show ?case .
next
  case Nil
  then consider "bits = 0" | "bits = 1" | "bits = 2" | "bits = 3" | "bits = 4" by linarith
  then show ?case by cases simp_all
qed

section \<open>One-time codes\<close>

type_synonym hmac_fun = "byte list \<Rightarrow> byte list \<Rightarrow> byte list"

definition TOTP_PERIOD_SECONDS :: int where
  "TOTP_PERIOD_SECONDS = 30"

definition TOTP_DIGITS :: nat where
  "TOTP_DIGITS = 6"

text \<open>\<open>writeBigUInt64BE\<close>.\<close>

definition counter_bytes :: "int \<Rightarrow> byte list" where
  "counter_bytes counter = map (\<lambda>i. of_int (counter div 256 ^ (7 - i))) [0..<8]"

text \<open>A read outside the digest is \<open>undefined\<close>, which the bit operators take for zero.\<close>

definition digest_at :: "byte list \<Rightarrow> nat \<Rightarrow> 32 word" where
  "digest_at d i = (if i < length d then ucast (d ! i) else 0)"

definition pad_start :: "nat \<Rightarrow> char \<Rightarrow> jstring \<Rightarrow> jstring" where
  "pad_start n c s = replicate (n - length s) c @ s"

definition hotp :: "hmac_fun \<Rightarrow> byte list \<Rightarrow> int \<Rightarrow> jstring result" where
  "hotp hmac secret counter =
     (if counter < 0 \<or> 2 ^ 64 \<le> counter then Inl (PlainError ''ERR_OUT_OF_RANGE'')
      else let digest = hmac secret (counter_bytes counter);
               offset = (if digest = [] then 0 else unat (last digest AND 15));
               binary = push_bit 24 (digest_at digest offset AND 127) OR
                        push_bit 16 (digest_at digest (offset + 1)) OR
                        push_bit 8 (digest_at digest (offset + 2)) OR
                        digest_at digest (offset + 3)
           in Inr (pad_start TOTP_DIGITS (CHR ''0'') (show_nat (unat binary mod 10 ^ TOTP_DIGITS))))"

definition timingSafeEqualStrings :: "jstring \<Rightarrow> jstring \<Rightarrow> bool" where
  "timingSafeEqualStrings a b \<longleftrightarrow>
     length a = length b \<and> foldl (\<lambda>diff (x, y). diff OR (code_of x XOR code_of y)) 0 (zip a b) = 0"

fun totp_scan :: "(int \<Rightarrow> jstring result) \<Rightarrow> jstring \<Rightarrow> int option \<Rightarrow> int list \<Rightarrow> int option result" where
  "totp_scan h code lastUsedStep [] = Inr None"
| "totp_scan h code lastUsedStep (step # steps) =
     (if (case lastUsedStep of None \<Rightarrow> False | Some used \<Rightarrow> step \<le> used) then totp_scan h code lastUsedStep steps
      else case h step of
        Inl e \<Rightarrow> Inl e
      | Inr c \<Rightarrow> if timingSafeEqualStrings c code then Inr (Some step) else totp_scan h code lastUsedStep steps)"

definition current_step :: "int \<Rightarrow> int" where
  "current_step now = now div (1000 * TOTP_PERIOD_SECONDS)"

definition verifyTotp :: "hmac_fun \<Rightarrow> jstring \<Rightarrow> jstring \<Rightarrow> int option \<Rightarrow> int \<Rightarrow> int \<Rightarrow> int option result" where
  "verifyTotp hmac secretBase32 code lastUsedStep window now =
     (if \<not> (length code = 6 \<and> list_all is_digit code) then Inr None
      else case base32Decode secretBase32 of
        Inl e \<Rightarrow> Inl e
      | Inr secret \<Rightarrow> totp_scan (hotp hmac secret) code lastUsedStep
          (map (\<lambda>drift. current_step now + drift) [- window..window]))"

section \<open>Recovery codes\<close>

definition RECOVERY_ALPHABET :: jstring where
  "RECOVERY_ALPHABET = ''ABCDEFGHJKLMNPQRSTUVWXYZ23456789''"

text \<open>One code from twelve random bytes.\<close>

definition recovery_chars :: "byte list \<Rightarrow> jstring" where
  "recovery_chars bytes = map (\<lambda>b. RECOVERY_ALPHABET ! (unat b mod length RECOVERY_ALPHABET)) bytes"

definition recovery_code :: "byte list \<Rightarrow> jstring" where
  "recovery_code bytes = (let chars = recovery_chars bytes in
     take 4 chars @ ''-'' @ take 4 (drop 4 chars) @ ''-'' @ take 4 (drop 8 chars))"

definition generateRecoveryCodes :: "byte list list \<Rightarrow> jstring list" where
  "generateRecoveryCodes random = map recovery_code random"

definition normalizeRecoveryCode :: "jstring \<Rightarrow> jstring" where
  "normalizeRecoveryCode s = js_upper (filter (\<lambda>c. \<not> (is_ws c \<or> c = CHR ''-'')) s)"

section \<open>Facts about codes\<close>

lemma foldl_or_0:
  "foldl (\<lambda>diff (x, y). diff OR (code_of x XOR code_of y)) d ps = 0 \<longleftrightarrow>
     d = 0 \<and> (\<forall>(x, y) \<in> set ps. x = y)"
proof (induction ps arbitrary: d)
  case (Cons p ps)
  obtain x y where p: "p = (x, y)" by fastforce
  have "d OR (code_of x XOR code_of y) = 0 \<longleftrightarrow> d = 0 \<and> x = y"
    by (auto simp: or_eq_0_iff code_of_inj [symmetric] bit_eq_iff bit_simps)
  with Cons show ?case by (auto simp: p)
qed simp

lemma timingSafeEqualStrings_iff [simp]: "timingSafeEqualStrings a b \<longleftrightarrow> a = b"
  by (auto simp: timingSafeEqualStrings_def foldl_or_0 list_eq_iff_zip_eq set_zip intro: nth_equalityI)

lemma hotp_code:
  assumes "hotp hmac secret counter = Inr c"
  shows "length c = 6 \<and> list_all is_digit c"
proof -
  from assms obtain n where c: "c = pad_start 6 (CHR ''0'') (show_nat n)" "n < 10 ^ Suc 5"
    by (auto simp: hotp_def Let_def TOTP_DIGITS_def split: if_splits)
  with show_nat_length [of n 5] show_nat_digits [of n] show ?thesis
    by (auto simp: pad_start_def list_all_iff is_digit_def code_of_def)
qed

lemma hotp_total: "0 \<le> counter \<Longrightarrow> counter < 2 ^ 64 \<Longrightarrow> \<exists>c. hotp hmac secret counter = Inr c"
  by (simp add: hotp_def Let_def)

text \<open>A step is still usable when it is later than the last one used.\<close>

definition unused_step :: "int option \<Rightarrow> int \<Rightarrow> bool" where
  "unused_step lastUsedStep step \<longleftrightarrow> (case lastUsedStep of None \<Rightarrow> True | Some used \<Rightarrow> used < step)"

lemma totp_scan_find:
  assumes "\<And>step. step \<in> set steps \<Longrightarrow> \<exists>c. h step = Inr c"
  shows "totp_scan h code lastUsedStep steps =
    Inr (find_where (\<lambda>step. unused_step lastUsedStep step \<and> h step = Inr code) steps)"
  using assms
proof (induction steps)
  case (Cons step steps)
  obtain c where "h step = Inr c" using Cons.prems by auto
  with Cons show ?case by (auto simp: unused_step_def split: option.splits)
qed simp

lemma totp_scan_sound:
  "totp_scan h code lastUsedStep steps = Inr (Some step) \<Longrightarrow>
     step \<in> set steps \<and> unused_step lastUsedStep step \<and> h step = Inr code"
  by (induction steps) (auto simp: unused_step_def split: option.splits sum.splits if_splits)

lemma verifyTotp_sound:
  assumes "verifyTotp hmac secret code lastUsedStep window now = Inr (Some step)"
  shows "unused_step lastUsedStep step \<and> \<bar>step - current_step now\<bar> \<le> window"
  using assms by (auto simp: verifyTotp_def split: if_splits sum.splits dest!: totp_scan_sound)

lemma RECOVERY_chars:
  "c \<in> set RECOVERY_ALPHABET \<Longrightarrow> \<not> is_ws c \<and> c \<noteq> CHR ''-'' \<and> upper_char c = c \<and>
     \<not> is_ws (lower_char c) \<and> lower_char c \<noteq> CHR ''-'' \<and> upper_char (lower_char c) = c"
proof -
  have "\<forall>c \<in> set RECOVERY_ALPHABET. \<not> is_ws c \<and> c \<noteq> CHR ''-'' \<and> upper_char c = c \<and>
     \<not> is_ws (lower_char c) \<and> lower_char c \<noteq> CHR ''-'' \<and> upper_char (lower_char c) = c"
    unfolding RECOVERY_ALPHABET_def by code_simp
  then show "c \<in> set RECOVERY_ALPHABET \<Longrightarrow> ?thesis" by blast
qed

end
