(* ===== verification/Auth_Data.thy ===== *)
theory Auth_Data
  imports Access Redis Two_Factor
begin

text \<open>
  Accounts, sessions and second factors: the rows of \<open>user\<close>, \<open>session\<close>, \<open>user_otps\<close> and the
  \<open>two_factor\<close> tables, the counters the security Redis keeps, and the helpers every login path uses:
  \<open>src/common/utils/lockout.util.ts\<close>, \<open>token.util.ts\<close>, \<open>phone.util.ts\<close>, \<open>email.util.ts\<close>
  and the counter and session methods of \<open>cache.service.ts\<close>.

  Hash functions, password comparison, token signing and encryption belong to libraries; they are
  fields of \<open>auth_env\<close>.
\<close>

section \<open>Rows\<close>

record role_row =
  rl_name :: jstring
  rl_permissions :: "jstring list"

record auth_user =
  u_id :: jstring
  u_name :: "jstring option"
  u_phone :: "jstring option"
  u_email :: "jstring option"
  u_isActive :: bool
  u_isPhoneVerified :: bool
  u_isEmailVerified :: bool
  u_passwordHash :: "jstring option"
  u_discreetModeEnabled :: bool
  u_discreetModePasscodeHash :: "jstring option"
  u_failedLoginAttempts :: nat
  u_lockedUntil :: "int option"
  u_twoFactorRequiredAt :: "int option"
  u_roles :: "role_row list"

record session_row =
  ss_id :: jstring
  ss_userId :: jstring
  ss_refreshToken :: jstring
  ss_expiresAt :: int
  ss_revokedAt :: "int option"
  ss_lastActiveAt :: "int option"

datatype otp_purpose = EMAIL_VERIFICATION | PHONE_VERIFICATION | PASSWORD_RESET | PASSWORD_CHANGE | LOGIN_2FA
  | ADMIN_VERIFICATION | ADMIN_INVITE_ACTIVATION | PROMOTION_VERIFICATION | PHONE_CHANGE | ACCOUNT_REACTIVATION

datatype otp_channel = OTP_SMS | OTP_EMAIL

record otp_row =
  ot_id :: jstring
  ot_userId :: jstring
  ot_purpose :: otp_purpose
  ot_otpHash :: jstring
  ot_expiresAt :: int
  ot_attempts :: nat
  ot_usedAt :: "int option"
  ot_createdAt :: int
  ot_channel :: otp_channel

datatype factor_method = TOTP | SMS

record secret_row =
  ts_userId :: jstring
  ts_secretEncrypted :: jstring
  ts_isEnabled :: bool
  ts_confirmedAt :: "int option"
  ts_lastUsedStep :: "int option"

record recovery_row =
  rc_id :: jstring
  rc_userId :: jstring
  rc_codeHash :: jstring
  rc_usedAt :: "int option"

datatype challenge_purpose = CH_LOGIN | CH_STEP_UP

record challenge_row =
  ch_id :: jstring
  ch_userId :: jstring
  ch_purpose :: challenge_purpose
  ch_methods :: "factor_method list"
  ch_smsCodeHash :: "jstring option"
  ch_attempts :: nat
  ch_expiresAt :: int
  ch_consumedAt :: "int option"

datatype session_auth = Dead | Alive "jstring list" "jstring list"

record auth_state =
  as_users :: "auth_user list"
  as_sessions :: "session_row list"
  as_otps :: "otp_row list"
  as_secrets :: "secret_row list"
  as_recovery :: "recovery_row list"
  as_challenges :: "challenge_row list"
  as_adminRequired :: "bool option" \<comment> \<open>\<open>adminRequired\<close> of the default two-factor policy row\<close>
  as_failed :: "nat redis" \<comment> \<open>failed logins per hashed user id\<close>
  as_retry :: "jstring set" \<comment> \<open>keys of failed-login counters whose deletion is retried\<close>
  as_reauthFailed :: "nat redis"
  as_reauthLocked :: "unit redis"
  as_otpCooldown :: "jstring redis"
  as_authCache :: "(session_auth \<times> int) redis" \<comment> \<open>with the time the entry turns stale\<close>
  as_log :: "effect list"

record token_payload =
  tk_sub :: jstring
  tk_phone :: "jstring option"
  tk_email :: "jstring option"
  tk_roles :: "jstring list"
  tk_permissions :: "jstring list"
  tk_type :: "jstring option"
  tk_sid :: "jstring option"
  tk_jti :: "jstring option"

record auth_env =
  ax_now :: int
  ax_up :: bool
  ax_maxLoginAttempts :: nat
  ax_lockoutMinutes :: int
  ax_maxReauthAttempts :: nat
  ax_otpMaxAttempts :: nat
  ax_jwtSecret :: jstring
  ax_refreshSecret :: "jstring option"
  ax_registrationSecret :: "jstring option"
  ax_jwtExpiresIn :: jstring
  ax_refreshExpiresIn :: jstring
  ax_twoFactorKey :: jstring
  ax_smsEnabled :: bool
  ax_compare :: "jstring \<Rightarrow> jstring \<Rightarrow> bool"
  ax_sign :: "jstring \<Rightarrow> jstring \<Rightarrow> int \<Rightarrow> token_payload \<Rightarrow> jstring"
  ax_verify :: "jstring \<Rightarrow> int \<Rightarrow> jstring \<Rightarrow> token_payload option"
  ax_hmac :: "jstring \<Rightarrow> jstring \<Rightarrow> jstring"
  ax_sha256 :: "jstring \<Rightarrow> jstring"
  ax_hmacSha1 :: hmac_fun
  ax_encrypt :: "jstring \<Rightarrow> jstring \<Rightarrow> jstring"
  ax_decrypt :: "jstring \<Rightarrow> jstring \<Rightarrow> jstring result"
  ax_newId :: jstring
  ax_sessionId :: jstring
  ax_jti :: jstring
  ax_random :: "nat \<Rightarrow> byte list"
  ax_newCode :: jstring \<comment> \<open>a generated six-digit code and its salted hash\<close>
  ax_newCodeHash :: jstring
  ax_smsDelivered :: bool

record token_pair =
  tp_accessToken :: jstring
  tp_refreshToken :: jstring

definition as_emit :: "effect \<Rightarrow> auth_state \<Rightarrow> auth_state" where
  "as_emit e s = s\<lparr>as_log := as_log s @ [e]\<rparr>"

definition find_user :: "jstring \<Rightarrow> auth_state \<Rightarrow> auth_user option" where
  "find_user uid s = find_where (\<lambda>u. u_id u = uid) (as_users s)"

definition update_user :: "jstring \<Rightarrow> (auth_user \<Rightarrow> auth_user) \<Rightarrow> auth_state \<Rightarrow> auth_state" where
  "update_user uid f s = s\<lparr>as_users := update_where (\<lambda>u. u_id u = uid) f (as_users s)\<rparr>"

definition role_names :: "auth_user \<Rightarrow> jstring list" where
  "role_names u = map rl_name (u_roles u)"

text \<open>\<open>[...new Set(xs)]\<close> keeps the first of equal elements.\<close>

fun js_dedup :: "'a list \<Rightarrow> 'a list" where
  "js_dedup [] = []"
| "js_dedup (x # xs) = x # filter (\<lambda>y. y \<noteq> x) (js_dedup xs)"

definition derivePermissions :: "role_row list \<Rightarrow> jstring list" where
  "derivePermissions roles = js_dedup (concat (map rl_permissions roles))"

section \<open>Contacts\<close>

definition normalizePhoneNumber :: "jstring \<Rightarrow> jstring result" where
  "normalizePhoneNumber phone =
     (if phone = [] then Inl (PlainError ''invalid_phone_number'')
      else let cleaned = filter (\<lambda>c. \<not> is_ws c \<and> c \<noteq> CHR ''-'') phone;
               full = (if starts_with ''0'' cleaned then ''+251'' @ drop 1 cleaned
                       else if starts_with ''9'' cleaned \<or> starts_with ''7'' cleaned then ''+251'' @ cleaned
                       else if starts_with ''251'' cleaned then ''+'' @ cleaned else cleaned)
           in if length full = 13 \<and> starts_with ''+251'' full \<and> full ! 4 \<in> {CHR ''7'', CHR ''9''} \<and> list_all is_digit (drop 5 full)
              then Inr full else Inl (PlainError ''invalid_phone_number''))"

text \<open>\<open>/^[^\s@]+@[^\s@]+\.[^\s@]+$/\<close>: one \<open>@\<close>, no white space, and a dot inside what follows it.\<close>

definition email_shape :: "jstring \<Rightarrow> bool" where
  "email_shape e \<longleftrightarrow> list_all (\<lambda>c. \<not> is_ws c) e \<and>
     (let local = takeWhile (\<lambda>c. c \<noteq> CHR ''@'') e; rest = dropWhile (\<lambda>c. c \<noteq> CHR ''@'') e
      in local \<noteq> [] \<and> rest \<noteq> [] \<and> CHR ''@'' \<notin> set (tl rest) \<and>
         CHR ''.'' \<in> set (butlast (drop 2 rest)))"

definition normalizeEmail :: "jstring \<Rightarrow> jstring result" where
  "normalizeEmail email = (let t = js_lower (js_trim email)
     in if email_shape t then Inr t else Inl (PlainError ''invalid_email''))"

end
