(* ===== verification/Auth_Session.thy ===== *)
theory Auth_Session
  imports Auth_Data
begin

text \<open>
  Signing in and staying signed in: lockout (\<open>lockout.util.ts\<close>), token issue (\<open>token.util.ts\<close>), the
  password logins of \<open>auth.service.ts\<close> and \<open>admin-auth.service.ts\<close>, refresh with rotation, logout, the
  check the JWT strategy makes on every request (\<open>jwt.strategy.ts\<close>) and re-authentication
  (\<open>reauth.service.ts\<close>).
\<close>

section \<open>Counters and lockout\<close>

definition FAILED_LOGIN_TTL :: int where
  "FAILED_LOGIN_TTL = 900"

definition hashIdentifier :: "auth_env \<Rightarrow> jstring \<Rightarrow> jstring" where
  "hashIdentifier env i = ax_sha256 env (js_lower (js_trim i))"

text \<open>\<open>incrementFailedLoginAttempts\<close>; \<open>None\<close> when the store does not answer.\<close>

definition incrementFailedLoginAttempts :: "auth_env \<Rightarrow> jstring \<Rightarrow> auth_state \<Rightarrow> nat option \<times> auth_state" where
  "incrementFailedLoginAttempts env uid s =
     (case incrementWithTtl (ax_up env) (ax_now env) FAILED_LOGIN_TTL (hashIdentifier env uid) (as_failed s) of
        (n, m) \<Rightarrow> (n, s\<lparr>as_failed := m\<rparr>))"

text \<open>A deletion that fails is kept and tried again; one that succeeds drops any earlier retry of its key.\<close>

definition resetFailedLoginAttempts :: "auth_env \<Rightarrow> jstring \<Rightarrow> auth_state \<Rightarrow> auth_state" where
  "resetFailedLoginAttempts env uid s = (let k = hashIdentifier env uid in
     if ax_up env then s\<lparr>as_failed := (as_failed s)(k := None), as_retry := as_retry s - {k}\<rparr>
     else s\<lparr>as_retry := insert k (as_retry s)\<rparr>)"

definition assertNotLocked :: "auth_env \<Rightarrow> auth_user \<Rightarrow> error option" where
  "assertNotLocked env u = (case u_lockedUntil u of
       None \<Rightarrow> None
     | Some until \<Rightarrow> if ax_now env < until then Some (Unauthorized ''account_locked'') else None)"

definition lock_user :: "auth_env \<Rightarrow> jstring \<Rightarrow> auth_state \<Rightarrow> auth_state" where
  "lock_user env uid = update_user uid (\<lambda>u. u\<lparr>u_lockedUntil := Some (ax_now env + ax_lockoutMinutes env * 60 * 1000),
     u_failedLoginAttempts := 0\<rparr>)"

definition recordFailedLogin :: "auth_env \<Rightarrow> jstring \<Rightarrow> auth_state \<Rightarrow> auth_state" where
  "recordFailedLogin env uid s =
     (case incrementFailedLoginAttempts env uid s of
        (Some attempts, s1) \<Rightarrow>
          if ax_maxLoginAttempts env \<le> attempts
          then resetFailedLoginAttempts env uid (lock_user env uid s1) else s1
      | (None, s1) \<Rightarrow>
          let s2 = update_user uid (\<lambda>u. u\<lparr>u_failedLoginAttempts := Suc (u_failedLoginAttempts u)\<rparr>) s1
          in case find_user uid s2 of
               None \<Rightarrow> s2
             | Some u \<Rightarrow> if ax_maxLoginAttempts env \<le> u_failedLoginAttempts u then lock_user env uid s2 else s2)"

text \<open>\<open>u\<close> is the row as the caller read it.\<close>

definition resetLoginAttempts :: "auth_env \<Rightarrow> auth_user \<Rightarrow> auth_state \<Rightarrow> auth_state" where
  "resetLoginAttempts env u s =
     (let s1 = resetFailedLoginAttempts env (u_id u) s
      in if 0 < u_failedLoginAttempts u \<or> u_lockedUntil u \<noteq> None
         then update_user (u_id u) (\<lambda>u. u\<lparr>u_failedLoginAttempts := 0, u_lockedUntil := None\<rparr>) s1 else s1)"

definition lockAccountForOtpAbuse :: "auth_env \<Rightarrow> jstring \<Rightarrow> auth_state \<Rightarrow> auth_state" where
  "lockAccountForOtpAbuse env uid s = resetFailedLoginAttempts env uid (lock_user env uid s)"

section \<open>Tokens\<close>

definition normalizeDurationString :: "jstring \<Rightarrow> jstring" where
  "normalizeDurationString raw = (let t = js_trim raw in
     if t \<noteq> [] \<and> list_all is_digit t then t @ ''h'' else t)"

definition dec_val :: "jstring \<Rightarrow> nat" where
  "dec_val ds = foldl (\<lambda>n c. 10 * n + (code_of c - 48)) 0 ds"

text \<open>\<open>/^(\d+)\s*(d|h|m|s)?$/\<close>, in milliseconds.\<close>

definition parseDurationToMs :: "jstring \<Rightarrow> int result" where
  "parseDurationToMs duration =
     (let t = js_trim duration; ds = takeWhile is_digit t; u = dropWhile is_ws (dropWhile is_digit t)
      in if ds = [] then Inl (BadRequest ''invalid_duration_config'')
         else if u = ''d'' then Inr (int (dec_val ds) * 86400000)
         else if u = ''h'' then Inr (int (dec_val ds) * 3600000)
         else if u = ''m'' then Inr (int (dec_val ds) * 60000)
         else if u = ''s'' \<or> u = [] then Inr (int (dec_val ds) * 1000)
         else Inl (BadRequest ''invalid_duration_config''))"

definition refresh_secret :: "auth_env \<Rightarrow> jstring" where
  "refresh_secret env = (case ax_refreshSecret env of Some k \<Rightarrow> k | None \<Rightarrow> ax_jwtSecret env)"

definition hashOpaqueToken :: "auth_env \<Rightarrow> jstring \<Rightarrow> bool \<Rightarrow> jstring" where
  "hashOpaqueToken env token refresh =
     ax_hmac env (if refresh then refresh_secret env
        else case ax_registrationSecret env of Some k \<Rightarrow> k | None \<Rightarrow> refresh_secret env) token"

definition issueTokens :: "auth_env \<Rightarrow> jstring \<Rightarrow> jstring option \<Rightarrow> jstring option \<Rightarrow> jstring list \<Rightarrow> jstring list
    \<Rightarrow> auth_state \<Rightarrow> token_pair result \<times> auth_state" where
  "issueTokens env uid phone email roles permissions s =
     (let base = \<lparr>tk_sub = uid, tk_phone = phone, tk_email = email, tk_roles = roles, tk_permissions = permissions,
            tk_type = None, tk_sid = Some (ax_sessionId env), tk_jti = None\<rparr>;
          access = ax_sign env (ax_jwtSecret env) (normalizeDurationString (ax_jwtExpiresIn env)) (ax_now env) base;
          expires = normalizeDurationString (ax_refreshExpiresIn env);
          refresh = ax_sign env (refresh_secret env) expires (ax_now env)
            (base\<lparr>tk_type := Some ''refresh'', tk_jti := Some (ax_jti env)\<rparr>)
      in case parseDurationToMs expires of
           Inl e \<Rightarrow> (Inl e, s)
         | Inr ms \<Rightarrow> (Inr \<lparr>tp_accessToken = access, tp_refreshToken = refresh\<rparr>,
             s\<lparr>as_sessions := as_sessions s @ [\<lparr>ss_id = ax_sessionId env, ss_userId = uid,
               ss_refreshToken = hashOpaqueToken env refresh True, ss_expiresAt = ax_now env + ms, ss_revokedAt = None,
               ss_lastActiveAt = Some (ax_now env)\<rparr>]\<rparr>))"

section \<open>Audit events\<close>

text \<open>An event about an account; an unknown account has no id.\<close>

definition account_event :: "jstring list \<Rightarrow> jstring \<Rightarrow> auth_user option \<Rightarrow> audit_outcome \<Rightarrow> audit_severity
    \<Rightarrow> (jstring \<times> jval) list \<Rightarrow> (jstring \<times> jval) list \<Rightarrow> effect" where
  "account_event roles action u outcome severity diff meta =
     Audit ((audit_base (resolveActorType roles) action ''User'' [])
       \<lparr>ae_userId := map_option u_id u, ae_entityId := map_option u_id u, ae_outcome := outcome, ae_severity := severity,
        ae_entityLabel := Option.bind u u_name, ae_diff := diff, ae_metadata := meta\<rparr>)"

definition login_failed :: "auth_user \<Rightarrow> audit_outcome \<Rightarrow> jstring \<Rightarrow> effect" where
  "login_failed u outcome reason = account_event (role_names u) ''LOGIN_FAILED'' (Some u) outcome WARNING
     [(''result'', JStr ''failed''), (''reason'', JStr reason)] [(''method'', JStr ''password'')]"

definition maskPhone :: "jstring \<Rightarrow> jstring" where
  "maskPhone phone = (if length phone \<le> 4 then ''****''
     else replicate (length phone - 4) (CHR ''*'') @ slice_last 4 phone)"

section \<open>Password logins\<close>

datatype login_result = Tokens token_pair | RequiresVerification jstring

text \<open>
  \<open>login\<close>. \<open>sendOtp\<close> is \<open>issueAndSendOtp\<close>, used when the phone is not verified yet.
\<close>

definition login :: "auth_env \<Rightarrow> (jstring \<Rightarrow> jstring \<Rightarrow> auth_state \<Rightarrow> jstring result \<times> auth_state)
    \<Rightarrow> jstring \<Rightarrow> jstring \<Rightarrow> auth_state \<Rightarrow> login_result result \<times> auth_state" where
  "login env sendOtp phone0 password s = (case normalizePhoneNumber phone0 of
       Inl _ \<Rightarrow> (Inl (BadRequest ''invalid_phone_number''), s)
     | Inr phone \<Rightarrow>
        let user = find_where (\<lambda>u. u_phone u = Some phone) (as_users s)
        in case (user, Option.bind user u_passwordHash) of
          (Some u, Some h) \<Rightarrow>
            if \<not> truthy (Some h)
            then (Inl (Unauthorized ''invalid_credentials''), as_emit (login_failed u FAILURE ''no_password_set'') s)
            else if \<not> ax_compare env password h
            then (Inl (Unauthorized ''invalid_credentials''),
                  as_emit (login_failed u FAILURE ''wrong_password'') (recordFailedLogin env (u_id u) s))
            else if ''USER'' \<notin> set (role_names u)
            then (Inl (Unauthorized ''use_admin_login''), as_emit (login_failed u DENIED ''no_user_role_use_admin_login'') s)
            else (case assertNotLocked env u of
              Some e \<Rightarrow> (Inl e, as_emit (login_failed u DENIED ''account_locked'') s)
            | None \<Rightarrow>
                let s1 = resetLoginAttempts env u s
                in if \<not> u_isActive u
                   then (Inl (Unauthorized ''account_inactive''), as_emit (login_failed u DENIED ''account_inactive'') s1)
                   else if \<not> u_isPhoneVerified u
                   then (case sendOtp (u_id u) phone s1 of
                           (Inl e, s2) \<Rightarrow> (Inl e, s2)
                         | (Inr vid, s2) \<Rightarrow> (Inr (RequiresVerification vid), s2))
                   else (case issueTokens env (u_id u) (u_phone u) (u_email u) (role_names u) (derivePermissions (u_roles u))
                          (as_emit (account_event (role_names u) ''LOGIN_SUCCESS'' (Some u) SUCCESS INFO
                            [(''result'', JStr ''success'')] [(''method'', JStr ''password'')]) s1) of
                           (Inl e, s2) \<Rightarrow> (Inl e, s2)
                         | (Inr tokens, s2) \<Rightarrow> (Inr (Tokens tokens), s2)))
        | (Some u, None) \<Rightarrow> (Inl (Unauthorized ''invalid_credentials''), as_emit (login_failed u FAILURE ''no_password_set'') s)
        | (None, _) \<Rightarrow> (Inl (Unauthorized ''invalid_credentials''),
            as_emit (account_event [] ''LOGIN_FAILED'' None FAILURE WARNING
              [(''result'', JStr ''failed''), (''reason'', JStr ''unknown_account'')]
              [(''method'', JStr ''password''), (''attemptedPhone'', JStr (maskPhone phone))]) s))"

text \<open>\<open>adminLoginByEmail\<close>: the account is checked before the password here.\<close>

definition admin_login_event :: "auth_user option \<Rightarrow> audit_outcome \<Rightarrow> jstring \<Rightarrow> (jstring \<times> jval) list \<Rightarrow> effect" where
  "admin_login_event u outcome reason meta =
     account_event (case u of None \<Rightarrow> [] | Some v \<Rightarrow> role_names v) ''LOGIN_FAILED'' u outcome WARNING
       [(''method'', JStr ''password''), (''context'', JStr ''admin_login_email''), (''result'', JStr ''failed''),
        (''reason'', JStr reason)] meta"

definition adminLoginByEmail :: "auth_env \<Rightarrow> jstring \<Rightarrow> jstring \<Rightarrow> auth_state \<Rightarrow> token_pair result \<times> auth_state" where
  "adminLoginByEmail env email0 password s = (case normalizeEmail email0 of
       Inl _ \<Rightarrow> (Inl (BadRequest ''invalid_email''), s)
     | Inr email \<Rightarrow>
        let user = find_where (\<lambda>u. u_email u = Some email) (as_users s);
            refuse = (\<lambda>reason. (Inl (Unauthorized ''invalid_credentials''),
                        as_emit (admin_login_event user FAILURE reason [(''attemptedEmail'', JStr email)]) s))
        in case user of
             None \<Rightarrow> refuse ''unknown_account''
           | Some u \<Rightarrow>
              (if \<not> hasStaffRole (role_names u) then refuse ''not_an_admin''
               else if \<not> truthy (u_passwordHash u) then refuse ''password_not_set''
               else if \<not> u_isEmailVerified u then refuse ''email_not_verified''
               else case assertNotLocked env u of
                 Some e \<Rightarrow> (Inl e, as_emit (admin_login_event (Some u) DENIED ''account_locked'' []) s)
               | None \<Rightarrow>
                  if \<not> u_isActive u
                  then (Inl (Unauthorized ''account_inactive''), as_emit (admin_login_event (Some u) DENIED ''account_inactive'' []) s)
                  else if \<not> ax_compare env password (the (u_passwordHash u))
                  then (Inl (Unauthorized ''invalid_credentials''),
                        as_emit (admin_login_event (Some u) FAILURE ''wrong_password'' []) (recordFailedLogin env (u_id u) s))
                  else issueTokens env (u_id u) (u_phone u) (u_email u) (role_names u) (derivePermissions (u_roles u))
                    (as_emit (account_event (role_names u) ''LOGIN_SUCCESS'' (Some u) SUCCESS INFO
                       [(''method'', JStr ''password''), (''context'', JStr ''admin_login_email''), (''result'', JStr ''success'')] [])
                      (resetLoginAttempts env u s))))"

section \<open>The per-request check\<close>

text \<open>Cached answers are kept per user and session; \<open>purgeUserCache\<close> drops all of a user's.\<close>

definition SESSION_AUTH_TTL :: int where
  "SESSION_AUTH_TTL = 30"

definition STALE_GRACE :: int where
  "STALE_GRACE = 30"

definition auth_prefix :: "jstring \<Rightarrow> jstring" where
  "auth_prefix uid = ''user:'' @ uid @ '':session:''"

definition auth_key :: "jstring \<Rightarrow> jstring \<Rightarrow> jstring" where
  "auth_key uid sid = auth_prefix uid @ sid @ '':auth''"

definition purgeUserCache :: "auth_env \<Rightarrow> jstring \<Rightarrow> auth_state \<Rightarrow> auth_state" where
  "purgeUserCache env uid s = as_emit (Invalidate ''user'' uid)
     (if ax_up env then s\<lparr>as_authCache := (\<lambda>k. if starts_with (auth_prefix uid) k then None else as_authCache s k)\<rparr> else s)"

definition live_session :: "auth_env \<Rightarrow> jstring \<Rightarrow> jstring \<Rightarrow> session_row \<Rightarrow> bool" where
  "live_session env uid sid r \<longleftrightarrow> ss_id r = sid \<and> ss_userId r = uid \<and> ss_revokedAt r = None \<and> ax_now env < ss_expiresAt r"

definition loadSessionAuth :: "auth_env \<Rightarrow> jstring \<Rightarrow> jstring \<Rightarrow> auth_state \<Rightarrow> session_auth" where
  "loadSessionAuth env uid sid s = (case find_where (live_session env uid sid) (as_sessions s) of
       None \<Rightarrow> Dead
     | Some _ \<Rightarrow> (case find_user uid s of
          None \<Rightarrow> Dead
        | Some u \<Rightarrow> if u_isActive u then Alive (role_names u) (derivePermissions (u_roles u)) else Dead))"

text \<open>
  \<open>wrapSessionAuth\<close>: a fresh entry is returned; a stale one is returned once more while it is recomputed;
  without one the answer is computed and kept. \<open>ttl\<close> is the jittered time to live.
\<close>

definition wrapSessionAuth :: "auth_env \<Rightarrow> int \<Rightarrow> jstring \<Rightarrow> jstring \<Rightarrow> auth_state \<Rightarrow> session_auth \<times> auth_state" where
  "wrapSessionAuth env ttl uid sid s =
     (let fresh = loadSessionAuth env uid sid s;
          k = auth_key uid sid;
          keep = s\<lparr>as_authCache := redis_set (ax_up env) (ax_now env) (ttl + min SESSION_AUTH_TTL STALE_GRACE) k
                     (fresh, ax_now env + ttl * 1000) (as_authCache s)\<rparr>
      in case redis_get (ax_up env) (ax_now env) k (as_authCache s) of
           Some (v, soft) \<Rightarrow> if ax_now env < soft then (v, s) else (v, keep)
         | None \<Rightarrow> (fresh, keep))"

record request_user =
  rq_id :: jstring
  rq_roles :: "jstring list"
  rq_permissions :: "jstring list"
  rq_sessionId :: jstring

definition jwt_validate :: "auth_env \<Rightarrow> int \<Rightarrow> token_payload \<Rightarrow> auth_state \<Rightarrow> request_user result \<times> auth_state" where
  "jwt_validate env ttl payload s =
     (if \<not> truthy (tk_sid payload) then (Inl (Unauthorized ''invalid_token''), s)
      else let sid = the (tk_sid payload)
           in case wrapSessionAuth env ttl (tk_sub payload) sid s of
                (Dead, s1) \<Rightarrow> (Inl (Unauthorized ''session_revoked''), s1)
              | (Alive roles permissions, s1) \<Rightarrow>
                  (Inr \<lparr>rq_id = tk_sub payload, rq_roles = roles, rq_permissions = permissions, rq_sessionId = sid\<rparr>, s1))"

section \<open>Refresh and logout\<close>

definition session_event :: "jstring \<Rightarrow> jstring list \<Rightarrow> jstring option \<Rightarrow> audit_outcome \<Rightarrow> (jstring \<times> jval) list \<Rightarrow> (jstring \<times> jval) list \<Rightarrow> effect" where
  "session_event uid roles label outcome diff meta =
     Audit ((audit_base (resolveActorType roles) ''LOGIN_FAILED'' ''User'' uid)
       \<lparr>ae_userId := Some uid, ae_outcome := outcome, ae_severity := WARNING, ae_entityLabel := label,
        ae_diff := diff, ae_metadata := meta\<rparr>)"

text \<open>A refresh token presented again after it was rotated: every session of its user is revoked.\<close>

definition revoke_all :: "auth_env \<Rightarrow> jstring \<Rightarrow> auth_state \<Rightarrow> auth_state" where
  "revoke_all env uid s = s\<lparr>as_sessions := update_where (\<lambda>r. ss_userId r = uid \<and> ss_revokedAt r = None)
     (\<lambda>r. r\<lparr>ss_revokedAt := Some (ax_now env)\<rparr>) (as_sessions s)\<rparr>"

text \<open>The guarded update of the rotation, and the tokens of the new session.\<close>

definition rotate :: "auth_env \<Rightarrow> session_row \<Rightarrow> auth_user \<Rightarrow> auth_state \<Rightarrow> token_pair result \<times> auth_state" where
  "rotate env r u s =
     (if count_where (\<lambda>q. ss_id q = ss_id r \<and> ss_revokedAt q = None) (as_sessions s) = 0
      then (Inl (Unauthorized ''session_expired_or_invalid''),
            as_emit (session_event (u_id u) (role_names u) (u_name u) FAILURE
              [(''result'', JStr ''failed''), (''reason'', JStr ''refresh_rotation_conflict'')]
              [(''method'', JStr ''refresh_token''), (''sessionId'', JStr (ss_id r))]) s)
      else case issueTokens env (u_id u) (u_phone u) (u_email u) (role_names u) (derivePermissions (u_roles u))
          (s\<lparr>as_sessions := update_where (\<lambda>q. ss_id q = ss_id r \<and> ss_revokedAt q = None)
             (\<lambda>q. q\<lparr>ss_revokedAt := Some (ax_now env)\<rparr>) (as_sessions s)\<rparr>) of
        (Inl e, _) \<Rightarrow> (Inl e, s)
      | (Inr tokens, s1) \<Rightarrow> (Inr tokens, s1))"

definition refresh :: "auth_env \<Rightarrow> jstring \<Rightarrow> auth_state \<Rightarrow> token_pair result \<times> auth_state" where
  "refresh env token s = (case ax_verify env (refresh_secret env) (ax_now env) token of
       None \<Rightarrow> (Inl (Unauthorized ''invalid_refresh_token''), s)
     | Some p \<Rightarrow>
       if tk_type p \<noteq> Some ''refresh''
       then (Inl (Unauthorized ''invalid_refresh_token''),
             as_emit (Audit ((audit_base (resolveActorType (tk_roles p)) ''SECURITY_ALERT'' ''User'' (tk_sub p))
               \<lparr>ae_userId := Some (tk_sub p), ae_outcome := DENIED, ae_severity := WARNING,
                ae_diff := [(''result'', JStr ''denied''), (''reason'', JStr ''wrong_token_type'')],
                ae_metadata := [(''method'', JStr ''refresh_token''), (''presentedTokenType'', jstr_opt (tk_type p))]\<rparr>)) s)
       else case find_where (\<lambda>r. ss_userId r = tk_sub p \<and> ss_refreshToken r = hashOpaqueToken env token True) (as_sessions s) of
         None \<Rightarrow> (Inl (Unauthorized ''session_expired_or_invalid''), s)
       | Some r \<Rightarrow>
         (case ss_revokedAt r of
            Some revoked \<Rightarrow> (Inl (Unauthorized ''session_expired_or_invalid''),
              as_emit (Audit ((audit_base SYSTEM ''SECURITY_ALERT'' ''Session'' (ss_id r))
                \<lparr>ae_targetUserId := Some (tk_sub p), ae_outcome := DENIED, ae_severity := CRITICAL,
                 ae_diff := [(''result'', JStr ''denied''), (''reason'', JStr ''refresh_token_reuse_detected''),
                   (''sessionsRevoked'', JInt (int (count_where (\<lambda>r. ss_userId r = tk_sub p \<and> ss_revokedAt r = None) (as_sessions s))))],
                 ae_metadata := [(''reusedTokenRevokedAt'', JDate revoked)]\<rparr>))
               (purgeUserCache env (tk_sub p) (revoke_all env (tk_sub p) s)))
          | None \<Rightarrow>
              if ss_expiresAt r < ax_now env then (Inl (Unauthorized ''session_expired_or_invalid''), s)
              else (case find_user (tk_sub p) s of
                  None \<Rightarrow> (Inl (Unauthorized ''user_inactive''),
                    as_emit (session_event (tk_sub p) (tk_roles p) None DENIED
                      [(''result'', JStr ''failed''), (''reason'', JStr ''user_not_found'')]
                      [(''method'', JStr ''refresh_token''), (''sessionId'', JStr (ss_id r))]) s)
                | Some u \<Rightarrow>
                    if \<not> u_isActive u
                    then (Inl (Unauthorized ''user_inactive''),
                      as_emit (session_event (tk_sub p) (tk_roles p) (u_name u) DENIED
                        [(''result'', JStr ''failed''), (''reason'', JStr ''account_inactive'')]
                        [(''method'', JStr ''refresh_token''), (''sessionId'', JStr (ss_id r))]) s)
                    else rotate env r u s)))"

text \<open>Sessions are deleted on logout, never marked revoked.\<close>

definition delete_sessions :: "(session_row \<Rightarrow> bool) \<Rightarrow> auth_state \<Rightarrow> nat \<times> auth_state" where
  "delete_sessions P s = (count_where P (as_sessions s), s\<lparr>as_sessions := filter (\<lambda>r. \<not> P r) (as_sessions s)\<rparr>)"

definition logout_event :: "jstring \<Rightarrow> jstring list \<Rightarrow> jstring \<Rightarrow> nat \<Rightarrow> effect" where
  "logout_event uid roles scope n =
     Audit ((audit_base (resolveActorType roles) ''LOGOUT'' ''User'' uid)
       \<lparr>ae_userId := Some uid, ae_diff := [(''result'', JStr ''success'')],
        ae_metadata := [(''scope'', JStr scope), (''sessionsRevoked'', JInt (int n))]\<rparr>)"

definition logout :: "auth_env \<Rightarrow> current_user \<Rightarrow> jstring option \<Rightarrow> auth_state \<Rightarrow> jstring result \<times> auth_state" where
  "logout env user token s =
     (case delete_sessions (\<lambda>r. ss_userId r = cu_id user \<and>
          (truthy token \<longrightarrow> ss_refreshToken r = hashOpaqueToken env (the token) True)) s of
        (n, s1) \<Rightarrow> (Inr ''logout_successful'',
          as_emit (logout_event (cu_id user) (cu_roles user) (if truthy token then ''single_session'' else ''all_sessions'') n)
           (purgeUserCache env (cu_id user) s1)))"

definition logoutAll :: "auth_env \<Rightarrow> current_user \<Rightarrow> auth_state \<Rightarrow> nat result \<times> auth_state" where
  "logoutAll env user s = (case delete_sessions (\<lambda>r. ss_userId r = cu_id user) s of
     (n, s1) \<Rightarrow> (Inr n, as_emit (logout_event (cu_id user) (cu_roles user) ''all_sessions_explicit'' n)
        (purgeUserCache env (cu_id user) s1)))"

definition revokeRefreshToken :: "auth_env \<Rightarrow> current_user \<Rightarrow> jstring \<Rightarrow> auth_state \<Rightarrow> jstring result \<times> auth_state" where
  "revokeRefreshToken env user token s =
     (case delete_sessions (\<lambda>r. ss_userId r = cu_id user \<and> ss_refreshToken r = hashOpaqueToken env token True) s of
        (n, s1) \<Rightarrow>
          if n = 0 then (Inl (NotFound ''session_not_found''), s)
          else (Inr ''refresh_token_revoked'', as_emit (logout_event (cu_id user) (cu_roles user) ''refresh_token_revoked'' n)
             (purgeUserCache env (cu_id user) s1)))"

section \<open>Re-authentication\<close>

definition REAUTH_FAILED_TTL :: int where
  "REAUTH_FAILED_TTL = 900"

definition REAUTH_LOCKOUT_TTL :: int where
  "REAUTH_LOCKOUT_TTL = 900"

definition isReauthLocked :: "auth_env \<Rightarrow> jstring \<Rightarrow> auth_state \<Rightarrow> bool" where
  "isReauthLocked env uid s \<longleftrightarrow> redis_get (ax_up env) (ax_now env) (hashIdentifier env uid) (as_reauthLocked s) \<noteq> None"

definition recordReauthFailure :: "auth_env \<Rightarrow> jstring \<Rightarrow> auth_state \<Rightarrow> auth_state" where
  "recordReauthFailure env uid s =
     (let k = hashIdentifier env uid
      in case incrementWithTtl (ax_up env) (ax_now env) REAUTH_FAILED_TTL k (as_reauthFailed s) of
           (Some n, m) \<Rightarrow>
             if ax_maxReauthAttempts env \<le> n
             then s\<lparr>as_reauthFailed := redis_del (ax_up env) k m,
                    as_reauthLocked := redis_set (ax_up env) (ax_now env) REAUTH_LOCKOUT_TTL k () (as_reauthLocked s)\<rparr>
             else s\<lparr>as_reauthFailed := m\<rparr>
         | (None, m) \<Rightarrow> s)"

definition resetReauthFailures :: "auth_env \<Rightarrow> jstring \<Rightarrow> auth_state \<Rightarrow> auth_state" where
  "resetReauthFailures env uid s = (let k = hashIdentifier env uid in
     s\<lparr>as_reauthFailed := redis_del (ax_up env) k (as_reauthFailed s),
       as_reauthLocked := redis_del (ax_up env) k (as_reauthLocked s)\<rparr>)"

text \<open>The account password, or the discreet-mode passcode where that mode is on.\<close>

definition credential_matches :: "auth_env \<Rightarrow> auth_user \<Rightarrow> jstring \<Rightarrow> bool" where
  "credential_matches env u credential \<longleftrightarrow>
     (truthy (u_passwordHash u) \<and> ax_compare env credential (the (u_passwordHash u))) \<or>
     (u_discreetModeEnabled u \<and> truthy (u_discreetModePasscodeHash u) \<and>
        ax_compare env credential (the (u_discreetModePasscodeHash u)))"

definition verifyCredential :: "auth_env \<Rightarrow> jstring \<Rightarrow> jstring \<Rightarrow> auth_state \<Rightarrow> bool result \<times> auth_state" where
  "verifyCredential env uid credential s =
     (if credential = [] then (Inr False, s)
      else if isReauthLocked env uid s then (Inl (Unauthorized ''reauthentication_locked''), s)
      else case find_user uid s of
        None \<Rightarrow> (Inl (NotFound ''user_not_found''), s)
      | Some u \<Rightarrow>
          if \<not> u_isActive u then (Inr False, s)
          else if credential_matches env u credential then (Inr True, resetReauthFailures env uid s)
          else (Inr False, recordReauthFailure env uid s))"

text \<open>The guard of routes that ask for a credential again.\<close>

definition ReauthGuard :: "auth_env \<Rightarrow> bool \<Rightarrow> jstring option \<Rightarrow> jstring option \<Rightarrow> auth_state \<Rightarrow> bool result \<times> auth_state" where
  "ReauthGuard env requiresReauth uid credential s =
     (if \<not> requiresReauth then (Inr True, s)
      else if \<not> truthy uid then (Inl (Unauthorized ''authentication_required''), s)
      else if \<not> truthy credential then (Inl (Unauthorized ''reauthentication_required''), s)
      else case verifyCredential env (the uid) (the credential) s of
        (Inl e, s1) \<Rightarrow> (Inl e, s1)
      | (Inr True, s1) \<Rightarrow> (Inr True, s1)
      | (Inr False, s1) \<Rightarrow> (Inl (Unauthorized ''invalid_credential''), s1))"

end
