(* ===== verification/Auth_Second_Factor.thy ===== *)
theory Auth_Second_Factor
  imports Auth_Session
begin

text \<open>
  The second factor, AR-61 to AR-69 of \<open>src/modules/auth/service/auth.service.ts\<close>: setting it up and
  taking it down, the challenge between a password and its tokens, recovery codes, and the step-up token.
\<close>

section \<open>Helpers\<close>

definition TWO_FACTOR_CHALLENGE_TTL_MS :: int where
  "TWO_FACTOR_CHALLENGE_TTL_MS = 300000"

definition TWO_FACTOR_MAX_ATTEMPTS :: nat where
  "TWO_FACTOR_MAX_ATTEMPTS = 5"

definition TWO_FACTOR_RECOVERY_CODE_COUNT :: nat where
  "TWO_FACTOR_RECOVERY_CODE_COUNT = 10"

definition STEP_UP_TTL_SECONDS :: nat where
  "STEP_UP_TTL_SECONDS = 300"

definition find_secret :: "jstring \<Rightarrow> auth_state \<Rightarrow> secret_row option" where
  "find_secret uid s = find_where (\<lambda>r. ts_userId r = uid) (as_secrets s)"

definition update_secret :: "jstring \<Rightarrow> (secret_row \<Rightarrow> secret_row) \<Rightarrow> auth_state \<Rightarrow> auth_state" where
  "update_secret uid f s = s\<lparr>as_secrets := update_where (\<lambda>r. ts_userId r = uid) f (as_secrets s)\<rparr>"

definition loadUserForSecurity :: "jstring \<Rightarrow> auth_state \<Rightarrow> auth_user result" where
  "loadUserForSecurity uid s = (case find_user uid s of None \<Rightarrow> Inl (NotFound ''user_not_found'') | Some u \<Rightarrow> Inr u)"

definition requireEnabledSecret :: "jstring \<Rightarrow> auth_state \<Rightarrow> secret_row result" where
  "requireEnabledSecret uid s = (case find_secret uid s of
       None \<Rightarrow> Inl (BadRequest ''two_factor_not_enabled'')
     | Some r \<Rightarrow> if ts_isEnabled r then Inr r else Inl (BadRequest ''two_factor_not_enabled''))"

definition checkTotpOrNull :: "auth_env \<Rightarrow> secret_row \<Rightarrow> jstring \<Rightarrow> int option result" where
  "checkTotpOrNull env r code = (case ax_decrypt env (ts_secretEncrypted r) (ax_twoFactorKey env) of
       Inl e \<Rightarrow> Inl e
     | Inr secret \<Rightarrow> verifyTotp (ax_hmacSha1 env) secret code (ts_lastUsedStep r) 1 (ax_now env))"

definition hashRecoveryCode :: "auth_env \<Rightarrow> jstring \<Rightarrow> jstring" where
  "hashRecoveryCode env code = ax_sha256 env (normalizeRecoveryCode code)"

text \<open>Ten fresh codes replace all earlier ones; row ids are the code's position here.\<close>

definition issueRecoveryCodes :: "auth_env \<Rightarrow> jstring \<Rightarrow> auth_state \<Rightarrow> jstring list \<times> auth_state" where
  "issueRecoveryCodes env uid s =
     (let codes = generateRecoveryCodes (map (ax_random env) [0..<TWO_FACTOR_RECOVERY_CODE_COUNT])
      in (codes, s\<lparr>as_recovery := filter (\<lambda>r. rc_userId r \<noteq> uid) (as_recovery s) @
           map (\<lambda>(i, c). \<lparr>rc_id = ax_newId env @ ''-'' @ show_nat i, rc_userId = uid, rc_codeHash = hashRecoveryCode env c,
                           rc_usedAt = None\<rparr>) (enumerate 0 codes)\<rparr>))"

definition security_event :: "auth_user \<Rightarrow> jstring \<Rightarrow> (jstring \<times> jval) list \<Rightarrow> audit_outcome \<Rightarrow> audit_severity \<Rightarrow> effect" where
  "security_event u action diff outcome severity =
     account_event (role_names u) action (Some u) outcome severity
       ((''result'', JStr (if outcome = SUCCESS then ''success'' else ''failure'')) # diff) []"

section \<open>Setting up and taking down\<close>

definition twoFactorStatus :: "jstring \<Rightarrow> auth_state \<Rightarrow> bool \<times> bool \<times> nat \<times> bool" where
  "twoFactorStatus uid s =
     (let secret = find_secret uid s;
          enabled = (case secret of None \<Rightarrow> False | Some r \<Rightarrow> ts_isEnabled r);
          remaining = count_where (\<lambda>r. rc_userId r = uid \<and> rc_usedAt r = None) (as_recovery s)
      in (enabled, secret \<noteq> None \<and> \<not> enabled, if enabled then remaining else 0,
          Option.bind (find_user uid s) u_twoFactorRequiredAt \<noteq> None \<and> \<not> enabled))"

definition generateTotpSecret :: "auth_env \<Rightarrow> jstring" where
  "generateTotpSecret env = base32Encode (ax_random env 0)"

definition twoFactorSetup :: "auth_env \<Rightarrow> jstring \<Rightarrow> bool \<Rightarrow> auth_state \<Rightarrow> jstring result \<times> auth_state" where
  "twoFactorSetup env uid otherMethod s =
     (if otherMethod then (Inl (BadRequest ''two_factor_method_not_available''), s)
      else case loadUserForSecurity uid s of Inl e \<Rightarrow> (Inl e, s) | Inr u \<Rightarrow>
        let stored = ax_encrypt env (generateTotpSecret env) (ax_twoFactorKey env);
            done = (\<lambda>s1. (Inr (generateTotpSecret env),
              as_emit (security_event u ''TWO_FACTOR_SETUP_STARTED'' [(''method'', JStr ''TOTP'')] SUCCESS INFO) s1))
        in case find_secret uid s of
             None \<Rightarrow> done (s\<lparr>as_secrets := as_secrets s @ [\<lparr>ts_userId = uid, ts_secretEncrypted = stored, ts_isEnabled = False,
                 ts_confirmedAt = None, ts_lastUsedStep = None\<rparr>]\<rparr>)
           | Some r \<Rightarrow> if ts_isEnabled r then (Inl (Conflict ''two_factor_already_enabled''), s)
               else done (update_secret uid (\<lambda>r. r\<lparr>ts_secretEncrypted := stored, ts_isEnabled := False,
                 ts_confirmedAt := None, ts_lastUsedStep := None\<rparr>) s))"

text \<open>A wrong code counts as a failed login.\<close>

definition wrong_code :: "auth_env \<Rightarrow> auth_user \<Rightarrow> effect list \<Rightarrow> auth_state \<Rightarrow> auth_state" where
  "wrong_code env u events s = foldl (\<lambda>s e. as_emit e s) (recordFailedLogin env (u_id u) s) events"

definition twoFactorVerify :: "auth_env \<Rightarrow> jstring \<Rightarrow> jstring \<Rightarrow> auth_state \<Rightarrow> jstring list result \<times> auth_state" where
  "twoFactorVerify env uid code s = (case loadUserForSecurity uid s of Inl e \<Rightarrow> (Inl e, s) | Inr u \<Rightarrow>
     (case assertNotLocked env u of Some e \<Rightarrow> (Inl e, s) | None \<Rightarrow>
     (case find_secret uid s of None \<Rightarrow> (Inl (BadRequest ''no_pending_two_factor_setup''), s) | Some r \<Rightarrow>
      if ts_isEnabled r then (Inl (Conflict ''two_factor_already_enabled''), s)
      else case checkTotpOrNull env r code of Inl e \<Rightarrow> (Inl e, s)
        | Inr None \<Rightarrow> (Inl (BadRequest ''invalid_two_factor_code''),
            wrong_code env u [security_event u ''TWO_FACTOR_ENABLED'' [(''reason'', JStr ''invalid_code'')] FAILURE WARNING] s)
        | Inr (Some step) \<Rightarrow>
            let s1 = update_secret uid (\<lambda>r. r\<lparr>ts_isEnabled := True, ts_confirmedAt := Some (ax_now env),
                       ts_lastUsedStep := Some step\<rparr>) s;
                s2 = update_user uid (\<lambda>u. u\<lparr>u_twoFactorRequiredAt := None\<rparr>) s1
            in case issueRecoveryCodes env uid s2 of (codes, s3) \<Rightarrow>
                 (Inr codes, as_emit (security_event u ''TWO_FACTOR_ENABLED'' [(''method'', JStr ''TOTP'')] SUCCESS INFO)
                   (purgeUserCache env uid s3)))))"

definition twoFactorDisable :: "auth_env \<Rightarrow> jstring \<Rightarrow> jstring \<Rightarrow> jstring option \<Rightarrow> auth_state \<Rightarrow> unit result \<times> auth_state" where
  "twoFactorDisable env uid code password s = (case loadUserForSecurity uid s of Inl e \<Rightarrow> (Inl e, s) | Inr u \<Rightarrow>
     (case assertNotLocked env u of Some e \<Rightarrow> (Inl e, s) | None \<Rightarrow>
     (case requireEnabledSecret uid s of Inl e \<Rightarrow> (Inl e, s) | Inr r \<Rightarrow>
      if hasStaffRole (role_names u) \<and> (case as_adminRequired s of None \<Rightarrow> True | Some b \<Rightarrow> b)
      then (Inl (Forbidden ''two_factor_required_by_policy''),
            as_emit (security_event u ''TWO_FACTOR_DISABLED'' [(''reason'', JStr ''two_factor_required_by_policy'')] DENIED WARNING) s)
      else if password \<noteq> None \<and> truthy (u_passwordHash u) \<and> \<not> ax_compare env (the password) (the (u_passwordHash u))
      then (Inl (Unauthorized ''invalid_credentials''), recordFailedLogin env uid s)
      else case checkTotpOrNull env r code of Inl e \<Rightarrow> (Inl e, s)
        | Inr None \<Rightarrow> (Inl (BadRequest ''invalid_two_factor_code''),
            wrong_code env u [security_event u ''TWO_FACTOR_DISABLED'' [(''reason'', JStr ''invalid_code'')] FAILURE WARNING] s)
        | Inr (Some step) \<Rightarrow>
            (Inr (), as_emit (security_event u ''TWO_FACTOR_DISABLED'' [(''method'', JStr ''TOTP'')] SUCCESS INFO)
              (purgeUserCache env uid (s\<lparr>as_recovery := filter (\<lambda>r. rc_userId r \<noteq> uid) (as_recovery s),
                 as_secrets := filter (\<lambda>r. ts_userId r \<noteq> uid) (as_secrets s)\<rparr>))))))"

definition twoFactorRegenerateRecoveryCodes :: "auth_env \<Rightarrow> jstring \<Rightarrow> jstring \<Rightarrow> auth_state \<Rightarrow> jstring list result \<times> auth_state" where
  "twoFactorRegenerateRecoveryCodes env uid code s = (case loadUserForSecurity uid s of Inl e \<Rightarrow> (Inl e, s) | Inr u \<Rightarrow>
     (case assertNotLocked env u of Some e \<Rightarrow> (Inl e, s) | None \<Rightarrow>
     (case requireEnabledSecret uid s of Inl e \<Rightarrow> (Inl e, s) | Inr r \<Rightarrow>
     (case checkTotpOrNull env r code of Inl e \<Rightarrow> (Inl e, s)
        | Inr None \<Rightarrow> (Inl (BadRequest ''invalid_two_factor_code''), recordFailedLogin env uid s)
        | Inr (Some step) \<Rightarrow>
            (case issueRecoveryCodes env uid (update_secret uid (\<lambda>r. r\<lparr>ts_lastUsedStep := Some step\<rparr>) s) of (codes, s1) \<Rightarrow>
               (Inr codes, as_emit (security_event u ''TWO_FACTOR_RECOVERY_CODES_REGENERATED'' [] SUCCESS INFO) s1))))))"

text \<open>
  The token is signed for five minutes. \<open>r\<close> is the row as it was read, before the state the write
  happens in; the \<open>action\<close> claim of the token is left out.
\<close>

definition twoFactorStepUp_from :: "auth_env \<Rightarrow> auth_user \<Rightarrow> secret_row \<Rightarrow> jstring \<Rightarrow> jstring option \<Rightarrow> auth_state \<Rightarrow> jstring result \<times> auth_state" where
  "twoFactorStepUp_from env u r code action s = (case checkTotpOrNull env r code of Inl e \<Rightarrow> (Inl e, s)
     | Inr None \<Rightarrow> (Inl (BadRequest ''invalid_two_factor_code''),
         wrong_code env u [security_event u ''TWO_FACTOR_STEP_UP'' [(''reason'', JStr ''invalid_code''), (''action'', jstr_opt action)] FAILURE WARNING] s)
     | Inr (Some step) \<Rightarrow>
         (Inr (ax_sign env (ax_jwtSecret env) (show_nat STEP_UP_TTL_SECONDS @ ''s'') (ax_now env)
                 \<lparr>tk_sub = u_id u, tk_phone = None, tk_email = None, tk_roles = [], tk_permissions = [],
                  tk_type = Some ''step_up'', tk_sid = None, tk_jti = None\<rparr>),
          as_emit (security_event u ''TWO_FACTOR_STEP_UP'' [(''action'', jstr_opt action)] SUCCESS INFO)
            (update_secret (u_id u) (\<lambda>r. r\<lparr>ts_lastUsedStep := Some step\<rparr>) s)))"

definition twoFactorStepUp :: "auth_env \<Rightarrow> jstring \<Rightarrow> jstring \<Rightarrow> jstring option \<Rightarrow> auth_state \<Rightarrow> jstring result \<times> auth_state" where
  "twoFactorStepUp env uid code action s = (case loadUserForSecurity uid s of Inl e \<Rightarrow> (Inl e, s) | Inr u \<Rightarrow>
     (case assertNotLocked env u of Some e \<Rightarrow> (Inl e, s) | None \<Rightarrow>
     (case requireEnabledSecret uid s of Inl e \<Rightarrow> (Inl e, s) | Inr r \<Rightarrow> twoFactorStepUp_from env u r code action s)))"

section \<open>The login challenge\<close>

definition issueTwoFactorChallenge :: "auth_env \<Rightarrow> jstring \<Rightarrow> auth_state \<Rightarrow> (jstring \<times> factor_method list) option \<times> auth_state" where
  "issueTwoFactorChallenge env uid s = (case requireEnabledSecret uid s of Inl _ \<Rightarrow> (None, s) | Inr _ \<Rightarrow>
     (let user = find_user uid s;
          methods = TOTP # (if ax_smsEnabled env \<and> (case user of None \<Rightarrow> False | Some u \<Rightarrow> truthy (u_phone u) \<and> u_isPhoneVerified u)
                            then [SMS] else []);
          c = \<lparr>ch_id = ax_newId env, ch_userId = uid, ch_purpose = CH_LOGIN, ch_methods = methods, ch_smsCodeHash = None,
               ch_attempts = 0, ch_expiresAt = ax_now env + TWO_FACTOR_CHALLENGE_TTL_MS, ch_consumedAt = None\<rparr>
      in (Some (ax_newId env, methods),
          s\<lparr>as_challenges := update_where (\<lambda>c. ch_userId c = uid \<and> ch_consumedAt c = None)
             (\<lambda>c. c\<lparr>ch_consumedAt := Some (ax_now env)\<rparr>) (as_challenges s) @ [c]\<rparr>)))"

definition open_challenge :: "auth_env \<Rightarrow> challenge_row \<Rightarrow> bool" where
  "open_challenge env c \<longleftrightarrow> ch_consumedAt c = None \<and> \<not> ch_expiresAt c < ax_now env \<and> ch_purpose c = CH_LOGIN \<and>
     ch_attempts c < TWO_FACTOR_MAX_ATTEMPTS"

definition loadChallengeOrThrow :: "auth_env \<Rightarrow> jstring \<Rightarrow> auth_state \<Rightarrow> (challenge_row \<times> auth_user) result" where
  "loadChallengeOrThrow env cid s = (case find_where (\<lambda>c. ch_id c = cid) (as_challenges s) of
       None \<Rightarrow> Inl (Unauthorized ''invalid_or_expired_challenge'')
     | Some c \<Rightarrow>
        if \<not> open_challenge env c then Inl (Unauthorized ''invalid_or_expired_challenge'')
        else case loadUserForSecurity (ch_userId c) s of Inl e \<Rightarrow> Inl e | Inr u \<Rightarrow>
          if \<not> u_isActive u then Inl (Unauthorized ''invalid_or_expired_challenge'')
          else case assertNotLocked env u of Some e \<Rightarrow> Inl e | None \<Rightarrow> Inr (c, u))"

definition update_challenge :: "jstring \<Rightarrow> (challenge_row \<Rightarrow> challenge_row) \<Rightarrow> auth_state \<Rightarrow> auth_state" where
  "update_challenge cid f s = s\<lparr>as_challenges := update_where (\<lambda>c. ch_id c = cid) f (as_challenges s)\<rparr>"

definition failChallenge :: "auth_env \<Rightarrow> challenge_row \<Rightarrow> auth_user \<Rightarrow> jstring \<Rightarrow> auth_state \<Rightarrow> 'a result \<times> auth_state" where
  "failChallenge env c u reason s =
     (let s1 = update_challenge (ch_id c) (\<lambda>c. c\<lparr>ch_attempts := Suc (ch_attempts c)\<rparr>) s;
          attempts = (case find_where (\<lambda>r. ch_id r = ch_id c) (as_challenges s1) of None \<Rightarrow> 0 | Some r \<Rightarrow> ch_attempts r);
          s2 = (if TWO_FACTOR_MAX_ATTEMPTS \<le> attempts
                then update_challenge (ch_id c) (\<lambda>c. c\<lparr>ch_consumedAt := Some (ax_now env)\<rparr>) s1 else s1)
      in (Inl (Unauthorized ''invalid_two_factor_code''),
          as_emit (account_event (role_names u) ''LOGIN_FAILED'' (Some u) FAILURE WARNING
              [(''result'', JStr ''failed''), (''reason'', JStr reason)]
              [(''method'', JStr ''two_factor''), (''attempts'', JInt (int attempts))])
            (recordFailedLogin env (u_id u) s2)))"

definition finishChallenge :: "auth_env \<Rightarrow> challenge_row \<Rightarrow> auth_user \<Rightarrow> jstring \<Rightarrow> auth_state \<Rightarrow> token_pair result \<times> auth_state" where
  "finishChallenge env c u factor s =
     (if count_where (\<lambda>r. ch_id r = ch_id c \<and> ch_consumedAt r = None) (as_challenges s) = 0
      then (Inl (Unauthorized ''invalid_or_expired_challenge''), s)
      else let s1 = s\<lparr>as_challenges := update_where (\<lambda>r. ch_id r = ch_id c \<and> ch_consumedAt r = None)
                 (\<lambda>r. r\<lparr>ch_consumedAt := Some (ax_now env)\<rparr>) (as_challenges s)\<rparr>
           in issueTokens env (u_id u) (u_phone u) (u_email u) (role_names u) (derivePermissions (u_roles u))
                (as_emit (account_event (role_names u) ''LOGIN_SUCCESS'' (Some u) SUCCESS INFO
                   [(''result'', JStr ''success'')] [(''method'', JStr ''two_factor''), (''factor'', JStr factor)])
                  (resetLoginAttempts env u s1)))"

text \<open>
  The claim of a time step, on whatever row is there when the update runs: \<open>r\<close> was read earlier.
\<close>

definition stepAdvances :: "jstring \<Rightarrow> int \<Rightarrow> secret_row \<Rightarrow> bool" where
  "stepAdvances uid step r \<longleftrightarrow> ts_userId r = uid \<and> unused_step (ts_lastUsedStep r) step"

definition claim_step :: "auth_env \<Rightarrow> challenge_row \<Rightarrow> auth_user \<Rightarrow> int \<Rightarrow> auth_state \<Rightarrow> token_pair result \<times> auth_state" where
  "claim_step env c u step s =
     (if count_where (stepAdvances (u_id u) step) (as_secrets s) = 0
      then failChallenge env c u ''two_factor_code_replayed'' s
      else finishChallenge env c u ''totp''
        (s\<lparr>as_secrets := update_where (stepAdvances (u_id u) step) (\<lambda>r. r\<lparr>ts_lastUsedStep := Some step\<rparr>) (as_secrets s)\<rparr>))"

definition twoFactorLoginVerify :: "auth_env \<Rightarrow> jstring \<Rightarrow> jstring \<Rightarrow> auth_state \<Rightarrow> token_pair result \<times> auth_state" where
  "twoFactorLoginVerify env cid code s = (case loadChallengeOrThrow env cid s of Inl e \<Rightarrow> (Inl e, s) | Inr (c, u) \<Rightarrow>
     if truthy (ch_smsCodeHash c) \<and> ax_compare env code (the (ch_smsCodeHash c))
     then finishChallenge env c u ''sms'' s
     else case requireEnabledSecret (u_id u) s of Inl e \<Rightarrow> (Inl e, s) | Inr r \<Rightarrow>
       (case checkTotpOrNull env r code of Inl e \<Rightarrow> (Inl e, s)
          | Inr None \<Rightarrow> failChallenge env c u ''invalid_two_factor_code'' s
          | Inr (Some step) \<Rightarrow> claim_step env c u step s))"

definition twoFactorLoginRecovery :: "auth_env \<Rightarrow> jstring \<Rightarrow> jstring \<Rightarrow> auth_state \<Rightarrow> (token_pair \<times> nat) result \<times> auth_state" where
  "twoFactorLoginRecovery env cid code s = (case loadChallengeOrThrow env cid s of Inl e \<Rightarrow> (Inl e, s) | Inr (c, u) \<Rightarrow>
     (case find_where (\<lambda>r. rc_userId r = u_id u \<and> rc_codeHash r = hashRecoveryCode env code \<and> rc_usedAt r = None) (as_recovery s) of
        None \<Rightarrow> failChallenge env c u ''invalid_recovery_code'' s
      | Some r \<Rightarrow>
          let mine = (\<lambda>q. rc_id q = rc_id r \<and> rc_usedAt q = None)
          in if count_where mine (as_recovery s) = 0 then failChallenge env c u ''recovery_code_already_used'' s
             else case finishChallenge env c u ''recovery_code''
                 (s\<lparr>as_recovery := update_where mine (\<lambda>q. q\<lparr>rc_usedAt := Some (ax_now env)\<rparr>) (as_recovery s)\<rparr>) of
               (Inl e, s1) \<Rightarrow> (Inl e, s1)
             | (Inr tokens, s1) \<Rightarrow>
                 let remaining = count_where (\<lambda>q. rc_userId q = u_id u \<and> rc_usedAt q = None) (as_recovery s1)
                 in (Inr (tokens, remaining), as_emit (security_event u ''TWO_FACTOR_RECOVERY_USED''
                      [(''recoveryCodesRemaining'', JInt (int remaining))] SUCCESS (if remaining \<le> 2 then WARNING else INFO)) s1)))"

definition twoFactorLoginResend :: "auth_env \<Rightarrow> jstring \<Rightarrow> auth_state \<Rightarrow> jstring result \<times> auth_state" where
  "twoFactorLoginResend env cid s = (case loadChallengeOrThrow env cid s of Inl e \<Rightarrow> (Inl e, s) | Inr (c, u) \<Rightarrow>
     if SMS \<notin> set (ch_methods c) \<or> \<not> truthy (u_phone u) then (Inl (BadRequest ''sms_not_available''), s)
     else (if ax_smsDelivered env then Inr ''two_factor_sms_sent'' else Inl (BadRequest ''sms_delivery_failed''),
           update_challenge cid (\<lambda>c. c\<lparr>ch_smsCodeHash := Some (ax_newCodeHash env)\<rparr>) s))"

end
