(* ===== verification/Auth_Properties.thy ===== *)
theory Auth_Properties
  imports Auth_Second_Factor
begin

text \<open>
  What holds of signing in: one-time codes agree with their reference definition and a time step is
  claimed once, a rotated refresh token that comes back ends every session of its user, wrong passwords
  lock the account; and two places where the code is weaker than it reads: a locked account still confirms
  its password, and no login asks for the second factor.
\<close>

section \<open>Frames\<close>

lemma secrets_frame [simp]:
  "as_secrets (as_emit e s) = as_secrets s"
  "as_secrets (update_user uid f s) = as_secrets s"
  "as_secrets (lock_user env uid s) = as_secrets s"
  "as_secrets (resetFailedLoginAttempts env uid s) = as_secrets s"
  "as_secrets (recordFailedLogin env uid s) = as_secrets s"
  "as_secrets (resetLoginAttempts env u s) = as_secrets s"
  "as_secrets (purgeUserCache env uid s) = as_secrets s"
  "as_secrets (revoke_all env uid s) = as_secrets s"
  "as_secrets (update_challenge cid g s) = as_secrets s"
  "as_secrets (snd (delete_sessions P s)) = as_secrets s"
  by (auto simp: as_emit_def update_user_def lock_user_def resetFailedLoginAttempts_def recordFailedLogin_def
      incrementFailedLoginAttempts_def resetLoginAttempts_def purgeUserCache_def revoke_all_def update_challenge_def
      delete_sessions_def Let_def split: prod.splits option.splits)

lemma sessions_frame [simp]:
  "as_sessions (as_emit e s) = as_sessions s"
  "as_sessions (update_user uid f s) = as_sessions s"
  "as_sessions (lock_user env uid s) = as_sessions s"
  "as_sessions (resetFailedLoginAttempts env uid s) = as_sessions s"
  "as_sessions (recordFailedLogin env uid s) = as_sessions s"
  "as_sessions (resetLoginAttempts env u s) = as_sessions s"
  "as_sessions (purgeUserCache env uid s) = as_sessions s"
  "as_sessions (update_challenge cid g s) = as_sessions s"
  by (auto simp: as_emit_def update_user_def lock_user_def resetFailedLoginAttempts_def recordFailedLogin_def
      incrementFailedLoginAttempts_def resetLoginAttempts_def purgeUserCache_def update_challenge_def
      Let_def split: prod.splits option.splits)

lemma issueTokens_frame:
  "issueTokens env uid ph em roles ps s = (res, s1) \<Longrightarrow> as_secrets s1 = as_secrets s \<and> as_users s1 = as_users s"
  by (auto simp: issueTokens_def Let_def split: sum.splits)

lemma finish_frame: "finishChallenge env c u factor s = (res, s1) \<Longrightarrow> as_secrets s1 = as_secrets s"
  by (auto simp: finishChallenge_def Let_def dest!: issueTokens_frame split: if_splits)

lemma fail_frame: "failChallenge env c u reason s = (res, s1) \<Longrightarrow> as_secrets s1 = as_secrets s"
  by (auto simp: failChallenge_def Let_def split: if_splits)

lemma snd_frames [simp]:
  "as_secrets (snd (issueTokens env uid ph em roles ps s)) = as_secrets s"
  "as_secrets (snd (finishChallenge env c u factor s)) = as_secrets s"
  "as_secrets (snd (failChallenge env c u reason s)) = as_secrets s"
  by (metis issueTokens_frame prod.collapse, metis finish_frame prod.collapse, metis fail_frame prod.collapse)

section \<open>One-time codes\<close>

text \<open>
  C29. For the stored secret of any key, checking a code gives exactly the earliest unused time step
  among the previous, the current and the next whose HOTP value is the code: the format filter, the base32
  round trip and the character comparison lose nothing and add nothing.
\<close>

theorem totp_matches_reference:
  assumes "0 < current_step now" "current_step now + 1 < 2 ^ 64"
  shows "verifyTotp hmac (base32Encode secret) code lastUsedStep 1 now =
    Inr (find_where (\<lambda>step. unused_step lastUsedStep step \<and> hotp hmac secret step = Inr code)
      [current_step now - 1, current_step now, current_step now + 1])"
proof -
  have steps: "map (\<lambda>drift. current_step now + drift) [- 1..1] = [current_step now - 1, current_step now, current_step now + 1]"
    by (simp add: upto.simps)
  have total: "\<exists>c. hotp hmac secret step = Inr c" if "step \<in> set [current_step now - 1, current_step now, current_step now + 1]" for step
    using that assms by (intro hotp_total) auto
  have dec: "base32Decode (base32Encode secret) = Inr secret"
    using decode_encode [of "base32Encode secret" secret 0] BASE32_chars enc_chars [of 0 0 secret]
    by (auto simp: base32Encode_def subset_iff intro!: filter_True)
  show ?thesis
  proof (cases "length code = 6 \<and> list_all is_digit code")
    case True
    then have "verifyTotp hmac (base32Encode secret) code lastUsedStep 1 now =
        totp_scan (hotp hmac secret) code lastUsedStep [current_step now - 1, current_step now, current_step now + 1]"
      by (simp only: verifyTotp_def dec steps if_False simp_thms sum.case)
    also note totp_scan_find [OF total]
    finally show ?thesis .
  next
    case False
    then have "find_where (\<lambda>step. unused_step lastUsedStep step \<and> hotp hmac secret step = Inr code)
      [current_step now - 1, current_step now, current_step now + 1] = None"
      using hotp_code by (auto simp: find_where_None_iff)
    with False show ?thesis by (auto simp: verifyTotp_def)
  qed
qed

text \<open>A stand-in for the keyed hash: the code is the low byte of the counter.\<close>

definition demo_hmac :: hmac_fun where
  "demo_hmac key msg = [0, 0, 0, last msg] @ replicate 16 0"

lemma demo_hotp: "hotp demo_hmac key 40 = Inr ''000040''"
proof -
  have "last (counter_bytes 40) = 40"
    by (simp add: counter_bytes_def upt_rec)
  then have d: "demo_hmac key (counter_bytes 40) = [0, 0, 0, 40, 0, 0, 0, 0, 0, 0, 0, 0, 0, 0, 0, 0, 0, 0, 0, 0]"
    by (simp add: demo_hmac_def numeral_eq_Suc)
  have "pad_start 6 (CHR ''0'') (show_nat 40) = ''000040''" by code_simp
  then show ?thesis unfolding hotp_def Let_def d by (simp add: digest_at_def TOTP_DIGITS_def)
qed

theorem totp_matches_reference_witness:
  "verifyTotp demo_hmac (base32Encode [1, 2, 3]) ''000040'' (Some 39) 1 1200000 = Inr (Some 40)"
  using totp_matches_reference [of 1200000 demo_hmac "[1, 2, 3]" "''000040''" "Some 39"]
  by (simp add: current_step_def TOTP_PERIOD_SECONDS_def unused_step_def demo_hotp)



section \<open>A time step is claimed once\<close>

text \<open>Everything a sign-in does, in any order and on rows read at any earlier time.\<close>

inductive login_sys :: "auth_state \<Rightarrow> auth_state \<Rightarrow> bool" where
  "login_sys s (snd (claim_step env c u step s))"
| "login_sys s (snd (finishChallenge env c u factor s))"
| "login_sys s (snd (failChallenge env c u reason s :: unit result \<times> auth_state))"
| "login_sys s (snd (twoFactorLoginRecovery env cid code s))"
| "login_sys s (snd (twoFactorLoginResend env cid s))"
| "login_sys s (snd (issueTwoFactorChallenge env uid s))"
| "login_sys s (snd (adminLoginByEmail env email password s))"
| "\<forall>uid ph t. as_secrets (snd (sendOtp uid ph t)) = as_secrets t \<Longrightarrow> login_sys s (snd (login env sendOtp phone password s))"
| "login_sys s (snd (rotate env r u s))"
| "login_sys s (snd (refresh env token s))"
| "login_sys s (snd (logout env user tok s))"
| "login_sys s (snd (logoutAll env user s))"
| "login_sys s (snd (revokeRefreshToken env user token s))"
| "login_sys s (snd (jwt_validate env ttl payload s))"
| "login_sys s (snd (verifyCredential env uid credential s))"
| "login_sys s (recordFailedLogin env uid s)"
| "login_sys s (resetLoginAttempts env u s)"
| "login_sys s (snd (issueTokens env uid ph em roles ps s))"

inductive_cases login_sysE: "login_sys s t"

definition used_up :: "jstring \<Rightarrow> int \<Rightarrow> auth_state \<Rightarrow> bool" where
  "used_up uid step s \<longleftrightarrow> count_where (stepAdvances uid step) (as_secrets s) = 0"

lemma claim_frame:
  "claim_step env c u step s = (res, s1) \<Longrightarrow>
     as_secrets s1 = as_secrets s \<or>
     as_secrets s1 = update_where (stepAdvances (u_id u) step) (\<lambda>r. r\<lparr>ts_lastUsedStep := Some step\<rparr>) (as_secrets s)"
  by (auto simp: claim_step_def split: if_splits dest!: fail_frame finish_frame)

lemma recovery_frame [frame]: "as_secrets (snd (twoFactorLoginRecovery env cid code s)) = as_secrets s"
  by (auto simp: twoFactorLoginRecovery_def Let_def split: sum.splits option.splits prod.splits dest!: finish_frame)

lemma admin_login_frame [frame]: "as_secrets (snd (adminLoginByEmail env email password s)) = as_secrets s"
  by (auto simp: adminLoginByEmail_def Let_def split: sum.splits option.splits)

lemma login_frame:
  assumes "\<forall>uid ph t. as_secrets (snd (sendOtp uid ph t)) = as_secrets t"
  shows "as_secrets (snd (login env sendOtp phone password s)) = as_secrets s"
proof -
  have send: "sendOtp uid ph t = (res, t') \<Longrightarrow> as_secrets t' = as_secrets t" for uid ph t res t'
    using assms by (metis snd_conv)
  show ?thesis
    by (auto simp: login_def Let_def split: sum.splits option.splits prod.splits dest!: send issueTokens_frame)
qed

lemma rotate_frame [frame]: "as_secrets (snd (rotate env r u s)) = as_secrets s"
  by (auto simp: rotate_def split: sum.splits prod.splits dest!: issueTokens_frame)

lemma logout_frames [frame]:
  "as_secrets (snd (logout env user tok s)) = as_secrets s"
  "as_secrets (snd (logoutAll env user s)) = as_secrets s"
  "as_secrets (snd (revokeRefreshToken env user token s)) = as_secrets s"
  by (simp_all add: logout_def logoutAll_def revokeRefreshToken_def delete_sessions_def)

lemma request_frames [frame]:
  "as_secrets (snd (jwt_validate env ttl payload s)) = as_secrets s"
  "as_secrets (snd (verifyCredential env uid credential s)) = as_secrets s"
  by (auto simp: jwt_validate_def wrapSessionAuth_def Let_def split: prod.splits session_auth.splits option.splits)
    (auto simp: verifyCredential_def resetReauthFailures_def recordReauthFailure_def Let_def split: prod.splits option.splits)

lemma challenge_frames [frame]:
  "as_secrets (snd (twoFactorLoginResend env cid s)) = as_secrets s"
  "as_secrets (snd (issueTwoFactorChallenge env uid s)) = as_secrets s"
  by (auto simp: twoFactorLoginResend_def issueTwoFactorChallenge_def Let_def split: sum.splits prod.splits)

lemma refresh_frame [frame]: "as_secrets (snd (refresh env token s)) = as_secrets s"
  by (simp add: refresh_def rotate_frame split: option.splits)

lemma advance_back:
  "stepAdvances uid step (if stepAdvances v n q then q\<lparr>ts_lastUsedStep := Some n\<rparr> else q) \<Longrightarrow> stepAdvances uid step q"
  by (auto simp: stepAdvances_def unused_step_def split: if_splits option.splits)

lemma used_up_update:
  assumes "used_up uid step s" "as_secrets t = as_secrets s \<or>
     as_secrets t = update_where (stepAdvances v n) (\<lambda>r. r\<lparr>ts_lastUsedStep := Some n\<rparr>) (as_secrets s)"
  shows "used_up uid step t"
  using assms(2)
proof
  assume t: "as_secrets t = update_where (stepAdvances v n) (\<lambda>r. r\<lparr>ts_lastUsedStep := Some n\<rparr>) (as_secrets s)"
  have "\<not> stepAdvances uid step r" if "r \<in> set (as_secrets t)" for r
  proof
    assume "stepAdvances uid step r"
    with that obtain q where "q \<in> set (as_secrets s)" "stepAdvances uid step q"
      unfolding t in_update_where using advance_back by blast
    with assms(1) show False by (simp add: used_up_def count_where_0_iff)
  qed
  then show ?thesis by (simp add: used_up_def count_where_0_iff)
qed (use assms(1) in \<open>simp add: used_up_def\<close>)

interpretation claimed: invariant_system login_sys "used_up uid step" for uid step
proof
  fix s t assume "login_sys s t" "used_up uid step s"
  from this(1) show "used_up uid step t"
  proof cases
    case (1 env c u n)
    obtain res s1 where "claim_step env c u n s = (res, s1)" by fastforce
    with claim_frame [OF this] 1 \<open>used_up uid step s\<close> show ?thesis by (auto intro: used_up_update)
  qed (use \<open>used_up uid step s\<close> in \<open>auto simp: used_up_def frame login_frame\<close>)
qed

lemma advance_done:
  "\<not> stepAdvances uid step (if stepAdvances uid step q then q\<lparr>ts_lastUsedStep := Some step\<rparr> else q)"
  by (auto simp: stepAdvances_def unused_step_def)

lemma claim_uses_up: "used_up (u_id u) step (snd (claim_step env c u step s))"
proof -
  obtain res s1 where r: "claim_step env c u step s = (res, s1)" by fastforce
  show ?thesis
  proof (cases "count_where (stepAdvances (u_id u) step) (as_secrets s) = 0")
    case True
    then show ?thesis by (simp add: claim_step_def used_up_def)
  next
    case False
    then have "as_secrets (snd (claim_step env c u step s)) =
        update_where (stepAdvances (u_id u) step) (\<lambda>r. r\<lparr>ts_lastUsedStep := Some step\<rparr>) (as_secrets s)"
      by (simp add: claim_step_def)
    then show ?thesis
      using advance_done by (auto simp only: used_up_def count_where_0_iff in_update_where)
  qed
qed

text \<open>
  C31. Once a login has claimed a time step, no later claim of that step or an earlier one for the same
  account gives tokens, whatever other sign-in operations ran in between and however long before that
  claim its rows were read: the claim is refused as a replay, no session is added, and the secret stands.
\<close>

theorem step_claimed_once:
  assumes "login_sys\<^sup>*\<^sup>* (snd (claim_step env c u step s)) t" "u_id v = u_id u" "step' \<le> step"
  shows "fst (claim_step env' d v step' t) = Inl (Unauthorized ''invalid_two_factor_code'') \<and>
    as_sessions (snd (claim_step env' d v step' t)) = as_sessions t \<and>
    as_secrets (snd (claim_step env' d v step' t)) = as_secrets t"
proof -
  have "used_up (u_id u) step t"
    using claimed.reach_inv [OF assms(1) claim_uses_up] .
  then have "count_where (stepAdvances (u_id v) step') (as_secrets t) = 0"
    using assms(2,3) by (auto simp: used_up_def count_where_0_iff stepAdvances_def unused_step_def split: option.splits)
  then have "claim_step env' d v step' t = failChallenge env' d v ''two_factor_code_replayed'' t"
    by (simp add: claim_step_def)
  then show ?thesis by (simp add: failChallenge_def Let_def)
qed

section \<open>Refresh tokens\<close>

lemma refresh_success:
  assumes "refresh env token s = (Inr tp, s1)"
  obtains p r new where "ax_verify env (refresh_secret env) (ax_now env) token = Some p" "tk_type p = Some ''refresh''"
    "find_where (\<lambda>r. ss_userId r = tk_sub p \<and> ss_refreshToken r = hashOpaqueToken env token True) (as_sessions s) = Some r"
    "ss_revokedAt r = None"
    "as_sessions s1 = update_where (\<lambda>q. ss_id q = ss_id r \<and> ss_revokedAt q = None)
       (\<lambda>q. q\<lparr>ss_revokedAt := Some (ax_now env)\<rparr>) (as_sessions s) @ [new]"
    "ss_userId new = tk_sub p" "ss_revokedAt new = None"
proof -
  from assms obtain p r u where p: "ax_verify env (refresh_secret env) (ax_now env) token = Some p" "tk_type p = Some ''refresh''"
      "find_where (\<lambda>r. ss_userId r = tk_sub p \<and> ss_refreshToken r = hashOpaqueToken env token True) (as_sessions s) = Some r"
      "ss_revokedAt r = None" "find_user (tk_sub p) s = Some u" and rot: "rotate env r u s = (Inr tp, s1)"
    by (auto simp: refresh_def split: option.splits if_splits)
  from p(5) have u: "u_id u = tk_sub p" by (auto simp: find_user_def dest: find_where_SomeD)
  from rot obtain new where "as_sessions s1 = update_where (\<lambda>q. ss_id q = ss_id r \<and> ss_revokedAt q = None)
       (\<lambda>q. q\<lparr>ss_revokedAt := Some (ax_now env)\<rparr>) (as_sessions s) @ [new]" "ss_userId new = u_id u" "ss_revokedAt new = None"
    by (auto simp: rotate_def issueTokens_def Let_def split: if_splits sum.splits)
  with p u that show thesis by auto
qed

text \<open>A token whose session is revoked: the reuse branch.\<close>

lemma refresh_reuse:
  assumes "ax_verify env (refresh_secret env) (ax_now env) token = Some p" "tk_type p = Some ''refresh''"
    and "find_where (\<lambda>r. ss_userId r = tk_sub p \<and> ss_refreshToken r = hashOpaqueToken env token True) (as_sessions s) = Some r"
    and "ss_revokedAt r = Some at0"
  shows "fst (refresh env token s) = Inl (Unauthorized ''session_expired_or_invalid'')"
    and "as_sessions (snd (refresh env token s)) = as_sessions (revoke_all env (tk_sub p) s)"
    and "as_authCache (snd (refresh env token s)) = as_authCache (purgeUserCache env (tk_sub p) s)"
proof -
  have f: "as_authCache (revoke_all env (tk_sub p) s) = as_authCache s" by (simp add: revoke_all_def)
  show "fst (refresh env token s) = Inl (Unauthorized ''session_expired_or_invalid'')"
    using assms by (simp add: refresh_def)
  show "as_sessions (snd (refresh env token s)) = as_sessions (revoke_all env (tk_sub p) s)"
    using assms by (simp add: refresh_def as_emit_def purgeUserCache_def)
  show "as_authCache (snd (refresh env token s)) = as_authCache (purgeUserCache env (tk_sub p) s)"
    using assms f by (simp add: refresh_def as_emit_def purgeUserCache_def fun_eq_iff)
qed

lemma revoked_no_live:
  assumes "r \<in> set (as_sessions (revoke_all env uid s))" "ss_userId r = uid"
  shows "ss_revokedAt r \<noteq> None"
proof -
  from assms(1) obtain q where "r = (if ss_userId q = uid \<and> ss_revokedAt q = None then q\<lparr>ss_revokedAt := Some (ax_now env)\<rparr> else q)"
    by (auto simp: revoke_all_def in_update_where)
  with assms(2) show ?thesis by (cases "ss_userId q = uid \<and> ss_revokedAt q = None") simp_all
qed

lemma starts_with_append [simp]: "starts_with p (p @ q)"
  by (simp add: starts_with_def)

lemma validate_dead:
  assumes "\<forall>r \<in> set (as_sessions s). ss_userId r = tk_sub payload \<longrightarrow> ss_revokedAt r \<noteq> None"
    and "\<forall>sid. as_authCache s (auth_key (tk_sub payload) sid) = None" "truthy (tk_sid payload)"
  shows "fst (jwt_validate env ttl payload s) = Inl (Unauthorized ''session_revoked'')"
proof -
  have "find_where (live_session env (tk_sub payload) (the (tk_sid payload))) (as_sessions s) = None"
    using assms(1) by (auto simp: find_where_None_iff live_session_def)
  then have "loadSessionAuth env (tk_sub payload) (the (tk_sid payload)) s = Dead"
    by (simp add: loadSessionAuth_def)
  then show ?thesis
    using assms(2,3) by (simp add: jwt_validate_def wrapSessionAuth_def redis_get_def live_def Let_def)
qed


section \<open>Lockout\<close>

text \<open>Passwords tried one after another at one phone number.\<close>

fun tries :: "(jstring \<Rightarrow> jstring \<Rightarrow> auth_state \<Rightarrow> jstring result \<times> auth_state) \<Rightarrow> jstring \<Rightarrow> (auth_env \<times> jstring) list
    \<Rightarrow> auth_state \<Rightarrow> auth_state" where
  "tries sendOtp phone [] s = s"
| "tries sendOtp phone ((env, password) # rest) s = tries sendOtp phone rest (snd (login env sendOtp phone password s))"

text \<open>Wrong passwords while the store answers, in order and inside the window that is open at \<open>t0\<close>.\<close>

definition wrong_tries :: "int \<Rightarrow> nat \<Rightarrow> jstring \<Rightarrow> jstring \<Rightarrow> jstring \<Rightarrow> (auth_env \<times> jstring) list \<Rightarrow> auth_state \<Rightarrow> bool" where
  "wrong_tries t0 m uid k h reqs s \<longleftrightarrow> sorted (map (\<lambda>r. ax_now (fst r)) reqs) \<and>
     (\<forall>(env, password) \<in> set reqs. ax_up env \<and> ax_maxLoginAttempts env = m \<and> hashIdentifier env uid = k \<and>
        \<not> ax_compare env password h \<and> t0 \<le> ax_now env \<and> ax_now env < closes 900 t0 (as_failed s) k)"

definition account_at :: "jstring \<Rightarrow> auth_user \<Rightarrow> jstring \<Rightarrow> auth_state \<Rightarrow> bool" where
  "account_at phone u h s \<longleftrightarrow> (\<exists>full. normalizePhoneNumber phone = Inr full \<and>
     find_where (\<lambda>u. u_phone u = Some full) (as_users s) = Some u) \<and> u_passwordHash u = Some h \<and> h \<noteq> []"

lemma login_wrong_password:
  assumes "account_at phone u h s" "\<not> ax_compare env password h"
  shows "login env sendOtp phone password s =
    (Inl (Unauthorized ''invalid_credentials''), as_emit (login_failed u FAILURE ''wrong_password'') (recordFailedLogin env (u_id u) s))"
  using assms by (auto simp: account_at_def login_def)

lemma login_right_password_locked:
  assumes "account_at phone u h s" "ax_compare env password h" "''USER'' \<in> set (role_names u)" "u_lockedUntil u = Some until"
    and "ax_now env < until"
  shows "login env sendOtp phone password s =
    (Inl (Unauthorized ''account_locked''), as_emit (login_failed u DENIED ''account_locked'') s)"
  using assms by (auto simp: account_at_def login_def assertNotLocked_def)

definition locked_row :: "int \<Rightarrow> auth_user \<Rightarrow> auth_user" where
  "locked_row until u = u\<lparr>u_lockedUntil := Some until, u_failedLoginAttempts := 0\<rparr>"

text \<open>What one wrong password does to the account and its counter.\<close>

lemma one_try:
  assumes "account_at phone u h s" "\<not> ax_compare env password h" "ax_up env"
    and s': "s' = snd (login env sendOtp phone password s)" and k: "hashIdentifier env (u_id u) = k"
  shows "fst (incr_script (ax_now env) 900 k (as_failed s)) < ax_maxLoginAttempts env \<Longrightarrow>
      as_users s' = as_users s \<and> as_failed s' k = snd (incr_script (ax_now env) 900 k (as_failed s)) k"
    and "ax_maxLoginAttempts env \<le> fst (incr_script (ax_now env) 900 k (as_failed s)) \<Longrightarrow>
      as_users s' = update_where (\<lambda>v. u_id v = u_id u)
        (locked_row (ax_now env + ax_lockoutMinutes env * 60 * 1000)) (as_users s)"
  using assms(3) k
  by (auto simp: s' login_wrong_password [OF assms(1,2)] recordFailedLogin_def as_emit_def locked_row_def [abs_def]
      incrementFailedLoginAttempts_def incrementWithTtl_def FAILED_LOGIN_TTL_def resetFailedLoginAttempts_def lock_user_def
      update_user_def Let_def case_prod_beta)

lemma tries_lock:
  assumes "account_at phone u h s" "wrong_tries t0 m (u_id u) k h reqs s" "reqs \<noteq> []"
    and "level t0 (as_failed s) k + length reqs = m"
  shows "as_users (tries sendOtp phone (butlast reqs) s) = as_users s \<and>
    as_users (tries sendOtp phone reqs s) = update_where (\<lambda>v. u_id v = u_id u)
      (locked_row (ax_now (fst (last reqs)) + ax_lockoutMinutes (fst (last reqs)) * 60 * 1000)) (as_users s)"
  using assms
proof (induction reqs arbitrary: t0 s)
  case (Cons r reqs)
  obtain env password where r: "r = (env, password)" by fastforce
  define t where "t = ax_now env"
  define s' where "s' = snd (login env sendOtp phone password s)"
  from Cons.prems(2) have e: "ax_up env" "ax_maxLoginAttempts env = m" "hashIdentifier env (u_id u) = k"
      "\<not> ax_compare env password h" "t0 \<le> t" "t < closes 900 t0 (as_failed s) k"
    by (auto simp: wrong_tries_def r t_def)
  note later = window_later [OF e(5,6)] and one = one_try [OF Cons.prems(1) e(4,1) s'_def e(3), folded t_def]
  have n: "fst (incr_script t 900 k (as_failed s)) = Suc (level t0 (as_failed s) k)"
    using redis_counter.bump_counts [of t 900 k "as_failed s"] later(1) by simp
  show ?case
  proof (cases reqs)
    case Nil
    then show ?thesis using one(2) n e(2) Cons.prems(4) by (simp add: r s'_def t_def)
  next
    case (Cons q rest)
    with Cons.prems(4) n e(2) one(1) have u: "as_users s' = as_users s" and f: "as_failed s' k = snd (incr_script t 900 k (as_failed s)) k"
      by auto
    have t: "t < closes 900 t (as_failed s) k" using later(2) e(6) by simp
    have lev: "level t (as_failed s') k = Suc (level t0 (as_failed s) k)"
      and clo: "closes 900 t (as_failed s') k = closes 900 t (as_failed s) k"
      using counter_cong(1) [where m = "snd (incr_script t 900 k (as_failed s))" and m' = "as_failed s'" and k = k, OF f, of t]
        counter_cong(2) [where m = "snd (incr_script t 900 k (as_failed s))" and m' = "as_failed s'" and k = k, OF f, of 900 t]
        redis_counter.bump_stands [OF t] redis_counter.bump_window [OF t] later(1) by simp_all
    have "wrong_tries t m (u_id u) k h reqs s'"
      using Cons.prems(2) later(2) clo by (fastforce simp: wrong_tries_def r t_def)
    moreover have "account_at phone u h s'" using Cons.prems(1) u by (simp add: account_at_def)
    moreover have "level t (as_failed s') k + length reqs = m" using lev Cons.prems(4) by simp
    ultimately show ?thesis
      using Cons.IH [of s' t] u \<open>reqs = q # rest\<close> by (simp add: r s'_def)
  qed
qed simp


section \<open>What a locked account answers\<close>

text \<open>
  While an account is locked the phone login still tells a right password from a wrong one, by its
  two answers; the login by e-mail checks the lock first and gives one answer for both.
\<close>

theorem locked_account_confirms_password:
  assumes "account_at phone u h s" "''USER'' \<in> set (role_names u)" "u_lockedUntil u = Some until" "ax_now env < until"
    and "normalizeEmail email = Inr address" "find_where (\<lambda>v. u_email v = Some address) (as_users s) = Some v"
    and "hasStaffRole (role_names v)" "truthy (u_passwordHash v)" "u_isEmailVerified v"
    and "u_lockedUntil v = Some until'" "ax_now env < until'"
  shows "fst (login env sendOtp phone password s) =
      Inl (Unauthorized (if ax_compare env password h then ''account_locked'' else ''invalid_credentials'')) \<and>
    fst (adminLoginByEmail env email password s) = Inl (Unauthorized ''account_locked'')"
proof -
  have "fst (adminLoginByEmail env email password s) = Inl (Unauthorized ''account_locked'')"
    using assms(5-) by (simp add: adminLoginByEmail_def assertNotLocked_def)
  then show ?thesis
    using login_right_password_locked [OF assms(1) _ assms(2,3,4)] login_wrong_password [OF assms(1)] by simp
qed

section \<open>The second factor at login\<close>

text \<open>
  For an active, verified account the password alone gives tokens, also where a second factor is
  enabled: no challenge is written, although the challenge such an account should get could be issued.
\<close>

theorem login_ignores_second_factor:
  assumes "account_at phone u h s" "ax_compare env password h" "''USER'' \<in> set (role_names u)"
    and "assertNotLocked env u = None" "u_isActive u" "u_isPhoneVerified u"
    and "parseDurationToMs (normalizeDurationString (ax_refreshExpiresIn env)) = Inr ms"
    and "requireEnabledSecret (u_id u) s = Inr r"
  shows "(\<exists>tokens. fst (login env sendOtp phone password s) = Inr (Tokens tokens)) \<and>
    as_challenges (snd (login env sendOtp phone password s)) = as_challenges s \<and>
    fst (issueTwoFactorChallenge env (u_id u) s) \<noteq> None"
proof -
  have c: "as_challenges (resetLoginAttempts env u s) = as_challenges s"
    by (simp add: resetLoginAttempts_def resetFailedLoginAttempts_def update_user_def Let_def)
  show ?thesis
    using assms c by (auto simp: account_at_def login_def issueTokens_def issueTwoFactorChallenge_def as_emit_def Let_def)
qed

section \<open>A step can be claimed again after a step-up\<close>

text \<open>
  The step-up and the regeneration of recovery codes write the time step without looking at the one that
  is there: with a row read before another request claimed a later step, they put the step back, and codes
  already used are accepted again.
\<close>

lemma stale_step_up_reopens:
  assumes "checkTotpOrNull env r code = Inr (Some old)" "old < step"
    and "q \<in> set (as_secrets s)" "ts_userId q = u_id u" "ts_lastUsedStep q = Some step"
  shows "\<exists>q' \<in> set (as_secrets (snd (twoFactorStepUp_from env u r code action s))). stepAdvances (u_id u) step q'"
proof -
  have "as_secrets (snd (twoFactorStepUp_from env u r code action s)) =
      update_where (\<lambda>r. ts_userId r = u_id u) (\<lambda>r. r\<lparr>ts_lastUsedStep := Some old\<rparr>) (as_secrets s)"
    using assms(1) by (simp add: twoFactorStepUp_from_def update_secret_def)
  then have "q\<lparr>ts_lastUsedStep := Some old\<rparr> \<in> set (as_secrets (snd (twoFactorStepUp_from env u r code action s)))"
    using assms(3,4) by (auto simp: in_update_where intro!: bexI [of _ q])
  then show ?thesis
    by (rule bexI [rotated]) (use assms(2,4) in \<open>simp add: stepAdvances_def unused_step_def\<close>)
qed

section \<open>Instances\<close>

text \<open>Two accounts, one of staff, and stand-ins for the libraries.\<close>

definition demo_user :: "jstring \<Rightarrow> auth_user" where
  "demo_user role = \<lparr>u_id = ''u'' @ role, u_name = Some ''A'', u_phone = (if role = ''USER'' then Some ''+251911223344'' else None),
     u_email = (if role = ''USER'' then None else Some ''a@b.et''), u_isActive = True, u_isPhoneVerified = True,
     u_isEmailVerified = True, u_passwordHash = Some ''pw'', u_discreetModeEnabled = False, u_discreetModePasscodeHash = None,
     u_failedLoginAttempts = 0, u_lockedUntil = None, u_twoFactorRequiredAt = None,
     u_roles = [\<lparr>rl_name = role, rl_permissions = []\<rparr>]\<rparr>"

definition demo_claims :: token_payload where
  "demo_claims = \<lparr>tk_sub = ''uUSER'', tk_phone = None, tk_email = None, tk_roles = [''USER''], tk_permissions = [],
     tk_type = Some ''refresh'', tk_sid = Some ''s1'', tk_jti = None\<rparr>"

definition demo_auth_env :: "int \<Rightarrow> auth_env" where
  "demo_auth_env now = \<lparr>ax_now = now, ax_up = True, ax_maxLoginAttempts = 2, ax_lockoutMinutes = 15, ax_maxReauthAttempts = 5,
     ax_otpMaxAttempts = 5, ax_jwtSecret = ''k'', ax_refreshSecret = None, ax_registrationSecret = None, ax_jwtExpiresIn = ''15m'',
     ax_refreshExpiresIn = ''7d'', ax_twoFactorKey = ''key'', ax_smsEnabled = False, ax_compare = (=),
     ax_sign = (\<lambda>key expires now p. ''signed''), ax_verify = (\<lambda>key now t. if t = ''token'' then Some demo_claims else None),
     ax_hmac = (\<lambda>key t. t), ax_sha256 = (\<lambda>t. t), ax_hmacSha1 = demo_hmac, ax_encrypt = (\<lambda>t key. t), ax_decrypt = (\<lambda>t key. Inr t),
     ax_newId = ''id'', ax_sessionId = ''s2'', ax_jti = ''j'', ax_random = (\<lambda>n. [1, 2, 3]), ax_newCode = ''123456'',
     ax_newCodeHash = ''h'', ax_smsDelivered = True\<rparr>"

definition demo_challenge :: challenge_row where
  "demo_challenge = \<lparr>ch_id = ''c'', ch_userId = ''uUSER'', ch_purpose = CH_LOGIN, ch_methods = [TOTP], ch_smsCodeHash = None,
     ch_attempts = 0, ch_expiresAt = 300000, ch_consumedAt = None\<rparr>"

definition demo_auth_state :: auth_state where
  "demo_auth_state = \<lparr>as_users = [demo_user ''USER'', demo_user ''ADMIN''],
     as_sessions = [\<lparr>ss_id = ''s1'', ss_userId = ''uUSER'', ss_refreshToken = ''token'', ss_expiresAt = 1000000, ss_revokedAt = None,
       ss_lastActiveAt = None\<rparr>], as_otps = [],
     as_secrets = [\<lparr>ts_userId = ''uUSER'', ts_secretEncrypted = ''AEBAG'', ts_isEnabled = True, ts_confirmedAt = Some 0, ts_lastUsedStep = None\<rparr>],
     as_recovery = [], as_challenges = [demo_challenge, demo_challenge\<lparr>ch_id := ''d''\<rparr>], as_adminRequired = None, as_failed = Map.empty, as_retry = {},
     as_reauthFailed = Map.empty, as_reauthLocked = Map.empty, as_otpCooldown = Map.empty, as_authCache = Map.empty, as_log = []\<rparr>"

definition no_otp :: "jstring \<Rightarrow> jstring \<Rightarrow> auth_state \<Rightarrow> jstring result \<times> auth_state" where
  "no_otp uid phone s = (Inl (BadRequest ''unused''), s)"

lemmas demo_auth = demo_user_def demo_claims_def demo_auth_env_def demo_challenge_def demo_auth_state_def

text \<open>The second of two challenges gets no tokens for the code the first one used.\<close>

definition demo_claimed :: auth_state where
  "demo_claimed = snd (claim_step (demo_auth_env 1200000) demo_challenge (demo_user ''USER'') 40 demo_auth_state)"

theorem step_claimed_once_witness:
  "as_sessions demo_claimed \<noteq> as_sessions demo_auth_state \<and>
    fst (claim_step (demo_auth_env 1200000) (demo_challenge\<lparr>ch_id := ''d''\<rparr>) (demo_user ''USER'') 40 demo_claimed) =
      Inl (Unauthorized ''invalid_two_factor_code'')"
proof
  show "as_sessions demo_claimed \<noteq> as_sessions demo_auth_state" by code_simp
  show "fst (claim_step (demo_auth_env 1200000) (demo_challenge\<lparr>ch_id := ''d''\<rparr>) (demo_user ''USER'') 40 demo_claimed) =
      Inl (Unauthorized ''invalid_two_factor_code'')"
    using step_claimed_once [of "demo_auth_env 1200000" demo_challenge "demo_user ''USER''" 40 demo_auth_state demo_claimed
      "demo_user ''USER''" 40] by (simp add: demo_claimed_def)
qed

definition demo_refreshed :: auth_state where
  "demo_refreshed = snd (refresh (demo_auth_env 0) ''token'' demo_auth_state)"

lemma demo_refresh_ok: "\<exists>tp. refresh (demo_auth_env 0) ''token'' demo_auth_state = (Inr tp, demo_refreshed)"
proof -
  have "Option.bind (case fst (refresh (demo_auth_env 0) ''token'' demo_auth_state) of Inl _ \<Rightarrow> None | Inr tp \<Rightarrow> Some tp) (\<lambda>_. Some ()) = Some ()"
    by code_simp
  then show ?thesis
    by (cases "fst (refresh (demo_auth_env 0) ''token'' demo_auth_state)") (auto simp: demo_refreshed_def prod_eq_iff)
qed


lemma demo_phone: "normalizePhoneNumber ''+251911223344'' = Inr ''+251911223344''"
  by code_simp

lemma demo_account: "account_at ''+251911223344'' (demo_user ''USER'') ''pw'' demo_auth_state"
  by (simp add: account_at_def demo_phone demo_auth_state_def demo_user_def)


definition demo_locked :: auth_state where
  "demo_locked = demo_auth_state\<lparr>as_users := map (locked_row 900000) (as_users demo_auth_state)\<rparr>"

theorem locked_account_witness:
  "fst (login (demo_auth_env 0) no_otp ''+251911223344'' ''pw'' demo_locked) \<noteq>
      fst (login (demo_auth_env 0) no_otp ''+251911223344'' ''x'' demo_locked) \<and>
    fst (adminLoginByEmail (demo_auth_env 0) ''a@b.et'' ''x'' demo_locked) = Inl (Unauthorized ''account_locked'')"
proof -
  have "account_at ''+251911223344'' (locked_row 900000 (demo_user ''USER'')) ''pw'' demo_locked"
    by (simp add: account_at_def demo_phone demo_locked_def demo_auth_state_def locked_row_def demo_user_def)
  moreover have "normalizeEmail ''a@b.et'' = Inr ''a@b.et''" by code_simp
  ultimately show ?thesis
    using locked_account_confirms_password [of "''+251911223344''" "locked_row 900000 (demo_user ''USER'')" "''pw''" demo_locked
        900000 "demo_auth_env 0" "''a@b.et''" "''a@b.et''" "locked_row 900000 (demo_user ''ADMIN'')" 900000 no_otp]
    by (simp add: demo_locked_def demo_auth locked_row_def role_names_def hasStaffRole_def truthy_def)
qed

theorem login_ignores_second_factor_witness:
  "\<exists>tokens. fst (login (demo_auth_env 0) no_otp ''+251911223344'' ''pw'' demo_auth_state) = Inr (Tokens tokens)"
proof -
  have "parseDurationToMs (normalizeDurationString ''7d'') = Inr 604800000" by code_simp
  with login_ignores_second_factor [OF demo_account, of "demo_auth_env 0" "''pw''"] show ?thesis
    by (simp add: demo_auth role_names_def assertNotLocked_def requireEnabledSecret_def find_secret_def)
qed

end
