(* ===== verification/Roles.thy ===== *)
theory Roles
  imports Access
begin

text \<open>
  Roles: \<open>src/modules/auth/service/role.service.ts\<close> over the tables \<open>role\<close>, \<open>permission\<close>,
  \<open>role_permission\<close>, \<open>user_role\<close>, \<open>role_assignment_request\<close> and \<open>role_temporary_assignment\<close>. Here
  are the rows, creation, renaming, removal, cloning, templates and archiving; who gets a role is
  \<open>Role_Assignment\<close>, what a role may do is \<open>Role_Permissions\<close>.
\<close>

section \<open>Rows\<close>

record role_def =
  rd_id :: jstring
  rd_name :: jstring
  rd_description :: "jstring option"
  rd_isProtected :: bool
  rd_archivedAt :: "int option"
  rd_archivedById :: "jstring option"

record permission_row =
  pm_id :: jstring
  pm_name :: jstring

record staff_user =
  sf_id :: jstring
  sf_name :: "jstring option"
  sf_isActive :: bool
  sf_isEmailVerified :: bool

record user_role =
  ur_userId :: jstring
  ur_roleId :: jstring
  ur_assignedBy :: "jstring option"

datatype request_status = RQ_PENDING | RQ_APPROVED | RQ_REJECTED | RQ_CANCELLED | RQ_EXPIRED

record assignment_request =
  aq_id :: jstring
  aq_roleId :: jstring
  aq_targetUserId :: jstring
  aq_requestedById :: jstring
  aq_reason :: jstring
  aq_status :: request_status
  aq_reviewedById :: "jstring option"
  aq_reviewNote :: "jstring option"
  aq_reviewedAt :: "int option"
  aq_expiresAt :: int

datatype temporary_status = TA_ACTIVE | TA_EXPIRED | TA_REVOKED

record temporary_assignment =
  tr_id :: jstring
  tr_userId :: jstring
  tr_roleId :: jstring
  tr_grantedById :: "jstring option"
  tr_reason :: jstring
  tr_expiresAt :: int
  tr_status :: temporary_status
  tr_endedAt :: "int option"

text \<open>Of a session only its user matters here; \<open>ro_sessions\<close> has one entry per session.\<close>

record role_state =
  ro_roles :: "role_def list"
  ro_permissions :: "permission_row list"
  ro_grants :: "(jstring \<times> jstring) list" \<comment> \<open>\<open>role_permission\<close>: role id and permission id\<close>
  ro_users :: "staff_user list"
  ro_userRoles :: "user_role list"
  ro_requests :: "assignment_request list"
  ro_temporary :: "temporary_assignment list"
  ro_sessions :: "jstring list"
  ro_log :: "effect list"

record role_env =
  re_now :: int
  re_newId :: jstring

definition ro_emit :: "effect \<Rightarrow> role_state \<Rightarrow> role_state" where
  "ro_emit e s = s\<lparr>ro_log := ro_log s @ [e]\<rparr>"

definition find_role :: "jstring \<Rightarrow> role_state \<Rightarrow> role_def option" where
  "find_role rid s = find_where (\<lambda>r. rd_id r = rid) (ro_roles s)"

definition find_role_named :: "jstring \<Rightarrow> role_state \<Rightarrow> role_def option" where
  "find_role_named name s = find_where (\<lambda>r. rd_name r = name) (ro_roles s)"

definition isProtected :: "role_def \<Rightarrow> bool" where
  "isProtected r \<longleftrightarrow> isProtectedRole (rd_name r) (rd_isProtected r)"

definition permission_name :: "jstring \<Rightarrow> role_state \<Rightarrow> jstring list" where
  "permission_name pid s = map pm_name (filter (\<lambda>p. pm_id p = pid) (ro_permissions s))"

text \<open>The names of the permissions of a role, as \<open>rolePermissions.permission.name\<close> lists them.\<close>

definition role_permissions :: "jstring \<Rightarrow> role_state \<Rightarrow> jstring list" where
  "role_permissions rid s = concat (map (\<lambda>g. permission_name (snd g) s) (filter (\<lambda>g. fst g = rid) (ro_grants s)))"

definition isSensitiveRole :: "jstring \<Rightarrow> role_state \<Rightarrow> bool" where
  "isSensitiveRole rid s \<longleftrightarrow> (\<exists>n \<in> set (role_permissions rid s). requiresTwoPersonApproval n)"

definition loadRoleOrThrow :: "jstring \<Rightarrow> role_state \<Rightarrow> role_def result" where
  "loadRoleOrThrow rid s = (case find_role rid s of None \<Rightarrow> Inl (NotFound ''role_not_found'') | Some r \<Rightarrow> Inr r)"

definition role_event :: "current_user \<Rightarrow> jstring \<Rightarrow> jstring option \<Rightarrow> audit_outcome \<Rightarrow> audit_severity \<Rightarrow> jstring option
    \<Rightarrow> jstring option \<Rightarrow> (jstring \<times> jval) list \<Rightarrow> (jstring \<times> jval) list \<Rightarrow> effect" where
  "role_event actor action target outcome severity eid label diff meta =
     Audit ((audit_base (resolveActorType (cu_roles actor)) action ''Role'' [])
       \<lparr>ae_userId := Some (cu_id actor), ae_targetUserId := target, ae_outcome := outcome, ae_severity := severity,
        ae_entityId := eid, ae_entityLabel := label, ae_diff := diff, ae_metadata := meta\<rparr>)"

definition role_refused :: "current_user \<Rightarrow> jstring \<Rightarrow> jstring option \<Rightarrow> audit_outcome \<Rightarrow> role_def \<Rightarrow> jstring \<Rightarrow> effect" where
  "role_refused actor action target outcome r reason =
     role_event actor action target outcome WARNING (Some (rd_id r)) (Some (rd_name r))
       [(''result'', JStr (if outcome = DENIED then ''denied'' else ''failure'')), (''reason'', JStr reason)] []"

section \<open>Creating and renaming\<close>

text \<open>
  The insert runs after the name was looked up, and may meet a role of that name that another request
  added in between.
\<close>

definition create_write :: "role_env \<Rightarrow> current_user \<Rightarrow> jstring \<Rightarrow> jstring option \<Rightarrow> role_state \<Rightarrow> role_def result \<times> role_state" where
  "create_write env actor name description s = (case find_role_named name s of
       Some c \<Rightarrow> (Inl (Conflict ''role_name_already_in_use''),
         ro_emit (role_event actor ''ROLE_CREATED'' None FAILURE WARNING (Some (rd_id c)) (Some (rd_name c))
           [(''result'', JStr ''failure''), (''reason'', JStr ''role_name_already_in_use''), (''attemptedName'', JStr name)]
           [(''concurrentConflict'', JBool True)]) s)
     | None \<Rightarrow>
         let r = \<lparr>rd_id = re_newId env, rd_name = name, rd_description = description, rd_isProtected = False,
                  rd_archivedAt = None, rd_archivedById = None\<rparr>
         in (Inr r, ro_emit (role_event actor ''ROLE_CREATED'' None SUCCESS INFO (Some (rd_id r)) (Some name)
               [(''result'', JStr ''success''), (''name'', JStr name)] []) (s\<lparr>ro_roles := ro_roles s @ [r]\<rparr>)))"

definition create_role :: "role_env \<Rightarrow> current_user \<Rightarrow> jstring \<Rightarrow> jstring option \<Rightarrow> role_state \<Rightarrow> role_def result \<times> role_state" where
  "create_role env actor name description s = (case find_role_named name s of
       Some c \<Rightarrow> (Inl (Conflict ''role_name_already_in_use''),
         ro_emit (role_event actor ''ROLE_CREATED'' None FAILURE WARNING (Some (rd_id c)) (Some (rd_name c))
           [(''result'', JStr ''failure''), (''reason'', JStr ''role_name_already_in_use''), (''attemptedName'', JStr name)]
           [(''conflictingRoleId'', JStr (rd_id c))]) s)
     | None \<Rightarrow> create_write env actor name description s)"

text \<open>The write of \<open>update\<close>; \<open>role\<close> is the row as it was read. An omitted field is \<open>None\<close>.\<close>

definition update_write :: "current_user \<Rightarrow> role_def \<Rightarrow> jstring option \<Rightarrow> jstring option option \<Rightarrow> role_state \<Rightarrow> role_def result \<times> role_state" where
  "update_write actor role name description s =
     (if find_role (rd_id role) s = None then (Inl (PlainError ''Record to update not found''), s)
      else if (\<exists>r \<in> set (ro_roles s). rd_id r \<noteq> rd_id role \<and> Some (rd_name r) = name)
      then (Inl (Conflict ''role_name_already_in_use''),
        ro_emit (role_event actor ''ROLE_UPDATED'' None FAILURE WARNING (Some (rd_id role)) (Some (rd_name role))
          [(''result'', JStr ''failure''), (''reason'', JStr ''role_name_already_in_use''), (''attemptedName'', jstr_opt name),
           (''currentName'', JStr (rd_name role))] [(''concurrentConflict'', JBool True)]) s)
      else let upd = (\<lambda>r. r\<lparr>rd_name := (case name of None \<Rightarrow> rd_name r | Some n \<Rightarrow> n),
                           rd_description := (case description of None \<Rightarrow> rd_description r | Some d \<Rightarrow> d)\<rparr>);
               s1 = s\<lparr>ro_roles := update_where (\<lambda>r. rd_id r = rd_id role) upd (ro_roles s)\<rparr>;
               new = upd (the (find_role (rd_id role) s))
           in (Inr new, ro_emit (role_event actor ''ROLE_UPDATED'' None SUCCESS INFO (Some (rd_id role)) (Some (rd_name new))
                [(''result'', JStr ''success''), (''previousName'', JStr (rd_name role)), (''currentName'', JStr (rd_name new)),
                 (''previousDescription'', jstr_opt (rd_description role)), (''currentDescription'', jstr_opt (rd_description new))]
                [(''changed'', JBool (rd_name role \<noteq> rd_name new \<or> rd_description role \<noteq> rd_description new)),
                 (''nameChanged'', JBool (rd_name role \<noteq> rd_name new)),
                 (''descriptionChanged'', JBool (rd_description role \<noteq> rd_description new))]) s1))"

definition update_role :: "current_user \<Rightarrow> jstring \<Rightarrow> jstring option \<Rightarrow> jstring option option \<Rightarrow> role_state \<Rightarrow> role_def result \<times> role_state" where
  "update_role actor rid name description s = (case find_role rid s of
       None \<Rightarrow> (Inl (NotFound ''role_not_found''), s)
     | Some role \<Rightarrow>
        if isProtected role \<and> name \<noteq> None \<and> name \<noteq> Some (rd_name role)
        then (Inl (BadRequest ''protected_role_cannot_be_renamed''),
          ro_emit (role_event actor ''ROLE_UPDATED'' None DENIED WARNING (Some rid) (Some (rd_name role))
            [(''result'', JStr ''denied''), (''reason'', JStr ''protected_role_cannot_be_renamed''),
             (''attemptedName'', jstr_opt name), (''currentName'', JStr (rd_name role))] []) s)
        else (case (if truthy name \<and> name \<noteq> Some (rd_name role) then find_role_named (the name) s else None) of
            Some taken \<Rightarrow> (Inl (Conflict ''role_name_already_in_use''),
              ro_emit (role_event actor ''ROLE_UPDATED'' None FAILURE WARNING (Some rid) (Some (rd_name role))
                [(''result'', JStr ''failure''), (''reason'', JStr ''role_name_already_in_use''),
                 (''attemptedName'', jstr_opt name), (''currentName'', JStr (rd_name role))]
                [(''conflictingRoleId'', JStr (rd_id taken))]) s)
          | None \<Rightarrow> update_write actor role name description s))"

section \<open>Removing\<close>

definition holders :: "jstring \<Rightarrow> role_state \<Rightarrow> nat" where
  "holders rid s = count_where (\<lambda>ur. ur_roleId ur = rid) (ro_userRoles s)"

text \<open>Deleting a role row deletes what refers to it.\<close>

definition delete_role :: "jstring \<Rightarrow> role_state \<Rightarrow> role_state" where
  "delete_role rid s = s\<lparr>ro_roles := filter (\<lambda>r. rd_id r \<noteq> rid) (ro_roles s),
     ro_grants := filter (\<lambda>g. fst g \<noteq> rid) (ro_grants s),
     ro_userRoles := filter (\<lambda>ur. ur_roleId ur \<noteq> rid) (ro_userRoles s),
     ro_requests := filter (\<lambda>q. aq_roleId q \<noteq> rid) (ro_requests s),
     ro_temporary := filter (\<lambda>t. tr_roleId t \<noteq> rid) (ro_temporary s)\<rparr>"

text \<open>The transaction counts the holders again.\<close>

definition remove_tx :: "current_user \<Rightarrow> role_def \<Rightarrow> role_state \<Rightarrow> jstring result \<times> role_state" where
  "remove_tx actor role s =
     (if 0 < holders (rd_id role) s
      then (Inl (BadRequest ''role_in_use_by_users''),
        ro_emit (role_event actor ''ROLE_DELETED'' None FAILURE WARNING (Some (rd_id role)) (Some (rd_name role))
          [(''result'', JStr ''failure''), (''reason'', JStr ''role_in_use_by_users'')]
          [(''detectedAtTransactionTime'', JBool True)]) s)
      else if find_role (rd_id role) s = None then (Inl (PlainError ''Record to delete does not exist''), s)
      else (Inr ''role_deleted'',
        ro_emit (role_event actor ''ROLE_DELETED'' None SUCCESS INFO (Some (rd_id role)) (Some (rd_name role))
          [(''result'', JStr ''success''), (''previousName'', JStr (rd_name role))] []) (delete_role (rd_id role) s)))"

definition remove_role :: "current_user \<Rightarrow> jstring \<Rightarrow> role_state \<Rightarrow> jstring result \<times> role_state" where
  "remove_role actor rid s = (case find_role rid s of
       None \<Rightarrow> (Inl (NotFound ''role_not_found''), s)
     | Some role \<Rightarrow>
        if isProtected role
        then (Inl (BadRequest ''protected_role_cannot_be_deleted''),
          ro_emit (role_refused actor ''ROLE_DELETED'' None DENIED role ''protected_role_cannot_be_deleted'') s)
        else if 0 < holders rid s
        then (Inl (BadRequest ''role_in_use_by_users''),
          ro_emit (role_event actor ''ROLE_DELETED'' None FAILURE WARNING (Some rid) (Some (rd_name role))
            [(''result'', JStr ''failure''), (''reason'', JStr ''role_in_use_by_users'')]
            [(''userCount'', JInt (int (holders rid s)))]) s)
        else remove_tx actor role s)"

section \<open>Cloning and templates\<close>

definition createRoleWithPermissions :: "role_env \<Rightarrow> current_user \<Rightarrow> jstring \<Rightarrow> jstring \<Rightarrow> jstring option \<Rightarrow> jstring list
    \<Rightarrow> (jstring \<times> jval) list \<Rightarrow> role_state \<Rightarrow> role_def result \<times> role_state" where
  "createRoleWithPermissions env actor action name description permissionIds audit s = (case find_role_named name s of
       Some _ \<Rightarrow> (Inl (Conflict ''role_name_already_in_use''),
         ro_emit (role_event actor action None FAILURE WARNING None (Some name)
           [(''result'', JStr ''failure''), (''reason'', JStr ''role_name_already_in_use''), (''attemptedName'', JStr name)] []) s)
     | None \<Rightarrow>
         let r = \<lparr>rd_id = re_newId env, rd_name = name, rd_description = description, rd_isProtected = False,
                  rd_archivedAt = None, rd_archivedById = None\<rparr>
         in (Inr r, ro_emit (role_event actor action None SUCCESS INFO (Some (rd_id r)) (Some name)
               [(''result'', JStr ''success''), (''name'', JStr name), (''permissionCount'', JInt (int (length permissionIds)))] audit)
              (s\<lparr>ro_roles := ro_roles s @ [r], ro_grants := ro_grants s @ map (\<lambda>p. (rd_id r, p)) (remdups permissionIds)\<rparr>)))"

definition clone_role :: "role_env \<Rightarrow> current_user \<Rightarrow> jstring \<Rightarrow> jstring \<Rightarrow> jstring option \<Rightarrow> role_state \<Rightarrow> role_def result \<times> role_state" where
  "clone_role env actor rid name description s = (case loadRoleOrThrow rid s of
       Inl e \<Rightarrow> (Inl e, s)
     | Inr source \<Rightarrow>
        if isPermissionLockedRole (rd_name source)
        then (Inl (Forbidden ''protected_role_cannot_be_cloned''),
          ro_emit (role_refused actor ''ROLE_CLONED'' None DENIED source ''protected_role_cannot_be_cloned'') s)
        else createRoleWithPermissions env actor ''ROLE_CLONED'' name
          (case description of None \<Rightarrow> rd_description source | Some d \<Rightarrow> Some d)
          (map snd (filter (\<lambda>g. fst g = rid) (ro_grants s)))
          [(''sourceRoleId'', JStr rid), (''sourceRoleName'', JStr (rd_name source))] s)"

record role_template =
  rt_id :: jstring
  rt_name :: jstring
  rt_description :: jstring
  rt_permissions :: "jstring list"

definition ROLE_TEMPLATES :: "role_template list" where
  "ROLE_TEMPLATES = [
    \<lparr>rt_id = ''reviewer'', rt_name = ''REVIEWER'',
      rt_description = ''Reads and reviews reports, posts, missing-person cases, tips and victim profiles.'',
      rt_permissions = [''DASHBOARD_READ'', ''REPORT_READ'', ''REPORT_REVIEW'', ''REPORT_REQUEST_INFO'', ''POST_READ'',
        ''POST_REVIEW'', ''MISSING_PERSON_READ'', ''MISSING_PERSON_REVIEW'', ''MISSING_PERSON_INFO_READ'',
        ''MISSING_PERSON_INFO_REVIEW'', ''PROFILE_READ'', ''PROFILE_REVIEW'']\<rparr>,
    \<lparr>rt_id = ''finance-officer'', rt_name = ''FINANCE_OFFICER'',
      rt_description = ''Reads support and payments and prepares disbursements. Cannot approve or pay them out.'',
      rt_permissions = [''DASHBOARD_READ'', ''SUPPORT_READ'', ''SUPPORT_PAYMENT_READ'', ''DISBURSEMENTS_CREATE'']\<rparr>,
    \<lparr>rt_id = ''support-agent'', rt_name = ''SUPPORT_AGENT'',
      rt_description = ''Read-only view of cases, posts, profiles, support and users, to help people who write in.'',
      rt_permissions = [''DASHBOARD_READ'', ''REPORT_READ'', ''POST_READ'', ''MISSING_PERSON_READ'', ''PROFILE_READ'',
        ''SUPPORT_READ'', ''USER_READ'', ''NOTIFICATION_READ'']\<rparr>]"

definition applyTemplate :: "role_env \<Rightarrow> current_user \<Rightarrow> jstring \<Rightarrow> jstring option \<Rightarrow> jstring option \<Rightarrow> role_state \<Rightarrow> role_def result \<times> role_state" where
  "applyTemplate env actor tid name description s = (case find_where (\<lambda>t. rt_id t = tid) ROLE_TEMPLATES of
       None \<Rightarrow> (Inl (NotFound ''role_template_not_found''), s)
     | Some t \<Rightarrow>
        let matched = filter (\<lambda>p. pm_name p \<in> set (rt_permissions t)) (ro_permissions s)
        in if matched = [] then (Inl (BadRequest ''template_has_no_matching_permissions''), s)
           else createRoleWithPermissions env actor ''ROLE_CREATED_FROM_TEMPLATE''
             (case name of None \<Rightarrow> rt_name t | Some n \<Rightarrow> n)
             (Some (case description of None \<Rightarrow> rt_description t | Some d \<Rightarrow> d)) (map pm_id matched)
             [(''templateId'', JStr (rt_id t)), (''matchedPermissions'', JInt (int (length matched)))] s)"

section \<open>Archiving\<close>

definition archive :: "role_env \<Rightarrow> current_user \<Rightarrow> jstring \<Rightarrow> jstring option \<Rightarrow> role_state \<Rightarrow> nat result \<times> role_state" where
  "archive env actor rid reason s = (case loadRoleOrThrow rid s of
       Inl e \<Rightarrow> (Inl e, s)
     | Inr role \<Rightarrow>
        if isProtected role
        then (Inl (BadRequest ''protected_role_cannot_be_archived''),
          ro_emit (role_refused actor ''ROLE_ARCHIVED'' None DENIED role ''protected_role_cannot_be_archived'') s)
        else if rd_archivedAt role \<noteq> None then (Inl (Conflict ''role_already_archived''), s)
        else let open_here = (\<lambda>q. aq_roleId q = rid \<and> aq_status q = RQ_PENDING)
             in (Inr (holders rid s),
               ro_emit (role_event actor ''ROLE_ARCHIVED'' None SUCCESS INFO (Some rid) (Some (rd_name role))
                 [(''result'', JStr ''success''), (''reason'', jstr_opt reason)]
                 [(''currentHolders'', JInt (int (holders rid s))),
                  (''requestsCancelled'', JInt (int (count_where open_here (ro_requests s))))])
               (s\<lparr>ro_roles := update_where (\<lambda>r. rd_id r = rid)
                    (\<lambda>r. r\<lparr>rd_archivedAt := Some (re_now env), rd_archivedById := Some (cu_id actor)\<rparr>) (ro_roles s),
                  ro_requests := update_where open_here (\<lambda>q. q\<lparr>aq_status := RQ_CANCELLED\<rparr>) (ro_requests s)\<rparr>)))"

definition unarchive :: "current_user \<Rightarrow> jstring \<Rightarrow> jstring option \<Rightarrow> role_state \<Rightarrow> unit result \<times> role_state" where
  "unarchive actor rid reason s = (case loadRoleOrThrow rid s of
       Inl e \<Rightarrow> (Inl e, s)
     | Inr role \<Rightarrow>
        if rd_archivedAt role = None then (Inl (Conflict ''role_not_archived''), s)
        else (Inr (), ro_emit (role_event actor ''ROLE_UNARCHIVED'' None SUCCESS INFO (Some rid) (Some (rd_name role))
               [(''result'', JStr ''success''), (''reason'', jstr_opt reason)] [])
             (s\<lparr>ro_roles := update_where (\<lambda>r. rd_id r = rid) (\<lambda>r. r\<lparr>rd_archivedAt := None, rd_archivedById := None\<rparr>) (ro_roles s)\<rparr>)))"

section \<open>Reading\<close>

definition compare_roles :: "jstring \<Rightarrow> jstring \<Rightarrow> role_state \<Rightarrow> (jstring set \<times> jstring set \<times> jstring set) result" where
  "compare_roles a b s = (case (loadRoleOrThrow a s, loadRoleOrThrow b s) of
       (Inr _, Inr _) \<Rightarrow> let A = set (role_permissions a s); B = set (role_permissions b s) in Inr (A - B, B - A, A \<inter> B)
     | (Inl e, _) \<Rightarrow> Inl e
     | (_, Inl e) \<Rightarrow> Inl e)"

text \<open>Holders of a role that would be left without any.\<close>

definition losesAllRoles :: "jstring \<Rightarrow> role_state \<Rightarrow> bool" where
  "losesAllRoles uid s \<longleftrightarrow> count_where (\<lambda>ur. ur_userId ur = uid) (ro_userRoles s) = 1"

definition deleteImpact :: "jstring \<Rightarrow> role_state \<Rightarrow> ((jstring \<times> bool) list \<times> nat \<times> nat \<times> bool) result" where
  "deleteImpact rid s = (case loadRoleOrThrow rid s of
       Inl e \<Rightarrow> Inl e
     | Inr role \<Rightarrow>
        let users = map (\<lambda>ur. (ur_userId ur, losesAllRoles (ur_userId ur) s)) (filter (\<lambda>ur. ur_roleId ur = rid) (ro_userRoles s))
        in Inr (users, count_where (\<lambda>q. aq_roleId q = rid \<and> aq_status q = RQ_PENDING) (ro_requests s),
             count_where (\<lambda>t. tr_roleId t = rid \<and> tr_status t = TA_ACTIVE) (ro_temporary s),
             \<not> isProtected role \<and> users = []))"

end
