(* ===== verification/Role_Assignment.thy ===== *)
theory Role_Assignment
  imports Roles
begin

text \<open>
  Who gets a role: direct, bulk, requested and temporary assignment and removal, of
  \<open>src/modules/auth/service/role.service.ts\<close>. Roles with permissions that need two people go through a
  request that a second person reviews.
\<close>

definition ASSIGNMENT_REQUEST_TTL_MS :: int where
  "ASSIGNMENT_REQUEST_TTL_MS = 7 * 24 * 60 * 60 * 1000"

definition MAX_TEMPORARY_ASSIGNMENT_MS :: int where
  "MAX_TEMPORARY_ASSIGNMENT_MS = 365 * 24 * 60 * 60 * 1000"

section \<open>Shared checks\<close>

definition unassignable :: "role_def \<Rightarrow> jstring option" where
  "unassignable r = (if isProtected r then Some ''protected_role_cannot_be_assigned_here''
     else if rd_archivedAt r \<noteq> None then Some ''role_archived'' else None)"

definition assertRoleAssignable :: "current_user \<Rightarrow> role_def \<Rightarrow> jstring \<Rightarrow> (error \<times> effect) option" where
  "assertRoleAssignable actor r action = (case unassignable r of
       None \<Rightarrow> None
     | Some reason \<Rightarrow> Some (BadRequest reason, role_refused actor action None DENIED r reason))"

definition roles_of :: "jstring \<Rightarrow> role_state \<Rightarrow> jstring list" where
  "roles_of uid s = map ur_roleId (filter (\<lambda>ur. ur_userId ur = uid) (ro_userRoles s))"

definition names_of :: "jstring \<Rightarrow> role_state \<Rightarrow> jstring list" where
  "names_of uid s = concat (map (\<lambda>rid. map rd_name (filter (\<lambda>r. rd_id r = rid) (ro_roles s))) (roles_of uid s))"

definition loadStaffTargetOrThrow :: "jstring \<Rightarrow> role_state \<Rightarrow> staff_user result" where
  "loadStaffTargetOrThrow uid s = (case find_where (\<lambda>u. sf_id u = uid) (ro_users s) of
       None \<Rightarrow> Inl (NotFound ''user_not_found'')
     | Some u \<Rightarrow> if \<not> sf_isActive u \<or> \<not> sf_isEmailVerified u \<or> \<not> hasStaffRole (names_of uid s)
                  then Inl (BadRequest ''user_not_verified_staff'') else Inr u)"

definition refreshUserAccess :: "jstring \<Rightarrow> bool \<Rightarrow> role_state \<Rightarrow> role_state" where
  "refreshUserAccess uid revokeSessions s = ro_emit (Invalidate ''user'' uid)
     (if revokeSessions then s\<lparr>ro_sessions := filter (\<lambda>u. u \<noteq> uid) (ro_sessions s)\<rparr> else s)"

definition requireReason :: "jstring option \<Rightarrow> jstring result" where
  "requireReason reason = (let t = js_trim (case reason of None \<Rightarrow> [] | Some r \<Rightarrow> r)
     in if length t < 5 then Inl (BadRequest ''reason_required'') else Inr t)"

text \<open>The insert into \<open>user_role\<close>, unique in its user and role.\<close>

definition give_role :: "jstring \<Rightarrow> jstring \<Rightarrow> jstring \<Rightarrow> role_state \<Rightarrow> role_state result" where
  "give_role uid rid by s = (if rid \<in> set (roles_of uid s) then Inl UniqueViolation
     else Inr (s\<lparr>ro_userRoles := ro_userRoles s @ [\<lparr>ur_userId = uid, ur_roleId = rid, ur_assignedBy = Some by\<rparr>]\<rparr>))"

section \<open>Direct assignment and removal\<close>

definition assignToUser :: "current_user \<Rightarrow> jstring \<Rightarrow> jstring \<Rightarrow> jstring option \<Rightarrow> role_state \<Rightarrow> unit result \<times> role_state" where
  "assignToUser actor rid uid reason0 s = (case requireReason reason0 of Inl e \<Rightarrow> (Inl e, s) | Inr reason \<Rightarrow>
     (case loadRoleOrThrow rid s of Inl e \<Rightarrow> (Inl e, s) | Inr role \<Rightarrow>
     (case assertRoleAssignable actor role ''USER_ROLE_ASSIGNED'' of Some (e, ev) \<Rightarrow> (Inl e, ro_emit ev s) | None \<Rightarrow>
      if isSensitiveRole rid s
      then (Inl (Forbidden ''two_person_approval_required''),
            ro_emit (role_refused actor ''USER_ROLE_ASSIGNED'' (Some uid) DENIED role ''two_person_approval_required'') s)
      else (case loadStaffTargetOrThrow uid s of Inl e \<Rightarrow> (Inl e, s) | Inr target \<Rightarrow>
        if rid \<in> set (roles_of uid s) then (Inl (Conflict ''user_already_has_role''), s)
        else (case give_role uid rid (cu_id actor) s of Inl e \<Rightarrow> (Inl e, s) | Inr s1 \<Rightarrow>
          (Inr (), ro_emit (role_event actor ''USER_ROLE_ASSIGNED'' (Some uid) SUCCESS INFO (Some rid) (Some (rd_name role))
             [(''result'', JStr ''success''), (''reason'', JStr reason)] [(''targetUserName'', jstr_opt (sf_name target))])
            (refreshUserAccess uid False s1)))))))"

definition removeFromUser :: "role_env \<Rightarrow> current_user \<Rightarrow> jstring \<Rightarrow> jstring \<Rightarrow> jstring option \<Rightarrow> role_state \<Rightarrow> unit result \<times> role_state" where
  "removeFromUser env actor rid uid reason0 s = (case requireReason reason0 of Inl e \<Rightarrow> (Inl e, s) | Inr reason \<Rightarrow>
     (case loadRoleOrThrow rid s of Inl e \<Rightarrow> (Inl e, s) | Inr role \<Rightarrow>
      if isProtected role
      then (Inl (BadRequest ''protected_role_cannot_be_removed_here''),
            ro_emit (role_refused actor ''USER_ROLE_REVOKED'' (Some uid) DENIED role ''protected_role_cannot_be_removed_here'') s)
      else if rid \<notin> set (roles_of uid s) then (Inl (NotFound ''user_does_not_have_role''), s)
      else if length (roles_of uid s) \<le> 1
      then (Inl (BadRequest ''cannot_remove_last_role''),
            ro_emit (role_refused actor ''USER_ROLE_REVOKED'' (Some uid) FAILURE role ''cannot_remove_last_role'') s)
      else (Inr (), ro_emit (role_event actor ''USER_ROLE_REVOKED'' (Some uid) SUCCESS INFO (Some rid) (Some (rd_name role))
             [(''result'', JStr ''success''), (''reason'', JStr reason)] [])
           (refreshUserAccess uid True (s\<lparr>
              ro_userRoles := filter (\<lambda>ur. \<not> (ur_userId ur = uid \<and> ur_roleId ur = rid)) (ro_userRoles s),
              ro_temporary := update_where (\<lambda>t. tr_userId t = uid \<and> tr_roleId t = rid \<and> tr_status t = TA_ACTIVE)
                (\<lambda>t. t\<lparr>tr_status := TA_REVOKED, tr_endedAt := Some (re_now env)\<rparr>) (ro_temporary s)\<rparr>)))))"

text \<open>One user after the other; a failure is noted and the rest goes on.\<close>

definition bulk_one :: "role_env \<Rightarrow> current_user \<Rightarrow> bool \<Rightarrow> jstring \<Rightarrow> jstring option \<Rightarrow> jstring \<Rightarrow> role_state \<Rightarrow> unit result \<times> role_state" where
  "bulk_one env actor assign rid reason uid s =
     (if assign then assignToUser actor rid uid reason s else removeFromUser env actor rid uid reason s)"

fun role_bulk_loop :: "role_env \<Rightarrow> current_user \<Rightarrow> bool \<Rightarrow> jstring \<Rightarrow> jstring option \<Rightarrow> jstring list \<Rightarrow> role_state
    \<Rightarrow> (jstring list \<times> (jstring \<times> jstring) list) \<times> role_state" where
  "role_bulk_loop env actor assign rid reason [] s = (([], []), s)"
| "role_bulk_loop env actor assign rid reason (uid # uids) s =
     (case bulk_one env actor assign rid reason uid s of (res, s1) \<Rightarrow>
      (case role_bulk_loop env actor assign rid reason uids s1 of ((ok, failed), s2) \<Rightarrow>
        (case res of Inr _ \<Rightarrow> ((uid # ok, failed), s2) | Inl e \<Rightarrow> ((ok, (uid, err_message e) # failed), s2))))"

definition bulkAssign_role :: "role_env \<Rightarrow> current_user \<Rightarrow> jstring \<Rightarrow> bool \<Rightarrow> jstring list \<Rightarrow> jstring option \<Rightarrow> role_state
    \<Rightarrow> (jstring list \<times> (jstring \<times> jstring) list) \<times> role_state" where
  "bulkAssign_role env actor rid assign uids reason s = (case role_bulk_loop env actor assign rid reason uids s of ((ok, failed), s1) \<Rightarrow>
     ((ok, failed), ro_emit (role_event actor ''ROLE_BULK_ASSIGNED'' None SUCCESS INFO (Some rid) None
        [(''result'', JStr (if failed = [] then ''success'' else ''partial'')), (''action'', JStr (if assign then ''ASSIGN'' else ''REMOVE''))]
        [(''requested'', JInt (int (length uids))), (''succeeded'', JInt (int (length ok))), (''failed'', JInt (int (length failed)))]) s1))"

section \<open>Requests that a second person reviews\<close>

definition request_event :: "current_user \<Rightarrow> jstring \<Rightarrow> jstring \<Rightarrow> audit_outcome \<Rightarrow> audit_severity \<Rightarrow> jstring \<Rightarrow> jstring
    \<Rightarrow> (jstring \<times> jval) list \<Rightarrow> (jstring \<times> jval) list \<Rightarrow> effect" where
  "request_event actor action target outcome severity qid label diff meta =
     Audit ((audit_base (resolveActorType (cu_roles actor)) action ''RoleAssignmentRequest'' qid)
       \<lparr>ae_userId := Some (cu_id actor), ae_targetUserId := Some target, ae_outcome := outcome, ae_severity := severity,
        ae_entityLabel := Some label, ae_diff := diff, ae_metadata := meta\<rparr>)"

definition stale_request :: "int \<Rightarrow> assignment_request \<Rightarrow> bool" where
  "stale_request now q \<longleftrightarrow> aq_status q = RQ_PENDING \<and> aq_expiresAt q \<le> now"

definition expireStaleRequests :: "role_env \<Rightarrow> role_state \<Rightarrow> role_state" where
  "expireStaleRequests env s =
     (let stale = filter (stale_request (re_now env)) (ro_requests s)
      in s\<lparr>ro_requests := update_where (stale_request (re_now env)) (\<lambda>q. q\<lparr>aq_status := RQ_EXPIRED\<rparr>) (ro_requests s),
           ro_log := ro_log s @ map (\<lambda>q. Audit ((audit_base SYSTEM ''ROLE_ASSIGNMENT_REQUEST_EXPIRED'' ''RoleAssignmentRequest'' (aq_id q))
             \<lparr>ae_targetUserId := Some (aq_targetUserId q),
              ae_diff := [(''result'', JStr ''success''), (''roleId'', JStr (aq_roleId q))]\<rparr>)) stale\<rparr>)"

definition requestAssignment :: "role_env \<Rightarrow> current_user \<Rightarrow> jstring \<Rightarrow> jstring \<Rightarrow> jstring option \<Rightarrow> role_state
    \<Rightarrow> assignment_request result \<times> role_state" where
  "requestAssignment env actor rid uid reason0 s = (case requireReason reason0 of Inl e \<Rightarrow> (Inl e, s) | Inr reason \<Rightarrow>
     (case loadRoleOrThrow rid s of Inl e \<Rightarrow> (Inl e, s) | Inr role \<Rightarrow>
     (case assertRoleAssignable actor role ''ROLE_ASSIGNMENT_REQUESTED'' of Some (e, ev) \<Rightarrow> (Inl e, ro_emit ev s) | None \<Rightarrow>
     (case loadStaffTargetOrThrow uid s of Inl e \<Rightarrow> (Inl e, s) | Inr target \<Rightarrow>
      if rid \<in> set (roles_of uid s) then (Inl (Conflict ''user_already_has_role''), s)
      else let s1 = expireStaleRequests env s
           in if find_where (\<lambda>q. aq_roleId q = rid \<and> aq_targetUserId q = uid \<and> aq_status q = RQ_PENDING) (ro_requests s1) \<noteq> None
              then (Inl (Conflict ''assignment_request_already_pending''), s1)
              else let q = \<lparr>aq_id = re_newId env, aq_roleId = rid, aq_targetUserId = uid, aq_requestedById = cu_id actor,
                        aq_reason = reason, aq_status = RQ_PENDING, aq_reviewedById = None, aq_reviewNote = None, aq_reviewedAt = None,
                        aq_expiresAt = re_now env + ASSIGNMENT_REQUEST_TTL_MS\<rparr>
                   in (Inr q, ro_emit (request_event actor ''ROLE_ASSIGNMENT_REQUESTED'' uid SUCCESS INFO (aq_id q) (rd_name role)
                        [(''result'', JStr ''success''), (''reason'', JStr reason)]
                        [(''roleId'', JStr rid), (''sensitive'', JBool (isSensitiveRole rid s))])
                       (s1\<lparr>ro_requests := ro_requests s1 @ [q]\<rparr>))))))"

definition pending :: "jstring \<Rightarrow> assignment_request \<Rightarrow> bool" where
  "pending qid q \<longleftrightarrow> aq_id q = qid \<and> aq_status q = RQ_PENDING"

definition decide :: "role_env \<Rightarrow> current_user \<Rightarrow> request_status \<Rightarrow> jstring option \<Rightarrow> assignment_request \<Rightarrow> assignment_request" where
  "decide env actor st note q = q\<lparr>aq_status := st, aq_reviewedById := Some (cu_id actor),
     aq_reviewedAt := Some (re_now env), aq_reviewNote := note\<rparr>"

text \<open>The two guarded writes of a review; \<open>q\<close> is the request as it was read.\<close>

definition reject_write :: "role_env \<Rightarrow> current_user \<Rightarrow> assignment_request \<Rightarrow> jstring \<Rightarrow> jstring \<Rightarrow> role_state \<Rightarrow> request_status result \<times> role_state" where
  "reject_write env actor q label note s =
     (if count_where (pending (aq_id q)) (ro_requests s) = 0 then (Inl (Conflict ''assignment_request_not_pending''), s)
      else (Inr RQ_REJECTED, ro_emit (request_event actor ''ROLE_ASSIGNMENT_REJECTED'' (aq_targetUserId q) SUCCESS INFO (aq_id q) label
             [(''result'', JStr ''success''), (''decision'', JStr ''REJECT''), (''note'', JStr note)] [])
           (s\<lparr>ro_requests := update_where (pending (aq_id q)) (decide env actor RQ_REJECTED (Some note)) (ro_requests s)\<rparr>)))"

definition approve_tx :: "role_env \<Rightarrow> current_user \<Rightarrow> assignment_request \<Rightarrow> jstring option \<Rightarrow> role_state \<Rightarrow> role_state result" where
  "approve_tx env actor q note s =
     (if count_where (pending (aq_id q)) (ro_requests s) = 0 then Inl (Conflict ''assignment_request_not_pending'')
      else give_role (aq_targetUserId q) (aq_roleId q) (aq_requestedById q)
        (s\<lparr>ro_requests := update_where (pending (aq_id q)) (decide env actor RQ_APPROVED note) (ro_requests s)\<rparr>))"

definition trim_note :: "jstring option \<Rightarrow> jstring option" where
  "trim_note note = (case note of None \<Rightarrow> None | Some n \<Rightarrow> if js_trim n = [] then None else Some (js_trim n))"

definition approve_request :: "role_env \<Rightarrow> current_user \<Rightarrow> assignment_request \<Rightarrow> jstring \<Rightarrow> jstring option \<Rightarrow> role_state \<Rightarrow> request_status result \<times> role_state" where
  "approve_request env actor q label note s = (case approve_tx env actor q (trim_note note) s of
       Inl e \<Rightarrow> (Inl e, s)
     | Inr s1 \<Rightarrow> (Inr RQ_APPROVED, ro_emit (request_event actor ''ROLE_ASSIGNMENT_APPROVED'' (aq_targetUserId q) SUCCESS INFO (aq_id q) label
             [(''result'', JStr ''success''), (''decision'', JStr ''APPROVE'')]
             [(''requestedById'', JStr (aq_requestedById q)), (''roleId'', JStr (aq_roleId q))])
           (refreshUserAccess (aq_targetUserId q) False s1)))"

definition reviewAssignmentRequest :: "role_env \<Rightarrow> current_user \<Rightarrow> jstring \<Rightarrow> bool \<Rightarrow> jstring option \<Rightarrow> role_state
    \<Rightarrow> request_status result \<times> role_state" where
  "reviewAssignmentRequest env actor qid approve note s =
     (let action = (if approve then ''ROLE_ASSIGNMENT_APPROVED'' else ''ROLE_ASSIGNMENT_REJECTED'')
      in case find_where (\<lambda>q. aq_id q = qid) (ro_requests s) of
           None \<Rightarrow> (Inl (NotFound ''assignment_request_not_found''), s)
         | Some q \<Rightarrow> (case find_role (aq_roleId q) s of None \<Rightarrow> (Inl DatabaseError, s) | Some role \<Rightarrow>
             if aq_requestedById q = cu_id actor
             then (Inl (Forbidden ''requester_cannot_review_own_request''),
               ro_emit (request_event actor action (aq_targetUserId q) DENIED WARNING (aq_id q) (rd_name role)
                 [(''result'', JStr ''denied''), (''reason'', JStr ''requester_cannot_review_own_request'')] []) s)
             else if aq_status q \<noteq> RQ_PENDING then (Inl (Conflict ''assignment_request_not_pending''), s)
             else if aq_expiresAt q \<le> re_now env
             then (Inl (BadRequest ''assignment_request_expired''),
               s\<lparr>ro_requests := update_where (\<lambda>r. aq_id r = qid) (\<lambda>r. r\<lparr>aq_status := RQ_EXPIRED\<rparr>) (ro_requests s)\<rparr>)
             else if \<not> approve
             then (case trim_note note of
                 None \<Rightarrow> (Inl (BadRequest ''rejection_note_required''), s)
               | Some n \<Rightarrow> reject_write env actor q (rd_name role) n s)
             else (case assertRoleAssignable actor role action of Some (e, ev) \<Rightarrow> (Inl e, ro_emit ev s) | None \<Rightarrow>
               (case loadStaffTargetOrThrow (aq_targetUserId q) s of Inl e \<Rightarrow> (Inl e, s) | Inr target \<Rightarrow>
                if aq_roleId q \<in> set (roles_of (aq_targetUserId q) s) then (Inl (Conflict ''user_already_has_role''), s)
                else approve_request env actor q (rd_name role) note s))))"

section \<open>Temporary access\<close>

text \<open>\<open>expiresAt\<close> is \<open>None\<close> where the text does not parse as a date.\<close>

definition assignTemporarily :: "role_env \<Rightarrow> current_user \<Rightarrow> jstring \<Rightarrow> jstring \<Rightarrow> int option \<Rightarrow> jstring option \<Rightarrow> role_state
    \<Rightarrow> temporary_assignment result \<times> role_state" where
  "assignTemporarily env actor rid uid expiresAt reason0 s = (case requireReason reason0 of Inl e \<Rightarrow> (Inl e, s) | Inr reason \<Rightarrow>
     (case expiresAt of None \<Rightarrow> (Inl (BadRequest ''expires_at_must_be_in_the_future''), s) | Some until \<Rightarrow>
      if until \<le> re_now env then (Inl (BadRequest ''expires_at_must_be_in_the_future''), s)
      else if MAX_TEMPORARY_ASSIGNMENT_MS < until - re_now env then (Inl (BadRequest ''temporary_assignment_too_long''), s)
      else (case loadRoleOrThrow rid s of Inl e \<Rightarrow> (Inl e, s) | Inr role \<Rightarrow>
      (case assertRoleAssignable actor role ''ROLE_TEMPORARY_GRANTED'' of Some (e, ev) \<Rightarrow> (Inl e, ro_emit ev s) | None \<Rightarrow>
       if isSensitiveRole rid s then (Inl (Forbidden ''two_person_approval_required''), s)
       else (case loadStaffTargetOrThrow uid s of Inl e \<Rightarrow> (Inl e, s) | Inr target \<Rightarrow>
         if rid \<in> set (roles_of uid s) then (Inl (Conflict ''user_already_has_role''), s)
         else (case give_role uid rid (cu_id actor) s of Inl e \<Rightarrow> (Inl e, s) | Inr s1 \<Rightarrow>
           let t = \<lparr>tr_id = re_newId env, tr_userId = uid, tr_roleId = rid, tr_grantedById = Some (cu_id actor),
                    tr_reason = reason, tr_expiresAt = until, tr_status = TA_ACTIVE, tr_endedAt = None\<rparr>
           in (Inr t, ro_emit (role_event actor ''ROLE_TEMPORARY_GRANTED'' (Some uid) SUCCESS INFO (Some rid) (Some (rd_name role))
                [(''result'', JStr ''success''), (''reason'', JStr reason), (''expiresAt'', JDate until)] [])
              (refreshUserAccess uid False (s1\<lparr>ro_temporary := ro_temporary s1 @ [t]\<rparr>)))))))))"

definition due :: "int \<Rightarrow> temporary_assignment \<Rightarrow> bool" where
  "due now t \<longleftrightarrow> tr_status t = TA_ACTIVE \<and> tr_expiresAt t \<le> now"

definition expire_one :: "role_env \<Rightarrow> temporary_assignment \<Rightarrow> role_state \<Rightarrow> role_state" where
  "expire_one env t s =
     ro_emit (Audit ((audit_base SYSTEM ''ROLE_TEMPORARY_EXPIRED'' ''Role'' (tr_roleId t))
         \<lparr>ae_targetUserId := Some (tr_userId t),
          ae_entityLabel := map_option rd_name (find_role (tr_roleId t) s),
          ae_diff := [(''result'', JStr ''success''), (''temporaryAssignmentId'', JStr (tr_id t))]\<rparr>))
      (refreshUserAccess (tr_userId t) True
        (s\<lparr>ro_userRoles := filter (\<lambda>ur. \<not> (ur_userId ur = tr_userId t \<and> ur_roleId ur = tr_roleId t)) (ro_userRoles s),
           ro_temporary := update_where (\<lambda>q. tr_id q = tr_id t)
             (\<lambda>q. q\<lparr>tr_status := TA_EXPIRED, tr_endedAt := Some (re_now env)\<rparr>) (ro_temporary s)\<rparr>))"

definition expireTemporaryAssignments :: "role_env \<Rightarrow> role_state \<Rightarrow> nat \<times> role_state" where
  "expireTemporaryAssignments env s =
     (let ts = take 200 (filter (due (re_now env)) (ro_temporary s))
      in (length ts, foldl (\<lambda>s t. expire_one env t s) s ts))"

end
