(* ===== verification/Role_Permissions.thy ===== *)
theory Role_Permissions
  imports Role_Assignment
begin

text \<open>
  What a role may do: \<open>src/modules/auth/service/permission.service.ts\<close>. A change reaches the sessions of
  the role's holders: where something is taken away they are ended, otherwise only caches are dropped.
\<close>

section \<open>Shared checks\<close>

definition permission_event :: "current_user \<Rightarrow> jstring \<Rightarrow> audit_outcome \<Rightarrow> audit_severity \<Rightarrow> jstring \<Rightarrow> jstring option
    \<Rightarrow> (jstring \<times> jval) list \<Rightarrow> (jstring \<times> jval) list \<Rightarrow> effect" where
  "permission_event actor action outcome severity rid label diff meta =
     role_event actor action None outcome severity (Some rid) label diff meta"

definition load_role :: "current_user \<Rightarrow> jstring \<Rightarrow> jstring \<Rightarrow> role_state \<Rightarrow> role_def result \<times> role_state" where
  "load_role actor rid action s = (case find_role rid s of
       None \<Rightarrow> (Inl (NotFound ''role_not_found''),
         ro_emit (permission_event actor action FAILURE WARNING rid None
           [(''result'', JStr ''failure''), (''reason'', JStr ''role_not_found'')] []) s)
     | Some r \<Rightarrow> (Inr r, s))"

definition jnames :: "jstring list \<Rightarrow> jval" where
  "jnames ns = JArr (map JStr ns)"

definition assertPermissionsEditable :: "current_user \<Rightarrow> role_def \<Rightarrow> jstring \<Rightarrow> jstring list \<Rightarrow> (error \<times> effect) option" where
  "assertPermissionsEditable actor role action attempted =
     (if \<not> isPermissionLockedRole (rd_name role) then None
      else Some (Forbidden ''protected_role_permissions_locked'',
        permission_event actor action DENIED WARNING (rd_id role) (Some (rd_name role))
          [(''result'', JStr ''denied''), (''reason'', JStr ''protected_role_permissions_locked''),
           (''attemptedPermissions'', jnames attempted)] []))"

definition join_names :: "jstring list \<Rightarrow> jstring" where
  "join_names ns = concat (map (\<lambda>(i, n). (if i = 0 then [] else '', '') @ n) (enumerate 0 ns))"

definition resolvePermissionsOrThrow :: "current_user \<Rightarrow> role_def \<Rightarrow> jstring list \<Rightarrow> jstring \<Rightarrow> role_state
    \<Rightarrow> permission_row list result \<times> role_state" where
  "resolvePermissionsOrThrow actor role names action s =
     (let found = filter (\<lambda>p. pm_name p \<in> set names) (ro_permissions s);
          missing = filter (\<lambda>n. n \<notin> set (map pm_name found)) names
      in if missing \<noteq> []
         then (Inl (BadRequest (''unknown_permission: '' @ join_names missing)),
           ro_emit (permission_event actor action FAILURE WARNING (rd_id role) (Some (rd_name role))
             [(''result'', JStr ''failure''), (''reason'', JStr ''unknown_permission''), (''missingPermissions'', jnames missing)]
             [(''requestedCount'', JInt (int (length names)))]) s)
         else (Inr found, s))"

text \<open>The three checks every change starts with.\<close>

definition with_permissions :: "current_user \<Rightarrow> jstring \<Rightarrow> jstring list \<Rightarrow> jstring \<Rightarrow> role_state
    \<Rightarrow> (role_def \<Rightarrow> permission_row list \<Rightarrow> role_state \<Rightarrow> 'a result \<times> role_state) \<Rightarrow> 'a result \<times> role_state" where
  "with_permissions actor rid names action s body = (case load_role actor rid action s of
       (Inl e, s1) \<Rightarrow> (Inl e, s1)
     | (Inr role, s1) \<Rightarrow> (case assertPermissionsEditable actor role action names of
         Some (e, ev) \<Rightarrow> (Inl e, ro_emit ev s1)
       | None \<Rightarrow> (case resolvePermissionsOrThrow actor role names action s1 of
           (Inl e, s2) \<Rightarrow> (Inl e, s2)
         | (Inr ps, s2) \<Rightarrow> body role ps s2)))"

text \<open>Every holder of the role: sessions deleted where something was taken away, caches dropped.\<close>

definition role_holders :: "jstring \<Rightarrow> role_state \<Rightarrow> jstring list" where
  "role_holders rid s = remdups (map ur_userId (filter (\<lambda>ur. ur_roleId ur = rid) (ro_userRoles s)))"

definition invalidateRoleHolders :: "jstring \<Rightarrow> bool \<Rightarrow> role_state \<Rightarrow> (nat \<times> nat) \<times> role_state" where
  "invalidateRoleHolders rid revokeSessions s =
     (let users = role_holders rid s;
          revoked = (if revokeSessions then count_where (\<lambda>u. u \<in> set users) (ro_sessions s) else 0)
      in ((length users, revoked),
          s\<lparr>ro_sessions := (if revokeSessions then filter (\<lambda>u. u \<notin> set users) (ro_sessions s) else ro_sessions s),
            ro_log := ro_log s @ map (Invalidate ''user'') users\<rparr>))"

text \<open>The source lists them by name; here they are a set.\<close>

definition findForRole :: "jstring \<Rightarrow> role_state \<Rightarrow> jstring set result" where
  "findForRole rid s = (case find_role rid s of
       None \<Rightarrow> Inl (NotFound ''role_not_found'')
     | Some _ \<Rightarrow> Inr (set (role_permissions rid s)))"

definition invalidation_meta :: "nat \<times> nat \<Rightarrow> (jstring \<times> jval) list" where
  "invalidation_meta r = [(''usersInvalidated'', JInt (int (fst r))), (''sessionsRevoked'', JInt (int (snd r))),
     (''invalidationFailed'', JBool False)]"

section \<open>Changes\<close>

definition assignToRole :: "current_user \<Rightarrow> jstring \<Rightarrow> jstring list \<Rightarrow> role_state \<Rightarrow> jstring set result \<times> role_state" where
  "assignToRole actor rid names s = with_permissions actor rid names ''PERMISSION_ASSIGNED'' s (\<lambda>role ps s.
     let toCreate = filter (\<lambda>p. (rid, pm_id p) \<notin> set (ro_grants s)) ps
     in if toCreate = [] then (findForRole rid s, s)
        else case invalidateRoleHolders rid False (s\<lparr>ro_grants := ro_grants s @ map (\<lambda>p. (rid, pm_id p)) toCreate\<rparr>) of
          (r, s1) \<Rightarrow>
            (let s2 = ro_emit (permission_event actor ''PERMISSION_ASSIGNED'' SUCCESS INFO rid (Some (rd_name role))
                  [(''result'', JStr ''success''), (''added'', jnames (map pm_name toCreate))]
                  ([(''usersWithRole'', JInt (int (holders rid s))), (''requestedCount'', JInt (int (length names))),
                    (''skippedAlreadyAssigned'', JInt (int (length ps) - int (length toCreate)))] @ invalidation_meta r)) s1
             in (findForRole rid s2, s2)))"

definition revokeManyFromRole :: "current_user \<Rightarrow> jstring \<Rightarrow> jstring list \<Rightarrow> role_state \<Rightarrow> jstring set result \<times> role_state" where
  "revokeManyFromRole actor rid names s = with_permissions actor rid names ''PERMISSIONS_BULK_REVOKED'' s (\<lambda>role ps s.
     let gone = (\<lambda>g. fst g = rid \<and> snd g \<in> set (map pm_id ps)); n = count_where gone (ro_grants s)
     in if n = 0 then (findForRole rid s, s)
        else case invalidateRoleHolders rid True (s\<lparr>ro_grants := filter (\<lambda>g. \<not> gone g) (ro_grants s)\<rparr>) of
          (r, s1) \<Rightarrow>
            (let s2 = ro_emit (permission_event actor ''PERMISSIONS_BULK_REVOKED'' SUCCESS INFO rid (Some (rd_name role))
                  [(''result'', JStr ''success''), (''removed'', jnames (map pm_name ps))]
                  ([(''usersWithRole'', JInt (int (holders rid s))), (''requestedCount'', JInt (int (length names))),
                    (''actuallyRemoved'', JInt (int n))] @ invalidation_meta r)) s1
             in (findForRole rid s2, s2)))"

text \<open>
  The transaction of \<open>setForRole\<close> is serializable. \<open>conflict\<close> is the database's report that it met a
  concurrent change, after which nothing is written.
\<close>

definition setForRole :: "bool \<Rightarrow> current_user \<Rightarrow> jstring \<Rightarrow> jstring list \<Rightarrow> role_state \<Rightarrow> jstring set result \<times> role_state" where
  "setForRole conflict actor rid names s = with_permissions actor rid names ''PERMISSIONS_SET_REPLACED'' s (\<lambda>role ps s.
     if conflict
     then (Inl (Conflict ''concurrent_permission_update_retry''),
       ro_emit (permission_event actor ''PERMISSIONS_SET_REPLACED'' FAILURE WARNING rid (Some (rd_name role))
         [(''result'', JStr ''failure''), (''reason'', JStr ''concurrent_permission_update'')] []) s)
     else let current = map snd (filter (\<lambda>g. fst g = rid) (ro_grants s));
              targetIds = map pm_id ps;
              toAdd = filter (\<lambda>p. pm_id p \<notin> set current) ps;
              toRemove = filter (\<lambda>i. i \<notin> set targetIds) current
          in if toAdd = [] \<and> toRemove = [] then (findForRole rid s, s)
             else case invalidateRoleHolders rid (toRemove \<noteq> [])
                 (s\<lparr>ro_grants := filter (\<lambda>g. \<not> (fst g = rid \<and> snd g \<in> set toRemove)) (ro_grants s) @ map (\<lambda>p. (rid, pm_id p)) toAdd\<rparr>) of
               (r, s1) \<Rightarrow>
                 (let s2 = ro_emit (permission_event actor ''PERMISSIONS_SET_REPLACED'' SUCCESS INFO rid (Some (rd_name role))
                       [(''result'', JStr ''success''), (''added'', jnames (map pm_name toAdd)),
                        (''removed'', jnames (concat (map (\<lambda>i. permission_name i s) toRemove)))]
                       ([(''usersWithRole'', JInt (int (holders rid s))), (''finalCount'', JInt (int (length names)))] @ invalidation_meta r)) s1
                  in (findForRole rid s2, s2)))"

definition revokeFromRole :: "current_user \<Rightarrow> jstring \<Rightarrow> jstring \<Rightarrow> role_state \<Rightarrow> jstring result \<times> role_state" where
  "revokeFromRole actor rid name s = (case load_role actor rid ''PERMISSION_REVOKED'' s of
       (Inl e, s1) \<Rightarrow> (Inl e, s1)
     | (Inr role, s1) \<Rightarrow> (case assertPermissionsEditable actor role ''PERMISSION_REVOKED'' [name] of
         Some (e, ev) \<Rightarrow> (Inl e, ro_emit ev s1)
       | None \<Rightarrow>
         let missing = (\<lambda>reason. (Inl (NotFound reason),
               ro_emit (permission_event actor ''PERMISSION_REVOKED'' FAILURE WARNING rid (Some (rd_name role))
                 [(''result'', JStr ''failure''), (''reason'', JStr reason), (''attempted'', JStr name)] []) s1))
         in (case find_where (\<lambda>p. pm_name p = name) (ro_permissions s1) of
              None \<Rightarrow> missing ''permission_not_found''
            | Some p \<Rightarrow>
                if (rid, pm_id p) \<notin> set (ro_grants s1) then missing ''role_does_not_have_permission''
                else (case invalidateRoleHolders rid True (s1\<lparr>ro_grants := filter (\<lambda>g. g \<noteq> (rid, pm_id p)) (ro_grants s1)\<rparr>) of
                  (r, s2) \<Rightarrow> (Inr ''permission_revoked'',
                    ro_emit (permission_event actor ''PERMISSION_REVOKED'' SUCCESS INFO rid (Some (rd_name role))
                      [(''result'', JStr ''success''), (''removed'', JStr (pm_name p))]
                      ((''usersWithRole'', JInt (int (holders rid s1))) # invalidation_meta r)) s2)))))"

section \<open>Separation of duties\<close>

definition getEffectivePermissionsForUser :: "jstring \<Rightarrow> role_state \<Rightarrow> jstring set result" where
  "getEffectivePermissionsForUser uid s = (case find_where (\<lambda>u. sf_id u = uid) (ro_users s) of
       None \<Rightarrow> Inl (NotFound ''user_not_found'')
     | Some _ \<Rightarrow> Inr (\<Union>rid \<in> set (roles_of uid s). set (role_permissions rid s)))"

text \<open>Conflicts inside each role, and for active users with several roles those of all of them together.\<close>

definition withinRole :: "role_state \<Rightarrow> (jstring \<times> duty_conflict list) list" where
  "withinRole s = filter (\<lambda>e. snd e \<noteq> []) (map (\<lambda>r. (rd_id r, findDutyConflicts (role_permissions (rd_id r) s))) (ro_roles s))"

definition acrossRoles :: "role_state \<Rightarrow> (jstring \<times> duty_conflict list) list" where
  "acrossRoles s =
     (let staff = take 500 (filter (\<lambda>u. roles_of (sf_id u) s \<noteq> [] \<and> sf_isActive u) (ro_users s));
          entries = map (\<lambda>u. (sf_id u, findDutyConflicts (concat (map (\<lambda>rid. role_permissions rid s) (roles_of (sf_id u) s)))))
                      (filter (\<lambda>u. 1 < length (roles_of (sf_id u) s)) staff)
      in filter (\<lambda>e. snd e \<noteq> []) entries)"

text \<open>The answer filters the second list once more, by the number of roles of the user.\<close>

definition conflicts :: "role_state \<Rightarrow> (jstring \<times> duty_conflict list) list \<times> (jstring \<times> duty_conflict list) list" where
  "conflicts s = (withinRole s,
     filter (\<lambda>e. 1 < length (roles_of (fst e) s) \<or> concat (map snd (withinRole s)) = []) (acrossRoles s))"

end
