(* ===== verification/Role_Properties.thy ===== *)
theory Role_Properties
  imports Role_Permissions
begin

text \<open>
  What holds of roles: a role whose permissions need two people is only ever given by two, protected
  roles cannot be touched, and a change of permissions is exact and ends the sessions it must end; and
  two histories in which the outcome is weaker than the comments say.
\<close>

section \<open>Frames\<close>

lemma ro_emit_frame [simp]:
  "ro_roles (ro_emit e s) = ro_roles s" "ro_permissions (ro_emit e s) = ro_permissions s"
  "ro_grants (ro_emit e s) = ro_grants s" "ro_users (ro_emit e s) = ro_users s"
  "ro_userRoles (ro_emit e s) = ro_userRoles s" "ro_requests (ro_emit e s) = ro_requests s"
  "ro_temporary (ro_emit e s) = ro_temporary s" "ro_sessions (ro_emit e s) = ro_sessions s"
  by (simp_all add: ro_emit_def)

lemma refreshUserAccess_frame [simp]:
  "ro_roles (refreshUserAccess u b s) = ro_roles s" "ro_permissions (refreshUserAccess u b s) = ro_permissions s"
  "ro_grants (refreshUserAccess u b s) = ro_grants s" "ro_users (refreshUserAccess u b s) = ro_users s"
  "ro_userRoles (refreshUserAccess u b s) = ro_userRoles s" "ro_requests (refreshUserAccess u b s) = ro_requests s"
  "ro_temporary (refreshUserAccess u b s) = ro_temporary s"
  by (simp_all add: refreshUserAccess_def)

section \<open>The operations of the role service as a system\<close>

definition fresh :: "jstring \<Rightarrow> role_state \<Rightarrow> bool" where
  "fresh i s \<longleftrightarrow> i \<notin> rd_id ` set (ro_roles s) \<and> i \<notin> fst ` set (ro_grants s) \<and> i \<notin> aq_id ` set (ro_requests s)"

definition same_request :: "assignment_request \<Rightarrow> assignment_request \<Rightarrow> bool" where
  "same_request q r \<longleftrightarrow> aq_roleId r = aq_roleId q \<and> aq_targetUserId r = aq_targetUserId q \<and> aq_requestedById r = aq_requestedById q"

text \<open>
  Every operation of the service; the decisions on a request also with the request as it was read
  earlier, and the insert of a role after a lookup that is no longer true.
\<close>

inductive role_sys :: "role_state \<Rightarrow> role_state \<Rightarrow> bool" where
  create: "fresh (re_newId env) s \<Longrightarrow> role_sys s (snd (create_role env actor name d s))"
| create_late: "fresh (re_newId env) s \<Longrightarrow> role_sys s (snd (create_write env actor name d s))"
| update: "role_sys s (snd (update_role actor rid nm d' s))"
| remove: "role_sys s (snd (remove_role actor rid s))"
| clone: "fresh (re_newId env) s \<Longrightarrow> role_sys s (snd (clone_role env actor rid name d s))"
| template: "fresh (re_newId env) s \<Longrightarrow> role_sys s (snd (applyTemplate env actor tid nm d s))"
| arch: "role_sys s (snd (archive env actor rid d s))"
| unarch: "role_sys s (snd (unarchive actor rid d s))"
| assign: "role_sys s (snd (assignToUser actor rid uid d s))"
| take_away: "role_sys s (snd (removeFromUser env actor rid uid d s))"
| bulk: "role_sys s (snd (bulkAssign_role env actor rid b uids d s))"
| request: "fresh (re_newId env) s \<Longrightarrow> role_sys s (snd (requestAssignment env actor rid uid d s))"
| review: "role_sys s (snd (reviewAssignmentRequest env actor qid b d s))"
| approve_late: "aq_requestedById q \<noteq> cu_id actor \<Longrightarrow> \<forall>r \<in> set (ro_requests s). aq_id r = aq_id q \<longrightarrow> same_request q r \<Longrightarrow>
    \<not> isProtected role \<Longrightarrow> find_role (aq_roleId q) s = Some role \<Longrightarrow> role_sys s (snd (approve_request env actor q label d s))"
| reject_late: "role_sys s (snd (reject_write env actor q label note s))"
| stale: "role_sys s (expireStaleRequests env s)"
| temporary: "role_sys s (snd (assignTemporarily env actor rid uid until d s))"
| expire: "role_sys s (snd (expireTemporaryAssignments env s))"

inductive_cases role_sysE: "role_sys s t"

text \<open>Rows refer to roles that exist, and requests have an id of their own.\<close>

definition tables_ok :: "role_state \<Rightarrow> bool" where
  "tables_ok s \<longleftrightarrow> (\<forall>ur \<in> set (ro_userRoles s). ur_roleId ur \<in> rd_id ` set (ro_roles s)) \<and>
     (\<forall>q \<in> set (ro_requests s). aq_roleId q \<in> rd_id ` set (ro_roles s)) \<and>
     distinct (map aq_id (ro_requests s))"

definition by_two :: "user_role \<Rightarrow> role_state \<Rightarrow> bool" where
  "by_two ur s \<longleftrightarrow> (\<exists>q \<in> set (ro_requests s). aq_status q = RQ_APPROVED \<and> aq_roleId q = ur_roleId ur \<and>
     aq_targetUserId q = ur_userId ur \<and> ur_assignedBy ur = Some (aq_requestedById q) \<and>
     (\<exists>reviewer. aq_reviewedById q = Some reviewer \<and> reviewer \<noteq> aq_requestedById q))"

definition two_kept :: "role_state \<Rightarrow> role_state \<Rightarrow> bool" where
  "two_kept s0 s \<longleftrightarrow> tables_ok s \<and>
     (\<forall>ur \<in> set (ro_userRoles s). ur \<in> set (ro_userRoles s0) \<or> \<not> isSensitiveRole (ur_roleId ur) s \<or> by_two ur s)"

text \<open>What every step but a grant does to the tables the rule is about.\<close>

definition keeps :: "role_state \<Rightarrow> role_state \<Rightarrow> bool" where
  "keeps s t \<longleftrightarrow> tables_ok t \<and> set (ro_userRoles t) \<subseteq> set (ro_userRoles s) \<and>
     (\<forall>rid \<in> rd_id ` set (ro_roles s). isSensitiveRole rid t \<longrightarrow> isSensitiveRole rid s) \<and>
     (\<forall>q \<in> set (ro_requests s). aq_status q = RQ_APPROVED \<longrightarrow> q \<in> set (ro_requests t) \<or>
        (\<forall>ur \<in> set (ro_userRoles t). ur_roleId ur \<noteq> aq_roleId q))"

lemma keeps_two: "keeps s t \<Longrightarrow> two_kept s0 s \<Longrightarrow> two_kept s0 t"
  unfolding keeps_def two_kept_def by_two_def tables_ok_def by (smt (verit) in_mono)

lemma sensitive_cong:
  "ro_permissions t = ro_permissions s \<Longrightarrow> filter (\<lambda>g. fst g = rid) (ro_grants t) = filter (\<lambda>g. fst g = rid) (ro_grants s) \<Longrightarrow>
    isSensitiveRole rid t = isSensitiveRole rid s"
  by (simp add: isSensitiveRole_def role_permissions_def permission_name_def)

lemma keeps_same:
  assumes "tables_ok s" "ro_userRoles t = ro_userRoles s" "rd_id ` set (ro_roles s) \<subseteq> rd_id ` set (ro_roles t)"
    "ro_grants t = ro_grants s" "ro_permissions t = ro_permissions s" "ro_requests t = ro_requests s"
  shows "keeps s t"
  using assms sensitive_cong [of t s] by (auto simp: keeps_def tables_ok_def)

lemma distinct_fresh: "fresh i s \<Longrightarrow> filter (\<lambda>g. fst g = i) (ro_grants s) = []"
  by (force simp: fresh_def filter_empty_conv)

lemma keeps_log [simp]: "keeps s (ro_emit e t) = keeps s t"
  by (simp add: keeps_def tables_ok_def isSensitiveRole_def role_permissions_def permission_name_def)

lemma keeps_refresh [simp]: "keeps s (refreshUserAccess u b t) = keeps s t"
  by (simp add: keeps_def tables_ok_def isSensitiveRole_def role_permissions_def permission_name_def)

lemma keeps_refl: "tables_ok s \<Longrightarrow> keeps s s"
  by (simp add: keeps_def)

text \<open>A new role, with permissions of its own.\<close>

lemma keeps_new_role:
  assumes "tables_ok s" "fresh (rd_id r) s"
  shows "keeps s (s\<lparr>ro_roles := ro_roles s @ [r], ro_grants := ro_grants s @ map (\<lambda>p. (rd_id r, p)) ps\<rparr>)"
proof -
  have "isSensitiveRole rid (s\<lparr>ro_roles := ro_roles s @ [r], ro_grants := ro_grants s @ map (\<lambda>p. (rd_id r, p)) ps\<rparr>) =
      isSensitiveRole rid s" if "rid \<in> rd_id ` set (ro_roles s)" for rid
  proof (rule sensitive_cong)
    have "rid \<noteq> rd_id r" using that assms(2) unfolding fresh_def by metis
    then show "filter (\<lambda>g. fst g = rid) (ro_grants (s\<lparr>ro_roles := ro_roles s @ [r], ro_grants := ro_grants s @ map (\<lambda>p. (rd_id r, p)) ps\<rparr>)) =
        filter (\<lambda>g. fst g = rid) (ro_grants s)" by simp
  qed simp
  with assms(1) show ?thesis by (auto simp: keeps_def tables_ok_def)
qed

lemma keeps_new_role_bare:
  assumes "tables_ok s" "fresh (rd_id r) s"
  shows "keeps s (s\<lparr>ro_roles := ro_roles s @ [r]\<rparr>)"
  using keeps_new_role [OF assms, of "[]"] by simp

text \<open>Changing roles in place, taking user roles away and moving requests that are not approved.\<close>

lemma keeps_update:
  assumes "tables_ok s" "rd_id ` set (ro_roles t) = rd_id ` set (ro_roles s)" "ro_grants t = ro_grants s"
    "ro_permissions t = ro_permissions s" "set (ro_userRoles t) \<subseteq> set (ro_userRoles s)"
    "ro_requests t = update_where P f (ro_requests s)"
    "\<And>q. aq_id (f q) = aq_id q \<and> aq_roleId (f q) = aq_roleId q"
    "\<And>q. q \<in> set (ro_requests s) \<Longrightarrow> P q \<Longrightarrow> aq_status q \<noteq> RQ_APPROVED"
  shows "keeps s t"
proof -
  have "distinct (map aq_id (ro_requests t))"
    using assms(1,6,7) by (simp add: map_update_where tables_ok_def)
  moreover have "q \<in> set (ro_requests t)" if "q \<in> set (ro_requests s)" "aq_status q = RQ_APPROVED" for q
    using that assms(6,8) by (auto simp: in_update_where)
  moreover have "\<forall>q \<in> set (ro_requests t). aq_roleId q \<in> rd_id ` set (ro_roles t)"
    using assms(1,2,6,7) by (auto simp: in_update_where tables_ok_def)
  ultimately show ?thesis
    using assms(1-5) sensitive_cong [of t s] by (auto simp: keeps_def tables_ok_def)
qed

lemma role_ids_update [simp]: "rd_id ` set (update_where P (\<lambda>r. r\<lparr>rd_name := a r, rd_description := b r\<rparr>) rs) = rd_id ` set rs"
  "rd_id ` set (update_where P (\<lambda>r. r\<lparr>rd_archivedAt := c, rd_archivedById := d\<rparr>) rs) = rd_id ` set rs"
  by (simp_all flip: set_map add: map_update_where)

lemma keeps_roles:
  "tables_ok s \<Longrightarrow> rd_id ` set rs = rd_id ` set (ro_roles s) \<Longrightarrow> keeps s (s\<lparr>ro_roles := rs\<rparr>)"
  by (rule keeps_same) auto

lemma keeps_delete:
  assumes "tables_ok s"
  shows "keeps s (delete_role rid s)"
proof -
  have "isSensitiveRole i (delete_role rid s) \<longrightarrow> isSensitiveRole i s" for i
    by (auto simp: delete_role_def isSensitiveRole_def role_permissions_def permission_name_def)
  with assms show ?thesis
    by (auto simp: keeps_def tables_ok_def delete_role_def distinct_map_filter)
qed

section \<open>Every step keeps the rule\<close>

lemma keeps_create: "tables_ok s \<Longrightarrow> fresh (re_newId env) s \<Longrightarrow> keeps s (snd (create_write env actor name d s))"
  by (auto simp: create_write_def Let_def keeps_refl keeps_new_role_bare split: option.splits)

lemma keeps_with_permissions:
  "tables_ok s \<Longrightarrow> fresh (re_newId env) s \<Longrightarrow> keeps s (snd (createRoleWithPermissions env actor action name d ps au s))"
  by (auto simp: createRoleWithPermissions_def Let_def keeps_refl split: option.splits
      intro: keeps_new_role [where r = "\<lparr>rd_id = re_newId env, rd_name = name, rd_description = d, rd_isProtected = False,
        rd_archivedAt = None, rd_archivedById = None\<rparr>", simplified])

lemma keeps_archive:
  "tables_ok s \<Longrightarrow> keeps s (s\<lparr>ro_roles := update_where (\<lambda>r. rd_id r = rid) (\<lambda>r. r\<lparr>rd_archivedAt := c, rd_archivedById := d\<rparr>) (ro_roles s),
     ro_requests := update_where (\<lambda>q. aq_roleId q = rid \<and> aq_status q = RQ_PENDING) (\<lambda>q. q\<lparr>aq_status := RQ_CANCELLED\<rparr>) (ro_requests s)\<rparr>)"
  by (rule keeps_update [where P = "\<lambda>q. aq_roleId q = rid \<and> aq_status q = RQ_PENDING" and f = "\<lambda>q. q\<lparr>aq_status := RQ_CANCELLED\<rparr>"])
    simp_all

lemma keeps_lifecycle:
  assumes "tables_ok s"
  shows "fresh (re_newId env) s \<Longrightarrow> keeps s (snd (create_role env actor name d s))"
    and "keeps s (snd (update_role actor rid nm d' s))"
    and "keeps s (snd (remove_role actor rid s))"
    and "fresh (re_newId env) s \<Longrightarrow> keeps s (snd (clone_role env actor rid name d s))"
    and "fresh (re_newId env) s \<Longrightarrow> keeps s (snd (applyTemplate env actor tid nm d s))"
    and "keeps s (snd (archive env actor rid d s))"
    and "keeps s (snd (unarchive actor rid d s))"
proof -
  show "fresh (re_newId env) s \<Longrightarrow> keeps s (snd (create_role env actor name d s))"
    by (simp add: create_role_def keeps_refl keeps_create assms split: option.splits)
  show "keeps s (snd (update_role actor rid nm d' s))"
    using assms by (auto simp: update_role_def update_write_def Let_def keeps_refl keeps_roles split: option.splits)
  show "keeps s (snd (remove_role actor rid s))"
    using assms by (auto simp: remove_role_def remove_tx_def keeps_refl keeps_delete split: option.splits)
  show "fresh (re_newId env) s \<Longrightarrow> keeps s (snd (clone_role env actor rid name d s))"
    using assms by (auto simp: clone_role_def keeps_refl keeps_with_permissions split: sum.splits)
  show "fresh (re_newId env) s \<Longrightarrow> keeps s (snd (applyTemplate env actor tid nm d s))"
    using assms by (auto simp: applyTemplate_def Let_def keeps_refl keeps_with_permissions split: option.splits)
  show "keeps s (snd (archive env actor rid d s))"
    using assms by (auto simp: archive_def Let_def keeps_refl keeps_archive split: sum.splits)
  show "keeps s (snd (unarchive actor rid d s))"
    using assms by (auto simp: unarchive_def keeps_refl keeps_roles split: sum.splits)
qed

lemma keeps_userRoles:
  assumes "tables_ok s" "set urs \<subseteq> set (ro_userRoles s)"
  shows "keeps s (s\<lparr>ro_userRoles := urs, ro_temporary := ts\<rparr>)"
  by (rule keeps_update [where P = "\<lambda>_. False" and f = id]) (use assms in \<open>simp_all add: update_where_def\<close>)

lemma keeps_removals:
  assumes "tables_ok s"
  shows "keeps s (snd (removeFromUser env actor rid uid d s))"
  using assms by (auto simp: removeFromUser_def keeps_refl split: sum.splits intro!: keeps_userRoles)

lemma keeps_trans: "keeps s t \<Longrightarrow> keeps t u \<Longrightarrow> rd_id ` set (ro_roles s) = rd_id ` set (ro_roles t) \<Longrightarrow> keeps s u"
  unfolding keeps_def by (smt (verit) subset_eq)

lemma keeps_expire_one: "tables_ok s \<Longrightarrow> keeps s (expire_one env t s)"
  by (auto simp: expire_one_def intro!: keeps_userRoles)

lemma keeps_requests:
  assumes "tables_ok s" "\<And>q. q \<in> set (ro_requests s) \<Longrightarrow> P q \<Longrightarrow> aq_status q = RQ_PENDING"
    "\<And>q. aq_id (f q) = aq_id q \<and> aq_roleId (f q) = aq_roleId q"
  shows "keeps s (s\<lparr>ro_requests := update_where P f (ro_requests s)\<rparr>)"
  by (rule keeps_update [where P = P and f = f]) (use assms in auto)

lemma keeps_reject: "tables_ok s \<Longrightarrow> keeps s (snd (reject_write env actor q label note s))"
  by (auto simp: reject_write_def keeps_refl pending_def decide_def intro!: keeps_requests)

lemma keeps_stale: "tables_ok s \<Longrightarrow> keeps s (expireStaleRequests env s)"
proof -
  assume "tables_ok s"
  then have "keeps s (s\<lparr>ro_requests := update_where (stale_request (re_now env)) (\<lambda>q. q\<lparr>aq_status := RQ_EXPIRED\<rparr>) (ro_requests s)\<rparr>)"
    by (auto intro!: keeps_requests simp: stale_request_def)
  then show ?thesis
    by (simp add: expireStaleRequests_def Let_def keeps_def tables_ok_def isSensitiveRole_def role_permissions_def permission_name_def)
qed

section \<open>Grants\<close>

lemma two_frames [simp]:
  "two_kept s0 (ro_emit e t) = two_kept s0 t" "two_kept s0 (refreshUserAccess u b t) = two_kept s0 t"
  "two_kept s0 (t\<lparr>ro_temporary := ts\<rparr>) = two_kept s0 t"
  by (simp_all add: two_kept_def tables_ok_def by_two_def isSensitiveRole_def role_permissions_def permission_name_def)

lemma find_role_ids: "find_role rid s = Some r \<Longrightarrow> rid \<in> rd_id ` set (ro_roles s)"
  by (auto simp: find_role_def dest: find_where_SomeD)

lemma load_role_ids: "loadRoleOrThrow rid s = Inr r \<Longrightarrow> rid \<in> rd_id ` set (ro_roles s)"
  by (auto simp: loadRoleOrThrow_def find_role_ids split: option.splits)

lemma two_given:
  assumes "two_kept s0 s" "give_role uid rid by s = Inr s1" "rid \<in> rd_id ` set (ro_roles s)"
    "\<not> isSensitiveRole rid s \<or> by_two \<lparr>ur_userId = uid, ur_roleId = rid, ur_assignedBy = Some by\<rparr> s"
  shows "two_kept s0 s1"
proof -
  from assms(2) have s1: "s1 = s\<lparr>ro_userRoles := ro_userRoles s @ [\<lparr>ur_userId = uid, ur_roleId = rid, ur_assignedBy = Some by\<rparr>]\<rparr>"
    by (auto simp: give_role_def split: if_splits)
  have "isSensitiveRole i s1 = isSensitiveRole i s" "by_two ur s1 = by_two ur s" for i ur
    by (simp_all add: s1 isSensitiveRole_def role_permissions_def permission_name_def by_two_def)
  with assms(1,3,4) show ?thesis by (auto simp: two_kept_def tables_ok_def s1)
qed

lemma two_tables: "two_kept s0 s \<Longrightarrow> tables_ok s"
  by (simp add: two_kept_def)

lemma two_direct:
  assumes "two_kept s0 s"
  shows "two_kept s0 (snd (assignToUser actor rid uid d s))"
    and "two_kept s0 (snd (assignTemporarily env actor rid uid until d s))"
  using assms two_given [OF assms]
  by (auto simp: assignToUser_def assignTemporarily_def Let_def dest: load_role_ids split: sum.splits option.splits)

lemma two_bulk:
  "two_kept s0 s \<Longrightarrow> two_kept s0 (snd (role_bulk_loop env actor b rid d uids s))"
proof (induction uids arbitrary: s)
  case (Cons uid uids)
  have "two_kept s0 (snd (bulk_one env actor b rid d uid s))"
    using Cons.prems two_direct(1) keeps_two [OF keeps_removals [OF two_tables]] by (auto simp: bulk_one_def)
  with Cons.IH show ?case by (auto simp: case_prod_beta split: sum.splits)
qed simp

lemma two_expire: "two_kept s0 s \<Longrightarrow> two_kept s0 (foldl (\<lambda>s t. expire_one env t s) s ts)"
  by (induction ts arbitrary: s) (auto intro: keeps_two [OF keeps_expire_one [OF two_tables]])

lemma two_request:
  assumes "two_kept s0 s" "fresh (re_newId env) s"
  shows "two_kept s0 (snd (requestAssignment env actor rid uid d s))"
proof -
  let ?s = "expireStaleRequests env s"
  have k: "two_kept s0 ?s"
    using assms(1) keeps_two keeps_stale two_tables by metis
  have ids: "aq_id ` set (ro_requests ?s) = aq_id ` set (ro_requests s)" "ro_roles ?s = ro_roles s"
    by (simp_all add: expireStaleRequests_def Let_def map_update_where flip: set_map)
  have "keeps ?s (?s\<lparr>ro_requests := ro_requests ?s @ [q]\<rparr>)" if "aq_id q = re_newId env" "aq_roleId q \<in> rd_id ` set (ro_roles s)" for q
  proof -
    have "isSensitiveRole i (?s\<lparr>ro_requests := ro_requests ?s @ [q]\<rparr>) = isSensitiveRole i ?s" for i
      by (rule sensitive_cong) simp_all
    with that assms(2) ids k show ?thesis by (auto simp: keeps_def tables_ok_def two_kept_def fresh_def)
  qed
  then show ?thesis
    using assms(1) k by (auto simp: requestAssignment_def Let_def dest: load_role_ids intro!: keeps_two [OF _ k] split: sum.splits option.splits)
qed

lemma two_approve:
  assumes "two_kept s0 s" "aq_requestedById q \<noteq> cu_id actor"
    "\<forall>r \<in> set (ro_requests s). aq_id r = aq_id q \<longrightarrow> same_request q r" "aq_roleId q \<in> rd_id ` set (ro_roles s)"
  shows "two_kept s0 (snd (approve_request env actor q label d s))"
proof (cases "approve_tx env actor q (trim_note d) s")
  case (Inr s1)
  let ?s = "s\<lparr>ro_requests := update_where (pending (aq_id q)) (decide env actor RQ_APPROVED (trim_note d)) (ro_requests s)\<rparr>"
  from Inr have n: "count_where (pending (aq_id q)) (ro_requests s) \<noteq> 0" and give: "give_role (aq_targetUserId q) (aq_roleId q) (aq_requestedById q) ?s = Inr s1"
    by (auto simp: approve_tx_def split: if_splits)
  have k: "two_kept s0 ?s"
    by (rule keeps_two [OF keeps_requests assms(1)]) (use assms(1) in \<open>auto simp: two_kept_def pending_def decide_def\<close>)
  from n obtain r where r: "r \<in> set (ro_requests s)" "pending (aq_id q) r" by (auto simp: count_where_0_iff)
  then have "decide env actor RQ_APPROVED (trim_note d) r \<in> set (ro_requests ?s)"
    by (auto simp: in_update_where)
  moreover have "same_request q r" using r assms(3) by (auto simp: pending_def)
  ultimately have "by_two \<lparr>ur_userId = aq_targetUserId q, ur_roleId = aq_roleId q, ur_assignedBy = Some (aq_requestedById q)\<rparr> ?s"
    using assms(2) unfolding by_two_def by (intro bexI [of _ "decide env actor RQ_APPROVED (trim_note d) r"]) (auto simp: decide_def same_request_def)
  with two_given [OF k give] assms(4) have "two_kept s0 s1" by simp
  with Inr show ?thesis by (simp add: approve_request_def)
qed (use assms(1) in \<open>simp add: approve_request_def\<close>)

lemma found_unique:
  assumes "tables_ok s" "find_where (\<lambda>q. aq_id q = qid) (ro_requests s) = Some q" "r \<in> set (ro_requests s)" "aq_id r = qid"
  shows "r = q"
  using find_key_unique [of aq_id "ro_requests s" r] assms by (auto simp: tables_ok_def)

lemma two_review:
  assumes "two_kept s0 s"
  shows "two_kept s0 (snd (reviewAssignmentRequest env actor qid b d s))"
proof (cases "find_where (\<lambda>q. aq_id q = qid) (ro_requests s)")
  case (Some q)
  have same: "\<forall>r \<in> set (ro_requests s). aq_id r = aq_id q \<longrightarrow> same_request q r"
    using found_unique [OF two_tables [OF assms] Some] find_where_SomeD [OF Some] by (auto simp: same_request_def)
  have exp: "two_kept s0 (s\<lparr>ro_requests := update_where (\<lambda>r. aq_id r = qid) (\<lambda>r. r\<lparr>aq_status := RQ_EXPIRED\<rparr>) (ro_requests s)\<rparr>)"
    if "aq_status q = RQ_PENDING"
    by (rule keeps_two [OF keeps_requests assms]) (use that found_unique [OF two_tables [OF assms] Some] assms in \<open>auto simp: two_tables\<close>)
  have rej: "two_kept s0 (snd (reject_write env actor q label nt s))" for label nt
    by (rule keeps_two [OF keeps_reject assms]) (rule two_tables [OF assms])
  show ?thesis
    using Some assms exp rej two_approve [OF assms _ same]
    by (auto simp: reviewAssignmentRequest_def Let_def dest: find_role_ids split: option.splits sum.splits)
qed (use assms in \<open>simp add: reviewAssignmentRequest_def\<close>)

interpretation two_person: invariant_system role_sys "two_kept s0" for s0
proof
  fix s t assume "role_sys s t" and two: "two_kept s0 s"
  note ok = two_tables [OF two] and keep = keeps_two [OF _ two]
  from \<open>role_sys s t\<close> show "two_kept s0 t"
  proof cases
    case (approve_late q actor role env label d)
    then show ?thesis using two_approve [OF two] by (auto dest: find_role_ids)
  next
    case (bulk env actor rid b uids d)
    then show ?thesis using two_bulk [OF two] by (simp add: bulkAssign_role_def case_prod_beta)
  next
    case (expire env)
    then show ?thesis using two_expire [OF two] by (simp add: expireTemporaryAssignments_def Let_def)
  qed (use ok in \<open>auto intro: keep keeps_lifecycle keeps_create keeps_removals keeps_reject keeps_stale
      two_direct [OF two] two_request [OF two] two_review [OF two]\<close>)
qed

section \<open>Roles that need two people\<close>

text \<open>
  C23. However the operations of the role service follow one another, a role that carries a permission for
  which two people are needed is held only by those who held it at the start or who got it through a
  request: made by the person noted as its giver, for that user and role, and approved by somebody else.
\<close>

theorem sensitive_roles_need_two:
  assumes "role_sys\<^sup>*\<^sup>* s0 s" "tables_ok s0" "ur \<in> set (ro_userRoles s)" "ur \<notin> set (ro_userRoles s0)"
    and "isSensitiveRole (ur_roleId ur) s"
  shows "\<exists>q \<in> set (ro_requests s). aq_status q = RQ_APPROVED \<and> aq_roleId q = ur_roleId ur \<and>
    aq_targetUserId q = ur_userId ur \<and> ur_assignedBy ur = Some (aq_requestedById q) \<and>
    (\<exists>reviewer. aq_reviewedById q = Some reviewer \<and> reviewer \<noteq> aq_requestedById q)"
proof -
  have "two_kept s0 s0" using assms(2) by (simp add: two_kept_def)
  with assms(1) have "two_kept s0 s" by (rule two_person.reach_inv)
  with assms(3-5) show ?thesis by (auto simp: two_kept_def by_two_def)
qed

section \<open>Protected roles\<close>

definition role_rows :: "jstring \<Rightarrow> role_state \<Rightarrow> user_role list \<times> (jstring \<times> jstring) list" where
  "role_rows rid s = (filter (\<lambda>ur. ur_roleId ur = rid) (ro_userRoles s), filter (\<lambda>g. fst g = rid) (ro_grants s))"

text \<open>The protected role is there under its name, with the holders and permissions of \<open>rows\<close>, and nobody has it for a time.\<close>

definition sealed :: "jstring \<Rightarrow> jstring \<Rightarrow> bool \<Rightarrow> user_role list \<times> (jstring \<times> jstring) list \<Rightarrow> role_state \<Rightarrow> bool" where
  "sealed rid name flag rows s \<longleftrightarrow> isProtectedRole name flag \<and>
     map_option (\<lambda>r. (rd_name r, rd_isProtected r)) (find_role rid s) = Some (name, flag) \<and> role_rows rid s = rows \<and>
     (\<forall>t \<in> set (ro_temporary s). tr_roleId t = rid \<longrightarrow> tr_status t \<noteq> TA_ACTIVE)"

lemma sealed_frames [simp]:
  "sealed rid name flag rows (ro_emit e s) = sealed rid name flag rows s"
  "sealed rid name flag rows (refreshUserAccess u b s) = sealed rid name flag rows s"
  "sealed rid name flag rows (s\<lparr>ro_requests := qs\<rparr>) = sealed rid name flag rows s"
  by (simp_all add: sealed_def find_role_def role_rows_def)

lemma sealed_protected: "sealed rid name flag rows s \<Longrightarrow> find_role rid s = Some r \<Longrightarrow> isProtected r"
  by (auto simp: sealed_def isProtected_def)

lemma sealed_ids: "sealed rid name flag rows s \<Longrightarrow> fresh i s \<Longrightarrow> i \<noteq> rid"
  by (auto simp: sealed_def fresh_def dest: find_role_ids)

lemma sealed_add:
  assumes "sealed rid name flag rows s" "rd_id r \<noteq> rid"
  shows "sealed rid name flag rows (s\<lparr>ro_roles := ro_roles s @ [r]\<rparr>)"
    and "sealed rid name flag rows (s\<lparr>ro_roles := ro_roles s @ [r], ro_grants := ro_grants s @ map (\<lambda>p. (rd_id r, p)) ps\<rparr>)"
  using assms by (auto simp: sealed_def find_role_def role_rows_def find_where_append split: option.splits)

lemma sealed_update:
  assumes "sealed rid name flag rows s" "\<And>r. rd_id (f r) = rd_id r"
    "\<And>r. find_role rid s = Some r \<Longrightarrow> P r \<Longrightarrow> rd_name (f r) = rd_name r \<and> rd_isProtected (f r) = rd_isProtected r"
  shows "sealed rid name flag rows (s\<lparr>ro_roles := update_where P f (ro_roles s)\<rparr>)"
proof -
  from assms(1) obtain r where r: "find_role rid s = Some r" by (auto simp: sealed_def)
  then have "find_role rid (s\<lparr>ro_roles := update_where P f (ro_roles s)\<rparr>) = Some (if P r then f r else r)"
    using assms(2) by (simp add: find_role_def find_update_key)
  with assms(1) assms(3) [OF r] r show ?thesis by (cases "P r") (simp_all add: sealed_def role_rows_def)
qed

lemma filter_other: "i \<noteq> j \<Longrightarrow> filter (\<lambda>x. k x \<noteq> i \<and> k x = j) xs = filter (\<lambda>x. k x = j) xs"
  by (rule filter_cong) auto

lemma sealed_delete:
  assumes "sealed rid name flag rows s" "i \<noteq> rid"
  shows "sealed rid name flag rows (delete_role i s)"
proof -
  have "find_where (\<lambda>r. rd_id r = rid) (filter (\<lambda>r. rd_id r \<noteq> i) rs) = find_where (\<lambda>r. rd_id r = rid) rs" for rs :: "role_def list"
    using assms(2) by (induction rs) auto
  then show ?thesis
    using assms filter_other [OF assms(2), of ur_roleId] filter_other [OF assms(2), of fst]
    by (auto simp: sealed_def find_role_def role_rows_def delete_role_def)
qed

lemma sealed_give:
  assumes "give_role uid i by s = Inr s1" "sealed rid name flag rows s" "i \<noteq> rid"
  shows "sealed rid name flag rows s1"
  using assms by (auto simp: give_role_def sealed_def find_role_def role_rows_def split: if_splits)

lemma sealed_temporary:
  "sealed rid name flag rows s \<Longrightarrow> tr_roleId t \<noteq> rid \<Longrightarrow> sealed rid name flag rows (s\<lparr>ro_temporary := ro_temporary s @ [t]\<rparr>)"
  by (auto simp: sealed_def find_role_def role_rows_def)

lemma sealed_take:
  assumes "sealed rid name flag rows s" "i \<noteq> rid" "\<And>t. tr_roleId (f t) = tr_roleId t \<and> tr_status (f t) \<noteq> TA_ACTIVE"
  shows "sealed rid name flag rows (s\<lparr>ro_userRoles := filter (\<lambda>ur. \<not> (ur_userId ur = uid \<and> ur_roleId ur = i)) (ro_userRoles s),
    ro_temporary := update_where P f (ro_temporary s)\<rparr>)"
proof -
  have "filter (\<lambda>ur. ur_roleId ur = rid) (filter (\<lambda>ur. \<not> (ur_userId ur = uid \<and> ur_roleId ur = i)) xs) = filter (\<lambda>ur. ur_roleId ur = rid) xs" for xs
    using assms(2) by (induction xs) auto
  moreover have "tr_status t \<noteq> TA_ACTIVE" if t: "t \<in> set (update_where P f (ro_temporary s))" "tr_roleId t = rid" for t
  proof -
    from t(1) obtain q where "q \<in> set (ro_temporary s)" "t = (if P q then f q else q)" by (auto simp: in_update_where)
    with assms t(2) show ?thesis by (cases "P q") (auto simp: sealed_def)
  qed
  ultimately show ?thesis using assms(1) by (auto simp: sealed_def find_role_def role_rows_def)
qed

lemma sealed_lifecycle:
  assumes "sealed rid name flag rows s"
  shows "fresh (re_newId env) s \<Longrightarrow> sealed rid name flag rows (snd (create_write env actor nm d s))"
    and "fresh (re_newId env) s \<Longrightarrow> sealed rid name flag rows (snd (create_role env actor nm d s))"
    and "sealed rid name flag rows (snd (update_role actor i nm' d' s))"
    and "sealed rid name flag rows (snd (remove_role actor i s))"
    and "fresh (re_newId env) s \<Longrightarrow> sealed rid name flag rows (snd (clone_role env actor i nm d s))"
    and "fresh (re_newId env) s \<Longrightarrow> sealed rid name flag rows (snd (applyTemplate env actor i nm' d s))"
    and "sealed rid name flag rows (snd (archive env actor i d s))"
    and "sealed rid name flag rows (snd (unarchive actor i d s))"
proof -
  note prot = sealed_protected [OF assms] and ids = sealed_ids [OF assms]
  have cw: "fresh (re_newId env) s \<Longrightarrow> sealed rid name flag rows (snd (createRoleWithPermissions env actor action nm d ps au s))" for action nm d ps au
    using assms sealed_add(2) [OF assms, of "\<lparr>rd_id = re_newId env, rd_name = nm, rd_description = d, rd_isProtected = False,
        rd_archivedAt = None, rd_archivedById = None\<rparr>"] ids
    by (auto simp: createRoleWithPermissions_def Let_def split: option.splits)
  show c: "fresh (re_newId env) s \<Longrightarrow> sealed rid name flag rows (snd (create_write env actor nm d s))"
    using assms ids by (auto simp: create_write_def Let_def sealed_add split: option.splits)
  show "fresh (re_newId env) s \<Longrightarrow> sealed rid name flag rows (snd (create_role env actor nm d s))"
    using assms c by (auto simp: create_role_def split: option.splits)
  show "fresh (re_newId env) s \<Longrightarrow> sealed rid name flag rows (snd (clone_role env actor i nm d s))"
    using assms cw by (auto simp: clone_role_def split: sum.splits)
  show "fresh (re_newId env) s \<Longrightarrow> sealed rid name flag rows (snd (applyTemplate env actor i nm' d s))"
    using assms cw by (auto simp: applyTemplate_def Let_def split: option.splits)
  show "sealed rid name flag rows (snd (remove_role actor i s))"
    using assms prot by (cases "i = rid") (auto simp: remove_role_def remove_tx_def sealed_delete find_role_def dest: find_where_SomeD split: option.splits)
  show "sealed rid name flag rows (snd (update_role actor i nm' d' s))"
  proof (cases "find_role i s")
    case (Some role)
    then have role: "rd_id role = i" by (auto simp: find_role_def dest: find_where_SomeD)
    have "sealed rid name flag rows (s\<lparr>ro_roles := update_where (\<lambda>r. rd_id r = i) (\<lambda>r. r\<lparr>rd_name := (case nm' of None \<Rightarrow> rd_name r | Some n \<Rightarrow> n),
        rd_description := (case d' of None \<Rightarrow> rd_description r | Some d \<Rightarrow> d)\<rparr>) (ro_roles s)\<rparr>)"
      if ok: "\<not> (isProtected role \<and> nm' \<noteq> None \<and> nm' \<noteq> Some (rd_name role))"
    proof (rule sealed_update [OF assms])
      fix r assume r: "find_role rid s = Some r" "rd_id r = i"
      then have "rid = i" by (auto simp: find_role_def dest: find_where_SomeD)
      with Some r have "r = role" by simp
      with ok prot [OF r(1)] show "rd_name (r\<lparr>rd_name := (case nm' of None \<Rightarrow> rd_name r | Some n \<Rightarrow> n),
          rd_description := (case d' of None \<Rightarrow> rd_description r | Some d \<Rightarrow> d)\<rparr>) = rd_name r \<and>
        rd_isProtected (r\<lparr>rd_name := (case nm' of None \<Rightarrow> rd_name r | Some n \<Rightarrow> n),
          rd_description := (case d' of None \<Rightarrow> rd_description r | Some d \<Rightarrow> d)\<rparr>) = rd_isProtected r"
        by (auto split: option.splits)
    qed simp
    with Some assms role show ?thesis by (auto simp: update_role_def update_write_def Let_def split: option.splits)
  qed (use assms in \<open>simp add: update_role_def\<close>)
  show "sealed rid name flag rows (snd (unarchive actor i d s))"
    using assms by (auto simp: unarchive_def intro!: sealed_update split: sum.splits)
  have "sealed rid name flag rows (s\<lparr>ro_roles := update_where (\<lambda>r. rd_id r = i) (\<lambda>r. r\<lparr>rd_archivedAt := Some (re_now env),
      rd_archivedById := Some (cu_id actor)\<rparr>) (ro_roles s)\<rparr>)"
    using assms by (auto intro!: sealed_update)
  then have "sealed rid name flag rows (s\<lparr>ro_roles := update_where (\<lambda>r. rd_id r = i) (\<lambda>r. r\<lparr>rd_archivedAt := Some (re_now env),
      rd_archivedById := Some (cu_id actor)\<rparr>) (ro_roles s), ro_requests := qs\<rparr>)" for qs
    using sealed_frames(3) by (metis (no_types, lifting) role_state.update_convs(6))
  then show "sealed rid name flag rows (snd (archive env actor i d s))"
    using assms by (auto simp: archive_def Let_def split: sum.splits)
qed

lemma sealed_assignment:
  assumes "sealed rid name flag rows s"
  shows "sealed rid name flag rows (snd (assignToUser actor i uid d s))"
    and "sealed rid name flag rows (snd (assignTemporarily env actor i uid until d s))"
    and "sealed rid name flag rows (snd (removeFromUser env actor i uid d s))"
proof -
  have other: "i \<noteq> rid" if "loadRoleOrThrow i s = Inr r" "\<not> isProtected r" for r
    using that sealed_protected [OF assms] by (auto simp: loadRoleOrThrow_def split: option.splits)
  then have free: "i \<noteq> rid" if "loadRoleOrThrow i s = Inr r" "assertRoleAssignable actor r action = None" for r action
    using that by (auto simp: assertRoleAssignable_def unassignable_def split: if_splits option.splits)
  show "sealed rid name flag rows (snd (assignToUser actor i uid d s))"
    using assms by (auto simp: assignToUser_def split: sum.splits option.splits dest: free sealed_give [OF _ assms])
  show "sealed rid name flag rows (snd (assignTemporarily env actor i uid until d s))"
    using assms by (auto simp: assignTemporarily_def Let_def intro!: sealed_temporary split: sum.splits option.splits
        dest: free sealed_give [OF _ assms])
  show "sealed rid name flag rows (snd (removeFromUser env actor i uid d s))"
    using assms other sealed_take [OF assms] by (auto simp: removeFromUser_def split: sum.splits)
qed

lemma sealed_bulk: "sealed rid name flag rows s \<Longrightarrow> sealed rid name flag rows (snd (role_bulk_loop env actor b i d uids s))"
  by (induction uids arbitrary: s) (auto simp: case_prod_beta bulk_one_def sealed_assignment split: sum.splits)

lemma sealed_expire_one:
  assumes "sealed rid name flag rows s" "tr_roleId t \<noteq> rid"
  shows "sealed rid name flag rows (expire_one env t s)"
  unfolding expire_one_def sealed_frames by (rule sealed_take [OF assms]) simp

lemma sealed_expire:
  "sealed rid name flag rows s \<Longrightarrow> \<forall>t \<in> set ts. tr_roleId t \<noteq> rid \<Longrightarrow>
    sealed rid name flag rows (foldl (\<lambda>s t. expire_one env t s) s ts)"
  by (induction ts arbitrary: s) (auto simp: sealed_expire_one)

lemma sealed_requests:
  assumes "sealed rid name flag rows s"
  shows "sealed rid name flag rows (expireStaleRequests env s)"
    and "sealed rid name flag rows (snd (requestAssignment env actor i uid d s))"
    and "sealed rid name flag rows (snd (reject_write env actor q label nt s))"
    and "aq_roleId q \<noteq> rid \<Longrightarrow> sealed rid name flag rows (snd (approve_request env actor q label d s))"
    and "sealed rid name flag rows (snd (reviewAssignmentRequest env actor qid b d s))"
proof -
  show st: "sealed rid name flag rows (expireStaleRequests env s)"
    using assms by (simp add: expireStaleRequests_def Let_def sealed_def find_role_def role_rows_def)
  show "sealed rid name flag rows (snd (requestAssignment env actor i uid d s))"
    using assms st by (auto simp: requestAssignment_def Let_def split: sum.splits option.splits)
  show rej: "sealed rid name flag rows (snd (reject_write env actor q label nt s))" for q label nt
    using assms by (simp add: reject_write_def)
  show app: "aq_roleId q \<noteq> rid \<Longrightarrow> sealed rid name flag rows (snd (approve_request env actor q label d s))" for q label d
    using assms by (auto simp: approve_request_def approve_tx_def intro: sealed_give split: sum.splits if_splits)
  have free: "aq_roleId q \<noteq> rid" if "find_role (aq_roleId q) s = Some r" "assertRoleAssignable actor r action = None" for q r action
    using that sealed_protected [OF assms] by (auto simp: assertRoleAssignable_def unassignable_def split: if_splits option.splits)
  then show "sealed rid name flag rows (snd (reviewAssignmentRequest env actor qid b d s))"
    using assms rej by (auto simp: reviewAssignmentRequest_def Let_def split: option.splits sum.splits intro!: app dest: free)
qed

interpretation sealed_role: invariant_system role_sys "sealed rid name flag rows" for rid name flag rows
proof
  fix s t assume "role_sys s t" and inv: "sealed rid name flag rows s"
  from \<open>role_sys s t\<close> show "sealed rid name flag rows t"
  proof cases
    case (approve_late q actor role env label d)
    then have "aq_roleId q \<noteq> rid" using sealed_protected [OF inv] by auto
    with approve_late show ?thesis using sealed_requests(4) [OF inv] by simp
  next
    case (bulk env actor rid' b uids d)
    then show ?thesis using sealed_bulk [OF inv] by (simp add: bulkAssign_role_def case_prod_beta)
  next
    case (expire env)
    have "\<forall>t \<in> set (take 200 (filter (due (re_now env)) (ro_temporary s))). tr_roleId t \<noteq> rid"
      using inv by (auto simp: sealed_def due_def dest!: in_set_takeD)
    from sealed_expire [OF inv this] expire show ?thesis by (simp add: expireTemporaryAssignments_def Let_def)
  qed (auto intro: sealed_lifecycle [OF inv] sealed_assignment [OF inv] sealed_requests [OF inv])
qed

text \<open>
  C24. No sequence of operations of the role service touches a protected role: it keeps its row under its
  name, exactly its holders and exactly its permissions.
\<close>

theorem protected_roles_untouched:
  assumes "role_sys\<^sup>*\<^sup>* s0 s" "find_role rid s0 = Some r" "isProtected r"
    and "\<forall>t \<in> set (ro_temporary s0). tr_roleId t = rid \<longrightarrow> tr_status t \<noteq> TA_ACTIVE"
  shows "(\<exists>r'. find_role rid s = Some r' \<and> rd_name r' = rd_name r \<and> isProtected r') \<and>
    filter (\<lambda>ur. ur_roleId ur = rid) (ro_userRoles s) = filter (\<lambda>ur. ur_roleId ur = rid) (ro_userRoles s0) \<and>
    filter (\<lambda>g. fst g = rid) (ro_grants s) = filter (\<lambda>g. fst g = rid) (ro_grants s0)"
proof -
  have "sealed rid (rd_name r) (rd_isProtected r) (role_rows rid s0) s0"
    using assms(2-4) by (simp add: sealed_def isProtected_def)
  with assms(1) have "sealed rid (rd_name r) (rd_isProtected r) (role_rows rid s0) s" by (rule sealed_role.reach_inv)
  then show ?thesis by (auto simp: sealed_def role_rows_def isProtected_def)
qed

section \<open>Permissions of a role\<close>

lemma permission_name_known:
  assumes "distinct (map pm_id (ro_permissions s))" "p \<in> set (ro_permissions s)"
  shows "permission_name (pm_id p) s = [pm_name p]"
proof -
  have "filter (\<lambda>q. k q = k p) xs = [p]" if "distinct (map k xs)" "p \<in> set xs" for k :: "permission_row \<Rightarrow> jstring" and xs
    using that by (induction xs) (auto simp: filter_empty_conv image_iff)
  from this [OF assms] show ?thesis by (simp add: permission_name_def)
qed

lemma set_role_permissions:
  "set (role_permissions rid s) = (\<Union>g \<in> {g \<in> set (ro_grants s). fst g = rid}. set (permission_name (snd g) s))"
  by (auto simp: role_permissions_def)

lemma with_permissions_ok:
  assumes "find_role rid s = Some r" "\<not> isPermissionLockedRole (rd_name r)" "set names \<subseteq> pm_name ` set (ro_permissions s)"
  shows "with_permissions actor rid names action s body = body r (filter (\<lambda>p. pm_name p \<in> set names) (ro_permissions s)) s"
proof -
  have "filter (\<lambda>n. n \<notin> set (map pm_name (filter (\<lambda>p. pm_name p \<in> set names) (ro_permissions s)))) names = []"
    using assms(3) by (auto simp: filter_empty_conv)
  then have "resolvePermissionsOrThrow actor r names action s = (Inr (filter (\<lambda>p. pm_name p \<in> set names) (ro_permissions s)), s)"
    by (simp only: resolvePermissionsOrThrow_def Let_def) simp
  with assms(1,2) show ?thesis by (simp add: with_permissions_def load_role_def assertPermissionsEditable_def)
qed

text \<open>
  Setting the permissions of a role makes them exactly the ones asked for and leaves every other role
  alone. The sessions of the role's holders end exactly when something was taken away.
\<close>

theorem set_permissions_exact:
  assumes "find_role rid s = Some r" "\<not> isPermissionLockedRole (rd_name r)"
    and "set names \<subseteq> pm_name ` set (ro_permissions s)"
    and "distinct (map pm_id (ro_permissions s))"
    and "snd ` set (ro_grants s) \<subseteq> pm_id ` set (ro_permissions s)"
  shows "fst (setForRole False actor rid names s) = Inr (set names) \<and>
    set (role_permissions rid (snd (setForRole False actor rid names s))) = set names \<and>
    (other \<noteq> rid \<longrightarrow> role_permissions other (snd (setForRole False actor rid names s)) = role_permissions other s) \<and>
    ro_sessions (snd (setForRole False actor rid names s)) =
      (if set (role_permissions rid s) \<subseteq> set names then ro_sessions s
       else filter (\<lambda>u. u \<notin> set (role_holders rid s)) (ro_sessions s))"
proof -
  define ps where "ps = filter (\<lambda>p. pm_name p \<in> set names) (ro_permissions s)"
  define current where "current = map snd (filter (\<lambda>g. fst g = rid) (ro_grants s))"
  define toAdd where "toAdd = filter (\<lambda>p. pm_id p \<notin> set current) ps"
  define toRemove where "toRemove = filter (\<lambda>i. i \<notin> set (map pm_id ps)) current"
  define grants where "grants = filter (\<lambda>g. \<not> (fst g = rid \<and> snd g \<in> set toRemove)) (ro_grants s) @ map (\<lambda>p. (rid, pm_id p)) toAdd"
  define t where "t = snd (setForRole False actor rid names s)"
  note name1 = permission_name_known [OF assms(4)]
  have names: "set (map pm_name ps) = set names"
    using assms(3) by (auto simp: ps_def)
  have run: "fst (setForRole False actor rid names s) = findForRole rid t \<and> ro_roles t = ro_roles s \<and> ro_permissions t = ro_permissions s \<and>
      ro_grants t = grants \<and> ro_sessions t = (if toRemove = [] then ro_sessions s else filter (\<lambda>u. u \<notin> set (role_holders rid s)) (ro_sessions s))"
  proof (cases "toAdd = [] \<and> toRemove = []")
    case True
    then show ?thesis
      unfolding t_def setForRole_def with_permissions_ok [OF assms(1-3)] grants_def toAdd_def toRemove_def current_def ps_def
      by (simp add: Let_def)
  next
    case False
    have h: "role_holders rid (s\<lparr>ro_grants := g\<rparr>) = role_holders rid s" for g by (simp add: role_holders_def)
    from False show ?thesis
      unfolding t_def setForRole_def with_permissions_ok [OF assms(1-3)] grants_def toAdd_def toRemove_def current_def ps_def
      by (auto simp: invalidateRoleHolders_def h Let_def)
  qed
  have pn: "permission_name i t = permission_name i s" for i using run by (simp add: permission_name_def)
  have mine: "{g \<in> set grants. fst g = rid} = (\<lambda>p. (rid, pm_id p)) ` set ps"
    using assms(5) by (auto simp: grants_def toAdd_def toRemove_def current_def)
  have "set (role_permissions rid t) = (\<Union>p \<in> set ps. set (permission_name (pm_id p) s))"
    using run mine pn by (simp add: set_role_permissions)
  also have "\<dots> = pm_name ` set ps" using name1 by (auto simp: ps_def)
  finally have exact: "set (role_permissions rid t) = set names" using names by simp
  have others: "role_permissions other t = role_permissions other s" if "other \<noteq> rid"
  proof -
    have "filter (\<lambda>g. fst g = other) grants = filter (\<lambda>g. fst g = other) (ro_grants s)"
      using that by (auto simp: grants_def intro!: filter_cong)
    then show ?thesis using run pn by (simp add: role_permissions_def)
  qed
  have "toRemove = [] \<longleftrightarrow> set (role_permissions rid s) \<subseteq> set names"
  proof
    assume "toRemove = []"
    then show "set (role_permissions rid s) \<subseteq> set names"
      using names name1 by (force simp: set_role_permissions toRemove_def current_def filter_empty_conv ps_def)
  next
    assume sub: "set (role_permissions rid s) \<subseteq> set names"
    have "i \<in> set (map pm_id ps)" if "i \<in> set current" for i
    proof -
      from that have g: "(rid, i) \<in> set (ro_grants s)" by (auto simp: current_def)
      with assms(5) obtain p where p: "p \<in> set (ro_permissions s)" "pm_id p = i" by force
      with g have "pm_name p \<in> set (role_permissions rid s)" using name1 [OF p(1)] by (force simp: set_role_permissions)
      with sub p show ?thesis by (auto simp: ps_def)
    qed
    then show "toRemove = []" by (simp add: toRemove_def filter_empty_conv)
  qed
  with run exact others show ?thesis
    using assms(1) by (simp add: t_def [symmetric] findForRole_def find_role_def)
qed

section \<open>The end of temporary access\<close>

definition ended :: "jstring \<Rightarrow> jstring \<Rightarrow> role_state \<Rightarrow> bool" where
  "ended uid rid s \<longleftrightarrow> rid \<notin> set (roles_of uid s) \<and> uid \<notin> set (ro_sessions s)"

lemma roles_of_filter:
  assumes "ro_userRoles t = filter (\<lambda>ur. \<not> (ur_userId ur = v \<and> ur_roleId ur = rid)) (ro_userRoles s)"
  shows "roles_of uid t = filter (\<lambda>r. \<not> (uid = v \<and> r = rid)) (roles_of uid s)"
  unfolding roles_of_def assms filter_map filter_filter by (rule arg_cong [where f = "map ur_roleId"], rule filter_cong) auto

lemma expire_one_fields:
  "ro_temporary (expire_one env t s) = update_where (\<lambda>q. tr_id q = tr_id t)
     (\<lambda>q. q\<lparr>tr_status := TA_EXPIRED, tr_endedAt := Some (re_now env)\<rparr>) (ro_temporary s)"
  "ro_sessions (expire_one env t s) = filter (\<lambda>u. u \<noteq> tr_userId t) (ro_sessions s)"
  "roles_of uid (expire_one env t s) = filter (\<lambda>r. \<not> (uid = tr_userId t \<and> r = tr_roleId t)) (roles_of uid s)"
proof -
  show "roles_of uid (expire_one env t s) = filter (\<lambda>r. \<not> (uid = tr_userId t \<and> r = tr_roleId t)) (roles_of uid s)"
    by (rule roles_of_filter) (simp add: expire_one_def)
qed (simp_all add: expire_one_def refreshUserAccess_def)

lemma expire_keeps_ended: "ended uid rid s \<Longrightarrow> ended uid rid (foldl (\<lambda>s t. expire_one env t s) s ts)"
  by (induction ts arbitrary: s) (auto simp: ended_def expire_one_fields)

lemma expire_ends: "t \<in> set ts \<Longrightarrow> ended (tr_userId t) (tr_roleId t) (foldl (\<lambda>s t. expire_one env t s) s ts)"
proof (induction ts arbitrary: s)
  case (Cons q ts)
  have "ended (tr_userId q) (tr_roleId q) (expire_one env q s)"
    by (simp add: ended_def expire_one_fields)
  with Cons show ?case by (auto intro: expire_keeps_ended)
qed simp

text \<open>Rows of the table after the job: those that were taken are ended, the others as before.\<close>

lemma expire_rows:
  "ro_temporary (foldl (\<lambda>s t. expire_one env t s) s ts) =
    update_where (\<lambda>q. tr_id q \<in> tr_id ` set ts) (\<lambda>q. q\<lparr>tr_status := TA_EXPIRED, tr_endedAt := Some (re_now env)\<rparr>) (ro_temporary s)"
  by (induction ts arbitrary: s) (auto simp: expire_one_fields update_where_def)

text \<open>
  C25. One run of the expiry job ends every temporary assignment that is due, up to two hundred: the
  role is gone from its user and the user's sessions with it, nothing is left due, and its count is the
  number of assignments ended.
\<close>

theorem expired_access_ends:
  assumes "length (filter (due (re_now env)) (ro_temporary s)) \<le> 200" "t \<in> set (ro_temporary s)" "due (re_now env) t"
  shows "tr_roleId t \<notin> set (roles_of (tr_userId t) (snd (expireTemporaryAssignments env s))) \<and>
    tr_userId t \<notin> set (ro_sessions (snd (expireTemporaryAssignments env s))) \<and>
    filter (due (re_now env)) (ro_temporary (snd (expireTemporaryAssignments env s))) = [] \<and>
    fst (expireTemporaryAssignments env s) = count_where (due (re_now env)) (ro_temporary s)"
proof -
  define ts where "ts = filter (due (re_now env)) (ro_temporary s)"
  have run: "expireTemporaryAssignments env s = (length ts, foldl (\<lambda>s t. expire_one env t s) s ts)"
    using assms(1) by (simp add: expireTemporaryAssignments_def ts_def Let_def)
  have "ended (tr_userId t) (tr_roleId t) (snd (expireTemporaryAssignments env s))"
    using expire_ends [of t ts] assms(2,3) by (simp add: run) (simp add: ts_def)
  moreover have left: "\<not> due (re_now env) q" if q: "q \<in> set (ro_temporary (snd (expireTemporaryAssignments env s)))" for q
  proof -
    from q obtain r where r: "r \<in> set (ro_temporary s)"
        "q = (if tr_id r \<in> tr_id ` set ts then r\<lparr>tr_status := TA_EXPIRED, tr_endedAt := Some (re_now env)\<rparr> else r)"
      by (auto simp: run expire_rows in_update_where)
    show ?thesis
    proof (cases "tr_id r \<in> tr_id ` set ts")
      case True
      with r(2) show ?thesis by (simp add: due_def)
    next
      case False
      then have "r \<notin> set ts" by auto
      with r False show ?thesis by (simp add: ts_def)
    qed
  qed
  moreover have "fst (expireTemporaryAssignments env s) = count_where (due (re_now env)) (ro_temporary s)"
    by (simp add: run ts_def count_where_def)
  ultimately show ?thesis unfolding ended_def filter_empty_conv by blast
qed

text \<open>
  Removing a role by hand never leaves a user without one, but the job does not look: who holds nothing
  else any more has no role after it.
\<close>

lemma removal_leaves_a_role:
  assumes "fst (removeFromUser env actor rid uid d s) = Inr ()" "distinct (roles_of uid s)"
  shows "roles_of uid (snd (removeFromUser env actor rid uid d s)) \<noteq> []"
proof -
  from assms(1) have two: "1 < length (roles_of uid s)" and st: "ro_userRoles (snd (removeFromUser env actor rid uid d s)) =
      filter (\<lambda>ur. \<not> (ur_userId ur = uid \<and> ur_roleId ur = rid)) (ro_userRoles s)"
    by (auto simp: removeFromUser_def split: sum.splits if_splits)
  have "roles_of uid (snd (removeFromUser env actor rid uid d s)) = filter (\<lambda>r. r \<noteq> rid) (roles_of uid s)"
    using roles_of_filter [OF st, of uid] by simp
  moreover have "filter (\<lambda>r. r \<noteq> rid) xs \<noteq> []" if "distinct xs" "1 < length xs" for xs :: "jstring list"
  proof
    assume "filter (\<lambda>r. r \<noteq> rid) xs = []"
    then have "set xs \<subseteq> {rid}" by (auto simp: filter_empty_conv)
    with that show False using card_mono [of "{rid}" "set xs"] distinct_card [of xs] by simp
  qed
  ultimately show ?thesis using two assms(2) by metis
qed

lemma expiry_can_leave_none:
  assumes "roles_of (tr_userId t) s = [tr_roleId t]"
  shows "roles_of (tr_userId t) (expire_one env t s) = []"
  using assms by (simp add: expire_one_fields)

text \<open>The second filter of the duty report changes nothing, so conflicts inside one role are repeated for its holders.\<close>

lemma conflicts_filter_void: "snd (conflicts s) = acrossRoles s"
proof -
  have "1 < length (roles_of (fst e) s)" if "e \<in> set (acrossRoles s)" for e
    using that by (auto simp: acrossRoles_def Let_def)
  then show ?thesis by (simp add: conflicts_def)
qed

section \<open>Instances\<close>

definition role_admin :: "jstring \<Rightarrow> current_user" where
  "role_admin i = \<lparr>cu_id = i, cu_roles = [''SUPER_ADMIN'']\<rparr>"

definition plain_role :: "jstring \<Rightarrow> jstring \<Rightarrow> role_def" where
  "plain_role i name = \<lparr>rd_id = i, rd_name = name, rd_description = None, rd_isProtected = False, rd_archivedAt = None, rd_archivedById = None\<rparr>"

definition small_office :: role_state where
  "small_office = \<lparr>ro_roles = [plain_role ''r0'' ''SUPER_ADMIN'', plain_role ''r1'' ''FINANCE'', plain_role ''r2'' ''HELPER''],
     ro_permissions = [\<lparr>pm_id = ''p1'', pm_name = ''DISBURSEMENTS_CREATE''\<rparr>, \<lparr>pm_id = ''p2'', pm_name = ''DASHBOARD_READ''\<rparr>],
     ro_grants = [(''r1'', ''p1''), (''r2'', ''p2'')],
     ro_users = [\<lparr>sf_id = ''c'', sf_name = None, sf_isActive = True, sf_isEmailVerified = True\<rparr>],
     ro_userRoles = [\<lparr>ur_userId = ''a'', ur_roleId = ''r0'', ur_assignedBy = None\<rparr>, \<lparr>ur_userId = ''c'', ur_roleId = ''r2'', ur_assignedBy = None\<rparr>],
     ro_requests = [], ro_temporary = [], ro_sessions = [''a'', ''c''], ro_log = []\<rparr>"

definition office_at :: "int \<Rightarrow> jstring \<Rightarrow> role_env" where
  "office_at now i = \<lparr>re_now = now, re_newId = i\<rparr>"

definition asked :: role_state where
  "asked = snd (requestAssignment (office_at 0 ''q1'') (role_admin ''a'') ''r1'' ''c'' (Some ''needed'') small_office)"

definition granted :: role_state where
  "granted = snd (reviewAssignmentRequest (office_at 1 ''x'') (role_admin ''b'') ''q1'' True None asked)"

lemma small_office_ok: "tables_ok small_office"
  by (simp add: tables_ok_def small_office_def plain_role_def)

lemma granted_reached: "role_sys\<^sup>*\<^sup>* small_office granted"
proof -
  have "fresh (re_newId (office_at 0 ''q1'')) small_office"
    by (simp add: fresh_def small_office_def plain_role_def office_at_def)
  then have "role_sys small_office asked" unfolding asked_def by (rule role_sys.request)
  moreover have "role_sys asked granted" unfolding granted_def by (rule role_sys.review)
  ultimately show ?thesis by (meson r_into_rtranclp rtranclp.rtrancl_into_rtrancl)
qed

theorem sensitive_roles_witness:
  "\<exists>q \<in> set (ro_requests granted). aq_requestedById q = ''a'' \<and>
    (\<exists>reviewer. aq_reviewedById q = Some reviewer \<and> reviewer \<noteq> ''a'')"
proof -
  let ?ur = "\<lparr>ur_userId = ''c'', ur_roleId = ''r1'', ur_assignedBy = Some ''a''\<rparr>"
  have "?ur \<in> set (ro_userRoles granted)" by code_simp
  moreover have "?ur \<notin> set (ro_userRoles small_office)" by (simp add: small_office_def)
  moreover have "isSensitiveRole (ur_roleId ?ur) granted" by code_simp
  ultimately have "\<exists>q \<in> set (ro_requests granted). aq_status q = RQ_APPROVED \<and> aq_roleId q = ur_roleId ?ur \<and>
      aq_targetUserId q = ur_userId ?ur \<and> ur_assignedBy ?ur = Some (aq_requestedById q) \<and>
      (\<exists>reviewer. aq_reviewedById q = Some reviewer \<and> reviewer \<noteq> aq_requestedById q)"
    by (rule sensitive_roles_need_two [OF granted_reached small_office_ok])
  then show ?thesis by auto
qed

theorem protected_roles_witness:
  "filter (\<lambda>ur. ur_roleId ur = ''r0'') (ro_userRoles granted) = [\<lparr>ur_userId = ''a'', ur_roleId = ''r0'', ur_assignedBy = None\<rparr>]"
  using protected_roles_untouched [OF granted_reached, of "''r0''" "plain_role ''r0'' ''SUPER_ADMIN''"]
  by (simp add: small_office_def find_role_def plain_role_def isProtected_def isProtectedRole_def PROTECTED_ROLE_NAMES_def)

theorem set_permissions_witness:
  "ro_sessions (snd (setForRole False (role_admin ''a'') ''r2'' [''DISBURSEMENTS_CREATE''] small_office)) = [''a'']"
proof -
  have held: "set (role_permissions ''r2'' small_office) = {''DASHBOARD_READ''}" by code_simp
  have who: "role_holders ''r2'' small_office = [''c'']" by code_simp
  have "find_role ''r2'' small_office = Some (plain_role ''r2'' ''HELPER'')" "\<not> isPermissionLockedRole (rd_name (plain_role ''r2'' ''HELPER''))"
    "set [''DISBURSEMENTS_CREATE''] \<subseteq> pm_name ` set (ro_permissions small_office)" "distinct (map pm_id (ro_permissions small_office))"
    "snd ` set (ro_grants small_office) \<subseteq> pm_id ` set (ro_permissions small_office)"
    by (simp_all add: small_office_def find_role_def plain_role_def isPermissionLockedRole_def PERMISSION_LOCKED_ROLE_NAMES_def)
  from set_permissions_exact [OF this, of "role_admin ''a''" "''r1''"] show ?thesis
    by (simp add: held who) (simp add: small_office_def)
qed

definition for_a_day :: role_state where
  "for_a_day = snd (assignTemporarily (office_at 0 ''t1'') (role_admin ''a'') ''r3'' ''c'' (Some 86400000) (Some ''holiday'')
     (small_office\<lparr>ro_roles := ro_roles small_office @ [plain_role ''r3'' ''DESK'']\<rparr>))"

theorem expired_access_witness:
  "''r3'' \<in> set (roles_of ''c'' for_a_day) \<and>
    ''r3'' \<notin> set (roles_of ''c'' (snd (expireTemporaryAssignments (office_at 86400000 ''x'') for_a_day)))"
proof
  show "''r3'' \<in> set (roles_of ''c'' for_a_day)" by code_simp
  obtain t where t: "ro_temporary for_a_day = [t]" "tr_userId t = ''c''" "tr_roleId t = ''r3''" "due 86400000 t"
  proof
    show "ro_temporary for_a_day = [\<lparr>tr_id = ''t1'', tr_userId = ''c'', tr_roleId = ''r3'', tr_grantedById = Some ''a'',
        tr_reason = ''holiday'', tr_expiresAt = 86400000, tr_status = TA_ACTIVE, tr_endedAt = None\<rparr>]" by code_simp
  qed (simp_all add: due_def)
  then show "''r3'' \<notin> set (roles_of ''c'' (snd (expireTemporaryAssignments (office_at 86400000 ''x'') for_a_day)))"
    using expired_access_ends [of "office_at 86400000 ''x''" for_a_day t] by (simp add: office_at_def)
qed

text \<open>
  The two-person rule above is about the role service. One person can give a harmless role and then, by the
  permission service, put a permission into it that should take two.
\<close>

lemma one_person_is_enough:
  "\<lparr>ur_userId = ''c'', ur_roleId = ''r3'', ur_assignedBy = Some ''a''\<rparr> \<in> set (ro_userRoles for_a_day) \<and>
    isSensitiveRole ''r3'' (snd (assignToRole (role_admin ''a'') ''r3'' [''DISBURSEMENTS_CREATE''] for_a_day)) \<and>
    ro_requests (snd (assignToRole (role_admin ''a'') ''r3'' [''DISBURSEMENTS_CREATE''] for_a_day)) = []"
proof (intro conjI)
  show "\<lparr>ur_userId = ''c'', ur_roleId = ''r3'', ur_assignedBy = Some ''a''\<rparr> \<in> set (ro_userRoles for_a_day)" by code_simp
  show "isSensitiveRole ''r3'' (snd (assignToRole (role_admin ''a'') ''r3'' [''DISBURSEMENTS_CREATE''] for_a_day))" by code_simp
  show "ro_requests (snd (assignToRole (role_admin ''a'') ''r3'' [''DISBURSEMENTS_CREATE''] for_a_day)) = []" by code_simp
qed

end
