(* ===== verification/Victim_Data.thy ===== *)
theory Victim_Data
  imports Payout Media
begin

text \<open>
  Victim profiles: the rows of \<open>prisma/schema/victim-profile.prisma\<close> and
  \<open>payout-destination.prisma\<close>, the status rules of
  \<open>src/modules/core/victim-profile/service/victim-profile.constants.ts\<close> and the shared parts of
  \<open>victim-profile-common.service.ts\<close>: gates and derived status, access and conflict checks, the
  version-checked write, the money totals.

  Every operation reads the profile first and writes it later with \<open>where: { id, updatedAt }\<close>.
  The operations are split accordingly: \<open>f_from\<close> takes the profile as it was read, which another
  call may have made stale, and \<open>f\<close> reads it from the state it runs in. The audit rows are read back
  by two operations; the log stands for them, so an emitted event counts as stored.
\<close>

section \<open>Rows\<close>

datatype profile_status = VP_PENDING | VP_UNDER_REVIEW | VP_VERIFIED | VP_CONSENT_PENDING | VP_APPROVED
  | VP_PUBLISHED | VP_REJECTED | VP_UNPUBLISHED | VP_CHANGES_REQUESTED | VP_WITHDRAWN | VP_COMPLETED

record vprofile =
  vp_id :: jstring
  vp_name :: "jstring option"
  vp_description :: "jstring option"
  vp_story :: "jstring option"
  vp_supportGoal :: "rat option"
  vp_media :: media
  vp_involvesChild :: bool
  vp_status :: profile_status
  vp_isVerified :: bool
  vp_isSafetyReviewed :: bool
  vp_hasConsent :: bool
  vp_consentAt :: "int option"
  vp_consentRecordedBy :: "jstring option"
  vp_isPrivacyReviewed :: bool
  vp_isAdminApproved :: bool
  vp_isPublished :: bool
  vp_createdAt :: int
  vp_updatedAt :: int
  vp_isChildSafetyReviewed :: bool
  vp_createdByUserId :: "jstring option"
  vp_idempotencyKey :: "jstring option"
  vp_mediaTotalBytes :: int
  vp_claimedByUserId :: "jstring option"
  vp_claimedAt :: "int option"
  vp_firstConfirmedBy :: "jstring option" \<comment> \<open>\<open>childSafetyFirstConfirmedByUserId\<close>\<close>
  vp_firstConfirmedAt :: "int option"
  vp_totalRaised :: rat
  vp_reviewNote :: "jstring option"
  vp_reviewNoteAt :: "int option"
  vp_creatorSeenAt :: "int option"
  vp_assignedReviewerId :: "jstring option"
  vp_assignedAt :: "int option"
  vp_completedAt :: "int option"
  vp_completionNote :: "jstring option"
  vp_isFeatured :: bool
  vp_featuredAt :: "int option"
  vp_fundingEndsAt :: "int option"
  vp_donationsPaused :: bool
  vp_donationsPausedReason :: "jstring option"
  vp_donationsPausedAt :: "int option"
  vp_takedownReason :: "jstring option"
  vp_takedownAt :: "int option"
  vp_takedownById :: "jstring option"
  vp_deletedAt :: "int option"
  vp_deletedById :: "jstring option"
  vp_deleteReason :: "jstring option"
  vp_legalHold :: bool
  vp_legalHoldReason :: "jstring option"
  vp_legalHoldAt :: "int option"
  vp_legalHoldById :: "jstring option"
  vp_anonymizedAt :: "int option"
  vp_consentedBy :: "jstring option"
  vp_consentNotes :: "jstring option"
  vp_consentDocuments :: "jstring list"
  vp_childFlagValue :: "bool option" \<comment> \<open>\<open>childFlagProposedValue\<close> and its companions\<close>
  vp_childFlagById :: "jstring option"
  vp_childFlagAt :: "int option"
  vp_childFlagReason :: "jstring option"
  vp_payoutsPaused :: bool

record pdestination =
  de_id :: jstring
  de_victimProfileId :: jstring
  de_bankName :: jstring
  de_bankCode :: jstring
  de_accountNumber :: jstring
  de_accountHolder :: jstring
  de_isVerified :: bool
  de_verifiedById :: "jstring option"
  de_verifiedAt :: "int option"
  de_updatedAt :: int

datatype vflag_status = VF_OPEN | VF_DISMISSED | VF_ACTIONED

datatype flag_resolution = FR_DISMISS | FR_UNPUBLISH | FR_PAUSE_DONATIONS

record vflag =
  vf_id :: jstring
  vf_profileId :: jstring
  vf_reporterId :: jstring
  vf_reason :: jstring
  vf_details :: "jstring option"
  vf_status :: vflag_status
  vf_resolution :: "flag_resolution option"
  vf_resolvedById :: "jstring option"
  vf_resolvedAt :: "int option"
  vf_note :: "jstring option"
  vf_createdAt :: int

datatype vappeal_status = VA_OPEN | VA_UPHELD | VA_OVERTURNED

record vappeal =
  va_id :: jstring
  va_profileId :: jstring
  va_authorId :: jstring
  va_message :: jstring
  va_status :: vappeal_status
  va_decidedById :: "jstring option"
  va_decidedAt :: "int option"
  va_decisionNote :: "jstring option"
  va_createdAt :: int

record vupdate =
  vu_id :: jstring
  vu_profileId :: jstring
  vu_authorId :: jstring
  vu_isStaff :: bool
  vu_title :: "jstring option"
  vu_body :: jstring
  vu_createdAt :: int

record vrevision =
  vr_profileId :: jstring
  vr_editedById :: jstring
  vr_reason :: jstring
  vr_changes :: "(jstring \<times> jstring option \<times> jstring) list"

record reviewer =
  rv_id :: jstring
  rv_isActive :: bool
  rv_roles :: "jstring list"

record victim_state =
  vs_profiles :: "vprofile list"
  vs_destinations :: "pdestination list"
  vs_payments :: "payment list"
  vs_disbursements :: "disbursement list"
  vs_flags :: "vflag list"
  vs_appeals :: "vappeal list"
  vs_updates :: "vupdate list"
  vs_revisions :: "vrevision list"
  vs_readStates :: "(jstring \<times> jstring) list" \<comment> \<open>profile and administrator\<close>
  vs_users :: "reviewer list"
  vs_created :: nat \<comment> \<open>rows created so far, counts the draws of \<open>uuid()\<close>\<close>
  vs_log :: "effect list"

record bank =
  bk_id :: jstring \<comment> \<open>\<open>String(b.id)\<close>\<close>
  bk_name :: jstring
  bk_isMobileMoney :: bool

text \<open>Clock, limits, generated ids, and Chapa's answer to the question for its banks.\<close>

record victim_env = media_env +
  ve_now :: int
  ve_maxAppeals :: nat
  ve_maxUpdatesPerDay :: nat
  ve_banks :: "bank list result"
  ve_newId :: "nat \<Rightarrow> jstring"

section \<open>Status rules\<close>

definition CREATOR_EDITABLE_STATUSES :: "profile_status list" where
  "CREATOR_EDITABLE_STATUSES = [VP_PENDING, VP_REJECTED, VP_CHANGES_REQUESTED]"

definition CREATOR_WITHDRAWABLE_STATUSES :: "profile_status list" where
  "CREATOR_WITHDRAWABLE_STATUSES = [VP_PENDING, VP_UNDER_REVIEW, VP_VERIFIED, VP_CONSENT_PENDING,
     VP_APPROVED, VP_CHANGES_REQUESTED]"

definition CREATOR_RESUBMITTABLE_STATUSES :: "profile_status list" where
  "CREATOR_RESUBMITTABLE_STATUSES = [VP_CHANGES_REQUESTED, VP_REJECTED]"

definition CHANGE_REQUESTABLE_STATUSES :: "profile_status list" where
  "CHANGE_REQUESTABLE_STATUSES = [VP_PENDING, VP_UNDER_REVIEW, VP_VERIFIED, VP_CONSENT_PENDING, VP_APPROVED]"

definition PIPELINE_STATUSES :: "profile_status list" where
  "PIPELINE_STATUSES = [VP_PENDING, VP_UNDER_REVIEW, VP_VERIFIED, VP_CONSENT_PENDING, VP_APPROVED]"

definition GATE_DRIVEN_STATUSES :: "profile_status list" where
  "GATE_DRIVEN_STATUSES = PIPELINE_STATUSES @ [VP_PUBLISHED]"

definition CLOSED_STATUSES :: "profile_status list" where
  "CLOSED_STATUSES = [VP_REJECTED, VP_WITHDRAWN, VP_COMPLETED]"

definition CHILD_FLAG_PROPOSAL_TTL_MS :: int where
  "CHILD_FLAG_PROPOSAL_TTL_MS = 72 * 60 * 60 * 1000"

fun STATUS_TRANSITIONS :: "profile_status \<Rightarrow> profile_status list" where
  "STATUS_TRANSITIONS VP_PENDING = [VP_UNDER_REVIEW, VP_CHANGES_REQUESTED, VP_REJECTED, VP_WITHDRAWN]"
| "STATUS_TRANSITIONS VP_UNDER_REVIEW = [VP_CONSENT_PENDING, VP_VERIFIED, VP_CHANGES_REQUESTED, VP_REJECTED, VP_WITHDRAWN]"
| "STATUS_TRANSITIONS VP_CONSENT_PENDING = [VP_UNDER_REVIEW, VP_VERIFIED, VP_CHANGES_REQUESTED, VP_REJECTED, VP_WITHDRAWN]"
| "STATUS_TRANSITIONS VP_VERIFIED = [VP_APPROVED, VP_CHANGES_REQUESTED, VP_REJECTED, VP_WITHDRAWN]"
| "STATUS_TRANSITIONS VP_APPROVED = [VP_PUBLISHED, VP_CHANGES_REQUESTED, VP_REJECTED, VP_WITHDRAWN]"
| "STATUS_TRANSITIONS VP_PUBLISHED = [VP_UNPUBLISHED, VP_UNPUBLISHED, VP_COMPLETED]"
| "STATUS_TRANSITIONS VP_UNPUBLISHED = [VP_PUBLISHED]"
| "STATUS_TRANSITIONS VP_CHANGES_REQUESTED = [VP_PENDING, VP_REJECTED, VP_WITHDRAWN]"
| "STATUS_TRANSITIONS VP_REJECTED = [VP_PENDING]"
| "STATUS_TRANSITIONS VP_WITHDRAWN = []"
| "STATUS_TRANSITIONS VP_COMPLETED = [VP_PUBLISHED]"

fun profile_status_name :: "profile_status \<Rightarrow> jstring" where
  "profile_status_name VP_PENDING = ''PENDING''"
| "profile_status_name VP_UNDER_REVIEW = ''UNDER_REVIEW''"
| "profile_status_name VP_VERIFIED = ''VERIFIED''"
| "profile_status_name VP_CONSENT_PENDING = ''CONSENT_PENDING''"
| "profile_status_name VP_APPROVED = ''APPROVED''"
| "profile_status_name VP_PUBLISHED = ''PUBLISHED''"
| "profile_status_name VP_REJECTED = ''REJECTED''"
| "profile_status_name VP_UNPUBLISHED = ''UNPUBLISHED''"
| "profile_status_name VP_CHANGES_REQUESTED = ''CHANGES_REQUESTED''"
| "profile_status_name VP_WITHDRAWN = ''WITHDRAWN''"
| "profile_status_name VP_COMPLETED = ''COMPLETED''"

definition jpstatus :: "profile_status \<Rightarrow> jval" where
  "jpstatus st = JStr (profile_status_name st)"

definition jbool_opt :: "bool option \<Rightarrow> jval" where
  "jbool_opt b = (case b of None \<Rightarrow> JNull | Some x \<Rightarrow> JBool x)"

section \<open>Gates\<close>

text \<open>The gates the two shared functions look at; \<open>bank\<close> is the answer of \<open>hasBankDetails\<close>.\<close>

definition getMissingApprovalGates :: "bool \<Rightarrow> vprofile \<Rightarrow> jstring list" where
  "getMissingApprovalGates bank g =
     (if \<not> vp_isVerified g then [''isVerified''] else [])
     @ (if \<not> vp_isSafetyReviewed g then [''isSafetyReviewed''] else [])
     @ (if vp_involvesChild g \<and> \<not> vp_isChildSafetyReviewed g then [''isChildSafetyReviewed''] else [])
     @ (if \<not> vp_hasConsent g then [''hasConsent''] else [])
     @ (if \<not> vp_isPrivacyReviewed g then [''isPrivacyReviewed''] else [])
     @ (if \<not> bank then [''hasBankDetails''] else [])"

definition deriveStatus :: "vprofile \<Rightarrow> profile_status" where
  "deriveStatus g =
     (let childSafetySatisfied = (\<not> vp_involvesChild g \<or> vp_isChildSafetyReviewed g) in
      if \<not> vp_isVerified g then VP_PENDING
      else if \<not> vp_isSafetyReviewed g \<or> \<not> childSafetySatisfied then VP_UNDER_REVIEW
      else if \<not> vp_hasConsent g then VP_CONSENT_PENDING
      else if \<not> vp_isPrivacyReviewed g then VP_UNDER_REVIEW
      else if \<not> vp_isAdminApproved g then VP_VERIFIED
      else VP_APPROVED)"

definition find_destination :: "jstring \<Rightarrow> victim_state \<Rightarrow> pdestination option" where
  "find_destination pid s = find_where (\<lambda>d. de_victimProfileId d = pid) (vs_destinations s)"

definition complete_destination :: "pdestination \<Rightarrow> bool" where
  "complete_destination d \<longleftrightarrow> de_isVerified d \<and> de_accountHolder d \<noteq> [] \<and> de_accountNumber d \<noteq> [] \<and>
     de_bankName d \<noteq> [] \<and> de_bankCode d \<noteq> []"

definition hasBankDetails :: "jstring \<Rightarrow> victim_state \<Rightarrow> bool" where
  "hasBankDetails pid s =
     (case find_destination pid s of None \<Rightarrow> False | Some d \<Rightarrow> complete_destination d)"

section \<open>Audit entries\<close>

definition vp_emit :: "effect \<Rightarrow> victim_state \<Rightarrow> victim_state" where
  "vp_emit e s = s\<lparr>vs_log := vs_log s @ [e]\<rparr>"

definition profileLabel :: "vprofile \<Rightarrow> jstring option" where
  "profileLabel p = (if vp_involvesChild p then Some (''Child profile '' @ take 8 (vp_id p)) else vp_name p)"

definition targetUserFor :: "current_user \<Rightarrow> vprofile \<Rightarrow> jstring option" where
  "targetUserFor actor p =
     (if truthy (vp_createdByUserId p) \<and> vp_createdByUserId p \<noteq> Some (cu_id actor)
      then vp_createdByUserId p else None)"

definition vp_audit :: "current_user \<Rightarrow> jstring \<Rightarrow> vprofile \<Rightarrow> audit_event" where
  "vp_audit actor action p =
     (audit_base (resolveActorType (cu_roles actor)) action ''VictimProfile'' (vp_id p))
       \<lparr>ae_userId := Some (cu_id actor), ae_entityLabel := profileLabel p\<rparr>"

definition emitProfileFailure :: "current_user \<Rightarrow> jstring \<Rightarrow> vprofile \<Rightarrow> jstring \<Rightarrow> audit_outcome
    \<Rightarrow> (jstring \<times> jval) list \<Rightarrow> (jstring \<times> jval) list \<Rightarrow> effect" where
  "emitProfileFailure actor action p reason outcome diff metadata =
     Audit ((vp_audit actor action p)\<lparr>ae_outcome := outcome, ae_severity := WARNING,
       ae_diff := [(''result'', JStr (if outcome = DENIED then ''denied'' else ''failure'')), (''reason'', JStr reason)] @ diff,
       ae_metadata := metadata\<rparr>)"

definition auditSuccess :: "current_user \<Rightarrow> jstring \<Rightarrow> vprofile \<Rightarrow> audit_severity \<Rightarrow> jstring option
    \<Rightarrow> (jstring \<times> jval) list \<Rightarrow> (jstring \<times> jval) list \<Rightarrow> effect" where
  "auditSuccess actor action p severity reason diff metadata =
     Audit ((vp_audit actor action p)\<lparr>ae_targetUserId := targetUserFor actor p, ae_severity := severity,
       ae_reason := reason, ae_diff := (''result'', JStr ''success'') # diff, ae_metadata := metadata\<rparr>)"

text \<open>The notification most operations send to the creator.\<close>

definition notify_creator :: "jstring \<Rightarrow> vprofile \<Rightarrow> (jstring \<times> jval) list \<Rightarrow> effect" where
  "notify_creator event p extra =
     Notify event ([(''userId'', jstr_opt (vp_createdByUserId p)), (''victimProfileId'', JStr (vp_id p))] @ extra)"

definition status_diff :: "vprofile \<Rightarrow> profile_status \<Rightarrow> (jstring \<times> jval) list" where
  "status_diff p st = [(''previousStatus'', jpstatus (vp_status p)), (''newStatus'', jpstatus st)]"

text \<open>
  The newest successful audit entry of one action about a profile:
  \<open>auditLog.findFirst({ where, orderBy: { createdAt: 'desc' } })\<close>, its user.
\<close>

fun audit_matches :: "jstring \<Rightarrow> jstring \<Rightarrow> effect \<Rightarrow> bool" where
  "audit_matches action pid (Audit a) = (ae_entity a = ''VictimProfile'' \<and> ae_entityId a = Some pid \<and>
     ae_action a = action \<and> ae_outcome a = SUCCESS)"
| "audit_matches _ _ _ = False"

fun audit_user :: "effect \<Rightarrow> jstring option" where
  "audit_user (Audit a) = ae_userId a"
| "audit_user _ = None"

definition last_actor :: "jstring \<Rightarrow> jstring \<Rightarrow> victim_state \<Rightarrow> jstring option" where
  "last_actor action pid s = (case find_where (audit_matches action pid) (rev (vs_log s)) of
     None \<Rightarrow> None | Some e \<Rightarrow> audit_user e)"

section \<open>Reading and writing profiles\<close>

definition find_vprofile :: "jstring \<Rightarrow> victim_state \<Rightarrow> vprofile option" where
  "find_vprofile pid s = find_where (\<lambda>p. vp_id p = pid) (vs_profiles s)"

definition getProfileOr404 :: "jstring \<Rightarrow> victim_state \<Rightarrow> (vprofile \<Rightarrow> 'a result \<times> victim_state) \<Rightarrow> 'a result \<times> victim_state" where
  "getProfileOr404 pid s k = (case find_vprofile pid s of
     None \<Rightarrow> (Inl (NotFound ''victim_profile_not_found''), s) | Some p \<Rightarrow> k p)"

definition getMineOr404 :: "current_user \<Rightarrow> jstring \<Rightarrow> victim_state \<Rightarrow> (vprofile \<Rightarrow> 'a result \<times> victim_state) \<Rightarrow> 'a result \<times> victim_state" where
  "getMineOr404 user pid s k =
     (case find_where (\<lambda>p. vp_id p = pid \<and> vp_createdByUserId p = Some (cu_id user) \<and> vp_deletedAt p = None) (vs_profiles s) of
        None \<Rightarrow> (Inl (NotFound ''victim_profile_not_found''), s) | Some p \<Rightarrow> k p)"

definition publicWhere :: "vprofile \<Rightarrow> bool" where
  "publicWhere p \<longleftrightarrow> vp_status p = VP_PUBLISHED \<and> vp_isPublished p \<and> vp_isVerified p \<and> vp_isSafetyReviewed p \<and>
     vp_hasConsent p \<and> vp_isPrivacyReviewed p \<and> vp_isAdminApproved p \<and> vp_deletedAt p = None"

definition assertPublishedProfile :: "jstring \<Rightarrow> victim_state \<Rightarrow> (vprofile \<Rightarrow> 'a result \<times> victim_state) \<Rightarrow> 'a result \<times> victim_state" where
  "assertPublishedProfile pid s k = (case find_where (\<lambda>p. vp_id p = pid \<and> publicWhere p) (vs_profiles s) of
     None \<Rightarrow> (Inl (NotFound ''victim_profile_not_found''), s) | Some p \<Rightarrow> k p)"

definition is_super :: "current_user \<Rightarrow> bool" where
  "is_super user \<longleftrightarrow> ''SUPER_ADMIN'' \<in> set (cu_roles user)"

definition assertAdminCanAccessProfile :: "current_user \<Rightarrow> vprofile \<Rightarrow> jstring \<Rightarrow> victim_state
    \<Rightarrow> 'a result \<times> victim_state \<Rightarrow> 'a result \<times> victim_state" where
  "assertAdminCanAccessProfile admin p action s rest =
     (if \<not> is_super admin \<and> truthy (vp_claimedByUserId p) \<and> vp_claimedByUserId p \<noteq> Some (cu_id admin)
      then (Inl (Forbidden ''victim_profile_claimed_by_another_admin''),
        vp_emit (emitProfileFailure admin action p ''claimed_by_another_admin'' DENIED []
          [(''claimedByUserId'', jstr_opt (vp_claimedByUserId p))]) s)
      else rest)"

definition vp_write :: "int \<Rightarrow> (vprofile \<Rightarrow> bool) \<Rightarrow> (vprofile \<Rightarrow> vprofile) \<Rightarrow> victim_state \<Rightarrow> victim_state" where
  "vp_write now P f s =
     s\<lparr>vs_profiles := update_where P (\<lambda>p. (f p)\<lparr>vp_updatedAt := now\<rparr>) (vs_profiles s)\<rparr>"

definition same_version :: "vprofile \<Rightarrow> vprofile \<Rightarrow> bool" where
  "same_version p q \<longleftrightarrow> vp_id q = vp_id p \<and> vp_updatedAt q = vp_updatedAt p"

definition transition_conflict :: "current_user \<Rightarrow> jstring \<Rightarrow> vprofile \<Rightarrow> effect" where
  "transition_conflict admin action p =
     emitProfileFailure admin action p ''victim_profile_transition_conflict'' FAILURE [] []"

definition conditionalUpdate :: "int \<Rightarrow> current_user \<Rightarrow> jstring \<Rightarrow> vprofile \<Rightarrow> (vprofile \<Rightarrow> vprofile)
    \<Rightarrow> victim_state \<Rightarrow> vprofile result \<times> victim_state" where
  "conditionalUpdate now admin action p f s =
     (if count_where (same_version p) (vs_profiles s) = 0
      then (Inl (BadRequest ''victim_profile_transition_conflict''),
            vp_emit (transition_conflict admin action p) s)
      else let s1 = vp_write now (same_version p) f s in
        (case find_vprofile (vp_id p) s1 of
           None \<Rightarrow> (Inl (PlainError ''No VictimProfile found''), s1) | Some q \<Rightarrow> (Inr q, s1)))"

definition invalidate :: "vprofile \<Rightarrow> victim_state \<Rightarrow> victim_state" where
  "invalidate p = vp_emit (Invalidate ''victim-profile'' (vp_id p))"

section \<open>Money\<close>

record money_totals =
  mt_raised :: rat
  mt_sent :: rat
  mt_onTheWay :: rat
  mt_waiting :: rat
  mt_paymentCount :: nat

fun add_money :: "disbursement_status \<times> rat \<Rightarrow> rat \<times> rat \<Rightarrow> rat \<times> rat" where
  "add_money (st, amount) (sent, onTheWay) =
     (if st = DIS_PAID then (sent + amount, onTheWay)
      else if st = DIS_CREATED \<or> st = DIS_SUBMITTED \<or> st = DIS_UNKNOWN then (sent, onTheWay + amount)
      else (sent, onTheWay))"

definition getMoneyTotals :: "jstring \<Rightarrow> victim_state \<Rightarrow> money_totals" where
  "getMoneyTotals pid s =
     (let paid = (\<lambda>p. p_victimProfileId p = pid \<and> p_status p = PAY_PAID);
          raised = sum_where paid p_amount (vs_payments s);
          (sent, onTheWay) = fold add_money (disbursement_groups (\<lambda>d. d_victimProfileId d = pid) d_amount (vs_disbursements s)) (0, 0);
          left = raised - sent - onTheWay
      in \<lparr>mt_raised = raised, mt_sent = sent, mt_onTheWay = onTheWay,
          mt_waiting = (if left < 0 then 0 else left), mt_paymentCount = count_where paid (vs_payments s)\<rparr>)"

definition hasUndeliveredMoney :: "jstring \<Rightarrow> victim_state \<Rightarrow> bool" where
  "hasUndeliveredMoney pid s =
     (let t = getMoneyTotals pid s in mt_waiting t > 0 \<or> mt_onTheWay t > 0)"

section \<open>Shared transitions\<close>

definition unpublishProfile_from :: "victim_env \<Rightarrow> current_user \<Rightarrow> vprofile \<Rightarrow> victim_state \<Rightarrow> vprofile result \<times> victim_state" where
  "unpublishProfile_from env admin p s =
     (let action = ''VICTIM_PROFILE_UNPUBLISHED'' in
      assertAdminCanAccessProfile admin p action s
       (if \<not> vp_isPublished p
        then (Inl (BadRequest ''victim_profile_not_published''),
          vp_emit (emitProfileFailure admin action p ''victim_profile_not_published'' FAILURE
            [(''currentStatus'', jpstatus (vp_status p))] []) s)
        else res_bind (conditionalUpdate (ve_now env) admin action p
              (\<lambda>q. q\<lparr>vp_status := VP_UNPUBLISHED, vp_isPublished := False\<rparr>) s)
            (\<lambda>u s1. (Inr u, vp_emit (notify_creator action p [])
               (vp_emit (auditSuccess admin action p INFO None (status_diff p VP_UNPUBLISHED) []) (invalidate p s1))))))"

definition unpublishProfile :: "victim_env \<Rightarrow> current_user \<Rightarrow> jstring \<Rightarrow> victim_state \<Rightarrow> vprofile result \<times> victim_state" where
  "unpublishProfile env admin pid s = getProfileOr404 pid s (\<lambda>p. unpublishProfile_from env admin p s)"

definition rejectProfile_from :: "victim_env \<Rightarrow> current_user \<Rightarrow> vprofile \<Rightarrow> victim_state \<Rightarrow> vprofile result \<times> victim_state" where
  "rejectProfile_from env admin p s =
     (let action = ''VICTIM_PROFILE_REJECTED'' in
      assertAdminCanAccessProfile admin p action s
       (if vp_isPublished p
        then (Inl (BadRequest ''published_profile_cannot_be_rejected''),
          vp_emit (emitProfileFailure admin action p ''published_profile_cannot_be_rejected'' FAILURE
            [(''currentStatus'', jpstatus (vp_status p))] []) s)
        else res_bind (conditionalUpdate (ve_now env) admin action p
              (\<lambda>q. q\<lparr>vp_status := VP_REJECTED, vp_isPublished := False\<rparr>) s)
            (\<lambda>u s1. (Inr u, vp_emit (notify_creator action p [])
               (vp_emit (auditSuccess admin action p INFO None (status_diff p VP_REJECTED) []) (invalidate p s1))))))"

definition rejectProfile :: "victim_env \<Rightarrow> current_user \<Rightarrow> jstring \<Rightarrow> victim_state \<Rightarrow> vprofile result \<times> victim_state" where
  "rejectProfile env admin pid s = getProfileOr404 pid s (\<lambda>p. rejectProfile_from env admin p s)"

definition resubmitProfile_from :: "victim_env \<Rightarrow> current_user \<Rightarrow> vprofile \<Rightarrow> victim_state \<Rightarrow> vprofile result \<times> victim_state" where
  "resubmitProfile_from env admin p s =
     (let action = ''VICTIM_PROFILE_RESUBMITTED''; status = deriveStatus p in
      assertAdminCanAccessProfile admin p action s
       (if vp_status p \<noteq> VP_REJECTED
        then (Inl (BadRequest ''victim_profile_not_rejected''),
          vp_emit (emitProfileFailure admin action p ''victim_profile_not_rejected'' FAILURE
            [(''currentStatus'', jpstatus (vp_status p))] []) s)
        else res_bind (conditionalUpdate (ve_now env) admin action p
              (\<lambda>q. q\<lparr>vp_status := status, vp_isPublished := False\<rparr>) s)
            (\<lambda>u s1. (Inr u, vp_emit (notify_creator action p
                 [(''status'', jpstatus status), (''actorId'', JStr (cu_id admin))])
               (vp_emit (auditSuccess admin action p INFO None (status_diff p status) []) (invalidate p s1))))))"

definition resubmitProfile :: "victim_env \<Rightarrow> current_user \<Rightarrow> jstring \<Rightarrow> victim_state \<Rightarrow> vprofile result \<times> victim_state" where
  "resubmitProfile env admin pid s = getProfileOr404 pid s (\<lambda>p. resubmitProfile_from env admin p s)"

definition pauseDonations_from :: "victim_env \<Rightarrow> current_user \<Rightarrow> vprofile \<Rightarrow> jstring \<Rightarrow> victim_state \<Rightarrow> vprofile result \<times> victim_state" where
  "pauseDonations_from env admin p reason s =
     (if vp_donationsPaused p then (Inl (BadRequest ''donations_already_paused''), s)
      else res_bind (conditionalUpdate (ve_now env) admin ''VICTIM_PROFILE_DONATIONS_PAUSED'' p
            (\<lambda>q. q\<lparr>vp_donationsPaused := True, vp_donationsPausedReason := Some reason,
                   vp_donationsPausedAt := Some (ve_now env)\<rparr>) s)
          (\<lambda>u s1. (Inr u, vp_emit (auditSuccess admin ''VICTIM_PROFILE_DONATIONS_PAUSED'' p WARNING (Some reason) [] [])
             (invalidate p s1))))"

definition pauseDonations :: "victim_env \<Rightarrow> current_user \<Rightarrow> jstring \<Rightarrow> jstring \<Rightarrow> victim_state \<Rightarrow> vprofile result \<times> victim_state" where
  "pauseDonations env admin pid reason s = getProfileOr404 pid s (\<lambda>p. pauseDonations_from env admin p reason s)"

end
