(* ===== verification/Victim_Review.thy ===== *)
theory Victim_Review
  imports Victim_Data
begin

text \<open>
  Review of victim profiles: claims, gates, publication and the transitions shown to administrators
  (\<open>victim-profile-review.service.ts\<close>), the two-person child-safety review, consent and the
  two-person change of the child flag (\<open>victim-profile-child-safety.service.ts\<close>).
\<close>

section \<open>Claims\<close>

definition claim_where :: "jstring \<Rightarrow> jstring option \<Rightarrow> vprofile \<Rightarrow> bool" where
  "claim_where pid who q \<longleftrightarrow> vp_id q = pid \<and> vp_claimedByUserId q = who"

definition fetch_profile :: "jstring \<Rightarrow> victim_state \<Rightarrow> (vprofile \<Rightarrow> 'a result \<times> victim_state) \<Rightarrow> 'a result \<times> victim_state" where
  "fetch_profile pid s k = (case find_vprofile pid s of
     None \<Rightarrow> (Inl (PlainError ''No VictimProfile found''), s) | Some p \<Rightarrow> k p)"

definition claimProfile_from :: "victim_env \<Rightarrow> current_user \<Rightarrow> vprofile \<Rightarrow> victim_state \<Rightarrow> vprofile result \<times> victim_state" where
  "claimProfile_from env admin p s =
     (let action = ''VICTIM_PROFILE_CLAIMED'';
          refuse = (\<lambda>meta. (Inl (Forbidden ''victim_profile_already_claimed''),
            vp_emit (emitProfileFailure admin action p ''victim_profile_already_claimed'' DENIED [] meta) s)) in
      if vp_claimedByUserId p = Some (cu_id admin) then (Inr p, s)
      else if truthy (vp_claimedByUserId p) then refuse [(''claimedByUserId'', jstr_opt (vp_claimedByUserId p))]
      else if count_where (claim_where (vp_id p) None) (vs_profiles s) = 0 then refuse [(''lostRace'', JBool True)]
      else let s1 = vp_write (ve_now env) (claim_where (vp_id p) None)
             (\<lambda>q. q\<lparr>vp_claimedByUserId := Some (cu_id admin), vp_claimedAt := Some (ve_now env)\<rparr>) s
           in fetch_profile (vp_id p) s1 (\<lambda>u. (Inr u,
             vp_emit (Audit ((vp_audit admin action u)\<lparr>ae_diff := [(''result'', JStr ''success'')]\<rparr>)) s1)))"

definition claimProfile :: "victim_env \<Rightarrow> current_user \<Rightarrow> jstring \<Rightarrow> victim_state \<Rightarrow> vprofile result \<times> victim_state" where
  "claimProfile env admin pid s = getProfileOr404 pid s (\<lambda>p. claimProfile_from env admin p s)"

definition unclaimProfile_from :: "victim_env \<Rightarrow> current_user \<Rightarrow> vprofile \<Rightarrow> victim_state \<Rightarrow> vprofile result \<times> victim_state" where
  "unclaimProfile_from env admin p s =
     (let action = ''VICTIM_PROFILE_UNCLAIMED''; who = vp_claimedByUserId p;
          overrode = (who \<noteq> Some (cu_id admin)) in
      if \<not> truthy who
      then (Inl (BadRequest ''victim_profile_not_claimed''),
        vp_emit (emitProfileFailure admin action p ''victim_profile_not_claimed'' FAILURE [] []) s)
      else if \<not> is_super admin \<and> who \<noteq> Some (cu_id admin)
      then (Inl (Forbidden ''victim_profile_claimed_by_another_admin''),
        vp_emit (emitProfileFailure admin action p ''claimed_by_another_admin'' DENIED []
          [(''claimedByUserId'', jstr_opt who)]) s)
      else if count_where (claim_where (vp_id p) who) (vs_profiles s) = 0
      then (Inl (BadRequest ''victim_profile_transition_conflict''), vp_emit (transition_conflict admin action p) s)
      else let s1 = vp_write (ve_now env) (claim_where (vp_id p) who)
             (\<lambda>q. q\<lparr>vp_claimedByUserId := None, vp_claimedAt := None\<rparr>) s
           in fetch_profile (vp_id p) s1 (\<lambda>u. (Inr u,
             vp_emit (Audit ((vp_audit admin action u)\<lparr>ae_targetUserId := (if overrode then who else None),
               ae_diff := [(''previousClaimedByUserId'', jstr_opt who), (''result'', JStr ''success'')],
               ae_metadata := [(''overrodeAnotherAdmin'', JBool overrode)]\<rparr>)) s1)))"

definition unclaimProfile :: "victim_env \<Rightarrow> current_user \<Rightarrow> jstring \<Rightarrow> victim_state \<Rightarrow> vprofile result \<times> victim_state" where
  "unclaimProfile env admin pid s = getProfileOr404 pid s (\<lambda>p. unclaimProfile_from env admin p s)"

section \<open>Gates and publication\<close>

record gates_dto =
  gd_isVerified :: "bool option"
  gd_isSafetyReviewed :: "bool option"
  gd_hasConsent :: "bool option"
  gd_isPrivacyReviewed :: "bool option"
  gd_isAdminApproved :: "bool option"

definition apply_gates :: "gates_dto \<Rightarrow> vprofile \<Rightarrow> vprofile" where
  "apply_gates d p = p\<lparr>vp_isVerified := or_else (gd_isVerified d) (vp_isVerified p),
     vp_isSafetyReviewed := or_else (gd_isSafetyReviewed d) (vp_isSafetyReviewed p),
     vp_hasConsent := or_else (gd_hasConsent d) (vp_hasConsent p),
     vp_isPrivacyReviewed := or_else (gd_isPrivacyReviewed d) (vp_isPrivacyReviewed p),
     vp_isAdminApproved := or_else (gd_isAdminApproved d) (vp_isAdminApproved p)\<rparr>"

definition jmissing :: "jstring list \<Rightarrow> (jstring \<times> jval) list" where
  "jmissing ms = [(''missingGates'', JArr (map JStr ms))]"

definition jgates :: "vprofile \<Rightarrow> jval" where
  "jgates p = JObj [(''isVerified'', JBool (vp_isVerified p)), (''isSafetyReviewed'', JBool (vp_isSafetyReviewed p)),
     (''hasConsent'', JBool (vp_hasConsent p)), (''isPrivacyReviewed'', JBool (vp_isPrivacyReviewed p)),
     (''isAdminApproved'', JBool (vp_isAdminApproved p))]"

text \<open>One more audit entry for each approval gate that was just switched on.\<close>

definition gate_entries :: "current_user \<Rightarrow> vprofile \<Rightarrow> vprofile \<Rightarrow> profile_status \<Rightarrow> effect list" where
  "gate_entries admin p g status =
     map (\<lambda>(_, action). auditSuccess admin action p INFO None (status_diff p status) [])
       (filter fst [(\<not> vp_isVerified p \<and> vp_isVerified g, ''VICTIM_PROFILE_VERIFIED''),
         (\<not> vp_isPrivacyReviewed p \<and> vp_isPrivacyReviewed g, ''VICTIM_PROFILE_PRIVACY_REVIEWED''),
         (\<not> vp_isAdminApproved p \<and> vp_isAdminApproved g, ''VICTIM_PROFILE_APPROVED'')])"

definition write_gates :: "victim_env \<Rightarrow> current_user \<Rightarrow> bool \<Rightarrow> vprofile \<Rightarrow> profile_status \<Rightarrow> vprofile \<Rightarrow> vprofile" where
  "write_gates env admin newConsent g status q =
     (let q1 = q\<lparr>vp_isVerified := vp_isVerified g, vp_isSafetyReviewed := vp_isSafetyReviewed g,
        vp_hasConsent := vp_hasConsent g, vp_isPrivacyReviewed := vp_isPrivacyReviewed g,
        vp_isAdminApproved := vp_isAdminApproved g, vp_status := status, vp_isPublished := False\<rparr>
      in if newConsent
         then q1\<lparr>vp_consentAt := Some (ve_now env), vp_consentRecordedBy := Some (cu_id admin)\<rparr> else q1)"

definition updateGates_from :: "victim_env \<Rightarrow> current_user \<Rightarrow> vprofile \<Rightarrow> gates_dto \<Rightarrow> victim_state \<Rightarrow> vprofile result \<times> victim_state" where
  "updateGates_from env admin p data s =
     (let action = ''VICTIM_PROFILE_GATES_UPDATED''; g = apply_gates data p;
          bank = hasBankDetails (vp_id p) s; childSafetySatisfied = (\<not> vp_involvesChild p \<or> vp_isChildSafetyReviewed p);
          status = deriveStatus g; newConsent = (gd_hasConsent data = Some True \<and> \<not> vp_hasConsent p) in
      assertAdminCanAccessProfile admin p action s
       (if vp_isAdminApproved g \<and> (\<not> vp_isVerified g \<or> \<not> vp_isSafetyReviewed g \<or> \<not> childSafetySatisfied \<or>
            \<not> vp_hasConsent g \<or> \<not> vp_isPrivacyReviewed g \<or> \<not> bank)
        then (Inl (BadRequest ''all_approval_gates_required''),
          vp_emit (emitProfileFailure admin action p ''all_approval_gates_required'' FAILURE []
            (jmissing (getMissingApprovalGates bank g))) s)
        else res_bind (conditionalUpdate (ve_now env) admin action p (write_gates env admin newConsent g status) s)
          (\<lambda>u s1. (Inr u, vp_emit (notify_creator action p [(''status'', jpstatus status)])
            (fold vp_emit (gate_entries admin p g status)
              (vp_emit (auditSuccess admin action p INFO None (status_diff p status @
                  [(''previousIsPublished'', JBool (vp_isPublished p)), (''newIsPublished'', JBool False),
                   (''previousGates'', jgates p), (''newGates'', jgates g)])
                  [(''consentNewlyRecorded'', JBool newConsent)]) (invalidate p s1)))))))"

definition updateGates :: "victim_env \<Rightarrow> current_user \<Rightarrow> jstring \<Rightarrow> gates_dto \<Rightarrow> victim_state \<Rightarrow> vprofile result \<times> victim_state" where
  "updateGates env admin pid data s = getProfileOr404 pid s (\<lambda>p. updateGates_from env admin p data s)"

definition publishProfile_from :: "victim_env \<Rightarrow> current_user \<Rightarrow> vprofile \<Rightarrow> victim_state \<Rightarrow> vprofile result \<times> victim_state" where
  "publishProfile_from env admin p s =
     (let action = ''VICTIM_PROFILE_PUBLISHED''; bank = hasBankDetails (vp_id p) s;
          childSafetySatisfied = (\<not> vp_involvesChild p \<or> vp_isChildSafetyReviewed p);
          allGatesSatisfied = (vp_isVerified p \<and> vp_isSafetyReviewed p \<and> childSafetySatisfied \<and>
            vp_hasConsent p \<and> vp_isPrivacyReviewed p \<and> vp_isAdminApproved p \<and> bank) in
      assertAdminCanAccessProfile admin p action s
       (if \<not> allGatesSatisfied
        then (Inl (BadRequest ''all_approval_gates_required''),
          vp_emit (emitProfileFailure admin action p ''all_approval_gates_required'' FAILURE
            [(''currentStatus'', jpstatus (vp_status p))]
            (jmissing (getMissingApprovalGates bank p @ (if \<not> vp_isAdminApproved p then [''isAdminApproved''] else [])))) s)
        else res_bind (conditionalUpdate (ve_now env) admin action p
              (\<lambda>q. q\<lparr>vp_status := VP_PUBLISHED, vp_isPublished := True\<rparr>) s)
            (\<lambda>u s1. (Inr u, vp_emit (notify_creator action p [])
               (vp_emit (auditSuccess admin action p INFO None (status_diff p VP_PUBLISHED) []) (invalidate p s1))))))"

definition publishProfile :: "victim_env \<Rightarrow> current_user \<Rightarrow> jstring \<Rightarrow> victim_state \<Rightarrow> vprofile result \<times> victim_state" where
  "publishProfile env admin pid s = getProfileOr404 pid s (\<lambda>p. publishProfile_from env admin p s)"

text \<open>The table entries shown to an administrator, each with whether it is available now.\<close>

record transitions_answer =
  ta_current :: profile_status
  ta_claimedByAnotherAdmin :: bool
  ta_blockers :: "jstring list"
  ta_allowed :: "(profile_status \<times> bool \<times> jstring list) list"

definition getTransitions :: "current_user \<Rightarrow> jstring \<Rightarrow> victim_state \<Rightarrow> transitions_answer result" where
  "getTransitions admin pid s =
     (case find_vprofile pid s of
        None \<Rightarrow> Inl (NotFound ''victim_profile_not_found'')
      | Some p \<Rightarrow>
        let missing = getMissingApprovalGates (hasBankDetails pid s) p
              @ (if \<not> vp_isAdminApproved p then [''isAdminApproved''] else []);
            other = (\<not> is_super admin \<and> truthy (vp_claimedByUserId p) \<and> vp_claimedByUserId p \<noteq> Some (cu_id admin))
        in Inr \<lparr>ta_current = vp_status p, ta_claimedByAnotherAdmin = other,
             ta_blockers = (if vp_deletedAt p \<noteq> None then [''deleted''] else [])
               @ (if vp_legalHold p then [''legal_hold''] else [])
               @ (if vp_takedownAt p \<noteq> None then [''taken_down''] else []),
             ta_allowed = map (\<lambda>t. (t, \<not> other \<and> vp_deletedAt p = None \<and>
                 \<not> (t = VP_PUBLISHED \<and> (missing \<noteq> [] \<or> vp_takedownAt p \<noteq> None)),
                 if t = VP_PUBLISHED \<and> vp_status p = VP_APPROVED then missing else []))
               (STATUS_TRANSITIONS (vp_status p))\<rparr>)"

section \<open>Child safety\<close>

definition confirm_first :: "victim_env \<Rightarrow> current_user \<Rightarrow> vprofile \<Rightarrow> jstring option \<Rightarrow> victim_state \<Rightarrow> vprofile result \<times> victim_state" where
  "confirm_first env admin p notes s =
     (let action = ''VICTIM_PROFILE_CHILD_SAFETY_FIRST_CONFIRMED'' in
      res_bind (conditionalUpdate (ve_now env) admin action p
          (\<lambda>q. q\<lparr>vp_firstConfirmedBy := Some (cu_id admin), vp_firstConfirmedAt := Some (ve_now env)\<rparr>) s)
        (\<lambda>u s1. (Inr u, vp_emit (auditSuccess admin action p INFO notes [] [(''stage'', JStr ''first_confirmation'')]) s1)))"

definition confirm_second :: "victim_env \<Rightarrow> current_user \<Rightarrow> vprofile \<Rightarrow> jstring option \<Rightarrow> victim_state \<Rightarrow> vprofile result \<times> victim_state" where
  "confirm_second env admin p notes s =
     (let action = ''VICTIM_PROFILE_CHILD_SAFETY_REVIEWED'';
          status = deriveStatus (p\<lparr>vp_isChildSafetyReviewed := True\<rparr>) in
      res_bind (conditionalUpdate (ve_now env) admin action p
          (\<lambda>q. q\<lparr>vp_isChildSafetyReviewed := True, vp_status := status\<rparr>) s)
        (\<lambda>u s1. (Inr u, vp_emit (notify_creator action p [(''status'', jpstatus status)])
          (vp_emit (auditSuccess admin action p INFO notes (status_diff p status @
              [(''firstConfirmedBy'', jstr_opt (vp_firstConfirmedBy p)), (''secondConfirmedBy'', JStr (cu_id admin))])
            [(''stage'', JStr ''second_confirmation'')]) (invalidate p s1)))))"

definition clear_child_review :: "vprofile \<Rightarrow> vprofile" where
  "clear_child_review q = q\<lparr>vp_isChildSafetyReviewed := False, vp_firstConfirmedBy := None,
     vp_firstConfirmedAt := None, vp_isAdminApproved := False, vp_isPublished := False\<rparr>"

definition reverse_review :: "victim_env \<Rightarrow> current_user \<Rightarrow> vprofile \<Rightarrow> jstring option \<Rightarrow> victim_state \<Rightarrow> vprofile result \<times> victim_state" where
  "reverse_review env admin p notes s =
     (let action = ''VICTIM_PROFILE_CHILD_SAFETY_REVIEW_REVERSED'';
          status = deriveStatus (p\<lparr>vp_isChildSafetyReviewed := False, vp_isAdminApproved := False\<rparr>) in
      res_bind (conditionalUpdate (ve_now env) admin action p
          (\<lambda>q. (clear_child_review q)\<lparr>vp_status := status\<rparr>) s)
        (\<lambda>u s1. (Inr u, vp_emit (notify_creator ''VICTIM_PROFILE_CHILD_SAFETY_REVIEWED'' p [(''status'', jpstatus status)])
          (vp_emit (auditSuccess admin action p INFO notes (status_diff p status @
              [(''previousIsAdminApproved'', JBool (vp_isAdminApproved p)), (''previousIsPublished'', JBool (vp_isPublished p))])
            [(''stage'', JStr ''reversal'')]) (invalidate p s1)))))"

definition updateChildSafetyReview_from :: "victim_env \<Rightarrow> current_user \<Rightarrow> vprofile \<Rightarrow> bool \<Rightarrow> jstring option
    \<Rightarrow> victim_state \<Rightarrow> vprofile result \<times> victim_state" where
  "updateChildSafetyReview_from env admin p reviewed notes s =
     (let action = ''VICTIM_PROFILE_CHILD_SAFETY_REVIEWED'' in
      assertAdminCanAccessProfile admin p action s
       (if \<not> vp_involvesChild p
        then (Inl (BadRequest ''child_safety_review_not_applicable''),
          vp_emit (emitProfileFailure admin action p ''child_safety_review_not_applicable'' FAILURE [] []) s)
        else if \<not> reviewed then reverse_review env admin p notes s
        else if \<not> truthy (vp_firstConfirmedBy p) then confirm_first env admin p notes s
        else if vp_firstConfirmedBy p = Some (cu_id admin)
        then (Inl (BadRequest ''child_safety_review_requires_second_admin''),
          vp_emit (emitProfileFailure admin action p ''child_safety_review_requires_second_admin'' DENIED []
            [(''firstConfirmedBy'', jstr_opt (vp_firstConfirmedBy p))]) s)
        else confirm_second env admin p notes s))"

definition updateChildSafetyReview :: "victim_env \<Rightarrow> current_user \<Rightarrow> jstring \<Rightarrow> bool \<Rightarrow> jstring option
    \<Rightarrow> victim_state \<Rightarrow> vprofile result \<times> victim_state" where
  "updateChildSafetyReview env admin pid reviewed notes s =
     getProfileOr404 pid s (\<lambda>p. updateChildSafetyReview_from env admin p reviewed notes s)"

section \<open>Consent\<close>

definition revokeConsent_from :: "victim_env \<Rightarrow> current_user \<Rightarrow> vprofile \<Rightarrow> jstring option \<Rightarrow> victim_state \<Rightarrow> vprofile result \<times> victim_state" where
  "revokeConsent_from env admin p reason s =
     (let action = ''VICTIM_PROFILE_CONSENT_REVOKED'';
          status = deriveStatus (p\<lparr>vp_hasConsent := False, vp_isAdminApproved := False\<rparr>) in
      assertAdminCanAccessProfile admin p action s
       (if \<not> vp_hasConsent p
        then (Inl (BadRequest ''consent_not_currently_recorded''),
          vp_emit (emitProfileFailure admin action p ''consent_not_currently_recorded'' FAILURE [] []) s)
        else res_bind (conditionalUpdate (ve_now env) admin action p
              (\<lambda>q. q\<lparr>vp_hasConsent := False, vp_consentAt := None, vp_consentRecordedBy := None,
                     vp_isAdminApproved := False, vp_isPublished := False, vp_status := status\<rparr>) s)
            (\<lambda>u s1. (Inr u, vp_emit (notify_creator action p [(''actorId'', JStr (cu_id admin))])
               (vp_emit (auditSuccess admin action p INFO reason (status_diff p status @
                   [(''previousIsAdminApproved'', JBool (vp_isAdminApproved p)),
                    (''previousIsPublished'', JBool (vp_isPublished p)),
                    (''previousConsentAt'', case vp_consentAt p of None \<Rightarrow> JNull | Some t \<Rightarrow> JDate t),
                    (''previousConsentRecordedBy'', jstr_opt (vp_consentRecordedBy p))]) []) (invalidate p s1))))))"

definition revokeConsent :: "victim_env \<Rightarrow> current_user \<Rightarrow> jstring \<Rightarrow> jstring option \<Rightarrow> victim_state \<Rightarrow> vprofile result \<times> victim_state" where
  "revokeConsent env admin pid reason s = getProfileOr404 pid s (\<lambda>p. revokeConsent_from env admin p reason s)"

record consent_dto =
  cn_documents :: "jstring list option"
  cn_consentedAt :: "int option" \<comment> \<open>the parsed date\<close>
  cn_consentedBy :: jstring
  cn_notes :: "jstring option"

definition write_consent :: "current_user \<Rightarrow> vprofile \<Rightarrow> consent_dto \<Rightarrow> int \<Rightarrow> vprofile \<Rightarrow> vprofile" where
  "write_consent admin p data consentAt q =
     (let q1 = q\<lparr>vp_hasConsent := True, vp_consentAt := Some consentAt, vp_consentRecordedBy := Some (cu_id admin),
        vp_consentedBy := Some (cn_consentedBy data), vp_consentNotes := cn_notes data,
        vp_consentDocuments := vp_consentDocuments p @ or_else (cn_documents data) []\<rparr>
      in if vp_status p \<in> set PIPELINE_STATUSES
         then q1\<lparr>vp_status := deriveStatus (p\<lparr>vp_hasConsent := True\<rparr>)\<rparr> else q1)"

definition recordConsent_from :: "victim_env \<Rightarrow> current_user \<Rightarrow> vprofile \<Rightarrow> consent_dto \<Rightarrow> victim_state \<Rightarrow> vprofile result \<times> victim_state" where
  "recordConsent_from env admin p data s =
     (let action = ''VICTIM_PROFILE_CONSENT_RECORDED''; documents = or_else (cn_documents data) [];
          consentAt = or_else (cn_consentedAt data) (ve_now env) in
      assertAdminCanAccessProfile admin p action s
       (if vp_hasConsent p then (Inl (Conflict ''consent_already_recorded_revoke_first''), s)
        else if documents = [] then (Inl (BadRequest ''signed_consent_form_required''), s)
        else if consentAt > ve_now env + 60000 then (Inl (BadRequest ''consent_date_in_future''), s)
        else (case validateMediaFilesExist env documents of
          Inl e \<Rightarrow> (Inl e, vp_emit (emitProfileFailure admin action p ''media_validation_failed'' FAILURE
            [(''message'', JStr (err_message e))] []) s)
        | Inr _ \<Rightarrow> res_bind (conditionalUpdate (ve_now env) admin action p (write_consent admin p data consentAt) s)
            (\<lambda>u s1. (Inr u, vp_emit (notify_creator ''VICTIM_PROFILE_GATES_UPDATED'' p [(''status'', jpstatus (vp_status u))])
               (vp_emit (auditSuccess admin action p INFO None (status_diff p (vp_status u))
                   [(''consentedBy'', JStr (cn_consentedBy data)), (''documentCount'', JInt (int (length documents)))])
                 (invalidate p s1)))))))"

definition recordConsent :: "victim_env \<Rightarrow> current_user \<Rightarrow> jstring \<Rightarrow> consent_dto \<Rightarrow> victim_state \<Rightarrow> vprofile result \<times> victim_state" where
  "recordConsent env admin pid data s = getProfileOr404 pid s (\<lambda>p. recordConsent_from env admin p data s)"

section \<open>The child flag\<close>

definition proposalLive :: "victim_env \<Rightarrow> vprofile \<Rightarrow> bool \<Rightarrow> bool" where
  "proposalLive env p involvesChild \<longleftrightarrow> truthy (vp_childFlagById p) \<and>
     (case vp_childFlagAt p of None \<Rightarrow> False | Some t \<Rightarrow> ve_now env - t < CHILD_FLAG_PROPOSAL_TTL_MS) \<and>
     vp_childFlagValue p = Some involvesChild"

definition propose_child_flag :: "victim_env \<Rightarrow> current_user \<Rightarrow> vprofile \<Rightarrow> bool \<Rightarrow> jstring \<Rightarrow> victim_state
    \<Rightarrow> (bool \<times> vprofile) result \<times> victim_state" where
  "propose_child_flag env admin p involvesChild reason s =
     (let action = ''VICTIM_PROFILE_CHILD_FLAG_PROPOSED'' in
      res_bind (conditionalUpdate (ve_now env) admin action p
          (\<lambda>q. q\<lparr>vp_childFlagValue := Some involvesChild, vp_childFlagById := Some (cu_id admin),
                 vp_childFlagAt := Some (ve_now env), vp_childFlagReason := Some reason\<rparr>) s)
        (\<lambda>u s1. (Inr (False, u), vp_emit (auditSuccess admin action p WARNING (Some reason)
           [(''proposedValue'', JBool involvesChild)] [(''stage'', JStr ''first_confirmation'')]) s1)))"

definition write_child_flag :: "vprofile \<Rightarrow> bool \<Rightarrow> vprofile \<Rightarrow> vprofile" where
  "write_child_flag p involvesChild q =
     (let status = deriveStatus (p\<lparr>vp_involvesChild := involvesChild, vp_isChildSafetyReviewed := False,
            vp_isAdminApproved := False\<rparr>) in
      (clear_child_review q)\<lparr>vp_involvesChild := involvesChild, vp_isFeatured := False,
        vp_status := (if vp_status p \<in> set GATE_DRIVEN_STATUSES then status else vp_status p),
        vp_childFlagValue := None, vp_childFlagById := None, vp_childFlagAt := None, vp_childFlagReason := None\<rparr>)"

text \<open>The answer tells whether the change was applied or awaits a second administrator.\<close>

definition updateChildFlag_from :: "victim_env \<Rightarrow> current_user \<Rightarrow> vprofile \<Rightarrow> bool \<Rightarrow> jstring \<Rightarrow> victim_state
    \<Rightarrow> (bool \<times> vprofile) result \<times> victim_state" where
  "updateChildFlag_from env admin p involvesChild reason s =
     (let action = ''VICTIM_PROFILE_CHILD_FLAG_UPDATED'' in
      assertAdminCanAccessProfile admin p action s
       (if vp_involvesChild p = involvesChild then (Inl (BadRequest ''child_flag_unchanged''), s)
        else if \<not> proposalLive env p involvesChild then propose_child_flag env admin p involvesChild reason s
        else if vp_childFlagById p = Some (cu_id admin)
        then (Inl (BadRequest ''child_flag_requires_second_admin''),
          vp_emit (emitProfileFailure admin action p ''child_flag_requires_second_admin'' DENIED [] []) s)
        else res_bind (conditionalUpdate (ve_now env) admin action p (write_child_flag p involvesChild) s)
          (\<lambda>u s1. (Inr (True, u), vp_emit (auditSuccess admin action p CRITICAL (Some reason)
             [(''previousInvolvesChild'', JBool (vp_involvesChild p)), (''newInvolvesChild'', JBool involvesChild),
              (''previousStatus'', jpstatus (vp_status p)), (''newStatus'', jpstatus (vp_status u)),
              (''firstConfirmedBy'', jstr_opt (vp_childFlagById p)), (''secondConfirmedBy'', JStr (cu_id admin))]
             [(''stage'', JStr ''second_confirmation'')]) (invalidate p s1)))))"

definition updateChildFlag :: "victim_env \<Rightarrow> current_user \<Rightarrow> jstring \<Rightarrow> bool \<Rightarrow> jstring \<Rightarrow> victim_state
    \<Rightarrow> (bool \<times> vprofile) result \<times> victim_state" where
  "updateChildFlag env admin pid involvesChild reason s =
     getProfileOr404 pid s (\<lambda>p. updateChildFlag_from env admin p involvesChild reason s)"

end
