(* ===== verification/Victim_Workflow.thy ===== *)
theory Victim_Workflow
  imports Victim_Review
begin

text \<open>
  The case work on victim profiles, \<open>victim-profile-workflow.service.ts\<close>: reviewers, change
  requests, takedowns, completion, and the bulk forms of these operations.
\<close>

section \<open>Reviewers\<close>

definition assertIsReviewer :: "jstring \<Rightarrow> victim_state \<Rightarrow> bool" where
  "assertIsReviewer userId s =
     (find_where (\<lambda>u. rv_id u = userId \<and> rv_isActive u \<and>
        (''ADMIN'' \<in> set (rv_roles u) \<or> ''SUPER_ADMIN'' \<in> set (rv_roles u))) (vs_users s) \<noteq> None)"

definition assignReviewer_from :: "victim_env \<Rightarrow> current_user \<Rightarrow> vprofile \<Rightarrow> jstring \<Rightarrow> victim_state \<Rightarrow> vprofile result \<times> victim_state" where
  "assignReviewer_from env admin p reviewerId s =
     (let action = ''VICTIM_PROFILE_ASSIGNED'' in
      if \<not> assertIsReviewer reviewerId s then (Inl (BadRequest ''reviewer_must_be_an_active_admin''), s)
      else if vp_assignedReviewerId p = Some reviewerId then (Inr p, s)
      else res_bind (conditionalUpdate (ve_now env) admin action p
            (\<lambda>q. q\<lparr>vp_assignedReviewerId := Some reviewerId, vp_assignedAt := Some (ve_now env)\<rparr>) s)
          (\<lambda>u s1. (Inr u, vp_emit (Notify action [(''userId'', JStr reviewerId), (''victimProfileId'', JStr (vp_id p)),
               (''actorId'', JStr (cu_id admin))])
             (vp_emit (auditSuccess admin action p INFO None
               [(''previousReviewerId'', jstr_opt (vp_assignedReviewerId p)), (''newReviewerId'', JStr reviewerId)] []) s1))))"

definition assignReviewer :: "victim_env \<Rightarrow> current_user \<Rightarrow> jstring \<Rightarrow> jstring \<Rightarrow> victim_state \<Rightarrow> vprofile result \<times> victim_state" where
  "assignReviewer env admin pid reviewerId s = getProfileOr404 pid s (\<lambda>p. assignReviewer_from env admin p reviewerId s)"

definition unassignReviewer_from :: "victim_env \<Rightarrow> current_user \<Rightarrow> vprofile \<Rightarrow> victim_state \<Rightarrow> vprofile result \<times> victim_state" where
  "unassignReviewer_from env admin p s =
     (let action = ''VICTIM_PROFILE_UNASSIGNED'' in
      if \<not> truthy (vp_assignedReviewerId p) then (Inl (BadRequest ''victim_profile_not_assigned''), s)
      else res_bind (conditionalUpdate (ve_now env) admin action p
            (\<lambda>q. q\<lparr>vp_assignedReviewerId := None, vp_assignedAt := None\<rparr>) s)
          (\<lambda>u s1. (Inr u, vp_emit (auditSuccess admin action p INFO None
             [(''previousReviewerId'', jstr_opt (vp_assignedReviewerId p))] []) s1)))"

definition unassignReviewer :: "victim_env \<Rightarrow> current_user \<Rightarrow> jstring \<Rightarrow> victim_state \<Rightarrow> vprofile result \<times> victim_state" where
  "unassignReviewer env admin pid s = getProfileOr404 pid s (\<lambda>p. unassignReviewer_from env admin p s)"

section \<open>Change requests\<close>

definition requestProfileChanges_from :: "victim_env \<Rightarrow> current_user \<Rightarrow> vprofile \<Rightarrow> jstring \<Rightarrow> victim_state \<Rightarrow> vprofile result \<times> victim_state" where
  "requestProfileChanges_from env admin p message s =
     (let action = ''VICTIM_PROFILE_CHANGES_REQUESTED'' in
      assertAdminCanAccessProfile admin p action s
       (if vp_deletedAt p \<noteq> None then (Inl (BadRequest ''victim_profile_deleted''), s)
        else if vp_isPublished p \<or> vp_status p \<notin> set CHANGE_REQUESTABLE_STATUSES
        then (Inl (BadRequest ''changes_cannot_be_requested_in_this_status''),
          vp_emit (emitProfileFailure admin action p ''changes_cannot_be_requested_in_this_status'' FAILURE
            [(''currentStatus'', jpstatus (vp_status p))] []) s)
        else res_bind (conditionalUpdate (ve_now env) admin action p
              (\<lambda>q. q\<lparr>vp_status := VP_CHANGES_REQUESTED, vp_reviewNote := Some message,
                     vp_reviewNoteAt := Some (ve_now env), vp_isAdminApproved := False, vp_isPublished := False\<rparr>) s)
            (\<lambda>u s1. (Inr u, vp_emit (notify_creator action p [(''message'', JStr message)])
               (vp_emit (auditSuccess admin action p INFO (Some message)
                  (status_diff p VP_CHANGES_REQUESTED @ [(''creatorMessage'', JStr message)]) []) (invalidate p s1))))))"

definition requestProfileChanges :: "victim_env \<Rightarrow> current_user \<Rightarrow> jstring \<Rightarrow> jstring \<Rightarrow> victim_state \<Rightarrow> vprofile result \<times> victim_state" where
  "requestProfileChanges env admin pid message s =
     getProfileOr404 pid s (\<lambda>p. requestProfileChanges_from env admin p message s)"

section \<open>Takedown\<close>

text \<open>\<open>a ?? b\<close> on a nullable column.\<close>

definition keep_or :: "'a option \<Rightarrow> 'a \<Rightarrow> 'a option" where
  "keep_or x d = Some (or_else x d)"

definition write_takedown :: "victim_env \<Rightarrow> current_user \<Rightarrow> jstring \<Rightarrow> vprofile \<Rightarrow> vprofile \<Rightarrow> vprofile" where
  "write_takedown env admin reason p q = q\<lparr>vp_status := VP_UNPUBLISHED, vp_isPublished := False,
     vp_isAdminApproved := False, vp_isFeatured := False, vp_donationsPaused := True,
     vp_donationsPausedReason := Some reason,
     vp_donationsPausedAt := keep_or (vp_donationsPausedAt p) (ve_now env),
     vp_takedownReason := Some reason, vp_takedownAt := Some (ve_now env), vp_takedownById := Some (cu_id admin)\<rparr>"

definition takedownProfile_from :: "victim_env \<Rightarrow> current_user \<Rightarrow> vprofile \<Rightarrow> jstring \<Rightarrow> victim_state \<Rightarrow> vprofile result \<times> victim_state" where
  "takedownProfile_from env admin p reason s =
     (let action = ''VICTIM_PROFILE_TAKEDOWN'' in
      if vp_takedownAt p \<noteq> None then (Inl (Conflict ''victim_profile_already_taken_down''), s)
      else res_bind (conditionalUpdate (ve_now env) admin action p
            (write_takedown env admin reason p) s)
          (\<lambda>u s1. (Inr u, vp_emit (notify_creator ''VICTIM_PROFILE_TAKEN_DOWN'' p [])
             (vp_emit (auditSuccess admin action p CRITICAL (Some reason)
                (status_diff p VP_UNPUBLISHED @ [(''previousIsPublished'', JBool (vp_isPublished p))]) [])
               (invalidate p s1)))))"

definition takedownProfile :: "victim_env \<Rightarrow> current_user \<Rightarrow> jstring \<Rightarrow> jstring \<Rightarrow> victim_state \<Rightarrow> vprofile result \<times> victim_state" where
  "takedownProfile env admin pid reason s = getProfileOr404 pid s (\<lambda>p. takedownProfile_from env admin p reason s)"

definition liftTakedown_from :: "victim_env \<Rightarrow> current_user \<Rightarrow> vprofile \<Rightarrow> jstring \<Rightarrow> victim_state \<Rightarrow> vprofile result \<times> victim_state" where
  "liftTakedown_from env admin p reason s =
     (let action = ''VICTIM_PROFILE_TAKEDOWN_LIFTED'' in
      if vp_takedownAt p = None then (Inl (BadRequest ''victim_profile_not_taken_down''), s)
      else res_bind (conditionalUpdate (ve_now env) admin action p
            (\<lambda>q. q\<lparr>vp_takedownReason := None, vp_takedownAt := None, vp_takedownById := None\<rparr>) s)
          (\<lambda>u s1. (Inr u, vp_emit (auditSuccess admin action p CRITICAL (Some reason)
             [(''previousTakedownReason'', jstr_opt (vp_takedownReason p)),
              (''previousTakedownById'', jstr_opt (vp_takedownById p)),
              (''creatorMessage'', JStr ''The takedown was lifted; your profile will be reviewed again.'')] [])
             (invalidate p s1))))"

definition liftTakedown :: "victim_env \<Rightarrow> current_user \<Rightarrow> jstring \<Rightarrow> jstring \<Rightarrow> victim_state \<Rightarrow> vprofile result \<times> victim_state" where
  "liftTakedown env admin pid reason s = getProfileOr404 pid s (\<lambda>p. liftTakedown_from env admin p reason s)"

section \<open>Completion\<close>

definition completeProfile_from :: "victim_env \<Rightarrow> current_user \<Rightarrow> vprofile \<Rightarrow> jstring option \<Rightarrow> victim_state \<Rightarrow> vprofile result \<times> victim_state" where
  "completeProfile_from env admin p note s =
     (let action = ''VICTIM_PROFILE_COMPLETED'' in
      assertAdminCanAccessProfile admin p action s
       (if vp_status p \<noteq> VP_PUBLISHED
        then (Inl (BadRequest ''only_published_profiles_can_be_completed''),
          vp_emit (emitProfileFailure admin action p ''only_published_profiles_can_be_completed'' FAILURE
            [(''currentStatus'', jpstatus (vp_status p))] []) s)
        else res_bind (conditionalUpdate (ve_now env) admin action p
              (\<lambda>q. q\<lparr>vp_status := VP_COMPLETED, vp_completedAt := Some (ve_now env), vp_completionNote := note,
                     vp_isFeatured := False, vp_donationsPaused := True,
                     vp_donationsPausedReason := Some ''completed'', vp_donationsPausedAt := Some (ve_now env)\<rparr>) s)
            (\<lambda>u s1. (Inr u, vp_emit (notify_creator action p [])
               (vp_emit (auditSuccess admin action p INFO note (status_diff p VP_COMPLETED)
                  [(''totalRaisedAtCompletion'', JFixed (vp_totalRaised p))]) (invalidate p s1))))))"

definition completeProfile :: "victim_env \<Rightarrow> current_user \<Rightarrow> jstring \<Rightarrow> jstring option \<Rightarrow> victim_state \<Rightarrow> vprofile result \<times> victim_state" where
  "completeProfile env admin pid note s = getProfileOr404 pid s (\<lambda>p. completeProfile_from env admin p note s)"

definition reopenProfile_from :: "victim_env \<Rightarrow> current_user \<Rightarrow> vprofile \<Rightarrow> jstring \<Rightarrow> victim_state \<Rightarrow> vprofile result \<times> victim_state" where
  "reopenProfile_from env admin p reason s =
     (let action = ''VICTIM_PROFILE_REOPENED'';
          gatesHold = (getMissingApprovalGates (hasBankDetails (vp_id p) s) p = [] \<and> vp_isAdminApproved p);
          status = (if gatesHold then VP_PUBLISHED else deriveStatus p) in
      assertAdminCanAccessProfile admin p action s
       (if vp_status p \<noteq> VP_COMPLETED then (Inl (BadRequest ''victim_profile_not_completed''), s)
        else if vp_takedownAt p \<noteq> None \<or> vp_deletedAt p \<noteq> None
        then (Inl (BadRequest ''victim_profile_blocked_from_reopening''), s)
        else res_bind (conditionalUpdate (ve_now env) admin action p
              (\<lambda>q. q\<lparr>vp_status := status, vp_isPublished := gatesHold, vp_completedAt := None,
                     vp_completionNote := None, vp_donationsPaused := False,
                     vp_donationsPausedReason := None, vp_donationsPausedAt := None\<rparr>) s)
            (\<lambda>u s1. (Inr u, vp_emit (notify_creator action p [])
               (vp_emit (auditSuccess admin action p INFO (Some reason) (status_diff p status) []) (invalidate p s1))))))"

definition reopenProfile :: "victim_env \<Rightarrow> current_user \<Rightarrow> jstring \<Rightarrow> jstring \<Rightarrow> victim_state \<Rightarrow> vprofile result \<times> victim_state" where
  "reopenProfile env admin pid reason s = getProfileOr404 pid s (\<lambda>p. reopenProfile_from env admin p reason s)"

section \<open>Bulk operations\<close>

definition runBulk :: "current_user \<Rightarrow> jstring \<Rightarrow> jstring list \<Rightarrow> jstring option
    \<Rightarrow> (jstring \<Rightarrow> victim_state \<Rightarrow> 'a result \<times> victim_state) \<Rightarrow> victim_state \<Rightarrow> bulk_answer \<times> victim_state" where
  "runBulk admin action ids reason fn s =
     (let unique = unique_ids ids; ((oks, bad), s1) = bulk_loop fn unique s in
      ((oks, bad), vp_emit (Audit \<lparr>ae_userId = Some (cu_id admin), ae_targetUserId = None,
         ae_actorType = resolveActorType (cu_roles admin), ae_action = ''VICTIM_PROFILE_BULK_ACTION'',
         ae_outcome = SUCCESS, ae_severity = WARNING, ae_entity = ''VictimProfile'', ae_entityId = None,
         ae_entityLabel = None, ae_reason = reason,
         ae_diff = [(''result'', JStr (if bad \<noteq> [] then ''partial'' else ''success'')), (''action'', JStr action)],
         ae_metadata = [(''requested'', JInt (int (length unique))), (''succeeded'', JInt (int (length oks))),
           (''failed'', JInt (int (length bad))), (''ids'', JArr (map JStr unique))]\<rparr>) s1))"

definition bulkAssign :: "victim_env \<Rightarrow> current_user \<Rightarrow> jstring list \<Rightarrow> jstring \<Rightarrow> victim_state
    \<Rightarrow> bulk_answer result \<times> victim_state" where
  "bulkAssign env admin ids reviewerId s =
     (if \<not> assertIsReviewer reviewerId s then (Inl (BadRequest ''reviewer_must_be_an_active_admin''), s)
      else apfst Inr (runBulk admin ''assign'' ids None (\<lambda>pid. assignReviewer env admin pid reviewerId) s))"

definition bulkRequestChanges :: "victim_env \<Rightarrow> current_user \<Rightarrow> jstring list \<Rightarrow> jstring \<Rightarrow> victim_state
    \<Rightarrow> bulk_answer \<times> victim_state" where
  "bulkRequestChanges env admin ids message s =
     runBulk admin ''request_changes'' ids (Some message) (\<lambda>pid. requestProfileChanges env admin pid message) s"

definition reject_with_note :: "victim_env \<Rightarrow> current_user \<Rightarrow> jstring \<Rightarrow> jstring \<Rightarrow> victim_state \<Rightarrow> unit result \<times> victim_state" where
  "reject_with_note env admin reason pid s =
     res_bind (rejectProfile env admin pid s)
       (\<lambda>u s1. if find_vprofile pid s1 = None then (Inl (PlainError ''Record to update not found''), s1)
          else (Inr (), vp_write (ve_now env) (\<lambda>p. vp_id p = pid)
            (\<lambda>p. p\<lparr>vp_reviewNote := Some reason, vp_reviewNoteAt := Some (ve_now env)\<rparr>) s1))"

definition bulkReject :: "victim_env \<Rightarrow> current_user \<Rightarrow> jstring list \<Rightarrow> jstring \<Rightarrow> victim_state \<Rightarrow> bulk_answer \<times> victim_state" where
  "bulkReject env admin ids reason s =
     runBulk admin ''reject'' ids (Some reason) (reject_with_note env admin reason) s"

definition bulkUnpublish :: "victim_env \<Rightarrow> current_user \<Rightarrow> jstring list \<Rightarrow> jstring \<Rightarrow> victim_state \<Rightarrow> bulk_answer \<times> victim_state" where
  "bulkUnpublish env admin ids reason s =
     runBulk admin ''unpublish'' ids (Some reason) (unpublishProfile env admin) s"

end
