(* ===== verification/Victim_Funding.thy ===== *)
theory Victim_Funding
  imports Victim_Workflow
begin

text \<open>
  Money-related operations on victim profiles, \<open>victim-profile-funding.service.ts\<close>: the payout
  destination and its second-person verification, the reconciliation of the cached total, resuming
  donations, and the goal.
\<close>

section \<open>The payout destination\<close>

record bank_dto =
  bd_accountNumber :: jstring
  bd_bankCode :: jstring
  bd_accountHolderName :: jstring
  bd_relationship :: jstring

text \<open>\<open>upsert\<close> by the profile: editing resets the verification.\<close>

definition set_destination :: "victim_env \<Rightarrow> jstring \<Rightarrow> bank_dto \<Rightarrow> jstring \<Rightarrow> pdestination \<Rightarrow> pdestination" where
  "set_destination env pid data bankName d = d\<lparr>de_bankName := bankName, de_bankCode := bd_bankCode data,
     de_accountNumber := bd_accountNumber data, de_accountHolder := bd_accountHolderName data,
     de_isVerified := False, de_verifiedById := None, de_verifiedAt := None, de_updatedAt := ve_now env\<rparr>"

definition new_destination :: "victim_env \<Rightarrow> jstring \<Rightarrow> bank_dto \<Rightarrow> jstring \<Rightarrow> victim_state \<Rightarrow> pdestination" where
  "new_destination env pid data bankName s = \<lparr>de_id = ve_newId env (vs_created s), de_victimProfileId = pid,
     de_bankName = bankName, de_bankCode = bd_bankCode data, de_accountNumber = bd_accountNumber data,
     de_accountHolder = bd_accountHolderName data, de_isVerified = False, de_verifiedById = None,
     de_verifiedAt = None, de_updatedAt = ve_now env\<rparr>"

definition upsert_destination :: "victim_env \<Rightarrow> jstring \<Rightarrow> bank_dto \<Rightarrow> jstring \<Rightarrow> victim_state \<Rightarrow> unit result \<times> victim_state" where
  "upsert_destination env pid data bankName s =
     (case find_destination pid s of
        Some _ \<Rightarrow> (Inr (), s\<lparr>vs_destinations := update_where (\<lambda>d. de_victimProfileId d = pid)
                      (set_destination env pid data bankName) (vs_destinations s)\<rparr>)
      | None \<Rightarrow>
          if find_where (\<lambda>d. de_id d = ve_newId env (vs_created s)) (vs_destinations s) \<noteq> None then (Inl UniqueViolation, s)
          else (Inr (), s\<lparr>vs_destinations := vs_destinations s @ [new_destination env pid data bankName s],
                  vs_created := vs_created s + 1\<rparr>))"

definition in_flight :: "jstring \<Rightarrow> victim_state \<Rightarrow> bool" where
  "in_flight pid s \<longleftrightarrow> find_where (\<lambda>d. d_victimProfileId d = pid \<and> d_status d \<in> {DIS_CREATED, DIS_SUBMITTED, DIS_UNKNOWN})
     (vs_disbursements s) \<noteq> None"

text \<open>\<open>next !== previous?.field\<close>.\<close>

definition changed :: "jstring \<Rightarrow> (pdestination \<Rightarrow> jstring) \<Rightarrow> pdestination option \<Rightarrow> jval" where
  "changed new f old = JBool (map_option f old \<noteq> Some new)"

definition write_bank_reset :: "vprofile \<Rightarrow> vprofile \<Rightarrow> vprofile" where
  "write_bank_reset p q = q\<lparr>vp_isAdminApproved := False,
     vp_isPublished := (if vp_isAdminApproved p then False else vp_isPublished p),
     vp_status := deriveStatus (p\<lparr>vp_isAdminApproved := False\<rparr>)\<rparr>"

definition updateBankDetails_from :: "victim_env \<Rightarrow> current_user \<Rightarrow> vprofile \<Rightarrow> bank_dto \<Rightarrow> victim_state \<Rightarrow> vprofile result \<times> victim_state" where
  "updateBankDetails_from env admin p data s =
     (let action = ''VICTIM_PROFILE_BANK_DETAILS_UPDATED'';
          refuse = (\<lambda>e reason. (Inl e, vp_emit (emitProfileFailure admin action p reason FAILURE [] []) s));
          old = find_destination (vp_id p) s;
          wasApproved = vp_isAdminApproved p;
          newPublished = (if wasApproved then False else vp_isPublished p) in
      assertAdminCanAccessProfile admin p action s
       (if vp_involvesChild p \<and> bd_relationship data = ''SELF''
        then refuse (BadRequest ''account_holder_cannot_be_the_child'') ''account_holder_cannot_be_the_child''
        else case ve_banks env of Inl e \<Rightarrow> (Inl e, s)
        | Inr banks \<Rightarrow> (case find_where (\<lambda>b. bk_id b = bd_bankCode data) banks of
            None \<Rightarrow> refuse (BadRequest ''invalid_bank_code'') ''invalid_bank_code''
          | Some b \<Rightarrow>
            if bk_isMobileMoney b then refuse (BadRequest ''invalid_bank_code'') ''invalid_bank_code''
            else if in_flight (vp_id p) s then refuse (Conflict ''transfer_in_progress'') ''transfer_in_progress''
            else res_bind (conditionalUpdate (ve_now env) admin action p (write_bank_reset p) s)
              (\<lambda>u s1. res_bind (upsert_destination env (vp_id p) data (bk_name b) s1) (\<lambda>_ s2. (Inr u, vp_emit (notify_creator action p [(''reapprovalRequired'', JBool wasApproved), (''actorId'', JStr (cu_id admin))])
                (vp_emit (auditSuccess admin action p INFO None
                    (status_diff p (deriveStatus (p\<lparr>vp_isAdminApproved := False\<rparr>)) @
                      [(''previousIsPublished'', JBool (vp_isPublished p)), (''newIsPublished'', JBool newPublished),
                       (''reapprovalRequired'', JBool wasApproved)])
                    [(''accountNameChanged'', changed (bd_accountHolderName data) de_accountHolder old),
                     (''accountNumberChanged'', changed (bd_accountNumber data) de_accountNumber old),
                     (''bankNameChanged'', changed (bd_bankCode data) de_bankCode old),
                     (''accountHolderRelationship'', JStr (bd_relationship data)),
                     (''bankCode'', JStr (bd_bankCode data))])
                  (invalidate p s2))))))))"

definition updateBankDetails :: "victim_env \<Rightarrow> current_user \<Rightarrow> jstring \<Rightarrow> bank_dto \<Rightarrow> victim_state \<Rightarrow> vprofile result \<times> victim_state" where
  "updateBankDetails env admin pid data s = getProfileOr404 pid s (\<lambda>p. updateBankDetails_from env admin p data s)"

text \<open>The last four characters; the bullets that hide the others are written as stars.\<close>

definition mask_account :: "jstring \<Rightarrow> jstring option" where
  "mask_account n = (if n = [] then None else Some (replicate (length n - 4) CHR ''*'' @ slice_last 4 n))"

definition verify_where :: "pdestination \<Rightarrow> pdestination \<Rightarrow> bool" where
  "verify_where d e \<longleftrightarrow> de_id e = de_id d \<and> \<not> de_isVerified e \<and> de_updatedAt e = de_updatedAt d"

definition verifyBankDetails_from :: "victim_env \<Rightarrow> current_user \<Rightarrow> vprofile \<Rightarrow> pdestination \<Rightarrow> jstring option
    \<Rightarrow> victim_state \<Rightarrow> jstring option result \<times> victim_state" where
  "verifyBankDetails_from env admin p d notes s =
     (let action = ''VICTIM_PROFILE_BANK_DETAILS_VERIFIED'' in
      if de_isVerified d then (Inl (Conflict ''payout_destination_already_verified''), s)
      else if last_actor ''VICTIM_PROFILE_BANK_DETAILS_UPDATED'' (vp_id p) s = Some (cu_id admin)
      then (Inl (Forbidden ''verifier_must_differ_from_editor''),
        vp_emit (emitProfileFailure admin action p ''verifier_must_differ_from_editor'' DENIED [] []) s)
      else if count_where (verify_where d) (vs_destinations s) = 0
      then (Inl (Conflict ''victim_profile_transition_conflict''), s)
      else (Inr (mask_account (de_accountNumber d)),
        vp_emit (auditSuccess admin action p WARNING notes
            [(''accountNumberMasked'', jstr_opt (mask_account (de_accountNumber d)))] [])
          (s\<lparr>vs_destinations := update_where (verify_where d)
            (\<lambda>e. e\<lparr>de_isVerified := True, de_verifiedById := Some (cu_id admin), de_verifiedAt := Some (ve_now env),
                  de_updatedAt := ve_now env\<rparr>) (vs_destinations s)\<rparr>)))"

definition verifyBankDetails :: "victim_env \<Rightarrow> current_user \<Rightarrow> jstring \<Rightarrow> jstring option \<Rightarrow> victim_state
    \<Rightarrow> jstring option result \<times> victim_state" where
  "verifyBankDetails env admin pid notes s =
     getProfileOr404 pid s (\<lambda>p.
       assertAdminCanAccessProfile admin p ''VICTIM_PROFILE_BANK_DETAILS_VERIFIED'' s
        (case find_destination pid s of
           None \<Rightarrow> (Inl (BadRequest ''payout_destination_not_set''), s)
         | Some d \<Rightarrow> verifyBankDetails_from env admin p d notes s))"

section \<open>Totals and goal\<close>

text \<open>A version-checked write of a number the column cannot hold: refused once a row is found.\<close>

definition overflow :: "victim_env \<Rightarrow> current_user \<Rightarrow> jstring \<Rightarrow> vprofile \<Rightarrow> victim_state \<Rightarrow> 'a result \<times> victim_state" where
  "overflow env admin action p s =
     (if count_where (same_version p) (vs_profiles s) = 0
      then (Inl (BadRequest ''victim_profile_transition_conflict''), vp_emit (transition_conflict admin action p) s)
      else (Inl DatabaseError, s))"

record reconcile_answer =
  ra_cachedTotal :: rat
  ra_liveTotal :: rat
  ra_mismatch :: bool
  ra_corrected :: bool

definition live_total :: "jstring \<Rightarrow> victim_state \<Rightarrow> rat" where
  "live_total pid s = sum_where (\<lambda>p. p_victimProfileId p = pid \<and> p_status p = PAY_PAID) p_amount (vs_payments s)"

definition reconcileProfileTotal_from :: "victim_env \<Rightarrow> current_user \<Rightarrow> vprofile \<Rightarrow> bool \<Rightarrow> victim_state
    \<Rightarrow> reconcile_answer result \<times> victim_state" where
  "reconcileProfileTotal_from env admin p autoCorrect s =
     (let action = ''VICTIM_PROFILE_TOTAL_RECONCILED''; live = live_total (vp_id p) s;
          mismatch = (\<bar>live - vp_totalRaised p\<bar> > 1 / 100);
          answer = (\<lambda>corrected. \<lparr>ra_cachedTotal = vp_totalRaised p, ra_liveTotal = live,
            ra_mismatch = mismatch, ra_corrected = corrected\<rparr>);
          report = (\<lambda>corrected. Audit ((vp_audit admin action p)\<lparr>ae_severity := WARNING,
            ae_diff := [(''result'', JStr (if corrected then ''success'' else ''mismatch_detected'')),
              (''previousCachedTotal'', JFixed (vp_totalRaised p)), (''liveTotal'', JFixed live), (''corrected'', JBool corrected)],
            ae_metadata := [(''difference'', JFixed (live - vp_totalRaised p)),
              (''paidPaymentCount'', JInt (int (count_where (\<lambda>q. p_victimProfileId q = vp_id p \<and> p_status q = PAY_PAID) (vs_payments s))))]\<rparr>)) in
      if \<not> mismatch then (Inr (answer False), s)
      else if \<not> autoCorrect then (Inr (answer False), vp_emit (report False) s)
      else case decimal_column 12 live of None \<Rightarrow> overflow env admin action p s
      | Some stored \<Rightarrow> res_bind (conditionalUpdate (ve_now env) admin action p (\<lambda>q. q\<lparr>vp_totalRaised := stored\<rparr>) s)
        (\<lambda>u s1. (Inr (answer True), vp_emit (report True) (invalidate p s1))))"

definition reconcileProfileTotal :: "victim_env \<Rightarrow> current_user \<Rightarrow> jstring \<Rightarrow> bool \<Rightarrow> victim_state
    \<Rightarrow> reconcile_answer result \<times> victim_state" where
  "reconcileProfileTotal env admin pid autoCorrect s =
     getProfileOr404 pid s (\<lambda>p. reconcileProfileTotal_from env admin p autoCorrect s)"

definition resumeDonations_from :: "victim_env \<Rightarrow> current_user \<Rightarrow> vprofile \<Rightarrow> victim_state \<Rightarrow> vprofile result \<times> victim_state" where
  "resumeDonations_from env admin p s =
     (if \<not> vp_donationsPaused p then (Inl (BadRequest ''donations_not_paused''), s)
      else if vp_takedownAt p \<noteq> None then (Inl (BadRequest ''cannot_resume_during_takedown''), s)
      else if vp_deletedAt p \<noteq> None then (Inl (BadRequest ''victim_profile_deleted''), s)
      else if vp_status p = VP_COMPLETED then (Inl (BadRequest ''victim_profile_completed_reopen_first''), s)
      else res_bind (conditionalUpdate (ve_now env) admin ''VICTIM_PROFILE_DONATIONS_RESUMED'' p
            (\<lambda>q. q\<lparr>vp_donationsPaused := False, vp_donationsPausedReason := None, vp_donationsPausedAt := None\<rparr>) s)
          (\<lambda>u s1. (Inr u, vp_emit (auditSuccess admin ''VICTIM_PROFILE_DONATIONS_RESUMED'' p INFO None
             [(''previousReason'', jstr_opt (vp_donationsPausedReason p))] []) (invalidate p s1))))"

definition resumeDonations :: "victim_env \<Rightarrow> current_user \<Rightarrow> jstring \<Rightarrow> victim_state \<Rightarrow> vprofile result \<times> victim_state" where
  "resumeDonations env admin pid s = getProfileOr404 pid s (\<lambda>p. resumeDonations_from env admin p s)"

definition updateGoal_from :: "victim_env \<Rightarrow> current_user \<Rightarrow> vprofile \<Rightarrow> rat \<Rightarrow> jstring \<Rightarrow> victim_state \<Rightarrow> vprofile result \<times> victim_state" where
  "updateGoal_from env admin p goal reason s =
     (let action = ''VICTIM_PROFILE_GOAL_UPDATED'' in
      assertAdminCanAccessProfile admin p action s
       (if goal > 0 \<and> goal < vp_totalRaised p then (Inl (BadRequest ''goal_below_total_raised''), s)
        else case decimal_column 12 goal of None \<Rightarrow> overflow env admin action p s
        | Some stored \<Rightarrow> res_bind (conditionalUpdate (ve_now env) admin action p (\<lambda>q. q\<lparr>vp_supportGoal := Some stored\<rparr>) s)
            (\<lambda>u s1. (Inr u, vp_emit (auditSuccess admin action p WARNING (Some reason)
               [(''previousGoal'', case vp_supportGoal p of None \<Rightarrow> JNull | Some g \<Rightarrow> JFixed g),
                (''newGoal'', JFixed goal), (''totalRaised'', JFixed (vp_totalRaised p))] []) (invalidate p s1)))))"

definition updateGoal :: "victim_env \<Rightarrow> current_user \<Rightarrow> jstring \<Rightarrow> rat \<Rightarrow> jstring \<Rightarrow> victim_state \<Rightarrow> vprofile result \<times> victim_state" where
  "updateGoal env admin pid goal reason s = getProfileOr404 pid s (\<lambda>p. updateGoal_from env admin p goal reason s)"

end
