(* ===== verification/Victim_Moderation.thy ===== *)
theory Victim_Moderation
  imports Victim_Funding
begin

text \<open>
  Flags and appeals about victim profiles, \<open>victim-profile-moderation.service.ts\<close>.
\<close>

section \<open>Appeals\<close>

definition open_appeal :: "jstring \<Rightarrow> victim_state \<Rightarrow> bool" where
  "open_appeal pid s \<longleftrightarrow> find_where (\<lambda>a. va_profileId a = pid \<and> va_status a = VA_OPEN) (vs_appeals s) \<noteq> None"

definition createProfileAppeal_from :: "victim_env \<Rightarrow> current_user \<Rightarrow> vprofile \<Rightarrow> jstring \<Rightarrow> victim_state \<Rightarrow> vappeal result \<times> victim_state" where
  "createProfileAppeal_from env user p message s =
     (let previous = count_where (\<lambda>a. va_profileId a = vp_id p) (vs_appeals s);
          appeal = \<lparr>va_id = ve_newId env (vs_created s), va_profileId = vp_id p, va_authorId = cu_id user,
            va_message = message, va_status = VA_OPEN, va_decidedById = None, va_decidedAt = None,
            va_decisionNote = None, va_createdAt = ve_now env\<rparr> in
      if vp_status p \<noteq> VP_REJECTED then (Inl (BadRequest ''only_rejected_profiles_can_be_appealed''), s)
      else if open_appeal (vp_id p) s then (Inl (Conflict ''appeal_already_open''), s)
      else if previous \<ge> ve_maxAppeals env then (Inl (BadRequest ''appeal_limit_reached''), s)
      else (Inr appeal, vp_emit (auditSuccess user ''VICTIM_PROFILE_APPEAL_CREATED'' p INFO None []
          [(''appealId'', JStr (va_id appeal)), (''appealNumber'', JInt (int previous + 1))])
        (s\<lparr>vs_appeals := vs_appeals s @ [appeal], vs_created := vs_created s + 1\<rparr>)))"

definition createProfileAppeal :: "victim_env \<Rightarrow> current_user \<Rightarrow> jstring \<Rightarrow> jstring \<Rightarrow> victim_state \<Rightarrow> vappeal result \<times> victim_state" where
  "createProfileAppeal env user pid message s =
     getMineOr404 user pid s (\<lambda>p. createProfileAppeal_from env user p message s)"

definition find_vappeal :: "jstring \<Rightarrow> victim_state \<Rightarrow> vappeal option" where
  "find_vappeal aid s = find_where (\<lambda>a. va_id a = aid) (vs_appeals s)"

definition appeal_open :: "jstring \<Rightarrow> vappeal \<Rightarrow> bool" where
  "appeal_open = claimable va_id va_status [VA_OPEN]"

definition close_appeal :: "victim_env \<Rightarrow> current_user \<Rightarrow> bool \<Rightarrow> jstring \<Rightarrow> vappeal \<Rightarrow> vappeal" where
  "close_appeal env admin overturn reason a = a\<lparr>va_status := (if overturn then VA_OVERTURNED else VA_UPHELD),
     va_decidedById := Some (cu_id admin), va_decidedAt := Some (ve_now env), va_decisionNote := Some reason\<rparr>"

definition finish_appeal :: "victim_env \<Rightarrow> current_user \<Rightarrow> vprofile \<Rightarrow> vappeal \<Rightarrow> bool \<Rightarrow> jstring \<Rightarrow> victim_state
    \<Rightarrow> vappeal result \<times> victim_state" where
  "finish_appeal env admin p appeal overturn reason s =
     (let decision = JStr (if overturn then ''OVERTURN_REJECTION'' else ''UPHOLD_REJECTION'') in
      if count_where (appeal_open (va_id appeal)) (vs_appeals s) = 0
      then (Inl (Conflict ''victim_profile_appeal_already_decided''), s)
      else let s1 = s\<lparr>vs_appeals := update_where (appeal_open (va_id appeal))
                 (close_appeal env admin overturn reason) (vs_appeals s)\<rparr>;
               s2 = vp_emit (Notify ''VICTIM_PROFILE_APPEAL_DECIDED'' [(''userId'', JStr (va_authorId appeal)),
                     (''victimProfileId'', JStr (vp_id p)), (''appealId'', JStr (va_id appeal)), (''decision'', decision)])
                 (vp_emit (auditSuccess admin ''VICTIM_PROFILE_APPEAL_DECIDED'' p INFO (Some reason)
                     [(''appealId'', JStr (va_id appeal)), (''decision'', decision), (''creatorMessage'', JStr reason)] [])
                   (invalidate p s1))
           in (case find_vappeal (va_id appeal) s2 of
                 None \<Rightarrow> (Inl (PlainError ''No VictimProfileAppeal found''), s2) | Some a \<Rightarrow> (Inr a, s2)))"

text \<open>
  Whoever rejected the profile may not decide the appeal, super administrators excepted.
\<close>

definition decideProfileAppeal_from :: "victim_env \<Rightarrow> current_user \<Rightarrow> vappeal \<Rightarrow> vprofile \<Rightarrow> bool \<Rightarrow> jstring
    \<Rightarrow> victim_state \<Rightarrow> vappeal result \<times> victim_state" where
  "decideProfileAppeal_from env admin appeal p overturn reason s =
     (if \<not> is_super admin \<and> last_actor ''VICTIM_PROFILE_REJECTED'' (vp_id p) s = Some (cu_id admin)
      then (Inl (Forbidden ''appeal_requires_a_different_reviewer''),
        vp_emit (emitProfileFailure admin ''VICTIM_PROFILE_APPEAL_DECIDED'' p ''appeal_requires_a_different_reviewer'' DENIED [] []) s)
      else if overturn
      then (if vp_status p \<noteq> VP_REJECTED then (Inl (BadRequest ''victim_profile_not_rejected''), s)
            else res_bind (resubmitProfile env admin (vp_id p) s)
              (\<lambda>u s1. finish_appeal env admin p appeal overturn reason s1))
      else finish_appeal env admin p appeal overturn reason s)"

definition decideProfileAppeal :: "victim_env \<Rightarrow> current_user \<Rightarrow> jstring \<Rightarrow> bool \<Rightarrow> jstring \<Rightarrow> victim_state
    \<Rightarrow> vappeal result \<times> victim_state" where
  "decideProfileAppeal env admin aid overturn reason s =
     (case find_vappeal aid s of
        None \<Rightarrow> (Inl (NotFound ''victim_profile_appeal_not_found''), s)
      | Some a \<Rightarrow>
        if va_status a \<noteq> VA_OPEN then (Inl (Conflict ''victim_profile_appeal_already_decided''), s)
        else getProfileOr404 (va_profileId a) s (\<lambda>p. decideProfileAppeal_from env admin a p overturn reason s))"

section \<open>Flags\<close>

text \<open>\<open>create\<close> under the unique key of profile and reporter.\<close>

definition insert_vflag :: "vflag \<Rightarrow> victim_state \<Rightarrow> unit result \<times> victim_state" where
  "insert_vflag f s =
     (if find_where (\<lambda>g. vf_profileId g = vf_profileId f \<and> vf_reporterId g = vf_reporterId f) (vs_flags s) \<noteq> None
      then (Inl UniqueViolation, s)
      else (Inr (), s\<lparr>vs_flags := vs_flags s @ [f], vs_created := vs_created s + 1\<rparr>))"

definition flagProfile_from :: "victim_env \<Rightarrow> current_user \<Rightarrow> vprofile \<Rightarrow> jstring \<Rightarrow> jstring option \<Rightarrow> victim_state
    \<Rightarrow> vflag result \<times> victim_state" where
  "flagProfile_from env user p reason details s =
     (let f = \<lparr>vf_id = ve_newId env (vs_created s), vf_profileId = vp_id p, vf_reporterId = cu_id user,
            vf_reason = reason, vf_details = details, vf_status = VF_OPEN, vf_resolution = None,
            vf_resolvedById = None, vf_resolvedAt = None, vf_note = None, vf_createdAt = ve_now env\<rparr> in
      if vp_createdByUserId p = Some (cu_id user) then (Inl (BadRequest ''cannot_flag_your_own_profile''), s)
      else if find_where (\<lambda>g. vf_profileId g = vp_id p \<and> vf_reporterId g = cu_id user) (vs_flags s) \<noteq> None
      then (Inl (Conflict ''profile_already_flagged_by_you''), s)
      else (case insert_vflag f s of
          (Inl UniqueViolation, s1) \<Rightarrow> (Inl (Conflict ''profile_already_flagged_by_you''), s1)
        | (Inl e, s1) \<Rightarrow> (Inl e, s1)
        | (Inr _, s1) \<Rightarrow> (Inr f, vp_emit (Notify ''VICTIM_PROFILE_FLAGGED'' [(''victimProfileId'', JStr (vp_id p)),
              (''flagId'', JStr (vf_id f)), (''reason'', JStr reason)])
            (vp_emit (auditSuccess user ''VICTIM_PROFILE_FLAGGED'' p
                (if reason = ''IDENTIFIES_CHILD'' then CRITICAL else WARNING) None
                [(''reason'', JStr reason)] [(''flagId'', JStr (vf_id f))]) s1))))"

definition flagProfile :: "victim_env \<Rightarrow> current_user \<Rightarrow> jstring \<Rightarrow> jstring \<Rightarrow> jstring option \<Rightarrow> victim_state
    \<Rightarrow> vflag result \<times> victim_state" where
  "flagProfile env user pid reason details s =
     assertPublishedProfile pid s (\<lambda>p. flagProfile_from env user p reason details s)"

definition find_vflag :: "jstring \<Rightarrow> victim_state \<Rightarrow> vflag option" where
  "find_vflag fid s = find_where (\<lambda>f. vf_id f = fid) (vs_flags s)"

definition flag_open :: "jstring \<Rightarrow> vflag \<Rightarrow> bool" where
  "flag_open = claimable vf_id vf_status [VF_OPEN]"

definition take_flag :: "victim_env \<Rightarrow> current_user \<Rightarrow> flag_resolution \<Rightarrow> jstring \<Rightarrow> vflag \<Rightarrow> vflag" where
  "take_flag env admin resolution reason f =
     f\<lparr>vf_status := (if resolution = FR_DISMISS then VF_DISMISSED else VF_ACTIONED),
       vf_resolution := Some resolution, vf_resolvedById := Some (cu_id admin),
       vf_resolvedAt := Some (ve_now env), vf_note := Some reason\<rparr>"

definition put_flag_back :: "vflag \<Rightarrow> vflag" where
  "put_flag_back f = f\<lparr>vf_status := VF_OPEN, vf_resolution := None, vf_resolvedById := None,
     vf_resolvedAt := None, vf_note := None\<rparr>"

text \<open>What resolving a flag does to the profile itself.\<close>

definition flag_action :: "victim_env \<Rightarrow> current_user \<Rightarrow> vprofile \<Rightarrow> flag_resolution \<Rightarrow> jstring \<Rightarrow> victim_state
    \<Rightarrow> unit result \<times> victim_state" where
  "flag_action env admin p resolution reason s =
     (if resolution = FR_UNPUBLISH \<and> vp_isPublished p
      then res_bind (unpublishProfile env admin (vp_id p) s) (\<lambda>u s1. (Inr (), s1))
      else if resolution = FR_PAUSE_DONATIONS \<and> \<not> vp_donationsPaused p
      then res_bind (pauseDonations env admin (vp_id p) reason s) (\<lambda>u s1. (Inr (), s1))
      else (Inr (), s))"

definition jresolution :: "flag_resolution \<Rightarrow> jval" where
  "jresolution r = JStr (case r of FR_DISMISS \<Rightarrow> ''DISMISS'' | FR_UNPUBLISH \<Rightarrow> ''UNPUBLISH''
     | FR_PAUSE_DONATIONS \<Rightarrow> ''PAUSE_DONATIONS'')"

definition resolveFlag_from :: "victim_env \<Rightarrow> current_user \<Rightarrow> vflag \<Rightarrow> vprofile \<Rightarrow> flag_resolution \<Rightarrow> jstring
    \<Rightarrow> victim_state \<Rightarrow> vflag result \<times> victim_state" where
  "resolveFlag_from env admin flag p resolution reason s =
     (let mine = (\<lambda>f. vf_id f = vf_id flag) in
      if count_where (flag_open (vf_id flag)) (vs_flags s) = 0
      then (Inl (Conflict ''victim_profile_flag_already_resolved''), s)
      else let s1 = s\<lparr>vs_flags := update_where (flag_open (vf_id flag)) (take_flag env admin resolution reason) (vs_flags s)\<rparr>
      in (case flag_action env admin p resolution reason s1 of
            (Inl e, s2) \<Rightarrow> (Inl e, s2\<lparr>vs_flags := update_where mine put_flag_back (vs_flags s2)\<rparr>)
          | (Inr _, s2) \<Rightarrow>
              let s3 = vp_emit (auditSuccess admin ''VICTIM_PROFILE_FLAG_RESOLVED'' p INFO (Some reason)
                    [(''flagId'', JStr (vf_id flag)), (''resolution'', jresolution resolution),
                     (''flagReason'', JStr (vf_reason flag))] []) s2
              in (case find_vflag (vf_id flag) s3 of
                    None \<Rightarrow> (Inl (PlainError ''No VictimProfileFlag found''), s3) | Some f \<Rightarrow> (Inr f, s3))))"

definition resolveFlag :: "victim_env \<Rightarrow> current_user \<Rightarrow> jstring \<Rightarrow> flag_resolution \<Rightarrow> jstring \<Rightarrow> victim_state
    \<Rightarrow> vflag result \<times> victim_state" where
  "resolveFlag env admin fid resolution reason s =
     (case find_vflag fid s of
        None \<Rightarrow> (Inl (NotFound ''victim_profile_flag_not_found''), s)
      | Some f \<Rightarrow>
        if vf_status f \<noteq> VF_OPEN then (Inl (Conflict ''victim_profile_flag_already_resolved''), s)
        else getProfileOr404 (vf_profileId f) s (\<lambda>p. resolveFlag_from env admin f p resolution reason s))"

end
