(* ===== verification/Victim_Mine.thy ===== *)
theory Victim_Mine
  imports Victim_Moderation
begin

text \<open>
  Submission and editing of victim profiles (\<open>victim-profile-submission.service.ts\<close>) and what
  creators do with their own profiles (\<open>victim-profile-mine.service.ts\<close>). An absent field of an
  update leaves its column alone.
\<close>

section \<open>Submission\<close>

record profile_dto =
  vd_name :: "jstring option"
  vd_description :: "jstring option"
  vd_story :: "jstring option"
  vd_supportGoal :: "rat option"
  vd_involvesChild :: "bool option"
  vd_media :: media_dto

definition insert_profile :: "vprofile \<Rightarrow> victim_state \<Rightarrow> vprofile result \<times> victim_state" where
  "insert_profile p s =
     (if (\<exists>q \<in> set (vs_profiles s). vp_id q = vp_id p) \<or>
         (\<exists>q \<in> set (vs_profiles s). vp_idempotencyKey p \<noteq> None \<and> vp_createdByUserId q = vp_createdByUserId p \<and>
            vp_idempotencyKey q = vp_idempotencyKey p)
      then (Inl UniqueViolation, s)
      else (Inr p, s\<lparr>vs_profiles := vs_profiles s @ [p], vs_created := vs_created s + 1\<rparr>))"

definition new_profile :: "victim_env \<Rightarrow> current_user \<Rightarrow> profile_dto \<Rightarrow> media \<Rightarrow> int \<Rightarrow> rat option
    \<Rightarrow> jstring option \<Rightarrow> victim_state \<Rightarrow> vprofile" where
  "new_profile env user data merged totalBytes goal key s =
     \<lparr>vp_id = ve_newId env (vs_created s), vp_name = vd_name data, vp_description = vd_description data,
      vp_story = vd_story data, vp_supportGoal = goal, vp_media = merged,
      vp_involvesChild = or_else (vd_involvesChild data) False, vp_status = VP_PENDING,
      vp_isVerified = False, vp_isSafetyReviewed = False, vp_hasConsent = False, vp_consentAt = None,
      vp_consentRecordedBy = None, vp_isPrivacyReviewed = False, vp_isAdminApproved = False,
      vp_isPublished = False, vp_createdAt = ve_now env, vp_updatedAt = ve_now env,
      vp_isChildSafetyReviewed = False, vp_createdByUserId = Some (cu_id user), vp_idempotencyKey = key,
      vp_mediaTotalBytes = totalBytes, vp_claimedByUserId = None, vp_claimedAt = None,
      vp_firstConfirmedBy = None, vp_firstConfirmedAt = None, vp_totalRaised = 0, vp_reviewNote = None,
      vp_reviewNoteAt = None, vp_creatorSeenAt = None, vp_assignedReviewerId = None, vp_assignedAt = None,
      vp_completedAt = None, vp_completionNote = None, vp_isFeatured = False, vp_featuredAt = None,
      vp_fundingEndsAt = None, vp_donationsPaused = False, vp_donationsPausedReason = None,
      vp_donationsPausedAt = None, vp_takedownReason = None, vp_takedownAt = None, vp_takedownById = None,
      vp_deletedAt = None, vp_deletedById = None, vp_deleteReason = None, vp_legalHold = False,
      vp_legalHoldReason = None, vp_legalHoldAt = None, vp_legalHoldById = None, vp_anonymizedAt = None,
      vp_consentedBy = None, vp_consentNotes = None, vp_consentDocuments = [], vp_childFlagValue = None,
      vp_childFlagById = None, vp_childFlagAt = None, vp_childFlagReason = None, vp_payoutsPaused = False\<rparr>"

definition find_by_key :: "current_user \<Rightarrow> jstring option \<Rightarrow> victim_state \<Rightarrow> vprofile option" where
  "find_by_key user key s = find_where (\<lambda>p. vp_createdByUserId p = Some (cu_id user) \<and> vp_idempotencyKey p = key) (vs_profiles s)"

text \<open>An empty key is falsy: it is neither looked up nor reported, but stored as it is.\<close>

definition createProfile :: "victim_env \<Rightarrow> current_user \<Rightarrow> profile_dto \<Rightarrow> jstring option \<Rightarrow> victim_state
    \<Rightarrow> vprofile result \<times> victim_state" where
  "createProfile env user data key s =
     (case (if truthy key then find_by_key user key s else None) of
        Some existing \<Rightarrow> (Inr existing, s)
      | None \<Rightarrow>
        let merged = merge_media (vd_media data) no_media in
        (case accept_media env merged (collectMediaFields merged) id of
           Inl e \<Rightarrow> (Inl e, s)
         | Inr totalBytes \<Rightarrow>
           (case (case vd_supportGoal data of None \<Rightarrow> Some None | Some g \<Rightarrow> map_option Some (decimal_column 12 g)) of
              None \<Rightarrow> (Inl DatabaseError, s)
            | Some goal \<Rightarrow>
              (case insert_profile (new_profile env user data merged totalBytes goal key s) s of
                 (Inl UniqueViolation, s1) \<Rightarrow>
                   (case (if truthy key then find_by_key user key s1 else None) of
                      Some winner \<Rightarrow> (Inr winner, s1) | None \<Rightarrow> (Inl UniqueViolation, s1))
               | (Inl e, s1) \<Rightarrow> (Inl e, s1)
               | (Inr p, s1) \<Rightarrow> (Inr p, vp_emit (notify_creator ''VICTIM_PROFILE_CREATED'' p [])
                   (vp_emit (Audit ((vp_audit user ''VICTIM_PROFILE_CREATED'' p)
                      \<lparr>ae_diff := [(''result'', JStr ''success''), (''status'', jpstatus (vp_status p))],
                       ae_metadata := [(''involvesChild'', JBool (vp_involvesChild p)),
                         (''attachmentCount'', JInt (int (length (collectMediaFields merged)))),
                         (''mediaTotalBytes'', JInt totalBytes)]\<rparr>)) s1))))))"

section \<open>Editing\<close>

record media_change =
  mc_added :: "jstring list"
  mc_removed :: "jstring list"
  mc_newTotalBytes :: int

definition computeMediaChange :: "victim_env \<Rightarrow> vprofile \<Rightarrow> media_dto \<Rightarrow> media_change result" where
  "computeMediaChange env p data =
     (let (added, removed) = diffMediaFields (vp_media p) data;
          total = (\<lambda>addedBytes. max 0 (vp_mediaTotalBytes p + addedBytes - removed_bytes env removed)) in
      case accept_media env (merge_media data (vp_media p)) added total of
        Inl e \<Rightarrow> Inl e
      | Inr n \<Rightarrow> Inr \<lparr>mc_added = added, mc_removed = removed, mc_newTotalBytes = n\<rparr>)"

text \<open>The content columns an update writes, and the gates it resets.\<close>

definition write_content :: "profile_dto \<Rightarrow> rat option \<Rightarrow> int \<Rightarrow> vprofile \<Rightarrow> vprofile" where
  "write_content data goal totalBytes q = q\<lparr>
     vp_name := (case vd_name data of None \<Rightarrow> vp_name q | x \<Rightarrow> x),
     vp_description := (case vd_description data of None \<Rightarrow> vp_description q | x \<Rightarrow> x),
     vp_story := (case vd_story data of None \<Rightarrow> vp_story q | x \<Rightarrow> x),
     vp_supportGoal := (case goal of None \<Rightarrow> vp_supportGoal q | x \<Rightarrow> x),
     vp_media := merge_media (vd_media data) (vp_media q),
     vp_involvesChild := or_else (vd_involvesChild data) (vp_involvesChild q),
     vp_mediaTotalBytes := totalBytes\<rparr>"

definition reset_gates :: "vprofile \<Rightarrow> vprofile" where
  "reset_gates q = q\<lparr>vp_isVerified := False, vp_isSafetyReviewed := False, vp_isChildSafetyReviewed := False,
     vp_hasConsent := False, vp_consentAt := None, vp_consentRecordedBy := None, vp_isPrivacyReviewed := False,
     vp_isAdminApproved := False, vp_isPublished := False, vp_firstConfirmedBy := None, vp_firstConfirmedAt := None\<rparr>"

definition fields_updated :: "profile_dto \<Rightarrow> jstring list" where
  "fields_updated d = map fst (filter snd [(''name'', vd_name d \<noteq> None), (''description'', vd_description d \<noteq> None),
     (''story'', vd_story d \<noteq> None), (''supportGoal'', vd_supportGoal d \<noteq> None),
     (''photo'', md_photo (vd_media d) \<noteq> None), (''video'', md_video (vd_media d) \<noteq> None),
     (''audio'', md_audio (vd_media d) \<noteq> None), (''pdf'', md_pdf (vd_media d) \<noteq> None),
     (''document'', md_document (vd_media d) \<noteq> None), (''other'', md_other (vd_media d) \<noteq> None),
     (''involvesChild'', vd_involvesChild d \<noteq> None)])"

definition purge_media :: "jstring list \<Rightarrow> victim_state \<Rightarrow> victim_state" where
  "purge_media paths s = fold (\<lambda>f. vp_emit (Purge f)) paths s"

definition change_meta :: "profile_dto \<Rightarrow> media_change \<Rightarrow> (jstring \<times> jval) list" where
  "change_meta data m = [(''fieldsUpdated'', JArr (map JStr (fields_updated data))),
     (''mediaAdded'', JInt (int (length (mc_added m)))), (''mediaRemoved'', JInt (int (length (mc_removed m)))),
     (''mediaTotalBytes'', JInt (mc_newTotalBytes m))]"

text \<open>
  The write shared by both editors: the media checks with their audit entry, the goal's column, the
  version check, the removal of dropped objects.
\<close>

definition edit_profile :: "victim_env \<Rightarrow> current_user \<Rightarrow> vprofile \<Rightarrow> profile_dto \<Rightarrow> (vprofile \<Rightarrow> vprofile) \<Rightarrow> victim_state
    \<Rightarrow> (vprofile \<Rightarrow> media_change \<Rightarrow> victim_state \<Rightarrow> vprofile result \<times> victim_state) \<Rightarrow> vprofile result \<times> victim_state" where
  "edit_profile env user p data f s done =
     (let action = ''VICTIM_PROFILE_UPDATED'' in
      case computeMediaChange env p (vd_media data) of
        Inl e \<Rightarrow> (Inl e, vp_emit (emitProfileFailure user action p ''media_validation_failed'' FAILURE
          [(''message'', JStr (err_message e))] []) s)
      | Inr m \<Rightarrow>
        (case (case vd_supportGoal data of None \<Rightarrow> Some None | Some g \<Rightarrow> map_option Some (decimal_column 12 g)) of
           None \<Rightarrow> overflow env user action p s
         | Some goal \<Rightarrow>
             res_bind (conditionalUpdate (ve_now env) user action p
                 (\<lambda>q. f (reset_gates (write_content data goal (mc_newTotalBytes m) q))) s)
               (\<lambda>u s1. done u m (invalidate p (purge_media (mc_removed m) s1)))))"

definition updateProfile_from :: "victim_env \<Rightarrow> current_user \<Rightarrow> vprofile \<Rightarrow> profile_dto \<Rightarrow> victim_state \<Rightarrow> vprofile result \<times> victim_state" where
  "updateProfile_from env admin p data s =
     (let action = ''VICTIM_PROFILE_UPDATED'' in
      assertAdminCanAccessProfile admin p action s
       (edit_profile env admin p data (\<lambda>q. q\<lparr>vp_status := VP_PENDING\<rparr>) s
         (\<lambda>u m s1. (Inr u, vp_emit (notify_creator action p [])
            (vp_emit (Audit ((vp_audit admin action p)\<lparr>ae_targetUserId := targetUserFor admin p,
               ae_entityLabel := profileLabel u,
               ae_diff := (''result'', JStr ''success'') # status_diff p VP_PENDING @
                 [(''previousIsPublished'', JBool (vp_isPublished p)), (''newIsPublished'', JBool False)],
               ae_metadata := change_meta data m\<rparr>)) s1)))))"

definition updateProfile :: "victim_env \<Rightarrow> current_user \<Rightarrow> jstring \<Rightarrow> profile_dto \<Rightarrow> victim_state \<Rightarrow> vprofile result \<times> victim_state" where
  "updateProfile env admin pid data s = getProfileOr404 pid s (\<lambda>p. updateProfile_from env admin p data s)"

definition updateMine_from :: "victim_env \<Rightarrow> current_user \<Rightarrow> vprofile \<Rightarrow> profile_dto \<Rightarrow> victim_state \<Rightarrow> vprofile result \<times> victim_state" where
  "updateMine_from env user p data s =
     (let action = ''VICTIM_PROFILE_UPDATED'' in
      if vp_status p \<notin> set CREATOR_EDITABLE_STATUSES
      then (Inl (BadRequest ''victim_profile_not_editable''),
        vp_emit (emitProfileFailure user action p ''victim_profile_not_editable'' DENIED
          [(''currentStatus'', jpstatus (vp_status p))] []) s)
      else if vp_involvesChild p \<and> vd_involvesChild data = Some False
      then (Inl (Forbidden ''child_flag_change_requires_admin''),
        vp_emit (emitProfileFailure user action p ''child_flag_change_requires_admin'' DENIED [] []) s)
      else edit_profile env user p data id s
        (\<lambda>u m s1. (Inr u, vp_emit (auditSuccess user action u INFO None (status_diff p (vp_status u))
            ((''actor'', JStr ''creator'') # change_meta data m)) s1)))"

definition updateMine :: "victim_env \<Rightarrow> current_user \<Rightarrow> jstring \<Rightarrow> profile_dto \<Rightarrow> victim_state \<Rightarrow> vprofile result \<times> victim_state" where
  "updateMine env user pid data s = getMineOr404 user pid s (\<lambda>p. updateMine_from env user p data s)"

section \<open>Removal\<close>

text \<open>
  \<open>deleteMany\<close>: payments and disbursements refer to the profile with \<open>onDelete: Restrict\<close>, the
  other tables with \<open>Cascade\<close>.
\<close>

definition money_rows :: "jstring \<Rightarrow> victim_state \<Rightarrow> bool" where
  "money_rows pid s \<longleftrightarrow> (\<exists>p \<in> set (vs_payments s). p_victimProfileId p = pid) \<or>
     (\<exists>d \<in> set (vs_disbursements s). d_victimProfileId d = pid)"

definition delete_profile :: "jstring \<Rightarrow> victim_state \<Rightarrow> victim_state" where
  "delete_profile pid s = s\<lparr>vs_profiles := filter (\<lambda>p. vp_id p \<noteq> pid) (vs_profiles s),
     vs_destinations := filter (\<lambda>d. de_victimProfileId d \<noteq> pid) (vs_destinations s),
     vs_flags := filter (\<lambda>f. vf_profileId f \<noteq> pid) (vs_flags s),
     vs_appeals := filter (\<lambda>a. va_profileId a \<noteq> pid) (vs_appeals s),
     vs_updates := filter (\<lambda>u. vu_profileId u \<noteq> pid) (vs_updates s),
     vs_revisions := filter (\<lambda>r. vr_profileId r \<noteq> pid) (vs_revisions s),
     vs_readStates := filter (\<lambda>r. fst r \<noteq> pid) (vs_readStates s)\<rparr>"

definition removeProfile_from :: "victim_env \<Rightarrow> current_user \<Rightarrow> vprofile \<Rightarrow> victim_state \<Rightarrow> unit result \<times> victim_state" where
  "removeProfile_from env admin p s =
     (let action = ''VICTIM_PROFILE_DELETED''; keys = collectMediaFields (vp_media p) in
      assertAdminCanAccessProfile admin p action s
       (if hasUndeliveredMoney (vp_id p) s
        then (Inl (Conflict ''victim_profile_has_unsettled_payments''),
          vp_emit (emitProfileFailure admin action p ''victim_profile_has_unsettled_payments'' FAILURE [] []) s)
        else if count_where (same_version p) (vs_profiles s) = 0
        then (Inl (BadRequest ''victim_profile_transition_conflict''), vp_emit (transition_conflict admin action p) s)
        else if money_rows (vp_id p) s then (Inl DatabaseError, s)
        else (Inr (), vp_emit (notify_creator action p [])
          (vp_emit (auditSuccess admin action p INFO None
              [(''previousStatus'', jpstatus (vp_status p)), (''previousIsPublished'', JBool (vp_isPublished p))]
              [(''involvesChild'', JBool (vp_involvesChild p)), (''mediaFilesDeleted'', JInt (int (length keys))),
               (''mediaTotalBytes'', JInt (vp_mediaTotalBytes p)), (''totalRaisedAtDeletion'', JFixed (vp_totalRaised p))])
            (invalidate p (purge_media keys (delete_profile (vp_id p) s)))))))"

definition removeProfile :: "victim_env \<Rightarrow> current_user \<Rightarrow> jstring \<Rightarrow> victim_state \<Rightarrow> unit result \<times> victim_state" where
  "removeProfile env admin pid s = getProfileOr404 pid s (\<lambda>p. removeProfile_from env admin p s)"

section \<open>Creators\<close>

definition withdrawMine_from :: "victim_env \<Rightarrow> current_user \<Rightarrow> vprofile \<Rightarrow> victim_state \<Rightarrow> vprofile result \<times> victim_state" where
  "withdrawMine_from env user p s =
     (let action = ''VICTIM_PROFILE_WITHDRAWN'' in
      if vp_isPublished p \<or> vp_status p \<notin> set CREATOR_WITHDRAWABLE_STATUSES
      then (Inl (BadRequest ''victim_profile_not_withdrawable''),
        vp_emit (emitProfileFailure user action p ''victim_profile_not_withdrawable'' DENIED
          [(''currentStatus'', jpstatus (vp_status p))] []) s)
      else res_bind (conditionalUpdate (ve_now env) user action p
            (\<lambda>q. q\<lparr>vp_status := VP_WITHDRAWN, vp_isPublished := False, vp_isAdminApproved := False,
                   vp_claimedByUserId := None, vp_claimedAt := None\<rparr>) s)
          (\<lambda>u s1. (Inr u, vp_emit (auditSuccess user action u INFO None (status_diff p VP_WITHDRAWN)
             [(''releasedClaimOf'', jstr_opt (vp_claimedByUserId p))]) (invalidate p s1))))"

definition withdrawMine :: "victim_env \<Rightarrow> current_user \<Rightarrow> jstring \<Rightarrow> victim_state \<Rightarrow> vprofile result \<times> victim_state" where
  "withdrawMine env user pid s = getMineOr404 user pid s (\<lambda>p. withdrawMine_from env user p s)"

definition resubmitMine_from :: "victim_env \<Rightarrow> current_user \<Rightarrow> vprofile \<Rightarrow> victim_state \<Rightarrow> vprofile result \<times> victim_state" where
  "resubmitMine_from env user p s =
     (let action = ''VICTIM_PROFILE_RESUBMITTED''; status = deriveStatus p in
      if vp_status p \<notin> set CREATOR_RESUBMITTABLE_STATUSES
      then (Inl (BadRequest ''victim_profile_not_resubmittable''),
        vp_emit (emitProfileFailure user action p ''victim_profile_not_resubmittable'' DENIED
          [(''currentStatus'', jpstatus (vp_status p))] []) s)
      else if open_appeal (vp_id p) s then (Inl (Conflict ''appeal_open_resolve_before_resubmitting''), s)
      else res_bind (conditionalUpdate (ve_now env) user action p
            (\<lambda>q. q\<lparr>vp_status := status, vp_isPublished := False, vp_reviewNote := None, vp_reviewNoteAt := None\<rparr>) s)
          (\<lambda>u s1. (Inr u, vp_emit (notify_creator action p [(''status'', jpstatus status), (''actorId'', JStr (cu_id user))])
             (vp_emit (auditSuccess user action u INFO None (status_diff p status) [(''actor'', JStr ''creator'')])
               (invalidate p (s1\<lparr>vs_readStates := filter (\<lambda>r. fst r \<noteq> vp_id p) (vs_readStates s1)\<rparr>))))))"

definition resubmitMine :: "victim_env \<Rightarrow> current_user \<Rightarrow> jstring \<Rightarrow> victim_state \<Rightarrow> vprofile result \<times> victim_state" where
  "resubmitMine env user pid s = getMineOr404 user pid s (\<lambda>p. resubmitMine_from env user p s)"

datatype media_field = MF_photo | MF_video | MF_audio | MF_pdf | MF_document | MF_other

definition findMediaField :: "media \<Rightarrow> jstring \<Rightarrow> media_field option" where
  "findMediaField m key = map_option fst (find_where (\<lambda>(_, paths). key \<in> set paths)
     (zip [MF_photo, MF_video, MF_audio, MF_pdf, MF_document, MF_other] (media_fields m)))"

fun drop_from :: "jstring \<Rightarrow> media_field \<Rightarrow> media \<Rightarrow> media" where
  "drop_from key MF_photo m = m\<lparr>m_photo := filter (\<lambda>k. k \<noteq> key) (m_photo m)\<rparr>"
| "drop_from key MF_video m = m\<lparr>m_video := filter (\<lambda>k. k \<noteq> key) (m_video m)\<rparr>"
| "drop_from key MF_audio m = m\<lparr>m_audio := filter (\<lambda>k. k \<noteq> key) (m_audio m)\<rparr>"
| "drop_from key MF_pdf m = m\<lparr>m_pdf := filter (\<lambda>k. k \<noteq> key) (m_pdf m)\<rparr>"
| "drop_from key MF_document m = m\<lparr>m_document := filter (\<lambda>k. k \<noteq> key) (m_document m)\<rparr>"
| "drop_from key MF_other m = m\<lparr>m_other := filter (\<lambda>k. k \<noteq> key) (m_other m)\<rparr>"

definition field_name :: "media_field \<Rightarrow> jstring" where
  "field_name f = (case f of MF_photo \<Rightarrow> ''photo'' | MF_video \<Rightarrow> ''video'' | MF_audio \<Rightarrow> ''audio''
     | MF_pdf \<Rightarrow> ''pdf'' | MF_document \<Rightarrow> ''document'' | MF_other \<Rightarrow> ''other'')"

definition stat_size :: "victim_env \<Rightarrow> jstring \<Rightarrow> int" where
  "stat_size env key = (case me_stat env key of None \<Rightarrow> 0 | Some (n, _) \<Rightarrow> int n)"

text \<open>The columns come from the profile as it was read, not from the row being written.\<close>

definition drop_media :: "victim_env \<Rightarrow> vprofile \<Rightarrow> media_field \<Rightarrow> jstring \<Rightarrow> vprofile \<Rightarrow> vprofile" where
  "drop_media env p field key q = q\<lparr>vp_media := drop_from key field (vp_media p),
     vp_mediaTotalBytes := max 0 (vp_mediaTotalBytes p - stat_size env key)\<rparr>"

definition removeMineMedia_from :: "victim_env \<Rightarrow> current_user \<Rightarrow> vprofile \<Rightarrow> jstring \<Rightarrow> victim_state \<Rightarrow> unit result \<times> victim_state" where
  "removeMineMedia_from env user p key s =
     (let action = ''VICTIM_PROFILE_MEDIA_REMOVED'' in
      if vp_status p \<notin> set CREATOR_EDITABLE_STATUSES then (Inl (BadRequest ''victim_profile_not_editable''), s)
      else case findMediaField (vp_media p) key of
        None \<Rightarrow> (Inl (NotFound ''media_not_found_on_profile''), s)
      | Some field \<Rightarrow>
          res_bind (conditionalUpdate (ve_now env) user action p (drop_media env p field key) s)
            (\<lambda>u s1. (Inr (), vp_emit (auditSuccess user action u INFO None []
                [(''key'', JStr key), (''field'', JStr (field_name field)), (''actor'', JStr ''creator''),
                 (''bytesFreed'', JInt (stat_size env key))])
              (invalidate p (purge_media [key] s1)))))"

definition removeMineMedia :: "victim_env \<Rightarrow> current_user \<Rightarrow> jstring \<Rightarrow> jstring \<Rightarrow> victim_state \<Rightarrow> unit result \<times> victim_state" where
  "removeMineMedia env user pid key s = getMineOr404 user pid s (\<lambda>p. removeMineMedia_from env user p key s)"

definition accepts_updates :: "vprofile \<Rightarrow> bool" where
  "accepts_updates p \<longleftrightarrow> vp_takedownAt p = None \<and> (vp_status p = VP_PUBLISHED \<or> vp_status p = VP_COMPLETED)"

definition post_update :: "victim_env \<Rightarrow> current_user \<Rightarrow> vprofile \<Rightarrow> bool \<Rightarrow> jstring option \<Rightarrow> jstring \<Rightarrow> victim_state
    \<Rightarrow> vupdate result \<times> victim_state" where
  "post_update env user p staff title body s =
     (let u = \<lparr>vu_id = ve_newId env (vs_created s), vu_profileId = vp_id p, vu_authorId = cu_id user,
            vu_isStaff = staff, vu_title = title, vu_body = body, vu_createdAt = ve_now env\<rparr> in
      (Inr u, vp_emit (Notify ''VICTIM_PROFILE_UPDATE_POSTED'' [(''victimProfileId'', JStr (vp_id p)),
          (''updateId'', JStr (vu_id u)), (''actorId'', JStr (cu_id user))])
        (vp_emit (auditSuccess user ''VICTIM_PROFILE_UPDATE_POSTED'' p INFO None []
            [(''updateId'', JStr (vu_id u)), (''actor'', JStr (if staff then ''staff'' else ''creator''))])
          (s\<lparr>vs_updates := vs_updates s @ [u], vs_created := vs_created s + 1\<rparr>))))"

definition recent_updates :: "victim_env \<Rightarrow> jstring \<Rightarrow> victim_state \<Rightarrow> nat" where
  "recent_updates env pid s = count_where (\<lambda>u. vu_profileId u = pid \<and> \<not> vu_isStaff u \<and>
     vu_createdAt u \<ge> ve_now env - 24 * 60 * 60 * 1000) (vs_updates s)"

definition createMineUpdate_from :: "victim_env \<Rightarrow> current_user \<Rightarrow> vprofile \<Rightarrow> jstring option \<Rightarrow> jstring \<Rightarrow> victim_state
    \<Rightarrow> vupdate result \<times> victim_state" where
  "createMineUpdate_from env user p title body s =
     (if \<not> accepts_updates p then (Inl (BadRequest ''updates_require_a_published_profile''), s)
      else if recent_updates env (vp_id p) s \<ge> ve_maxUpdatesPerDay env then (Inl (BadRequest ''too_many_updates_today''), s)
      else post_update env user p False title body s)"

definition createMineUpdate :: "victim_env \<Rightarrow> current_user \<Rightarrow> jstring \<Rightarrow> jstring option \<Rightarrow> jstring \<Rightarrow> victim_state
    \<Rightarrow> vupdate result \<times> victim_state" where
  "createMineUpdate env user pid title body s =
     getMineOr404 user pid s (\<lambda>p. createMineUpdate_from env user p title body s)"

text \<open>Raw SQL: the marker leaves \<open>updatedAt\<close>, the version of the row, alone.\<close>

definition set_seen :: "victim_env \<Rightarrow> (vprofile \<Rightarrow> bool) \<Rightarrow> victim_state \<Rightarrow> victim_state" where
  "set_seen env P s = s\<lparr>vs_profiles := update_where P (\<lambda>p. p\<lparr>vp_creatorSeenAt := Some (ve_now env)\<rparr>) (vs_profiles s)\<rparr>"

definition markMineSeen :: "victim_env \<Rightarrow> current_user \<Rightarrow> jstring \<Rightarrow> victim_state \<Rightarrow> unit result \<times> victim_state" where
  "markMineSeen env user pid s = getMineOr404 user pid s (\<lambda>_.
     (Inr (), set_seen env (\<lambda>p. vp_id p = pid \<and> vp_createdByUserId p = Some (cu_id user)) s))"

definition markAllMineSeen :: "victim_env \<Rightarrow> current_user \<Rightarrow> victim_state \<Rightarrow> nat \<times> victim_state" where
  "markAllMineSeen env user s =
     (let mine = (\<lambda>p. vp_createdByUserId p = Some (cu_id user) \<and> vp_deletedAt p = None)
      in (count_where mine (vs_profiles s), set_seen env mine s))"

end
