(* ===== verification/Victim_Ops.thy ===== *)
theory Victim_Ops
  imports Victim_Mine
begin

text \<open>
  Administrative operations on victim profiles, \<open>victim-profile-admin-ops.service.ts\<close>: staff
  updates, featuring, edits of the text with their revisions, soft deletion, media, legal holds and
  anonymisation.
\<close>

section \<open>Updates and featuring\<close>

definition createAdminUpdate :: "victim_env \<Rightarrow> current_user \<Rightarrow> jstring \<Rightarrow> jstring option \<Rightarrow> jstring \<Rightarrow> victim_state
    \<Rightarrow> vupdate result \<times> victim_state" where
  "createAdminUpdate env admin pid title body s =
     getProfileOr404 pid s (\<lambda>p.
       if \<not> accepts_updates p then (Inl (BadRequest ''updates_require_a_published_profile''), s)
       else post_update env admin p True title body s)"

definition feature_from :: "victim_env \<Rightarrow> current_user \<Rightarrow> vprofile \<Rightarrow> victim_state \<Rightarrow> vprofile result \<times> victim_state" where
  "feature_from env admin p s =
     (let action = ''VICTIM_PROFILE_FEATURED'' in
      if vp_status p \<noteq> VP_PUBLISHED \<or> \<not> vp_isPublished p
      then (Inl (BadRequest ''only_published_profiles_can_be_featured''), s)
      else if vp_isFeatured p then (Inr p, s)
      else res_bind (conditionalUpdate (ve_now env) admin action p
            (\<lambda>q. q\<lparr>vp_isFeatured := True, vp_featuredAt := Some (ve_now env)\<rparr>) s)
          (\<lambda>u s1. (Inr u, vp_emit (auditSuccess admin action p INFO None [] []) (invalidate p s1))))"

definition feature :: "victim_env \<Rightarrow> current_user \<Rightarrow> jstring \<Rightarrow> victim_state \<Rightarrow> vprofile result \<times> victim_state" where
  "feature env admin pid s = getProfileOr404 pid s (\<lambda>p. feature_from env admin p s)"

definition unfeature_from :: "victim_env \<Rightarrow> current_user \<Rightarrow> vprofile \<Rightarrow> victim_state \<Rightarrow> vprofile result \<times> victim_state" where
  "unfeature_from env admin p s =
     (let action = ''VICTIM_PROFILE_UNFEATURED'' in
      if \<not> vp_isFeatured p then (Inr p, s)
      else res_bind (conditionalUpdate (ve_now env) admin action p
            (\<lambda>q. q\<lparr>vp_isFeatured := False, vp_featuredAt := None\<rparr>) s)
          (\<lambda>u s1. (Inr u, vp_emit (auditSuccess admin action p INFO None [] []) (invalidate p s1))))"

definition unfeature :: "victim_env \<Rightarrow> current_user \<Rightarrow> jstring \<Rightarrow> victim_state \<Rightarrow> vprofile result \<times> victim_state" where
  "unfeature env admin pid s = getProfileOr404 pid s (\<lambda>p. unfeature_from env admin p s)"

section \<open>Editing the text\<close>

record text_dto =
  td_name :: "jstring option"
  td_description :: "jstring option"
  td_story :: "jstring option"
  td_reason :: jstring

text \<open>The fields that really change, each with the old and the new value.\<close>

definition text_changes :: "vprofile \<Rightarrow> text_dto \<Rightarrow> (jstring \<times> jstring option \<times> jstring) list" where
  "text_changes p data = List.map_filter (\<lambda>(field, old, new). case new of None \<Rightarrow> None
       | Some v \<Rightarrow> if Some v \<noteq> old then Some (field, old, v) else None)
     [(''name'', vp_name p, td_name data), (''description'', vp_description p, td_description data),
      (''story'', vp_story p, td_story data)]"

definition new_text :: "(jstring \<times> jstring option \<times> jstring) list \<Rightarrow> jstring \<Rightarrow> jstring option \<Rightarrow> jstring option" where
  "new_text changes field old = (case find_where (\<lambda>(f, _). f = field) changes of
     None \<Rightarrow> old | Some (_, _, v) \<Rightarrow> Some v)"

definition write_text :: "(jstring \<times> jstring option \<times> jstring) list \<Rightarrow> vprofile \<Rightarrow> vprofile" where
  "write_text changes q = q\<lparr>vp_name := new_text changes ''name'' (vp_name q),
     vp_description := new_text changes ''description'' (vp_description q),
     vp_story := new_text changes ''story'' (vp_story q),
     vp_isPrivacyReviewed := False, vp_isAdminApproved := False\<rparr>"

definition edited_status :: "vprofile \<Rightarrow> profile_status" where
  "edited_status u = (if vp_status u \<in> set PIPELINE_STATUSES
     then deriveStatus (u\<lparr>vp_isPrivacyReviewed := False, vp_isAdminApproved := False\<rparr>) else vp_status u)"

definition settle_edit :: "victim_env \<Rightarrow> vprofile \<Rightarrow> victim_state \<Rightarrow> vprofile result \<times> victim_state" where
  "settle_edit env u s =
     (if edited_status u = vp_status u then (Inr u, s)
      else let s1 = vp_write (ve_now env) (\<lambda>q. vp_id q = vp_id u) (\<lambda>q. q\<lparr>vp_status := edited_status u\<rparr>) s
           in (case find_vprofile (vp_id u) s1 of
                 None \<Rightarrow> (Inl (PlainError ''Record to update not found''), s) | Some q \<Rightarrow> (Inr q, s1)))"

definition adminEdit_from :: "victim_env \<Rightarrow> current_user \<Rightarrow> vprofile \<Rightarrow> text_dto \<Rightarrow> victim_state \<Rightarrow> vprofile result \<times> victim_state" where
  "adminEdit_from env admin p data s =
     (let action = ''VICTIM_PROFILE_ADMIN_EDITED''; changes = text_changes p data in
      assertAdminCanAccessProfile admin p action s
       (if vp_isPublished p then (Inl (BadRequest ''unpublish_before_editing''), s)
        else if changes = [] then (Inl (BadRequest ''no_changes_to_apply''), s)
        else res_bind (conditionalUpdate (ve_now env) admin action p (write_text changes) s)
          (\<lambda>u s1. let s2 = s1\<lparr>vs_revisions := vs_revisions s1 @ [\<lparr>vr_profileId = vp_id p,
                      vr_editedById = cu_id admin, vr_reason = td_reason data, vr_changes = changes\<rparr>]\<rparr>
             in res_bind (settle_edit env u s2)
               (\<lambda>final s3. (Inr final, vp_emit (auditSuccess admin action p INFO (Some (td_reason data))
                   (status_diff p (vp_status final)) [(''fieldsChanged'', JArr (map (\<lambda>(f, _). JStr f) changes))])
                 (invalidate p s3))))))"

definition adminEdit :: "victim_env \<Rightarrow> current_user \<Rightarrow> jstring \<Rightarrow> text_dto \<Rightarrow> victim_state \<Rightarrow> vprofile result \<times> victim_state" where
  "adminEdit env admin pid data s = getProfileOr404 pid s (\<lambda>p. adminEdit_from env admin p data s)"

section \<open>Deletion and restoration\<close>

definition under_hold :: "current_user \<Rightarrow> jstring \<Rightarrow> vprofile \<Rightarrow> victim_state \<Rightarrow> 'a result \<times> victim_state" where
  "under_hold admin action p s = (Inl (Forbidden ''victim_profile_under_legal_hold''),
     vp_emit (emitProfileFailure admin action p ''victim_profile_under_legal_hold'' DENIED [] []) s)"

definition softDelete_from :: "victim_env \<Rightarrow> current_user \<Rightarrow> vprofile \<Rightarrow> jstring \<Rightarrow> victim_state \<Rightarrow> vprofile result \<times> victim_state" where
  "softDelete_from env admin p reason s =
     (let action = ''VICTIM_PROFILE_SOFT_DELETED'' in
      if vp_deletedAt p \<noteq> None then (Inl (Conflict ''victim_profile_already_deleted''), s)
      else if vp_legalHold p then under_hold admin action p s
      else if hasUndeliveredMoney (vp_id p) s
      then (Inl (Conflict ''victim_profile_has_unsettled_payments''),
        vp_emit (emitProfileFailure admin action p ''victim_profile_has_unsettled_payments'' FAILURE [] []) s)
      else res_bind (conditionalUpdate (ve_now env) admin action p
            (\<lambda>q. q\<lparr>vp_deletedAt := Some (ve_now env), vp_deletedById := Some (cu_id admin), vp_deleteReason := Some reason,
                   vp_status := (if vp_status p = VP_PUBLISHED then VP_UNPUBLISHED else vp_status p),
                   vp_isPublished := False, vp_isAdminApproved := False, vp_isFeatured := False,
                   vp_donationsPaused := True,
                   vp_donationsPausedReason := (if vp_donationsPaused p then vp_donationsPausedReason p else Some ''deleted''),
                   vp_donationsPausedAt := keep_or (vp_donationsPausedAt p) (ve_now env)\<rparr>) s)
          (\<lambda>u s1. (Inr u, vp_emit (auditSuccess admin action p WARNING (Some reason)
             [(''previousStatus'', jpstatus (vp_status p)), (''previousIsPublished'', JBool (vp_isPublished p))] [])
             (invalidate p s1))))"

definition softDelete :: "victim_env \<Rightarrow> current_user \<Rightarrow> jstring \<Rightarrow> jstring \<Rightarrow> victim_state \<Rightarrow> vprofile result \<times> victim_state" where
  "softDelete env admin pid reason s = getProfileOr404 pid s (\<lambda>p. softDelete_from env admin p reason s)"

definition restoreProfile_from :: "victim_env \<Rightarrow> current_user \<Rightarrow> vprofile \<Rightarrow> victim_state \<Rightarrow> vprofile result \<times> victim_state" where
  "restoreProfile_from env admin p s =
     (let action = ''VICTIM_PROFILE_RESTORED'' in
      if vp_deletedAt p = None then (Inl (BadRequest ''victim_profile_not_deleted''), s)
      else if vp_anonymizedAt p \<noteq> None then (Inl (BadRequest ''anonymized_profiles_cannot_be_restored''), s)
      else res_bind (conditionalUpdate (ve_now env) admin action p
            (\<lambda>q. q\<lparr>vp_deletedAt := None, vp_deletedById := None, vp_deleteReason := None\<rparr>) s)
          (\<lambda>u s1. (Inr u, vp_emit (auditSuccess admin action p INFO None
             [(''previousDeleteReason'', jstr_opt (vp_deleteReason p))] []) (invalidate p s1))))"

definition restoreProfile :: "victim_env \<Rightarrow> current_user \<Rightarrow> jstring \<Rightarrow> victim_state \<Rightarrow> vprofile result \<times> victim_state" where
  "restoreProfile env admin pid s = getProfileOr404 pid s (\<lambda>p. restoreProfile_from env admin p s)"

section \<open>Media\<close>

definition removeMedia_from :: "victim_env \<Rightarrow> current_user \<Rightarrow> vprofile \<Rightarrow> jstring \<Rightarrow> jstring option \<Rightarrow> victim_state
    \<Rightarrow> unit result \<times> victim_state" where
  "removeMedia_from env admin p key reason s =
     (let action = ''VICTIM_PROFILE_MEDIA_REMOVED'' in
      assertAdminCanAccessProfile admin p action s
       (case findMediaField (vp_media p) key of
          None \<Rightarrow> (Inl (NotFound ''media_not_found_on_profile''), s)
        | Some field \<Rightarrow>
            res_bind (conditionalUpdate (ve_now env) admin action p (drop_media env p field key) s)
              (\<lambda>u s1. (Inr (), vp_emit (auditSuccess admin action p WARNING reason []
                  [(''key'', JStr key), (''field'', JStr (field_name field)), (''actor'', JStr ''staff''),
                   (''bytesFreed'', JInt (stat_size env key))])
                (invalidate p (purge_media [key] s1))))))"

definition removeMedia :: "victim_env \<Rightarrow> current_user \<Rightarrow> jstring \<Rightarrow> jstring \<Rightarrow> jstring option \<Rightarrow> victim_state
    \<Rightarrow> unit result \<times> victim_state" where
  "removeMedia env admin pid key reason s = getProfileOr404 pid s (\<lambda>p. removeMedia_from env admin p key reason s)"

definition redactMedia :: "current_user \<Rightarrow> jstring \<Rightarrow> jstring \<Rightarrow> jstring \<Rightarrow> jstring option \<Rightarrow> victim_state
    \<Rightarrow> unit result \<times> victim_state" where
  "redactMedia admin pid key mode notes s =
     (let action = ''VICTIM_PROFILE_MEDIA_REDACTION_REQUESTED'' in
      getProfileOr404 pid s (\<lambda>p. assertAdminCanAccessProfile admin p action s
       (case findMediaField (vp_media p) key of
          None \<Rightarrow> (Inl (NotFound ''media_not_found_on_profile''), s)
        | Some field \<Rightarrow>
          if field \<noteq> MF_photo \<and> field \<noteq> MF_video
          then (Inl (BadRequest ''only_photo_and_video_can_be_redacted''), s)
          else (Inr (), vp_emit (Notify ''victim-profile.media.redact'' [(''victimProfileId'', JStr pid),
                (''key'', JStr key), (''mode'', JStr mode), (''requestedBy'', JStr (cu_id admin))])
              (vp_emit (auditSuccess admin action p WARNING notes []
                [(''key'', JStr key), (''field'', JStr (field_name field)), (''mode'', JStr mode)]) s)))))"

section \<open>Legal hold and anonymisation\<close>

definition setLegalHold_from :: "victim_env \<Rightarrow> current_user \<Rightarrow> vprofile \<Rightarrow> bool \<Rightarrow> jstring \<Rightarrow> victim_state \<Rightarrow> vprofile result \<times> victim_state" where
  "setLegalHold_from env admin p hold reason s =
     (let action = ''VICTIM_PROFILE_LEGAL_HOLD_CHANGED'' in
      if vp_legalHold p = hold
      then (Inl (BadRequest (if hold then ''legal_hold_already_set'' else ''legal_hold_not_set'')), s)
      else res_bind (conditionalUpdate (ve_now env) admin action p
            (\<lambda>q. q\<lparr>vp_legalHold := hold, vp_legalHoldReason := (if hold then Some reason else None),
                   vp_legalHoldAt := (if hold then Some (ve_now env) else None),
                   vp_legalHoldById := (if hold then Some (cu_id admin) else None)\<rparr>) s)
          (\<lambda>u s1. (Inr u, vp_emit (auditSuccess admin action p CRITICAL (Some reason)
             [(''previousLegalHold'', JBool (vp_legalHold p)), (''newLegalHold'', JBool hold)] []) s1)))"

definition setLegalHold :: "victim_env \<Rightarrow> current_user \<Rightarrow> jstring \<Rightarrow> bool \<Rightarrow> jstring \<Rightarrow> victim_state \<Rightarrow> vprofile result \<times> victim_state" where
  "setLegalHold env admin pid hold reason s = getProfileOr404 pid s (\<lambda>p. setLegalHold_from env admin p hold reason s)"

text \<open>The transaction: the profile is blanked, its destination and dependent rows are deleted.\<close>

definition blank_profile :: "victim_env \<Rightarrow> vprofile \<Rightarrow> vprofile" where
  "blank_profile env q = q\<lparr>vp_name := None, vp_description := None, vp_story := None, vp_media := no_media,
     vp_mediaTotalBytes := 0, vp_consentedBy := None, vp_consentNotes := None, vp_consentDocuments := [],
     vp_consentRecordedBy := None, vp_reviewNote := None, vp_createdByUserId := None, vp_isPublished := False,
     vp_isAdminApproved := False, vp_isFeatured := False, vp_anonymizedAt := Some (ve_now env)\<rparr>"

definition anonymize_tx :: "victim_env \<Rightarrow> jstring \<Rightarrow> victim_state \<Rightarrow> victim_state" where
  "anonymize_tx env pid s = (vp_write (ve_now env) (\<lambda>q. vp_id q = pid) (blank_profile env) s)
     \<lparr>vs_destinations := filter (\<lambda>d. de_victimProfileId d \<noteq> pid) (vs_destinations s),
      vs_updates := filter (\<lambda>u. vu_profileId u \<noteq> pid) (vs_updates s),
      vs_revisions := filter (\<lambda>r. vr_profileId r \<noteq> pid) (vs_revisions s)\<rparr>"

definition anonymize_from :: "victim_env \<Rightarrow> current_user \<Rightarrow> vprofile \<Rightarrow> jstring \<Rightarrow> victim_state \<Rightarrow> unit result \<times> victim_state" where
  "anonymize_from env admin p reason s =
     (let action = ''VICTIM_PROFILE_ANONYMIZED''; keys = collectMediaFields (vp_media p) @ vp_consentDocuments p in
      if vp_anonymizedAt p \<noteq> None then (Inl (Conflict ''victim_profile_already_anonymized''), s)
      else if vp_legalHold p then under_hold admin action p s
      else if vp_status p \<notin> set CLOSED_STATUSES \<and> vp_deletedAt p = None
      then (Inl (BadRequest ''victim_profile_not_closed''), s)
      else if hasUndeliveredMoney (vp_id p) s
      then (Inl (Conflict ''victim_profile_has_unsettled_payments''), s)
      else if find_vprofile (vp_id p) s = None then (Inl (PlainError ''Record to update not found''), s)
      else (Inr (), vp_emit (auditSuccess admin action (p\<lparr>vp_name := None\<rparr>) CRITICAL (Some reason)
             [(''previousStatus'', jpstatus (vp_status p))] [(''mediaFilesDeleted'', JInt (int (length keys)))])
           (invalidate p (purge_media keys (anonymize_tx env (vp_id p) s)))))"

definition anonymize :: "victim_env \<Rightarrow> current_user \<Rightarrow> jstring \<Rightarrow> jstring \<Rightarrow> victim_state \<Rightarrow> unit result \<times> victim_state" where
  "anonymize env admin pid reason s = getProfileOr404 pid s (\<lambda>p. anonymize_from env admin p reason s)"

end
