(* ===== verification/Victim_Safety.thy ===== *)
theory Victim_Safety
  imports Victim_Ops
begin

text \<open>
  The life of a victim profile as an abstract machine. An abstract profile keeps what publication,
  the two-person child review and takedowns depend on; every operation of the services, run against
  the current row, is one of its moves. The operations of the previous theories refine it.
\<close>

section \<open>Operations\<close>

text \<open>Each group acts as one user on one profile (an appeal or a flag for the case work).\<close>

datatype review_action =
    VClaim
  | VUnclaim
  | VGates gates_dto
  | VPublish
  | VChildReview bool "jstring option"
  | VRevokeConsent "jstring option"
  | VRecordConsent consent_dto
  | VChildFlag bool jstring

datatype work_action =
    VAssign jstring
  | VUnassign
  | VRequestChanges jstring
  | VTakedown jstring
  | VLift jstring
  | VComplete "jstring option"
  | VReopen jstring
  | VUnpublish
  | VReject
  | VRejectNote jstring
  | VResubmit

datatype money_action =
    VPause jstring
  | VResume
  | VBank bank_dto
  | VVerifyBank "jstring option"
  | VReconcile bool
  | VGoal rat jstring

datatype case_action =
    VAppeal jstring
  | VDecide bool jstring
  | VFlag jstring "jstring option"
  | VResolveFlag flag_resolution jstring

datatype creator_action =
    VUpdate profile_dto
  | VRemove
  | VUpdateMine profile_dto
  | VWithdraw
  | VResubmitMine
  | VRemoveMineMedia jstring
  | VMineUpdate "jstring option" jstring
  | VSeen

datatype staff_action =
    VAdminUpdate "jstring option" jstring
  | VFeature
  | VUnfeature
  | VAdminEdit text_dto
  | VSoftDelete jstring
  | VRestore
  | VRemoveMedia jstring "jstring option"
  | VRedact jstring jstring "jstring option"
  | VHold bool jstring
  | VAnonymize jstring

datatype victim_op =
    VReview current_user jstring review_action
  | VWork current_user jstring work_action
  | VMoney current_user jstring money_action
  | VCase current_user jstring case_action
  | VCreator current_user jstring creator_action
  | VStaff current_user jstring staff_action
  | VCreate current_user profile_dto "jstring option"
  | VSeenAll current_user

fun do_review :: "victim_env \<Rightarrow> current_user \<Rightarrow> jstring \<Rightarrow> review_action \<Rightarrow> victim_state \<Rightarrow> victim_state" where
  "do_review env u i VClaim s = snd (claimProfile env u i s)"
| "do_review env u i VUnclaim s = snd (unclaimProfile env u i s)"
| "do_review env u i (VGates d) s = snd (updateGates env u i d s)"
| "do_review env u i VPublish s = snd (publishProfile env u i s)"
| "do_review env u i (VChildReview b n) s = snd (updateChildSafetyReview env u i b n s)"
| "do_review env u i (VRevokeConsent r) s = snd (revokeConsent env u i r s)"
| "do_review env u i (VRecordConsent d) s = snd (recordConsent env u i d s)"
| "do_review env u i (VChildFlag b r) s = snd (updateChildFlag env u i b r s)"

fun do_work :: "victim_env \<Rightarrow> current_user \<Rightarrow> jstring \<Rightarrow> work_action \<Rightarrow> victim_state \<Rightarrow> victim_state" where
  "do_work env u i (VAssign r) s = snd (assignReviewer env u i r s)"
| "do_work env u i VUnassign s = snd (unassignReviewer env u i s)"
| "do_work env u i (VRequestChanges m) s = snd (requestProfileChanges env u i m s)"
| "do_work env u i (VTakedown r) s = snd (takedownProfile env u i r s)"
| "do_work env u i (VLift r) s = snd (liftTakedown env u i r s)"
| "do_work env u i (VComplete n) s = snd (completeProfile env u i n s)"
| "do_work env u i (VReopen r) s = snd (reopenProfile env u i r s)"
| "do_work env u i VUnpublish s = snd (unpublishProfile env u i s)"
| "do_work env u i VReject s = snd (rejectProfile env u i s)"
| "do_work env u i (VRejectNote r) s = snd (reject_with_note env u r i s)"
| "do_work env u i VResubmit s = snd (resubmitProfile env u i s)"

fun do_money :: "victim_env \<Rightarrow> current_user \<Rightarrow> jstring \<Rightarrow> money_action \<Rightarrow> victim_state \<Rightarrow> victim_state" where
  "do_money env u i (VPause r) s = snd (pauseDonations env u i r s)"
| "do_money env u i VResume s = snd (resumeDonations env u i s)"
| "do_money env u i (VBank d) s = snd (updateBankDetails env u i d s)"
| "do_money env u i (VVerifyBank n) s = snd (verifyBankDetails env u i n s)"
| "do_money env u i (VReconcile b) s = snd (reconcileProfileTotal env u i b s)"
| "do_money env u i (VGoal g r) s = snd (updateGoal env u i g r s)"

fun do_case :: "victim_env \<Rightarrow> current_user \<Rightarrow> jstring \<Rightarrow> case_action \<Rightarrow> victim_state \<Rightarrow> victim_state" where
  "do_case env u i (VAppeal m) s = snd (createProfileAppeal env u i m s)"
| "do_case env u a (VDecide b r) s = snd (decideProfileAppeal env u a b r s)"
| "do_case env u i (VFlag r d) s = snd (flagProfile env u i r d s)"
| "do_case env u f (VResolveFlag res r) s = snd (resolveFlag env u f res r s)"

fun do_creator :: "victim_env \<Rightarrow> current_user \<Rightarrow> jstring \<Rightarrow> creator_action \<Rightarrow> victim_state \<Rightarrow> victim_state" where
  "do_creator env u i (VUpdate d) s = snd (updateProfile env u i d s)"
| "do_creator env u i VRemove s = snd (removeProfile env u i s)"
| "do_creator env u i (VUpdateMine d) s = snd (updateMine env u i d s)"
| "do_creator env u i VWithdraw s = snd (withdrawMine env u i s)"
| "do_creator env u i VResubmitMine s = snd (resubmitMine env u i s)"
| "do_creator env u i (VRemoveMineMedia k) s = snd (removeMineMedia env u i k s)"
| "do_creator env u i (VMineUpdate t b) s = snd (createMineUpdate env u i t b s)"
| "do_creator env u i VSeen s = snd (markMineSeen env u i s)"

fun do_staff :: "victim_env \<Rightarrow> current_user \<Rightarrow> jstring \<Rightarrow> staff_action \<Rightarrow> victim_state \<Rightarrow> victim_state" where
  "do_staff env u i (VAdminUpdate t b) s = snd (createAdminUpdate env u i t b s)"
| "do_staff env u i VFeature s = snd (feature env u i s)"
| "do_staff env u i VUnfeature s = snd (unfeature env u i s)"
| "do_staff env u i (VAdminEdit d) s = snd (adminEdit env u i d s)"
| "do_staff env u i (VSoftDelete r) s = snd (softDelete env u i r s)"
| "do_staff env u i VRestore s = snd (restoreProfile env u i s)"
| "do_staff env u i (VRemoveMedia k r) s = snd (removeMedia env u i k r s)"
| "do_staff env u i (VRedact k m n) s = snd (redactMedia u i k m n s)"
| "do_staff env u i (VHold b r) s = snd (setLegalHold env u i b r s)"
| "do_staff env u i (VAnonymize r) s = snd (anonymize env u i r s)"

fun vexec :: "victim_env \<Rightarrow> victim_op \<Rightarrow> victim_state \<Rightarrow> victim_state" where
  "vexec env (VReview u i a) s = do_review env u i a s"
| "vexec env (VWork u i a) s = do_work env u i a s"
| "vexec env (VMoney u i a) s = do_money env u i a s"
| "vexec env (VCase u i a) s = do_case env u i a s"
| "vexec env (VCreator u i a) s = do_creator env u i a s"
| "vexec env (VStaff u i a) s = do_staff env u i a s"
| "vexec env (VCreate u d k) s = snd (createProfile env u d k s)"
| "vexec env (VSeenAll u) s = snd (markAllMineSeen env u s)"

text \<open>A run: operations in their order, each with its own clock and configuration.\<close>

fun vrun :: "(victim_env \<times> victim_op) list \<Rightarrow> victim_state \<Rightarrow> victim_state" where
  "vrun [] s = s"
| "vrun ((env, op) # ops) s = vrun ops (vexec env op s)"

section \<open>The abstract machine\<close>

record abs_profile =
  ab_published :: bool
  ab_cleared :: bool \<comment> \<open>every review gate, child safety included\<close>
  ab_bank :: bool
  ab_reviewed :: bool
  ab_first :: "jstring option"
  ab_taken :: bool

definition cleared :: "vprofile \<Rightarrow> bool" where
  "cleared p \<longleftrightarrow> vp_isVerified p \<and> vp_isSafetyReviewed p \<and> (\<not> vp_involvesChild p \<or> vp_isChildSafetyReviewed p) \<and>
     vp_hasConsent p \<and> vp_isPrivacyReviewed p \<and> vp_isAdminApproved p"

definition abs_of :: "victim_state \<Rightarrow> vprofile \<Rightarrow> abs_profile" where
  "abs_of s p = \<lparr>ab_published = vp_isPublished p, ab_cleared = cleared p, ab_bank = hasBankDetails (vp_id p) s,
     ab_reviewed = vp_isChildSafetyReviewed p, ab_first = vp_firstConfirmedBy p,
     ab_taken = (vp_takedownAt p \<noteq> None)\<rparr>"

text \<open>A label names the profile that may make the special move, and who makes it.\<close>

datatype move_label = Ordinary | Creating | Publishing jstring | Confirming jstring jstring | TakingDown jstring | Lifting jstring

definition ordinary :: "abs_profile \<Rightarrow> abs_profile \<Rightarrow> bool" where
  "ordinary a b \<longleftrightarrow>
     (ab_published b \<longrightarrow> ab_published a \<and> (ab_cleared a \<and> ab_bank a \<longrightarrow> ab_cleared b \<and> ab_bank b)) \<and>
     (ab_reviewed b \<longrightarrow> ab_reviewed a) \<and> ab_first b \<in> {None, ab_first a} \<and> ab_taken b = ab_taken a"

fun amove :: "move_label \<Rightarrow> jstring \<Rightarrow> abs_profile \<Rightarrow> abs_profile \<Rightarrow> bool" where
  "amove Ordinary i a b = ordinary a b"
| "amove Creating i a b = ordinary a b"
| "amove (Publishing j) i a b = (ordinary a b \<or> (i = j \<and>
     ab_cleared b \<and> ab_bank b \<and> ab_reviewed b = ab_reviewed a \<and> ab_first b = ab_first a \<and> ab_taken b = ab_taken a))"
| "amove (Confirming j u) i a b = (ordinary a b \<or> (i = j \<and>
     (\<not> truthy (ab_first a) \<and> ordinary (a\<lparr>ab_first := Some u\<rparr>) b \<or>
      truthy (ab_first a) \<and> ab_first a \<noteq> Some u \<and> ab_reviewed b \<and>
      ordinary (a\<lparr>ab_reviewed := True\<rparr>) b \<and> ab_first b = ab_first a)))"
| "amove (TakingDown j) i a b = (ordinary a b \<or>
     (i = j \<and> \<not> ab_published b \<and> ab_taken b \<and> ordinary (a\<lparr>ab_taken := True\<rparr>) b))"
| "amove (Lifting j) i a b = (ordinary a b \<or> (i = j \<and> ordinary (a\<lparr>ab_taken := False\<rparr>) b))"

fun label_of :: "victim_op \<Rightarrow> move_label" where
  "label_of (VReview _ i VPublish) = Publishing i"
| "label_of (VWork _ i (VReopen _)) = Publishing i"
| "label_of (VReview u i (VChildReview reviewed _)) = (if reviewed then Confirming i (cu_id u) else Ordinary)"
| "label_of (VWork _ i (VTakedown _)) = TakingDown i"
| "label_of (VWork _ i (VLift _)) = Lifting i"
| "label_of (VCreate _ _ _) = Creating"
| "label_of _ = Ordinary"

definition fresh :: "abs_profile \<Rightarrow> bool" where
  "fresh a \<longleftrightarrow> \<not> ab_published a \<and> \<not> ab_reviewed a \<and> ab_first a = None \<and> \<not> ab_taken a"

lemma ordinary_refl [simp]: "ordinary a a"
  by (simp add: ordinary_def)

lemma amove_ordinary: "ordinary a b \<Longrightarrow> amove l i a b"
  by (cases l) auto

section \<open>Simulation\<close>

definition vkeys :: "victim_state \<Rightarrow> bool" where
  "vkeys s \<longleftrightarrow> distinct (map vp_id (vs_profiles s))"

definition moves :: "move_label \<Rightarrow> victim_state \<Rightarrow> victim_state \<Rightarrow> bool" where
  "moves l s t \<longleftrightarrow> vkeys t \<and> (\<forall>q \<in> set (vs_profiles t).
     (\<exists>p \<in> set (vs_profiles s). vp_id p = vp_id q \<and> amove l (vp_id q) (abs_of s p) (abs_of t q)) \<or>
     (l = Creating \<and> fresh (abs_of t q)))"

text \<open>The part of the state the machine sees.\<close>

definition core :: "victim_state \<Rightarrow> vprofile list \<times> pdestination list" where
  "core s = (vs_profiles s, vs_destinations s)"

lemma core_simps [simp]:
  "core (vp_emit e s) = core s" "core (invalidate p s) = core s"
  "core (s\<lparr>vs_flags := x1\<rparr>) = core s" "core (s\<lparr>vs_appeals := x2\<rparr>) = core s"
  "core (s\<lparr>vs_updates := x3\<rparr>) = core s" "core (s\<lparr>vs_revisions := x4\<rparr>) = core s"
  "core (s\<lparr>vs_readStates := x5\<rparr>) = core s" "core (s\<lparr>vs_created := x6\<rparr>) = core s"
  by (simp_all add: core_def vp_emit_def invalidate_def)

lemma core_fold_emit [simp]: "core (fold vp_emit es s) = core s"
  by (induction es arbitrary: s) simp_all

lemma core_purge [simp]: "core (purge_media paths s) = core s"
  unfolding purge_media_def by (induction paths arbitrary: s) simp_all

lemma moves_cong: "core t = core t' \<Longrightarrow> moves l s t \<longleftrightarrow> moves l s t'"
  by (simp add: core_def moves_def vkeys_def abs_of_def hasBankDetails_def find_destination_def)

lemma moves_refl: "vkeys s \<Longrightarrow> moves l s s"
  unfolding moves_def using amove_ordinary ordinary_refl by blast

lemma moves_same: "vkeys s \<Longrightarrow> core t = core s \<Longrightarrow> moves l s t"
  using moves_refl moves_cong by blast

lemma core_assert [simp]:
  "core (snd (assertAdminCanAccessProfile u p a s rest)) =
   (if \<not> is_super u \<and> truthy (vp_claimedByUserId p) \<and> vp_claimedByUserId p \<noteq> Some (cu_id u)
    then core s else core (snd rest))"
  by (simp add: assertAdminCanAccessProfile_def)

lemma moves_assert:
  "vkeys s \<Longrightarrow> moves l s (snd rest) \<Longrightarrow> moves l s (snd (assertAdminCanAccessProfile u p a s rest))"
  by (simp add: assertAdminCanAccessProfile_def moves_same)

lemma moves_bind:
  assumes "moves l s (snd m)" "\<And>x t. core (snd (k x t)) = core t"
  shows "moves l s (snd (res_bind m k))"
proof (cases m)
  case (Pair r t)
  with assms show ?thesis
    by (cases r) (simp_all add: res_bind_def moves_cong [OF assms(2)])
qed

lemma moves_404:
  "vkeys s \<Longrightarrow> (\<And>p. find_vprofile i s = Some p \<Longrightarrow> vp_id p = i \<Longrightarrow> moves l s (snd (k p))) \<Longrightarrow>
   moves l s (snd (getProfileOr404 i s k))"
  by (auto simp: getProfileOr404_def find_vprofile_def moves_same split: option.splits dest: find_where_SomeD)

lemma find_row: "vkeys s \<Longrightarrow> q \<in> set (vs_profiles s) \<Longrightarrow> find_vprofile (vp_id q) s = Some q"
  unfolding vkeys_def find_vprofile_def by (rule find_key_unique)

lemma find_profile_first:
  assumes "vkeys s" "find_where (\<lambda>p. vp_id p = i \<and> P p) (vs_profiles s) = Some p"
  shows "find_vprofile i s = Some p" "vp_id p = i"
proof -
  from find_where_SomeD [OF assms(2)] have p: "p \<in> set (vs_profiles s)" "vp_id p = i" by blast+
  show "vp_id p = i" by (rule p(2))
  from find_row [OF assms(1) p(1)] show "find_vprofile i s = Some p" unfolding p(2) .
qed

lemma moves_mine:
  assumes "vkeys s" "\<And>p. find_vprofile i s = Some p \<Longrightarrow> vp_id p = i \<Longrightarrow> moves l s (snd (k p))"
  shows "moves l s (snd (getMineOr404 u i s k))"
proof (cases "find_where (\<lambda>p. vp_id p = i \<and> vp_createdByUserId p = Some (cu_id u) \<and> vp_deletedAt p = None) (vs_profiles s)")
  case None
  then show ?thesis using assms(1) by (simp add: getMineOr404_def moves_refl)
next
  case (Some p)
  from assms(2) [OF find_profile_first [OF assms(1) Some]] Some show ?thesis by (simp add: getMineOr404_def)
qed

lemma moves_published:
  assumes "vkeys s" "\<And>p. find_vprofile i s = Some p \<Longrightarrow> vp_id p = i \<Longrightarrow> moves l s (snd (k p))"
  shows "moves l s (snd (assertPublishedProfile i s k))"
proof (cases "find_where (\<lambda>p. vp_id p = i \<and> publicWhere p) (vs_profiles s)")
  case None
  then show ?thesis using assms(1) by (simp add: assertPublishedProfile_def moves_refl)
next
  case (Some p)
  from assms(2) [OF find_profile_first [OF assms(1) Some]] Some show ?thesis by (simp add: assertPublishedProfile_def)
qed

text \<open>One row is rewritten, by id or by version; the others stay.\<close>

lemma abs_write [simp]: "abs_of (vp_write now P f s) q = abs_of s q"
  by (simp add: abs_of_def vp_write_def hasBankDetails_def find_destination_def)

lemma moves_write:
  assumes "vkeys s" "find_vprofile (vp_id p) s = Some p" "\<And>q. P q \<Longrightarrow> vp_id q = vp_id p"
    "vp_id (f p) = vp_id p" "amove l (vp_id p) (abs_of s p) (abs_of s ((f p)\<lparr>vp_updatedAt := now\<rparr>))"
  shows "moves l s (vp_write now P f s)"
proof -
  let ?g = "\<lambda>p. (f p)\<lparr>vp_updatedAt := now\<rparr>"
  have mem: "p \<in> set (vs_profiles s)"
    using assms(2) by (auto simp: find_vprofile_def dest: find_where_SomeD)
  have uniq: "q = p" if "q \<in> set (vs_profiles s)" "P q" for q
  proof -
    have "find_vprofile (vp_id p) s = Some q"
      using find_row [OF assms(1) that(1)] unfolding assms(3) [OF that(2)] .
    with assms(2) show ?thesis by (metis option.inject)
  qed
  have rows: "vs_profiles (vp_write now P f s) = map (\<lambda>q. if P q then ?g p else q) (vs_profiles s)"
    using uniq by (auto simp: vp_write_def update_where_def)
  have "vp_id (if P q then ?g p else q) = vp_id q" for q
    using assms(3) [of q] assms(4) by (cases "P q") simp_all
  then have "map vp_id (vs_profiles (vp_write now P f s)) = map vp_id (vs_profiles s)"
    unfolding rows by (simp only: map_map comp_def)
  then have keys: "vkeys (vp_write now P f s)" using assms(1) by (simp add: vkeys_def)
  have "\<exists>r \<in> set (vs_profiles s). vp_id r = vp_id q \<and> amove l (vp_id q) (abs_of s r) (abs_of s q)"
    if q: "q \<in> set (vs_profiles (vp_write now P f s))" for q
  proof -
    from q obtain r where r: "r \<in> set (vs_profiles s)" "q = (if P r then ?g p else r)"
      unfolding rows by auto
    show ?thesis
    proof (cases "P r")
      case True
      with r assms(4,5) have "vp_id p = vp_id q" "amove l (vp_id q) (abs_of s p) (abs_of s q)" by simp_all
      with mem show ?thesis by blast
    next
      case False
      with r have "q = r" by simp
      with r(1) show ?thesis using amove_ordinary ordinary_refl by blast
    qed
  qed
  with keys show ?thesis by (simp add: moves_def)
qed

lemma moves_conditional:
  assumes "vkeys s" "find_vprofile (vp_id p) s = Some p" "vp_id (f p) = vp_id p"
    "amove l (vp_id p) (abs_of s p) (abs_of s ((f p)\<lparr>vp_updatedAt := now\<rparr>))"
  shows "moves l s (snd (conditionalUpdate now u a p f s))"
proof -
  have "vp_id q = vp_id p" if "same_version p q" for q
    using that by (simp add: same_version_def)
  from moves_write [of s p "same_version p" f l now, OF assms(1,2) this assms(3,4)]
  have "moves l s (vp_write now (same_version p) f s)" .
  then show ?thesis
    using assms(1) by (simp add: conditionalUpdate_def Let_def moves_same split: option.splits)
qed

lemma moves_if: "(c \<Longrightarrow> moves l s (snd a)) \<Longrightarrow> (\<not> c \<Longrightarrow> moves l s (snd b)) \<Longrightarrow> moves l s (snd (if c then a else b))"
  by simp

lemma moves_pair: "vkeys s \<Longrightarrow> core t = core s \<Longrightarrow> moves l s (snd (r, t))"
  by (simp add: moves_same)

lemma moves_case:
  "(x = None \<Longrightarrow> moves l s (snd a)) \<Longrightarrow> (\<And>y. x = Some y \<Longrightarrow> moves l s (snd (b y))) \<Longrightarrow>
   moves l s (snd (case x of None \<Rightarrow> a | Some y \<Rightarrow> b y))"
  by (cases x) simp_all

lemma moves_sum:
  "(\<And>e. x = Inl e \<Longrightarrow> moves l s (snd (a e))) \<Longrightarrow> (\<And>y. x = Inr y \<Longrightarrow> moves l s (snd (b y))) \<Longrightarrow>
   moves l s (snd (case x of Inl e \<Rightarrow> a e | Inr y \<Rightarrow> b y))"
  by (cases x) simp_all

lemmas vmoves = moves_404 moves_mine moves_published moves_assert moves_if moves_case moves_sum moves_bind moves_conditional moves_pair

lemmas abs_simps = abs_of_def ordinary_def cleared_def

lemma gates_moves:
  assumes "vkeys s"
  shows "moves l s (snd (updateGates env u i d s))"
  unfolding updateGates_def updateGates_from_def Let_def
  by (intro vmoves assms; simp add: write_gates_def Let_def abs_simps amove_ordinary)

lemma publish_moves:
  assumes "vkeys s"
  shows "moves (Publishing i) s (snd (publishProfile env u i s))"
  unfolding publishProfile_def publishProfile_from_def Let_def
  by (intro vmoves assms; simp add: abs_simps)

lemma review_moves:
  assumes "vkeys s"
  shows "moves (if b then Confirming i (cu_id u) else Ordinary) s (snd (updateChildSafetyReview env u i b n s))"
  unfolding updateChildSafetyReview_def updateChildSafetyReview_from_def Let_def confirm_first_def confirm_second_def reverse_review_def
  by (intro vmoves assms; simp add: clear_child_review_def abs_simps; blast?)

lemma consent_moves:
  assumes "vkeys s"
  shows "moves l s (snd (revokeConsent env u i r s))" "moves l s (snd (recordConsent env u i cd s))"
    "moves l s (snd (updateChildFlag env u i b rr s))"
  unfolding revokeConsent_def revokeConsent_from_def recordConsent_def recordConsent_from_def updateChildFlag_def
    updateChildFlag_from_def propose_child_flag_def Let_def
  by (intro vmoves assms; simp add: write_consent_def write_child_flag_def clear_child_review_def Let_def abs_simps amove_ordinary)+

lemma ordinary_trans: "ordinary a b \<Longrightarrow> ordinary b c \<Longrightarrow> ordinary a c"
  by (auto simp: ordinary_def)

lemma moves_trans:
  assumes "moves Ordinary s t" "moves Ordinary t r"
  shows "moves Ordinary s r"
proof -
  have "\<exists>p \<in> set (vs_profiles s). vp_id p = vp_id q \<and> ordinary (abs_of s p) (abs_of r q)"
    if "q \<in> set (vs_profiles r)" for q
  proof -
    from assms(2) that obtain x where x: "x \<in> set (vs_profiles t)" "vp_id x = vp_id q" "ordinary (abs_of t x) (abs_of r q)"
      by (auto simp: moves_def)
    with assms(1) obtain p where "p \<in> set (vs_profiles s)" "vp_id p = vp_id x" "ordinary (abs_of s p) (abs_of t x)"
      by (auto simp: moves_def)
    with x show ?thesis by (metis ordinary_trans)
  qed
  with assms(2) show ?thesis by (auto simp: moves_def)
qed

lemma moves_weaken: "moves Ordinary s t \<Longrightarrow> moves l s t"
  unfolding moves_def using amove_ordinary by fastforce

lemma moves_keys: "moves l s t \<Longrightarrow> vkeys t"
  by (simp add: moves_def)

lemma moves_bind2:
  assumes "moves Ordinary s (snd m)" "\<And>x t. vkeys t \<Longrightarrow> moves Ordinary t (snd (k x t))"
  shows "moves Ordinary s (snd (res_bind m k))"
proof (cases m)
  case (Pair r t)
  with assms(1) have t: "moves Ordinary s t" by simp
  show ?thesis
  proof (cases r)
    case (Inr x)
    with Pair moves_trans [OF t assms(2) [OF moves_keys [OF t], of x]] show ?thesis by (simp add: res_bind_def)
  qed (use Pair t in \<open>simp add: res_bind_def\<close>)
qed

lemma work_moves:
  assumes "vkeys s"
  shows "moves l s (snd (assignReviewer env u i r s))" "moves l s (snd (unassignReviewer env u i s))"
    "moves l s (snd (requestProfileChanges env u i m s))" "moves l s (snd (completeProfile env u i n s))"
    "moves l s (snd (unpublishProfile env u i s))" "moves l s (snd (rejectProfile env u i s))"
    "moves l s (snd (resubmitProfile env u i s))" "moves l s (snd (pauseDonations env u i m s))"
    "moves l s (snd (resumeDonations env u i s))"
  unfolding assignReviewer_def assignReviewer_from_def unassignReviewer_def unassignReviewer_from_def
    requestProfileChanges_def requestProfileChanges_from_def completeProfile_def completeProfile_from_def
    unpublishProfile_def unpublishProfile_from_def rejectProfile_def rejectProfile_from_def
    resubmitProfile_def resubmitProfile_from_def pauseDonations_def pauseDonations_from_def
    resumeDonations_def resumeDonations_from_def Let_def
  by (intro vmoves assms; simp add: abs_simps amove_ordinary)+

lemma reject_note_moves:
  assumes "vkeys s"
  shows "moves Ordinary s (snd (reject_with_note env u r i s))"
  unfolding reject_with_note_def
proof (intro moves_bind2 work_moves assms)
  fix x t assume k: "vkeys t"
  show "moves Ordinary t (snd (if find_vprofile i t = None then (Inl (PlainError ''Record to update not found''), t)
     else (Inr (), vp_write (ve_now env) (\<lambda>p. vp_id p = i)
       (\<lambda>p. p\<lparr>vp_reviewNote := Some r, vp_reviewNoteAt := Some (ve_now env)\<rparr>) t)))"
  proof (cases "find_vprofile i t")
    case (Some p)
    then have "vp_id p = i" by (auto simp: find_vprofile_def dest: find_where_SomeD)
    with Some k show ?thesis by (auto simp: abs_simps intro!: moves_write [of _ p])
  qed (simp add: moves_refl k)
qed

lemma takedown_moves:
  assumes "vkeys s"
  shows "moves (TakingDown i) s (snd (takedownProfile env u i r s))"
  unfolding takedownProfile_def takedownProfile_from_def Let_def
  by (intro vmoves assms; simp add: write_takedown_def abs_simps)

lemma lift_moves:
  assumes "vkeys s"
  shows "moves (Lifting i) s (snd (liftTakedown env u i r s))"
  unfolding liftTakedown_def liftTakedown_from_def Let_def
  by (intro vmoves assms; simp add: abs_simps)

lemma missing_gates_iff:
  "getMissingApprovalGates bank p = [] \<longleftrightarrow> vp_isVerified p \<and> vp_isSafetyReviewed p \<and>
     (\<not> vp_involvesChild p \<or> vp_isChildSafetyReviewed p) \<and> vp_hasConsent p \<and> vp_isPrivacyReviewed p \<and> bank"
  by (auto simp: getMissingApprovalGates_def)

lemma reopen_moves:
  assumes "vkeys s"
  shows "moves (Publishing i) s (snd (reopenProfile env u i r s))"
  unfolding reopenProfile_def reopenProfile_from_def Let_def
  by (intro vmoves assms; simp add: abs_simps missing_gates_iff; blast?)

lemma claim_step_moves:
  assumes "vkeys s" "find_vprofile (vp_id p) s = Some p"
    "t = vp_write now (claim_where (vp_id p) w) (\<lambda>q. q\<lparr>vp_claimedByUserId := c, vp_claimedAt := d\<rparr>) s"
  shows "moves l s (snd (fetch_profile (vp_id p) t (\<lambda>x. (Inr x, vp_emit (e x) t))))"
proof -
  have "moves l s t" unfolding assms(3)
    by (rule moves_write [OF assms(1,2)]) (simp_all add: claim_where_def abs_simps amove_ordinary)
  then show ?thesis
    by (simp add: fetch_profile_def moves_cong [of "vp_emit _ t" t] split: option.splits)
qed

lemma claim_moves:
  assumes "vkeys s"
  shows "moves l s (snd (claimProfile env u i s))" "moves l s (snd (unclaimProfile env u i s))"
  unfolding claimProfile_def claimProfile_from_def unclaimProfile_def unclaimProfile_from_def Let_def
  by (intro vmoves claim_step_moves assms refl; simp)+

text \<open>The destinations change together with the one row.\<close>

lemma hasBank_other:
  assumes "i \<noteq> j"
  shows "hasBankDetails j (snd (upsert_destination env i data b s)) = hasBankDetails j s"
proof -
  have "find_where (\<lambda>d. de_victimProfileId d = j) (update_where (\<lambda>d. de_victimProfileId d = i) (set_destination env i data b) xs)
      = find_where (\<lambda>d. de_victimProfileId d = j) xs" for xs
    using assms by (induction xs) (auto simp: set_destination_def)
  moreover have "find_where (\<lambda>d. de_victimProfileId d = j) (xs @ [new_destination env i data b s])
      = find_where (\<lambda>d. de_victimProfileId d = j) xs" for xs
    using assms by (simp add: find_where_append new_destination_def split: option.splits)
  ultimately show ?thesis
    by (simp add: hasBankDetails_def upsert_destination_def find_destination_def split: option.splits)
qed

lemma hasBank_filter:
  "i \<noteq> j \<Longrightarrow> find_where (\<lambda>d. de_victimProfileId d = j) (filter (\<lambda>d. de_victimProfileId d \<noteq> i) xs)
     = find_where (\<lambda>d. de_victimProfileId d = j) xs"
  by (induction xs) auto

lemma moves_row:
  assumes "vkeys s" "find_vprofile (vp_id p) s = Some p" "vkeys t"
    "\<And>q. q \<in> set (vs_profiles t) \<Longrightarrow> (q \<in> set (vs_profiles s) \<and> vp_id q \<noteq> vp_id p) \<or> q = p'"
    "vp_id p' = vp_id p" "\<And>j. j \<noteq> vp_id p \<Longrightarrow> hasBankDetails j t = hasBankDetails j s"
    "ordinary (abs_of s p) (abs_of t p')"
  shows "moves Ordinary s t"
proof -
  have mem: "p \<in> set (vs_profiles s)"
    using assms(2) by (auto simp: find_vprofile_def dest: find_where_SomeD)
  have "\<exists>r \<in> set (vs_profiles s). vp_id r = vp_id q \<and> ordinary (abs_of s r) (abs_of t q)"
    if q: "q \<in> set (vs_profiles t)" for q
    using assms(4) [OF q]
  proof
    assume r: "q \<in> set (vs_profiles s) \<and> vp_id q \<noteq> vp_id p"
    then have "abs_of t q = abs_of s q" using assms(6) by (simp add: abs_of_def)
    with r show ?thesis using ordinary_refl by metis
  next
    assume "q = p'"
    with mem assms(5,7) show ?thesis by metis
  qed
  with assms(3) show ?thesis by (simp add: moves_def)
qed

lemma write_rows:
  assumes "vkeys s" "find_vprofile (vp_id p) s = Some p" "\<And>q. P q \<Longrightarrow> vp_id q = vp_id p" "P p" "vp_id (f p) = vp_id p"
  shows "vkeys (vp_write now P f s)"
    "q \<in> set (vs_profiles (vp_write now P f s)) \<Longrightarrow>
       (q \<in> set (vs_profiles s) \<and> vp_id q \<noteq> vp_id p) \<or> q = (f p)\<lparr>vp_updatedAt := now\<rparr>"
proof -
  let ?g = "\<lambda>p. (f p)\<lparr>vp_updatedAt := now\<rparr>"
  have same: "q = p" if "q \<in> set (vs_profiles s)" "vp_id q = vp_id p" for q
    using find_row [OF assms(1) that(1)] assms(2) unfolding that(2) by (metis option.inject)
  have "vp_id (if P q then ?g q else q) = vp_id q" if "q \<in> set (vs_profiles s)" for q
    using same [OF that] assms(3) [of q] assms(5) by (cases "P q") simp_all
  then have "map vp_id (vs_profiles (vp_write now P f s)) = map vp_id (vs_profiles s)"
    by (simp add: vp_write_def update_where_def)
  with assms(1) show "vkeys (vp_write now P f s)" by (simp add: vkeys_def)
  assume "q \<in> set (vs_profiles (vp_write now P f s))"
  then obtain r where r: "r \<in> set (vs_profiles s)" "q = (if P r then ?g r else r)"
    by (auto simp: vp_write_def in_update_where)
  show "(q \<in> set (vs_profiles s) \<and> vp_id q \<noteq> vp_id p) \<or> q = ?g p"
  proof (cases "vp_id r = vp_id p")
    case True
    with same [OF r(1)] have "r = p" by simp
    with r(2) assms(4) show ?thesis by simp
  next
    case False
    with assms(3) have "\<not> P r" by blast
    with r False show ?thesis by simp
  qed
qed

lemma conditional_done:
  assumes "vkeys s" "find_vprofile (vp_id p) s = Some p" "vp_id (f p) = vp_id p"
    "conditionalUpdate now u a p f s = (Inr x, t)"
  shows "t = vp_write now (same_version p) f s"
    "q \<in> set (vs_profiles t) \<Longrightarrow> vp_id q = vp_id p \<Longrightarrow> q = (f p)\<lparr>vp_updatedAt := now\<rparr>"
proof -
  show t: "t = vp_write now (same_version p) f s"
    using assms(4) by (auto simp: conditionalUpdate_def Let_def split: if_splits option.splits)
  have pin: "\<And>q. same_version p q \<Longrightarrow> vp_id q = vp_id p" by (simp add: same_version_def)
  have self: "same_version p p" by (simp add: same_version_def)
  note w = write_rows [where p = p and P = "same_version p" and f = f and now = now, OF assms(1,2) pin self assms(3)]
  show "q = (f p)\<lparr>vp_updatedAt := now\<rparr>" if "q \<in> set (vs_profiles t)" "vp_id q = vp_id p"
    using that w(2) [of q] unfolding t by blast
qed

lemma bank_write_moves:
  assumes "vkeys s" "find_vprofile (vp_id p) s = Some p"
    "conditionalUpdate (ve_now env) u a p (write_bank_reset p) s = (Inr x, t)"
  shows "moves Ordinary s (snd (upsert_destination env (vp_id p) d b t))"
proof -
  let ?w = "vp_write (ve_now env) (same_version p) (write_bank_reset p) s"
  let ?p' = "(write_bank_reset p p)\<lparr>vp_updatedAt := ve_now env\<rparr>"
  have t: "t = ?w"
    using assms(3) by (auto simp: conditionalUpdate_def Let_def split: if_splits option.splits)
  have rows: "vs_profiles (snd (upsert_destination env (vp_id p) d b ?w)) = vs_profiles ?w"
    by (simp add: upsert_destination_def split: option.splits)
  have keep_id: "vp_id (write_bank_reset p p) = vp_id p" by (simp add: write_bank_reset_def)
  have pin: "\<And>q. same_version p q \<Longrightarrow> vp_id q = vp_id p" by (simp add: same_version_def)
  have self: "same_version p p" by (simp add: same_version_def)
  note w = write_rows [where p = p and P = "same_version p" and f = "write_bank_reset p" and now = "ve_now env",
      OF assms(1,2) pin self keep_id]
  show ?thesis unfolding t
  proof (rule moves_row [where p = p and p' = ?p'])
    show "vkeys (snd (upsert_destination env (vp_id p) d b ?w))" using w(1) by (simp add: vkeys_def rows)
    show "(q \<in> set (vs_profiles s) \<and> vp_id q \<noteq> vp_id p) \<or> q = ?p'"
      if "q \<in> set (vs_profiles (snd (upsert_destination env (vp_id p) d b ?w)))" for q
      using that w(2) unfolding rows by blast
    show "hasBankDetails j (snd (upsert_destination env (vp_id p) d b ?w)) = hasBankDetails j s" if "j \<noteq> vp_id p" for j
      using that hasBank_other [of "vp_id p" j env d b ?w] by (simp add: hasBankDetails_def find_destination_def vp_write_def)
  qed (simp_all add: assms write_bank_reset_def abs_simps)
qed

lemma moves_bind_eq:
  assumes "moves l s (snd m)" "\<And>x t. m = (Inr x, t) \<Longrightarrow> moves l s (snd (k x t))"
  shows "moves l s (snd (res_bind m k))"
proof (cases m)
  case (Pair r t)
  with assms show ?thesis by (cases r) (simp_all add: res_bind_def)
qed

lemma bank_moves:
  assumes "vkeys s"
  shows "moves Ordinary s (snd (updateBankDetails env u i d s))"
proof -
  have emit: "moves Ordinary s (snd (r, vp_emit e1 (vp_emit e2 (invalidate p t)))) \<longleftrightarrow> moves Ordinary s t"
    for r :: "vprofile result" and e1 e2 p t
    by (rule trans [OF _ moves_cong [of "vp_emit e1 (vp_emit e2 (invalidate p t))" t]]) simp_all
  have up: "moves Ordinary s (snd (res_bind (upsert_destination env (vp_id p) d b t)
      (\<lambda>x t'. (Inr y, vp_emit e1 (vp_emit e2 (invalidate p t'))))))"
    if "find_vprofile (vp_id p) s = Some p" "conditionalUpdate (ve_now env) u a p (write_bank_reset p) s = (Inr y, t)"
    for p a y t b e1 e2
    using bank_write_moves [OF assms that] by (intro moves_bind) simp_all
  show ?thesis
    unfolding updateBankDetails_def updateBankDetails_from_def Let_def
    by (intro moves_404 moves_assert moves_if moves_case moves_sum moves_bind_eq [where m = "conditionalUpdate _ _ _ _ _ _"]
          up moves_conditional moves_pair assms;
        simp add: write_bank_reset_def abs_simps; metis)
qed

lemma verify_moves:
  assumes "vkeys s"
  shows "moves Ordinary s (snd (verifyBankDetails env u i n s))"
proof -
  have mono: "hasBankDetails j s \<Longrightarrow> hasBankDetails j (s\<lparr>vs_destinations := update_where P f (vs_destinations s)\<rparr>)"
    if "\<And>d. de_victimProfileId (f d) = de_victimProfileId d" "\<And>d. complete_destination d \<Longrightarrow> complete_destination (f d)" for j P f
    using that find_update_key [of de_victimProfileId f j P "vs_destinations s"]
    by (auto simp: hasBankDetails_def find_destination_def split: option.splits)
  have step: "moves Ordinary s (s\<lparr>vs_destinations := update_where P f (vs_destinations s)\<rparr>)"
    if "\<And>d. de_victimProfileId (f d) = de_victimProfileId d" "\<And>d. complete_destination d \<Longrightarrow> complete_destination (f d)" for P f
  proof -
    have "ordinary (abs_of s p) (abs_of (s\<lparr>vs_destinations := update_where P f (vs_destinations s)\<rparr>) p)" for p
      using mono [OF that] by (simp add: abs_of_def ordinary_def)
    with assms show ?thesis by (auto simp: moves_def vkeys_def)
  qed
  have emit: "moves Ordinary s (snd (r, vp_emit e t)) \<longleftrightarrow> moves Ordinary s t" for r :: "jstring option result" and e t
    by (rule trans [OF _ moves_cong [of "vp_emit e t" t]]) simp_all
  show ?thesis
    unfolding verifyBankDetails_def verifyBankDetails_from_def Let_def
    by (intro moves_404 moves_assert moves_if moves_case assms; (simp only: emit)?;
        (rule step; simp add: complete_destination_def; fail)?; simp add: moves_same assms)
qed

lemma total_moves:
  assumes "vkeys s"
  shows "moves l s (snd (reconcileProfileTotal env u i b s))" "moves l s (snd (updateGoal env u i g r s))"
  unfolding reconcileProfileTotal_def reconcileProfileTotal_from_def updateGoal_def updateGoal_from_def overflow_def Let_def
  by (intro vmoves assms; simp add: abs_simps amove_ordinary)+

lemma moves_emits [simp]:
  "moves l s (vp_emit e t) = moves l s t" "moves l s (invalidate p t) = moves l s t"
  "moves l s (purge_media ks t) = moves l s t" "moves l s (t\<lparr>vs_flags := fs\<rparr>) = moves l s t"
  "moves l s (t\<lparr>vs_appeals := as\<rparr>) = moves l s t" "moves l s (t\<lparr>vs_revisions := rs\<rparr>) = moves l s t"
  "moves l s (t\<lparr>vs_updates := us\<rparr>) = moves l s t" "moves l s (t\<lparr>vs_readStates := xs\<rparr>) = moves l s t"
  "moves l s (t\<lparr>vs_created := n\<rparr>) = moves l s t"
  by (rule moves_cong; simp)+

lemma case_moves:
  assumes "vkeys s"
  shows "moves Ordinary s (snd (createProfileAppeal env u i m s))"
    "moves Ordinary s (snd (flagProfile env u i r d s))"
    "moves Ordinary s (snd (decideProfileAppeal env u a b r s))"
    "moves Ordinary s (snd (resolveFlag env u f res r s))"
proof -
  note refl = moves_refl [OF assms]
  show "moves Ordinary s (snd (createProfileAppeal env u i m s))"
    unfolding createProfileAppeal_def createProfileAppeal_from_def Let_def
    by (intro vmoves assms; simp)
  show "moves Ordinary s (snd (flagProfile env u i r d s))"
    unfolding flagProfile_def flagProfile_from_def Let_def insert_vflag_def
    by (intro moves_published assms) (simp add: refl split: prod.splits)
  have fin: "moves Ordinary t (snd (finish_appeal env u p x b r t))" if "vkeys t" for p x t
    using that by (simp add: finish_appeal_def Let_def moves_refl split: option.splits)
  show "moves Ordinary s (snd (decideProfileAppeal env u a b r s))"
    unfolding decideProfileAppeal_def
    by (intro moves_case moves_if moves_404 moves_pair assms; simp?)
      (simp only: decideProfileAppeal_from_def, intro moves_if moves_bind2 work_moves fin moves_pair assms; simp)
  have act: "moves Ordinary t (snd (flag_action env u p res r t))" if "vkeys t" for p t
    unfolding flag_action_def by (intro moves_if moves_bind work_moves moves_pair that; simp)
  have settle: "moves Ordinary s (snd (resolveFlag_from env u x p res r s))" for x p
  proof (cases "flag_action env u p res r
      (s\<lparr>vs_flags := update_where (flag_open (vf_id x)) (take_flag env u res r) (vs_flags s)\<rparr>)")
    case (Pair y t)
    let ?s1 = "s\<lparr>vs_flags := update_where (flag_open (vf_id x)) (take_flag env u res r) (vs_flags s)\<rparr>"
    have "vkeys ?s1" using assms by (simp add: vkeys_def)
    from act [OF this, of p] have "moves Ordinary ?s1 t" unfolding Pair by simp
    with moves_trans [of s ?s1 t] have t: "moves Ordinary s t" using refl by simp
    show ?thesis
      by (simp add: resolveFlag_from_def Let_def Pair refl t split: sum.splits option.splits)
  qed
  show "moves Ordinary s (snd (resolveFlag env u f res r s))"
    unfolding resolveFlag_def by (intro moves_case moves_if moves_404 moves_pair settle assms; simp)
qed

lemma edit_moves:
  assumes "vkeys s" "find_vprofile (vp_id p) s = Some p" "\<And>q. abs_of s (f q) = abs_of s q" "\<And>q. vp_id (f q) = vp_id q"
    "\<And>x m t. core (snd (k x m t)) = core t"
  shows "moves Ordinary s (snd (edit_profile env u p data f s k))"
proof -
  have g: "moves Ordinary s (snd (conditionalUpdate now u a p (\<lambda>q. f (reset_gates (write_content data g n q))) s))" for now a g n
  proof (rule moves_conditional [OF assms(1,2)])
    have "abs_of s ((f q)\<lparr>vp_updatedAt := now\<rparr>) = abs_of s (f q)" for q
      by (simp add: abs_of_def cleared_def)
    then show "amove Ordinary (vp_id p) (abs_of s p) (abs_of s ((f (reset_gates (write_content data g n p)))\<lparr>vp_updatedAt := now\<rparr>))"
      by (simp only: assms(3)) (simp add: abs_simps reset_gates_def write_content_def)
  qed (simp add: assms(4) reset_gates_def write_content_def)
  show ?thesis
    unfolding edit_profile_def Let_def overflow_def
    by (intro moves_sum moves_case moves_if moves_bind g moves_pair assms(1); simp add: assms(5))
qed

lemma creator_moves:
  assumes "vkeys s"
  shows "moves Ordinary s (snd (updateProfile env u i d s))" "moves Ordinary s (snd (updateMine env u i d s))"
    "moves Ordinary s (snd (withdrawMine env u i s))" "moves Ordinary s (snd (resubmitMine env u i s))"
    "moves Ordinary s (snd (removeMineMedia env u i k s))" "moves Ordinary s (snd (createMineUpdate env u i ti b s))"
    "moves Ordinary s (snd (createAdminUpdate env u i ti b s))"
proof -
  show "moves Ordinary s (snd (updateProfile env u i d s))"
    unfolding updateProfile_def updateProfile_from_def Let_def
    by (intro moves_404 moves_assert edit_moves assms; simp add: abs_simps)
  show "moves Ordinary s (snd (updateMine env u i d s))"
    unfolding updateMine_def updateMine_from_def Let_def
    by (intro moves_mine moves_if edit_moves moves_pair assms; simp add: abs_simps)
  show "moves Ordinary s (snd (withdrawMine env u i s))" "moves Ordinary s (snd (resubmitMine env u i s))"
    "moves Ordinary s (snd (removeMineMedia env u i k s))" "moves Ordinary s (snd (createMineUpdate env u i ti b s))"
    "moves Ordinary s (snd (createAdminUpdate env u i ti b s))"
    unfolding withdrawMine_def withdrawMine_from_def resubmitMine_def resubmitMine_from_def removeMineMedia_def
      removeMineMedia_from_def createMineUpdate_def createMineUpdate_from_def createAdminUpdate_def post_update_def Let_def
    by (intro vmoves assms; simp add: drop_media_def abs_simps)+
qed

lemma seen_moves:
  assumes "vkeys s"
  shows "moves Ordinary s (set_seen env P s)" "moves Ordinary s (snd (markMineSeen env u i s))"
    "moves Ordinary s (snd (markAllMineSeen env u s))"
proof -
  have seen: "moves Ordinary s (set_seen env P s)" for P
  proof -
    have ids: "map vp_id (update_where P (\<lambda>p. p\<lparr>vp_creatorSeenAt := Some (ve_now env)\<rparr>) (vs_profiles s)) = map vp_id (vs_profiles s)"
      by (rule map_update_where) simp
    have "abs_of (set_seen env P s) (p\<lparr>vp_creatorSeenAt := x\<rparr>) = abs_of s p" "abs_of (set_seen env P s) p = abs_of s p" for p x
      by (simp_all add: abs_of_def cleared_def set_seen_def hasBankDetails_def find_destination_def)
    with assms show ?thesis
      by (auto simp: moves_def vkeys_def set_seen_def ids in_update_where) (metis ordinary_refl)+
  qed
  show "moves Ordinary s (set_seen env P s)" by (rule seen)
  show "moves Ordinary s (snd (markMineSeen env u i s))"
    unfolding markMineSeen_def by (intro moves_mine assms) (simp add: seen)
  show "moves Ordinary s (snd (markAllMineSeen env u s))"
    by (simp add: markAllMineSeen_def Let_def seen)
qed

lemma create_moves:
  assumes "vkeys s"
  shows "moves Creating s (snd (createProfile env u d k s))"
proof -
  have ins: "moves Creating s (snd (insert_profile (new_profile env u d m n g k s) s))" for m n g
  proof -
    let ?p = "new_profile env u d m n g k s"
    have "fresh (abs_of t ?p)" for t
      by (simp add: abs_of_def fresh_def new_profile_def)
    moreover have "abs_of (s\<lparr>vs_profiles := xs, vs_created := x\<rparr>) q = abs_of s q" for xs x q
      by (simp add: abs_of_def hasBankDetails_def find_destination_def)
    ultimately show ?thesis
      using assms by (auto simp: insert_profile_def moves_def vkeys_def)
  qed
  have all: "moves Creating s (snd (case insert_profile (new_profile env u d m n g k s) s of
      (Inl UniqueViolation, s1) \<Rightarrow> (case w s1 of Some x \<Rightarrow> (Inr x, s1) | None \<Rightarrow> (Inl UniqueViolation, s1))
    | (Inl e, s1) \<Rightarrow> (Inl e, s1)
    | (Inr p, s1) \<Rightarrow> (Inr p, vp_emit (e1 p) (vp_emit (e2 p) s1))))" for m n g e1 e2 and w :: "victim_state \<Rightarrow> vprofile option"
  proof (cases "insert_profile (new_profile env u d m n g k s) s")
    case (Pair r t)
    with ins [of m n g] have "moves Creating s t" by simp
    with Pair show ?thesis by (auto split: sum.splits error.splits option.splits)
  qed
  show ?thesis
    unfolding createProfile_def Let_def
    by (intro moves_case moves_sum moves_pair all assms; simp add: moves_refl assms;
        (intro moves_case moves_sum moves_pair all assms; simp)?)
qed

lemma remove_moves:
  assumes "vkeys s"
  shows "moves Ordinary s (snd (removeProfile env u i s))"
proof -
  have del: "moves Ordinary s (delete_profile i s)" for i
  proof -
    have "hasBankDetails j (delete_profile i s) = hasBankDetails j s" if "j \<noteq> i" for j
      using that hasBank_filter [of i j "vs_destinations s"] by (simp add: hasBankDetails_def find_destination_def delete_profile_def)
    then have "abs_of (delete_profile i s) q = abs_of s q" if "vp_id q \<noteq> i" for q
      using that by (simp add: abs_of_def)
    with assms show ?thesis
      by (auto simp: moves_def vkeys_def delete_profile_def distinct_map_filter)
  qed
  show ?thesis
    unfolding removeProfile_def removeProfile_from_def Let_def
    by (intro moves_404 moves_assert moves_if assms; simp add: del moves_refl assms)
qed

lemma settle_moves:
  assumes "vkeys s"
  shows "moves Ordinary s (snd (settle_edit env x s))"
proof -
  have "moves Ordinary s (vp_write now (\<lambda>q. vp_id q = i) (\<lambda>q. q\<lparr>vp_status := st\<rparr>) s)" for now i st
  proof (cases "find_vprofile i s")
    case (Some p)
    then have i: "vp_id p = i" by (auto simp: find_vprofile_def dest: find_where_SomeD)
    show ?thesis
      by (rule moves_write [where p = p, OF assms]) (simp_all add: Some i abs_simps)
  next
    case None
    then have "\<forall>q \<in> set (vs_profiles s). vp_id q \<noteq> i" by (simp add: find_vprofile_def find_where_None_iff)
    then have "vp_write now (\<lambda>q. vp_id q = i) (\<lambda>q. q\<lparr>vp_status := st\<rparr>) s = s"
      by (simp add: vp_write_def update_where_def map_idI)
    then show ?thesis by (simp add: moves_refl assms)
  qed
  then show ?thesis
    by (simp add: settle_edit_def Let_def moves_refl assms split: option.splits)
qed

lemma anonymize_moves:
  assumes "vkeys s"
  shows "moves Ordinary s (snd (anonymize env u i r s))"
proof -
  have tx: "moves Ordinary s (anonymize_tx env i s)" if "find_vprofile i s = Some p" "vp_id p = i" for p
  proof -
    have found: "find_vprofile (vp_id p) s = Some p" using that by simp
    have pin: "\<And>q. vp_id q = i \<Longrightarrow> vp_id q = vp_id p" using that(2) by simp
    have keep_id: "vp_id (blank_profile env p) = vp_id p" by (simp add: blank_profile_def)
    note w = write_rows [where p = p and P = "\<lambda>q. vp_id q = i" and f = "blank_profile env" and now = "ve_now env",
        OF assms found pin that(2) keep_id]
    show ?thesis
    proof (rule moves_row [where p = p and p' = "(blank_profile env p)\<lparr>vp_updatedAt := ve_now env\<rparr>"])
      show "vkeys (anonymize_tx env i s)" using w(1) by (simp add: vkeys_def anonymize_tx_def)
      show "(q \<in> set (vs_profiles s) \<and> vp_id q \<noteq> vp_id p) \<or> q = (blank_profile env p)\<lparr>vp_updatedAt := ve_now env\<rparr>"
        if "q \<in> set (vs_profiles (anonymize_tx env i s))" for q
        using that w(2) [of q] by (simp add: anonymize_tx_def)
      show "hasBankDetails j (anonymize_tx env i s) = hasBankDetails j s" if "j \<noteq> vp_id p" for j
        using that \<open>vp_id p = i\<close> hasBank_filter [of i j "vs_destinations s"]
        by (simp add: hasBankDetails_def find_destination_def anonymize_tx_def vp_write_def)
    qed (simp_all add: assms found blank_profile_def abs_simps)
  qed
  show ?thesis
    unfolding anonymize_def anonymize_from_def Let_def under_hold_def
    by (intro moves_404 moves_if assms; simp add: tx moves_refl assms)
qed

lemma staff_moves:
  assumes "vkeys s"
  shows "moves Ordinary s (snd (feature env u i s))" "moves Ordinary s (snd (unfeature env u i s))"
    "moves Ordinary s (snd (softDelete env u i r s))" "moves Ordinary s (snd (restoreProfile env u i s))"
    "moves Ordinary s (snd (removeMedia env u i k n s))" "moves Ordinary s (snd (redactMedia u i k md n s))"
    "moves Ordinary s (snd (setLegalHold env u i b r s))" "moves Ordinary s (snd (adminEdit env u i d s))"
proof -
  show "moves Ordinary s (snd (feature env u i s))" "moves Ordinary s (snd (unfeature env u i s))"
    "moves Ordinary s (snd (softDelete env u i r s))" "moves Ordinary s (snd (restoreProfile env u i s))"
    "moves Ordinary s (snd (removeMedia env u i k n s))" "moves Ordinary s (snd (redactMedia u i k md n s))"
    "moves Ordinary s (snd (setLegalHold env u i b r s))"
    unfolding feature_def feature_from_def unfeature_def unfeature_from_def softDelete_def softDelete_from_def
      restoreProfile_def restoreProfile_from_def removeMedia_def removeMedia_from_def redactMedia_def
      setLegalHold_def setLegalHold_from_def under_hold_def Let_def
    by (intro vmoves assms; simp add: drop_media_def abs_simps)+
  have tail: "moves Ordinary t (snd (res_bind (settle_edit env x (t\<lparr>vs_revisions := rs\<rparr>)) (\<lambda>f t'. (Inr f, vp_emit (e f) (invalidate p t')))))"
    if "vkeys t" for t x rs p and e :: "vprofile \<Rightarrow> effect"
  proof (rule moves_bind)
    have "vkeys (t\<lparr>vs_revisions := rs\<rparr>)" using that by (simp add: vkeys_def)
    then show "moves Ordinary t (snd (settle_edit env x (t\<lparr>vs_revisions := rs\<rparr>)))"
      using moves_trans [of t "t\<lparr>vs_revisions := rs\<rparr>"] settle_moves [of "t\<lparr>vs_revisions := rs\<rparr>"] moves_refl [OF that] by simp
  qed simp
  show "moves Ordinary s (snd (adminEdit env u i d s))"
    unfolding adminEdit_def adminEdit_from_def Let_def
    by (intro moves_404 moves_assert moves_if moves_bind2 moves_conditional moves_pair tail assms;
        simp add: write_text_def abs_simps)
qed

section \<open>The refinement\<close>

end
