(* ===== verification/Victim_Properties.thy ===== *)
theory Victim_Properties
  imports Victim_Safety
begin

text \<open>
  What holds of victim profiles in every run of the operations: the refinement of the abstract
  machine, and what follows for publication, the child review, takedowns, payout destinations,
  money, flags and appeals.
\<close>

section \<open>Every operation is a move\<close>

lemma review_step: "vkeys s \<Longrightarrow> moves (label_of (VReview u i a)) s (do_review env u i a s)"
  using review_moves [of s True i u env] review_moves [of s False i u env]
  by (cases a) (simp_all add: moves_weaken claim_moves gates_moves publish_moves consent_moves)

lemma work_step: "vkeys s \<Longrightarrow> moves (label_of (VWork u i a)) s (do_work env u i a s)"
  by (cases a) (simp_all add: work_moves takedown_moves lift_moves reopen_moves reject_note_moves)

lemma money_step: "vkeys s \<Longrightarrow> moves Ordinary s (do_money env u i a s)"
  by (cases a) (simp_all add: work_moves bank_moves verify_moves total_moves)

lemma case_step: "vkeys s \<Longrightarrow> moves Ordinary s (do_case env u i a s)"
  by (cases a) (simp_all add: case_moves)

lemma creator_step: "vkeys s \<Longrightarrow> moves Ordinary s (do_creator env u i a s)"
  by (cases a) (simp_all add: creator_moves remove_moves seen_moves)

lemma staff_step: "vkeys s \<Longrightarrow> moves Ordinary s (do_staff env u i a s)"
  by (cases a) (simp_all add: creator_moves staff_moves anonymize_moves)

lemma step_moves: "vkeys s \<Longrightarrow> moves (label_of op) s (vexec env op s)"
  by (cases op)
    (simp_all add: money_step case_step creator_step staff_step review_step work_step create_moves seen_moves)

interpretation profile_keys: invariant_system "\<lambda>s t. \<exists>env op. t = vexec env op s" vkeys
  by unfold_locales (auto intro: moves_keys step_moves)

lemma vrun_reach: "(\<lambda>s t. \<exists>env op. t = vexec env op s)\<^sup>*\<^sup>* s (vrun ops s)"
proof (induction ops arbitrary: s)
  case (Cons x ops)
  obtain env op where "x = (env, op)" by (cases x)
  with Cons [of "vexec env op s"] show ?case
    by (auto intro: converse_rtranclp_into_rtranclp)
qed simp

lemma vrun_keys: "vkeys s \<Longrightarrow> vkeys (vrun ops s)"
  using profile_keys.reach_inv vrun_reach by blast

text \<open>
  C9. Every operation of the victim profile services is a move of the abstract machine.
\<close>

theorem operations_refine_machine:
  assumes "vkeys s" "q \<in> set (vs_profiles (vexec env op s))"
  shows "(\<exists>p \<in> set (vs_profiles s). vp_id p = vp_id q \<and>
       amove (label_of op) (vp_id q) (abs_of s p) (abs_of (vexec env op s) q)) \<or>
     (label_of op = Creating \<and> fresh (abs_of (vexec env op s) q))"
  using step_moves [OF assms(1), of op env] assms(2) by (simp add: moves_def)

section \<open>Publication\<close>

definition published_ok :: "victim_state \<Rightarrow> bool" where
  "published_ok s \<longleftrightarrow> vkeys s \<and>
     list_all (\<lambda>p. vp_isPublished p \<longrightarrow> cleared p \<and> hasBankDetails (vp_id p) s) (vs_profiles s)"

lemma published_step:
  assumes "published_ok s"
  shows "published_ok (vexec env op s)"
proof -
  have k: "vkeys s" using assms by (simp add: published_ok_def)
  have move: "ab_published b \<longrightarrow> ab_cleared b \<and> ab_bank b"
    if "amove l i a b" "ab_published a \<longrightarrow> ab_cleared a \<and> ab_bank a" for l i a b
    using that by (cases l) (auto simp: ordinary_def)
  have "cleared q \<and> hasBankDetails (vp_id q) (vexec env op s)"
    if q: "q \<in> set (vs_profiles (vexec env op s))" "vp_isPublished q" for q
    using operations_refine_machine [OF k q(1)]
  proof
    assume "\<exists>p \<in> set (vs_profiles s). vp_id p = vp_id q \<and>
       amove (label_of op) (vp_id q) (abs_of s p) (abs_of (vexec env op s) q)"
    then obtain p where p: "p \<in> set (vs_profiles s)"
      "amove (label_of op) (vp_id q) (abs_of s p) (abs_of (vexec env op s) q)" by blast
    from assms p(1) have "ab_published (abs_of s p) \<longrightarrow> ab_cleared (abs_of s p) \<and> ab_bank (abs_of s p)"
      by (simp add: published_ok_def list_all_iff abs_of_def)
    from move [OF p(2) this] q(2) show ?thesis by (simp add: abs_of_def)
  qed (use q(2) in \<open>simp add: fresh_def abs_of_def\<close>)
  with moves_keys [OF step_moves [OF k]] show ?thesis
    by (auto simp: published_ok_def list_all_iff)
qed

interpretation publication: invariant_system "\<lambda>s t. \<exists>env op. t = vexec env op s" published_ok
  by unfold_locales (auto intro: published_step)


section \<open>The child review\<close>

fun confirms :: "victim_op \<Rightarrow> jstring \<Rightarrow> jstring option" where
  "confirms (VReview u j (VChildReview reviewed _)) i = (if reviewed \<and> j = i then Some (cu_id u) else None)"
| "confirms _ _ = None"

text \<open>The administrators who confirmed the review of a profile in a run.\<close>

definition confirmers :: "(victim_env \<times> victim_op) list \<Rightarrow> jstring \<Rightarrow> jstring list" where
  "confirmers ops i = List.map_filter (\<lambda>(env, op). confirms op i) ops"

definition dual :: "(jstring \<Rightarrow> jstring set) \<Rightarrow> victim_state \<Rightarrow> bool" where
  "dual H s \<longleftrightarrow> vkeys s \<and> (\<forall>p \<in> set (vs_profiles s).
     (truthy (vp_firstConfirmedBy p) \<longrightarrow> the (vp_firstConfirmedBy p) \<in> H (vp_id p)) \<and>
     (vp_isChildSafetyReviewed p \<longrightarrow> (\<exists>a b. a \<noteq> b \<and> a \<in> H (vp_id p) \<and> b \<in> H (vp_id p))))"

definition dual_row :: "jstring set \<Rightarrow> abs_profile \<Rightarrow> bool" where
  "dual_row K a \<longleftrightarrow> (truthy (ab_first a) \<longrightarrow> the (ab_first a) \<in> K) \<and>
     (ab_reviewed a \<longrightarrow> (\<exists>x y. x \<noteq> y \<and> x \<in> K \<and> y \<in> K))"

lemma dual_rows:
  "dual K r \<longleftrightarrow> vkeys r \<and> (\<forall>p \<in> set (vs_profiles r). dual_row (K (vp_id p)) (abs_of r p))"
  by (simp add: dual_def dual_row_def abs_of_def)

lemma confirms_label: "label_of op = Confirming j u \<Longrightarrow> confirms op j = Some u"
  by (cases op rule: label_of.cases) (auto split: if_splits)

lemma dual_step:
  assumes "dual H s"
  shows "dual (\<lambda>i. H i \<union> set_option (confirms op i)) (vexec env op s)"
proof -
  let ?t = "vexec env op s" and ?H = "\<lambda>i. H i \<union> set_option (confirms op i)"
  have k: "vkeys s" using assms by (simp add: dual_def)
  have mono: "dual_row (?H i) a" if "dual_row (H i) a" for i a
    using that unfolding dual_row_def by blast
  have ord: "dual_row K b" if "dual_row K a" "ordinary a b" for K a b
    using that by (auto simp: dual_row_def ordinary_def)
  have move: "dual_row (?H i) b" if a: "dual_row (H i) a" and m: "amove (label_of op) i a b" for i a b
  proof (cases "ordinary a b")
    case True
    then show ?thesis using mono [OF a] by (rule ord [rotated])
  next
    case False
    show ?thesis
    proof (cases "label_of op")
      case (Confirming j u)
      with m False have j: "j = i"
        and c: "\<not> truthy (ab_first a) \<and> ordinary (a\<lparr>ab_first := Some u\<rparr>) b \<or>
          truthy (ab_first a) \<and> ab_first a \<noteq> Some u \<and> ab_reviewed b \<and>
          ordinary (a\<lparr>ab_reviewed := True\<rparr>) b \<and> ab_first b = ab_first a" by auto
      have u: "u \<in> ?H i" using confirms_label [OF Confirming] j by simp
      from c show ?thesis
      proof
        assume "\<not> truthy (ab_first a) \<and> ordinary (a\<lparr>ab_first := Some u\<rparr>) b"
        moreover have "dual_row (?H i) (a\<lparr>ab_first := Some u\<rparr>)" using mono [OF a] u by (simp add: dual_row_def)
        ultimately show ?thesis using ord by blast
      next
        assume c: "truthy (ab_first a) \<and> ab_first a \<noteq> Some u \<and> ab_reviewed b \<and>
          ordinary (a\<lparr>ab_reviewed := True\<rparr>) b \<and> ab_first b = ab_first a"
        then obtain x where x: "ab_first a = Some x" "x \<noteq> u" by (cases "ab_first a") auto
        with mono [OF a] c have "x \<in> ?H i" by (simp add: dual_row_def)
        with x(1) c have "truthy (ab_first b) \<longrightarrow> the (ab_first b) \<in> ?H i" by simp
        moreover from \<open>x \<in> ?H i\<close> u x(2) have "\<exists>x y. x \<noteq> y \<and> x \<in> ?H i \<and> y \<in> ?H i" by blast
        ultimately show ?thesis unfolding dual_row_def by blast
      qed
    next
      case (Publishing j)
      with m False have "ab_reviewed b = ab_reviewed a" "ab_first b = ab_first a" by simp_all
      with mono [OF a] show ?thesis by (simp add: dual_row_def)
    next
      case (TakingDown j)
      with m False have "ordinary (a\<lparr>ab_taken := True\<rparr>) b" by simp
      moreover have "dual_row (?H i) (a\<lparr>ab_taken := True\<rparr>)" using mono [OF a] by (simp add: dual_row_def)
      ultimately show ?thesis using ord by blast
    next
      case (Lifting j)
      with m False have "ordinary (a\<lparr>ab_taken := False\<rparr>) b" by simp
      moreover have "dual_row (?H i) (a\<lparr>ab_taken := False\<rparr>)" using mono [OF a] by (simp add: dual_row_def)
      ultimately show ?thesis using ord by blast
    qed (use m False in simp_all)
  qed
  have "dual_row (?H (vp_id q)) (abs_of ?t q)" if q: "q \<in> set (vs_profiles ?t)" for q
    using operations_refine_machine [OF k q]
  proof
    assume "\<exists>p \<in> set (vs_profiles s). vp_id p = vp_id q \<and> amove (label_of op) (vp_id q) (abs_of s p) (abs_of ?t q)"
    then obtain p where p: "p \<in> set (vs_profiles s)" "vp_id p = vp_id q"
      "amove (label_of op) (vp_id q) (abs_of s p) (abs_of ?t q)" by blast
    from assms p(1,2) have "dual_row (H (vp_id q)) (abs_of s p)" unfolding dual_rows by metis
    from move [OF this p(3)] show ?thesis .
  qed (simp add: dual_row_def fresh_def)
  with moves_keys [OF step_moves [OF k]] show ?thesis unfolding dual_rows by blast
qed

lemma dual_run:
  "dual H s \<Longrightarrow> dual (\<lambda>i. H i \<union> set (confirmers ops i)) (vrun ops s)"
proof (induction ops arbitrary: H s)
  case (Cons x ops)
  obtain env op where x: "x = (env, op)" by (cases x)
  have "(\<lambda>i. H i \<union> set_option (confirms op i) \<union> set (confirmers ops i)) = (\<lambda>i. H i \<union> set (confirmers (x # ops) i))"
    by (rule ext) (auto simp: confirmers_def x map_filter_simps split: option.splits)
  moreover from Cons.IH [OF dual_step [where op = op and env = env, OF Cons.prems]]
  have "dual (\<lambda>i. H i \<union> set_option (confirms op i) \<union> set (confirmers ops i)) (vrun (x # ops) s)" by (simp add: x)
  ultimately show ?case by (simp only:)
qed (simp add: confirmers_def)

definition unreviewed :: "victim_state \<Rightarrow> bool" where
  "unreviewed s \<longleftrightarrow> list_all (\<lambda>p. \<not> vp_isChildSafetyReviewed p \<and> vp_firstConfirmedBy p = None \<and> \<not> vp_isPublished p) (vs_profiles s)"

text \<open>
  C11. However the operations follow each other, a public profile that involves a child was
  confirmed by two different administrators.
\<close>

theorem public_children_two_admins:
  assumes "vkeys s" "unreviewed s" "p \<in> set (vs_profiles (vrun ops s))" "publicWhere p" "vp_involvesChild p"
  shows "\<exists>a \<in> set (confirmers ops (vp_id p)). \<exists>b \<in> set (confirmers ops (vp_id p)). a \<noteq> b"
proof -
  have "published_ok s" "dual (\<lambda>_. {}) s"
    using assms(1,2) by (auto simp: published_ok_def dual_def unreviewed_def list_all_iff)
  moreover from publication.reach_inv [OF vrun_reach this(1)] assms(3-5)
  have "vp_isChildSafetyReviewed p" by (auto simp: published_ok_def list_all_iff publicWhere_def cleared_def)
  moreover from dual_run [OF \<open>dual (\<lambda>_. {}) s\<close>, of ops] assms(3)
  have "vp_isChildSafetyReviewed p \<longrightarrow> (\<exists>a b. a \<noteq> b \<and> a \<in> set (confirmers ops (vp_id p)) \<and> b \<in> set (confirmers ops (vp_id p)))"
    by (simp add: dual_def)
  ultimately show ?thesis by blast
qed

end
