(* ===== verification/Victim_Money.thy ===== *)
theory Victim_Money
  imports Victim_Properties Donation
begin

text \<open>
  Victim profiles and money: the view the payments module has of the profiles, what a takedown does
  to donations and transfers, the totals both modules compute, who verifies a payout destination,
  and what has to be settled before a profile is deleted.
\<close>

section \<open>The view of the payments module\<close>

definition pay_destination :: "pdestination \<Rightarrow> payout_destination" where
  "pay_destination d = \<lparr>pd_id = de_id d, pd_bankName = de_bankName d, pd_bankCode = de_bankCode d,
     pd_accountNumber = de_accountNumber d, pd_accountHolder = de_accountHolder d, pd_isVerified = de_isVerified d\<rparr>"

definition pay_profile :: "victim_state \<Rightarrow> vprofile \<Rightarrow> victim_profile" where
  "pay_profile s p = \<lparr>v_id = vp_id p, v_status = profile_status_name (vp_status p),
     v_isPublished = vp_isPublished p, v_isVerified = vp_isVerified p, v_isSafetyReviewed = vp_isSafetyReviewed p,
     v_hasConsent = vp_hasConsent p, v_isPrivacyReviewed = vp_isPrivacyReviewed p,
     v_isAdminApproved = vp_isAdminApproved p, v_deletedAt = vp_deletedAt p, v_takedownAt = vp_takedownAt p,
     v_legalHold = vp_legalHold p, v_completedAt = vp_completedAt p, v_fundingEndsAt = vp_fundingEndsAt p,
     v_donationsPaused = vp_donationsPaused p, v_payoutsPaused = vp_payoutsPaused p,
     v_totalRaised = vp_totalRaised p, v_createdByUserId = vp_createdByUserId p,
     v_payoutDestination = map_option pay_destination (find_destination (vp_id p) s)\<rparr>"

definition pay_view :: "victim_state \<Rightarrow> pay_state \<Rightarrow> pay_state" where
  "pay_view s ps = ps\<lparr>ps_profiles := map (pay_profile s) (vs_profiles s),
     ps_payments := vs_payments s, ps_disbursements := vs_disbursements s\<rparr>"

lemma pay_profile_simps [simp]:
  "v_id (pay_profile s p) = vp_id p" "v_takedownAt (pay_profile s p) = vp_takedownAt p"
  "v_payoutsPaused (pay_profile s p) = vp_payoutsPaused p"
  by (simp_all add: pay_profile_def)

lemma find_where_map: "find_where P (map f xs) = map_option f (find_where (\<lambda>x. P (f x)) xs)"
  by (induction xs) auto

section \<open>Takedowns\<close>

fun lifts :: "victim_op \<Rightarrow> jstring \<Rightarrow> bool" where
  "lifts (VWork _ j (VLift _)) i = (j = i)"
| "lifts _ _ = False"

text \<open>Every row of the profile is taken down; \<open>uuid()\<close> never draws its id again.\<close>

definition taken_down :: "jstring \<Rightarrow> victim_state \<Rightarrow> bool" where
  "taken_down i s \<longleftrightarrow> list_all (\<lambda>p. vp_id p = i \<longrightarrow> vp_takedownAt p \<noteq> None) (vs_profiles s)"

definition never_draws :: "jstring \<Rightarrow> victim_env \<Rightarrow> bool" where
  "never_draws i env \<longleftrightarrow> i \<notin> range (ve_newId env)"

lemma created_rows:
  "q \<in> set (vs_profiles (snd (createProfile env u d k s))) \<Longrightarrow>
     q \<in> set (vs_profiles s) \<or> vp_id q = ve_newId env (vs_created s)"
  by (auto simp: createProfile_def insert_profile_def new_profile_def Let_def vp_emit_def
      split: option.splits sum.splits prod.splits error.splits if_splits)

lemma lifts_label: "label_of op = Lifting i \<Longrightarrow> lifts op i"
  by (cases op rule: label_of.cases) (auto split: if_splits)

lemma taken_step:
  assumes "vkeys s" "taken_down i s" "\<not> lifts op i" "never_draws i env"
  shows "taken_down i (vexec env op s)"
proof -
  have "vp_takedownAt q \<noteq> None" if q: "q \<in> set (vs_profiles (vexec env op s))" "vp_id q = i" for q
  proof (cases "label_of op = Creating")
    case True
    then obtain u d k where op: "op = VCreate u d k"
      by (cases op rule: label_of.cases) (auto split: if_splits)
    have "i \<noteq> ve_newId env (vs_created s)" using assms(4) by (auto simp: never_draws_def)
    with created_rows [of q env u d k s] q assms(2) show ?thesis by (auto simp: op taken_down_def list_all_iff)
  next
    case False
    with operations_refine_machine [OF assms(1) q(1)] obtain p where
      p: "p \<in> set (vs_profiles s)" "vp_id p = vp_id q"
        "amove (label_of op) (vp_id q) (abs_of s p) (abs_of (vexec env op s) q)" by blast
    have "label_of op \<noteq> Lifting i" using assms(3) lifts_label by blast
    with p(3) q(2) have "ab_taken (abs_of s p) \<longrightarrow> ab_taken (abs_of (vexec env op s) q)"
      by (cases "label_of op") (auto simp: ordinary_def)
    with assms(2) p(1,2) q(2) show ?thesis by (simp add: taken_down_def list_all_iff abs_of_def)
  qed
  then show ?thesis by (simp add: taken_down_def list_all_iff)
qed

lemma taken_run:
  "vkeys s \<Longrightarrow> taken_down i s \<Longrightarrow> list_all (\<lambda>(env, op). \<not> lifts op i \<and> never_draws i env) ops \<Longrightarrow>
   vkeys (vrun ops s) \<and> taken_down i (vrun ops s)"
proof (induction ops arbitrary: s)
  case (Cons x ops)
  obtain env op where x: "x = (env, op)" by (cases x)
  with Cons.prems show ?case
    using Cons.IH [of "vexec env op s"] moves_keys [OF step_moves [OF Cons.prems(1), of op env]]
      taken_step [of s i op env] by simp
qed simp

lemma no_money_when_down:
  assumes "taken_down i s"
  shows "\<exists>e. getDonatableProfile penv i (pay_view s ps) = Inl e"
    "snd (prepare_transfer penv i (pay_view s ps)) = pay_view s ps"
    "\<forall>d n. fst (prepare_transfer penv i (pay_view s ps)) \<noteq> Inr (Prepared d n)"
proof -
  have down: "vp_takedownAt p \<noteq> None" if "find_where P (vs_profiles s) = Some p" "\<And>q. P q \<Longrightarrow> vp_id q = i" for p P
    using find_where_SomeD [OF that(1)] that(2) assms by (auto simp: taken_down_def list_all_iff)
  show "\<exists>e. getDonatableProfile penv i (pay_view s ps) = Inl e"
    by (auto simp: getDonatableProfile_def pay_view_def find_where_map split: option.splits dest!: down)
  show "snd (prepare_transfer penv i (pay_view s ps)) = pay_view s ps"
    "\<forall>d n. fst (prepare_transfer penv i (pay_view s ps)) \<noteq> Inr (Prepared d n)"
    by (auto simp: prepare_transfer_def find_profile_def pay_view_def find_where_map blocked_def
        split: option.splits dest!: down)
qed

text \<open>
  C12. From a takedown until someone lifts it, whatever else happens to the profile, nobody can
  donate to it and no transfer to the victim is prepared.
\<close>

theorem takedown_stops_money:
  assumes "vkeys s" "fst (takedownProfile env0 admin i reason s) = Inr p"
    "list_all (\<lambda>(env, op). \<not> lifts op i \<and> never_draws i env) ops"
  shows "(\<exists>e. getDonatableProfile penv i (pay_view (vrun ops (vexec env0 (VWork admin i (VTakedown reason)) s)) ps) = Inl e) \<and>
     (\<forall>d n. fst (prepare_transfer penv i (pay_view (vrun ops (vexec env0 (VWork admin i (VTakedown reason)) s)) ps)) \<noteq> Inr (Prepared d n))"
proof -
  let ?t = "vexec env0 (VWork admin i (VTakedown reason)) s"
  obtain q where q: "find_vprofile i s = Some q" "vp_takedownAt q = None"
    using assms(2) by (auto simp: takedownProfile_def getProfileOr404_def takedownProfile_from_def Let_def
        split: option.splits if_splits)
  then have qi: "vp_id q = i" by (auto simp: find_vprofile_def dest: find_where_SomeD)
  obtain x t where c: "conditionalUpdate (ve_now env0) admin ''VICTIM_PROFILE_TAKEDOWN'' q (write_takedown env0 admin reason q) s = (Inr x, t)"
    and t: "vs_profiles ?t = vs_profiles t"
    using assms(2) q by (cases "conditionalUpdate (ve_now env0) admin ''VICTIM_PROFILE_TAKEDOWN'' q (write_takedown env0 admin reason q) s")
      (auto simp: takedownProfile_def getProfileOr404_def takedownProfile_from_def Let_def res_bind_def
        vp_emit_def invalidate_def split: sum.splits)
  have "vp_takedownAt r \<noteq> None" if "r \<in> set (vs_profiles t)" "vp_id r = i" for r
    using conditional_done(2) [OF assms(1) _ _ c that(1)] that(2) q(1) qi by (simp add: write_takedown_def)
  then have "taken_down i ?t" unfolding taken_down_def list_all_iff t by blast
  with taken_run [OF moves_keys [OF step_moves [OF assms(1)]] this assms(3)]
  show ?thesis using no_money_when_down by blast
qed

section \<open>The same money on both sides\<close>

lemma add_money_group: "add_money = add_group"
proof -
  have "add_money x a = add_group x a" for x a
  proof -
    obtain st amount sent way where "x = (st, amount)" "a = (sent, way)" by (cases x, cases a)
    then show ?thesis by (cases st) (simp_all add: ACTIVE_DISBURSEMENT_def)
  qed
  then show ?thesis by blast
qed

text \<open>
  C14. The totals that the victim profile services compute agree with the balance the payout service
  computes, although the two are written separately.
\<close>

theorem money_totals_agree:
  "getMoneyTotals i s = (let b = getBalance i (pay_view s ps) in
     \<lparr>mt_raised = b_raised b, mt_sent = b_sent b, mt_onTheWay = b_onTheWay b, mt_waiting = b_waiting b,
      mt_paymentCount = count_where (\<lambda>p. p_victimProfileId p = i \<and> p_status p = PAY_PAID) (vs_payments s)\<rparr>)"
  by (simp add: getMoneyTotals_def getBalance_def pay_view_def add_money_group Let_def case_prod_beta)

lemma undelivered_iff:
  "hasUndeliveredMoney i s \<longleftrightarrow>
     b_waiting (getBalance i (pay_view s ps)) > 0 \<or> b_onTheWay (getBalance i (pay_view s ps)) > 0"
  by (simp add: hasUndeliveredMoney_def money_totals_agree [of i s ps] Let_def)


text \<open>
  C15. None of the three ways to delete a profile succeeds while money donated to it still waits to
  be sent or is on its way.
\<close>

theorem deletion_needs_delivered_money:
  assumes "fst (removeProfile env u i s) = Inr () \<or> fst (softDelete env u i r s) = Inr p \<or>
     fst (anonymize env u i r s) = Inr ()"
  shows "b_waiting (getBalance i (pay_view s ps)) = 0 \<and> b_onTheWay (getBalance i (pay_view s ps)) \<le> 0"
proof -
  have found: "vp_id q = i" if "find_vprofile i s = Some q" for q
    using that by (auto simp: find_vprofile_def dest: find_where_SomeD)
  have "\<not> hasUndeliveredMoney i s"
    using assms
    by (auto simp: removeProfile_def removeProfile_from_def softDelete_def softDelete_from_def
        anonymize_def anonymize_from_def getProfileOr404_def assertAdminCanAccessProfile_def under_hold_def Let_def
        dest: found split: option.splits if_splits)
  moreover have "b_waiting (getBalance i (pay_view s ps)) \<ge> 0" by (simp add: getBalance_eq)
  ultimately show ?thesis by (simp add: undelivered_iff [of i s ps])
qed

section \<open>Four eyes on payout destinations\<close>

fun is_edit :: "effect \<Rightarrow> bool" where
  "is_edit (Audit a) = (ae_entity a = ''VictimProfile'' \<and> ae_action a = ''VICTIM_PROFILE_BANK_DETAILS_UPDATED'' \<and>
     ae_outcome a = SUCCESS)"
| "is_edit _ = False"

text \<open>No bank details were edited, and destinations were at most deleted.\<close>

definition keeps :: "victim_state \<Rightarrow> victim_state \<Rightarrow> bool" where
  "keeps s t \<longleftrightarrow> filter is_edit (vs_log t) = filter is_edit (vs_log s) \<and>
     (\<exists>P. vs_destinations t = filter P (vs_destinations s))"

lemma kept_refl [simp]: "keeps s s"
  unfolding keeps_def by (auto intro!: exI [of _ "\<lambda>_. True"])

lemma kept_trans: "keeps s t \<Longrightarrow> keeps t r \<Longrightarrow> keeps s r"
  unfolding keeps_def by auto

lemma keeps_emit [simp]: "\<not> is_edit e \<Longrightarrow> keeps s (vp_emit e t) = keeps s t"
  by (simp add: keeps_def vp_emit_def)

lemma keeps_parts [simp]:
  "keeps s (vp_write now P f t) = keeps s t" "keeps s (invalidate p t) = keeps s t"
  "keeps s (t\<lparr>vs_profiles := ps\<rparr>) = keeps s t" "keeps s (t\<lparr>vs_flags := fs\<rparr>) = keeps s t"
  "keeps s (t\<lparr>vs_appeals := as\<rparr>) = keeps s t" "keeps s (t\<lparr>vs_revisions := rs\<rparr>) = keeps s t"
  "keeps s (t\<lparr>vs_updates := us\<rparr>) = keeps s t" "keeps s (t\<lparr>vs_readStates := xs\<rparr>) = keeps s t"
  "keeps s (t\<lparr>vs_created := n\<rparr>) = keeps s t"
  by (simp_all add: keeps_def vp_write_def invalidate_def vp_emit_def)

lemma keeps_filter: "keeps s (t\<lparr>vs_destinations := filter P (vs_destinations t)\<rparr>)" if "keeps s t"
  using that by (auto simp: keeps_def)

lemma vp_audit_parts [simp]:
  "ae_entity (vp_audit u a p) = ''VictimProfile''" "ae_action (vp_audit u a p) = a"
  by (simp_all add: vp_audit_def audit_base_def)

lemma is_edit_events [simp]:
  "is_edit (auditSuccess u a p sev r d m) = (a = ''VICTIM_PROFILE_BANK_DETAILS_UPDATED'')"
  "oc \<noteq> SUCCESS \<Longrightarrow> \<not> is_edit (emitProfileFailure u a p reason oc d m)"
  "\<not> is_edit (transition_conflict u a p)" "\<not> is_edit (notify_creator ev p ex)"
  by (simp_all add: auditSuccess_def emitProfileFailure_def vp_audit_def audit_base_def transition_conflict_def notify_creator_def)

lemma keeps_emits [simp]: "list_all (\<lambda>e. \<not> is_edit e) es \<Longrightarrow> keeps s (fold vp_emit es t) = keeps s t"
  by (induction es arbitrary: t) simp_all

lemma keeps_purge [simp]: "keeps s (purge_media ks t) = keeps s t"
  unfolding purge_media_def by (induction ks arbitrary: t) simp_all

lemma gate_entries_plain [simp]: "list_all (\<lambda>e. \<not> is_edit e) (gate_entries u p g st)"
  by (auto simp: gate_entries_def list_all_iff)

lemma keeps_404: "(\<And>p. keeps s (snd (k p))) \<Longrightarrow> keeps s (snd (getProfileOr404 i s k))"
  by (simp add: getProfileOr404_def split: option.splits)

lemma keeps_mine: "(\<And>p. keeps s (snd (k p))) \<Longrightarrow> keeps s (snd (getMineOr404 u i s k))"
  by (simp add: getMineOr404_def split: option.splits)

lemma keeps_published: "(\<And>p. keeps s (snd (k p))) \<Longrightarrow> keeps s (snd (assertPublishedProfile i s k))"
  by (simp add: assertPublishedProfile_def split: option.splits)

lemma keeps_assert: "keeps s (snd k) \<Longrightarrow> keeps s (snd (assertAdminCanAccessProfile u p a s k))"
  by (simp add: assertAdminCanAccessProfile_def)

lemma keeps_bind: "keeps s (snd m) \<Longrightarrow> (\<And>x t. keeps s t \<Longrightarrow> keeps s (snd (k x t))) \<Longrightarrow> keeps s (snd (res_bind m k))"
  by (auto simp: res_bind_def split: prod.splits sum.splits)

lemma keeps_conditional: "keeps s (snd (conditionalUpdate now u a p f s))"
  by (simp add: conditionalUpdate_def Let_def split: option.splits)

lemma keeps_if: "(c \<Longrightarrow> keeps s (snd a)) \<Longrightarrow> (\<not> c \<Longrightarrow> keeps s (snd b)) \<Longrightarrow> keeps s (snd (if c then a else b))"
  by simp

lemma keeps_case:
  "keeps s (snd a) \<Longrightarrow> (\<And>y. keeps s (snd (b y))) \<Longrightarrow> keeps s (snd (case x of None \<Rightarrow> a | Some y \<Rightarrow> b y))"
  by (cases x) simp_all

lemma keeps_sum:
  "(\<And>e. keeps s (snd (a e))) \<Longrightarrow> (\<And>y. keeps s (snd (b y))) \<Longrightarrow> keeps s (snd (case x of Inl e \<Rightarrow> a e | Inr y \<Rightarrow> b y))"
  by (cases x) simp_all

lemma keeps_pair: "keeps s t \<Longrightarrow> keeps s (snd (r, t))"
  by simp

lemmas keeping = keeps_404 keeps_mine keeps_published keeps_assert keeps_if keeps_case keeps_sum keeps_bind
  keeps_conditional keeps_pair

lemma review_keeps:
  "keeps s (snd (updateGates env u i d s))" "keeps s (snd (publishProfile env u i s))"
  "keeps s (snd (updateChildSafetyReview env u i b n s))"
  "keeps s (snd (revokeConsent env u i r s))" "keeps s (snd (recordConsent env u i cd s))"
  "keeps s (snd (updateChildFlag env u i b rr s))"
  "keeps s (snd (claimProfile env u i s))" "keeps s (snd (unclaimProfile env u i s))"
  unfolding updateGates_def updateGates_from_def publishProfile_def publishProfile_from_def updateChildSafetyReview_def
    updateChildSafetyReview_from_def confirm_first_def confirm_second_def reverse_review_def
    revokeConsent_def revokeConsent_from_def recordConsent_def recordConsent_from_def updateChildFlag_def
    updateChildFlag_from_def propose_child_flag_def claimProfile_def claimProfile_from_def unclaimProfile_def
    unclaimProfile_from_def fetch_profile_def Let_def
  by (intro keeping; simp)+

lemma work_keeps:
  "keeps s (snd (assignReviewer env u i r s))" "keeps s (snd (unassignReviewer env u i s))"
  "keeps s (snd (requestProfileChanges env u i m s))" "keeps s (snd (completeProfile env u i n s))"
  "keeps s (snd (unpublishProfile env u i s))" "keeps s (snd (rejectProfile env u i s))"
  "keeps s (snd (resubmitProfile env u i s))" "keeps s (snd (pauseDonations env u i m s))"
  "keeps s (snd (resumeDonations env u i s))" "keeps s (snd (takedownProfile env u i r s))"
  "keeps s (snd (liftTakedown env u i r s))" "keeps s (snd (reopenProfile env u i r s))"
  "keeps s (snd (reconcileProfileTotal env u i b s))" "keeps s (snd (updateGoal env u i g r s))"
  unfolding assignReviewer_def assignReviewer_from_def unassignReviewer_def unassignReviewer_from_def
    requestProfileChanges_def requestProfileChanges_from_def completeProfile_def completeProfile_from_def
    unpublishProfile_def unpublishProfile_from_def rejectProfile_def rejectProfile_from_def
    resubmitProfile_def resubmitProfile_from_def pauseDonations_def pauseDonations_from_def
    resumeDonations_def resumeDonations_from_def takedownProfile_def takedownProfile_from_def
    liftTakedown_def liftTakedown_from_def reopenProfile_def reopenProfile_from_def
    reconcileProfileTotal_def reconcileProfileTotal_from_def updateGoal_def updateGoal_from_def overflow_def Let_def
  by (intro keeping; simp)+


lemma reject_note_keeps: "keeps s (snd (reject_with_note env u r i s))"
  unfolding reject_with_note_def by (intro keeping work_keeps; simp)

lemma finish_keeps: "keeps t (snd (finish_appeal env u p x b r t))"
  by (simp add: finish_appeal_def Let_def split: option.splits)

lemma case_keeps:
  "keeps s (snd (createProfileAppeal env u i m s))" "keeps s (snd (flagProfile env u i r d s))"
  "keeps s (snd (decideProfileAppeal env u a b r s))" "keeps s (snd (resolveFlag env u f res r s))"
proof -
  show "keeps s (snd (createProfileAppeal env u i m s))"
    unfolding createProfileAppeal_def createProfileAppeal_from_def Let_def by (intro keeping; simp)
  show "keeps s (snd (flagProfile env u i r d s))"
    unfolding flagProfile_def flagProfile_from_def Let_def insert_vflag_def
    by (intro keeps_published) (simp split: prod.splits)
  have up: "keeps s (snd (res_bind (resubmitProfile env u j s) (\<lambda>v t. finish_appeal env u p x b r t)))" for j p x
    by (intro keeps_bind work_keeps kept_trans [OF _ finish_keeps])
  show "keeps s (snd (decideProfileAppeal env u a b r s))"
    unfolding decideProfileAppeal_def decideProfileAppeal_from_def
    by (intro keeps_case keeps_if keeps_404 up finish_keeps; simp)
  have act: "keeps t (snd (flag_action env u p res r t))" for p t
    unfolding flag_action_def by (intro keeps_if keeps_bind work_keeps keeps_pair; simp)
  have "keeps s (snd (resolveFlag_from env u x p res r s))" for x p
  proof (cases "flag_action env u p res r
      (s\<lparr>vs_flags := update_where (flag_open (vf_id x)) (take_flag env u res r) (vs_flags s)\<rparr>)")
    case (Pair y t)
    let ?s1 = "s\<lparr>vs_flags := update_where (flag_open (vf_id x)) (take_flag env u res r) (vs_flags s)\<rparr>"
    from act [of ?s1 p] have "keeps ?s1 t" unfolding Pair by simp
    with kept_trans [of s ?s1 t] have "keeps s t" by simp
    then show ?thesis by (simp add: resolveFlag_from_def Let_def Pair split: sum.splits option.splits)
  qed
  then show "keeps s (snd (resolveFlag env u f res r s))"
    unfolding resolveFlag_def by (intro keeps_case keeps_if keeps_404; simp)
qed

lemma edit_keeps:
  "(\<And>x m t. keeps s t \<Longrightarrow> keeps s (snd (k x m t))) \<Longrightarrow> keeps s (snd (edit_profile env u p data f s k))"
  unfolding edit_profile_def Let_def overflow_def by (intro keeping; simp)

lemma creator_keeps:
  "keeps s (snd (updateProfile env u i d s))" "keeps s (snd (updateMine env u i d s))"
  "keeps s (snd (withdrawMine env u i s))" "keeps s (snd (resubmitMine env u i s))"
  "keeps s (snd (removeMineMedia env u i m s))" "keeps s (snd (createMineUpdate env u i ti b s))"
  "keeps s (snd (createAdminUpdate env u i ti b s))" "keeps s (snd (markMineSeen env u i s))"
  "keeps s (snd (markAllMineSeen env u s))"
  unfolding updateProfile_def updateProfile_from_def updateMine_def updateMine_from_def withdrawMine_def withdrawMine_from_def
    resubmitMine_def resubmitMine_from_def removeMineMedia_def removeMineMedia_from_def createMineUpdate_def
    createMineUpdate_from_def createAdminUpdate_def post_update_def markMineSeen_def markAllMineSeen_def set_seen_def Let_def
  by (intro keeping edit_keeps; simp)+

lemma create_keeps: "keeps s (snd (createProfile env u d k s))"
  by (simp add: createProfile_def insert_profile_def Let_def split: option.splits sum.splits error.splits)

lemma remove_keeps: "keeps s (snd (removeProfile env u i s))"
proof -
  have "keeps s (delete_profile j s)" for j
    by (auto simp: delete_profile_def keeps_def)
  then show ?thesis unfolding removeProfile_def removeProfile_from_def Let_def by (intro keeping; simp)
qed

lemma settle_keeps: "keeps s (snd (settle_edit env x s))"
  by (simp add: settle_edit_def Let_def split: option.splits)

lemma staff_keeps:
  "keeps s (snd (feature env u i s))" "keeps s (snd (unfeature env u i s))"
  "keeps s (snd (softDelete env u i r s))" "keeps s (snd (restoreProfile env u i s))"
  "keeps s (snd (removeMedia env u i k n s))" "keeps s (snd (redactMedia u i k md n s))"
  "keeps s (snd (setLegalHold env u i b r s))" "keeps s (snd (adminEdit env u i d s))"
  "keeps s (snd (anonymize env u i r s))"
proof -
  show "keeps s (snd (feature env u i s))" "keeps s (snd (unfeature env u i s))"
    "keeps s (snd (softDelete env u i r s))" "keeps s (snd (restoreProfile env u i s))"
    "keeps s (snd (removeMedia env u i k n s))" "keeps s (snd (redactMedia u i k md n s))"
    "keeps s (snd (setLegalHold env u i b r s))"
    unfolding feature_def feature_from_def unfeature_def unfeature_from_def softDelete_def softDelete_from_def
      restoreProfile_def restoreProfile_from_def removeMedia_def removeMedia_from_def redactMedia_def
      setLegalHold_def setLegalHold_from_def under_hold_def Let_def
    by (intro keeping; simp)+
  have "keeps s (snd (settle_edit env x t))" if "keeps s t" for x t
    using kept_trans [OF that settle_keeps] .
  then show "keeps s (snd (adminEdit env u i d s))"
    unfolding adminEdit_def adminEdit_from_def Let_def by (intro keeping; simp)
  have "keeps s (anonymize_tx env j s)" for j
    by (auto simp: anonymize_tx_def keeps_def vp_write_def)
  then show "keeps s (snd (anonymize env u i r s))"
    unfolding anonymize_def anonymize_from_def under_hold_def Let_def by (intro keeping; simp)
qed

lemmas all_keeps = review_keeps work_keeps reject_note_keeps case_keeps creator_keeps create_keeps remove_keeps staff_keeps

fun bank_op :: "victim_op \<Rightarrow> bool" where
  "bank_op (VMoney _ _ (VBank _)) = True"
| "bank_op (VMoney _ _ (VVerifyBank _)) = True"
| "bank_op _ = False"

lemma step_keeps: "\<not> bank_op op \<Longrightarrow> keeps s (vexec env op s)"
proof (cases op)
  case (VReview u i a) then show ?thesis by (cases a) (simp_all add: all_keeps)
next
  case (VWork u i a) then show ?thesis by (cases a) (simp_all add: all_keeps)
next
  case (VCase u i a) then show ?thesis by (cases a) (simp_all add: all_keeps)
next
  case (VCreator u i a) then show ?thesis by (cases a) (simp_all add: all_keeps)
next
  case (VStaff u i a) then show ?thesis by (cases a) (simp_all add: all_keeps)
qed (auto simp: all_keeps elim: bank_op.elims split: money_action.splits)


abbreviation edit_action :: jstring where
  "edit_action \<equiv> ''VICTIM_PROFILE_BANK_DETAILS_UPDATED''"

definition four_eyes :: "victim_state \<Rightarrow> bool" where
  "four_eyes s \<longleftrightarrow> distinct (map de_id (vs_destinations s)) \<and>
     list_all (\<lambda>d. de_isVerified d \<longrightarrow>
       de_verifiedById d \<noteq> None \<and> de_verifiedById d \<noteq> last_actor edit_action (de_victimProfileId d) s) (vs_destinations s)"

lemma find_where_filter: "(\<And>x. P x \<Longrightarrow> Q x) \<Longrightarrow> find_where P (filter Q xs) = find_where P xs"
  by (induction xs) auto

lemma matches_edit: "audit_matches edit_action i e \<Longrightarrow> is_edit e"
  by (cases e) auto

lemma last_editor: "last_actor edit_action i s =
    (case find_where (audit_matches edit_action i) (rev (filter is_edit (vs_log s))) of
       None \<Rightarrow> None | Some e \<Rightarrow> audit_user e)"
proof -
  have "find_where (audit_matches edit_action i) (filter is_edit xs) = find_where (audit_matches edit_action i) xs" for xs
    by (rule find_where_filter) (rule matches_edit)
  then show ?thesis by (simp add: last_actor_def rev_filter)
qed

lemma last_editor_keeps: "keeps s t \<Longrightarrow> last_actor edit_action i t = last_actor edit_action i s"
  by (simp add: last_editor keeps_def)

lemma last_actor_destinations [simp]: "last_actor a i (s\<lparr>vs_destinations := ds\<rparr>) = last_actor a i s"
  by (simp add: last_actor_def)

lemma last_editor_emit:
  "last_actor edit_action i (vp_emit e s) =
     (if audit_matches edit_action i e then audit_user e else last_actor edit_action i s)"
  by (simp add: last_actor_def vp_emit_def)

lemma four_eyes_keeps:
  assumes "four_eyes s" "keeps s t"
  shows "four_eyes t"
proof -
  from assms(2) obtain P where "vs_destinations t = filter P (vs_destinations s)" by (auto simp: keeps_def)
  with assms(1) show ?thesis
    by (simp add: four_eyes_def list_all_iff distinct_map_filter last_editor_keeps [OF assms(2)])
qed

lemma verified_four_eyes:
  assumes "four_eyes s" "find_destination i s = Some d" "last_actor edit_action i s \<noteq> Some u"
  shows "four_eyes (s\<lparr>vs_destinations := update_where (verify_where d)
      (\<lambda>e. e\<lparr>de_isVerified := True, de_verifiedById := Some u, de_verifiedAt := x, de_updatedAt := y\<rparr>) (vs_destinations s)\<rparr>)"
    (is "four_eyes (s\<lparr>vs_destinations := update_where _ ?f _\<rparr>)")
proof -
  from assms(2) have d: "d \<in> set (vs_destinations s)" "de_victimProfileId d = i"
    by (auto simp: find_destination_def dest: find_where_SomeD)
  have same: "de_victimProfileId e = i" if "e \<in> set (vs_destinations s)" "verify_where d e" for e
  proof -
    from that d(1) assms(1) have "e = d"
      by (simp add: four_eyes_def verify_where_def distinct_map inj_on_def)
    with d(2) show ?thesis by simp
  qed
  have ids: "map de_id (update_where (verify_where d) ?f (vs_destinations s)) = map de_id (vs_destinations s)"
    by (rule map_update_where) simp
  have row: "de_verifiedById e \<noteq> None \<and> de_verifiedById e \<noteq> last_actor edit_action (de_victimProfileId e) s"
    if "e \<in> set (update_where (verify_where d) ?f (vs_destinations s))" "de_isVerified e" for e
  proof -
    from that(1) obtain r where r: "r \<in> set (vs_destinations s)" "e = (if verify_where d r then ?f r else r)"
      by (auto simp: in_update_where)
    show ?thesis
    proof (cases "verify_where d r")
      case True
      with r same [OF r(1)] assms(3) show ?thesis by simp
    next
      case False
      with r that(2) assms(1) show ?thesis by (simp add: four_eyes_def list_all_iff)
    qed
  qed
  with assms(1) ids show ?thesis
    by (simp add: four_eyes_def list_all_iff)
qed

lemma four_eyes_emit: "\<not> is_edit e \<Longrightarrow> four_eyes s \<Longrightarrow> four_eyes (vp_emit e s)"
  by (erule four_eyes_keeps) simp

lemma verify_four_eyes:
  assumes "four_eyes s"
  shows "four_eyes (snd (verifyBankDetails env u i n s))"
proof (cases "find_vprofile i s")
  case (Some p)
  then have pid: "vp_id p = i" by (auto simp: find_vprofile_def dest: find_where_SomeD)
  have "four_eyes (snd (verifyBankDetails_from env u p d n s))" if "find_destination i s = Some d" for d
    using verified_four_eyes [OF assms that] assms pid
    by (simp add: verifyBankDetails_from_def Let_def four_eyes_emit)
  with Some assms show ?thesis
    by (simp add: verifyBankDetails_def getProfileOr404_def assertAdminCanAccessProfile_def four_eyes_emit split: option.splits)
qed (simp add: verifyBankDetails_def getProfileOr404_def assms)


lemma upserted:
  assumes "upsert_destination env i data b s = (Inr (), t)"
  shows "vs_log t = vs_log s"
    "d \<in> set (vs_destinations t) \<Longrightarrow>
       de_victimProfileId d = i \<and> \<not> de_isVerified d \<or> d \<in> set (vs_destinations s) \<and> de_victimProfileId d \<noteq> i"
    "distinct (map de_id (vs_destinations s)) \<Longrightarrow> distinct (map de_id (vs_destinations t))"
proof -
  have "vs_log t = vs_log s \<and> (\<forall>d \<in> set (vs_destinations t).
       de_victimProfileId d = i \<and> \<not> de_isVerified d \<or> d \<in> set (vs_destinations s) \<and> de_victimProfileId d \<noteq> i) \<and>
     (distinct (map de_id (vs_destinations s)) \<longrightarrow> distinct (map de_id (vs_destinations t)))"
  proof (cases "find_destination i s")
    case (Some x)
    let ?f = "set_destination env i data b"
    have ids: "map de_id (update_where P ?f ds) = map de_id ds" for P ds
      by (rule map_update_where) (simp add: set_destination_def)
    have t: "t = s\<lparr>vs_destinations := update_where (\<lambda>d. de_victimProfileId d = i) ?f (vs_destinations s)\<rparr>"
      using Some assms by (simp add: upsert_destination_def)
    have "de_victimProfileId d = i \<and> \<not> de_isVerified d \<or> d \<in> set (vs_destinations s) \<and> de_victimProfileId d \<noteq> i"
      if d: "d \<in> set (vs_destinations t)" for d
    proof -
      from d obtain r where r: "r \<in> set (vs_destinations s)" "d = (if de_victimProfileId r = i then ?f r else r)"
        by (auto simp: t in_update_where)
      then show ?thesis by (cases "de_victimProfileId r = i") (simp_all add: set_destination_def)
    qed
    then show ?thesis by (simp add: t ids)
  next
    case None
    with assms have "t = s\<lparr>vs_destinations := vs_destinations s @ [new_destination env i data b s], vs_created := vs_created s + 1\<rparr>"
      "ve_newId env (vs_created s) \<notin> de_id ` set (vs_destinations s)"
      by (auto simp: upsert_destination_def find_where_None_iff split: if_splits)
    moreover from None have "\<forall>d \<in> set (vs_destinations s). de_victimProfileId d \<noteq> i"
      by (simp add: find_destination_def find_where_None_iff)
    ultimately show ?thesis by (auto simp: new_destination_def)
  qed
  then show "vs_log t = vs_log s"
    "d \<in> set (vs_destinations t) \<Longrightarrow>
       de_victimProfileId d = i \<and> \<not> de_isVerified d \<or> d \<in> set (vs_destinations s) \<and> de_victimProfileId d \<noteq> i"
    "distinct (map de_id (vs_destinations s)) \<Longrightarrow> distinct (map de_id (vs_destinations t))" by blast+
qed

lemma edited_four_eyes:
  assumes "four_eyes s" "upsert_destination env i data b s = (Inr (), t)" "audit_matches edit_action i e"
    "\<And>j. j \<noteq> i \<Longrightarrow> \<not> audit_matches edit_action j e"
  shows "four_eyes (vp_emit e (invalidate p t))"
proof -
  have log: "last_actor edit_action j (invalidate p t) = last_actor edit_action j s" for j
    using upserted(1) [OF assms(2)] by (simp add: last_actor_def invalidate_def vp_emit_def)
  have "de_verifiedById d \<noteq> None \<and> de_verifiedById d \<noteq> last_actor edit_action (de_victimProfileId d) (vp_emit e (invalidate p t))"
    if "d \<in> set (vs_destinations t)" "de_isVerified d" for d
    using upserted(2) [OF assms(2) that(1)] that(2) assms(1,4)
    by (auto simp: last_editor_emit log four_eyes_def list_all_iff)
  moreover have "vs_destinations (vp_emit e (invalidate p t)) = vs_destinations t"
    by (simp add: vp_emit_def invalidate_def)
  ultimately show ?thesis using upserted(3) [OF assms(2)] assms(1) by (simp add: four_eyes_def list_all_iff)
qed

lemma bank_four_eyes:
  assumes "four_eyes s"
  shows "four_eyes (snd (updateBankDetails env u i data s))"
proof -
  have ok: "four_eyes (snd (res_bind (conditionalUpdate now u a p f s) (\<lambda>x s1. res_bind (upsert_destination env i data b s1)
      (\<lambda>_ s2. (Inr x, vp_emit (notify_creator ev p ex) (vp_emit (auditSuccess u edit_action p sev r df m) (invalidate p s2)))))))"
    if pid: "vp_id p = i" for now a p f b ev ex sev r df m
  proof -
    have up: "four_eyes (snd (res_bind (upsert_destination env i data b t)
       (\<lambda>_ s2. (Inr x, vp_emit (notify_creator ev p ex) (vp_emit (auditSuccess u edit_action p sev r df m) (invalidate p s2))))))"
      if t: "four_eyes t" for x t
    proof -
      obtain y t1 where up: "upsert_destination env i data b t = (y, t1)" by fastforce
      show ?thesis
      proof (cases y)
        case (Inl z)
        with up have "t1 = t" by (auto simp: upsert_destination_def split: option.splits if_splits)
        with Inl up t show ?thesis by (simp add: res_bind_def)
      next
        case (Inr z)
        have "audit_matches edit_action j (auditSuccess u edit_action p sev r df m) \<longleftrightarrow> j = i" for j
          using pid by (auto simp: auditSuccess_def vp_audit_def audit_base_def)
        with edited_four_eyes [OF t, of env i data b t1 "auditSuccess u edit_action p sev r df m"] up Inr
        have "four_eyes (vp_emit (auditSuccess u edit_action p sev r df m) (invalidate p t1))" by simp
        with up Inr show ?thesis by (simp add: res_bind_def four_eyes_emit)
      qed
    qed
    obtain y t where c: "conditionalUpdate now u a p f s = (y, t)" by fastforce
    then have "four_eyes t" using four_eyes_keeps [OF assms keeps_conditional [of s now u a p f]] by simp
    with up c show ?thesis by (auto simp: res_bind_def split: sum.splits)
  qed
  show ?thesis
  proof (cases "find_vprofile i s")
    case (Some p)
    then have pid: "vp_id p = i" by (auto simp: find_vprofile_def dest: find_where_SomeD)
    with Some assms ok [OF pid] show ?thesis
      by (simp add: updateBankDetails_def getProfileOr404_def updateBankDetails_from_def assertAdminCanAccessProfile_def Let_def
          four_eyes_emit split: sum.splits option.splits)
  qed (simp add: updateBankDetails_def getProfileOr404_def assms)
qed

lemma four_eyes_step: "four_eyes s \<Longrightarrow> four_eyes (vexec env op s)"
proof (cases "bank_op op")
  case True
  assume s: "four_eyes s"
  from True s show ?thesis
    by (cases op rule: bank_op.cases) (simp_all add: bank_four_eyes verify_four_eyes)
next
  case False
  assume "four_eyes s"
  then show ?thesis using four_eyes_keeps step_keeps [OF False] by blast
qed

interpretation four_eyes: invariant_system "\<lambda>s t. \<exists>env op. t = vexec env op s" four_eyes
  by unfold_locales (auto intro: four_eyes_step)


end
