(* ===== verification/Victim_Cases.thy ===== *)
theory Victim_Cases
  imports Victim_Money Payment_Properties
begin

text \<open>
  Victim profiles at concrete inputs, the failure behaviour of the version checks and of flag
  resolution, and the places where the code lets a profile slip past its own rules.
\<close>

section \<open>Stale readers\<close>

lemma conditional_stale:
  assumes "count_where (same_version p) (vs_profiles s) = 0"
  shows "conditionalUpdate now u a p f s =
    (Inl (BadRequest ''victim_profile_transition_conflict''), vp_emit (transition_conflict u a p) s)"
  using assms by (simp add: conditionalUpdate_def)

lemma vp_emit_profiles [simp]: "vs_profiles (vp_emit e s) = vs_profiles s"
  by (simp add: vp_emit_def)

text \<open>
  An operation whose view of the profile is stale, because another call wrote the row since it
  was read, changes no profile, whatever its input.
\<close>

theorem stale_profile_writes_refused:
  assumes "count_where (same_version p) (vs_profiles s) = 0"
  shows "vs_profiles (snd (updateGates_from env u p gates s)) = vs_profiles s \<and>
    vs_profiles (snd (publishProfile_from env u p s)) = vs_profiles s \<and>
    vs_profiles (snd (updateChildSafetyReview_from env u p b note s)) = vs_profiles s \<and>
    vs_profiles (snd (revokeConsent_from env u p reason s)) = vs_profiles s \<and>
    vs_profiles (snd (takedownProfile_from env u p r s)) = vs_profiles s \<and>
    vs_profiles (snd (liftTakedown_from env u p r s)) = vs_profiles s \<and>
    vs_profiles (snd (rejectProfile_from env u p s)) = vs_profiles s \<and>
    vs_profiles (snd (completeProfile_from env u p note s)) = vs_profiles s \<and>
    vs_profiles (snd (reopenProfile_from env u p r s)) = vs_profiles s \<and>
    vs_profiles (snd (updateBankDetails_from env u p bank s)) = vs_profiles s \<and>
    vs_destinations (snd (updateBankDetails_from env u p bank s)) = vs_destinations s \<and>
    vs_profiles (snd (updateProfile_from env u p dto s)) = vs_profiles s \<and>
    vs_profiles (snd (removeProfile_from env u p s)) = vs_profiles s \<and>
    vs_profiles (snd (softDelete_from env u p r s)) = vs_profiles s"
proof -
  note stale = conditional_stale [OF assms] res_bind_def assertAdminCanAccessProfile_def Let_def
  have "vs_profiles (snd (updateGates_from env u p gates s)) = vs_profiles s"
    "vs_profiles (snd (publishProfile_from env u p s)) = vs_profiles s"
    "vs_profiles (snd (revokeConsent_from env u p reason s)) = vs_profiles s"
    "vs_profiles (snd (takedownProfile_from env u p r s)) = vs_profiles s"
    "vs_profiles (snd (liftTakedown_from env u p r s)) = vs_profiles s"
    "vs_profiles (snd (rejectProfile_from env u p s)) = vs_profiles s"
    "vs_profiles (snd (completeProfile_from env u p note s)) = vs_profiles s"
    "vs_profiles (snd (reopenProfile_from env u p r s)) = vs_profiles s"
    by (simp_all add: updateGates_from_def publishProfile_from_def revokeConsent_from_def takedownProfile_from_def
        liftTakedown_from_def rejectProfile_from_def completeProfile_from_def reopenProfile_from_def stale)
  moreover have "vs_profiles (snd (updateChildSafetyReview_from env u p b note s)) = vs_profiles s"
    by (simp add: updateChildSafetyReview_from_def confirm_first_def confirm_second_def reverse_review_def stale)
  moreover have "vs_profiles (snd (updateBankDetails_from env u p bank s)) = vs_profiles s"
    "vs_destinations (snd (updateBankDetails_from env u p bank s)) = vs_destinations s"
    by (simp_all add: updateBankDetails_from_def stale vp_emit_def split: sum.splits option.splits)
  moreover have "vs_profiles (snd (updateProfile_from env u p dto s)) = vs_profiles s"
    by (simp add: updateProfile_from_def edit_profile_def overflow_def assms stale split: sum.splits option.splits)
  moreover have "vs_profiles (snd (removeProfile_from env u p s)) = vs_profiles s"
    "vs_profiles (snd (softDelete_from env u p r s)) = vs_profiles s"
    by (simp_all add: removeProfile_from_def softDelete_from_def under_hold_def assms stale)
  ultimately show ?thesis by simp
qed

section \<open>Flags\<close>

text \<open>Open flags carry no resolution.\<close>

definition flags_ok :: "victim_state \<Rightarrow> bool" where
  "flags_ok s \<longleftrightarrow> distinct (map vf_id (vs_flags s)) \<and> list_all (\<lambda>f. vf_status f = VF_OPEN \<longrightarrow>
     vf_resolution f = None \<and> vf_resolvedById f = None \<and> vf_resolvedAt f = None \<and> vf_note f = None) (vs_flags s)"

lemma conditional_fails:
  assumes "conditionalUpdate now u a p f s = (Inl e, t)" "\<And>q. vp_id (f q) = vp_id q"
  shows "vs_profiles t = vs_profiles s \<and> vs_flags t = vs_flags s"
proof (cases "count_where (same_version p) (vs_profiles s) = 0")
  case False
  then obtain q where q: "q \<in> set (vs_profiles s)" "same_version p q"
    by (auto simp: count_where_0_iff)
  have "find_vprofile (vp_id p) (vp_write now (same_version p) f s) \<noteq> None"
  proof -
    have "(f q)\<lparr>vp_updatedAt := now\<rparr> \<in> set (vs_profiles (vp_write now (same_version p) f s))"
      using q by (auto simp: vp_write_def in_update_where)
    moreover have "vp_id ((f q)\<lparr>vp_updatedAt := now\<rparr>) = vp_id p"
      using q(2) by (simp add: assms(2) same_version_def)
    ultimately show ?thesis unfolding find_vprofile_def find_where_None_iff by blast
  qed
  with False assms(1) show ?thesis by (auto simp: conditionalUpdate_def Let_def split: option.splits)
qed (use assms(1) in \<open>auto simp: conditionalUpdate_def vp_emit_def\<close>)


lemma put_back_taken:
  assumes "flags_ok s" "count_where (flag_open i) (vs_flags s) \<noteq> 0"
  shows "update_where (\<lambda>f. vf_id f = i) put_flag_back
     (update_where (flag_open i) (take_flag env u res r) (vs_flags s)) = vs_flags s"
proof -
  from assms(2) obtain x where x: "x \<in> set (vs_flags s)" "vf_id x = i" "vf_status x = VF_OPEN"
    by (auto simp: count_where_0_iff flag_open_def claimable_def)
  have "vf_status f = VF_OPEN" if "f \<in> set (vs_flags s)" "vf_id f = i" for f
    using that x assms(1) by (auto simp: flags_ok_def distinct_map inj_on_def)
  moreover have "put_flag_back (take_flag env u res r f) = f" if "f \<in> set (vs_flags s)" "vf_status f = VF_OPEN" for f
    using that assms(1) by (simp add: flags_ok_def list_all_iff put_flag_back_def take_flag_def)
  ultimately show ?thesis
    by (auto simp: update_where_def flag_open_def claimable_def take_flag_def intro!: map_idI)
qed

lemma flag_action_fails:
  assumes "flag_action env u p res r s = (Inl e, t)"
  shows "vs_profiles t = vs_profiles s \<and> vs_flags t = vs_flags s"
proof -
  have un: "vs_profiles y = vs_profiles s \<and> vs_flags y = vs_flags s" if "unpublishProfile env u i s = (Inl x, y)" for i x y
  proof (cases "find_vprofile i s")
    case (Some q)
    show ?thesis
    proof (cases "conditionalUpdate (ve_now env) u ''VICTIM_PROFILE_UNPUBLISHED'' q (\<lambda>q. q\<lparr>vp_status := VP_UNPUBLISHED, vp_isPublished := False\<rparr>) s")
      case (Pair a b)
      with Some that conditional_fails [of "ve_now env" u _ q "\<lambda>q. q\<lparr>vp_status := VP_UNPUBLISHED, vp_isPublished := False\<rparr>" s]
      show ?thesis
        by (auto simp: unpublishProfile_def unpublishProfile_from_def getProfileOr404_def assertAdminCanAccessProfile_def
            Let_def res_bind_def vp_emit_def split: if_splits sum.splits)
    qed
  qed (use that in \<open>simp add: unpublishProfile_def getProfileOr404_def\<close>)
  have pa: "vs_profiles y = vs_profiles s \<and> vs_flags y = vs_flags s" if "pauseDonations env u i r s = (Inl x, y)" for i x y
  proof (cases "find_vprofile i s")
    case (Some q)
    let ?f = "\<lambda>q. q\<lparr>vp_donationsPaused := True, vp_donationsPausedReason := Some r, vp_donationsPausedAt := Some (ve_now env)\<rparr>"
    show ?thesis
    proof (cases "conditionalUpdate (ve_now env) u ''VICTIM_PROFILE_DONATIONS_PAUSED'' q ?f s")
      case (Pair a b)
      with Some that conditional_fails [of "ve_now env" u _ q ?f s]
      show ?thesis
        by (auto simp: pauseDonations_def pauseDonations_from_def getProfileOr404_def
            Let_def res_bind_def split: if_splits sum.splits)
    qed
  qed (use that in \<open>simp add: pauseDonations_def getProfileOr404_def\<close>)
  from assms show ?thesis
    by (auto simp: flag_action_def res_bind_def un pa split: if_splits prod.splits sum.splits)
qed


interpretation flag_rows: guarded_table vf_id vf_status "[VF_OPEN]" "take_flag env u res r" for env u res r
  by unfold_locales (simp_all add: take_flag_def)

lemma flag_action_flags: "flag_action env u p res r s = (x, t) \<Longrightarrow> vs_flags t = vs_flags s"
  by (auto simp: flag_action_def unpublishProfile_def unpublishProfile_from_def pauseDonations_def pauseDonations_from_def
      getProfileOr404_def assertAdminCanAccessProfile_def conditionalUpdate_def vp_write_def vp_emit_def invalidate_def
      Let_def res_bind_def split: option.splits if_splits)

lemma flag_action_done:
  assumes "vkeys s" "find_vprofile i s = Some p" "flag_action env u p res r s = (Inr x, t)"
  shows "\<forall>q \<in> set (vs_profiles t). vp_id q = i \<longrightarrow>
     (res = FR_UNPUBLISH \<longrightarrow> \<not> vp_isPublished q) \<and> (res = FR_PAUSE_DONATIONS \<longrightarrow> vp_donationsPaused q)"
proof -
  have i: "vp_id p = i" using assms(2) by (auto simp: find_vprofile_def dest: find_where_SomeD)
  have one: "q = p" if "q \<in> set (vs_profiles s)" "vp_id q = i" for q
    using find_row [OF assms(1) that(1)] assms(2) that(2) by simp
  have self: "find_vprofile (vp_id p) s = Some p" using assms(2) i by simp
  consider "res = FR_UNPUBLISH \<and> vp_isPublished p" | "res = FR_PAUSE_DONATIONS \<and> \<not> vp_donationsPaused p"
    | "res = FR_UNPUBLISH \<and> \<not> vp_isPublished p" | "res = FR_PAUSE_DONATIONS \<and> vp_donationsPaused p" | "res = FR_DISMISS"
    by (cases res) blast+
  then show ?thesis
  proof cases
    case 1
    let ?f = "\<lambda>q. q\<lparr>vp_status := VP_UNPUBLISHED, vp_isPublished := False\<rparr>"
    from 1 assms(3) self obtain y z where c: "conditionalUpdate (ve_now env) u ''VICTIM_PROFILE_UNPUBLISHED'' p ?f s = (Inr y, z)"
      "vs_profiles t = vs_profiles z"
      by (auto simp: flag_action_def unpublishProfile_def unpublishProfile_from_def getProfileOr404_def
          assertAdminCanAccessProfile_def Let_def res_bind_def invalidate_def split: if_splits prod.splits sum.splits)
    have "\<not> vp_isPublished q" if "q \<in> set (vs_profiles t)" "vp_id q = i" for q
      using conditional_done(2) [OF assms(1) self _ c(1), of q] that i by (simp add: c(2))
    with 1 show ?thesis by auto
  next
    case 2
    let ?f = "\<lambda>q. q\<lparr>vp_donationsPaused := True, vp_donationsPausedReason := Some r, vp_donationsPausedAt := Some (ve_now env)\<rparr>"
    from 2 assms(3) self obtain y z where c: "conditionalUpdate (ve_now env) u ''VICTIM_PROFILE_DONATIONS_PAUSED'' p ?f s = (Inr y, z)"
      "vs_profiles t = vs_profiles z"
      by (auto simp: flag_action_def pauseDonations_def pauseDonations_from_def getProfileOr404_def
          Let_def res_bind_def invalidate_def split: if_splits prod.splits sum.splits)
    have " vp_donationsPaused q" if "q \<in> set (vs_profiles t)" "vp_id q = i" for q
      using conditional_done(2) [OF assms(1) self _ c(1), of q] that i by (simp add: c(2))
    with 2 show ?thesis by auto
  qed (use assms(3) one in \<open>auto simp: flag_action_def\<close>)
qed

text \<open>
  C16. Resolving a flag is all or nothing: on any failure the flags and the profiles are as before, on
  success the flag is closed with its resolution and the profile is unpublished or its donations
  paused as asked.
\<close>

theorem resolve_flag_all_or_nothing:
  assumes "vkeys s" "flags_ok s"
  shows "case resolveFlag env u i res r s of
      (Inl e, t) \<Rightarrow> vs_flags t = vs_flags s \<and> vs_profiles t = vs_profiles s
    | (Inr f, t) \<Rightarrow> f \<in> set (vs_flags t) \<and> vf_status f \<noteq> VF_OPEN \<and> vf_resolution f = Some res \<and>
        list_all (\<lambda>q. vp_id q = vf_profileId f \<longrightarrow> (res = FR_UNPUBLISH \<longrightarrow> \<not> vp_isPublished q) \<and>
          (res = FR_PAUSE_DONATIONS \<longrightarrow> vp_donationsPaused q)) (vs_profiles t)"
proof (cases "find_vflag i s")
  case (Some x)
  then have x: "vf_id x = i" "x \<in> set (vs_flags s)" by (auto simp: find_vflag_def dest: find_where_SomeD)
  show ?thesis
  proof (cases "vf_status x = VF_OPEN \<and> find_vprofile (vf_profileId x) s \<noteq> None")
    case True
    then obtain p where p: "find_vprofile (vf_profileId x) s = Some p" by blast
    let ?s1 = "s\<lparr>vs_flags := update_where (flag_open i) (take_flag env u res r) (vs_flags s)\<rparr>"
    have open_x: "count_where (flag_open i) (vs_flags s) \<noteq> 0"
      using True x by (auto simp: count_where_0_iff flag_open_def claimable_def)
    obtain y t where act: "flag_action env u p res r ?s1 = (y, t)" by fastforce
    have flags: "vs_flags t = vs_flags ?s1" using flag_action_flags [OF act] .
    show ?thesis
    proof (cases y)
      case (Inl e)
      with flag_action_fails [OF act [unfolded Inl]] put_back_taken [OF assms(2) open_x] Some True p x open_x act show ?thesis
        by (simp add: resolveFlag_def getProfileOr404_def resolveFlag_from_def Let_def)
    next
      case (Inr z)
      have "distinct (map vf_id (vs_flags s))" using assms(2) by (simp add: flags_ok_def)
      from flag_rows.claim_won [OF this open_x [unfolded flag_open_def], of env u res r] Some x
      obtain g where g: "claimable vf_id vf_status [VF_OPEN] i g" "g \<in> set (vs_flags s)"
        "find_where (\<lambda>q. vf_id q = i) (vs_flags t) = Some (take_flag env u res r g)"
        unfolding flags flag_open_def by auto
      have "g = x" using g(1,2) x assms(2) by (auto simp: claimable_def flags_ok_def distinct_map inj_on_def)
      have mem: "take_flag env u res r x \<in> set (vs_flags t)" using find_where_SomeD [OF g(3)] \<open>g = x\<close> by simp
      have keys: "vkeys ?s1" using assms(1) by (simp add: vkeys_def)
      have "find_vprofile (vf_profileId x) ?s1 = Some p" using p by (simp add: find_vprofile_def)
      from flag_action_done [OF keys this act [unfolded Inr]] mem g(3) \<open>g = x\<close> Some True p x open_x act Inr show ?thesis
        by (simp add: resolveFlag_def getProfileOr404_def resolveFlag_from_def Let_def find_vflag_def vp_emit_def
            take_flag_def list_all_iff)
    qed
  next
    case False
    with Some show ?thesis by (auto simp: resolveFlag_def getProfileOr404_def split: option.splits)
  qed
qed (simp add: resolveFlag_def)


section \<open>Concrete inputs\<close>

definition vdemo_profile :: vprofile where
  "vdemo_profile = \<lparr>vp_id = ''v1'', vp_name = Some ''Name'', vp_description = None, vp_story = None, 
     vp_supportGoal = None, vp_media = no_media, vp_involvesChild = True, vp_status = VP_UNDER_REVIEW, 
     vp_isVerified = True, vp_isSafetyReviewed = True, vp_hasConsent = True, vp_consentAt = None, 
     vp_consentRecordedBy = None, vp_isPrivacyReviewed = True, vp_isAdminApproved = False, 
     vp_isPublished = False, vp_createdAt = 0, vp_updatedAt = 0, vp_isChildSafetyReviewed = False, 
     vp_createdByUserId = Some ''u1'', vp_idempotencyKey = None, vp_mediaTotalBytes = 0, 
     vp_claimedByUserId = None, vp_claimedAt = None, vp_firstConfirmedBy = None, 
     vp_firstConfirmedAt = None, vp_totalRaised = 0, vp_reviewNote = None, vp_reviewNoteAt = None, 
     vp_creatorSeenAt = None, vp_assignedReviewerId = None, vp_assignedAt = None, vp_completedAt = None, 
     vp_completionNote = None, vp_isFeatured = False, vp_featuredAt = None, vp_fundingEndsAt = None, 
     vp_donationsPaused = False, vp_donationsPausedReason = None, vp_donationsPausedAt = None, 
     vp_takedownReason = None, vp_takedownAt = None, vp_takedownById = None, vp_deletedAt = None, 
     vp_deletedById = None, vp_deleteReason = None, vp_legalHold = False, vp_legalHoldReason = None, 
     vp_legalHoldAt = None, vp_legalHoldById = None, vp_anonymizedAt = None, vp_consentedBy = None, 
     vp_consentNotes = None, vp_consentDocuments = [], vp_childFlagValue = None, vp_childFlagById = None, 
     vp_childFlagAt = None, vp_childFlagReason = None, vp_payoutsPaused = False\<rparr>"

definition vdemo_env :: victim_env where
  "vdemo_env = \<lparr>me_maxFileSize = 100, me_allowedMime = [''image/png''], me_maxPhotos = 5, me_maxVideos = 1, me_maxOther = 5,
     me_maxTotalBytes = 1000, me_exists = (\<lambda>_. True), me_stat = (\<lambda>_. None), ve_now = 10, ve_maxAppeals = 2,
     ve_maxUpdatesPerDay = 3, ve_banks = Inr [\<lparr>bk_id = ''946'', bk_name = ''CBE'', bk_isMobileMoney = False\<rparr>],
     ve_newId = (\<lambda>n. ''row-'' @ show_nat n)\<rparr>"

definition vdemo_admin :: "jstring \<Rightarrow> current_user" where
  "vdemo_admin i = \<lparr>cu_id = i, cu_roles = [''ADMIN'']\<rparr>"

definition vdemo_payment :: payment where
  "vdemo_payment = \<lparr>p_id = ''p1'', p_status = PAY_PAID, p_victimProfileId = ''v1'', p_payerUserId = Some ''u2'', p_isAnonymous = False,
     p_amount = 100, p_currency = ''ETB'', p_txRef = ''t1'', p_chapaReference = None, p_chapaFee = None, p_failureReason = None,
     p_paidAt = Some 1, p_createdAt = 1, p_updatedAt = 1\<rparr>"

definition vdemo_state :: victim_state where
  "vdemo_state = \<lparr>vs_profiles = [vdemo_profile], vs_destinations = [], vs_payments = [vdemo_payment], vs_disbursements = [],
     vs_flags = [], vs_appeals = [], vs_updates = [], vs_revisions = [], vs_readStates = [], vs_users = [],
     vs_created = 0, vs_log = []\<rparr>"

definition vdemo_bank :: bank_dto where
  "vdemo_bank = \<lparr>bd_accountNumber = ''1000'', bd_bankCode = ''946'', bd_accountHolderName = ''Mother'', bd_relationship = ''PARENT''\<rparr>"

definition vdemo_approve :: gates_dto where
  "vdemo_approve = \<lparr>gd_isVerified = None, gd_isSafetyReviewed = None, gd_hasConsent = None, gd_isPrivacyReviewed = None,
     gd_isAdminApproved = Some True\<rparr>"

text \<open>Two administrators confirm the child review, one sets the bank account, the other verifies it, then the
  profile is approved and published.\<close>

definition vdemo_ops :: "(victim_env \<times> victim_op) list" where
  "vdemo_ops = map (\<lambda>(n, op). (vdemo_env\<lparr>ve_now := n\<rparr>, op))
    [(10, VReview (vdemo_admin ''a1'') ''v1'' (VChildReview True None)),
     (20, VReview (vdemo_admin ''a2'') ''v1'' (VChildReview True None)),
     (30, VMoney (vdemo_admin ''a1'') ''v1'' (VBank vdemo_bank)),
     (40, VMoney (vdemo_admin ''a2'') ''v1'' (VVerifyBank None)),
     (50, VReview (vdemo_admin ''a1'') ''v1'' (VGates vdemo_approve)),
     (60, VReview (vdemo_admin ''a1'') ''v1'' VPublish)]"

definition vdemo_done :: victim_state where
  "vdemo_done = vrun vdemo_ops vdemo_state"

lemma vdemo_start: "vkeys vdemo_state" "unreviewed vdemo_state" "published_ok vdemo_state" "four_eyes vdemo_state"
  "flags_ok vdemo_state"
  by (simp_all add: vkeys_def unreviewed_def published_ok_def four_eyes_def flags_ok_def vdemo_state_def vdemo_profile_def)

lemma vdemo_published: "publicWhere (hd (vs_profiles vdemo_done)) \<and> vp_involvesChild (hd (vs_profiles vdemo_done)) \<and>
    vp_id (hd (vs_profiles vdemo_done)) = ''v1'' \<and> vs_profiles vdemo_done \<noteq> [] \<and> list_all (\<lambda>p. vp_id p = ''v1'') (vs_profiles vdemo_done)"
  by code_simp

lemma vdemo_hd: "hd (vs_profiles vdemo_done) \<in> set (vs_profiles (vrun vdemo_ops vdemo_state))"
  using vdemo_published unfolding vdemo_done_def by simp


theorem public_children_witness:
  "(\<exists>a \<in> set (confirmers vdemo_ops ''v1''). \<exists>b \<in> set (confirmers vdemo_ops ''v1''). a \<noteq> b) \<and>
   confirmers vdemo_ops ''v1'' = [''a1'', ''a2'']"
proof
  show "\<exists>a \<in> set (confirmers vdemo_ops ''v1''). \<exists>b \<in> set (confirmers vdemo_ops ''v1''). a \<noteq> b"
    using public_children_two_admins [OF vdemo_start(1,2) vdemo_hd] vdemo_published by metis
  show "confirmers vdemo_ops ''v1'' = [''a1'', ''a2'']" by code_simp
qed

definition vdemo_confirm :: victim_op where
  "vdemo_confirm = VReview (vdemo_admin ''a1'') ''v1'' (VChildReview True None)"

theorem operations_refine_witness:
  "amove (Confirming ''v1'' ''a1'') ''v1'' (abs_of vdemo_state vdemo_profile)
     (abs_of (vexec vdemo_env vdemo_confirm vdemo_state) (hd (vs_profiles (vexec vdemo_env vdemo_confirm vdemo_state))))"
proof -
  let ?t = "vexec vdemo_env vdemo_confirm vdemo_state"
  have ne: "vs_profiles ?t \<noteq> [] \<and> vp_id (hd (vs_profiles ?t)) = ''v1''" by code_simp
  then have "hd (vs_profiles ?t) \<in> set (vs_profiles ?t)" by simp
  from operations_refine_machine [OF vdemo_start(1) this] ne show ?thesis
    by (simp add: vdemo_confirm_def vdemo_admin_def) (simp add: vdemo_state_def)
qed

lemma vdemo_transfer: "case prepare_transfer demo_env ''v1'' (pay_view vdemo_done empty_pay) of
    (Inr (Prepared d snap), _) \<Rightarrow> d_amount d = 100 \<and> sn_accountNumber snap = ''1000'' | _ \<Rightarrow> False"
  by code_simp


theorem deletion_needs_delivered_money_witness:
  "b_waiting (getBalance ''v1'' (pay_view (vdemo_state\<lparr>vs_payments := []\<rparr>) empty_pay)) = 0 \<and>
   b_onTheWay (getBalance ''v1'' (pay_view (vdemo_state\<lparr>vs_payments := []\<rparr>) empty_pay)) \<le> 0"
proof (rule deletion_needs_delivered_money [of vdemo_env "vdemo_admin ''a1''"])
  have "fst (anonymize vdemo_env (vdemo_admin ''a1'') ''v1'' ''r'' ((snd (softDelete vdemo_env (vdemo_admin ''a1'') ''v1'' ''r'' (vdemo_state\<lparr>vs_payments := []\<rparr>))))) = Inr () \<and>
     fst (removeProfile vdemo_env (vdemo_admin ''a1'') ''v1'' (vdemo_state\<lparr>vs_payments := []\<rparr>)) = Inr ()" by code_simp
  then show "fst (removeProfile vdemo_env (vdemo_admin ''a1'') ''v1'' (vdemo_state\<lparr>vs_payments := []\<rparr>)) = Inr () \<or>
     fst (softDelete vdemo_env (vdemo_admin ''a1'') ''v1'' ''r'' (vdemo_state\<lparr>vs_payments := []\<rparr>)) = Inr vdemo_profile \<or>
     fst (anonymize vdemo_env (vdemo_admin ''a1'') ''v1'' ''r'' (vdemo_state\<lparr>vs_payments := []\<rparr>)) = Inr ()" by blast
qed


text \<open>An adult's approved profile with a verified account and nothing donated yet.\<close>

definition vdemo_adult :: victim_state where
  "vdemo_adult = vdemo_state\<lparr>vs_payments := [],
     vs_profiles := [vdemo_profile\<lparr>vp_involvesChild := False, vp_isAdminApproved := True, vp_status := VP_APPROVED\<rparr>],
     vs_destinations := [\<lparr>de_id = ''d1'', de_victimProfileId = ''v1'', de_bankName = ''CBE'', de_bankCode = ''946'',
       de_accountNumber = ''1000'', de_accountHolder = ''Name'', de_isVerified = True, de_verifiedById = Some ''a2'',
       de_verifiedAt = Some 1, de_updatedAt = 1\<rparr>]\<rparr>"

definition vdemo_after :: "(int \<times> victim_op) list \<Rightarrow> (victim_env \<times> victim_op) list" where
  "vdemo_after = map (\<lambda>(n, op). (vdemo_env\<lparr>ve_now := n\<rparr>, op))"

definition vdemo_revive :: "(victim_env \<times> victim_op) list" where
  "vdemo_revive = vdemo_after [(20, VReview (vdemo_admin ''a1'') ''v1'' (VGates vdemo_approve)),
     (30, VReview (vdemo_admin ''a1'') ''v1'' VPublish)]"

definition vdemo_down :: victim_op where
  "vdemo_down = VWork (vdemo_admin ''a1'') ''v1'' (VTakedown ''fraud'')"

text \<open>
  A profile taken down for fraud is public again after an administrator repeats the approval and
  publishes it, without the takedown being lifted; donations and transfers stay stopped.
\<close>

lemma taken_down_public_again:
  "let s = vrun vdemo_revive (vexec vdemo_env vdemo_down vdemo_adult); p = hd (vs_profiles s) in
     publicWhere p \<and> vp_takedownAt p \<noteq> None"
  by code_simp

theorem takedown_stops_money_witness:
  "\<exists>e. getDonatableProfile demo_env ''v1''
     (pay_view (vrun vdemo_revive (vexec vdemo_env vdemo_down vdemo_adult)) empty_pay) = Inl e"
proof -
  have keys: "vkeys vdemo_adult" by (simp add: vkeys_def vdemo_adult_def)
  have "case fst (takedownProfile vdemo_env (vdemo_admin ''a1'') ''v1'' ''fraud'' vdemo_adult) of Inl e \<Rightarrow> False | Inr p \<Rightarrow> True"
    by code_simp
  then obtain p where p: "fst (takedownProfile vdemo_env (vdemo_admin ''a1'') ''v1'' ''fraud'' vdemo_adult) = Inr p"
    by (auto split: sum.splits)
  have "list_all (\<lambda>(env, op). \<not> lifts op ''v1'' \<and> never_draws ''v1'' env) vdemo_revive"
    by (simp add: vdemo_revive_def vdemo_after_def never_draws_def vdemo_env_def image_iff)
  from takedown_stops_money [OF keys p this, of demo_env empty_pay] show ?thesis by (simp add: vdemo_down_def)
qed

text \<open>\<open>STATUS_TRANSITIONS\<close> gives a withdrawn profile no way on; setting its gates revives it.\<close>

lemma withdrawn_revived:
  "let s = vrun (vdemo_after [(20, VCreator (vdemo_admin ''u1'') ''v1'' VWithdraw)]) vdemo_adult;
       t = vrun vdemo_revive s in
     map vp_status (vs_profiles s) = [VP_WITHDRAWN] \<and> STATUS_TRANSITIONS VP_WITHDRAWN = [] \<and>
     map vp_status (vs_profiles t) = [VP_PUBLISHED]"
  by code_simp

text \<open>A third confirmation of a published child profile drops it from the public listing while it still counts as published.\<close>

lemma third_confirmation_hides:
  "let p = vdemo_profile\<lparr>vp_isAdminApproved := True, vp_isChildSafetyReviewed := True, vp_firstConfirmedBy := Some ''a1'',
         vp_status := VP_PUBLISHED, vp_isPublished := True\<rparr>;
       q = hd (vs_profiles (vexec vdemo_env (VReview (vdemo_admin ''a3'') ''v1'' (VChildReview True None))
         (vdemo_adult\<lparr>vs_profiles := [p]\<rparr>))) in
     publicWhere p \<and> vp_isPublished q \<and> \<not> publicWhere q"
  by code_simp

text \<open>A profile under legal hold can be removed for good, though not deleted softly.\<close>

lemma legal_hold_not_checked_on_removal:
  "let s = vdemo_adult\<lparr>vs_profiles := [vdemo_profile\<lparr>vp_legalHold := True\<rparr>]\<rparr> in
     fst (softDelete vdemo_env (vdemo_admin ''a1'') ''v1'' ''r'' s) = Inl (Forbidden ''victim_profile_under_legal_hold'') \<and>
     vs_profiles (snd (removeProfile vdemo_env (vdemo_admin ''a1'') ''v1'' s)) = []"
  by code_simp

text \<open>
  Once something was donated, removal fails on the foreign keys even when every birr was delivered:
  the error is not one the handler knows.
\<close>

definition vdemo_delivered :: disbursement where
  "vdemo_delivered = \<lparr>d_id = ''x1'', d_victimProfileId = ''v1'', d_status = DIS_PAID, d_amount = 100, d_currency = ''ETB'',
     d_reference = ''r1'', d_transferFee = None, d_failureReason = None, d_destinationSnapshot = None, d_submittedAt = Some 1,
     d_paidAt = Some 2, d_createdAt = 1, d_updatedAt = 2\<rparr>"

lemma delivered_profile_not_removable:
  "fst (removeProfile vdemo_env (vdemo_admin ''a1'') ''v1'' (vdemo_state\<lparr>vs_disbursements := [vdemo_delivered]\<rparr>)) = Inl DatabaseError"
  by code_simp

section \<open>Witnesses\<close>

theorem stale_profile_writes_refused_witness:
  "let p = vdemo_profile\<lparr>vp_updatedAt := 5\<rparr> in
     vs_profiles (snd (publishProfile_from vdemo_env (vdemo_admin ''a1'') p vdemo_adult)) = vs_profiles vdemo_adult"
  using stale_profile_writes_refused [of "vdemo_profile\<lparr>vp_updatedAt := 5\<rparr>" vdemo_adult vdemo_env "vdemo_admin ''a1''"]
  by (simp add: vdemo_adult_def same_version_def vdemo_profile_def)

definition vdemo_flag :: vflag where
  "vdemo_flag = \<lparr>vf_id = ''f1'', vf_profileId = ''v1'', vf_reporterId = ''u9'', vf_reason = ''SCAM'', vf_details = None,
     vf_status = VF_OPEN, vf_resolution = None, vf_resolvedById = None, vf_resolvedAt = None, vf_note = None, vf_createdAt = 1\<rparr>"

theorem resolve_flag_all_or_nothing_witness:
  "\<exists>f t. resolveFlag vdemo_env (vdemo_admin ''a1'') ''f1'' FR_PAUSE_DONATIONS ''checked'' (vdemo_adult\<lparr>vs_flags := [vdemo_flag]\<rparr>) = (Inr f, t) \<and>
     f \<in> set (vs_flags t) \<and> vf_status f \<noteq> VF_OPEN \<and> vf_resolution f = Some FR_PAUSE_DONATIONS"
proof -
  let ?s = "vdemo_adult\<lparr>vs_flags := [vdemo_flag]\<rparr>"
  let ?r = "resolveFlag vdemo_env (vdemo_admin ''a1'') ''f1'' FR_PAUSE_DONATIONS ''checked'' ?s"
  have "case fst ?r of Inl e \<Rightarrow> False | Inr f \<Rightarrow> True" by code_simp
  then obtain f t where r: "?r = (Inr f, t)" by (cases ?r) (auto split: sum.splits)
  have "vkeys ?s" "flags_ok ?s"
    by (simp_all add: vkeys_def flags_ok_def vdemo_adult_def vdemo_flag_def)
  from resolve_flag_all_or_nothing [where env = vdemo_env and u = "vdemo_admin ''a1''" and i = "''f1''"
      and res = FR_PAUSE_DONATIONS and r = "''checked''", OF this] r
  show ?thesis by auto
qed

end
