(* ===== verification/Missing_Data.thy ===== *)
theory Missing_Data
  imports Access Media
begin

text \<open>
  Missing-person cases: the rows of \<open>prisma/schema/missing-person.prisma\<close>, the status table of
  \<open>src/modules/core/missing-person/service/missing-person.constants.ts\<close> and the shared parts of
  \<open>missing-person-common.service.ts\<close>. Columns no service of the app reads or writes (weights, gender,
  the channel's phone) are left out.

  Most operations read the case first and write it later by its id alone, or guarded by its status.
  They are split: \<open>f_from\<close> takes the case as it was read, which another request may have made stale,
  and \<open>f\<close> reads it from the state it runs in.
\<close>

section \<open>Rows\<close>

datatype case_person = CP_WOMAN | CP_CHILD

datatype case_status = MC_PENDING | MC_UNDER_REVIEW | MC_APPROVED | MC_REJECTED | MC_FOUND
  | MC_MORE_INFORMATION_REQUESTED | MC_EXPIRED | MC_CANCELLED

record mcase =
  mi_id :: jstring
  mi_userId :: "jstring option"
  mi_personType :: case_person
  mi_name :: "jstring option"
  mi_description :: jstring
  mi_dateLastSeen :: int
  mi_lastKnownArea :: jstring
  mi_media :: media
  mi_status :: case_status
  mi_createdAt :: int
  mi_updatedAt :: int
  mi_reviewNote :: "jstring option"
  mi_idempotencyKey :: "jstring option"
  mi_mediaTotalBytes :: int
  mi_ownerSuspendedAt :: "int option"
  mi_claimedByUserId :: "jstring option"
  mi_claimedAt :: "int option"
  mi_firstConfirmedBy :: "jstring option" \<comment> \<open>\<open>childSafetyFirstConfirmedByUserId\<close>\<close>
  mi_firstConfirmedAt :: "int option"
  mi_closureReason :: "jstring option"
  mi_closedAt :: "int option"
  mi_assignedToUserId :: "jstring option"
  mi_assignedById :: "jstring option"
  mi_assignedAt :: "int option"
  mi_expiresAt :: "int option"
  mi_renewalCount :: nat
  mi_lastRenewedAt :: "int option"
  mi_foundReportedAt :: "int option"
  mi_foundReportDetails :: "jstring option"
  mi_foundReportDate :: "int option"
  mi_foundReportLocation :: "jstring option"
  mi_foundReportResolvedAt :: "int option"
  mi_foundReportConfirmed :: "bool option"
  mi_takedownReason :: "jstring option"
  mi_takedownAt :: "int option"
  mi_takedownById :: "jstring option"
  mi_takedownPreviousStatus :: "case_status option"
  mi_deletedAt :: "int option"
  mi_deletedById :: "jstring option"
  mi_deleteReason :: "jstring option"
  mi_deletedPreviousStatus :: "case_status option"
  mi_legalHold :: bool
  mi_legalHoldReason :: "jstring option"
  mi_legalHoldAt :: "int option"
  mi_legalHoldById :: "jstring option"
  mi_childFlagValue :: "bool option" \<comment> \<open>\<open>childFlagProposedValue\<close> and its companions\<close>
  mi_childFlagById :: "jstring option"
  mi_childFlagAt :: "int option"
  mi_childFlagReason :: "jstring option"
  mi_mergedIntoId :: "jstring option"
  mi_mergedAt :: "int option"
  mi_mergedById :: "jstring option"
  mi_copiedFromId :: "jstring option"
  mi_ownerLastSeenAt :: "int option"

datatype mflag_state = MF_OPEN | MF_RESOLVED

datatype mflag_action = MA_DISMISS | MA_HIDE_CASE | MA_WARN_OWNER

record mflag =
  mf_id :: jstring
  mf_caseId :: jstring
  mf_reporterId :: jstring
  mf_reason :: jstring
  mf_details :: "jstring option"
  mf_status :: mflag_state
  mf_resolvedAction :: "mflag_action option"
  mf_resolvedById :: "jstring option"
  mf_resolvedAt :: "int option"
  mf_resolutionNote :: "jstring option"
  mf_createdAt :: int

datatype mappeal_state = MP_PENDING | MP_ACCEPTED | MP_DECLINED

record mappeal =
  ma_id :: jstring
  ma_caseId :: jstring
  ma_authorId :: jstring
  ma_reason :: jstring
  ma_status :: mappeal_state
  ma_decidedById :: "jstring option"
  ma_decidedAt :: "int option"
  ma_decisionNote :: "jstring option"
  ma_createdAt :: int

record mupdate =
  mu_id :: jstring
  mu_caseId :: jstring
  mu_authorId :: jstring
  mu_isStaff :: bool \<comment> \<open>\<open>authorType\<close>\<close>
  mu_message :: jstring
  mu_photo :: "jstring list"
  mu_createdAt :: int

record mmessage =
  mm_id :: jstring
  mm_caseId :: jstring
  mm_authorId :: jstring
  mm_isWarning :: bool \<comment> \<open>\<open>kind\<close>\<close>
  mm_message :: jstring
  mm_createdAt :: int

record mrevision =
  mr_caseId :: jstring
  mr_field :: jstring
  mr_oldValue :: jval
  mr_newValue :: jval
  mr_changedById :: jstring
  mr_reason :: jstring

record mredaction =
  mx_id :: jstring
  mx_caseId :: jstring
  mx_mediaKey :: jstring
  mx_mode :: jstring
  mx_reason :: "jstring option"
  mx_requestedById :: jstring

record case_user =
  cx_id :: jstring
  cx_name :: "jstring option"
  cx_isActive :: bool
  cx_roles :: "jstring list"

record missing_state =
  ms_cases :: "mcase list"
  ms_tips :: "(jstring \<times> jstring) list" \<comment> \<open>information submissions: id and case\<close>
  ms_flags :: "mflag list"
  ms_appeals :: "mappeal list"
  ms_updates :: "mupdate list"
  ms_messages :: "mmessage list"
  ms_revisions :: "mrevision list"
  ms_redactions :: "mredaction list"
  ms_users :: "case_user list"
  ms_created :: nat \<comment> \<open>rows created so far, counts the draws of \<open>uuid()\<close>\<close>
  ms_log :: "effect list"

text \<open>Clock, generated ids and the configured limits; the durations are in milliseconds.\<close>

record missing_env = media_env +
  mn_now :: int
  mn_newId :: "nat \<Rightarrow> jstring"
  mn_cooldown :: int
  mn_maxPending :: nat
  mn_rejectionCount :: nat
  mn_rejectionWindowDays :: int
  mn_renewDays :: int

definition day_ms :: int where
  "day_ms = 24 * 60 * 60 * 1000"

section \<open>Statuses\<close>

definition TERMINAL_CASES :: "case_status list" where
  "TERMINAL_CASES = [MC_REJECTED, MC_FOUND, MC_EXPIRED, MC_CANCELLED]"

definition EDITABLE_CASES :: "case_status list" where
  "EDITABLE_CASES = [MC_PENDING, MC_MORE_INFORMATION_REQUESTED]"

fun ALLOWED_TRANSITIONS :: "case_status \<Rightarrow> case_status list" where
  "ALLOWED_TRANSITIONS MC_PENDING = [MC_UNDER_REVIEW, MC_CANCELLED, MC_EXPIRED]"
| "ALLOWED_TRANSITIONS MC_UNDER_REVIEW = [MC_MORE_INFORMATION_REQUESTED, MC_APPROVED, MC_REJECTED, MC_CANCELLED, MC_EXPIRED]"
| "ALLOWED_TRANSITIONS MC_MORE_INFORMATION_REQUESTED = [MC_CANCELLED, MC_EXPIRED]"
| "ALLOWED_TRANSITIONS MC_APPROVED = [MC_FOUND, MC_EXPIRED]"
| "ALLOWED_TRANSITIONS MC_REJECTED = []"
| "ALLOWED_TRANSITIONS MC_FOUND = []"
| "ALLOWED_TRANSITIONS MC_EXPIRED = []"
| "ALLOWED_TRANSITIONS MC_CANCELLED = []"

fun case_status_name :: "case_status \<Rightarrow> jstring" where
  "case_status_name MC_PENDING = ''PENDING''"
| "case_status_name MC_UNDER_REVIEW = ''UNDER_REVIEW''"
| "case_status_name MC_APPROVED = ''APPROVED''"
| "case_status_name MC_REJECTED = ''REJECTED''"
| "case_status_name MC_FOUND = ''FOUND''"
| "case_status_name MC_MORE_INFORMATION_REQUESTED = ''MORE_INFORMATION_REQUESTED''"
| "case_status_name MC_EXPIRED = ''EXPIRED''"
| "case_status_name MC_CANCELLED = ''CANCELLED''"

definition jcstatus :: "case_status \<Rightarrow> jval" where
  "jcstatus st = JStr (case_status_name st)"

definition jperson :: "case_person \<Rightarrow> jval" where
  "jperson t = JStr (case t of CP_WOMAN \<Rightarrow> ''WOMAN'' | CP_CHILD \<Rightarrow> ''CHILD'')"

section \<open>Audit\<close>

definition OPERATION_ACTIONS :: "(jstring \<times> jstring) list" where
  "OPERATION_ACTIONS = [(''admin_restore'', ''MISSING_PERSON_RESTORED''), (''admin_edit'', ''MISSING_PERSON_EDITED_BY_ADMIN''),
     (''merge'', ''MISSING_PERSON_MERGED''), (''merged_into'', ''MISSING_PERSON_MERGED''),
     (''lift_takedown'', ''MISSING_PERSON_TAKEDOWN_LIFTED''), (''owner_account_suspended'', ''MISSING_PERSON_TAKEN_DOWN''),
     (''reader_flag'', ''MISSING_PERSON_FLAGGED''), (''flag_resolved'', ''MISSING_PERSON_FLAG_RESOLVED''),
     (''appeal_submitted'', ''MISSING_PERSON_APPEAL_SUBMITTED''), (''appeal_decided'', ''MISSING_PERSON_APPEAL_DECIDED''),
     (''owner_found_report'', ''MISSING_PERSON_FOUND_REPORTED''),
     (''found_report_declined'', ''MISSING_PERSON_FOUND_REPORT_DECLINED''), (''reopen'', ''MISSING_PERSON_REOPENED''),
     (''assign'', ''MISSING_PERSON_ASSIGNED''), (''unassign'', ''MISSING_PERSON_UNASSIGNED''),
     (''claim'', ''MISSING_PERSON_CLAIMED''), (''unclaim'', ''MISSING_PERSON_UNCLAIMED''),
     (''redact_media_requested'', ''MISSING_PERSON_MEDIA_REDACTION_REQUESTED''),
     (''case_update_posted'', ''MISSING_PERSON_CASE_UPDATE_POSTED''),
     (''child_flag_first_confirmation'', ''MISSING_PERSON_CHILD_FLAG_FIRST_CONFIRMED''),
     (''child_safety_first_confirmation'', ''MISSING_PERSON_CHILD_FLAG_FIRST_CONFIRMED''),
     (''message_owner'', ''MISSING_PERSON_OWNER_MESSAGED''), (''export_csv'', ''MISSING_PERSON_EXPORTED''),
     (''export_job_started'', ''MISSING_PERSON_EXPORT_STARTED''),
     (''export_job_download'', ''MISSING_PERSON_EXPORT_DOWNLOADED''),
     (''legal_hold_placed'', ''MISSING_PERSON_LEGAL_HOLD_CHANGED''),
     (''legal_hold_released'', ''MISSING_PERSON_LEGAL_HOLD_CHANGED''),
     (''child_flag_corrected'', ''MISSING_PERSON_CHILD_FLAG_CORRECTED''), (''admin_renew'', ''MISSING_PERSON_RENEWED''),
     (''owner_renew'', ''MISSING_PERSON_RENEWED''), (''admin_remove_media'', ''MISSING_PERSON_MEDIA_REMOVED''),
     (''owner_remove_media'', ''MISSING_PERSON_MEDIA_REMOVED''),
     (''found_report_confirmed'', ''MISSING_PERSON_FOUND_REPORT_VERIFIED'')]"

text \<open>An operation logged as an update gets its own action.\<close>

definition emitAudit :: "audit_event \<Rightarrow> effect" where
  "emitAudit a =
     (case map_of (ae_metadata a) ''operation'' of
        Some (JStr op) \<Rightarrow>
          (case map_of OPERATION_ACTIONS op of
             None \<Rightarrow> Audit a
           | Some specific \<Rightarrow>
               if ae_action a = ''MISSING_PERSON_UPDATED'' \<or> op = ''export_job_download''
               then Audit (a\<lparr>ae_action := specific\<rparr>) else Audit a)
      | _ \<Rightarrow> Audit a)"

definition mi_emit :: "effect \<Rightarrow> missing_state \<Rightarrow> missing_state" where
  "mi_emit e s = s\<lparr>ms_log := ms_log s @ [e]\<rparr>"

definition case_label :: "mcase \<Rightarrow> jstring option" where
  "case_label c = (if mi_personType c = CP_CHILD then Some (''Child case '' @ take 8 (mi_id c)) else mi_name c)"

definition target_owner :: "current_user \<Rightarrow> mcase \<Rightarrow> jstring option" where
  "target_owner actor c = (if truthy (mi_userId c) \<and> mi_userId c \<noteq> Some (cu_id actor) then mi_userId c else None)"

text \<open>The part every audit entry about a case shares.\<close>

definition case_event :: "current_user \<Rightarrow> jstring \<Rightarrow> mcase \<Rightarrow> audit_event" where
  "case_event actor action c =
     (audit_base (resolveActorType (cu_roles actor)) action ''MissingPerson'' (mi_id c))
       \<lparr>ae_userId := Some (cu_id actor), ae_entityLabel := case_label c\<rparr>"

definition emitCaseFailure :: "current_user \<Rightarrow> jstring \<Rightarrow> mcase \<Rightarrow> jstring \<Rightarrow> audit_outcome \<Rightarrow> jstring option
    \<Rightarrow> (jstring \<times> jval) list \<Rightarrow> (jstring \<times> jval) list \<Rightarrow> effect" where
  "emitCaseFailure actor action c reason outcome target diff metadata =
     emitAudit ((case_event actor action c)\<lparr>ae_targetUserId := (if truthy target then target else None),
       ae_outcome := outcome, ae_severity := WARNING,
       ae_diff := [(''result'', JStr (if outcome = DENIED then ''denied'' else ''failure'')), (''reason'', JStr reason)] @ diff,
       ae_metadata := metadata\<rparr>)"

text \<open>The event of \<open>auditOp\<close>; its options are set by record update.\<close>

definition op_event :: "current_user \<Rightarrow> mcase \<Rightarrow> jstring \<Rightarrow> (jstring \<times> jval) list \<Rightarrow> (jstring \<times> jval) list \<Rightarrow> audit_event" where
  "op_event actor c operation diff metadata =
     (case_event actor ''MISSING_PERSON_UPDATED'' c)\<lparr>ae_targetUserId := target_owner actor c,
       ae_diff := diff @ [(''result'', JStr ''success'')],
       ae_metadata := (''operation'', JStr operation) # metadata\<rparr>"

definition notifyOwner :: "mcase \<Rightarrow> missing_state \<Rightarrow> missing_state" where
  "notifyOwner c s =
     (if \<not> truthy (mi_userId c) then s
      else mi_emit (Notify ''MISSING_PERSON_UPDATED'' [(''userId'', jstr_opt (mi_userId c)),
        (''missingPersonId'', JStr (mi_id c)), (''status'', jcstatus (mi_status c))]) s)"

definition invalidate_case :: "jstring \<Rightarrow> missing_state \<Rightarrow> missing_state" where
  "invalidate_case i = mi_emit (Invalidate ''missing-person'' i)"

definition delete_files :: "jstring list \<Rightarrow> missing_state \<Rightarrow> missing_state" where
  "delete_files paths s = fold (\<lambda>f. mi_emit (Purge f)) paths s"

section \<open>Reading and writing cases\<close>

definition find_case :: "jstring \<Rightarrow> missing_state \<Rightarrow> mcase option" where
  "find_case i s = find_where (\<lambda>c. mi_id c = i) (ms_cases s)"

definition loadCase :: "jstring \<Rightarrow> missing_state \<Rightarrow> (mcase \<Rightarrow> 'a result \<times> missing_state) \<Rightarrow> 'a result \<times> missing_state" where
  "loadCase i s k = (case find_case i s of None \<Rightarrow> (Inl (NotFound ''missing_person_not_found''), s) | Some c \<Rightarrow> k c)"

definition loadOwnCase :: "current_user \<Rightarrow> jstring \<Rightarrow> missing_state \<Rightarrow> (mcase \<Rightarrow> 'a result \<times> missing_state)
    \<Rightarrow> 'a result \<times> missing_state" where
  "loadOwnCase user i s k =
     (case find_case i s of
        None \<Rightarrow> (Inl (NotFound ''missing_person_not_found''), s)
      | Some c \<Rightarrow> if mi_userId c \<noteq> Some (cu_id user) \<or> mi_deletedAt c \<noteq> None
          then (Inl (NotFound ''missing_person_not_found''), s) else k c)"

definition write_cases :: "int \<Rightarrow> (mcase \<Rightarrow> bool) \<Rightarrow> (mcase \<Rightarrow> mcase) \<Rightarrow> missing_state \<Rightarrow> missing_state" where
  "write_cases now P f s = s\<lparr>ms_cases := update_where P (\<lambda>c. (f c)\<lparr>mi_updatedAt := now\<rparr>) (ms_cases s)\<rparr>"

text \<open>\<open>update({ where: { id } })\<close>: throws when the row is gone, whatever happened to it otherwise.\<close>

definition update_case :: "int \<Rightarrow> jstring \<Rightarrow> (mcase \<Rightarrow> mcase) \<Rightarrow> missing_state \<Rightarrow> mcase result \<times> missing_state" where
  "update_case now i f s =
     (let s1 = write_cases now (\<lambda>c. mi_id c = i) f s in
      case find_case i s1 of None \<Rightarrow> (Inl (PlainError ''Record to update not found''), s) | Some c \<Rightarrow> (Inr c, s1))"

definition case_in :: "jstring \<Rightarrow> case_status \<Rightarrow> mcase \<Rightarrow> bool" where
  "case_in i st = claimable mi_id mi_status [st] i"

definition assertNotClaimedByOther :: "current_user \<Rightarrow> mcase \<Rightarrow> jstring \<Rightarrow> missing_state
    \<Rightarrow> 'a result \<times> missing_state \<Rightarrow> 'a result \<times> missing_state" where
  "assertNotClaimedByOther actor c action s rest =
     (if truthy (mi_claimedByUserId c) \<and> mi_claimedByUserId c \<noteq> Some (cu_id actor)
      then (Inl (Forbidden ''missing_person_claimed_by_another_admin''),
        mi_emit (emitCaseFailure actor action c ''claimed_by_another_admin'' DENIED None []
          [(''claimedByUserId'', jstr_opt (mi_claimedByUserId c))]) s)
      else rest)"

definition add_message :: "missing_env \<Rightarrow> jstring \<Rightarrow> current_user \<Rightarrow> bool \<Rightarrow> jstring \<Rightarrow> missing_state \<Rightarrow> missing_state" where
  "add_message env i author warning text s =
     s\<lparr>ms_messages := ms_messages s @ [\<lparr>mm_id = mn_newId env (ms_created s), mm_caseId = i, mm_authorId = cu_id author,
         mm_isWarning = warning, mm_message = text, mm_createdAt = mn_now env\<rparr>], ms_created := ms_created s + 1\<rparr>"

end
