(* ===== verification/Missing_Review.thy ===== *)
theory Missing_Review
  imports Missing_Data
begin

text \<open>
  Review of missing-person cases, \<open>missing-person-review.service.ts\<close>: claims, the status workflow with
  the two-person approval of child cases, assignment, bulk actions, found reports and reopening.
\<close>

section \<open>Claims\<close>

definition claimMissingPerson_from :: "missing_env \<Rightarrow> current_user \<Rightarrow> mcase \<Rightarrow> missing_state \<Rightarrow> mcase result \<times> missing_state" where
  "claimMissingPerson_from env admin c s =
     assertNotClaimedByOther admin c ''MISSING_PERSON_UPDATED'' s
       (res_bind (update_case (mn_now env) (mi_id c)
           (\<lambda>q. q\<lparr>mi_claimedByUserId := Some (cu_id admin), mi_claimedAt := Some (mn_now env)\<rparr>) s)
         (\<lambda>u s1. (Inr u, mi_emit (emitAudit ((case_event admin ''MISSING_PERSON_UPDATED'' u)
            \<lparr>ae_diff := [(''claimedBy'', JStr (cu_id admin)), (''result'', JStr ''success'')],
             ae_metadata := [(''operation'', JStr ''claim'')]\<rparr>)) s1)))"

definition claimMissingPerson :: "missing_env \<Rightarrow> current_user \<Rightarrow> jstring \<Rightarrow> missing_state \<Rightarrow> mcase result \<times> missing_state" where
  "claimMissingPerson env admin i s = loadCase i s (\<lambda>c. claimMissingPerson_from env admin c s)"

definition unclaimMissingPerson_from :: "missing_env \<Rightarrow> current_user \<Rightarrow> mcase \<Rightarrow> missing_state \<Rightarrow> mcase result \<times> missing_state" where
  "unclaimMissingPerson_from env admin c s =
     assertNotClaimedByOther admin c ''MISSING_PERSON_UPDATED'' s
       (res_bind (update_case (mn_now env) (mi_id c) (\<lambda>q. q\<lparr>mi_claimedByUserId := None, mi_claimedAt := None\<rparr>) s)
         (\<lambda>u s1. (Inr u, mi_emit (emitAudit ((case_event admin ''MISSING_PERSON_UPDATED'' u)
            \<lparr>ae_diff := [(''unclaimedBy'', JStr (cu_id admin)), (''result'', JStr ''success'')],
             ae_metadata := [(''operation'', JStr ''unclaim'')]\<rparr>)) s1)))"

definition unclaimMissingPerson :: "missing_env \<Rightarrow> current_user \<Rightarrow> jstring \<Rightarrow> missing_state \<Rightarrow> mcase result \<times> missing_state" where
  "unclaimMissingPerson env admin i s = loadCase i s (\<lambda>c. unclaimMissingPerson_from env admin c s)"

section \<open>The status workflow\<close>

fun auditEventForStatus :: "case_status \<Rightarrow> jstring" where
  "auditEventForStatus MC_APPROVED = ''MISSING_PERSON_APPROVED''"
| "auditEventForStatus MC_REJECTED = ''MISSING_PERSON_REJECTED''"
| "auditEventForStatus MC_FOUND = ''MISSING_PERSON_FOUND''"
| "auditEventForStatus MC_MORE_INFORMATION_REQUESTED = ''MISSING_PERSON_MORE_INFO_REQUESTED''"
| "auditEventForStatus _ = ''MISSING_PERSON_UPDATED''"

fun notification_for :: "case_status \<Rightarrow> jstring" where
  "notification_for MC_APPROVED = ''MISSING_PERSON_APPROVED''"
| "notification_for MC_REJECTED = ''MISSING_PERSON_REJECTED''"
| "notification_for MC_FOUND = ''MISSING_PERSON_FOUND''"
| "notification_for MC_MORE_INFORMATION_REQUESTED = ''MISSING_PERSON_MORE_INFORMATION_REQUESTED''"
| "notification_for _ = ''MISSING_PERSON_UPDATED''"

datatype child_safety = NotRequired | FirstConfirmationRecorded | Satisfied

definition ensureCaseSafety :: "missing_env \<Rightarrow> mcase \<Rightarrow> current_user \<Rightarrow> bool option \<Rightarrow> missing_state
    \<Rightarrow> child_safety result \<times> missing_state" where
  "ensureCaseSafety env c admin confirmed s =
     (if mi_personType c \<noteq> CP_CHILD then (Inr NotRequired, s)
      else if confirmed \<noteq> Some True
      then (Inl (BadRequest ''child_safety_confirmation_required''),
        mi_emit (emitCaseFailure admin ''MISSING_PERSON_APPROVED'' c ''child_safety_confirmation_required'' FAILURE None [] []) s)
      else if \<not> truthy (mi_firstConfirmedBy c)
      then res_bind (update_case (mn_now env) (mi_id c)
          (\<lambda>q. q\<lparr>mi_firstConfirmedBy := Some (cu_id admin), mi_firstConfirmedAt := Some (mn_now env)\<rparr>) s)
        (\<lambda>_ s1. (Inr FirstConfirmationRecorded, s1))
      else if mi_firstConfirmedBy c = Some (cu_id admin)
      then (Inl (BadRequest ''child_safety_requires_second_distinct_admin''),
        mi_emit (emitCaseFailure admin ''MISSING_PERSON_APPROVED'' c ''child_safety_requires_second_distinct_admin'' DENIED None
          [] [(''firstConfirmedBy'', jstr_opt (mi_firstConfirmedBy c))]) s)
      else (Inr Satisfied, s))"

definition rejections :: "missing_env \<Rightarrow> jstring \<Rightarrow> mcase \<Rightarrow> bool" where
  "rejections env userId c \<longleftrightarrow> mi_userId c = Some userId \<and> mi_status c = MC_REJECTED \<and>
     mi_updatedAt c \<ge> mn_now env - mn_rejectionWindowDays env * day_ms"

definition maybeFlagUserForRejections :: "missing_env \<Rightarrow> jstring \<Rightarrow> missing_state \<Rightarrow> missing_state" where
  "maybeFlagUserForRejections env userId s =
     (let n = count_where (rejections env userId) (ms_cases s) in
      if n < mn_rejectionCount env then s
      else mi_emit (emitAudit ((audit_base SYSTEM ''USER_AUTO_FLAGGED'' ''User'' userId)
        \<lparr>ae_targetUserId := Some userId,
         ae_entityLabel := (case find_where (\<lambda>u. cx_id u = userId) (ms_users s) of None \<Rightarrow> None | Some u \<Rightarrow> cx_name u),
         ae_diff := [(''reason'', JStr ''repeated_missing_person_rejections''), (''rejectionCount'', JInt (int n)),
           (''windowDays'', JInt (mn_rejectionWindowDays env)), (''result'', JStr ''flagged_for_review'')]\<rparr>)) s)"

text \<open>The guarded write and what follows it; \<open>c\<close> is the case as it was read.\<close>

definition moved :: "case_status \<Rightarrow> jstring option \<Rightarrow> mcase \<Rightarrow> mcase" where
  "moved status reviewNote q = q\<lparr>mi_status := status,
     mi_reviewNote := (if reviewNote = None then mi_reviewNote q else reviewNote),
     mi_claimedByUserId := None, mi_claimedAt := None\<rparr>"

definition move_event :: "current_user \<Rightarrow> mcase \<Rightarrow> mcase \<Rightarrow> case_status \<Rightarrow> jstring option \<Rightarrow> bool \<Rightarrow> audit_event" where
  "move_event admin c u status reviewNote child =
     (case_event admin (auditEventForStatus status) u)\<lparr>ae_targetUserId := target_owner admin c, ae_reason := reviewNote,
       ae_diff := [(''previousStatus'', jcstatus (mi_status c)), (''newStatus'', jcstatus (mi_status u))] @
         (if child then [(''childSafetyDualControlSatisfied'', JBool True)] else []) @ [(''result'', JStr ''success'')],
       ae_metadata := (''claimReleased'', JBool (mi_claimedByUserId c \<noteq> None)) #
         (if child then [(''childSafetyFirstConfirmedBy'', jstr_opt (mi_firstConfirmedBy c)),
            (''childSafetySecondConfirmedBy'', JStr (cu_id admin))] else [])\<rparr>"

definition move_case :: "missing_env \<Rightarrow> current_user \<Rightarrow> mcase \<Rightarrow> case_status \<Rightarrow> jstring option \<Rightarrow> bool \<Rightarrow> missing_state
    \<Rightarrow> (mcase \<times> bool) result \<times> missing_state" where
  "move_case env admin c status reviewNote child s =
     (if count_where (case_in (mi_id c) (mi_status c)) (ms_cases s) = 0
      then (Inl (BadRequest ''missing_person_transition_conflict''),
        mi_emit (emitCaseFailure admin (auditEventForStatus status) c ''missing_person_transition_conflict'' FAILURE None
          [(''attemptedStatus'', jcstatus status), (''currentStatus'', jcstatus (mi_status c))] []) s)
      else let s1 = write_cases (mn_now env) (case_in (mi_id c) (mi_status c)) (moved status reviewNote) s in
        (case find_case (mi_id c) s1 of
           None \<Rightarrow> (Inl (PlainError ''No MissingPerson found''), s1)
         | Some u \<Rightarrow>
             let s2 = mi_emit (Notify (notification_for status) [(''userId'', jstr_opt (mi_userId c)),
                   (''missingPersonId'', JStr (mi_id u)), (''previousStatus'', jcstatus (mi_status c)),
                   (''status'', jcstatus (mi_status u)), (''reviewNote'', jstr_opt reviewNote)])
                 (mi_emit (emitAudit (move_event admin c u status reviewNote child)) (invalidate_case (mi_id c) s1))
             in (Inr (u, False), if status = MC_REJECTED \<and> truthy (mi_userId c)
                   then maybeFlagUserForRejections env (the (mi_userId c)) s2 else s2)))"

text \<open>The flag of the answer is \<open>pendingSecondConfirmation\<close>.\<close>

definition updateCaseStatus_from :: "missing_env \<Rightarrow> current_user \<Rightarrow> mcase \<Rightarrow> case_status \<Rightarrow> jstring option \<Rightarrow> bool option
    \<Rightarrow> missing_state \<Rightarrow> (mcase \<times> bool) result \<times> missing_state" where
  "updateCaseStatus_from env admin c status reviewNote confirmed s =
     (let action = auditEventForStatus status;
          attempt = [(''attemptedStatus'', jcstatus status), (''currentStatus'', jcstatus (mi_status c))];
          child = (status = MC_APPROVED \<and> mi_personType c = CP_CHILD) in
      if mi_status c = status then (Inr (c, False), s)
      else assertNotClaimedByOther admin c action s
       (if status \<notin> set (ALLOWED_TRANSITIONS (mi_status c))
        then (Inl (BadRequest (''invalid_status_transition: '' @ case_status_name (mi_status c) @ '' -> '' @ case_status_name status)),
          mi_emit (emitCaseFailure admin action c ''invalid_status_transition'' FAILURE None attempt []) s)
        else if (status = MC_REJECTED \<or> status = MC_MORE_INFORMATION_REQUESTED) \<and>
          (case reviewNote of None \<Rightarrow> True | Some n \<Rightarrow> js_trim n = [])
        then (Inl (BadRequest ''review_note_required_for_this_status''),
          mi_emit (emitCaseFailure admin action c ''review_note_required_for_this_status'' FAILURE None attempt []) s)
        else if \<not> child then move_case env admin c status reviewNote False s
        else res_bind (ensureCaseSafety env c admin confirmed s)
          (\<lambda>safety s1. if safety \<noteq> FirstConfirmationRecorded then move_case env admin c status reviewNote True s1
             else case find_case (mi_id c) s1 of
                None \<Rightarrow> (Inl (PlainError ''No MissingPerson found''), s1)
              | Some u \<Rightarrow> (Inr (u, True), mi_emit (emitAudit ((case_event admin ''MISSING_PERSON_UPDATED'' c)
                  \<lparr>ae_targetUserId := target_owner admin c, ae_reason := reviewNote,
                   ae_diff := [(''childSafetyFirstConfirmationBy'', JStr (cu_id admin)),
                     (''result'', JStr ''pending_second_admin_confirmation'')],
                   ae_metadata := [(''operation'', JStr ''child_safety_first_confirmation'')]\<rparr>)) s1))))"

definition updateCaseStatus :: "missing_env \<Rightarrow> current_user \<Rightarrow> jstring \<Rightarrow> case_status \<Rightarrow> jstring option \<Rightarrow> bool option
    \<Rightarrow> missing_state \<Rightarrow> (mcase \<times> bool) result \<times> missing_state" where
  "updateCaseStatus env admin i status reviewNote confirmed s =
     loadCase i s (\<lambda>c. updateCaseStatus_from env admin c status reviewNote confirmed s)"

section \<open>Assignment\<close>

definition assertAssignable :: "jstring \<Rightarrow> missing_state \<Rightarrow> error option" where
  "assertAssignable userId s =
     (case find_where (\<lambda>u. cx_id u = userId) (ms_users s) of
        None \<Rightarrow> Some (NotFound ''assignee_not_found'')
      | Some u \<Rightarrow>
          if \<not> cx_isActive u then Some (BadRequest ''assignee_inactive'')
          else if ''ADMIN'' \<notin> set (cx_roles u) \<and> ''SUPER_ADMIN'' \<notin> set (cx_roles u)
          then Some (BadRequest ''assignee_must_be_an_admin'') else None)"

definition assignCase :: "missing_env \<Rightarrow> current_user \<Rightarrow> jstring \<Rightarrow> jstring \<Rightarrow> missing_state \<Rightarrow> mcase result \<times> missing_state" where
  "assignCase env admin i assigneeId s = loadCase i s (\<lambda>c.
     case assertAssignable assigneeId s of Some e \<Rightarrow> (Inl e, s)
     | None \<Rightarrow> res_bind (update_case (mn_now env) i (\<lambda>q. q\<lparr>mi_assignedToUserId := Some assigneeId,
           mi_assignedById := Some (cu_id admin), mi_assignedAt := Some (mn_now env)\<rparr>) s)
         (\<lambda>u s1. (Inr u, mi_emit (emitAudit (op_event admin u ''assign''
            [(''previousAssignee'', jstr_opt (mi_assignedToUserId c)), (''assignedTo'', JStr assigneeId)] [])) s1)))"

definition unassignCase :: "missing_env \<Rightarrow> current_user \<Rightarrow> jstring \<Rightarrow> missing_state \<Rightarrow> mcase result \<times> missing_state" where
  "unassignCase env admin i s = loadCase i s (\<lambda>c.
     res_bind (update_case (mn_now env) i (\<lambda>q. q\<lparr>mi_assignedToUserId := None, mi_assignedById := None, mi_assignedAt := None\<rparr>) s)
       (\<lambda>u s1. (Inr u, mi_emit (emitAudit (op_event admin u ''unassign''
          [(''previousAssignee'', jstr_opt (mi_assignedToUserId c))] [])) s1)))"

section \<open>Bulk actions\<close>

definition bulkAssignCases :: "missing_env \<Rightarrow> current_user \<Rightarrow> jstring list \<Rightarrow> jstring \<Rightarrow> missing_state
    \<Rightarrow> bulk_answer result \<times> missing_state" where
  "bulkAssignCases env admin ids assigneeId s =
     (case assertAssignable assigneeId s of Some e \<Rightarrow> (Inl e, s)
      | None \<Rightarrow> apfst Inr (bulk_loop (\<lambda>i s. void (assignCase env admin i assigneeId s)) (unique_ids ids) s))"

definition moveToUnderReview :: "missing_env \<Rightarrow> current_user \<Rightarrow> mcase \<Rightarrow> missing_state \<Rightarrow> unit result \<times> missing_state" where
  "moveToUnderReview env admin c s =
     (if mi_status c = MC_PENDING then void (updateCaseStatus env admin (mi_id c) MC_UNDER_REVIEW None None s) else (Inr (), s))"

definition approve_one :: "missing_env \<Rightarrow> current_user \<Rightarrow> jstring \<Rightarrow> missing_state \<Rightarrow> unit result \<times> missing_state" where
  "approve_one env admin i s = loadCase i s (\<lambda>c.
     if mi_personType c = CP_CHILD then (Inl (BadRequest ''child_cases_need_individual_dual_confirmation''), s)
     else if mi_deletedAt c \<noteq> None \<or> truthy (mi_mergedIntoId c) then (Inl (BadRequest ''case_not_available''), s)
     else res_bind (moveToUnderReview env admin c s)
       (\<lambda>_ s1. void (updateCaseStatus env admin i MC_APPROVED None None s1)))"

definition reject_one :: "missing_env \<Rightarrow> current_user \<Rightarrow> jstring \<Rightarrow> jstring \<Rightarrow> missing_state \<Rightarrow> unit result \<times> missing_state" where
  "reject_one env admin reviewNote i s = loadCase i s (\<lambda>c.
     if mi_deletedAt c \<noteq> None \<or> truthy (mi_mergedIntoId c) then (Inl (BadRequest ''case_not_available''), s)
     else res_bind (moveToUnderReview env admin c s)
       (\<lambda>_ s1. void (updateCaseStatus env admin i MC_REJECTED (Some reviewNote) None s1)))"

definition expire_one_case :: "missing_env \<Rightarrow> current_user \<Rightarrow> jstring \<Rightarrow> jstring \<Rightarrow> missing_state \<Rightarrow> unit result \<times> missing_state" where
  "expire_one_case env admin reason i s = loadCase i s (\<lambda>c.
     if mi_legalHold c then (Inl (Conflict ''case_under_legal_hold''), s)
     else res_bind (updateCaseStatus env admin i MC_EXPIRED (Some reason) None s)
       (\<lambda>_ s1. void (update_case (mn_now env) i
          (\<lambda>q. q\<lparr>mi_closureReason := Some reason, mi_closedAt := Some (mn_now env)\<rparr>) s1)))"

definition bulkApproveCases :: "missing_env \<Rightarrow> current_user \<Rightarrow> jstring list \<Rightarrow> missing_state \<Rightarrow> bulk_answer \<times> missing_state" where
  "bulkApproveCases env admin ids s = bulk_loop (approve_one env admin) (unique_ids ids) s"

definition bulkRejectCases :: "missing_env \<Rightarrow> current_user \<Rightarrow> jstring list \<Rightarrow> jstring \<Rightarrow> missing_state \<Rightarrow> bulk_answer \<times> missing_state" where
  "bulkRejectCases env admin ids reviewNote s = bulk_loop (reject_one env admin reviewNote) (unique_ids ids) s"

definition bulkExpireCases :: "missing_env \<Rightarrow> current_user \<Rightarrow> jstring list \<Rightarrow> jstring \<Rightarrow> missing_state \<Rightarrow> bulk_answer \<times> missing_state" where
  "bulkExpireCases env admin ids reason s = bulk_loop (expire_one_case env admin reason) (unique_ids ids) s"

section \<open>Found reports and reopening\<close>

definition verifyFound_from :: "missing_env \<Rightarrow> current_user \<Rightarrow> mcase \<Rightarrow> bool \<Rightarrow> jstring option \<Rightarrow> missing_state
    \<Rightarrow> mcase result \<times> missing_state" where
  "verifyFound_from env admin c confirmed reviewNote s =
     (if mi_foundReportedAt c = None \<or> mi_foundReportResolvedAt c \<noteq> None then (Inl (BadRequest ''no_pending_found_report''), s)
      else if confirmed
      then res_bind (updateCaseStatus env admin (mi_id c) MC_FOUND reviewNote None s)
        (\<lambda>_ s1. res_bind (update_case (mn_now env) (mi_id c) (\<lambda>q. q\<lparr>mi_foundReportResolvedAt := Some (mn_now env),
              mi_foundReportConfirmed := Some True, mi_closedAt := Some (mn_now env),
              mi_closureReason := Some ''found_verified''\<rparr>) s1)
            (\<lambda>u s2. (Inr u, mi_emit (emitAudit ((op_event admin u ''found_report_confirmed'' [] [])\<lparr>ae_reason := reviewNote\<rparr>)) s2)))
      else res_bind (update_case (mn_now env) (mi_id c) (\<lambda>q. q\<lparr>mi_foundReportResolvedAt := Some (mn_now env),
            mi_foundReportConfirmed := Some False\<rparr>) s)
          (\<lambda>u s1. (Inr u, notifyOwner u (mi_emit (emitAudit ((op_event admin u ''found_report_declined'' [] [])\<lparr>ae_reason := reviewNote\<rparr>))
             (add_message env (mi_id c) admin False
               (case reviewNote of None \<Rightarrow> ''Your found report could not be confirmed.''
                | Some n \<Rightarrow> if js_trim n = [] then ''Your found report could not be confirmed.'' else js_trim n) s1)))))"

definition verifyFound :: "missing_env \<Rightarrow> current_user \<Rightarrow> jstring \<Rightarrow> bool \<Rightarrow> jstring option \<Rightarrow> missing_state
    \<Rightarrow> mcase result \<times> missing_state" where
  "verifyFound env admin i confirmed reviewNote s = loadCase i s (\<lambda>c. verifyFound_from env admin c confirmed reviewNote s)"

definition reopen_target :: "case_status \<Rightarrow> case_status" where
  "reopen_target st = (if st = MC_CANCELLED then MC_UNDER_REVIEW else MC_APPROVED)"

definition reopened :: "missing_env \<Rightarrow> mcase \<Rightarrow> mcase \<Rightarrow> mcase" where
  "reopened env c q = q\<lparr>mi_status := reopen_target (mi_status c), mi_closedAt := None, mi_closureReason := None,
     mi_foundReportedAt := None, mi_foundReportDetails := None, mi_foundReportDate := None, mi_foundReportLocation := None,
     mi_foundReportResolvedAt := None, mi_foundReportConfirmed := None,
     mi_expiresAt := (if mi_status c = MC_EXPIRED then Some (mn_now env + mn_renewDays env * day_ms) else mi_expiresAt q)\<rparr>"

definition reopenCase_from :: "missing_env \<Rightarrow> current_user \<Rightarrow> mcase \<Rightarrow> jstring \<Rightarrow> missing_state \<Rightarrow> mcase result \<times> missing_state" where
  "reopenCase_from env admin c reason s =
     (if mi_deletedAt c \<noteq> None then (Inl (BadRequest ''deleted_case_must_be_restored_first''), s)
      else if truthy (mi_mergedIntoId c) then (Inl (BadRequest ''merged_case_cannot_be_reopened''), s)
      else if mi_takedownAt c \<noteq> None then (Inl (BadRequest ''use_lift_takedown_for_taken_down_cases''), s)
      else if mi_status c \<notin> {MC_EXPIRED, MC_CANCELLED, MC_FOUND}
      then (Inl (BadRequest ''only_expired_cancelled_or_found_cases_can_be_reopened''), s)
      else if count_where (case_in (mi_id c) (mi_status c)) (ms_cases s) = 0
      then (Inl (Conflict ''missing_person_transition_conflict''), s)
      else let s1 = invalidate_case (mi_id c)
                 (write_cases (mn_now env) (case_in (mi_id c) (mi_status c)) (reopened env c) s)
           in loadCase (mi_id c) s1 (\<lambda>u. (Inr u, notifyOwner u
                (mi_emit (emitAudit ((op_event admin u ''reopen''
                    [(''previousStatus'', jcstatus (mi_status c)), (''newStatus'', jcstatus (mi_status u))] [])
                  \<lparr>ae_severity := WARNING, ae_reason := Some reason\<rparr>)) s1))))"

definition reopenCase :: "missing_env \<Rightarrow> current_user \<Rightarrow> jstring \<Rightarrow> jstring \<Rightarrow> missing_state \<Rightarrow> mcase result \<times> missing_state" where
  "reopenCase env admin i reason s = loadCase i s (\<lambda>c. reopenCase_from env admin c reason s)"

record case_transitions =
  ct_current :: case_status
  ct_allowedNext :: "case_status list"
  ct_dualConfirmation :: bool
  ct_firstConfirmedBy :: "jstring option"
  ct_claimedBy :: "jstring option"

definition getCaseTransitions :: "jstring \<Rightarrow> missing_state \<Rightarrow> case_transitions result" where
  "getCaseTransitions i s =
     fst (loadCase i s (\<lambda>c. (Inr \<lparr>ct_current = mi_status c, ct_allowedNext = ALLOWED_TRANSITIONS (mi_status c),
       ct_dualConfirmation = (mi_personType c = CP_CHILD), ct_firstConfirmedBy = mi_firstConfirmedBy c,
       ct_claimedBy = mi_claimedByUserId c\<rparr>, s)))"

end
