(* ===== verification/Missing_Owner.thy ===== *)
theory Missing_Owner
  imports Missing_Review
begin

text \<open>
  What families do with their cases: submission and editing
  (\<open>missing-person-submission.service.ts\<close>), found reports, appeals and read markers
  (\<open>missing-person-mine.service.ts\<close>), renewals, updates and media
  (\<open>missing-person-case-updates.service.ts\<close>), and the flags of readers
  (\<open>missing-person-public.service.ts\<close>).
\<close>

section \<open>Submission\<close>

record case_dto =
  cd_personType :: case_person
  cd_name :: "jstring option"
  cd_description :: jstring
  cd_dateLastSeen :: int
  cd_lastKnownArea :: jstring
  cd_media :: media_dto

definition enforceCreateRateLimit :: "missing_env \<Rightarrow> jstring \<Rightarrow> missing_state \<Rightarrow> bool" where
  "enforceCreateRateLimit env userId s \<longleftrightarrow>
     list_all (\<lambda>c. mi_userId c = Some userId \<longrightarrow> mn_now env - mi_createdAt c \<ge> mn_cooldown env) (ms_cases s)"

definition pending_count :: "jstring \<Rightarrow> missing_state \<Rightarrow> nat" where
  "pending_count userId s = count_where (\<lambda>c. mi_userId c = Some userId \<and> mi_status c = MC_PENDING) (ms_cases s)"

definition enforceMaxPending :: "missing_env \<Rightarrow> jstring \<Rightarrow> missing_state \<Rightarrow> bool" where
  "enforceMaxPending env userId s \<longleftrightarrow> pending_count userId s < mn_maxPending env"

definition buildCreateInput :: "missing_env \<Rightarrow> case_dto \<Rightarrow> (media \<times> int) result" where
  "buildCreateInput env data =
     (let merged = merge_media (cd_media data) no_media in
      case accept_media env merged (collectMediaFields merged) id of Inl e \<Rightarrow> Inl e | Inr n \<Rightarrow> Inr (merged, n))"

definition blank_case :: "missing_env \<Rightarrow> current_user \<Rightarrow> case_person \<Rightarrow> jstring \<Rightarrow> int \<Rightarrow> jstring \<Rightarrow> case_status
    \<Rightarrow> jstring option \<Rightarrow> missing_state \<Rightarrow> mcase" where
  "blank_case env user person description seen area status key s =
     \<lparr>mi_id = mn_newId env (ms_created s), mi_userId = Some (cu_id user), mi_personType = person, mi_name = None,
      mi_description = description, mi_dateLastSeen = seen, mi_lastKnownArea = area, mi_media = no_media,
      mi_status = status, mi_createdAt = mn_now env, mi_updatedAt = mn_now env, mi_reviewNote = None,
      mi_idempotencyKey = key, mi_mediaTotalBytes = 0, mi_ownerSuspendedAt = None, mi_claimedByUserId = None,
      mi_claimedAt = None, mi_firstConfirmedBy = None, mi_firstConfirmedAt = None, mi_closureReason = None,
      mi_closedAt = None, mi_assignedToUserId = None, mi_assignedById = None, mi_assignedAt = None,
      mi_expiresAt = None, mi_renewalCount = 0, mi_lastRenewedAt = None, mi_foundReportedAt = None,
      mi_foundReportDetails = None, mi_foundReportDate = None, mi_foundReportLocation = None,
      mi_foundReportResolvedAt = None, mi_foundReportConfirmed = None, mi_takedownReason = None,
      mi_takedownAt = None, mi_takedownById = None, mi_takedownPreviousStatus = None, mi_deletedAt = None,
      mi_deletedById = None, mi_deleteReason = None, mi_deletedPreviousStatus = None, mi_legalHold = False,
      mi_legalHoldReason = None, mi_legalHoldAt = None, mi_legalHoldById = None, mi_childFlagValue = None,
      mi_childFlagById = None, mi_childFlagAt = None, mi_childFlagReason = None, mi_mergedIntoId = None,
      mi_mergedAt = None, mi_mergedById = None, mi_copiedFromId = None, mi_ownerLastSeenAt = None\<rparr>"

definition new_case :: "missing_env \<Rightarrow> current_user \<Rightarrow> case_dto \<Rightarrow> media \<Rightarrow> int \<Rightarrow> case_status \<Rightarrow> jstring option
    \<Rightarrow> missing_state \<Rightarrow> mcase" where
  "new_case env user data merged totalBytes status key s =
     (blank_case env user (cd_personType data) (cd_description data) (cd_dateLastSeen data) (cd_lastKnownArea data) status key s)
       \<lparr>mi_name := cd_name data, mi_media := merged, mi_mediaTotalBytes := totalBytes\<rparr>"

text \<open>\<open>create\<close> under the primary key and the unique key of owner and idempotency key.\<close>

definition insert_case :: "mcase \<Rightarrow> missing_state \<Rightarrow> mcase result \<times> missing_state" where
  "insert_case c s =
     (if find_case (mi_id c) s \<noteq> None \<or>
         find_where (\<lambda>q. mi_idempotencyKey c \<noteq> None \<and> mi_userId q = mi_userId c \<and> mi_idempotencyKey q = mi_idempotencyKey c)
           (ms_cases s) \<noteq> None
      then (Inl UniqueViolation, s)
      else (Inr c, s\<lparr>ms_cases := ms_cases s @ [c], ms_created := ms_created s + 1\<rparr>))"

definition find_by_case_key :: "current_user \<Rightarrow> jstring option \<Rightarrow> missing_state \<Rightarrow> mcase option" where
  "find_by_case_key user key s =
     (if truthy key then find_where (\<lambda>c. mi_userId c = Some (cu_id user) \<and> mi_idempotencyKey c = key) (ms_cases s) else None)"

text \<open>The winner of a race on the key answers for the loser.\<close>

definition create_with_race :: "current_user \<Rightarrow> jstring option \<Rightarrow> mcase \<Rightarrow> missing_state \<Rightarrow> mcase result \<times> missing_state" where
  "create_with_race user key c s =
     (case insert_case c s of
        (Inl UniqueViolation, s1) \<Rightarrow>
          (case find_by_case_key user key s1 of Some winner \<Rightarrow> (Inr winner, s1) | None \<Rightarrow> (Inl UniqueViolation, s1))
      | r \<Rightarrow> r)"

definition created_event :: "current_user \<Rightarrow> mcase \<Rightarrow> (jstring \<times> jval) list \<Rightarrow> media \<Rightarrow> int \<Rightarrow> audit_event" where
  "created_event user c op merged totalBytes =
     (case_event user ''MISSING_PERSON_CREATED'' c)\<lparr>
       ae_diff := [(''personType'', jperson (mi_personType c)), (''status'', jcstatus (mi_status c)), (''result'', JStr ''success'')],
       ae_metadata := op @ [(''attachmentCount'', JInt (int (length (collectMediaFields merged)))),
         (''mediaTotalBytes'', JInt totalBytes)]\<rparr>"

definition new_request :: "current_user \<Rightarrow> mcase \<Rightarrow> effect" where
  "new_request user c = Notify ''NEW_MISSING_PERSON_REQUEST'' [(''missingPersonId'', JStr (mi_id c)), (''userId'', JStr (cu_id user))]"

definition createCase :: "missing_env \<Rightarrow> current_user \<Rightarrow> case_dto \<Rightarrow> jstring option \<Rightarrow> missing_state \<Rightarrow> mcase result \<times> missing_state" where
  "createCase env user data key s =
     (case find_by_case_key user key s of Some existing \<Rightarrow> (Inr existing, s)
      | None \<Rightarrow>
        if \<not> enforceCreateRateLimit env (cu_id user) s then (Inl (BadRequest ''missing_person_creation_rate_limited''), s)
        else if \<not> enforceMaxPending env (cu_id user) s then (Inl (BadRequest ''too_many_pending_missing_person_submissions''), s)
        else (case buildCreateInput env data of Inl e \<Rightarrow> (Inl e, s)
          | Inr (merged, totalBytes) \<Rightarrow>
              res_bind (create_with_race user key (new_case env user data merged totalBytes MC_PENDING key s) s)
                (\<lambda>c s1. (Inr c, mi_emit (new_request user c) (mi_emit (emitAudit (created_event user c [] merged totalBytes)) s1)))))"

text \<open>An administrator's own case: approved at once unless it is about a child.\<close>

definition createByAdmin :: "missing_env \<Rightarrow> current_user \<Rightarrow> case_dto \<Rightarrow> jstring option \<Rightarrow> missing_state \<Rightarrow> mcase result \<times> missing_state" where
  "createByAdmin env admin data key s =
     (case find_by_case_key admin key s of Some existing \<Rightarrow> (Inr existing, s)
      | None \<Rightarrow>
        (case buildCreateInput env data of Inl e \<Rightarrow> (Inl e, s)
          | Inr (merged, totalBytes) \<Rightarrow>
              let status = (if cd_personType data = CP_CHILD then MC_UNDER_REVIEW else MC_APPROVED) in
              res_bind (create_with_race admin key (new_case env admin data merged totalBytes status key s) s)
                (\<lambda>c s1.
                  let s2 = (if status = MC_APPROVED then mi_emit (Invalidate ''missing-person-list'' '''') s1 else s1);
                      s3 = mi_emit (emitAudit (created_event admin c [(''operation'', JStr ''admin_create'')] merged totalBytes)) s2
                  in (Inr c, if status \<noteq> MC_APPROVED then mi_emit (new_request admin c) s3 else s3))))"

record case_update_dto =
  ud_personType :: "case_person option"
  ud_name :: "jstring option"
  ud_description :: "jstring option"
  ud_dateLastSeen :: "int option"
  ud_lastKnownArea :: "jstring option"
  ud_media :: media_dto

definition case_fields :: "case_update_dto \<Rightarrow> jstring list" where
  "case_fields d = map fst (filter snd [(''personType'', ud_personType d \<noteq> None), (''name'', ud_name d \<noteq> None),
     (''description'', ud_description d \<noteq> None), (''dateLastSeen'', ud_dateLastSeen d \<noteq> None),
     (''lastKnownArea'', ud_lastKnownArea d \<noteq> None), (''photo'', md_photo (ud_media d) \<noteq> None),
     (''video'', md_video (ud_media d) \<noteq> None), (''audio'', md_audio (ud_media d) \<noteq> None),
     (''pdf'', md_pdf (ud_media d) \<noteq> None), (''document'', md_document (ud_media d) \<noteq> None),
     (''other'', md_other (ud_media d) \<noteq> None)])"

definition write_case :: "case_update_dto \<Rightarrow> bool \<Rightarrow> int \<Rightarrow> mcase \<Rightarrow> mcase" where
  "write_case d toPending totalBytes q = q\<lparr>mi_personType := or_else (ud_personType d) (mi_personType q),
     mi_name := (if ud_name d = None then mi_name q else ud_name d),
     mi_description := or_else (ud_description d) (mi_description q),
     mi_dateLastSeen := or_else (ud_dateLastSeen d) (mi_dateLastSeen q),
     mi_lastKnownArea := or_else (ud_lastKnownArea d) (mi_lastKnownArea q),
     mi_media := merge_media (ud_media d) (mi_media q),
     mi_status := (if toPending then MC_PENDING else mi_status q), mi_mediaTotalBytes := totalBytes\<rparr>"

definition updateCase_from :: "missing_env \<Rightarrow> current_user \<Rightarrow> mcase \<Rightarrow> case_update_dto \<Rightarrow> missing_state \<Rightarrow> mcase result \<times> missing_state" where
  "updateCase_from env user c data s =
     (let action = ''MISSING_PERSON_UPDATED'' in
      if mi_userId c \<noteq> Some (cu_id user)
      then (Inl (Forbidden ''not_authorized_to_update''),
        mi_emit (emitCaseFailure user action c ''not_authorized_to_update'' DENIED (mi_userId c) [] []) s)
      else if mi_status c \<notin> set EDITABLE_CASES
      then (Inl (Forbidden ''submission_not_editable_in_current_status''),
        mi_emit (emitCaseFailure user action c ''submission_not_editable_in_current_status'' FAILURE None
          [(''currentStatus'', jcstatus (mi_status c))] []) s)
      else if case_fields data = []
      then (Inl (BadRequest ''no_fields_provided''), mi_emit (emitCaseFailure user action c ''no_fields_provided'' FAILURE None [] []) s)
      else let (added, removed) = diffMediaFields (mi_media c) (ud_media data);
               total = (\<lambda>addedBytes. max 0 (mi_mediaTotalBytes c + addedBytes - removed_bytes env removed));
               toPending = (mi_status c = MC_MORE_INFORMATION_REQUESTED)
      in (case accept_media env (merge_media (ud_media data) (mi_media c)) added total of
            Inl e \<Rightarrow> (Inl e, mi_emit (emitCaseFailure user action c ''media_validation_failed'' FAILURE None
              [(''message'', JStr (err_message e))] []) s)
          | Inr totalBytes \<Rightarrow> res_bind (update_case (mn_now env) (mi_id c) (write_case data toPending totalBytes) s)
              (\<lambda>u s1. (Inr u, mi_emit (Notify action [(''userId'', jstr_opt (mi_userId c)),
                   (''missingPersonId'', JStr (mi_id u)), (''status'', jcstatus (mi_status u))])
                 (mi_emit (emitAudit ((case_event user action u)\<lparr>
                     ae_diff := [(''returnedToPending'', JBool toPending), (''previousStatus'', jcstatus (mi_status c)),
                       (''currentStatus'', jcstatus (mi_status u)), (''result'', JStr ''success'')],
                     ae_metadata := [(''fieldsUpdated'', JArr (map JStr (case_fields data))),
                       (''mediaAdded'', JInt (int (length added))), (''mediaRemoved'', JInt (int (length removed))),
                       (''mediaTotalBytes'', JInt totalBytes)]\<rparr>))
                   (delete_files removed s1))))))"

definition updateCase :: "missing_env \<Rightarrow> current_user \<Rightarrow> jstring \<Rightarrow> case_update_dto \<Rightarrow> missing_state \<Rightarrow> mcase result \<times> missing_state" where
  "updateCase env user i data s = loadCase i s (\<lambda>c. updateCase_from env user c data s)"

text \<open>Deletion cascades to everything that refers to the case.\<close>

definition delete_case :: "jstring \<Rightarrow> missing_state \<Rightarrow> missing_state" where
  "delete_case i s = s\<lparr>ms_cases := map (\<lambda>c. if mi_mergedIntoId c = Some i then c\<lparr>mi_mergedIntoId := None\<rparr> else c)
       (filter (\<lambda>c. mi_id c \<noteq> i) (ms_cases s)),
     ms_tips := filter (\<lambda>t. snd t \<noteq> i) (ms_tips s), ms_flags := filter (\<lambda>f. mf_caseId f \<noteq> i) (ms_flags s),
     ms_appeals := filter (\<lambda>a. ma_caseId a \<noteq> i) (ms_appeals s), ms_updates := filter (\<lambda>u. mu_caseId u \<noteq> i) (ms_updates s),
     ms_messages := filter (\<lambda>m. mm_caseId m \<noteq> i) (ms_messages s), ms_revisions := filter (\<lambda>r. mr_caseId r \<noteq> i) (ms_revisions s),
     ms_redactions := filter (\<lambda>x. mx_caseId x \<noteq> i) (ms_redactions s)\<rparr>"

definition removeCase_from :: "current_user \<Rightarrow> mcase \<Rightarrow> missing_state \<Rightarrow> unit result \<times> missing_state" where
  "removeCase_from user c s =
     (let action = ''MISSING_PERSON_DELETED''; keys = collectMediaFields (mi_media c) in
      if mi_userId c \<noteq> Some (cu_id user)
      then (Inl (Forbidden ''not_authorized_to_delete''),
        mi_emit (emitCaseFailure user action c ''not_authorized_to_delete'' DENIED (mi_userId c) [] []) s)
      else if mi_status c \<noteq> MC_PENDING
      then (Inl (Forbidden ''only_pending_submissions_can_be_deleted''),
        mi_emit (emitCaseFailure user action c ''only_pending_submissions_can_be_deleted'' FAILURE None
          [(''currentStatus'', jcstatus (mi_status c))] []) s)
      else if find_case (mi_id c) s = None then (Inl (PlainError ''Record to delete does not exist''), s)
      else (Inr (), mi_emit (emitAudit ((case_event user action c)\<lparr>
            ae_diff := [(''previousStatus'', jcstatus (mi_status c)), (''result'', JStr ''success'')],
            ae_metadata := [(''mediaFilesDeleted'', JInt (int (length keys))), (''mediaTotalBytes'', JInt (mi_mediaTotalBytes c))]\<rparr>))
          (delete_files keys (delete_case (mi_id c) s))))"

definition removeCase :: "current_user \<Rightarrow> jstring \<Rightarrow> missing_state \<Rightarrow> unit result \<times> missing_state" where
  "removeCase user i s = loadCase i s (\<lambda>c. removeCase_from user c s)"

definition duplicateAsDraft :: "missing_env \<Rightarrow> current_user \<Rightarrow> jstring \<Rightarrow> jstring option \<Rightarrow> missing_state \<Rightarrow> mcase result \<times> missing_state" where
  "duplicateAsDraft env user i key s = loadOwnCase user i s (\<lambda>source.
     case find_by_case_key user key s of Some prior \<Rightarrow> (Inr prior, s)
     | None \<Rightarrow>
        if \<not> enforceCreateRateLimit env (cu_id user) s then (Inl (BadRequest ''missing_person_creation_rate_limited''), s)
        else if \<not> enforceMaxPending env (cu_id user) s then (Inl (BadRequest ''too_many_pending_missing_person_submissions''), s)
        else (case insert_case ((blank_case env user (mi_personType source) (mi_description source) (mi_dateLastSeen source)
                 (mi_lastKnownArea source) MC_PENDING key s)\<lparr>mi_copiedFromId := Some (mi_id source)\<rparr>) s of
              (Inl UniqueViolation, s1) \<Rightarrow>
                (case find_by_case_key user key s1 of Some winner \<Rightarrow> (Inr winner, s1) | None \<Rightarrow> (Inl UniqueViolation, s1))
            | (Inl e, s1) \<Rightarrow> (Inl e, s1)
            | (Inr c, s1) \<Rightarrow> (Inr c, mi_emit (emitAudit ((op_event user c ''duplicate_as_draft''
                [(''copiedFromId'', JStr (mi_id source))] [])\<lparr>ae_action := ''MISSING_PERSON_CREATED''\<rparr>)) s1)))"

section \<open>Owners\<close>

definition markAllMyCasesSeen :: "missing_env \<Rightarrow> current_user \<Rightarrow> missing_state \<Rightarrow> nat \<times> missing_state" where
  "markAllMyCasesSeen env user s =
     (let mine = (\<lambda>c. mi_userId c = Some (cu_id user) \<and> mi_deletedAt c = None)
      in (count_where mine (ms_cases s), write_cases (mn_now env) mine (\<lambda>q. q\<lparr>mi_ownerLastSeenAt := Some (mn_now env)\<rparr>) s))"

definition markMyCaseSeen :: "missing_env \<Rightarrow> current_user \<Rightarrow> jstring \<Rightarrow> missing_state \<Rightarrow> unit result \<times> missing_state" where
  "markMyCaseSeen env user i s = loadOwnCase user i s (\<lambda>_.
     void (update_case (mn_now env) i (\<lambda>q. q\<lparr>mi_ownerLastSeenAt := Some (mn_now env)\<rparr>) s))"

definition reportFoundByOwner_from :: "missing_env \<Rightarrow> current_user \<Rightarrow> mcase \<Rightarrow> jstring \<Rightarrow> int option \<Rightarrow> jstring option
    \<Rightarrow> missing_state \<Rightarrow> mcase result \<times> missing_state" where
  "reportFoundByOwner_from env user c details date location s =
     (if mi_status c \<noteq> MC_APPROVED
      then (Inl (BadRequest ''found_report_requires_approved_case''),
        mi_emit (emitCaseFailure user ''MISSING_PERSON_UPDATED'' c ''found_report_requires_approved_case'' FAILURE None
          [(''currentStatus'', jcstatus (mi_status c))] []) s)
      else if mi_foundReportedAt c \<noteq> None \<and> mi_foundReportResolvedAt c = None
      then (Inl (Conflict ''found_report_already_pending''), s)
      else res_bind (update_case (mn_now env) (mi_id c) (\<lambda>q. q\<lparr>mi_foundReportedAt := Some (mn_now env),
             mi_foundReportDetails := Some details, mi_foundReportDate := date, mi_foundReportLocation := location,
             mi_foundReportResolvedAt := None, mi_foundReportConfirmed := None\<rparr>) s)
          (\<lambda>u s1. (Inr u, mi_emit (emitAudit (op_event user u ''owner_found_report''
             [(''previousStatus'', jcstatus (mi_status c))] [])) s1)))"

definition reportFoundByOwner :: "missing_env \<Rightarrow> current_user \<Rightarrow> jstring \<Rightarrow> jstring \<Rightarrow> int option \<Rightarrow> jstring option
    \<Rightarrow> missing_state \<Rightarrow> mcase result \<times> missing_state" where
  "reportFoundByOwner env user i details date location s =
     loadOwnCase user i s (\<lambda>c. reportFoundByOwner_from env user c details date location s)"

definition appealRejection :: "missing_env \<Rightarrow> current_user \<Rightarrow> jstring \<Rightarrow> jstring \<Rightarrow> missing_state \<Rightarrow> mappeal result \<times> missing_state" where
  "appealRejection env user i reason s = loadOwnCase user i s (\<lambda>c.
     if mi_status c \<noteq> MC_REJECTED then (Inl (BadRequest ''only_rejected_cases_can_be_appealed''), s)
     else case find_where (\<lambda>a. ma_caseId a = i \<and> ma_status a \<in> {MP_PENDING, MP_DECLINED}) (ms_appeals s) of
       Some a \<Rightarrow> (Inl (Conflict (if ma_status a = MP_PENDING then ''appeal_already_pending'' else ''appeal_already_declined'')), s)
     | None \<Rightarrow>
         let a = \<lparr>ma_id = mn_newId env (ms_created s), ma_caseId = i, ma_authorId = cu_id user, ma_reason = reason,
               ma_status = MP_PENDING, ma_decidedById = None, ma_decidedAt = None, ma_decisionNote = None,
               ma_createdAt = mn_now env\<rparr>
         in (Inr a, mi_emit (emitAudit (op_event user c ''appeal_submitted'' [(''appealId'', JStr (ma_id a))] []))
              (s\<lparr>ms_appeals := ms_appeals s @ [a], ms_created := ms_created s + 1\<rparr>)))"

section \<open>Renewal, updates and media\<close>

definition renewal_base :: "missing_env \<Rightarrow> mcase \<Rightarrow> int" where
  "renewal_base env c = (case mi_expiresAt c of None \<Rightarrow> mn_now env | Some e \<Rightarrow> if e > mn_now env then e else mn_now env)"

definition applyRenewal :: "missing_env \<Rightarrow> current_user \<Rightarrow> mcase \<Rightarrow> int option \<Rightarrow> jstring \<Rightarrow> jstring option \<Rightarrow> missing_state
    \<Rightarrow> mcase result \<times> missing_state" where
  "applyRenewal env actor c extendDays operation reason s =
     (if mi_status c \<noteq> MC_APPROVED \<or> mi_deletedAt c \<noteq> None
      then (Inl (BadRequest ''renewal_requires_approved_case''),
        mi_emit (emitCaseFailure actor ''MISSING_PERSON_UPDATED'' c ''renewal_requires_approved_case'' FAILURE None
          [(''currentStatus'', jcstatus (mi_status c))] []) s)
      else let days = or_else extendDays (mn_renewDays env); expiresAt = renewal_base env c + days * day_ms in
        res_bind (update_case (mn_now env) (mi_id c) (\<lambda>q. q\<lparr>mi_expiresAt := Some expiresAt,
            mi_lastRenewedAt := Some (mn_now env), mi_renewalCount := mi_renewalCount q + 1\<rparr>) s)
          (\<lambda>u s1. (Inr u, mi_emit (emitAudit ((op_event actor u operation
             [(''previousExpiresAt'', case mi_expiresAt c of None \<Rightarrow> JNull | Some e \<Rightarrow> JInt e), (''expiresAt'', JInt expiresAt),
              (''extendDays'', JInt days)] [])\<lparr>ae_reason := reason\<rparr>)) s1)))"

definition renewByOwner :: "missing_env \<Rightarrow> current_user \<Rightarrow> jstring \<Rightarrow> int option \<Rightarrow> missing_state \<Rightarrow> mcase result \<times> missing_state" where
  "renewByOwner env user i extendDays s =
     loadOwnCase user i s (\<lambda>c. applyRenewal env user c extendDays ''owner_renew'' None s)"

definition renewByAdmin :: "missing_env \<Rightarrow> current_user \<Rightarrow> jstring \<Rightarrow> int option \<Rightarrow> jstring option \<Rightarrow> missing_state
    \<Rightarrow> mcase result \<times> missing_state" where
  "renewByAdmin env admin i extendDays reason s =
     loadCase i s (\<lambda>c. applyRenewal env admin c extendDays ''admin_renew'' reason s)"

definition createCaseUpdate :: "missing_env \<Rightarrow> current_user \<Rightarrow> mcase \<Rightarrow> jstring \<Rightarrow> jstring list \<Rightarrow> bool \<Rightarrow> missing_state
    \<Rightarrow> mupdate result \<times> missing_state" where
  "createCaseUpdate env actor c message photos staff s =
     (if mi_status c \<noteq> MC_APPROVED then (Inl (BadRequest ''updates_require_approved_case''), s)
      else case (if photos = [] then Inr 0 else accept_media env (no_media\<lparr>m_photo := photos\<rparr>) photos id) of
        Inl e \<Rightarrow> (Inl e, s)
      | Inr _ \<Rightarrow>
        let u = \<lparr>mu_id = mn_newId env (ms_created s), mu_caseId = mi_id c, mu_authorId = cu_id actor, mu_isStaff = staff,
              mu_message = message, mu_photo = photos, mu_createdAt = mn_now env\<rparr>
        in (Inr u, mi_emit (emitAudit (op_event actor c ''case_update_posted''
              [(''authorType'', JStr (if staff then ''STAFF'' else ''OWNER'')), (''updateId'', JStr (mu_id u))] []))
            (s\<lparr>ms_updates := ms_updates s @ [u], ms_created := ms_created s + 1\<rparr>)))"

definition addOwnerUpdate :: "missing_env \<Rightarrow> current_user \<Rightarrow> jstring \<Rightarrow> jstring \<Rightarrow> jstring list \<Rightarrow> missing_state
    \<Rightarrow> mupdate result \<times> missing_state" where
  "addOwnerUpdate env user i message photos s =
     loadOwnCase user i s (\<lambda>c. createCaseUpdate env user c message photos False s)"

definition addStaffUpdate :: "missing_env \<Rightarrow> current_user \<Rightarrow> jstring \<Rightarrow> jstring \<Rightarrow> jstring list \<Rightarrow> missing_state
    \<Rightarrow> mupdate result \<times> missing_state" where
  "addStaffUpdate env admin i message photos s =
     loadCase i s (\<lambda>c. createCaseUpdate env admin c message photos True s)"

text \<open>The first of the six columns that holds the key, and the column without it.\<close>

definition media_names :: "jstring list" where
  "media_names = [''photo'', ''video'', ''audio'', ''pdf'', ''document'', ''other'']"

definition media_column :: "jstring \<Rightarrow> media \<Rightarrow> jstring option" where
  "media_column key m = map_option fst (find_where (\<lambda>(_, paths). key \<in> set paths) (zip media_names (media_fields m)))"

definition set_column :: "jstring \<Rightarrow> jstring \<Rightarrow> media \<Rightarrow> media \<Rightarrow> media" where
  "set_column field key old m =
     (let without = filter (\<lambda>k. k \<noteq> key) in
      if field = ''photo'' then m\<lparr>m_photo := without (m_photo old)\<rparr>
      else if field = ''video'' then m\<lparr>m_video := without (m_video old)\<rparr>
      else if field = ''audio'' then m\<lparr>m_audio := without (m_audio old)\<rparr>
      else if field = ''pdf'' then m\<lparr>m_pdf := without (m_pdf old)\<rparr>
      else if field = ''document'' then m\<lparr>m_document := without (m_document old)\<rparr>
      else m\<lparr>m_other := without (m_other old)\<rparr>)"

definition removeMediaKey :: "missing_env \<Rightarrow> current_user \<Rightarrow> mcase \<Rightarrow> jstring \<Rightarrow> jstring \<Rightarrow> missing_state \<Rightarrow> mcase result \<times> missing_state" where
  "removeMediaKey env actor c key operation s =
     (if mi_legalHold c
      then (Inl (Conflict ''case_under_legal_hold''),
        mi_emit (emitCaseFailure actor ''MISSING_PERSON_UPDATED'' c ''case_under_legal_hold'' DENIED None [] []) s)
      else case media_column key (mi_media c) of None \<Rightarrow> (Inl (NotFound ''media_not_found_on_missing_person''), s)
      | Some field \<Rightarrow>
        let removedBytes = removed_bytes env [key] in
        res_bind (update_case (mn_now env) (mi_id c) (\<lambda>q. q\<lparr>mi_media := set_column field key (mi_media c) (mi_media q),
            mi_mediaTotalBytes := max 0 (mi_mediaTotalBytes c - removedBytes)\<rparr>) s)
          (\<lambda>u s1.
            let s2 = mi_emit (Purge key) s1; s3 = (if mi_status c = MC_APPROVED then invalidate_case (mi_id c) s2 else s2)
            in (Inr u, mi_emit (emitAudit (op_event actor u operation [(''field'', JStr field)]
                 [(''key'', JStr key), (''removedBytes'', JInt removedBytes)])) s3)))"

definition removeOwnerMedia :: "missing_env \<Rightarrow> current_user \<Rightarrow> jstring \<Rightarrow> jstring \<Rightarrow> missing_state \<Rightarrow> mcase result \<times> missing_state" where
  "removeOwnerMedia env user i key s = loadOwnCase user i s (\<lambda>c. removeMediaKey env user c key ''owner_remove_media'' s)"

definition removeMediaByAdmin :: "missing_env \<Rightarrow> current_user \<Rightarrow> jstring \<Rightarrow> jstring \<Rightarrow> missing_state \<Rightarrow> mcase result \<times> missing_state" where
  "removeMediaByAdmin env admin i key s = loadCase i s (\<lambda>c.
     assertNotClaimedByOther admin c ''MISSING_PERSON_UPDATED'' s (removeMediaKey env admin c key ''admin_remove_media'' s))"

section \<open>Flags of readers\<close>

definition flagCase :: "missing_env \<Rightarrow> current_user \<Rightarrow> jstring \<Rightarrow> jstring \<Rightarrow> jstring option \<Rightarrow> missing_state \<Rightarrow> mflag result \<times> missing_state" where
  "flagCase env user i reason details s =
     (case find_case i s of None \<Rightarrow> (Inl (NotFound ''missing_person_not_found''), s)
      | Some c \<Rightarrow>
        if mi_status c \<noteq> MC_APPROVED then (Inl (NotFound ''missing_person_not_found''), s)
        else if mi_userId c = Some (cu_id user) then (Inl (BadRequest ''cannot_flag_own_case''), s)
        else if find_where (\<lambda>f. mf_caseId f = i \<and> mf_reporterId f = cu_id user) (ms_flags s) \<noteq> None
        then (Inl (Conflict ''already_flagged_by_you''), s)
        else let f = \<lparr>mf_id = mn_newId env (ms_created s), mf_caseId = i, mf_reporterId = cu_id user, mf_reason = reason,
                 mf_details = details, mf_status = MF_OPEN, mf_resolvedAction = None, mf_resolvedById = None,
                 mf_resolvedAt = None, mf_resolutionNote = None, mf_createdAt = mn_now env\<rparr>
             in (Inr f, mi_emit (emitAudit (op_event user c ''reader_flag''
                  [(''flagId'', JStr (mf_id f)), (''reason'', JStr reason)] []))
                (s\<lparr>ms_flags := ms_flags s @ [f], ms_created := ms_created s + 1\<rparr>)))"

end
