(* ===== verification/Missing_Admin.thy ===== *)
theory Missing_Admin
  imports Missing_Owner
begin

text \<open>
  Administration of missing-person cases: takedowns, flags and appeals
  (\<open>missing-person-moderation.service.ts\<close>), deletion, legal holds, edits, messages and the child flag
  (\<open>missing-person-admin-ops.service.ts\<close>), merging (\<open>missing-person-duplicates.service.ts\<close>) and
  redaction requests (\<open>missing-person-media-admin.service.ts\<close>).
\<close>

section \<open>Moderation\<close>

definition handleUserSuspended :: "missing_env \<Rightarrow> jstring \<Rightarrow> missing_state \<Rightarrow> missing_state" where
  "handleUserSuspended env userId s =
     (let open_case = (\<lambda>c. mi_userId c = Some userId \<and> mi_status c \<notin> set TERMINAL_CASES \<and> mi_ownerSuspendedAt c = None);
          s1 = write_cases (mn_now env) open_case (\<lambda>q. q\<lparr>mi_ownerSuspendedAt := Some (mn_now env)\<rparr>) s in
      mi_emit (emitAudit ((audit_base SYSTEM ''MISSING_PERSON_UPDATED'' ''User'' userId)
        \<lparr>ae_targetUserId := Some userId,
         ae_entityLabel := (case find_where (\<lambda>u. cx_id u = userId) (ms_users s1) of None \<Rightarrow> None | Some u \<Rightarrow> cx_name u),
         ae_diff := [(''reason'', JStr ''owner_account_suspended''), (''result'', JStr ''success'')],
         ae_metadata := [(''casesFlagged'', JInt (int (count_where open_case (ms_cases s))))]\<rparr>)) s1)"

definition hidden :: "missing_env \<Rightarrow> current_user \<Rightarrow> jstring \<Rightarrow> mcase \<Rightarrow> mcase" where
  "hidden env admin reason q = q\<lparr>mi_status := MC_CANCELLED, mi_takedownReason := Some reason,
     mi_takedownAt := Some (mn_now env), mi_takedownById := Some (cu_id admin),
     mi_takedownPreviousStatus := Some MC_APPROVED, mi_claimedByUserId := None, mi_claimedAt := None\<rparr>"

text \<open>The last steps hideCase, liftTakedown and reopen share: reload, log, tell the owner.\<close>

definition announce_move :: "current_user \<Rightarrow> mcase \<Rightarrow> jstring \<Rightarrow> jstring \<Rightarrow> missing_state \<Rightarrow> mcase result \<times> missing_state" where
  "announce_move admin c operation reason s =
     loadCase (mi_id c) s (\<lambda>u. (Inr u, notifyOwner u (mi_emit (emitAudit ((op_event admin u operation
         [(''previousStatus'', jcstatus (mi_status c)), (''newStatus'', jcstatus (mi_status u))] [])
       \<lparr>ae_severity := CRITICAL, ae_reason := Some reason\<rparr>)) s)))"

definition hideCase :: "missing_env \<Rightarrow> current_user \<Rightarrow> mcase \<Rightarrow> jstring \<Rightarrow> jstring \<Rightarrow> missing_state \<Rightarrow> mcase result \<times> missing_state" where
  "hideCase env admin c reason operation s =
     (if count_where (case_in (mi_id c) MC_APPROVED) (ms_cases s) = 0
      then (Inl (Conflict ''missing_person_transition_conflict''), s)
      else announce_move admin c operation reason
        (invalidate_case (mi_id c) (write_cases (mn_now env) (case_in (mi_id c) MC_APPROVED) (hidden env admin reason) s)))"

definition resolved :: "missing_env \<Rightarrow> current_user \<Rightarrow> mflag_action \<Rightarrow> jstring \<Rightarrow> mflag \<Rightarrow> mflag" where
  "resolved env admin action reason f = f\<lparr>mf_status := MF_RESOLVED, mf_resolvedAction := Some action,
     mf_resolvedById := Some (cu_id admin), mf_resolvedAt := Some (mn_now env), mf_resolutionNote := Some reason\<rparr>"

definition flag_action_name :: "mflag_action \<Rightarrow> jstring" where
  "flag_action_name a = (case a of MA_DISMISS \<Rightarrow> ''DISMISS'' | MA_HIDE_CASE \<Rightarrow> ''HIDE_CASE'' | MA_WARN_OWNER \<Rightarrow> ''WARN_OWNER'')"

definition find_mflag :: "jstring \<Rightarrow> missing_state \<Rightarrow> mflag option" where
  "find_mflag i s = find_where (\<lambda>f. mf_id f = i) (ms_flags s)"

definition settle_flags :: "missing_env \<Rightarrow> current_user \<Rightarrow> mflag_action \<Rightarrow> jstring \<Rightarrow> (mflag \<Rightarrow> bool) \<Rightarrow> missing_state \<Rightarrow> missing_state" where
  "settle_flags env admin action reason P s = s\<lparr>ms_flags := update_where P (resolved env admin action reason) (ms_flags s)\<rparr>"

definition resolveCaseFlag_from :: "missing_env \<Rightarrow> current_user \<Rightarrow> mflag \<Rightarrow> mcase \<Rightarrow> mflag_action \<Rightarrow> jstring \<Rightarrow> missing_state
    \<Rightarrow> mflag result \<times> missing_state" where
  "resolveCaseFlag_from env admin flag c action reason s =
     (let finish = (\<lambda>s1.
          let s2 = mi_emit (emitAudit ((op_event admin c ''flag_resolved'' [(''flagId'', JStr (mf_id flag)),
                (''action'', JStr (flag_action_name action))] [])\<lparr>ae_reason := Some reason\<rparr>)) s1
          in case find_mflag (mf_id flag) s2 of None \<Rightarrow> (Inl (PlainError ''No MissingPersonFlag found''), s2) | Some f \<Rightarrow> (Inr f, s2)) in
      if action = MA_HIDE_CASE
      then res_bind (if mi_status c = MC_APPROVED then void (hideCase env admin c reason ''flag_hide_case'' s) else (Inr (), s))
        (\<lambda>_ s1. finish (settle_flags env admin action reason (\<lambda>f. mf_caseId f = mi_id c \<and> mf_status f = MF_OPEN) s1))
      else if find_mflag (mf_id flag) s = None then (Inl (PlainError ''Record to update not found''), s)
      else let s1 = settle_flags env admin action reason (\<lambda>f. mf_id f = mf_id flag) s in
        finish (if action = MA_WARN_OWNER then notifyOwner c (add_message env (mi_id c) admin True reason s1) else s1))"

definition resolveCaseFlag :: "missing_env \<Rightarrow> current_user \<Rightarrow> jstring \<Rightarrow> mflag_action \<Rightarrow> jstring \<Rightarrow> missing_state
    \<Rightarrow> mflag result \<times> missing_state" where
  "resolveCaseFlag env admin flagId action reason s =
     (case find_mflag flagId s of None \<Rightarrow> (Inl (NotFound ''flag_not_found''), s)
      | Some f \<Rightarrow>
        if mf_status f \<noteq> MF_OPEN then (Inl (Conflict ''flag_already_resolved''), s)
        else case find_case (mf_caseId f) s of None \<Rightarrow> (Inl DatabaseError, s)
          | Some c \<Rightarrow> resolveCaseFlag_from env admin f c action reason s)"

definition takedownCase :: "missing_env \<Rightarrow> current_user \<Rightarrow> jstring \<Rightarrow> jstring \<Rightarrow> missing_state \<Rightarrow> mcase result \<times> missing_state" where
  "takedownCase env admin i reason s = loadCase i s (\<lambda>c.
     if mi_status c \<noteq> MC_APPROVED then (Inl (BadRequest ''only_approved_cases_can_be_taken_down''), s)
     else hideCase env admin c reason ''takedown'' s)"

definition lifted :: "case_status \<Rightarrow> mcase \<Rightarrow> mcase" where
  "lifted restoreTo q = q\<lparr>mi_status := restoreTo, mi_takedownReason := None, mi_takedownAt := None,
     mi_takedownById := None, mi_takedownPreviousStatus := None\<rparr>"

definition liftCaseTakedown_from :: "missing_env \<Rightarrow> current_user \<Rightarrow> mcase \<Rightarrow> jstring \<Rightarrow> missing_state \<Rightarrow> mcase result \<times> missing_state" where
  "liftCaseTakedown_from env admin c reason s =
     (let down = (\<lambda>q. case_in (mi_id c) MC_CANCELLED q \<and> mi_takedownAt q \<noteq> None) in
      if mi_takedownAt c = None \<or> mi_deletedAt c \<noteq> None then (Inl (BadRequest ''case_is_not_taken_down''), s)
      else if count_where down (ms_cases s) = 0 then (Inl (Conflict ''missing_person_transition_conflict''), s)
      else announce_move admin c ''lift_takedown'' reason
        (invalidate_case (mi_id c)
          (write_cases (mn_now env) down (lifted (or_else (mi_takedownPreviousStatus c) MC_APPROVED)) s)))"

definition liftCaseTakedown :: "missing_env \<Rightarrow> current_user \<Rightarrow> jstring \<Rightarrow> jstring \<Rightarrow> missing_state \<Rightarrow> mcase result \<times> missing_state" where
  "liftCaseTakedown env admin i reason s = loadCase i s (\<lambda>c. liftCaseTakedown_from env admin c reason s)"

definition find_mappeal :: "jstring \<Rightarrow> missing_state \<Rightarrow> mappeal option" where
  "find_mappeal i s = find_where (\<lambda>a. ma_id a = i) (ms_appeals s)"

definition appeal_pending :: "jstring \<Rightarrow> mappeal \<Rightarrow> bool" where
  "appeal_pending = claimable ma_id ma_status [MP_PENDING]"

definition decided :: "missing_env \<Rightarrow> current_user \<Rightarrow> bool \<Rightarrow> jstring \<Rightarrow> mappeal \<Rightarrow> mappeal" where
  "decided env admin accepted reason a = a\<lparr>ma_status := (if accepted then MP_ACCEPTED else MP_DECLINED),
     ma_decidedById := Some (cu_id admin), ma_decidedAt := Some (mn_now env), ma_decisionNote := Some reason\<rparr>"

definition decideCaseAppeal_from :: "missing_env \<Rightarrow> current_user \<Rightarrow> mappeal \<Rightarrow> mcase \<Rightarrow> bool \<Rightarrow> jstring \<Rightarrow> missing_state
    \<Rightarrow> mappeal result \<times> missing_state" where
  "decideCaseAppeal_from env admin appeal c accepted reason s =
     (if count_where (appeal_pending (ma_id appeal)) (ms_appeals s) = 0 then (Inl (Conflict ''appeal_already_decided''), s)
      else let s1 = s\<lparr>ms_appeals := update_where (appeal_pending (ma_id appeal)) (decided env admin accepted reason) (ms_appeals s)\<rparr>;
               s2 = (if accepted then invalidate_case (mi_id c)
                   (write_cases (mn_now env) (case_in (mi_id c) MC_REJECTED) (\<lambda>q. q\<lparr>mi_status := MC_UNDER_REVIEW\<rparr>) s1) else s1);
               s3 = add_message env (mi_id c) admin False reason s2
      in loadCase (mi_id c) s3 (\<lambda>u.
           let s4 = notifyOwner u (mi_emit (emitAudit ((op_event admin u ''appeal_decided'' [(''appealId'', JStr (ma_id appeal)),
                 (''decision'', JStr (if accepted then ''ACCEPTED'' else ''DECLINED'')),
                 (''previousStatus'', jcstatus (mi_status c)), (''newStatus'', jcstatus (mi_status u))] [])
                \<lparr>ae_reason := Some reason\<rparr>)) s3)
           in case find_mappeal (ma_id appeal) s4 of None \<Rightarrow> (Inl (PlainError ''No MissingPersonAppeal found''), s4)
              | Some a \<Rightarrow> (Inr a, s4)))"

definition decideCaseAppeal :: "missing_env \<Rightarrow> current_user \<Rightarrow> jstring \<Rightarrow> bool \<Rightarrow> jstring \<Rightarrow> missing_state
    \<Rightarrow> mappeal result \<times> missing_state" where
  "decideCaseAppeal env admin appealId accepted reason s =
     (case find_mappeal appealId s of None \<Rightarrow> (Inl (NotFound ''appeal_not_found''), s)
      | Some a \<Rightarrow> (case find_case (ma_caseId a) s of None \<Rightarrow> (Inl DatabaseError, s)
          | Some c \<Rightarrow> decideCaseAppeal_from env admin a c accepted reason s))"

section \<open>Deletion and holds\<close>

definition not_deleted :: "jstring \<Rightarrow> mcase \<Rightarrow> bool" where
  "not_deleted i c \<longleftrightarrow> mi_id c = i \<and> mi_deletedAt c = None"

definition removed_by_admin :: "missing_env \<Rightarrow> current_user \<Rightarrow> mcase \<Rightarrow> jstring \<Rightarrow> mcase \<Rightarrow> mcase" where
  "removed_by_admin env admin c reason q = q\<lparr>mi_deletedAt := Some (mn_now env), mi_deletedById := Some (cu_id admin),
     mi_deleteReason := Some reason, mi_deletedPreviousStatus := Some (mi_status c), mi_claimedByUserId := None,
     mi_claimedAt := None, mi_status := (if mi_status c \<in> set TERMINAL_CASES then mi_status q else MC_CANCELLED)\<rparr>"

definition removeByAdmin_from :: "missing_env \<Rightarrow> current_user \<Rightarrow> mcase \<Rightarrow> jstring \<Rightarrow> missing_state \<Rightarrow> unit result \<times> missing_state" where
  "removeByAdmin_from env admin c reason s =
     (if mi_deletedAt c \<noteq> None then (Inl (Conflict ''case_already_deleted''), s)
      else if mi_legalHold c
      then (Inl (Conflict ''case_under_legal_hold''),
        mi_emit (emitCaseFailure admin ''MISSING_PERSON_DELETED'' c ''case_under_legal_hold'' DENIED None [] []) s)
      else if count_where (not_deleted (mi_id c)) (ms_cases s) = 0 then (Inl (Conflict ''case_already_deleted''), s)
      else (Inr (), mi_emit (emitAudit ((op_event admin c ''admin_soft_delete''
             [(''previousStatus'', jcstatus (mi_status c)),
              (''newStatus'', jcstatus (if mi_status c \<in> set TERMINAL_CASES then mi_status c else MC_CANCELLED))] [])
            \<lparr>ae_action := ''MISSING_PERSON_DELETED'', ae_severity := CRITICAL, ae_reason := Some reason\<rparr>))
          (invalidate_case (mi_id c)
            (write_cases (mn_now env) (not_deleted (mi_id c)) (removed_by_admin env admin c reason) s))))"

definition removeByAdmin :: "missing_env \<Rightarrow> current_user \<Rightarrow> jstring \<Rightarrow> jstring \<Rightarrow> missing_state \<Rightarrow> unit result \<times> missing_state" where
  "removeByAdmin env admin i reason s = loadCase i s (\<lambda>c. removeByAdmin_from env admin c reason s)"

definition restored_status :: "mcase \<Rightarrow> case_status option" where
  "restored_status c = (if mi_status c = MC_CANCELLED \<and> mi_takedownAt c = None then
     (case mi_deletedPreviousStatus c of None \<Rightarrow> None | Some p \<Rightarrow> if p \<in> set TERMINAL_CASES then None else Some p) else None)"

definition restoreCase_from :: "missing_env \<Rightarrow> current_user \<Rightarrow> mcase \<Rightarrow> jstring option \<Rightarrow> missing_state \<Rightarrow> mcase result \<times> missing_state" where
  "restoreCase_from env admin c reason s =
     (if mi_deletedAt c = None then (Inl (BadRequest ''case_is_not_deleted''), s)
      else res_bind (update_case (mn_now env) (mi_id c) (\<lambda>q. q\<lparr>mi_deletedAt := None, mi_deletedById := None,
            mi_deleteReason := None, mi_deletedPreviousStatus := None,
            mi_status := or_else (restored_status c) (mi_status q)\<rparr>) s)
          (\<lambda>_ s1. let s2 = invalidate_case (mi_id c) s1 in loadCase (mi_id c) s2 (\<lambda>u.
             (Inr u, notifyOwner u (mi_emit (emitAudit ((op_event admin u ''admin_restore''
                 [(''previousStatus'', jcstatus (mi_status c)), (''newStatus'', jcstatus (mi_status u))] [])
               \<lparr>ae_severity := WARNING, ae_reason := reason\<rparr>)) s2)))))"

definition restoreCase :: "missing_env \<Rightarrow> current_user \<Rightarrow> jstring \<Rightarrow> jstring option \<Rightarrow> missing_state \<Rightarrow> mcase result \<times> missing_state" where
  "restoreCase env admin i reason s = loadCase i s (\<lambda>c. restoreCase_from env admin c reason s)"

definition setCaseLegalHold :: "missing_env \<Rightarrow> current_user \<Rightarrow> jstring \<Rightarrow> bool \<Rightarrow> jstring \<Rightarrow> missing_state \<Rightarrow> mcase result \<times> missing_state" where
  "setCaseLegalHold env admin i hold reason s = loadCase i s (\<lambda>c.
     if mi_legalHold c = hold
     then (Inl (Conflict (if hold then ''legal_hold_already_set'' else ''no_legal_hold_to_release'')), s)
     else res_bind (update_case (mn_now env) i (\<lambda>q. if hold
           then q\<lparr>mi_legalHold := True, mi_legalHoldReason := Some reason, mi_legalHoldAt := Some (mn_now env),
                mi_legalHoldById := Some (cu_id admin)\<rparr>
           else q\<lparr>mi_legalHold := False, mi_legalHoldReason := None, mi_legalHoldAt := None, mi_legalHoldById := None\<rparr>) s)
         (\<lambda>u s1. (Inr u, mi_emit (emitAudit ((op_event admin u (if hold then ''legal_hold_placed'' else ''legal_hold_released'')
            [(''legalHold'', JBool hold)] [])\<lparr>ae_severity := CRITICAL, ae_reason := Some reason\<rparr>)) s1)))"

section \<open>Edits and messages\<close>

record case_edit_dto =
  ed_name :: "jstring option"
  ed_description :: "jstring option"
  ed_lastKnownArea :: "jstring option"
  ed_dateLastSeen :: "int option"
  ed_reason :: jstring

text \<open>Field, old and new value of what the edit changes; the date stands for its ISO text.\<close>

definition case_changes :: "mcase \<Rightarrow> case_edit_dto \<Rightarrow> (jstring \<times> jval \<times> jval) list" where
  "case_changes c d =
     (if ed_name d \<noteq> None \<and> ed_name d \<noteq> mi_name c then [(''name'', jstr_opt (mi_name c), jstr_opt (ed_name d))] else [])
     @ (case ed_description d of None \<Rightarrow> [] | Some x \<Rightarrow>
          if x \<noteq> mi_description c then [(''description'', JStr (mi_description c), JStr x)] else [])
     @ (case ed_lastKnownArea d of None \<Rightarrow> [] | Some x \<Rightarrow>
          if x \<noteq> mi_lastKnownArea c then [(''lastKnownArea'', JStr (mi_lastKnownArea c), JStr x)] else [])
     @ (case ed_dateLastSeen d of None \<Rightarrow> [] | Some x \<Rightarrow>
          if x \<noteq> mi_dateLastSeen c then [(''dateLastSeen'', JInt (mi_dateLastSeen c), JInt x)] else [])"

text \<open>Only changed fields are written; an unchanged one leaves its column as the row has it.\<close>

definition patch_case :: "mcase \<Rightarrow> case_edit_dto \<Rightarrow> mcase \<Rightarrow> mcase" where
  "patch_case c d q = q\<lparr>mi_name := (if ed_name d \<noteq> None \<and> ed_name d \<noteq> mi_name c then ed_name d else mi_name q),
     mi_description := (if ed_description d = Some (mi_description c) then mi_description q else or_else (ed_description d) (mi_description q)),
     mi_lastKnownArea := (if ed_lastKnownArea d = Some (mi_lastKnownArea c) then mi_lastKnownArea q
        else or_else (ed_lastKnownArea d) (mi_lastKnownArea q)),
     mi_dateLastSeen := (if ed_dateLastSeen d = Some (mi_dateLastSeen c) then mi_dateLastSeen q
        else or_else (ed_dateLastSeen d) (mi_dateLastSeen q))\<rparr>"

definition editByAdmin_from :: "missing_env \<Rightarrow> current_user \<Rightarrow> mcase \<Rightarrow> case_edit_dto \<Rightarrow> missing_state \<Rightarrow> mcase result \<times> missing_state" where
  "editByAdmin_from env admin c d s =
     assertNotClaimedByOther admin c ''MISSING_PERSON_UPDATED'' s
      (let changes = case_changes c d in
       if mi_status c \<notin> {MC_PENDING, MC_UNDER_REVIEW, MC_MORE_INFORMATION_REQUESTED} \<or> mi_deletedAt c \<noteq> None
       then (Inl (Forbidden ''case_not_editable_by_admin_in_current_status''), s)
       else if changes = [] then (Inl (BadRequest ''no_changes_provided''), s)
       else res_bind (update_case (mn_now env) (mi_id c) (patch_case c d) s)
         (\<lambda>u s1. (Inr u, mi_emit (emitAudit ((op_event admin u ''admin_edit''
             [(''fieldsChanged'', JArr (map (\<lambda>(f, _). JStr f) changes))] [])\<lparr>ae_reason := Some (ed_reason d)\<rparr>))
           (s1\<lparr>ms_revisions := ms_revisions s1 @ map (\<lambda>(f, old, new). \<lparr>mr_caseId = mi_id c, mr_field = f, mr_oldValue = old,
              mr_newValue = new, mr_changedById = cu_id admin, mr_reason = ed_reason d\<rparr>) changes\<rparr>))))"

definition editByAdmin :: "missing_env \<Rightarrow> current_user \<Rightarrow> jstring \<Rightarrow> case_edit_dto \<Rightarrow> missing_state \<Rightarrow> mcase result \<times> missing_state" where
  "editByAdmin env admin i d s = loadCase i s (\<lambda>c. editByAdmin_from env admin c d s)"

definition messageOwner :: "missing_env \<Rightarrow> current_user \<Rightarrow> jstring \<Rightarrow> jstring \<Rightarrow> missing_state \<Rightarrow> unit result \<times> missing_state" where
  "messageOwner env admin i message s = loadCase i s (\<lambda>c.
     (Inr (), notifyOwner c (mi_emit (emitAudit (op_event admin c ''message_owner''
        [(''messageId'', JStr (mn_newId env (ms_created s)))] [])) (add_message env i admin False message s))))"

definition propose_flag :: "missing_env \<Rightarrow> current_user \<Rightarrow> bool \<Rightarrow> jstring \<Rightarrow> mcase \<Rightarrow> mcase" where
  "propose_flag env admin value reason q = q\<lparr>mi_childFlagValue := Some value, mi_childFlagById := Some (cu_id admin),
     mi_childFlagAt := Some (mn_now env), mi_childFlagReason := Some reason\<rparr>"

definition apply_flag :: "case_person \<Rightarrow> mcase \<Rightarrow> mcase" where
  "apply_flag target q = q\<lparr>mi_personType := target, mi_childFlagValue := None, mi_childFlagById := None,
     mi_childFlagAt := None, mi_childFlagReason := None, mi_firstConfirmedBy := None, mi_firstConfirmedAt := None\<rparr>"

definition correctChildFlag_from :: "missing_env \<Rightarrow> current_user \<Rightarrow> mcase \<Rightarrow> bool \<Rightarrow> jstring \<Rightarrow> missing_state
    \<Rightarrow> (mcase \<times> bool) result \<times> missing_state" where
  "correctChildFlag_from env admin c involvesChild reason s =
     (let target = (if involvesChild then CP_CHILD else CP_WOMAN); same = (mi_childFlagValue c = Some involvesChild) in
      if mi_personType c = target then (Inl (BadRequest ''child_flag_already_set''), s)
      else if same \<and> mi_childFlagById c = Some (cu_id admin)
      then (Inl (BadRequest ''child_flag_requires_second_distinct_admin''), s)
      else if same \<and> truthy (mi_childFlagById c)
      then res_bind (update_case (mn_now env) (mi_id c) (apply_flag target) s)
        (\<lambda>u s1.
          let s2 = (if mi_status c = MC_APPROVED then invalidate_case (mi_id c) s1 else s1)
          in (Inr (u, False), mi_emit (emitAudit ((op_event admin u ''child_flag_corrected''
               [(''previousPersonType'', jperson (mi_personType c)), (''personType'', jperson (mi_personType u)),
                (''firstProposedBy'', jstr_opt (mi_childFlagById c))] [])
              \<lparr>ae_severity := WARNING, ae_reason := Some reason\<rparr>)) s2))
      else res_bind (update_case (mn_now env) (mi_id c) (propose_flag env admin involvesChild reason) s)
        (\<lambda>u s1. (Inr (u, True), mi_emit (emitAudit ((case_event admin ''MISSING_PERSON_UPDATED'' u)\<lparr>
            ae_targetUserId := target_owner admin u, ae_reason := Some reason,
            ae_diff := [(''proposedValue'', JBool involvesChild), (''result'', JStr ''success'')],
            ae_metadata := [(''operation'', JStr ''child_flag_first_confirmation'')]\<rparr>)) s1)))"

definition correctChildFlag :: "missing_env \<Rightarrow> current_user \<Rightarrow> jstring \<Rightarrow> bool \<Rightarrow> jstring \<Rightarrow> missing_state
    \<Rightarrow> (mcase \<times> bool) result \<times> missing_state" where
  "correctChildFlag env admin i involvesChild reason s =
     loadCase i s (\<lambda>c. correctChildFlag_from env admin c involvesChild reason s)"

section \<open>Merging and redaction\<close>

definition move_to :: "jstring \<Rightarrow> jstring \<Rightarrow> jstring \<Rightarrow> jstring" where
  "move_to from to i = (if i = from then to else i)"

definition merged_into :: "missing_env \<Rightarrow> current_user \<Rightarrow> jstring \<Rightarrow> mcase \<Rightarrow> mcase" where
  "merged_into env admin i q = q\<lparr>mi_mergedIntoId := Some i, mi_mergedAt := Some (mn_now env), mi_mergedById := Some (cu_id admin),
     mi_status := MC_CANCELLED, mi_closureReason := Some (''merged_into:'' @ i), mi_closedAt := Some (mn_now env),
     mi_claimedByUserId := None, mi_claimedAt := None\<rparr>"

definition merge_tx :: "missing_env \<Rightarrow> current_user \<Rightarrow> jstring \<Rightarrow> jstring \<Rightarrow> missing_state \<Rightarrow> missing_state" where
  "merge_tx env admin i dup s = (write_cases (mn_now env) (\<lambda>c. mi_id c = dup) (merged_into env admin i) s)
     \<lparr>ms_tips := map (apsnd (move_to dup i)) (ms_tips s),
      ms_updates := map (\<lambda>u. u\<lparr>mu_caseId := move_to dup i (mu_caseId u)\<rparr>) (ms_updates s)\<rparr>"

definition merge_from :: "missing_env \<Rightarrow> current_user \<Rightarrow> mcase \<Rightarrow> mcase \<Rightarrow> jstring option \<Rightarrow> missing_state \<Rightarrow> mcase result \<times> missing_state" where
  "merge_from env admin p d reason s =
     (if mi_deletedAt p \<noteq> None \<or> truthy (mi_mergedIntoId p) then (Inl (BadRequest ''target_case_not_available''), s)
      else if mi_deletedAt d \<noteq> None \<or> truthy (mi_mergedIntoId d) then (Inl (BadRequest ''duplicate_case_not_available''), s)
      else if mi_legalHold d then (Inl (Conflict ''duplicate_under_legal_hold''), s)
      else if find_case (mi_id d) s = None then (Inl (PlainError ''Record to update not found''), s)
      else if find_case (mi_id p) s = None then (Inl DatabaseError, s)
      else let s1 = mi_emit (emitAudit ((op_event admin d ''merged_into'' [(''mergedIntoId'', JStr (mi_id p)),
                   (''previousStatus'', jcstatus (mi_status d)), (''newStatus'', jcstatus MC_CANCELLED)] [])\<lparr>ae_reason := reason\<rparr>))
               (mi_emit (emitAudit ((op_event admin p ''merge'' [(''mergedDuplicateId'', JStr (mi_id d)),
                   (''duplicatePreviousStatus'', jcstatus (mi_status d))] [])\<lparr>ae_reason := reason\<rparr>))
                 (invalidate_case (mi_id d) (invalidate_case (mi_id p) (merge_tx env admin (mi_id p) (mi_id d) s))))
           in loadCase (mi_id p) s1 (\<lambda>u. (Inr u, s1)))"

definition mergeCases :: "missing_env \<Rightarrow> current_user \<Rightarrow> jstring \<Rightarrow> jstring \<Rightarrow> jstring option \<Rightarrow> missing_state \<Rightarrow> mcase result \<times> missing_state" where
  "mergeCases env admin i dup reason s =
     (if i = dup then (Inl (BadRequest ''cannot_merge_a_case_into_itself''), s)
      else loadCase i s (\<lambda>p. loadCase dup s (\<lambda>d. merge_from env admin p d reason s)))"

definition redactCaseMedia :: "missing_env \<Rightarrow> current_user \<Rightarrow> jstring \<Rightarrow> jstring \<Rightarrow> jstring \<Rightarrow> jstring option \<Rightarrow> missing_state
    \<Rightarrow> mredaction result \<times> missing_state" where
  "redactCaseMedia env admin i key mode reason s = loadCase i s (\<lambda>c.
     if mi_legalHold c then (Inl (Conflict ''case_under_legal_hold''), s)
     else if key \<notin> set (collectMediaFields (mi_media c)) then (Inl (NotFound ''media_not_found_on_missing_person''), s)
     else let r = \<lparr>mx_id = mn_newId env (ms_created s), mx_caseId = i, mx_mediaKey = key, mx_mode = mode, mx_reason = reason,
              mx_requestedById = cu_id admin\<rparr>
       in (Inr r, mi_emit (emitAudit ((op_event admin c ''redact_media_requested'' [(''mode'', JStr mode)] [(''key'', JStr key)])
             \<lparr>ae_severity := WARNING, ae_reason := reason\<rparr>))
           (s\<lparr>ms_redactions := ms_redactions s @ [r], ms_created := ms_created s + 1\<rparr>)))"

end
