(* ===== verification/Missing_Safety.thy ===== *)
theory Missing_Safety
  imports Missing_Admin
begin

text \<open>
  The life of a missing-person case as an abstract machine: what matters of a case is its status and
  whether it is taken down. Every operation of the services, run against the current rows, is one of
  the machine's moves.
\<close>

section \<open>Operations\<close>

datatype case_review =
    CClaim
  | CUnclaim
  | CStatus case_status "jstring option" "bool option"
  | CAssign jstring
  | CUnassign
  | CVerifyFound bool "jstring option"
  | CReopen jstring

datatype case_owner =
    CUpdate case_update_dto
  | CRemove
  | CDuplicate "jstring option"
  | CSeen
  | CReportFound jstring "int option" "jstring option"
  | CAppeal jstring
  | CRenewOwn "int option"
  | COwnUpdate jstring "jstring list"
  | CRemoveOwnMedia jstring
  | CFlag jstring "jstring option"

datatype case_admin =
    CResolveFlag mflag_action jstring
  | CTakedown jstring
  | CLift jstring
  | CDecide bool jstring
  | CDelete jstring
  | CRestore "jstring option"
  | CHold bool jstring
  | CMerge jstring "jstring option"

datatype case_staff =
    CEdit case_edit_dto
  | CMessage jstring
  | CChildFlag bool jstring
  | CRedact jstring jstring "jstring option"
  | CRenew "int option" "jstring option"
  | CStaffUpdate jstring "jstring list"
  | CRemoveMedia jstring

datatype missing_op =
    MReview current_user jstring case_review
  | MOwner current_user jstring case_owner
  | MAdmin current_user jstring case_admin
  | MStaff current_user jstring case_staff
  | MCreate current_user case_dto "jstring option"
  | MCreateAdmin current_user case_dto "jstring option"
  | MSeenAll current_user
  | MSuspended jstring

fun do_case_review :: "missing_env \<Rightarrow> current_user \<Rightarrow> jstring \<Rightarrow> case_review \<Rightarrow> missing_state \<Rightarrow> missing_state" where
  "do_case_review env u i CClaim s = snd (claimMissingPerson env u i s)"
| "do_case_review env u i CUnclaim s = snd (unclaimMissingPerson env u i s)"
| "do_case_review env u i (CStatus st n b) s = snd (updateCaseStatus env u i st n b s)"
| "do_case_review env u i (CAssign a) s = snd (assignCase env u i a s)"
| "do_case_review env u i CUnassign s = snd (unassignCase env u i s)"
| "do_case_review env u i (CVerifyFound b n) s = snd (verifyFound env u i b n s)"
| "do_case_review env u i (CReopen r) s = snd (reopenCase env u i r s)"

fun do_case_owner :: "missing_env \<Rightarrow> current_user \<Rightarrow> jstring \<Rightarrow> case_owner \<Rightarrow> missing_state \<Rightarrow> missing_state" where
  "do_case_owner env u i (CUpdate d) s = snd (updateCase env u i d s)"
| "do_case_owner env u i CRemove s = snd (removeCase u i s)"
| "do_case_owner env u i (CDuplicate k) s = snd (duplicateAsDraft env u i k s)"
| "do_case_owner env u i CSeen s = snd (markMyCaseSeen env u i s)"
| "do_case_owner env u i (CReportFound d t l) s = snd (reportFoundByOwner env u i d t l s)"
| "do_case_owner env u i (CAppeal r) s = snd (appealRejection env u i r s)"
| "do_case_owner env u i (CRenewOwn n) s = snd (renewByOwner env u i n s)"
| "do_case_owner env u i (COwnUpdate m ps) s = snd (addOwnerUpdate env u i m ps s)"
| "do_case_owner env u i (CRemoveOwnMedia k) s = snd (removeOwnerMedia env u i k s)"
| "do_case_owner env u i (CFlag r d) s = snd (flagCase env u i r d s)"

fun do_case_admin :: "missing_env \<Rightarrow> current_user \<Rightarrow> jstring \<Rightarrow> case_admin \<Rightarrow> missing_state \<Rightarrow> missing_state" where
  "do_case_admin env u f (CResolveFlag a r) s = snd (resolveCaseFlag env u f a r s)"
| "do_case_admin env u i (CTakedown r) s = snd (takedownCase env u i r s)"
| "do_case_admin env u i (CLift r) s = snd (liftCaseTakedown env u i r s)"
| "do_case_admin env u a (CDecide b r) s = snd (decideCaseAppeal env u a b r s)"
| "do_case_admin env u i (CDelete r) s = snd (removeByAdmin env u i r s)"
| "do_case_admin env u i (CRestore r) s = snd (restoreCase env u i r s)"
| "do_case_admin env u i (CHold b r) s = snd (setCaseLegalHold env u i b r s)"
| "do_case_admin env u i (CMerge d r) s = snd (mergeCases env u i d r s)"

fun do_case_staff :: "missing_env \<Rightarrow> current_user \<Rightarrow> jstring \<Rightarrow> case_staff \<Rightarrow> missing_state \<Rightarrow> missing_state" where
  "do_case_staff env u i (CEdit d) s = snd (editByAdmin env u i d s)"
| "do_case_staff env u i (CMessage m) s = snd (messageOwner env u i m s)"
| "do_case_staff env u i (CChildFlag b r) s = snd (correctChildFlag env u i b r s)"
| "do_case_staff env u i (CRedact k m r) s = snd (redactCaseMedia env u i k m r s)"
| "do_case_staff env u i (CRenew n r) s = snd (renewByAdmin env u i n r s)"
| "do_case_staff env u i (CStaffUpdate m ps) s = snd (addStaffUpdate env u i m ps s)"
| "do_case_staff env u i (CRemoveMedia k) s = snd (removeMediaByAdmin env u i k s)"

fun mexec :: "missing_env \<Rightarrow> missing_op \<Rightarrow> missing_state \<Rightarrow> missing_state" where
  "mexec env (MReview u i a) s = do_case_review env u i a s"
| "mexec env (MOwner u i a) s = do_case_owner env u i a s"
| "mexec env (MAdmin u i a) s = do_case_admin env u i a s"
| "mexec env (MStaff u i a) s = do_case_staff env u i a s"
| "mexec env (MCreate u d k) s = snd (createCase env u d k s)"
| "mexec env (MCreateAdmin u d k) s = snd (createByAdmin env u d k s)"
| "mexec env (MSeenAll u) s = snd (markAllMyCasesSeen env u s)"
| "mexec env (MSuspended u) s = handleUserSuspended env u s"

text \<open>A run: operations in their order, each with its own clock and configuration.\<close>

fun mrun :: "(missing_env \<times> missing_op) list \<Rightarrow> missing_state \<Rightarrow> missing_state" where
  "mrun [] s = s"
| "mrun ((env, op) # ops) s = mrun ops (mexec env op s)"

section \<open>The abstract machine\<close>

record case_view =
  cv_status :: case_status
  cv_down :: bool

definition view :: "mcase \<Rightarrow> case_view" where
  "view c = \<lparr>cv_status = mi_status c, cv_down = (mi_takedownAt c \<noteq> None)\<rparr>"

datatype case_change = Steady | Reviewing case_status | Hiding | Lifting_down | Reopening | Reconsidering
  | Deleting | Restoring | Merging | Resubmitting | Removing

text \<open>What each kind of move may do to a case besides nothing.\<close>

fun changes_to :: "case_change \<Rightarrow> case_view \<Rightarrow> case_view \<Rightarrow> bool" where
  "changes_to Steady a b = False"
| "changes_to (Reviewing st) a b = (st \<in> set (ALLOWED_TRANSITIONS (cv_status a)) \<and> b = a\<lparr>cv_status := st\<rparr>)"
| "changes_to Hiding a b = (cv_status a = MC_APPROVED \<and> b = \<lparr>cv_status = MC_CANCELLED, cv_down = True\<rparr>)"
| "changes_to Lifting_down a b = (cv_status a = MC_CANCELLED \<and> cv_down a \<and> \<not> cv_down b)"
| "changes_to Reopening a b = (\<not> cv_down a \<and> \<not> cv_down b \<and>
     (cv_status a = MC_CANCELLED \<and> cv_status b = MC_UNDER_REVIEW \<or>
      cv_status a \<in> {MC_FOUND, MC_EXPIRED} \<and> cv_status b = MC_APPROVED))"
| "changes_to Reconsidering a b = (cv_status a = MC_REJECTED \<and> b = a\<lparr>cv_status := MC_UNDER_REVIEW\<rparr>)"
| "changes_to Deleting a b = (cv_status a \<notin> set TERMINAL_CASES \<and> b = a\<lparr>cv_status := MC_CANCELLED\<rparr>)"
| "changes_to Restoring a b = (cv_status a = MC_CANCELLED \<and> \<not> cv_down a \<and> \<not> cv_down b \<and> cv_status b \<notin> set TERMINAL_CASES)"
| "changes_to Merging a b = (b = a\<lparr>cv_status := MC_CANCELLED\<rparr>)"
| "changes_to Resubmitting a b = (cv_status a = MC_MORE_INFORMATION_REQUESTED \<and> b = a\<lparr>cv_status := MC_PENDING\<rparr>)"
| "changes_to Removing a b = False"

text \<open>The one case that may change, where the call names it, and how.\<close>

type_synonym case_move = "jstring option \<times> case_change"

definition cmove :: "case_move \<Rightarrow> jstring \<Rightarrow> case_view \<Rightarrow> case_view \<Rightarrow> bool" where
  "cmove l i a b \<longleftrightarrow> b = a \<or> (fst l = None \<or> fst l = Some i) \<and> changes_to (snd l) a b"

fun move_of :: "missing_op \<Rightarrow> case_move" where
  "move_of (MReview u i (CStatus st n b)) = (Some i, Reviewing st)"
| "move_of (MReview u i (CVerifyFound b n)) = (Some i, Reviewing MC_FOUND)"
| "move_of (MReview u i (CReopen r)) = (Some i, Reopening)"
| "move_of (MOwner u i (CUpdate d)) = (Some i, Resubmitting)"
| "move_of (MOwner u i CRemove) = (Some i, Removing)"
| "move_of (MAdmin u f (CResolveFlag a r)) = (None, Hiding)"
| "move_of (MAdmin u i (CTakedown r)) = (Some i, Hiding)"
| "move_of (MAdmin u i (CLift r)) = (Some i, Lifting_down)"
| "move_of (MAdmin u a (CDecide b r)) = (None, Reconsidering)"
| "move_of (MAdmin u i (CDelete r)) = (Some i, Deleting)"
| "move_of (MAdmin u i (CRestore r)) = (Some i, Restoring)"
| "move_of (MAdmin u i (CMerge d r)) = (Some d, Merging)"
| "move_of _ = (None, Steady)"

fun creates :: "missing_op \<Rightarrow> bool" where
  "creates (MCreate _ _ _) = True"
| "creates (MCreateAdmin _ _ _) = True"
| "creates (MOwner _ _ (CDuplicate _)) = True"
| "creates _ = False"

definition first_view :: "case_view \<Rightarrow> bool" where
  "first_view a \<longleftrightarrow> cv_status a \<in> {MC_PENDING, MC_UNDER_REVIEW, MC_APPROVED} \<and> \<not> cv_down a"

definition mkeys :: "missing_state \<Rightarrow> bool" where
  "mkeys s \<longleftrightarrow> distinct (map mi_id (ms_cases s))"

text \<open>
  Rows keep their id; only a pending case is ever removed, by the call that names it, and a new case has
  an id of its own.
\<close>

definition kept_ids :: "case_move \<Rightarrow> missing_state \<Rightarrow> missing_state \<Rightarrow> bool" where
  "kept_ids l s t \<longleftrightarrow> (\<forall>p \<in> set (ms_cases s). mi_id p \<in> mi_id ` set (ms_cases t) \<or>
     l = (Some (mi_id p), Removing) \<and> mi_status p = MC_PENDING)"

definition cmoves :: "case_move \<Rightarrow> bool \<Rightarrow> missing_state \<Rightarrow> missing_state \<Rightarrow> bool" where
  "cmoves l new s t \<longleftrightarrow> mkeys t \<and> kept_ids l s t \<and> (\<forall>q \<in> set (ms_cases t).
     (\<exists>p \<in> set (ms_cases s). mi_id p = mi_id q \<and> cmove l (mi_id q) (view p) (view q)) \<or>
     (new \<and> mi_id q \<notin> mi_id ` set (ms_cases s) \<and> first_view (view q)))"

lemma cmove_refl [simp]: "cmove l i a a"
  by (simp add: cmove_def)

lemma cmoves_refl: "mkeys s \<Longrightarrow> cmoves l n s s"
  by (auto simp: cmoves_def kept_ids_def)

lemma cmoves_cong: "ms_cases t = ms_cases t' \<Longrightarrow> cmoves l n s t \<longleftrightarrow> cmoves l n s t'"
  by (simp add: cmoves_def mkeys_def kept_ids_def)

lemma cases_emit [simp]:
  "ms_cases (mi_emit e s) = ms_cases s" "ms_cases (notifyOwner c s) = ms_cases s"
  "ms_cases (invalidate_case i s) = ms_cases s" "ms_cases (add_message env i u w m s) = ms_cases s"
  "ms_cases (settle_flags env u a r P s) = ms_cases s" "ms_cases (maybeFlagUserForRejections env x s) = ms_cases s"
  by (simp_all add: mi_emit_def notifyOwner_def invalidate_case_def add_message_def settle_flags_def
      maybeFlagUserForRejections_def Let_def)

lemma cmoves_emit [simp]:
  "cmoves l n s (mi_emit e t) \<longleftrightarrow> cmoves l n s t" "cmoves l n s (invalidate_case i t) \<longleftrightarrow> cmoves l n s t"
  "cmoves l n s (add_message env i u w m t) \<longleftrightarrow> cmoves l n s t" "cmoves l n s (notifyOwner c t) \<longleftrightarrow> cmoves l n s t"
  by (rule cmoves_cong, simp)+

lemma cases_delete_files [simp]: "ms_cases (delete_files ks s) = ms_cases s"
  unfolding delete_files_def by (induction ks arbitrary: s) simp_all

lemma read_row:
  assumes "mkeys s" "find_case i s = Some c" "q \<in> set (ms_cases s)" "mi_id q = i"
  shows "q = c"
  using assms find_key_unique [of mi_id "ms_cases s" q] by (auto simp: mkeys_def find_case_def)

lemma find_case_row: "mkeys s \<Longrightarrow> q \<in> set (ms_cases s) \<Longrightarrow> find_case (mi_id q) s = Some q"
  unfolding mkeys_def find_case_def by (rule find_key_unique)

lemma cmoves_write:
  assumes "mkeys s" "\<And>q. mi_id (f q) = mi_id q"
    "\<And>q. find_case (mi_id q) s = Some q \<Longrightarrow> P q \<Longrightarrow> cmove l (mi_id q) (view q) (view (f q))"
  shows "cmoves l n s (write_cases now P f s)"
proof -
  let ?g = "\<lambda>c. (f c)\<lparr>mi_updatedAt := now\<rparr>"
  have ids: "map mi_id (update_where P ?g (ms_cases s)) = map mi_id (ms_cases s)"
    by (rule map_update_where) (simp add: assms(2))
  have v: "view (?g q) = view (f q)" for q by (simp add: view_def)
  have "\<exists>p \<in> set (ms_cases s). mi_id p = mi_id q \<and> cmove l (mi_id q) (view p) (view q)"
    if "q \<in> set (update_where P ?g (ms_cases s))" for q
  proof -
    from that obtain r where r: "r \<in> set (ms_cases s)" "q = (if P r then ?g r else r)"
      by (auto simp: in_update_where)
    then have "mi_id r = mi_id q" by (simp add: assms(2))
    moreover have "cmove l (mi_id r) (view r) (view q)"
      using r assms(3) [OF find_case_row [OF assms(1) r(1)]] v [of r] by simp
    ultimately show ?thesis using r(1) by (intro bexI [where x = r]) simp_all
  qed
  moreover have "kept_ids l s (write_cases now P f s)"
    using arg_cong [OF ids, of set] by (auto simp: kept_ids_def write_cases_def)
  ultimately show ?thesis using assms(1) by (simp add: cmoves_def mkeys_def write_cases_def ids)
qed

lemma cmoves_update:
  assumes "mkeys s" "\<And>q. mi_id (f q) = mi_id q"
    "\<And>q. find_case i s = Some q \<Longrightarrow> cmove l i (view q) (view (f q))"
  shows "cmoves l n s (snd (update_case now i f s))"
proof -
  have "cmoves l n s (write_cases now (\<lambda>c. mi_id c = i) f s)"
    by (rule cmoves_write [OF assms(1,2)]) (use assms(3) in auto)
  with assms(1) show ?thesis by (simp add: update_case_def Let_def cmoves_refl split: option.splits)
qed

lemma cmoves_keys: "cmoves l n s t \<Longrightarrow> mkeys t"
  by (simp add: cmoves_def)

lemma cmove_steady: "cmove (x, Steady) i a b \<longleftrightarrow> b = a"
  by (simp add: cmove_def)

lemma cmoves_trans:
  assumes "cmoves l n s t" "cmoves (None, Steady) False t r"
  shows "cmoves l n s r"
proof -
  have ids: "mi_id ` set (ms_cases t) \<subseteq> mi_id ` set (ms_cases r)"
    using assms(2) by (auto simp: cmoves_def kept_ids_def)
  have "(\<exists>p \<in> set (ms_cases s). mi_id p = mi_id q \<and> cmove l (mi_id q) (view p) (view q)) \<or>
      n \<and> mi_id q \<notin> mi_id ` set (ms_cases s) \<and> first_view (view q)"
    if "q \<in> set (ms_cases r)" for q
  proof -
    from that assms(2) obtain p where p: "p \<in> set (ms_cases t)" "mi_id p = mi_id q" "view q = view p"
      by (auto simp: cmoves_def cmove_steady)
    with assms(1) show ?thesis unfolding cmoves_def by (metis (no_types, lifting))
  qed
  moreover have "kept_ids l s r" using assms(1) ids unfolding cmoves_def kept_ids_def by blast
  ultimately show ?thesis using assms(2) by (simp add: cmoves_def)
qed

text \<open>How the calls compose.\<close>

lemma cmoves_pair: "mkeys s \<Longrightarrow> ms_cases t = ms_cases s \<Longrightarrow> cmoves l n s (snd (r, t))"
  using cmoves_cong [of t s l n s] by (simp add: cmoves_refl)

lemma cmoves_if: "(b \<Longrightarrow> cmoves l n s (snd x)) \<Longrightarrow> (\<not> b \<Longrightarrow> cmoves l n s (snd y)) \<Longrightarrow> cmoves l n s (snd (if b then x else y))"
  by simp

lemma cmoves_case:
  "(x = None \<Longrightarrow> cmoves l n s (snd a)) \<Longrightarrow> (\<And>y. x = Some y \<Longrightarrow> cmoves l n s (snd (b y))) \<Longrightarrow>
   cmoves l n s (snd (case x of None \<Rightarrow> a | Some y \<Rightarrow> b y))"
  by (cases x) simp_all

lemma cmoves_sum:
  "(\<And>e. x = Inl e \<Longrightarrow> cmoves l n s (snd (a e))) \<Longrightarrow> (\<And>y. x = Inr y \<Longrightarrow> cmoves l n s (snd (b y))) \<Longrightarrow>
   cmoves l n s (snd (case x of Inl e \<Rightarrow> a e | Inr y \<Rightarrow> b y))"
  by (cases x) simp_all

lemma cmoves_split: "(\<And>x y. p = (x, y) \<Longrightarrow> cmoves l n s (snd (f x y))) \<Longrightarrow> cmoves l n s (snd (case p of (x, y) \<Rightarrow> f x y))"
  by (cases p) simp

lemma cmoves_bind:
  assumes "cmoves l n s (snd m)" "\<And>x t. mkeys t \<Longrightarrow> cmoves (None, Steady) False t (snd (k x t))"
  shows "cmoves l n s (snd (res_bind m k))"
proof (cases m)
  case (Pair r t)
  with assms(1) have t: "cmoves l n s t" by simp
  with Pair cmoves_trans [OF t assms(2) [OF cmoves_keys [OF t]]] show ?thesis
    by (cases r) (simp_all add: res_bind_def)
qed

lemma cmoves_void: "cmoves l n s (snd m) \<Longrightarrow> cmoves l n s (snd (void m))"
  unfolding void_def by (rule cmoves_bind) (simp_all add: cmoves_refl)

lemma cmoves_load:
  assumes "mkeys s" "\<And>c. find_case i s = Some c \<Longrightarrow> mi_id c = i \<Longrightarrow> cmoves l n s (snd (k c))"
  shows "cmoves l n s (snd (loadCase i s k))"
  using assms by (auto simp: loadCase_def find_case_def cmoves_refl split: option.splits dest: find_where_SomeD)

lemma cmoves_load_own:
  assumes "mkeys s" "\<And>c. find_case i s = Some c \<Longrightarrow> mi_id c = i \<Longrightarrow> cmoves l n s (snd (k c))"
  shows "cmoves l n s (snd (loadOwnCase u i s k))"
  using assms by (auto simp: loadOwnCase_def find_case_def cmoves_refl split: option.splits dest: find_where_SomeD)

lemma cmoves_assert:
  "mkeys s \<Longrightarrow> cmoves l n s (snd rest) \<Longrightarrow> cmoves l n s (snd (assertNotClaimedByOther u c a s rest))"
  using cmoves_cong [of "mi_emit e s" s for e] by (simp add: assertNotClaimedByOther_def cmoves_refl)

text \<open>What follows a write reads the row again and logs.\<close>

lemma cases_load: "(\<And>c. ms_cases (snd (k c)) = ms_cases s) \<Longrightarrow> ms_cases (snd (loadCase i s k)) = ms_cases s"
  by (simp add: loadCase_def split: option.splits)

lemma cmoves_after: "cmoves l n s t \<Longrightarrow> ms_cases (snd x) = ms_cases t \<Longrightarrow> cmoves l n s (snd x)"
  using cmoves_cong by blast

lemma cmoves_reload:
  "cmoves l n s t \<Longrightarrow> (\<And>c. ms_cases (snd (k c)) = ms_cases t) \<Longrightarrow> cmoves l n s (snd (loadCase i t k))"
  using cmoves_after [of l n s t "k c" for c] by (cases "find_case i t") (simp_all add: loadCase_def)

lemmas cmoves_rules = cmoves_load cmoves_load_own cmoves_assert cmoves_if cmoves_case cmoves_sum cmoves_split cmoves_bind
  cmoves_void cmoves_update cmoves_pair

lemmas view_simps = view_def cmove_def

section \<open>Simulation\<close>

lemma case_claim_moves:
  assumes "mkeys s"
  shows "cmoves l n s (snd (claimMissingPerson env u i s))" "cmoves l n s (snd (unclaimMissingPerson env u i s))"
    "cmoves l n s (snd (assignCase env u i a s))" "cmoves l n s (snd (unassignCase env u i s))"
  unfolding claimMissingPerson_def claimMissingPerson_from_def unclaimMissingPerson_def unclaimMissingPerson_from_def
    assignCase_def unassignCase_def
  by (intro cmoves_rules assms; simp add: view_simps)+

lemma case_move_moves:
  assumes "mkeys s" "find_case (mi_id c) s = Some c" "st \<in> set (ALLOWED_TRANSITIONS (mi_status c))"
  shows "cmoves (Some (mi_id c), Reviewing st) n s (snd (move_case env u c st note child s))"
proof -
  have "cmoves (Some (mi_id c), Reviewing st) n s (write_cases (mn_now env) (case_in (mi_id c) (mi_status c)) (moved st note) s)"
    by (rule cmoves_write) (use assms in \<open>auto simp: moved_def view_simps case_in_def claimable_def\<close>)
  note w = this
  show ?thesis
    unfolding move_case_def Let_def
    by (rule cmoves_if, rule cmoves_pair [OF assms(1)], simp) (rule cmoves_after [OF w], simp split: option.splits)
qed

lemma case_ensure_moves:
  assumes "mkeys s"
  shows "cmoves l n s (snd (ensureCaseSafety env c u b s))"
  unfolding ensureCaseSafety_def
  by (intro cmoves_rules assms; simp add: view_simps)

lemma ensure_same: "ensureCaseSafety env c u b s = (Inr x, t) \<Longrightarrow> x \<noteq> FirstConfirmationRecorded \<Longrightarrow> t = s"
  by (auto simp: ensureCaseSafety_def res_bind_def split: if_splits prod.splits sum.splits)

lemma case_status_moves:
  assumes "mkeys s" "find_case (mi_id c) s = Some c"
  shows "cmoves (Some (mi_id c), Reviewing st) n s (snd (updateCaseStatus_from env u c st note b s))"
proof -
  have guarded: "cmoves (Some (mi_id c), Reviewing st) n s (snd (res_bind (ensureCaseSafety env c u b s)
      (\<lambda>safety s1. if safety \<noteq> FirstConfirmationRecorded then move_case env u c st note True s1
         else case find_case (mi_id c) s1 of None \<Rightarrow> (Inl e, s1) | Some q \<Rightarrow> (Inr (q, True), mi_emit (ev q) s1))))"
    if "st \<in> set (ALLOWED_TRANSITIONS (mi_status c))" for e ev
  proof (cases "ensureCaseSafety env c u b s")
    case (Pair r t)
    with case_ensure_moves [OF assms(1), of "(Some (mi_id c), Reviewing st)" n env c u b]
    have t: "cmoves (Some (mi_id c), Reviewing st) n s t" by simp
    show ?thesis
    proof (cases r)
      case (Inr x)
      show ?thesis
      proof (cases "x = FirstConfirmationRecorded")
        case True
        with Pair Inr show ?thesis
          by (simp add: res_bind_def) (rule cmoves_after [OF t], simp split: option.splits)
      next
        case False
        with Pair Inr ensure_same have "t = s" by blast
        with False Pair Inr case_move_moves [OF assms that] show ?thesis by (simp add: res_bind_def)
      qed
    qed (simp add: Pair res_bind_def t)
  qed
  show ?thesis
    unfolding updateCaseStatus_from_def Let_def
    by (intro cmoves_if cmoves_assert guarded case_move_moves cmoves_pair assms; simp)
qed

lemma case_update_status_moves:
  assumes "mkeys s"
  shows "cmoves (Some i, Reviewing st) n s (snd (updateCaseStatus env u i st note b s))"
  unfolding updateCaseStatus_def
  by (intro cmoves_load assms) (use case_status_moves [OF assms] in blast)

lemma case_found_moves:
  assumes "mkeys s"
  shows "cmoves (Some i, Reviewing MC_FOUND) n s (snd (verifyFound env u i b note s))"
proof -
  have upd: "cmoves (None, Steady) False t (snd (res_bind (update_case now j (\<lambda>q. q\<lparr>mi_foundReportResolvedAt := x,
      mi_foundReportConfirmed := y, mi_closedAt := z, mi_closureReason := w\<rparr>) t) (\<lambda>r t'. (Inr r, mi_emit (e r) t'))))"
    if "mkeys t" for t now j x y z w e
    by (intro cmoves_rules that; simp add: view_simps)
  show ?thesis
    unfolding verifyFound_def verifyFound_from_def
    by (intro cmoves_load cmoves_if; (intro cmoves_rules assms)?)
       (auto intro: cmoves_pair cmoves_bind upd case_update_status_moves assms simp: view_simps cmoves_refl)
qed

lemma case_reopen_moves:
  assumes "mkeys s"
  shows "cmoves (Some i, Reopening) n s (snd (reopenCase env u i r s))"
proof -
  have w: "cmoves (Some i, Reopening) n s (write_cases (mn_now env) (case_in (mi_id c) (mi_status c)) (reopened env c) s)"
    if "find_case i s = Some c" "mi_id c = i" "\<not> mi_takedownAt c \<noteq> None"
      "\<not> mi_status c \<notin> {MC_EXPIRED, MC_CANCELLED, MC_FOUND}" for c
    by (rule cmoves_write) (use assms that in \<open>auto simp: reopened_def reopen_target_def view_simps case_in_def claimable_def\<close>)
  show ?thesis
    unfolding reopenCase_def reopenCase_from_def Let_def
    by (intro cmoves_load cmoves_if assms; (rule cmoves_pair [OF assms refl])?)
       (rule cmoves_reload, unfold cmoves_emit, rule w, assumption+, simp)
qed

lemma case_insert_moves:
  assumes "mkeys s" "first_view (view c)"
  shows "cmoves l True s (snd (insert_case c s))"
  using assms find_case_row
  by (auto simp: insert_case_def cmoves_def kept_ids_def mkeys_def find_case_def find_where_None_iff cmove_def)

lemma case_race_moves:
  assumes "mkeys s" "first_view (view c)"
  shows "cmoves l True s (snd (create_with_race u key c s))"
proof (cases "insert_case c s")
  case (Pair r t)
  with case_insert_moves [OF assms, of l] have "cmoves l True s t" by simp
  with Pair show ?thesis
    by (simp add: create_with_race_def split: sum.split error.split option.split)
qed

lemma case_create_moves:
  assumes "mkeys s"
  shows "cmoves l True s (snd (createCase env u d k s))" "cmoves l True s (snd (createByAdmin env u d k s))"
    "cmoves l True s (snd (duplicateAsDraft env u i k s))"
proof -
  have f: "first_view (view (new_case env u d m nb st k s))" if "st \<in> {MC_PENDING, MC_UNDER_REVIEW, MC_APPROVED}" for m nb st
    using that by (simp add: first_view_def view_def new_case_def blank_case_def)
  show "cmoves l True s (snd (createCase env u d k s))" "cmoves l True s (snd (createByAdmin env u d k s))"
    unfolding createCase_def createByAdmin_def Let_def
    by (intro cmoves_case cmoves_if cmoves_sum cmoves_split cmoves_bind case_race_moves f cmoves_pair assms; simp)+
  have ins: "cmoves l True s (snd (case insert_case c s of
        (Inl UniqueViolation, s1) \<Rightarrow> (case find_by_case_key u k s1 of Some winner \<Rightarrow> (Inr winner, s1) | None \<Rightarrow> (Inl UniqueViolation, s1))
      | (Inl e, s1) \<Rightarrow> (Inl e, s1)
      | (Inr c, s1) \<Rightarrow> (Inr c, mi_emit (ev c) s1)))" if "first_view (view c)" for c ev
  proof (cases "insert_case c s")
    case (Pair r t)
    with case_insert_moves [OF assms that, of l] have "cmoves l True s t" by simp
    with Pair show ?thesis
      by (auto split: sum.split error.split option.split)
  qed
  show "cmoves l True s (snd (duplicateAsDraft env u i k s))"
    unfolding duplicateAsDraft_def
    by (intro cmoves_load_own cmoves_case cmoves_if ins cmoves_pair assms; simp add: first_view_def view_def blank_case_def)
qed

lemma case_mine_moves:
  assumes "mkeys s"
  shows "cmoves l n s (snd (markMyCaseSeen env u i s))" "cmoves l n s (snd (reportFoundByOwner env u i d da lo s))"
    "cmoves l n s (snd (appealRejection env u i r s))" "cmoves l n s (snd (renewByOwner env u i days s))"
    "cmoves l n s (snd (renewByAdmin env u i days rr s))" "cmoves l n s (snd (addOwnerUpdate env u i m ps s))"
    "cmoves l n s (snd (addStaffUpdate env u i m ps s))" "cmoves l n s (snd (removeOwnerMedia env u i key s))"
    "cmoves l n s (snd (removeMediaByAdmin env u i key s))" "cmoves l n s (snd (flagCase env u i r rr s))"
  unfolding markMyCaseSeen_def reportFoundByOwner_def reportFoundByOwner_from_def appealRejection_def renewByOwner_def
    renewByAdmin_def applyRenewal_def addOwnerUpdate_def addStaffUpdate_def createCaseUpdate_def removeOwnerMedia_def
    removeMediaByAdmin_def removeMediaKey_def flagCase_def Let_def
  by (intro cmoves_rules assms; simp add: view_simps)+

lemma case_seen_moves:
  assumes "mkeys s"
  shows "cmoves l n s (snd (markAllMyCasesSeen env u s))" "cmoves l n s (handleUserSuspended env x s)"
  unfolding markAllMyCasesSeen_def handleUserSuspended_def Let_def
  by (simp_all, (intro cmoves_write assms; simp add: view_simps)+)

lemma case_update_moves:
  assumes "mkeys s"
  shows "cmoves (Some i, Resubmitting) n s (snd (updateCase env u i d s))"
  unfolding updateCase_def updateCase_from_def Let_def
  by (intro cmoves_rules assms; simp add: write_case_def view_simps; auto)

lemma case_remove_moves:
  assumes "mkeys s"
  shows "cmoves (Some i, Removing) n s (snd (removeCase u i s))"
proof -
  have "cmoves (Some i, Removing) n s (delete_case i s)" if "find_case i s = Some c" "mi_status c = MC_PENDING" for c
  proof -
    let ?f = "\<lambda>c. if mi_mergedIntoId c = Some i then c\<lparr>mi_mergedIntoId := None\<rparr> else c"
    have v: "view (?f c) = view c" "mi_id (?f c) = mi_id c" for c by (simp_all add: view_def)
    have rows: "ms_cases (delete_case i s) = map ?f (filter (\<lambda>c. mi_id c \<noteq> i) (ms_cases s))" by (simp add: delete_case_def)
    have "map mi_id (ms_cases (delete_case i s)) = map mi_id (filter (\<lambda>c. mi_id c \<noteq> i) (ms_cases s))"
      unfolding rows map_map comp_def v(2) by simp
    then have keys: "mkeys (delete_case i s)" using assms by (simp add: mkeys_def distinct_map_filter)
    have "\<exists>p \<in> set (ms_cases s). mi_id p = mi_id q \<and> cmove (Some i, Removing) (mi_id q) (view p) (view q)"
      if "q \<in> set (ms_cases (delete_case i s))" for q
    proof -
      from that obtain p where "p \<in> set (ms_cases s)" "q = ?f p" unfolding rows by auto
      with v [of p] show ?thesis by (intro bexI [where x = p]) simp_all
    qed
    moreover have "kept_ids (Some i, Removing) s (delete_case i s)"
    proof -
      have "mi_id p \<in> mi_id ` set (ms_cases (delete_case i s)) \<or> (Some i, Removing) = (Some (mi_id p), Removing) \<and> mi_status p = MC_PENDING"
        if p: "p \<in> set (ms_cases s)" for p
      proof (cases "mi_id p = i")
        case True
        with find_case_row [OF assms p] that show ?thesis
          using \<open>find_case i s = Some c\<close> \<open>mi_status c = MC_PENDING\<close> by simp
      next
        case False
        with p have "?f p \<in> set (ms_cases (delete_case i s))" unfolding rows by auto
        then have "mi_id (?f p) \<in> mi_id ` set (ms_cases (delete_case i s))" by (rule imageI)
        then show ?thesis by (simp only: v(2) simp_thms)
      qed
      then show ?thesis by (simp add: kept_ids_def)
    qed
    ultimately show ?thesis using keys by (simp add: cmoves_def)
  qed
  then have d: "cmoves (Some i, Removing) n s (delete_files ks (delete_case i s))"
    if "find_case i s = Some c" "mi_status c = MC_PENDING" for c ks
    using that cmoves_cong [of "delete_files ks (delete_case i s)" "delete_case i s"] by simp
  show ?thesis
    unfolding removeCase_def removeCase_from_def Let_def
    by (intro cmoves_load cmoves_if assms; (rule cmoves_pair [OF assms], simp; fail)?; simp add: d)
qed

lemma case_hide_moves:
  assumes "mkeys s" "x = None \<or> x = Some (mi_id c)"
  shows "cmoves (x, Hiding) n s (snd (hideCase env u c r op s))"
proof -
  have w: "cmoves (x, Hiding) n s (write_cases (mn_now env) (case_in (mi_id c) MC_APPROVED) (hidden env u r) s)"
    by (rule cmoves_write) (use assms in \<open>auto simp: hidden_def view_simps case_in_def claimable_def\<close>)
  show ?thesis
    unfolding hideCase_def announce_move_def
    by (rule cmoves_if, rule cmoves_pair [OF assms(1) refl])
       (rule cmoves_after [OF w], simp add: loadCase_def split: option.splits)
qed

lemma case_takedown_moves:
  assumes "mkeys s"
  shows "cmoves (Some i, Hiding) n s (snd (takedownCase env u i r s))"
  unfolding takedownCase_def by (intro cmoves_load cmoves_if case_hide_moves cmoves_pair assms; simp)

lemma case_resolve_moves:
  assumes "mkeys s"
  shows "cmoves (None, Hiding) n s (snd (resolveCaseFlag env u f a r s))"
  unfolding resolveCaseFlag_def resolveCaseFlag_from_def Let_def
  by (intro cmoves_case cmoves_if cmoves_bind cmoves_void case_hide_moves cmoves_pair assms; simp)

lemma case_lift_moves:
  assumes "mkeys s"
  shows "cmoves (Some i, Lifting_down) n s (snd (liftCaseTakedown env u i r s))"
proof -
  have w: "cmoves (Some i, Lifting_down) n s (write_cases (mn_now env) (\<lambda>q. case_in (mi_id c) MC_CANCELLED q \<and> mi_takedownAt q \<noteq> None)
      (lifted st) s)" if "mi_id c = i" for c st
    by (rule cmoves_write) (use assms that in \<open>auto simp: lifted_def view_simps case_in_def claimable_def\<close>)
  show ?thesis
    unfolding liftCaseTakedown_def liftCaseTakedown_from_def announce_move_def Let_def
    by (intro cmoves_load cmoves_if assms; (rule cmoves_pair [OF assms refl])?)
       (rule cmoves_reload, unfold cmoves_emit, rule w, assumption+, simp)
qed

lemma case_decide_moves:
  assumes "mkeys s"
  shows "cmoves (None, Reconsidering) n s (snd (decideCaseAppeal env u a b r s))"
proof -
  have w: "cmoves (None, Reconsidering) n s (write_cases now (case_in i MC_REJECTED) (\<lambda>q. q\<lparr>mi_status := MC_UNDER_REVIEW\<rparr>) (s\<lparr>ms_appeals := xs\<rparr>))"
    for now i xs
  proof -
    have "cmoves (None, Reconsidering) n s (write_cases now (case_in i MC_REJECTED) (\<lambda>q. q\<lparr>mi_status := MC_UNDER_REVIEW\<rparr>) s)"
      by (rule cmoves_write) (use assms in \<open>auto simp: view_simps case_in_def claimable_def\<close>)
    then show ?thesis by (rule iffD1 [OF cmoves_cong, rotated]) (simp add: write_cases_def)
  qed
  have same: "cmoves l n s (s\<lparr>ms_appeals := xs\<rparr>)" for l xs
    using cmoves_pair [OF assms, of "s\<lparr>ms_appeals := xs\<rparr>"] by simp
  show ?thesis
    unfolding decideCaseAppeal_def decideCaseAppeal_from_def Let_def
    apply (intro cmoves_case cmoves_if; (rule cmoves_pair [OF assms refl])?)
    apply (rule cmoves_reload, unfold cmoves_emit)
     apply (cases b, simp_all add: w same split: option.splits)
    done
qed

lemma case_delete_moves:
  assumes "mkeys s"
  shows "cmoves (Some i, Deleting) n s (snd (removeByAdmin env u i r s))"
proof -
  have w: "cmoves (Some i, Deleting) n s (write_cases (mn_now env) (not_deleted i) (removed_by_admin env u c r) s)"
    if "find_case i s = Some c" for c
    by (rule cmoves_write) (use assms that in \<open>auto simp: removed_by_admin_def view_simps not_deleted_def\<close>)
  show ?thesis
    unfolding removeByAdmin_def removeByAdmin_from_def Let_def
    by (intro cmoves_load cmoves_if assms; (rule cmoves_pair [OF assms], simp; fail)?; simp add: w)
qed

lemma case_restore_moves:
  assumes "mkeys s"
  shows "cmoves (Some i, Restoring) n s (snd (restoreCase env u i r s))"
  unfolding restoreCase_def restoreCase_from_def Let_def
  by (intro cmoves_load cmoves_if cmoves_bind cmoves_update cmoves_pair assms)
     (auto simp: restored_status_def or_else_def view_simps loadCase_def cmoves_refl split: option.splits if_splits)

lemma case_merge_moves:
  assumes "mkeys s"
  shows "cmoves (Some d, Merging) n s (snd (mergeCases env u i d r s))"
proof -
  have w: "cmoves (Some d, Merging) n s (merge_tx env u p d s)" for p
  proof -
    have "cmoves (Some d, Merging) n s (write_cases (mn_now env) (\<lambda>c. mi_id c = d) (merged_into env u p) s)"
      by (rule cmoves_write) (use assms in \<open>auto simp: merged_into_def view_simps\<close>)
    then show ?thesis by (rule iffD1 [OF cmoves_cong, rotated]) (simp add: merge_tx_def)
  qed
  show ?thesis
    unfolding mergeCases_def merge_from_def Let_def
    by (intro cmoves_load cmoves_if assms; (rule cmoves_pair [OF assms], simp; fail)?)
       (rule cmoves_reload; simp add: w)
qed

lemma case_admin_moves:
  assumes "mkeys s"
  shows "cmoves l n s (snd (setCaseLegalHold env u i b r s))" "cmoves l n s (snd (editByAdmin env u i d s))"
    "cmoves l n s (snd (messageOwner env u i m s))" "cmoves l n s (snd (correctChildFlag env u i b r s))"
    "cmoves l n s (snd (redactCaseMedia env u i key mode rr s))"
  unfolding setCaseLegalHold_def editByAdmin_def editByAdmin_from_def messageOwner_def correctChildFlag_def
    correctChildFlag_from_def redactCaseMedia_def Let_def
  by (intro cmoves_rules assms; simp add: patch_case_def propose_flag_def apply_flag_def view_simps)+

section \<open>The refinement\<close>

theorem case_step_moves:
  assumes "mkeys s"
  shows "cmoves (move_of op) (creates op) s (mexec env op s)"
proof (cases op)
  case (MReview u i a)
  then show ?thesis using assms
    by (cases a) (simp_all add: case_claim_moves case_update_status_moves case_found_moves case_reopen_moves)
next
  case (MOwner u i a)
  then show ?thesis using assms
    by (cases a) (simp_all add: case_mine_moves case_update_moves case_remove_moves case_create_moves)
next
  case (MAdmin u i a)
  then show ?thesis using assms
    by (cases a) (simp_all add: case_takedown_moves case_resolve_moves case_lift_moves case_decide_moves case_delete_moves case_restore_moves case_merge_moves case_admin_moves)
next
  case (MStaff u i a)
  then show ?thesis using assms
    by (cases a) (simp_all add: case_admin_moves case_mine_moves)
qed (use assms in \<open>simp_all add: case_create_moves case_seen_moves\<close>)

lemma mrun_keys: "mkeys s \<Longrightarrow> mkeys (mrun ops s)"
  by (induction ops s rule: mrun.induct) (auto intro: cmoves_keys [OF case_step_moves])

end
