(* ===== verification/Missing_Properties.thy ===== *)
theory Missing_Properties
  imports Missing_Safety
begin

text \<open>
  What follows for missing-person cases: every run is a run of the abstract machine, what is taken down
  stays hidden until it is lifted, how a child's case becomes public, what a merge keeps, and the places
  where the code lets a case slip past its own rules.
\<close>

section \<open>Runs\<close>

lemma keys_found:
  assumes "mkeys s" "q \<in> set (ms_cases s)" "find_case (mi_id q) s = Some c"
  shows "q = c"
  using find_case_row [OF assms(1,2)] assms(3) by simp

lemma found_row: "find_case i s = Some c \<Longrightarrow> c \<in> set (ms_cases s) \<and> mi_id c = i"
  by (auto simp: find_case_def dest: find_where_SomeD)

lemma case_before:
  assumes "mkeys s" "cmoves l n s t" "find_case i s = Some p" "find_case i t = Some q"
  shows "cmove l i (view p) (view q)"
proof -
  from assms(3,4) have p: "p \<in> set (ms_cases s)" "mi_id p = i" and q: "q \<in> set (ms_cases t)" "mi_id q = i"
    using found_row by blast+
  from p have "mi_id q \<in> mi_id ` set (ms_cases s)" using q(2) by blast
  with assms(2) q obtain p' where p': "p' \<in> set (ms_cases s)" "mi_id p' = i" "cmove l i (view p') (view q)"
    by (auto simp: cmoves_def)
  from p' have "p' = p" using keys_found [OF assms(1) p'(1)] assms(3) by simp
  with p'(3) show ?thesis by simp
qed

lemma case_after:
  assumes "cmoves l n s t" "find_case i s = Some p" "mi_status p \<noteq> MC_PENDING"
  shows "\<exists>q. find_case i t = Some q"
proof -
  from assms(2) have "p \<in> set (ms_cases s)" "mi_id p = i" using found_row by blast+
  with assms(1,3) have "i \<in> mi_id ` set (ms_cases t)" by (auto simp: cmoves_def kept_ids_def)
  then show ?thesis by (cases "find_case i t") (auto simp: find_case_def find_where_None_iff)
qed

text \<open>A case taken down is cancelled, in every state.\<close>

definition down_cancelled :: "missing_state \<Rightarrow> bool" where
  "down_cancelled s \<longleftrightarrow> list_all (\<lambda>c. mi_takedownAt c \<noteq> None \<longrightarrow> mi_status c = MC_CANCELLED) (ms_cases s)"

lemma down_move: "cmove l i a b \<Longrightarrow> (cv_down a \<longrightarrow> cv_status a = MC_CANCELLED) \<Longrightarrow> cv_down b \<longrightarrow> cv_status b = MC_CANCELLED"
  by (cases "snd l") (auto simp: cmove_def TERMINAL_CASES_def)

lemma down_step:
  assumes "mkeys s" "down_cancelled s" "cmoves l n s t"
  shows "down_cancelled t"
  unfolding down_cancelled_def list_all_iff
proof
  fix q assume "q \<in> set (ms_cases t)"
  with assms(3) consider p where "p \<in> set (ms_cases s)" "cmove l (mi_id q) (view p) (view q)" | "first_view (view q)"
    by (auto simp: cmoves_def)
  then show "mi_takedownAt q \<noteq> None \<longrightarrow> mi_status q = MC_CANCELLED"
  proof cases
    case 1
    with assms(2) have "cv_down (view p) \<longrightarrow> cv_status (view p) = MC_CANCELLED"
      by (auto simp: down_cancelled_def list_all_iff view_def)
    from down_move [OF 1(2) this] show ?thesis by (simp add: view_def)
  qed (simp add: first_view_def view_def)
qed

definition lifts_case :: "jstring \<Rightarrow> missing_op \<Rightarrow> bool" where
  "lifts_case i op = (case op of MAdmin u j (CLift r) \<Rightarrow> j = i | _ \<Rightarrow> False)"

lemma lift_named:
  "\<not> lifts_case i op \<Longrightarrow> \<not> (snd (move_of op) = Lifting_down \<and> (fst (move_of op) = None \<or> fst (move_of op) = Some i))"
  by (cases op rule: move_of.cases) (simp_all add: lifts_case_def)

lemma keeps_down:
  "cmove l i a b \<Longrightarrow> cv_status a = MC_CANCELLED \<Longrightarrow> cv_down a \<Longrightarrow>
   \<not> (snd l = Lifting_down \<and> (fst l = None \<or> fst l = Some i)) \<Longrightarrow> cv_down b"
  by (cases "snd l") (auto simp: cmove_def TERMINAL_CASES_def)

lemma stays_down:
  assumes "mkeys s" "down_cancelled s" "find_case i s = Some c" "mi_takedownAt c \<noteq> None"
    "list_all (\<lambda>(env, op). \<not> lifts_case i op) ops"
  shows "\<exists>d. find_case i (mrun ops s) = Some d \<and> mi_takedownAt d \<noteq> None \<and> mi_status d = MC_CANCELLED"
  using assms
proof (induction ops s arbitrary: c rule: mrun.induct)
  case (1 s)
  then show ?case using found_row [OF 1(3)] by (auto simp: down_cancelled_def list_all_iff)
next
  case (2 env op ops s)
  let ?t = "mexec env op s"
  have m: "cmoves (move_of op) (creates op) s ?t" by (rule case_step_moves [OF 2(2)])
  have c: "mi_status c = MC_CANCELLED"
    using found_row [OF 2(4)] 2(3,5) by (auto simp: down_cancelled_def list_all_iff)
  then obtain d where d: "find_case i ?t = Some d" using case_after [OF m 2(4)] by auto
  have "cmove (move_of op) i (view c) (view d)" by (rule case_before [OF 2(2) m 2(4) d])
  moreover have "\<not> (snd (move_of op) = Lifting_down \<and> (fst (move_of op) = None \<or> fst (move_of op) = Some i))"
    using 2(6) by (simp add: lift_named)
  ultimately have "mi_takedownAt d \<noteq> None"
    using keeps_down [of "move_of op" i "view c" "view d"] c 2(5) by (simp add: view_def)
  moreover have "list_all (\<lambda>(env, op). \<not> lifts_case i op) ops" using 2(6) by simp
  ultimately show ?case
    using 2(1) [OF cmoves_keys [OF m] down_step [OF 2(2,3) m] d] by simp
qed


section \<open>Takedowns\<close>

text \<open>
  C17. Once a case is taken down, no sequence of calls of owners, readers and administrators brings it
  back before an administrator lifts the takedown of that case: it stays cancelled, readers who flag it
  are told it does not exist, and it takes no updates, renewals or found reports.
\<close>

theorem takedown_hides_case:
  assumes "mkeys s" "down_cancelled s" "find_case i s = Some c" "mi_takedownAt c \<noteq> None"
    "list_all (\<lambda>(env, op). \<not> lifts_case i op) ops"
  shows "case find_case i (mrun ops s) of None \<Rightarrow> False | Some d \<Rightarrow>
    mi_status d = MC_CANCELLED \<and> mi_takedownAt d \<noteq> None \<and>
    fst (flagCase env u i r details (mrun ops s)) = Inl (NotFound ''missing_person_not_found'') \<and>
    fst (createCaseUpdate env u d m photos staff (mrun ops s)) = Inl (BadRequest ''updates_require_approved_case'') \<and>
    fst (applyRenewal env u d days operation r' (mrun ops s)) = Inl (BadRequest ''renewal_requires_approved_case'') \<and>
    fst (reportFoundByOwner_from env u d m date loc (mrun ops s)) = Inl (BadRequest ''found_report_requires_approved_case'')"
  using stays_down [OF assms]
  by (auto simp: flagCase_def createCaseUpdate_def applyRenewal_def reportFoundByOwner_from_def)

section \<open>Cases of children\<close>

lemma ensure_two:
  assumes "ensureCaseSafety env c u b s = (Inr Satisfied, t)"
  shows "b = Some True \<and> truthy (mi_firstConfirmedBy c) \<and> mi_firstConfirmedBy c \<noteq> Some (cu_id u)"
  using assms by (auto simp: ensureCaseSafety_def res_bind_def split: if_splits prod.splits sum.splits)

lemma ensure_cases:
  assumes "ensureCaseSafety env c u b s = (Inr x, t)" "mi_personType c = CP_CHILD"
  shows "x = FirstConfirmationRecorded \<or> x = Satisfied"
  using assms by (auto simp: ensureCaseSafety_def res_bind_def split: if_splits prod.splits sum.splits)

text \<open>The routes by which a child's case becomes public.\<close>

fun child_route :: "mcase \<Rightarrow> missing_op \<Rightarrow> bool" where
  "child_route p (MReview u j (CStatus st n b)) \<longleftrightarrow> j = mi_id p \<and> st = MC_APPROVED \<and> b = Some True \<and>
     truthy (mi_firstConfirmedBy p) \<and> mi_firstConfirmedBy p \<noteq> Some (cu_id u)"
| "child_route p (MReview u j (CReopen r)) \<longleftrightarrow> j = mi_id p \<and> mi_status p \<in> {MC_FOUND, MC_EXPIRED}"
| "child_route p (MAdmin u j (CLift r)) \<longleftrightarrow> j = mi_id p \<and> mi_takedownAt p \<noteq> None"
| "child_route p (MAdmin u j (CRestore r)) \<longleftrightarrow> j = mi_id p \<and> mi_deletedAt p \<noteq> None \<and> mi_deletedPreviousStatus p = Some MC_APPROVED"
| "child_route p _ \<longleftrightarrow> False"

lemma approved_move:
  "cmove (move_of op) i a b \<Longrightarrow> cv_status a \<noteq> MC_APPROVED \<Longrightarrow> cv_status b = MC_APPROVED \<Longrightarrow>
   (\<exists>u n c. op = MReview u i (CStatus MC_APPROVED n c)) \<or>
   (\<exists>u r. op = MReview u i (CReopen r) \<and> cv_status a \<in> {MC_FOUND, MC_EXPIRED}) \<or>
   (\<exists>u r. op = MAdmin u i (CLift r) \<and> cv_down a) \<or> (\<exists>u r. op = MAdmin u i (CRestore r))"
  by (cases op rule: move_of.cases) (auto simp: cmove_def)

lemma find_same: "ms_cases t = ms_cases s \<Longrightarrow> find_case i t = find_case i s"
  by (simp add: find_case_def)

lemma find_emit [simp]:
  "find_case i (mi_emit e s) = find_case i s" "find_case i (invalidate_case j s) = find_case i s"
  "find_case i (notifyOwner c s) = find_case i s" "find_case i (maybeFlagUserForRejections env x s) = find_case i s"
  by (rule find_same, simp)+

lemma find_write:
  "(\<And>r. mi_id (f r) = mi_id r) \<Longrightarrow> find_case i (write_cases now P f s) =
   map_option (\<lambda>r. if P r then (f r)\<lparr>mi_updatedAt := now\<rparr> else r) (find_case i s)"
  by (simp add: find_case_def write_cases_def find_update_key)

lemma find_update:
  "(\<And>r. mi_id (f r) = mi_id r) \<Longrightarrow> find_case i (snd (update_case now j f s)) =
   map_option (\<lambda>r. if mi_id r = j then (f r)\<lparr>mi_updatedAt := now\<rparr> else r) (find_case i s)"
  by (cases "find_case i s"; cases "i = j")
     (use found_row in \<open>fastforce simp: update_case_def Let_def find_write split: option.splits\<close>)+

lemma ensure_row:
  assumes "find_case i s = Some p"
  shows "case find_case i (snd (ensureCaseSafety env c u b s)) of None \<Rightarrow> False
    | Some q \<Rightarrow> mi_status q = mi_status p \<and> mi_personType q = mi_personType p"
proof -
  have "snd (res_bind (update_case now j f s) (\<lambda>_ s1. (Inr x, s1))) = snd (update_case now j f s)" for now j f and x :: child_safety
    by (simp add: res_bind_def split: prod.split sum.split)
  with assms show ?thesis by (simp add: ensureCaseSafety_def find_update)
qed

lemma moved_row:
  assumes "find_case i s = Some p"
  shows "case find_case i (snd (move_case env u c st n ch s)) of None \<Rightarrow> False
    | Some q \<Rightarrow> mi_personType q = mi_personType p"
  using assms by (simp add: move_case_def Let_def find_write moved_def split: option.splits)

lemma assert_row:
  "find_case i (snd (assertNotClaimedByOther u c a s rest)) =
   (if truthy (mi_claimedByUserId c) \<and> mi_claimedByUserId c \<noteq> Some (cu_id u) then find_case i s else find_case i (snd rest))"
  by (simp add: assertNotClaimedByOther_def)

lemma child_approved:
  assumes "find_case i s = Some p" "mi_status p \<noteq> MC_APPROVED"
    "find_case i (snd (updateCaseStatus_from env u p MC_APPROVED n b s)) = Some q"
    "mi_status q = MC_APPROVED" "mi_personType q = CP_CHILD"
  shows "b = Some True \<and> truthy (mi_firstConfirmedBy p) \<and> mi_firstConfirmedBy p \<noteq> Some (cu_id u)"
proof (cases "mi_personType p = CP_CHILD")
  case False
  with assms moved_row [OF assms(1), of env u p MC_APPROVED n False] show ?thesis
    by (auto simp: updateCaseStatus_from_def Let_def assert_row split: if_splits option.splits)
next
  case True
  obtain r t where e: "ensureCaseSafety env p u b s = (r, t)" by (cases "ensureCaseSafety env p u b s")
  have t: "find_case i t = Some q' \<Longrightarrow> mi_status q' \<noteq> MC_APPROVED" for q'
    using ensure_row [OF assms(1), of env p u b] assms(2) by (simp add: e)
  show ?thesis
  proof (cases r)
    case (Inl x)
    with assms t True show ?thesis
      by (auto simp: updateCaseStatus_from_def Let_def assert_row e res_bind_def split: if_splits)
  next
    case (Inr x)
    with e ensure_cases [OF _ True] consider "x = FirstConfirmationRecorded" | "x = Satisfied" by blast
    then show ?thesis
    proof cases
      case 1
      with Inr assms t True show ?thesis
        by (auto simp: updateCaseStatus_from_def Let_def assert_row e res_bind_def split: if_splits option.splits)
    next
      case 2
      with Inr e show ?thesis using ensure_two by simp
    qed
  qed
qed

text \<open>
  C19. A child's case becomes public in four ways only: an approval with the confirmation, given by
  another administrator than the one whose first confirmation is on record; the reopening of a found or
  expired case; the lifting of its takedown; its restoring after it was deleted while public.
\<close>

theorem child_publication_routes:
  assumes "mkeys s" "find_case i s = Some p" "mi_status p \<noteq> MC_APPROVED"
    "find_case i (mexec env op s) = Some q" "mi_status q = MC_APPROVED" "mi_personType q = CP_CHILD"
  shows "child_route p op"
proof -
  have i: "mi_id p = i" using found_row [OF assms(2)] by blast
  have "cmove (move_of op) i (view p) (view q)"
    by (rule case_before [OF assms(1) case_step_moves [OF assms(1)] assms(2,4)])
  from approved_move [OF this] assms(3,5) consider
      u n b where "op = MReview u i (CStatus MC_APPROVED n b)"
    | u r where "op = MReview u i (CReopen r)" "mi_status p \<in> {MC_FOUND, MC_EXPIRED}"
    | u r where "op = MAdmin u i (CLift r)" "mi_takedownAt p \<noteq> None"
    | u r where "op = MAdmin u i (CRestore r)"
    by (auto simp: view_def)
  then show ?thesis
  proof cases
    case 1
    with assms have "find_case i (snd (updateCaseStatus_from env u p MC_APPROVED n b s)) = Some q"
      by (simp add: updateCaseStatus_def loadCase_def)
    from child_approved [OF assms(2,3) this assms(5,6)] 1 i show ?thesis by simp
  next
    case 4
    have "find_case i (snd (res_bind m (\<lambda>_ s1. let s2 = invalidate_case j s1 in loadCase j s2 (\<lambda>u. (Inr u, notifyOwner u (mi_emit (e u) s2)))))) =
        find_case i (snd m)" for j e and m :: "mcase result \<times> missing_state"
      by (simp add: res_bind_def Let_def loadCase_def split: prod.split sum.split option.split)
    with 4 assms i show ?thesis
      by (auto simp: restoreCase_def loadCase_def restoreCase_from_def find_update restored_status_def or_else_def split: if_splits option.splits)
  qed (use i in simp_all)
qed

section \<open>Merging\<close>

text \<open>
  C20. A successful merge loses no tip and no update: each is still there, and those of the duplicate now
  belong to the case it was merged into. The duplicate is cancelled and points to that case, and no
  other case changes.
\<close>

theorem merge_keeps_information:
  assumes "mergeCases env u i d reason s = (Inr p, t)"
  shows "ms_tips t = map (\<lambda>(x, c). (x, if c = d then i else c)) (ms_tips s) \<and>
    map mu_id (ms_updates t) = map mu_id (ms_updates s) \<and>
    map mu_caseId (ms_updates t) = map (\<lambda>w. if mu_caseId w = d then i else mu_caseId w) (ms_updates s) \<and>
    filter (\<lambda>c. mi_id c \<noteq> d) (ms_cases t) = filter (\<lambda>c. mi_id c \<noteq> d) (ms_cases s) \<and>
    find_case i t = find_case i s \<and>
    (case find_case d t of None \<Rightarrow> False | Some q \<Rightarrow> mi_status q = MC_CANCELLED \<and> mi_mergedIntoId q = Some i)"
proof -
  from assms obtain c0 c1 where r: "find_case i s = Some c0" "find_case d s = Some c1" "i \<noteq> d"
    and "merge_from env u c0 c1 reason s = (Inr p, t)"
    by (auto simp: mergeCases_def loadCase_def split: if_splits option.splits)
  moreover have ids: "mi_id c0 = i" "mi_id c1 = d" using r found_row by blast+
  ultimately obtain es where t: "t = (merge_tx env u i d s)\<lparr>ms_log := es\<rparr>"
    by (auto simp: merge_from_def Let_def loadCase_def mi_emit_def invalidate_case_def split: if_splits option.splits)
  have id: "mi_id (merged_into env u i q) = mi_id q" for q by (simp add: merged_into_def)
  have f: "find_case j t = find_case j (write_cases (mn_now env) (\<lambda>c. mi_id c = d) (merged_into env u i) s)" for j
    by (simp add: t merge_tx_def find_case_def)
  have "filter (\<lambda>c. mi_id c \<noteq> d) (update_where (\<lambda>c. mi_id c = d) (\<lambda>c. (merged_into env u i c)\<lparr>mi_updatedAt := now\<rparr>) xs) =
      filter (\<lambda>c. mi_id c \<noteq> d) xs" for xs now
    by (induction xs) (auto simp: id)
  with r ids show ?thesis
    by (simp add: f find_write id) (auto simp: t merge_tx_def move_to_def write_cases_def merged_into_def split: prod.splits)
qed

section \<open>Submission\<close>

text \<open>
  Submitting a case again with the same idempotency key, whatever else the second request says and
  whenever it comes, answers with the case of the first and changes nothing.
\<close>

theorem case_created_once:
  assumes "createCase env u d k s = (Inr c, t)" "truthy k"
  shows "createCase env' u d' k t = (Inr c, t)"
proof (cases "find_by_case_key u k s")
  case (Some e)
  with assms show ?thesis by (simp add: createCase_def)
next
  case None
  have key: "find_by_case_key u k t = Some c"
    if "create_with_race u k c0 s = (Inr c, s1)" "mi_userId c0 = Some (cu_id u)" "mi_idempotencyKey c0 = k" "ms_cases t = ms_cases s1" for c0 s1
  proof -
    from that(1) None have "insert_case c0 s = (Inr c, s1)"
      by (auto simp: create_with_race_def insert_case_def split: if_splits prod.splits sum.splits error.splits option.splits)
    then have "c = c0" "ms_cases s1 = ms_cases s @ [c0]"
      by (auto simp: insert_case_def split: if_splits)
    with None that assms(2) show ?thesis by (simp add: find_by_case_key_def find_where_append)
  qed
  from assms(1) None obtain m n s1 where
    "create_with_race u k (new_case env u d m n MC_PENDING k s) s = (Inr c, s1)" "ms_cases t = ms_cases s1"
    by (auto simp: createCase_def res_bind_def split: if_splits sum.splits prod.splits)
  from key [OF this(1) _ _ this(2)] have "find_by_case_key u k t = Some c"
    by (simp add: new_case_def blank_case_def)
  then show ?thesis by (simp add: createCase_def)
qed

section \<open>Concrete runs\<close>

definition mdemo_env :: "int \<Rightarrow> missing_env" where
  "mdemo_env n = \<lparr>me_maxFileSize = 100, me_allowedMime = [''image/png''], me_maxPhotos = 5, me_maxVideos = 1, me_maxOther = 5,
     me_maxTotalBytes = 1000, me_exists = (\<lambda>_. True), me_stat = (\<lambda>_. None), mn_now = n, mn_newId = (\<lambda>k. ''m-'' @ show_nat k),
     mn_cooldown = 60, mn_maxPending = 3, mn_rejectionCount = 3, mn_rejectionWindowDays = 30, mn_renewDays = 90\<rparr>"

definition mdemo_user :: "jstring \<Rightarrow> jstring list \<Rightarrow> current_user" where
  "mdemo_user i roles = \<lparr>cu_id = i, cu_roles = roles\<rparr>"

definition mdemo_admin :: "jstring \<Rightarrow> current_user" where
  "mdemo_admin i = mdemo_user i [''ADMIN'']"

definition mdemo_empty :: missing_state where
  "mdemo_empty = \<lparr>ms_cases = [], ms_tips = [], ms_flags = [], ms_appeals = [], ms_updates = [], ms_messages = [],
     ms_revisions = [], ms_redactions = [], ms_users = [], ms_created = 0, ms_log = []\<rparr>"

definition mdemo_dto :: "case_person \<Rightarrow> case_dto" where
  "mdemo_dto t = \<lparr>cd_personType = t, cd_name = Some ''Name'', cd_description = ''Tall'', cd_dateLastSeen = 0,
     cd_lastKnownArea = ''Market'',
     cd_media = \<lparr>md_photo = None, md_video = None, md_audio = None, md_pdf = None, md_document = None, md_other = None\<rparr>\<rparr>"

text \<open>Calls a minute apart, the first at minute one.\<close>

definition mdemo :: "missing_op list \<Rightarrow> (missing_env \<times> missing_op) list" where
  "mdemo ops = map (\<lambda>(n, op). (mdemo_env (int n * 60), op)) (zip [1..<Suc (length ops)] ops)"

definition submit_case :: "jstring \<Rightarrow> case_person \<Rightarrow> missing_op" where
  "submit_case i t = MCreate (mdemo_user i [''USER'']) (mdemo_dto t) None"

definition set_status :: "jstring \<Rightarrow> jstring \<Rightarrow> case_status \<Rightarrow> missing_op" where
  "set_status a i st = MReview (mdemo_admin a) i (CStatus st (Some ''note'') (Some True))"

definition shown :: "jstring \<Rightarrow> missing_state \<Rightarrow> (case_status \<times> bool \<times> bool \<times> bool) option" where
  "shown i s = map_option (\<lambda>c. (mi_status c, mi_takedownAt c \<noteq> None, mi_deletedAt c \<noteq> None, mi_mergedIntoId c \<noteq> None)) (find_case i s)"

text \<open>A case of a woman, approved; and one of a child, one confirmation in.\<close>

definition mdemo_approved :: missing_state where
  "mdemo_approved = mrun (mdemo [submit_case ''u1'' CP_WOMAN, set_status ''a1'' ''m-0'' MC_UNDER_REVIEW,
     set_status ''a1'' ''m-0'' MC_APPROVED]) mdemo_empty"

definition mdemo_child :: missing_state where
  "mdemo_child = mrun (mdemo [submit_case ''u1'' CP_CHILD, set_status ''a1'' ''m-0'' MC_UNDER_REVIEW,
     set_status ''a1'' ''m-0'' MC_APPROVED]) mdemo_empty"

definition take_down :: missing_op where
  "take_down = MAdmin (mdemo_admin ''a1'') ''m-0'' (CTakedown ''fraud'')"

lemma mdemo_keys: "mkeys mdemo_approved" "mkeys mdemo_child" "down_cancelled (mrun (mdemo [take_down]) mdemo_approved)"
  unfolding mdemo_approved_def mdemo_child_def
  by (rule mrun_keys, simp add: mkeys_def mdemo_empty_def)+ code_simp


definition mdemo_later :: "(missing_env \<times> missing_op) list" where
  "mdemo_later = mdemo [MReview (mdemo_admin ''a2'') ''m-0'' (CReopen ''mistake''), set_status ''a2'' ''m-0'' MC_APPROVED,
     MAdmin (mdemo_admin ''a2'') ''m-0'' (CDelete ''old''), MAdmin (mdemo_admin ''a2'') ''m-0'' (CRestore None),
     MOwner (mdemo_user ''u1'' [''USER'']) ''m-0'' (CRenewOwn (Some 5)),
     MAdmin (mdemo_admin ''a2'') ''m-1'' (CLift ''another case'')]"

theorem takedown_hides_case_witness:
  "case find_case ''m-0'' (mrun mdemo_later (mrun (mdemo [take_down]) mdemo_approved)) of None \<Rightarrow> False
   | Some d \<Rightarrow> mi_status d = MC_CANCELLED \<and> mi_takedownAt d \<noteq> None"
proof -
  have "mkeys (mrun (mdemo [take_down]) mdemo_approved)" by (rule mrun_keys [OF mdemo_keys(1)])
  moreover have "case find_case ''m-0'' (mrun (mdemo [take_down]) mdemo_approved) of None \<Rightarrow> False | Some c \<Rightarrow> mi_takedownAt c \<noteq> None"
    by code_simp
  then obtain c where "find_case ''m-0'' (mrun (mdemo [take_down]) mdemo_approved) = Some c" "mi_takedownAt c \<noteq> None"
    by (auto split: option.splits)
  moreover have "list_all (\<lambda>(env, op). \<not> lifts_case ''m-0'' op) mdemo_later" by code_simp
  ultimately show ?thesis
    using takedown_hides_case [of "mrun (mdemo [take_down]) mdemo_approved" "''m-0''" c mdemo_later] mdemo_keys(3)
    by (fastforce split: option.splits)
qed

theorem child_publication_routes_witness:
  "child_route (the (find_case ''m-0'' mdemo_child)) (set_status ''a2'' ''m-0'' MC_APPROVED)"
proof -
  have "case find_case ''m-0'' mdemo_child of None \<Rightarrow> False | Some p \<Rightarrow> mi_status p \<noteq> MC_APPROVED"
    "case find_case ''m-0'' (mexec (mdemo_env 300) (set_status ''a2'' ''m-0'' MC_APPROVED) mdemo_child) of None \<Rightarrow> False
      | Some q \<Rightarrow> mi_status q = MC_APPROVED \<and> mi_personType q = CP_CHILD"
    by code_simp+
  then obtain p q where "find_case ''m-0'' mdemo_child = Some p" "mi_status p \<noteq> MC_APPROVED"
    "find_case ''m-0'' (mexec (mdemo_env 300) (set_status ''a2'' ''m-0'' MC_APPROVED) mdemo_child) = Some q"
    "mi_status q = MC_APPROVED" "mi_personType q = CP_CHILD"
    by (auto split: option.splits)
  from child_publication_routes [OF mdemo_keys(2) this] this(1) show ?thesis by simp
qed

definition mdemo_two :: missing_state where
  "mdemo_two = (mrun (mdemo [submit_case ''u2'' CP_WOMAN]) mdemo_approved)\<lparr>ms_tips := [(''t1'', ''m-1''), (''t2'', ''m-0'')]\<rparr>"

theorem merge_keeps_information_witness:
  "ms_tips (snd (mergeCases (mdemo_env 400) (mdemo_admin ''a1'') ''m-1'' ''m-0'' None mdemo_two)) =
   [(''t1'', ''m-1''), (''t2'', ''m-1'')]"
proof -
  have "case fst (mergeCases (mdemo_env 400) (mdemo_admin ''a1'') ''m-1'' ''m-0'' None mdemo_two) of Inl e \<Rightarrow> False | Inr p \<Rightarrow> True"
    by code_simp
  then obtain p t where m: "mergeCases (mdemo_env 400) (mdemo_admin ''a1'') ''m-1'' ''m-0'' None mdemo_two = (Inr p, t)"
    by (cases "mergeCases (mdemo_env 400) (mdemo_admin ''a1'') ''m-1'' ''m-0'' None mdemo_two") (auto split: sum.splits)
  from merge_keeps_information [OF m] m show ?thesis by (simp add: mdemo_two_def)
qed

theorem case_created_once_witness:
  "case createCase (mdemo_env 60) (mdemo_user ''u1'' []) (mdemo_dto CP_WOMAN) (Some ''k'') mdemo_empty of
     (Inl e, t) \<Rightarrow> False
   | (Inr c, t) \<Rightarrow> createCase (mdemo_env 70) (mdemo_user ''u1'' []) (mdemo_dto CP_CHILD) (Some ''k'') t = (Inr c, t)"
proof -
  have "case fst (createCase (mdemo_env 60) (mdemo_user ''u1'' []) (mdemo_dto CP_WOMAN) (Some ''k'') mdemo_empty) of Inl e \<Rightarrow> False | Inr p \<Rightarrow> True"
    by code_simp
  then obtain c t where "createCase (mdemo_env 60) (mdemo_user ''u1'' []) (mdemo_dto CP_WOMAN) (Some ''k'') mdemo_empty = (Inr c, t)"
    by (cases "createCase (mdemo_env 60) (mdemo_user ''u1'' []) (mdemo_dto CP_WOMAN) (Some ''k'') mdemo_empty") (auto split: sum.splits)
  with case_created_once [OF this, of "mdemo_env 70" "mdemo_dto CP_CHILD"] show ?thesis by (simp add: truthy_def)
qed

section \<open>Where the code lets a case slip past its own rules\<close>

text \<open>Expiring a pending child's case and reopening it makes it public: nobody confirmed anything.\<close>

lemma child_case_public_unconfirmed:
  "let s = mrun (mdemo [submit_case ''u1'' CP_CHILD, set_status ''a1'' ''m-0'' MC_EXPIRED,
       MReview (mdemo_admin ''a1'') ''m-0'' (CReopen ''still missing'')]) mdemo_empty
   in map_option (\<lambda>c. (mi_personType c, mi_status c, mi_firstConfirmedBy c)) (find_case ''m-0'' s) = Some (CP_CHILD, MC_APPROVED, None)"
  by code_simp

text \<open>A duplicate that was taken down before the merge: lifting the takedown makes the merged row public.\<close>

lemma merged_case_public_again:
  "shown ''m-0'' (mrun (mdemo [take_down, MAdmin (mdemo_admin ''a1'') ''m-1'' (CMerge ''m-0'' None),
       MAdmin (mdemo_admin ''a1'') ''m-0'' (CLift ''appeal'')]) mdemo_two) = Some (MC_APPROVED, False, False, True)"
  by code_simp

text \<open>An appeal submitted before an administrator deletes the rejected case, accepted afterwards: the
  deleted case is approved, and the public queries look at the status alone.\<close>

lemma deleted_case_public:
  "shown ''m-0'' (mrun (mdemo [submit_case ''u1'' CP_WOMAN, set_status ''a1'' ''m-0'' MC_UNDER_REVIEW,
       set_status ''a1'' ''m-0'' MC_REJECTED, MOwner (mdemo_user ''u1'' []) ''m-0'' (CAppeal ''please''),
       MAdmin (mdemo_admin ''a1'') ''m-0'' (CDelete ''spam''), MAdmin (mdemo_admin ''a2'') ''m-1'' (CDecide True ''ok''),
       set_status ''a2'' ''m-0'' MC_APPROVED]) mdemo_empty) = Some (MC_APPROVED, False, True, False)"
  by code_simp

text \<open>An owner deletes a pending case that is under a legal hold; administrators cannot.\<close>

lemma owner_deletes_held_case:
  "let s = mrun (mdemo [submit_case ''u1'' CP_WOMAN, MAdmin (mdemo_admin ''a1'') ''m-0'' (CHold True ''court'')]) mdemo_empty
   in find_case ''m-0'' (mexec (mdemo_env 300) (MAdmin (mdemo_admin ''a2'') ''m-0'' (CDelete ''x'')) s) \<noteq> None \<and>
      find_case ''m-0'' (mexec (mdemo_env 300) (MOwner (mdemo_user ''u1'' []) ''m-0'' CRemove) s) = None"
  by code_simp

text \<open>Two administrators mark a public case as a child's: it stays public without any child review.\<close>

lemma child_flag_keeps_public:
  "let s = mrun (mdemo [MStaff (mdemo_admin ''a1'') ''m-0'' (CChildFlag True ''r''), MStaff (mdemo_admin ''a2'') ''m-0'' (CChildFlag True ''r'')]) mdemo_approved
   in map_option (\<lambda>c. (mi_personType c, mi_status c, mi_firstConfirmedBy c)) (find_case ''m-0'' s) = Some (CP_CHILD, MC_APPROVED, None)"
  by code_simp

end
