(* ===== verification/Json_Text.thy ===== *)
theory Json_Text
  imports Ussd_Input
begin

text \<open>
  The texts the audit log hashes: \<open>JSON.stringify\<close> of strings, numbers and null, \<open>Date.toISOString\<close>, and
  the redaction of \<open>src/common/utils/audit-redaction.ts\<close>. Different values have different texts.
\<close>

section \<open>JSON text\<close>

definition json_hex :: "nat \<Rightarrow> char" where
  "json_hex n = (if n < 10 then char_of (48 + n) else char_of (87 + n))"

definition json_escape :: "char \<Rightarrow> jstring" where
  "json_escape c =
     (let n = code_of c in
      if n = 34 then [CHR 0x5C, CHR 0x22] else if n = 92 then [CHR 0x5C, CHR 0x5C]
      else if n = 8 then [CHR 0x5C, CHR ''b''] else if n = 12 then [CHR 0x5C, CHR ''f'']
      else if n = 10 then [CHR 0x5C, CHR ''n''] else if n = 13 then [CHR 0x5C, CHR ''r'']
      else if n = 9 then [CHR 0x5C, CHR ''t'']
      else if n < 32 then [CHR 0x5C, CHR ''u'', CHR ''0'', CHR ''0'', json_hex (n div 16), json_hex (n mod 16)]
      else [c])"

definition json_string :: "jstring \<Rightarrow> jstring" where
  "json_string s = CHR 0x22 # concat (map json_escape s) @ [CHR 0x22]"

definition json_opt :: "jstring option \<Rightarrow> jstring" where
  "json_opt x = (case x of None \<Rightarrow> ''null'' | Some s \<Rightarrow> json_string s)"

text \<open>An escape is read back from the front of a text; a quote ends the string.\<close>

definition unescape :: "jstring \<Rightarrow> (char \<times> jstring) option" where
  "unescape x =
     (case x of [] \<Rightarrow> None
      | c # r \<Rightarrow>
          if code_of c = 34 then None
          else if code_of c \<noteq> 92 then Some (c, r)
          else (case r of [] \<Rightarrow> None
            | d # t \<Rightarrow>
                if d = CHR 0x22 \<or> d = CHR 0x5C then Some (d, t)
                else if d = CHR ''b'' then Some (char_of (8 :: nat), t) else if d = CHR ''f'' then Some (char_of (12 :: nat), t)
                else if d = CHR ''n'' then Some (char_of (10 :: nat), t) else if d = CHR ''r'' then Some (char_of (13 :: nat), t)
                else if d = CHR ''t'' then Some (char_of (9 :: nat), t)
                else (case t of _ # _ # p # q # u \<Rightarrow>
                    Some (char_of ((code_of p - 48) * 16 + (if code_of q < 58 then code_of q - 48 else code_of q - 87)), u)
                  | _ \<Rightarrow> None)))"

lemma code_of_char [simp]: "char_of (code_of c) = c"
  by (simp add: code_of_def)

lemma unescape_escape: "unescape (json_escape c @ x) = Some (c, x)"
proof (cases "code_of c < 32")
  case True
  have "list_all (\<lambda>n. unescape (json_escape (char_of n) @ x) = Some (char_of n, x)) [0..<32]"
    by (simp add: upt_rec json_escape_def unescape_def json_hex_def code_of_def)
  then have "unescape (json_escape (char_of (code_of c)) @ x) = Some (char_of (code_of c), x)"
    using True unfolding list_all_iff by (elim ballE [where x = "code_of c"]) simp_all
  then show ?thesis by simp
next
  case False
  have "c = CHR 0x22" if "code_of c = 34" using that code_of_inj [of c "CHR 0x22"] by (simp add: code_of_def)
  moreover have "c = CHR 0x5C" if "code_of c = 92" using that code_of_inj [of c "CHR 0x5C"] by (simp add: code_of_def)
  ultimately show ?thesis using False
    by (auto simp: json_escape_def unescape_def Let_def code_of_def)
qed

lemma unescape_quote: "unescape (CHR 0x22 # x) = None"
  by (simp add: unescape_def code_of_def)

text \<open>A quoted string is followed by what follows it: the text determines both.\<close>

lemma json_string_inj: "json_string s @ x = json_string t @ y \<Longrightarrow> s = t \<and> x = y"
proof -
  assume "json_string s @ x = json_string t @ y"
  then have "concat (map json_escape s) @ CHR 0x22 # x = concat (map json_escape t) @ CHR 0x22 # y"
    by (simp add: json_string_def)
  then show ?thesis
  proof (induction s arbitrary: t)
    case Nil
    show ?case
    proof (cases t)
      case (Cons d u)
      with Nil have "unescape (CHR 0x22 # x) = unescape (json_escape d @ concat (map json_escape u) @ CHR 0x22 # y)" by simp
      then show ?thesis by (simp add: unescape_quote unescape_escape)
    qed (use Nil in simp)
  next
    case (Cons c s)
    show ?case
    proof (cases t)
      case Nil
      with Cons.prems have "unescape (json_escape c @ concat (map json_escape s) @ CHR 0x22 # x) = unescape (CHR 0x22 # y)" by simp
      then show ?thesis by (simp add: unescape_quote unescape_escape)
    next
      case (Cons d u)
      with Cons.prems have e: "unescape (json_escape c @ concat (map json_escape s) @ CHR 0x22 # x) =
          unescape (json_escape d @ concat (map json_escape u) @ CHR 0x22 # y)" by simp
      then have "c = d" "concat (map json_escape s) @ CHR 0x22 # x = concat (map json_escape u) @ CHR 0x22 # y"
        by (simp_all add: unescape_escape)
      with Cons.IH Cons show ?thesis by simp
    qed
  qed
qed

lemma json_string_quote: "json_string s @ x = c # y \<Longrightarrow> c = CHR 0x22"
  by (simp add: json_string_def)

lemma json_opt_inj: "json_opt s @ x = json_opt t @ y \<Longrightarrow> s = t \<and> x = y"
  by (auto simp: json_opt_def split: option.splits dest: json_string_inj json_string_quote [OF sym] json_string_quote)

section \<open>Numbers\<close>

lemma digits_apart:
  assumes "list_all is_digit s" "list_all is_digit t" "\<not> is_digit c" "s @ c # x = t @ c # y"
  shows "s = t \<and> x = y"
proof -
  have "takeWhile is_digit (s @ c # x) = s" "takeWhile is_digit (t @ c # y) = t"
    using assms(1-3) by (simp_all add: takeWhile_append2 list_all_iff)
  with assms(4) show ?thesis by simp
qed

lemma show_nat_inj: "show_nat m = show_nat n \<Longrightarrow> m = n"
  by (metis digits_val_show_nat)

lemma show_nat_apart: "show_nat m @ CHR '','' # x = show_nat n @ CHR '','' # y \<Longrightarrow> m = n \<and> x = y"
  using digits_apart [OF show_nat_digits show_nat_digits, of "CHR '',''" m x n y] show_nat_inj
  by (auto simp: is_digit_def code_of_def)

section \<open>Dates\<close>

text \<open>
  \<open>Date.toISOString\<close>, for every instant: days since 1 January 1970 in the Gregorian calendar, which
  repeats after 400 years; years outside 0 to 9999 have a sign and six digits.
\<close>

definition iso_leap :: "nat \<Rightarrow> bool" where
  "iso_leap y \<longleftrightarrow> y mod 4 = 0 \<and> y mod 100 \<noteq> 0 \<or> y mod 400 = 0"

definition year_length :: "nat \<Rightarrow> nat" where
  "year_length y = (if iso_leap y then 366 else 365)"

function split_year :: "nat \<Rightarrow> nat \<Rightarrow> nat \<times> nat" where
  "split_year y d = (if d < year_length y then (y, d) else split_year (Suc y) (d - year_length y))"
  by pat_completeness auto

termination
  by (relation "measure snd") (auto simp: year_length_def split: if_splits)

declare split_year.simps [simp del]

definition month_lengths :: "nat \<Rightarrow> nat list" where
  "month_lengths y = [31, if iso_leap y then 29 else 28, 31, 30, 31, 30, 31, 31, 30, 31, 30, 31]"

fun split_month :: "nat list \<Rightarrow> nat \<Rightarrow> nat \<Rightarrow> nat \<times> nat" where
  "split_month [] m d = (m, d)"
| "split_month (l # ls) m d = (if d < l then (m, d) else split_month ls (Suc m) (d - l))"

definition year_text :: "int \<Rightarrow> jstring" where
  "year_text y = (if 0 \<le> y \<and> y \<le> 9999 then pad_digits 4 (nat y)
     else (if y < 0 then CHR ''-'' else CHR ''+'') # pad_digits 6 (nat (abs y)))"

definition time_text :: "nat \<Rightarrow> jstring" where
  "time_text ms = ''T'' @ pad_digits 2 (ms div 3600000) @ '':'' @ pad_digits 2 (ms div 60000 mod 60) @ '':'' @
     pad_digits 2 (ms div 1000 mod 60) @ ''.'' @ pad_digits 3 (ms mod 1000) @ ''Z''"

definition toISOString :: "int \<Rightarrow> jstring" where
  "toISOString t =
     (let days = t div 86400000; era = days div 146097;
          (y, doy) = split_year 1970 (nat (days mod 146097));
          (m, d) = split_month (month_lengths y) 1 doy
      in year_text (int y + 400 * era) @ ''-'' @ pad_digits 2 m @ ''-'' @ pad_digits 2 (d + 1) @
         time_text (nat (t mod 86400000)))"

lemma year_length_pos [simp]: "0 < year_length y"
  by (simp add: year_length_def)

lemma split_year_inv:
  "split_year y d = (y', r) \<Longrightarrow> y \<le> y' \<and> d = sum_list (map year_length [y..<y']) + r \<and> r < year_length y'"
proof (induction y d rule: split_year.induct)
  case (1 y d)
  show ?case
  proof (cases "d < year_length y")
    case True
    with 1(2) show ?thesis by (simp add: split_year.simps [of y d])
  next
    case False
    with 1(2) have "split_year (Suc y) (d - year_length y) = (y', r)" by (simp add: split_year.simps [of y d])
    with 1(1) [OF False] False show ?thesis by (auto simp: upt_conv_Cons)
  qed
qed

lemma split_month_inv:
  "split_month ls m d = (m', r) \<Longrightarrow> d < sum_list ls \<Longrightarrow>
   m \<le> m' \<and> m' < m + length ls \<and> d = sum_list (take (m' - m) ls) + r \<and> r < ls ! (m' - m)"
proof (induction ls m d rule: split_month.induct)
  case (2 l ls m d)
  show ?case
  proof (cases "d < l")
    case False
    with 2 have "Suc m \<le> m' \<and> m' < Suc m + length ls \<and> d - l = sum_list (take (m' - Suc m) ls) + r \<and> r < ls ! (m' - Suc m)"
      by simp
    moreover from this have "m' - m = Suc (m' - Suc m)" by linarith
    ultimately show ?thesis using False by (simp del: diff_Suc_Suc) linarith
  qed (use 2 in simp)
qed simp

lemma month_sum: "sum_list (month_lengths y) = year_length y"
  by (simp add: month_lengths_def year_length_def)

lemma pad_inj: "m < 10 ^ Suc k \<Longrightarrow> n < 10 ^ Suc k \<Longrightarrow> pad_digits (Suc k) m = pad_digits (Suc k) n \<Longrightarrow> m = n"
  using pad_digits(1) by metis

lemma year_text_inj:
  assumes "abs y < 1000000" "abs z < 1000000" "year_text y = year_text z"
  shows "y = z"
proof -
  have l4: "length (pad_digits 4 n) = 4" "all_digits (pad_digits 4 n)" if "n < 10000" for n
    using pad_digits [of n 3] that by simp_all
  have p4: "n = m" if "n < 10000" "m < 10000" "pad_digits 4 n = pad_digits 4 m" for n m
    using pad_inj [of n 3 m] that by simp
  have p6: "n = m" if "n < 1000000" "m < 1000000" "pad_digits 6 n = pad_digits 6 m" for n m
    using pad_inj [of n 5 m] that by simp
  have sign: "is_digit (hd (year_text x)) \<longleftrightarrow> 0 \<le> x \<and> x \<le> 9999" for x
  proof (cases "0 \<le> x \<and> x \<le> 9999")
    case True
    then have n: "nat x < 10000" by linarith
    from l4 [OF n] have "is_digit (hd (pad_digits 4 (nat x)))"
      by (cases "pad_digits 4 (nat x)") (simp_all add: all_digits_def)
    with True show ?thesis by (simp add: year_text_def)
  qed (auto simp: year_text_def is_digit_def code_of_def)
  show ?thesis
  proof (cases "0 \<le> y \<and> y \<le> 9999")
    case True
    then have z: "0 \<le> z \<and> z \<le> 9999" using sign assms(3) by metis
    with True assms(3) have "pad_digits 4 (nat y) = pad_digits 4 (nat z)" by (simp add: year_text_def)
    with True z p4 [of "nat y" "nat z"] show ?thesis by linarith
  next
    case False
    then have z: "\<not> (0 \<le> z \<and> z \<le> 9999)" using sign assms(3) by metis
    have n: "nat (abs y) < 1000000" "nat (abs z) < 1000000" using assms(1,2) by linarith+
    from False z assms(3) have "pad_digits 6 (nat (abs y)) = pad_digits 6 (nat (abs z))" "y < 0 \<longleftrightarrow> z < 0"
      by (auto simp: year_text_def split: if_splits)
    with p6 [OF n] show ?thesis by linarith
  qed
qed

lemma time_text_inj:
  assumes "m < 86400000" "n < 86400000" "time_text m = time_text n"
  shows "m = n"
proof -
  have l2: "length (pad_digits 2 k) = 2" if "k < 100" for k
    using pad_digits(2) [of k 1] that by (simp add: numeral_2_eq_2)
  have p2: "j = k" if "pad_digits 2 j = pad_digits 2 k" "j < 100" "k < 100" for j k
    using pad_inj [of j 1 k] that by (simp add: numeral_2_eq_2)
  have p3: "j = k" if "pad_digits 3 j = pad_digits 3 k" "j < 1000" "k < 1000" for j k
    using pad_inj [of j 2 k] that by simp
  have len: "length (pad_digits 2 (k div 3600000)) = 2" "length (pad_digits 2 (k div 60000 mod 60)) = 2"
    "length (pad_digits 2 (k div 1000 mod 60)) = 2" if "k < 86400000" for k
    by (rule l2, use that in simp)+
  from assms(3) have e: "pad_digits 2 (m div 3600000) = pad_digits 2 (n div 3600000)"
    "pad_digits 2 (m div 60000 mod 60) = pad_digits 2 (n div 60000 mod 60)"
    "pad_digits 2 (m div 1000 mod 60) = pad_digits 2 (n div 1000 mod 60)"
    "pad_digits 3 (m mod 1000) = pad_digits 3 (n mod 1000)"
    by (simp_all add: time_text_def len [OF assms(1)] len [OF assms(2)])
  have "m div 3600000 = n div 3600000" "m div 60000 mod 60 = n div 60000 mod 60"
    "m div 1000 mod 60 = n div 1000 mod 60" "m mod 1000 = n mod 1000"
    using p2 [OF e(1)] p2 [OF e(2)] p2 [OF e(3)] p3 [OF e(4)] assms(1,2) by simp_all
  moreover have "k = k div 3600000 * 3600000 + (k div 60000 mod 60) * 60000 + (k div 1000 mod 60) * 1000 + k mod 1000" for k :: nat
  proof -
    have "k div 60000 = k div 1000 div 60" "k div 3600000 = k div 60000 div 60"
      by (simp_all flip: div_mult2_eq)
    moreover have "k = k div 1000 * 1000 + k mod 1000" "k div 1000 = k div 1000 div 60 * 60 + k div 1000 mod 60"
      "k div 60000 = k div 60000 div 60 * 60 + k div 60000 mod 60"
      by simp_all
    ultimately show ?thesis by linarith
  qed
  ultimately show ?thesis by metis
qed

lemma month_index:
  assumes "split_month (month_lengths y) 1 r = (m, d)" "r < year_length y"
  shows "1 \<le> m" "m \<le> 12" "d < 31" "r = sum_list (take (m - 1) (month_lengths y)) + d"
proof -
  have r: "r < sum_list (month_lengths y)" using assms(2) by (simp add: month_sum)
  from split_month_inv [OF assms(1) r] have m: "1 \<le> m" "m < 1 + length (month_lengths y)"
    "r = sum_list (take (m - 1) (month_lengths y)) + d" "d < month_lengths y ! (m - 1)" by auto
  have len: "length (month_lengths y) = 12" by (simp add: month_lengths_def)
  have "list_all (\<lambda>l. l \<le> 31) (month_lengths y)" by (simp add: month_lengths_def)
  then have "month_lengths y ! (m - 1) \<le> 31" using m(1,2) len by (simp add: list_all_length)
  with m len show "1 \<le> m" "m \<le> 12" "d < 31" "r = sum_list (take (m - 1) (month_lengths y)) + d" by simp_all
qed

lemma days_of_years:
  "sum_list (map year_length [1970..<1970 + n]) + 477 + (1969 + n) div 100 = 365 * n + (1969 + n) div 4 + (1969 + n) div 400"
proof (induction n)
  case (Suc n)
  define a where "a = 1969 + n"
  define S where "S = sum_list (map year_length [1970..<1970 + n])"
  have i: "1970 + n = Suc a" by (simp add: a_def)
  have "[1970..<1970 + Suc n] = [1970..<1970 + n] @ [Suc a]"
    unfolding i [symmetric] add_Suc_right by (rule upt_Suc_append [OF le_add1])
  then have S: "sum_list (map year_length [1970..<1970 + Suc n]) = S + year_length (Suc a)" by (simp only: map_append sum_list_append S_def) simp
  have "Suc a mod 400 mod 100 = Suc a mod 100" "Suc a mod 100 mod 4 = Suc a mod 4" by (simp_all add: mod_mod_cancel)
  then have "Suc a mod 400 = 0 \<Longrightarrow> Suc a mod 100 = 0" "Suc a mod 100 = 0 \<Longrightarrow> Suc a mod 4 = 0" by auto
  moreover have "S + 477 + a div 100 = 365 * n + a div 4 + a div 400" using Suc by (simp only: a_def S_def)
  ultimately have "S + year_length (Suc a) + 477 + Suc a div 100 = 365 * Suc n + Suc a div 4 + Suc a div 400"
    unfolding div_Suc year_length_def iso_leap_def by (simp split: if_splits)
  moreover have "1969 + Suc n = Suc a" by (simp add: a_def)
  ultimately show ?case unfolding S by (simp only:)
qed simp

lemma era_days: "sum_list (map year_length [1970..<2370]) = 146097"
  using days_of_years [of 400] by (simp del: sum_list.Cons upt_conv_Cons upt_rec_numeral)

lemma years_of_era: "split_year 1970 n = (y, r) \<Longrightarrow> n < 146097 \<Longrightarrow> y < 2370"
proof (rule ccontr)
  assume a: "split_year 1970 n = (y, r)" "n < 146097" "\<not> y < 2370"
  have "[1970..<y] = [1970..<2370] @ [2370..<y]" using a(3) upt_add_eq_append [of 1970 2370 "y - 2370"] by simp
  then have "sum_list (map year_length [1970..<y]) = 146097 + sum_list (map year_length [2370..<y])"
    by (simp only: map_append sum_list_append era_days)
  then show False using split_year_inv [OF a(1)] a(2) by linarith
qed

text \<open>The instants JavaScript can represent: 100 million days around 1970.\<close>

definition js_instant :: "int \<Rightarrow> bool" where
  "js_instant t \<longleftrightarrow> abs t \<le> 8640000000000000"

lemma toISOString_inj:
  assumes "js_instant s" "js_instant t" "toISOString s = toISOString t"
  shows "s = t"
proof -
  obtain y r where y: "split_year 1970 (nat (s div 86400000 mod 146097)) = (y, r)" by fastforce
  obtain m d where m: "split_month (month_lengths y) 1 r = (m, d)" by fastforce
  obtain y' r' where y': "split_year 1970 (nat (t div 86400000 mod 146097)) = (y', r')" by fastforce
  obtain m' d' where m': "split_month (month_lengths y') 1 r' = (m', d')" by fastforce
  let ?era = "s div 86400000 div 146097" and ?era' = "t div 86400000 div 146097"
  from y y' have inv: "nat (s div 86400000 mod 146097) = sum_list (map year_length [1970..<y]) + r" "r < year_length y"
    "nat (t div 86400000 mod 146097) = sum_list (map year_length [1970..<y']) + r'" "r' < year_length y'"
    "1970 \<le> y" "1970 \<le> y'"
    using split_year_inv by blast+
  note mi = month_index [OF m inv(2)] and mi' = month_index [OF m' inv(4)]
  have l2: "length (pad_digits 2 k) = 2" if "k < 100" for k
    using pad_digits(2) [of k 1] that by (simp add: numeral_2_eq_2)
  have l3: "length (pad_digits 3 k) = 3" if "k < 1000" for k
    using pad_digits(2) [of k 2] that by (simp add: numeral_3_eq_3)
  have p2: "j = k" if "pad_digits 2 j = pad_digits 2 k" "j < 100" "k < 100" for j k
    using pad_inj [of j 1 k] that by (simp add: numeral_2_eq_2)
  have b: "nat (s mod 86400000) < 86400000" "nat (t mod 86400000) < 86400000" by (simp_all add: nat_less_iff)
  have "length (time_text k) = 14" if "k < 86400000" for k
    using that by (simp add: time_text_def l2 l3)
  note lt = this [OF b(1)] this [OF b(2)]
  have lm: "length (pad_digits 2 m) = 2" "length (pad_digits 2 (d + 1)) = 2" "length (pad_digits 2 m') = 2" "length (pad_digits 2 (d' + 1)) = 2"
    by (rule l2, use mi mi' in simp)+
  define z where "z = ''-'' @ pad_digits 2 m @ ''-'' @ pad_digits 2 (d + 1) @ time_text (nat (s mod 86400000))"
  define z' where "z' = ''-'' @ pad_digits 2 m' @ ''-'' @ pad_digits 2 (d' + 1) @ time_text (nat (t mod 86400000))"
  have "year_text (int y + 400 * ?era) @ z = year_text (int y' + 400 * ?era') @ z'"
    using assms(3) y m y' m' by (simp add: toISOString_def Let_def z_def z'_def)
  moreover have "length z = length z'" using lm lt by (simp add: z_def z'_def)
  ultimately have ye: "year_text (int y + 400 * ?era) = year_text (int y' + 400 * ?era')" and "z = z'" by simp+
  then have parts: "pad_digits 2 m = pad_digits 2 m'" "pad_digits 2 (d + 1) = pad_digits 2 (d' + 1)"
      "time_text (nat (s mod 86400000)) = time_text (nat (t mod 86400000))"
    using lm lt by (simp_all add: z_def z'_def)
  have yb: "y < 2370" "y' < 2370"
    using years_of_era [OF y] years_of_era [OF y'] by (simp_all add: nat_less_iff)
  have "abs ?era < 2400" "abs ?era' < 2400"
    using assms(1,2) unfolding js_instant_def by linarith+
  then have bounds: "abs (int y + 400 * ?era) < 1000000" "abs (int y' + 400 * ?era') < 1000000"
    using yb unfolding abs_less_iff by simp_all
  from year_text_inj [OF bounds ye]
  have yr: "int y + 400 * ?era = int y' + 400 * ?era'" .
  have mm: "m = m'" by (rule p2 [OF parts(1)]; use mi(2) mi'(2) in linarith)
  have "d + 1 = d' + 1" by (rule p2 [OF parts(2)]; use mi(3) mi'(3) in linarith)
  then have dd: "d = d'" by simp
  have tm: "nat (s mod 86400000) = nat (t mod 86400000)" by (rule time_text_inj [OF b parts(3)])
  have gen: "e = e'" if "x + 400 * e = x' + 400 * e'" "1970 \<le> x" "x < 2370" "1970 \<le> x'" "x' < 2370" for x x' e e' :: int
    using that by linarith
  have yy: "?era = ?era'" by (rule gen [OF yr]) (use yb inv(5,6) in simp_all)
  with yr have yy': "y = y'" by simp
  with mi(4) mi'(4) mm dd yy' have "r = r'" by simp
  with inv(1,3) yy' have "nat (s div 86400000 mod 146097) = nat (t div 86400000 mod 146097)" by simp
  then have "s div 86400000 mod 146097 = t div 86400000 mod 146097" by (simp add: eq_nat_nat_iff)
  with yy have "s div 86400000 = t div 86400000" by (metis div_mult_mod_eq)
  moreover from tm have "s mod 86400000 = t mod 86400000" by (simp add: eq_nat_nat_iff)
  ultimately show ?thesis by (metis div_mult_mod_eq)
qed

section \<open>Redaction\<close>

definition REDACTED :: jstring where
  "REDACTED = ''[REDACTED]''"

definition EXACT_KEYS :: "jstring list" where
  "EXACT_KEYS = [''otp'', ''authorization'', ''cookie'', ''apikey'', ''privatekey'', ''signedurl'']"

definition SENSITIVE_SUFFIX :: "jstring list" where
  "SENSITIVE_SUFFIX = [''password'', ''passcode'', ''secret'', ''token'', ''hash'', ''otp'']"

definition ends_with :: "jstring \<Rightarrow> jstring \<Rightarrow> bool" where
  "ends_with t s \<longleftrightarrow> starts_with (rev t) (rev s)"

definition isSensitiveKey :: "jstring \<Rightarrow> bool" where
  "isSensitiveKey key =
     (let k = filter (\<lambda>c. c \<noteq> CHR ''_'' \<and> c \<noteq> CHR ''-'') (js_lower key)
      in k \<in> set EXACT_KEYS \<or> list_ex (\<lambda>x. ends_with x k) SENSITIVE_SUFFIX)"

text \<open>The pattern for signed links, matched without regard to case.\<close>

definition SENSITIVE_VALUE :: "jstring \<Rightarrow> bool" where
  "SENSITIVE_VALUE v = list_ex (\<lambda>p. js_includes p (js_lower v))
     [''x-amz-signature'', ''x-goog-signature'', ''?token='', ''&token='', ''?signature='', ''&signature='']"

definition MAX_DEPTH :: nat where
  "MAX_DEPTH = 8"

fun redact :: "nat \<Rightarrow> jval \<Rightarrow> jval" where
  "redact depth JUndefined = JUndefined"
| "redact depth JNull = JNull"
| "redact depth (JStr s) = (if MAX_DEPTH < depth \<or> SENSITIVE_VALUE s then JStr REDACTED else JStr s)"
| "redact depth (JDate t) = (if MAX_DEPTH < depth then JStr REDACTED else JStr (toISOString t))"
| "redact depth JBuffer = JStr REDACTED"
| "redact depth (JArr vs) = (if MAX_DEPTH < depth then JStr REDACTED else JArr (map (redact (depth + 1)) vs))"
| "redact depth (JObj fs) = (if MAX_DEPTH < depth then JStr REDACTED
     else JObj (map (\<lambda>(k, v). (k, if isSensitiveKey k then JStr REDACTED else redact (depth + 1) v)) fs))"
| "redact depth v = (if MAX_DEPTH < depth then JStr REDACTED else v)"

definition toAuditJson :: "jval \<Rightarrow> jval option" where
  "toAuditJson v = (case redact 0 v of JUndefined \<Rightarrow> None | JNull \<Rightarrow> None | r \<Rightarrow> Some r)"

end
