(* ===== verification/Audit_Log.thy ===== *)
theory Audit_Log
  imports Json_Text
begin

text \<open>
  The audit log, \<open>src/modules/misc/audit-log/service/audit-log.service.ts\<close> over the rows of
  \<open>prisma/schema/audit-log.prisma\<close>: how an event becomes a row of the hash chain, how the chain is
  verified, and the rows a purge leaves behind. The hash function, the archive and the signature of
  confirmation tokens are parameters.
\<close>

section \<open>Rows\<close>

datatype audit_source = SRC_WEB | SRC_MOBILE | SRC_API | SRC_SYSTEM

record audit_row =
  al_id :: jstring
  al_createdAt :: int
  al_userId :: "jstring option"
  al_actorType :: actor_type
  al_actorName :: "jstring option"
  al_actorRole :: "jstring option"
  al_sessionId :: "jstring option"
  al_targetUserId :: "jstring option"
  al_action :: jstring
  al_outcome :: audit_outcome
  al_severity :: audit_severity
  al_reason :: "jstring option"
  al_entity :: jstring
  al_entityId :: "jstring option"
  al_entityLabel :: "jstring option"
  al_diff :: "jval option"
  al_metadata :: "jval option"
  al_ipAddress :: "jstring option"
  al_userAgent :: "jstring option"
  al_country :: "jstring option"
  al_city :: "jstring option"
  al_region :: "jstring option"
  al_timezone :: "jstring option"
  al_asn :: "int option"
  al_isp :: "jstring option"
  al_deviceLabel :: "jstring option"
  al_clientVersion :: "jstring option"
  al_source :: "audit_source option"
  al_method :: "jstring option"
  al_path :: "jstring option"
  al_requestId :: "jstring option"
  al_seq :: "int option"
  al_hash :: "jstring option"
  al_prevHash :: "jstring option"
  al_legalHold :: bool
  al_anonymizedAt :: "int option"

text \<open>The event as it is emitted; optional fields may be absent.\<close>

record audit_payload =
  ap_userId :: "jstring option"
  ap_actorType :: actor_type
  ap_actorName :: "jstring option"
  ap_actorRole :: "jstring option"
  ap_sessionId :: "jstring option"
  ap_targetUserId :: "jstring option"
  ap_action :: jstring
  ap_outcome :: "audit_outcome option"
  ap_severity :: "audit_severity option"
  ap_reason :: "jstring option"
  ap_entity :: jstring
  ap_entityId :: "jstring option"
  ap_entityLabel :: "jstring option"
  ap_diff :: jval
  ap_metadata :: jval
  ap_ipAddress :: "jstring option"
  ap_userAgent :: "jstring option"
  ap_country :: "jstring option"
  ap_city :: "jstring option"
  ap_source :: "audit_source option"
  ap_method :: "jstring option"
  ap_path :: "jstring option"
  ap_requestId :: "jstring option"

record req_ctx =
  rc_requestId :: jstring
  rc_ipAddress :: "jstring option"
  rc_userAgent :: "jstring option"
  rc_method :: "jstring option"
  rc_path :: "jstring option"
  rc_source :: "audit_source option"
  rc_country :: "jstring option"
  rc_city :: "jstring option"
  rc_region :: "jstring option"
  rc_timezone :: "jstring option"
  rc_asn :: "int option"
  rc_isp :: "jstring option"
  rc_deviceLabel :: "jstring option"
  rc_clientVersion :: "jstring option"
  rc_actorName :: "jstring option"
  rc_actorRole :: "jstring option"
  rc_sessionId :: "jstring option"

datatype run_status = RUN_STARTED | RUN_ARCHIVED | RUN_COMPLETED | RUN_FAILED

record purge_run =
  pr_id :: jstring
  pr_tokenId :: jstring
  pr_cutoff :: int
  pr_reason :: jstring
  pr_status :: run_status
  pr_requestedById :: jstring
  pr_archiveKey :: "jstring option"
  pr_archivedCount :: nat
  pr_deletedCount :: nat
  pr_heldCount :: nat
  pr_minSeq :: "int option"
  pr_maxSeq :: "int option"
  pr_error :: "jstring option"
  pr_finishedAt :: "int option"

text \<open>A hold covers the rows that meet every condition it sets.\<close>

record hold_filter =
  hf_rowId :: "jstring option"
  hf_entity :: "jstring option"
  hf_entityId :: "jstring option"
  hf_userId :: "jstring option"
  hf_targetUserId :: "jstring option"
  hf_action :: "jstring option"
  hf_sessionId :: "jstring option"
  hf_requestId :: "jstring option"
  hf_startDate :: "int option"
  hf_endDate :: "int option"

record legal_hold =
  lh_id :: jstring
  lh_isRow :: bool \<comment> \<open>\<open>kind\<close>\<close>
  lh_caseReference :: jstring
  lh_reason :: jstring
  lh_filter :: hold_filter
  lh_active :: bool \<comment> \<open>\<open>status\<close>\<close>
  lh_rowCount :: nat
  lh_appliedAt :: int
  lh_createdById :: jstring
  lh_releasedAt :: "int option"
  lh_releasedById :: "jstring option"
  lh_releaseRequestedById :: "jstring option"
  lh_releaseReason :: "jstring option"

datatype approval_kind = HOLD_RELEASE | RETENTION_CHANGE | ARCHIVE_RETRIEVAL

datatype approval_status = AR_PENDING | AR_EXPIRED | AR_CONSUMED

record approval =
  ar_id :: jstring
  ar_kind :: approval_kind
  ar_targetKey :: jstring
  ar_payloadHash :: jstring
  ar_reason :: "jstring option"
  ar_status :: approval_status
  ar_requestedById :: jstring
  ar_approvedById :: "jstring option"
  ar_expiresAt :: int
  ar_decidedAt :: "int option"
  ar_createdAt :: int

datatype schedule_status = PS_SCHEDULED | PS_RUNNING | PS_EXECUTED | PS_FAILED | PS_CANCELLED

record purge_schedule =
  ps_id :: jstring
  ps_olderThan :: int
  ps_runAt :: int
  ps_reason :: jstring
  ps_status :: schedule_status
  ps_createdById :: jstring
  ps_cancelledById :: "jstring option"
  ps_cancelReason :: "jstring option"
  ps_cancelledAt :: "int option"
  ps_purgeRunId :: "jstring option"
  ps_error :: "jstring option"
  ps_executedAt :: "int option"

datatype break_reason = HASH_MISMATCH | CHAIN_LINK_BROKEN | ROWS_MISSING

record integrity_report =
  ir_complete :: bool
  ir_checked :: nat
  ir_unchainedRows :: nat
  ir_from :: "int option"
  ir_to :: "int option"
  ir_firstBreak :: "(jstring \<times> int \<times> int \<times> break_reason) option" \<comment> \<open>id, number, time\<close>
  ir_head :: "(int \<times> jstring option) option"

definition ir_ok :: "integrity_report \<Rightarrow> bool" where
  "ir_ok r \<longleftrightarrow> ir_firstBreak r = None"

record audit_state =
  au_rows :: "audit_row list"
  au_runs :: "purge_run list"
  au_holds :: "legal_hold list"
  au_approvals :: "approval list"
  au_schedules :: "purge_schedule list"
  au_retention :: "((jstring \<times> jstring) \<times> nat \<times> int) list" \<comment> \<open>days and \<open>updatedAt\<close> by scope and key\<close>
  au_integrity :: "(bool \<times> jstring option \<times> integrity_report) list"
  au_archive :: "(jstring \<times> audit_row list) list" \<comment> \<open>objects in cold storage\<close>
  au_created :: nat

datatype archive_answer = OpenFails jstring | WriteFails jstring | Stored jstring

record token_claims =
  tc_sub :: jstring
  tc_cutoff :: int
  tc_exp :: int
  tc_jti :: jstring

record audit_env =
  ae_now :: int
  ae_newId :: "nat \<Rightarrow> jstring"
  ae_ctx :: "req_ctx option"
  ae_sha256 :: "jstring \<Rightarrow> jstring"
  ae_archive :: "archive_answer option" \<comment> \<open>None: no archive configured\<close>
  ae_storage :: bool
  ae_tokenSecret :: "jstring option"
  ae_sign :: "jstring \<Rightarrow> token_claims \<Rightarrow> jstring" \<comment> \<open>the token: the claims and their HMAC, in base64url\<close>
  ae_open :: "jstring \<Rightarrow> jstring \<Rightarrow> token_claims option" \<comment> \<open>the claims, when the signature fits\<close>
  ae_maxVerify :: nat \<comment> \<open>\<open>MAX_VERIFY_ROWS\<close>\<close>
  ae_batch :: nat \<comment> \<open>\<open>VERIFY_BATCH\<close>\<close>
  ae_rank :: "jstring \<Rightarrow> nat" \<comment> \<open>the order of \<open>localeCompare\<close>\<close>
  ae_order :: "jstring \<Rightarrow> nat" \<comment> \<open>the database's order of ids and keys\<close>
  ae_deleteFails :: "(nat \<times> jstring) option" \<comment> \<open>a purge's delete fails after so many batches\<close>
  ae_minNotice :: nat \<comment> \<open>\<open>AUDIT_PURGE_MIN_NOTICE_HOURS\<close>\<close>

section \<open>Recording\<close>

definition coalesce :: "'a option \<Rightarrow> 'a option \<Rightarrow> 'a option" where
  "coalesce a b = (case a of None \<Rightarrow> b | Some x \<Rightarrow> Some x)"

definition LOGIN_FAILED :: jstring where
  "LOGIN_FAILED = ''LOGIN_FAILED''"

fun chain_outcome_name :: "audit_outcome \<Rightarrow> jstring" where
  "chain_outcome_name SUCCESS = ''SUCCESS''"
| "chain_outcome_name FAILURE = ''FAILURE''"
| "chain_outcome_name DENIED = ''DENIED''"

fun severity_name :: "audit_severity \<Rightarrow> jstring" where
  "severity_name INFO = ''INFO''"
| "severity_name WARNING = ''WARNING''"
| "severity_name CRITICAL = ''CRITICAL''"

fun actor_name :: "actor_type \<Rightarrow> jstring" where
  "actor_name USER = ''USER''"
| "actor_name ADMIN = ''ADMIN''"
| "actor_name SUPER_ADMIN = ''SUPER_ADMIN''"
| "actor_name SYSTEM = ''SYSTEM''"
| "actor_name ANONYMOUS = ''ANONYMOUS''"

definition chain_outcome :: "audit_payload \<Rightarrow> audit_outcome" where
  "chain_outcome p = (if ap_action p = LOGIN_FAILED \<and> (ap_outcome p = None \<or> ap_outcome p = Some SUCCESS) then FAILURE
     else case ap_outcome p of None \<Rightarrow> SUCCESS | Some oc \<Rightarrow> oc)"

definition chain_severity :: "audit_payload \<Rightarrow> audit_severity" where
  "chain_severity p = (if ap_action p = LOGIN_FAILED \<and> (ap_severity p = None \<or> ap_severity p = Some INFO) then WARNING
     else case ap_severity p of None \<Rightarrow> INFO | Some v \<Rightarrow> v)"

definition from_ctx :: "req_ctx option \<Rightarrow> (req_ctx \<Rightarrow> 'a option) \<Rightarrow> 'a option" where
  "from_ctx ctx f = (case ctx of None \<Rightarrow> None | Some c \<Rightarrow> f c)"

text \<open>The columns without the chain; a system event does not inherit the caller's network details.\<close>

definition row_data :: "audit_env \<Rightarrow> audit_payload \<Rightarrow> jstring \<Rightarrow> audit_row" where
  "row_data env p i =
     (let sys = (ap_actorType p = SYSTEM); ctx = ae_ctx env; net = (if sys then None else ctx) in
      \<lparr>al_id = i, al_createdAt = ae_now env,
       al_userId = (if sys then None else ap_userId p), al_actorType = ap_actorType p,
       al_actorName = coalesce (ap_actorName p) (if sys then Some ''System'' else from_ctx ctx rc_actorName),
       al_actorRole = coalesce (ap_actorRole p) (if sys then Some ''SYSTEM'' else from_ctx ctx rc_actorRole),
       al_sessionId = coalesce (ap_sessionId p) (from_ctx net rc_sessionId), al_targetUserId = ap_targetUserId p,
       al_action = ap_action p, al_outcome = chain_outcome p, al_severity = chain_severity p, al_reason = ap_reason p,
       al_entity = ap_entity p, al_entityId = ap_entityId p, al_entityLabel = ap_entityLabel p,
       al_diff = toAuditJson (ap_diff p), al_metadata = toAuditJson (ap_metadata p),
       al_ipAddress = coalesce (ap_ipAddress p) (from_ctx net rc_ipAddress), al_userAgent = coalesce (ap_userAgent p) (from_ctx net rc_userAgent),
       al_country = coalesce (ap_country p) (from_ctx net rc_country), al_city = coalesce (ap_city p) (from_ctx net rc_city),
       al_region = from_ctx net rc_region, al_timezone = from_ctx net rc_timezone, al_asn = from_ctx net rc_asn, al_isp = from_ctx net rc_isp,
       al_deviceLabel = from_ctx net rc_deviceLabel, al_clientVersion = from_ctx net rc_clientVersion,
       al_source = coalesce (ap_source p) (if sys then Some SRC_SYSTEM else from_ctx ctx rc_source),
       al_method = coalesce (ap_method p) (from_ctx net rc_method), al_path = coalesce (ap_path p) (from_ctx net rc_path),
       al_requestId = coalesce (ap_requestId p) (map_option rc_requestId ctx),
       al_seq = None, al_hash = None, al_prevHash = None, al_legalHold = False, al_anonymizedAt = None\<rparr>)"

text \<open>What the hash covers, as JSON text.\<close>

definition HASH_VERSION :: jstring where
  "HASH_VERSION = ''v1''"

definition prev_text :: "jstring option \<Rightarrow> jstring" where
  "prev_text prev = (case prev of None \<Rightarrow> ''GENESIS'' | Some h \<Rightarrow> h)"

definition chain_text :: "int \<Rightarrow> jstring option \<Rightarrow> audit_row \<Rightarrow> jstring" where
  "chain_text seq prev r = ''['' @ json_string HASH_VERSION @ '','' @ show_nat (nat seq) @ '','' @ json_string (prev_text prev) @ '','' @
     json_string (toISOString (al_createdAt r)) @ '','' @ json_string (al_action r) @ '','' @
     json_string (chain_outcome_name (al_outcome r)) @ '','' @ json_string (severity_name (al_severity r)) @ '','' @
     json_string (actor_name (al_actorType r)) @ '','' @ json_string (al_entity r) @ '','' @
     json_opt (al_entityId r) @ '','' @ json_opt (al_reason r) @ '']''"

definition computeHash :: "audit_env \<Rightarrow> int \<Rightarrow> jstring option \<Rightarrow> audit_row \<Rightarrow> jstring" where
  "computeHash env seq prev r = ae_sha256 env (chain_text seq prev r)"

text \<open>The rows of the chain by their number; the last one is what the next row links to.\<close>

definition row_seq :: "audit_row \<Rightarrow> int" where
  "row_seq r = (case al_seq r of None \<Rightarrow> 0 | Some n \<Rightarrow> n)"

definition chained :: "audit_row list \<Rightarrow> audit_row list" where
  "chained rows = sort_key row_seq (filter (\<lambda>r. al_seq r \<noteq> None) rows)"

definition last_link :: "audit_row list \<Rightarrow> audit_row option" where
  "last_link rows = (case rev (chained rows) of [] \<Rightarrow> None | r # _ \<Rightarrow> Some r)"

definition link_row :: "audit_env \<Rightarrow> audit_row option \<Rightarrow> audit_row \<Rightarrow> audit_row" where
  "link_row env l r =
     (let seq = (case l of None \<Rightarrow> 0 | Some q \<Rightarrow> row_seq q) + 1; prev = Option.bind l al_hash
      in r\<lparr>al_seq := Some seq, al_prevHash := prev, al_hash := Some (computeHash env seq prev r)\<rparr>)"

definition record_event :: "audit_env \<Rightarrow> audit_payload \<Rightarrow> audit_state \<Rightarrow> audit_row \<times> audit_state" where
  "record_event env p s =
     (let r = link_row env (last_link (au_rows s)) (row_data env p (ae_newId env (au_created s)))
      in (r, s\<lparr>au_rows := au_rows s @ [r], au_created := au_created s + 1\<rparr>))"

text \<open>Events of another shape, without actor, entity or action, are ignored by the listener.\<close>

definition handleAuditEvent :: "audit_env \<Rightarrow> audit_payload \<Rightarrow> audit_state \<Rightarrow> audit_state" where
  "handleAuditEvent env p s = (if ap_entity p = [] \<or> ap_action p = [] then s else snd (record_event env p s))"

definition isSuperAdmin :: "current_user \<Rightarrow> bool" where
  "isSuperAdmin u \<longleftrightarrow> ''SUPER_ADMIN'' \<in> set (cu_roles u)"

text \<open>\<open>None\<close> is the worker, the system's own actor.\<close>

definition self_payload :: "current_user option \<Rightarrow> jstring \<Rightarrow> audit_payload" where
  "self_payload actor action =
     \<lparr>ap_userId = map_option cu_id actor,
      ap_actorType = (case actor of None \<Rightarrow> SYSTEM | Some u \<Rightarrow> if isSuperAdmin u then SUPER_ADMIN else ADMIN),
      ap_actorName = None, ap_actorRole = None, ap_sessionId = None, ap_targetUserId = None, ap_action = action,
      ap_outcome = None, ap_severity = None, ap_reason = None, ap_entity = ''AuditLog'', ap_entityId = None,
      ap_entityLabel = None, ap_diff = JUndefined, ap_metadata = JUndefined, ap_ipAddress = None, ap_userAgent = None,
      ap_country = None, ap_city = None, ap_source = None, ap_method = None, ap_path = None, ap_requestId = None\<rparr>"

definition auditSelf :: "audit_env \<Rightarrow> audit_payload \<Rightarrow> audit_state \<Rightarrow> audit_state" where
  "auditSelf env p s = snd (record_event env p s)"

section \<open>Verification\<close>

text \<open>Ranges of numbers that purge runs removed, in the order of their start, merged where they touch.\<close>

fun merge_ranges :: "(int \<times> int) list \<Rightarrow> (int \<times> int) list \<Rightarrow> (int \<times> int) list" where
  "merge_ranges merged [] = rev merged"
| "merge_ranges [] ((lo, hi) # rs) = merge_ranges [(lo, hi)] rs"
| "merge_ranges ((a, b) # ms) ((lo, hi) # rs) =
     (if lo \<le> b + 1 then merge_ranges ((a, max b hi) # ms) rs else merge_ranges ((lo, hi) # (a, b) # ms) rs)"

definition run_ranges :: "purge_run list \<Rightarrow> (int \<times> int) list" where
  "run_ranges runs = List.map_filter (\<lambda>r. case (pr_minSeq r, pr_maxSeq r) of (Some a, Some b) \<Rightarrow> Some (a, b) | _ \<Rightarrow> None) runs"

definition purgedSeqRanges :: "purge_run list \<Rightarrow> (int \<times> int) list" where
  "purgedSeqRanges runs = merge_ranges [] (sort_key fst (run_ranges runs))"

definition explained :: "(int \<times> int) list \<Rightarrow> int \<Rightarrow> int \<Rightarrow> bool" where
  "explained purged lo hi \<longleftrightarrow> list_ex (\<lambda>(a, b). a \<le> lo \<and> hi \<le> b) purged"

text \<open>The scan of the rows of one batch: what was the last verified link, and how many were checked.\<close>

record scan =
  sc_prev :: "(int \<times> jstring option) option"
  sc_checked :: nat
  sc_stopped :: bool
  sc_complete :: bool
  sc_break :: "(jstring \<times> int \<times> int \<times> break_reason) option"

definition row_break :: "audit_env \<Rightarrow> (int \<times> int) list \<Rightarrow> (int \<times> jstring option) option \<Rightarrow> audit_row \<Rightarrow> break_reason option" where
  "row_break env purged prev r =
     (if Some (computeHash env (row_seq r) (al_prevHash r) r) \<noteq> al_hash r then Some HASH_MISMATCH
      else case prev of None \<Rightarrow> None
      | Some (seq, hash) \<Rightarrow>
          if row_seq r = seq + 1 then (if al_prevHash r \<noteq> hash then Some CHAIN_LINK_BROKEN else None)
          else if \<not> explained purged (seq + 1) (row_seq r - 1) then Some ROWS_MISSING else None)"

fun scan_rows :: "audit_env \<Rightarrow> (int \<times> int) list \<Rightarrow> audit_row list \<Rightarrow> scan \<Rightarrow> scan" where
  "scan_rows env purged [] st = st"
| "scan_rows env purged (r # rs) st =
     (if ae_maxVerify env \<le> sc_checked st then st\<lparr>sc_complete := False, sc_stopped := True\<rparr>
      else case row_break env purged (sc_prev st) r of
        Some b \<Rightarrow> st\<lparr>sc_break := Some (al_id r, row_seq r, al_createdAt r, b), sc_stopped := True\<rparr>
      | None \<Rightarrow> scan_rows env purged rs (st\<lparr>sc_prev := Some (row_seq r, al_hash r), sc_checked := sc_checked st + 1\<rparr>))"

definition in_range :: "int option \<Rightarrow> int option \<Rightarrow> audit_row \<Rightarrow> bool" where
  "in_range from to r \<longleftrightarrow> (case from of None \<Rightarrow> True | Some f \<Rightarrow> f \<le> al_createdAt r) \<and>
     (case to of None \<Rightarrow> True | Some t \<Rightarrow> al_createdAt r \<le> t)"

text \<open>The batches after the given number, until none is left or the scan stops.\<close>

function scan_batches :: "audit_env \<Rightarrow> (int \<times> int) list \<Rightarrow> audit_row list \<Rightarrow> scan \<Rightarrow> scan" where
  "scan_batches env purged rows st =
     (if rows = [] \<or> sc_stopped st then st
      else scan_batches env purged (drop (max 1 (ae_batch env)) rows)
        (scan_rows env purged (take (max 1 (ae_batch env)) rows) st))"
  by pat_completeness auto

termination
  by (relation "measure (\<lambda>(env, purged, rows, st). length rows)") auto

declare scan_batches.simps [simp del]

text \<open>The first link is checked against the row just before the range.\<close>

definition anchor :: "audit_row list \<Rightarrow> audit_row list \<Rightarrow> (int \<times> jstring option) option" where
  "anchor all rows =
     (case rows of [] \<Rightarrow> None
      | r # _ \<Rightarrow> (case rev (filter (\<lambda>q. row_seq q < row_seq r) (chained all)) of [] \<Rightarrow> None
          | q # _ \<Rightarrow> if truthy (al_hash q) then Some (row_seq q, al_hash q) else None))"

definition integrity_of :: "audit_env \<Rightarrow> int option \<Rightarrow> int option \<Rightarrow> audit_state \<Rightarrow> integrity_report" where
  "integrity_of env from to s =
     (let rows = filter (in_range from to) (chained (au_rows s));
          st = scan_batches env (purgedSeqRanges (au_runs s)) rows
            \<lparr>sc_prev = anchor (au_rows s) rows, sc_checked = 0, sc_stopped = False, sc_complete = True, sc_break = None\<rparr>
      in \<lparr>ir_complete = sc_complete st, ir_checked = sc_checked st,
          ir_unchainedRows = count_where (\<lambda>r. in_range from to r \<and> al_seq r = None) (au_rows s),
          ir_from = from, ir_to = to, ir_firstBreak = sc_break st, ir_head = sc_prev st\<rparr>)"

text \<open>The report as it is logged, without the explanation of the break.\<close>

definition jdate_opt :: "int option \<Rightarrow> jval" where
  "jdate_opt d = (case d of None \<Rightarrow> JNull | Some t \<Rightarrow> JStr (toISOString t))"

definition break_name :: "break_reason \<Rightarrow> jstring" where
  "break_name b = (case b of HASH_MISMATCH \<Rightarrow> ''hash_mismatch'' | CHAIN_LINK_BROKEN \<Rightarrow> ''chain_link_broken'' | ROWS_MISSING \<Rightarrow> ''rows_missing'')"

definition report_json :: "integrity_report \<Rightarrow> jval" where
  "report_json rep = JObj [(''ok'', JBool (ir_ok rep)), (''complete'', JBool (ir_complete rep)), (''checked'', JInt (int (ir_checked rep))),
     (''unchainedRows'', JInt (int (ir_unchainedRows rep))), (''from'', jdate_opt (ir_from rep)), (''to'', jdate_opt (ir_to rep)),
     (''firstBreak'', case ir_firstBreak rep of None \<Rightarrow> JNull | Some (i, n, d, b) \<Rightarrow>
        JObj [(''id'', JStr i), (''seq'', JInt n), (''createdAt'', JStr (toISOString d)), (''reason'', JStr (break_name b))]),
     (''head'', case ir_head rep of None \<Rightarrow> JNull | Some (n, h) \<Rightarrow> JObj [(''seq'', JInt n), (''hash'', jstr_opt h)])]"

definition verifyIntegrity :: "audit_env \<Rightarrow> int option \<Rightarrow> int option \<Rightarrow> current_user option \<Rightarrow> bool \<Rightarrow> audit_state
    \<Rightarrow> integrity_report result \<times> audit_state" where
  "verifyIntegrity env from to actor manual s =
     (if (case (from, to) of (Some f, Some t) \<Rightarrow> t < f | _ \<Rightarrow> False) then (Inl (BadRequest ''from_after_to''), s)
      else let rep = integrity_of env from to s;
               s1 = auditSelf env ((self_payload actor ''AUDIT_LOG_INTEGRITY_VERIFIED'')
                 \<lparr>ap_outcome := Some (if ir_ok rep then SUCCESS else FAILURE), ap_severity := Some (if ir_ok rep then INFO else CRITICAL),
                  ap_metadata := report_json rep\<rparr>) s
           in (Inr rep, s1\<lparr>au_integrity := au_integrity s1 @ [(manual, map_option cu_id actor, rep)]\<rparr>))"

end
