(* ===== verification/Audit_Control.thy ===== *)
theory Audit_Control
  imports Audit_Log "HOL-Library.AList"
begin

text \<open>
  What weakens the audit log, and its controls: purges with their confirmation tokens, archives and
  schedules, anonymisation, legal holds, and the second administrator (\<open>audit-log.service.ts\<close>).
\<close>

section \<open>Purges\<close>

definition purgeable :: "int \<Rightarrow> audit_row \<Rightarrow> bool" where
  "purgeable cutoff r \<longleftrightarrow> al_createdAt r < cutoff \<and> \<not> al_legalHold r"

text \<open>\<open>olderThan\<close>: absent, not a date, or the instant it parses to.\<close>

definition parseCutoff :: "audit_env \<Rightarrow> int option option \<Rightarrow> int result" where
  "parseCutoff env olderThan =
     (case olderThan of None \<Rightarrow> Inl (BadRequest ''olderThan_query_param_required'')
      | Some None \<Rightarrow> Inl (BadRequest ''invalid_olderThan_date'')
      | Some (Some t) \<Rightarrow> if ae_now env < t then Inl (BadRequest ''olderThan_must_be_in_the_past'') else Inr t)"

definition tokenSecret :: "audit_env \<Rightarrow> jstring result" where
  "tokenSecret env =
     (case ae_tokenSecret env of None \<Rightarrow> Inl (ServiceUnavailable ''purge_not_configured'')
      | Some k \<Rightarrow> if length k < 32 then Inl (ServiceUnavailable ''purge_not_configured'') else Inr k)"

definition PURGE_TOKEN_TTL_MS :: int where
  "PURGE_TOKEN_TTL_MS = 600000"

definition issueConfirmToken :: "audit_env \<Rightarrow> jstring \<Rightarrow> int \<Rightarrow> audit_state \<Rightarrow> jstring result \<times> audit_state" where
  "issueConfirmToken env actor cutoff s =
     (case tokenSecret env of Inl e \<Rightarrow> (Inl e, s)
      | Inr k \<Rightarrow> (Inr (ae_sign env k \<lparr>tc_sub = actor, tc_cutoff = cutoff, tc_exp = ae_now env + PURGE_TOKEN_TTL_MS,
            tc_jti = ae_newId env (au_created s)\<rparr>), s\<lparr>au_created := au_created s + 1\<rparr>))"

definition token_shaped :: "jstring \<Rightarrow> bool" where
  "token_shaped token \<longleftrightarrow> (case split_on (CHR ''.'') token of b # g # _ \<Rightarrow> b \<noteq> [] \<and> g \<noteq> [] | _ \<Rightarrow> False)"

definition verifyConfirmToken :: "audit_env \<Rightarrow> jstring \<Rightarrow> jstring \<Rightarrow> int \<Rightarrow> token_claims result" where
  "verifyConfirmToken env token actor cutoff =
     (if \<not> token_shaped token then Inl (BadRequest ''invalid_confirm_token'')
      else case tokenSecret env of Inl e \<Rightarrow> Inl e
      | Inr k \<Rightarrow> (case ae_open env k token of None \<Rightarrow> Inl (BadRequest ''invalid_confirm_token'')
        | Some c \<Rightarrow>
            if tc_exp c < ae_now env then Inl (BadRequest ''confirm_token_expired'')
            else if tc_sub c \<noteq> actor then Inl (Forbidden ''confirm_token_issued_to_another_user'')
            else if tc_cutoff c \<noteq> cutoff then Inl (BadRequest ''confirm_token_does_not_match_olderThan'')
            else Inr c))"

definition previewPurge :: "audit_env \<Rightarrow> int option option \<Rightarrow> current_user \<Rightarrow> audit_state \<Rightarrow> (nat \<times> nat \<times> jstring) result \<times> audit_state" where
  "previewPurge env olderThan actor s =
     (case parseCutoff env olderThan of Inl e \<Rightarrow> (Inl e, s)
      | Inr cutoff \<Rightarrow>
        let wouldDelete = count_where (purgeable cutoff) (au_rows s);
            held = count_where (\<lambda>r. al_createdAt r < cutoff \<and> al_legalHold r) (au_rows s) in
        res_bind (issueConfirmToken env (cu_id actor) cutoff s)
          (\<lambda>token s1. (Inr (wouldDelete, held, token), auditSelf env ((self_payload (Some actor) ''AUDIT_LOG_PURGE_PREVIEWED'')
             \<lparr>ap_severity := Some WARNING, ap_metadata := JObj [(''cutoff'', JStr (toISOString cutoff)),
                (''wouldDelete'', JInt (int wouldDelete)), (''underLegalHold'', JInt (int held))]\<rparr>) s1)))"

definition update_run :: "jstring \<Rightarrow> (purge_run \<Rightarrow> purge_run) \<Rightarrow> audit_state \<Rightarrow> audit_state" where
  "update_run i f s = s\<lparr>au_runs := update_where (\<lambda>r. pr_id r = i) f (au_runs s)\<rparr>"

definition failRun :: "audit_env \<Rightarrow> jstring \<Rightarrow> jstring \<Rightarrow> audit_state \<Rightarrow> audit_state" where
  "failRun env i err = update_run i (\<lambda>r. r\<lparr>pr_status := RUN_FAILED, pr_error := Some err, pr_finishedAt := Some (ae_now env)\<rparr>)"

text \<open>The smallest and largest number among the rows, if any has one.\<close>

definition seq_range :: "audit_row list \<Rightarrow> (int option \<times> int option)" where
  "seq_range rows = (case map row_seq (filter (\<lambda>r. al_seq r \<noteq> None) rows) of
     [] \<Rightarrow> (None, None) | n # ns \<Rightarrow> (Some (fold min ns n), Some (fold max ns n)))"

text \<open>Archive first, in the order of ids: the run is marked archived, with the numbers it covers, or nothing is deleted.\<close>

definition to_purge :: "audit_env \<Rightarrow> int \<Rightarrow> audit_state \<Rightarrow> audit_row list" where
  "to_purge env cutoff s = sort_key (\<lambda>r. ae_order env (al_id r)) (filter (purgeable cutoff) (au_rows s))"

definition archive_rows :: "audit_env \<Rightarrow> jstring \<Rightarrow> int \<Rightarrow> audit_state \<Rightarrow> (nat \<times> jstring option) result \<times> audit_state" where
  "archive_rows env run cutoff s =
     (let rows = to_purge env cutoff s; (lo, hi) = seq_range rows;
          done = (\<lambda>key. update_run run (\<lambda>r. r\<lparr>pr_status := RUN_ARCHIVED, pr_archiveKey := key,
            pr_archivedCount := length rows, pr_minSeq := lo, pr_maxSeq := hi\<rparr>)) in
      case ae_archive env of
        None \<Rightarrow> (Inl (ServiceUnavailable ''audit_archive_not_configured''), s)
      | Some (OpenFails e) \<Rightarrow> (Inl (ServiceUnavailable ''audit_archive_unavailable_nothing_deleted''), failRun env run (''archive_open: '' @ e) s)
      | Some (WriteFails e) \<Rightarrow> (Inl (ServiceUnavailable ''audit_archive_failed_nothing_deleted''), failRun env run (''archive: '' @ e) s)
      | Some (Stored key) \<Rightarrow>
          if rows = [] then (Inr (0, None), done None s)
          else (Inr (length rows, Some key), (done (Some key) s)\<lparr>au_archive := au_archive s @ [(key, rows)]\<rparr>))"

text \<open>Then delete in batches, looking at the holds again; a failure keeps what is deleted so far deleted.\<close>

definition PURGE_BATCH :: nat where
  "PURGE_BATCH = 5000"

definition purge_rows :: "audit_env \<Rightarrow> jstring \<Rightarrow> int \<Rightarrow> audit_state \<Rightarrow> (nat \<times> nat) result \<times> audit_state" where
  "purge_rows env run cutoff s =
     (let rows = to_purge env cutoff s;
          gone = (case ae_deleteFails env of None \<Rightarrow> rows | Some (k, e) \<Rightarrow> take (k * PURGE_BATCH) rows);
          n = length gone;
          s1 = s\<lparr>au_rows := filter (\<lambda>r. \<not> (purgeable cutoff r \<and> al_id r \<in> set (map al_id gone))) (au_rows s)\<rparr>;
          held = count_where (\<lambda>r. al_createdAt r < cutoff \<and> al_legalHold r) (au_rows s1)
      in case ae_deleteFails env of
           Some (k, e) \<Rightarrow> (Inl (ServiceUnavailable (''purge_partially_failed_see_run_'' @ run)),
             update_run run (\<lambda>r. r\<lparr>pr_status := RUN_FAILED, pr_deletedCount := n, pr_error := Some (''delete: '' @ e)\<rparr>) s1)
         | None \<Rightarrow> (Inr (n, held), update_run run (\<lambda>r. r\<lparr>pr_status := RUN_COMPLETED, pr_deletedCount := n, pr_heldCount := held,
             pr_finishedAt := Some (ae_now env)\<rparr>) s1))"

definition new_run :: "audit_env \<Rightarrow> token_claims \<Rightarrow> int \<Rightarrow> jstring \<Rightarrow> current_user \<Rightarrow> audit_state \<Rightarrow> purge_run" where
  "new_run env claims cutoff reason actor s =
     \<lparr>pr_id = ae_newId env (au_created s), pr_tokenId = tc_jti claims, pr_cutoff = cutoff, pr_reason = reason,
      pr_status = RUN_STARTED, pr_requestedById = cu_id actor, pr_archiveKey = None, pr_archivedCount = 0,
      pr_deletedCount = 0, pr_heldCount = 0, pr_minSeq = None, pr_maxSeq = None, pr_error = None, pr_finishedAt = None\<rparr>"

definition purged_payload :: "current_user \<Rightarrow> purge_run \<Rightarrow> nat \<times> jstring option \<Rightarrow> nat \<times> nat \<Rightarrow> audit_payload" where
  "purged_payload actor run archived deleted =
     (self_payload (Some actor) ''AUDIT_LOG_PURGED'')\<lparr>ap_severity := Some CRITICAL, ap_entityId := Some (pr_id run), ap_reason := Some (pr_reason run),
       ap_diff := JObj [(''before'', JObj [(''cutoff'', JStr (toISOString (pr_cutoff run))), (''archivedCount'', JInt (int (fst archived))),
           (''archiveKey'', jstr_opt (snd archived))]),
         (''after'', JObj [(''deletedCount'', JInt (int (fst deleted))), (''heldCount'', JInt (int (snd deleted)))])]\<rparr>"

text \<open>Archive, delete, and log it, for a run that is open.\<close>

definition run_purge :: "audit_env \<Rightarrow> purge_run \<Rightarrow> current_user \<Rightarrow> audit_state \<Rightarrow> purge_run result \<times> audit_state" where
  "run_purge env run actor s =
     res_bind (archive_rows env (pr_id run) (pr_cutoff run) s) (\<lambda>archived s1.
     res_bind (purge_rows env (pr_id run) (pr_cutoff run) s1) (\<lambda>deleted s2.
       (Inr (run\<lparr>pr_status := RUN_COMPLETED, pr_archiveKey := snd archived, pr_archivedCount := fst archived,
          pr_deletedCount := fst deleted, pr_heldCount := snd deleted\<rparr>),
        auditSelf env (purged_payload actor run archived deleted) s2)))"

definition purgeOlderThan :: "audit_env \<Rightarrow> int option option \<Rightarrow> jstring option \<Rightarrow> jstring \<Rightarrow> current_user \<Rightarrow> audit_state
    \<Rightarrow> purge_run result \<times> audit_state" where
  "purgeOlderThan env olderThan reason token actor s =
     (case parseCutoff env olderThan of Inl e \<Rightarrow> (Inl e, s)
      | Inr cutoff \<Rightarrow>
        let why = js_trim (case reason of None \<Rightarrow> [] | Some r \<Rightarrow> r) in
        if why = [] then (Inl (BadRequest ''reason_required''), s)
        else case verifyConfirmToken env token (cu_id actor) cutoff of Inl e \<Rightarrow> (Inl e, s)
        | Inr claims \<Rightarrow>
          if ae_archive env = None then (Inl (ServiceUnavailable ''audit_archive_not_configured''), s)
          else if find_where (\<lambda>r. pr_tokenId r = tc_jti claims) (au_runs s) \<noteq> None
          then (Inl (BadRequest ''confirm_token_already_used''), s)
          else let run = new_run env claims cutoff why actor s
               in run_purge env run actor (s\<lparr>au_runs := au_runs s @ [run], au_created := au_created s + 1\<rparr>))"

text \<open>Names, network details and metadata of the rows a user performed are blanked; held rows are skipped.\<close>

definition anonymized :: "audit_env \<Rightarrow> audit_row \<Rightarrow> audit_row" where
  "anonymized env r = r\<lparr>al_actorName := Some ''Anonymized user'', al_actorRole := None, al_ipAddress := None, al_userAgent := None,
     al_country := None, al_city := None, al_region := None, al_timezone := None, al_asn := None, al_isp := None,
     al_deviceLabel := None, al_clientVersion := None, al_metadata := None, al_anonymizedAt := Some (ae_now env)\<rparr>"

definition anonymizeUser :: "audit_env \<Rightarrow> jstring \<Rightarrow> current_user \<Rightarrow> audit_state \<Rightarrow> (nat \<times> nat \<times> nat) \<times> audit_state" where
  "anonymizeUser env userId actor s =
     (let mine = (\<lambda>r. al_userId r = Some userId \<and> \<not> al_legalHold r \<and> al_anonymizedAt r = None);
          label = (\<lambda>r. al_entity r = ''User'' \<and> al_entityId r = Some userId \<and> \<not> al_legalHold r);
          rows1 = update_where mine (anonymized env) (au_rows s);
          rows2 = update_where label (\<lambda>r. r\<lparr>al_entityLabel := None\<rparr>) rows1;
          skipped = count_where (\<lambda>r. al_legalHold r \<and> (al_userId r = Some userId \<or> al_entity r = ''User'' \<and> al_entityId r = Some userId)) rows2;
          counts = (count_where mine (au_rows s), count_where label rows1, skipped)
      in (counts, auditSelf env ((self_payload (Some actor) ''AUDIT_LOG_ANONYMIZED'')
            \<lparr>ap_severity := Some WARNING, ap_entity := ''User'', ap_entityId := Some userId,
             ap_diff := JObj [(''before'', JNull), (''after'', JObj [(''anonymizedRows'', JInt (int (fst counts))),
               (''entityLabelsCleared'', JInt (int (fst (snd counts)))), (''skippedLegalHold'', JInt (int skipped))])]\<rparr>)
          (s\<lparr>au_rows := rows2\<rparr>)))"

section \<open>Scheduled purges\<close>

definition schedulePurge :: "audit_env \<Rightarrow> int option option \<Rightarrow> int option \<Rightarrow> jstring \<Rightarrow> current_user \<Rightarrow> audit_state
    \<Rightarrow> (purge_schedule \<times> nat) result \<times> audit_state" where
  "schedulePurge env olderThan runAt reason actor s =
     (case parseCutoff env olderThan of Inl e \<Rightarrow> (Inl e, s)
      | Inr cutoff \<Rightarrow>
        (case runAt of None \<Rightarrow> (Inl (BadRequest ''invalid_runAt''), s)
         | Some t \<Rightarrow>
            if t < ae_now env + int (ae_minNotice env) * 3600000
            then (Inl (BadRequest (''runAt_needs_at_least_'' @ show_nat (ae_minNotice env) @ ''_hours_notice'')), s)
            else if ae_now env + 365 * 86400000 < t then (Inl (BadRequest ''runAt_too_far_ahead''), s)
            else if ae_archive env = None then (Inl (ServiceUnavailable ''audit_archive_not_configured''), s)
            else case tokenSecret env of Inl e \<Rightarrow> (Inl e, s)
            | Inr _ \<Rightarrow>
              let p = \<lparr>ps_id = ae_newId env (au_created s), ps_olderThan = cutoff, ps_runAt = t, ps_reason = js_trim reason,
                     ps_status = PS_SCHEDULED, ps_createdById = cu_id actor, ps_cancelledById = None, ps_cancelReason = None,
                     ps_cancelledAt = None, ps_purgeRunId = None, ps_error = None, ps_executedAt = None\<rparr>;
                  s1 = s\<lparr>au_schedules := au_schedules s @ [p], au_created := au_created s + 1\<rparr>;
                  n = count_where (purgeable cutoff) (au_rows s1)
              in (Inr (p, n), auditSelf env ((self_payload (Some actor) ''AUDIT_PURGE_SCHEDULED'')
                    \<lparr>ap_entity := ''AuditPurgeSchedule'', ap_entityId := Some (ps_id p), ap_severity := Some CRITICAL,
                     ap_reason := Some (js_trim reason), ap_metadata := JObj [(''olderThan'', JStr (toISOString cutoff)),
                       (''runAt'', JStr (toISOString t)), (''wouldDeleteToday'', JInt (int n))]\<rparr>) s1)))"

definition schedule_in :: "jstring \<Rightarrow> purge_schedule \<Rightarrow> bool" where
  "schedule_in = claimable ps_id ps_status [PS_SCHEDULED]"

definition cancelPurgeSchedule :: "audit_env \<Rightarrow> jstring \<Rightarrow> jstring \<Rightarrow> current_user \<Rightarrow> audit_state \<Rightarrow> unit result \<times> audit_state" where
  "cancelPurgeSchedule env i reason actor s =
     (if find_where (\<lambda>p. ps_id p = i) (au_schedules s) = None then (Inl (NotFound ''Scheduled purge not found''), s)
      else if count_where (schedule_in i) (au_schedules s) = 0 then (Inl (Conflict ''purge_already_started_or_finished''), s)
      else (Inr (), auditSelf env ((self_payload (Some actor) ''AUDIT_PURGE_SCHEDULE_CANCELLED'')
          \<lparr>ap_entity := ''AuditPurgeSchedule'', ap_entityId := Some i, ap_severity := Some WARNING, ap_reason := Some (js_trim reason)\<rparr>)
        (s\<lparr>au_schedules := update_where (schedule_in i) (\<lambda>p. p\<lparr>ps_status := PS_CANCELLED, ps_cancelledById := Some (cu_id actor),
            ps_cancelReason := Some (js_trim reason), ps_cancelledAt := Some (ae_now env)\<rparr>) (au_schedules s)\<rparr>)))"

definition worker_as :: "jstring \<Rightarrow> current_user" where
  "worker_as i = \<lparr>cu_id = i, cu_roles = [''SUPER_ADMIN'']\<rparr>"

text \<open>One due purge: claimed, run as its author, and its outcome kept.\<close>

definition run_due :: "audit_env \<Rightarrow> purge_schedule \<Rightarrow> audit_state \<Rightarrow> audit_state" where
  "run_due env p s =
     (if count_where (schedule_in (ps_id p)) (au_schedules s) = 0 then s
      else let s1 = s\<lparr>au_schedules := update_where (schedule_in (ps_id p)) (\<lambda>q. q\<lparr>ps_status := PS_RUNNING\<rparr>) (au_schedules s)\<rparr>;
               finish = (\<lambda>f t. t\<lparr>au_schedules := update_where (\<lambda>q. ps_id q = ps_id p) f (au_schedules t)\<rparr>);
               (r, s2) = res_bind (issueConfirmToken env (ps_createdById p) (ps_olderThan p) s1)
                 (\<lambda>token t. purgeOlderThan env (Some (Some (ps_olderThan p))) (Some (ps_reason p @ '' (scheduled purge '' @ ps_id p @ '')'')) token
                    (worker_as (ps_createdById p)) t)
           in (case r of
                 Inr run \<Rightarrow> finish (\<lambda>q. q\<lparr>ps_status := PS_EXECUTED, ps_purgeRunId := Some (pr_id run), ps_executedAt := Some (ae_now env)\<rparr>) s2
               | Inl e \<Rightarrow> finish (\<lambda>q. q\<lparr>ps_status := PS_FAILED, ps_error := Some (take 300 (err_message e)), ps_executedAt := Some (ae_now env)\<rparr>) s2))"

definition runDueScheduledPurges :: "audit_env \<Rightarrow> audit_state \<Rightarrow> audit_state" where
  "runDueScheduledPurges env s =
     fold (run_due env) (take 3 (sort_key ps_runAt (filter (\<lambda>p. ps_status p = PS_SCHEDULED \<and> ps_runAt p \<le> ae_now env) (au_schedules s)))) s"

section \<open>The second administrator\<close>

definition kind_name :: "approval_kind \<Rightarrow> jstring" where
  "kind_name k = (case k of HOLD_RELEASE \<Rightarrow> ''HOLD_RELEASE'' | RETENTION_CHANGE \<Rightarrow> ''RETENTION_CHANGE'' | ARCHIVE_RETRIEVAL \<Rightarrow> ''ARCHIVE_RETRIEVAL'')"

definition APPROVAL_TTL_MS :: int where
  "APPROVAL_TTL_MS = 24 * 60 * 60 * 1000"

datatype gate = Approved jstring jstring \<comment> \<open>request and who made it\<close> | ApprovalRequired jstring | AwaitingSecond jstring

definition expire_approvals :: "audit_env \<Rightarrow> audit_state \<Rightarrow> audit_state" where
  "expire_approvals env s = s\<lparr>au_approvals := update_where (\<lambda>a. ar_status a = AR_PENDING \<and> ar_expiresAt a < ae_now env)
     (\<lambda>a. a\<lparr>ar_status := AR_EXPIRED\<rparr>) (au_approvals s)\<rparr>"

definition asks_for :: "audit_env \<Rightarrow> approval_kind \<Rightarrow> jstring \<Rightarrow> jstring \<Rightarrow> approval \<Rightarrow> bool" where
  "asks_for env kind target hash a \<longleftrightarrow> ar_kind a = kind \<and> ar_targetKey a = target \<and> ar_payloadHash a = hash \<and>
     ar_status a = AR_PENDING \<and> ae_now env < ar_expiresAt a"

definition approval_pending :: "jstring \<Rightarrow> approval \<Rightarrow> bool" where
  "approval_pending = claimable ar_id ar_status [AR_PENDING]"

text \<open>The oldest matching request; \<open>material\<close> is the text \<open>stable\<close> makes of the fields that count.\<close>

definition twoPerson :: "audit_env \<Rightarrow> approval_kind \<Rightarrow> jstring \<Rightarrow> jstring \<Rightarrow> jstring option \<Rightarrow> current_user \<Rightarrow> audit_state
    \<Rightarrow> gate result \<times> audit_state" where
  "twoPerson env kind target material reason actor s =
     (let hash = ae_sha256 env (kind_name kind @ ''|'' @ target @ ''|'' @ material);
          s1 = expire_approvals env s;
          note = (\<lambda>action i. (self_payload (Some actor) action)\<lparr>ap_entity := ''AuditApprovalRequest'', ap_entityId := Some i,
            ap_entityLabel := Some (kind_name kind @ '' '' @ target), ap_severity := Some WARNING\<rparr>) in
      case sort_key ar_createdAt (filter (asks_for env kind target hash) (au_approvals s1)) of
        [] \<Rightarrow>
          let a = \<lparr>ar_id = ae_newId env (au_created s1), ar_kind = kind, ar_targetKey = target, ar_payloadHash = hash, ar_reason = reason,
                 ar_status = AR_PENDING, ar_requestedById = cu_id actor, ar_approvedById = None,
                 ar_expiresAt = ae_now env + APPROVAL_TTL_MS, ar_decidedAt = None, ar_createdAt = ae_now env\<rparr>
          in (Inr (ApprovalRequired (ar_id a)), auditSelf env ((note ''AUDIT_APPROVAL_REQUESTED'' (ar_id a))\<lparr>ap_reason := reason,
                ap_metadata := JObj [(''kind'', JStr (kind_name kind)), (''targetKey'', JStr target)]\<rparr>)
              (s1\<lparr>au_approvals := au_approvals s1 @ [a], au_created := au_created s1 + 1\<rparr>))
      | a # _ \<Rightarrow>
          if ar_requestedById a = cu_id actor then (Inr (AwaitingSecond (ar_id a)), s1)
          else if count_where (approval_pending (ar_id a)) (au_approvals s1) = 0 then (Inl (Conflict ''approval_already_used''), s1)
          else (Inr (Approved (ar_id a) (ar_requestedById a)),
            auditSelf env ((note ''AUDIT_APPROVAL_GRANTED'' (ar_id a))\<lparr>ap_metadata := JObj [(''kind'', JStr (kind_name kind)),
                (''targetKey'', JStr target), (''requestedById'', JStr (ar_requestedById a))]\<rparr>)
              (s1\<lparr>au_approvals := update_where (approval_pending (ar_id a)) (\<lambda>q. q\<lparr>ar_status := AR_CONSUMED,
                  ar_approvedById := Some (cu_id actor), ar_decidedAt := Some (ae_now env)\<rparr>) (au_approvals s1)\<rparr>)))"

text \<open>An action behind the gate: what it does once approved, or the answer to wait.\<close>

definition gated :: "(gate result \<times> audit_state) \<Rightarrow> (jstring \<Rightarrow> audit_state \<Rightarrow> 'a result \<times> audit_state)
    \<Rightarrow> (gate + 'a) result \<times> audit_state" where
  "gated m k = res_bind m (\<lambda>g s1. case g of Approved i by \<Rightarrow> res_bind (k by s1) (\<lambda>x s2. (Inr (Inr x), s2)) | _ \<Rightarrow> (Inr (Inl g), s1))"

section \<open>Legal holds\<close>

definition set_and :: "jstring option \<Rightarrow> (jstring \<Rightarrow> bool) \<Rightarrow> bool" where
  "set_and x P = (if truthy x then P (the x) else True)"

definition holdWhere :: "hold_filter \<Rightarrow> audit_row \<Rightarrow> bool" where
  "holdWhere f r \<longleftrightarrow> set_and (hf_rowId f) (\<lambda>x. al_id r = x) \<and> set_and (hf_entity f) (\<lambda>x. al_entity r = x) \<and>
     set_and (hf_entityId f) (\<lambda>x. al_entityId r = Some x) \<and> set_and (hf_userId f) (\<lambda>x. al_userId r = Some x) \<and>
     set_and (hf_targetUserId f) (\<lambda>x. al_targetUserId r = Some x) \<and> set_and (hf_action f) (\<lambda>x. al_action r = x) \<and>
     set_and (hf_sessionId f) (\<lambda>x. al_sessionId r = Some x) \<and> set_and (hf_requestId f) (\<lambda>x. al_requestId r = Some x) \<and>
     in_range (hf_startDate f) (hf_endDate f) r"

definition hold_error :: "hold_filter \<Rightarrow> error option" where
  "hold_error f =
     (if \<not> list_ex truthy [hf_rowId f, hf_entity f, hf_entityId f, hf_userId f, hf_targetUserId f, hf_action f, hf_sessionId f, hf_requestId f]
         \<and> hf_startDate f = None \<and> hf_endDate f = None then Some (BadRequest ''hold_filter_needs_at_least_one_condition'')
      else case (hf_startDate f, hf_endDate f) of (Some a, Some b) \<Rightarrow> if b < a then Some (BadRequest ''startDate_after_endDate'') else None
      | _ \<Rightarrow> None)"

definition row_filter :: "jstring \<Rightarrow> hold_filter" where
  "row_filter i = \<lparr>hf_rowId = Some i, hf_entity = None, hf_entityId = None, hf_userId = None, hf_targetUserId = None, hf_action = None,
     hf_sessionId = None, hf_requestId = None, hf_startDate = None, hf_endDate = None\<rparr>"

definition new_hold :: "audit_env \<Rightarrow> bool \<Rightarrow> jstring \<Rightarrow> jstring \<Rightarrow> hold_filter \<Rightarrow> nat \<Rightarrow> current_user \<Rightarrow> audit_state \<Rightarrow> legal_hold" where
  "new_hold env isRow ref reason f n actor s =
     \<lparr>lh_id = ae_newId env (au_created s), lh_isRow = isRow, lh_caseReference = ref, lh_reason = reason, lh_filter = f, lh_active = True,
      lh_rowCount = n, lh_appliedAt = ae_now env, lh_createdById = cu_id actor, lh_releasedAt = None, lh_releasedById = None,
      lh_releaseRequestedById = None, lh_releaseReason = None\<rparr>"

definition hold_rows :: "(audit_row \<Rightarrow> bool) \<Rightarrow> bool \<Rightarrow> audit_row list \<Rightarrow> audit_row list" where
  "hold_rows P b = update_where P (\<lambda>r. r\<lparr>al_legalHold := b\<rparr>)"

definition opt_field :: "jstring \<Rightarrow> jstring option \<Rightarrow> (jstring \<times> jval) list" where
  "opt_field k x = (if truthy x then [(k, JStr (the x))] else [])"

definition filter_json :: "hold_filter \<Rightarrow> jval" where
  "filter_json f = JObj (opt_field ''rowId'' (hf_rowId f) @ opt_field ''entity'' (hf_entity f) @ opt_field ''entityId'' (hf_entityId f) @
     opt_field ''userId'' (hf_userId f) @ opt_field ''targetUserId'' (hf_targetUserId f) @ opt_field ''action'' (hf_action f) @
     opt_field ''sessionId'' (hf_sessionId f) @ opt_field ''requestId'' (hf_requestId f) @
     opt_field ''startDate'' (map_option toISOString (hf_startDate f)) @ opt_field ''endDate'' (map_option toISOString (hf_endDate f)))"

definition hold_details :: "legal_hold \<Rightarrow> jval" where
  "hold_details h =
     (if lh_isRow h then JObj [(''kind'', JStr ''ROW''), (''auditLogId'', jstr_opt (hf_rowId (lh_filter h)))]
      else JObj [(''kind'', JStr ''FILTER''), (''filter'', filter_json (lh_filter h)), (''rowCount'', JInt (int (lh_rowCount h)))])"

definition place_hold :: "audit_env \<Rightarrow> legal_hold \<Rightarrow> current_user \<Rightarrow> audit_state \<Rightarrow> audit_state" where
  "place_hold env h actor s =
     auditSelf env ((self_payload (Some actor) ''AUDIT_LEGAL_HOLD_SET'')\<lparr>ap_entity := ''AuditLegalHold'', ap_entityId := Some (lh_id h),
         ap_entityLabel := Some (lh_caseReference h), ap_severity := Some WARNING, ap_reason := Some (lh_reason h),
         ap_metadata := hold_details h\<rparr>)
       (s\<lparr>au_holds := au_holds s @ [h], au_rows := hold_rows (holdWhere (lh_filter h)) True (au_rows s), au_created := au_created s + 1\<rparr>)"

definition createLegalHold :: "audit_env \<Rightarrow> hold_filter \<Rightarrow> jstring \<Rightarrow> jstring \<Rightarrow> current_user \<Rightarrow> audit_state \<Rightarrow> legal_hold result \<times> audit_state" where
  "createLegalHold env f ref reason actor s =
     (case hold_error f of Some e \<Rightarrow> (Inl e, s)
      | None \<Rightarrow>
        let n = count_where (holdWhere f) (au_rows s) in
        if n = 0 then (Inl (BadRequest ''filter_matches_no_rows''), s)
        else let h = new_hold env False (js_trim ref) (js_trim reason) f n actor s in (Inr h, place_hold env h actor s))"

definition release :: "audit_env \<Rightarrow> current_user \<Rightarrow> jstring \<Rightarrow> jstring \<Rightarrow> legal_hold \<Rightarrow> legal_hold" where
  "release env actor by reason h = h\<lparr>lh_active := False, lh_releasedAt := Some (ae_now env), lh_releasedById := Some (cu_id actor),
     lh_releaseRequestedById := Some by, lh_releaseReason := Some reason\<rparr>"

definition cleared_payload :: "jstring \<Rightarrow> current_user \<Rightarrow> jstring \<Rightarrow> jstring \<Rightarrow> (jstring \<times> jval) list \<Rightarrow> audit_payload" where
  "cleared_payload action actor i reason details = (self_payload (Some actor) action)\<lparr>ap_entity := ''AuditLegalHold'', ap_entityId := Some i,
     ap_severity := Some CRITICAL, ap_reason := Some reason, ap_metadata := JObj details\<rparr>"

definition covering :: "audit_row \<Rightarrow> audit_state \<Rightarrow> legal_hold list" where
  "covering r s = filter (\<lambda>h. lh_active h \<and> holdWhere (lh_filter h) r) (au_holds s)"

definition find_audit_row :: "jstring \<Rightarrow> audit_state \<Rightarrow> audit_row option" where
  "find_audit_row i s = find_where (\<lambda>r. al_id r = i) (au_rows s)"

definition clear_row :: "audit_env \<Rightarrow> audit_row \<Rightarrow> legal_hold list \<Rightarrow> jstring \<Rightarrow> current_user \<Rightarrow> jstring \<Rightarrow> audit_state
    \<Rightarrow> bool result \<times> audit_state" where
  "clear_row env r cover reason actor by s =
     (Inr False, auditSelf env (cleared_payload ''AUDIT_LEGAL_HOLD_CLEARED'' actor (case cover of [] \<Rightarrow> al_id r | h # _ \<Rightarrow> lh_id h) reason
          [(''kind'', JStr ''ROW''), (''auditLogId'', JStr (al_id r)), (''requestedById'', JStr by)])
        (s\<lparr>au_holds := update_where (\<lambda>h. lh_active h \<and> lh_id h \<in> set (map lh_id cover)) (release env actor by reason) (au_holds s),
           au_rows := hold_rows (\<lambda>q. al_id q = al_id r) False (au_rows s)\<rparr>))"

definition setRowLegalHold :: "audit_env \<Rightarrow> jstring \<Rightarrow> bool \<Rightarrow> jstring \<Rightarrow> jstring option \<Rightarrow> current_user \<Rightarrow> audit_state
    \<Rightarrow> (gate + bool) result \<times> audit_state" where
  "setRowLegalHold env i on reason ref actor s =
     (case find_audit_row i s of None \<Rightarrow> (Inl (NotFound ''Audit log not found''), s)
      | Some r \<Rightarrow>
        let why = js_trim reason; case_ref = js_trim (case ref of None \<Rightarrow> [] | Some x \<Rightarrow> x); cover = covering r s in
        if on then
          (if case_ref = [] then (Inl (BadRequest ''caseReference_required_to_set_a_hold''), s)
           else (Inr (Inr True), place_hold env (new_hold env True case_ref why (row_filter i) 1 actor s) actor s))
        else if \<not> isSuperAdmin actor then (Inl (Forbidden ''only_super_admin_can_clear_a_hold''), s)
        else if \<not> al_legalHold r \<and> cover = [] then (Inr (Inr False), s)
        else if list_ex (\<lambda>h. \<not> lh_isRow h) cover then (Inl (Conflict ''row_is_covered_by_a_filter_hold_release_that_hold_instead''), s)
        else gated (twoPerson env HOLD_RELEASE (''row:'' @ i) ''{}'' (Some why) actor s) (clear_row env r cover why actor))"

definition hold_active :: "jstring \<Rightarrow> legal_hold \<Rightarrow> bool" where
  "hold_active = claimable lh_id lh_active [True]"

text \<open>What the released filter matches is let go, then held again where another active hold covers it.\<close>

definition release_hold :: "audit_env \<Rightarrow> legal_hold \<Rightarrow> jstring \<Rightarrow> current_user \<Rightarrow> jstring \<Rightarrow> audit_state
    \<Rightarrow> (int \<times> nat) result \<times> audit_state" where
  "release_hold env h reason actor by s =
     (if count_where (hold_active (lh_id h)) (au_holds s) = 0 then (Inl (Conflict ''hold_already_released''), s)
      else let holds = update_where (hold_active (lh_id h)) (release env actor by reason) (au_holds s);
               match = holdWhere (lh_filter h);
               cleared = count_where (\<lambda>r. match r \<and> al_legalHold r) (au_rows s);
               rows1 = hold_rows match False (au_rows s);
               rows2 = fold (\<lambda>g. hold_rows (\<lambda>r. match r \<and> holdWhere (lh_filter g) r) True) (filter lh_active holds) rows1;
               kept = count_where (\<lambda>r. match r \<and> al_legalHold r) rows2
           in (Inr (int cleared - int kept, kept), auditSelf env ((cleared_payload ''AUDIT_LEGAL_HOLD_RELEASED'' actor (lh_id h) reason
                   [(''clearedRows'', JInt (int cleared)), (''keptByOtherHolds'', JInt (int kept)), (''requestedById'', JStr by)])
                 \<lparr>ap_entityLabel := Some (lh_caseReference h)\<rparr>) (s\<lparr>au_holds := holds, au_rows := rows2\<rparr>)))"

definition releaseLegalHold :: "audit_env \<Rightarrow> jstring \<Rightarrow> jstring \<Rightarrow> current_user \<Rightarrow> audit_state \<Rightarrow> (gate + int \<times> nat) result \<times> audit_state" where
  "releaseLegalHold env holdId reason actor s =
     (case find_where (\<lambda>h. lh_id h = holdId) (au_holds s) of None \<Rightarrow> (Inl (NotFound ''Legal hold not found''), s)
      | Some h \<Rightarrow>
        if \<not> lh_active h then (Inl (Conflict ''hold_already_released''), s)
        else gated (twoPerson env HOLD_RELEASE (''hold:'' @ holdId) ''{}'' (Some (js_trim reason)) actor s)
          (release_hold env h (js_trim reason) actor))"

section \<open>Retention and archives\<close>

record retention_policy =
  rp_scope :: jstring
  rp_key :: jstring
  rp_days :: nat

text \<open>\<open>stable\<close> of the sorted policies.\<close>

definition policy_text :: "retention_policy \<Rightarrow> jstring" where
  "policy_text p = ''{'' @ json_string ''key'' @ '':'' @ json_string (rp_key p) @ '','' @ json_string ''retentionDays'' @ '':'' @ show_nat (rp_days p) @
     '','' @ json_string ''scope'' @ '':'' @ json_string (rp_scope p) @ ''}''"

fun join_comma :: "jstring list \<Rightarrow> jstring" where
  "join_comma [] = []"
| "join_comma [x] = x"
| "join_comma (x # xs) = x @ '','' @ join_comma xs"

definition policies_text :: "audit_env \<Rightarrow> retention_policy list \<Rightarrow> jstring" where
  "policies_text env ps = ''{'' @ json_string ''policies'' @ '':['' @
     join_comma (map policy_text (sort_key (\<lambda>p. ae_rank env (rp_scope p @ rp_key p)) ps)) @ '']}''"

fun policies_error :: "jstring list \<Rightarrow> retention_policy list \<Rightarrow> error option" where
  "policies_error seen [] = None"
| "policies_error seen (p # ps) =
     (let k = rp_scope p @ '':'' @ rp_key p in
      if k \<in> set seen then Some (BadRequest ''duplicate_policy'')
      else if rp_scope p = ''DEFAULT'' \<and> rp_key p \<noteq> ''DEFAULT'' then Some (BadRequest (''DEFAULT_policy_key_must_be_'' @ [CHR 0x27] @ ''DEFAULT'' @ [CHR 0x27]))
      else if rp_scope p = ''SEVERITY'' \<and> rp_key p \<notin> set [''INFO'', ''WARNING'', ''CRITICAL''] then Some (BadRequest ''unknown_severity'')
      else policies_error (k # seen) ps)"

definition getRetention :: "audit_env \<Rightarrow> audit_state \<Rightarrow> jval" where
  "getRetention env s =
     (let rows = sort_key (\<lambda>p. ae_order env (snd (fst p))) (au_retention s);
          days = (\<lambda>scope label. JArr (map (\<lambda>p. JObj [(label, JStr (snd (fst p))), (''retentionDays'', JInt (int (fst (snd p))))])
            (filter (\<lambda>p. fst (fst p) = scope) rows)))
      in JObj [(''default'', case find_where (\<lambda>p. fst (fst p) = ''DEFAULT'') rows of None \<Rightarrow> JNull | Some p \<Rightarrow> JInt (int (fst (snd p)))),
           (''byEntity'', days ''ENTITY'' ''entity''), (''bySeverity'', days ''SEVERITY'' ''severity''),
           (''enforcement'', JStr ''Declared policy. Rows are only removed by a purge (manual or scheduled), and rows under legal hold are always kept.''),
           (''updatedAt'', case map (snd \<circ> snd) rows of [] \<Rightarrow> JNull | d # ds \<Rightarrow> JDate (fold max ds d))])"

definition write_policies :: "audit_env \<Rightarrow> retention_policy list \<Rightarrow> jstring \<Rightarrow> current_user \<Rightarrow> jstring \<Rightarrow> audit_state \<Rightarrow> jval result \<times> audit_state" where
  "write_policies env ps reason actor by s =
     (let s1 = s\<lparr>au_retention := fold (\<lambda>p. AList.update (rp_scope p, rp_key p) (rp_days p, ae_now env)) ps (au_retention s)\<rparr>
      in (Inr (getRetention env s1), auditSelf env ((self_payload (Some actor) ''AUDIT_RETENTION_CHANGED'')\<lparr>ap_entity := ''AuditRetentionPolicy'',
         ap_severity := Some CRITICAL, ap_reason := Some reason,
         ap_diff := JObj [(''before'', getRetention env s), (''after'', getRetention env s1)],
         ap_metadata := JObj [(''requestedById'', JStr by)]\<rparr>) s1))"

definition updateRetention :: "audit_env \<Rightarrow> retention_policy list \<Rightarrow> jstring \<Rightarrow> current_user \<Rightarrow> audit_state \<Rightarrow> (gate + jval) result \<times> audit_state" where
  "updateRetention env ps reason actor s =
     (case policies_error [] ps of Some e \<Rightarrow> (Inl e, s)
      | None \<Rightarrow> gated (twoPerson env RETENTION_CHANGE ''retention'' (policies_text env ps) (Some (js_trim reason)) actor s)
          (write_policies env ps (js_trim reason) actor))"

text \<open>The archived rows of a run, behind the gate and logged before any link is made.\<close>

definition open_archive :: "audit_env \<Rightarrow> purge_run \<Rightarrow> jstring \<Rightarrow> current_user \<Rightarrow> jstring \<Rightarrow> audit_state \<Rightarrow> audit_row list result \<times> audit_state" where
  "open_archive env run key actor by s =
     (case map_of (au_archive s) key of None \<Rightarrow> (Inl (ServiceUnavailable ''archive_manifest_unreadable''), s)
      | Some rows \<Rightarrow> (Inr rows, auditSelf env ((self_payload (Some actor) ''AUDIT_ARCHIVE_RETRIEVED'')\<lparr>ap_entity := ''AuditPurgeRun'',
            ap_entityId := Some (pr_id run), ap_severity := Some CRITICAL,
            ap_metadata := JObj [(''archivedCount'', JInt (int (pr_archivedCount run))), (''requestedById'', JStr by)]\<rparr>) s))"

definition retrievePurgeArchive :: "audit_env \<Rightarrow> jstring \<Rightarrow> current_user \<Rightarrow> audit_state \<Rightarrow> (gate + audit_row list) result \<times> audit_state" where
  "retrievePurgeArchive env i actor s =
     (case find_where (\<lambda>r. pr_id r = i) (au_runs s) of None \<Rightarrow> (Inl (NotFound ''Purge run not found''), s)
      | Some run \<Rightarrow>
        (case pr_archiveKey run of None \<Rightarrow> (Inl (Conflict ''run_has_no_archive''), s)
         | Some key \<Rightarrow>
            if \<not> ae_storage env then (Inl (ServiceUnavailable ''object_storage_not_configured''), s)
            else gated (twoPerson env ARCHIVE_RETRIEVAL (''run:'' @ i) ''{}'' None actor s) (open_archive env run key actor)))"

end
