(* ===== verification/Audit_Safety.thy ===== *)
theory Audit_Safety
  imports Audit_Control
begin

text \<open>
  The invariant of the audit chain over the operations of \<open>Audit_Log\<close> and \<open>Audit_Control\<close>: the linked
  rows carry the hashes the check recomputes, neighbours link, and the numbers missing between two rows lie
  in the ranges the purge runs wrote down; and which rows an operation can take away.
\<close>

section \<open>The scan\<close>

fun scan_ok :: "audit_env \<Rightarrow> (int \<times> int) list \<Rightarrow> (int \<times> jstring option) option \<Rightarrow> audit_row list \<Rightarrow> bool" where
  "scan_ok env purged prev [] \<longleftrightarrow> True"
| "scan_ok env purged prev (r # rs) \<longleftrightarrow> row_break env purged prev r = None \<and> scan_ok env purged (Some (row_seq r, al_hash r)) rs"

definition scan_start :: "(int \<times> jstring option) option \<Rightarrow> scan" where
  "scan_start prev = \<lparr>sc_prev = prev, sc_checked = 0, sc_stopped = False, sc_complete = True, sc_break = None\<rparr>"

lemma scan_rows_append:
  "\<not> sc_stopped st \<Longrightarrow> scan_rows env purged (xs @ ys) st =
   (let st1 = scan_rows env purged xs st in if sc_stopped st1 then st1 else scan_rows env purged ys st1)"
  by (induction xs arbitrary: st) (auto simp: Let_def split: option.splits)

lemma scan_batches_eq: "\<not> sc_stopped st \<Longrightarrow> scan_batches env purged rows st = scan_rows env purged rows st"
proof (induction env purged rows st rule: scan_batches.induct)
  case (1 env purged rows st)
  show ?case
  proof (cases "rows = []")
    case False
    let ?n = "max 1 (ae_batch env)" and ?st = "scan_rows env purged (take (max 1 (ae_batch env)) rows) st"
    have "scan_batches env purged rows st = scan_batches env purged (drop ?n rows) ?st"
      using False 1(2) by (subst scan_batches.simps) simp
    also have "\<dots> = (if sc_stopped ?st then ?st else scan_rows env purged (drop ?n rows) ?st)"
    proof (cases "sc_stopped ?st")
      case True
      then show ?thesis by (subst scan_batches.simps) simp
    next
      case stop: False
      with 1(1) False 1(2) show ?thesis by simp
    qed
    also have "\<dots> = scan_rows env purged (take ?n rows @ drop ?n rows) st"
      unfolding scan_rows_append [OF 1(2)] Let_def by simp
    finally show ?thesis by simp
  qed (subst scan_batches.simps, simp)
qed

lemma scan_rows_result:
  "sc_break st = None \<Longrightarrow> sc_complete st \<Longrightarrow>
   (sc_break (scan_rows env purged rows st) = None \<and> sc_complete (scan_rows env purged rows st) \<longleftrightarrow>
    scan_ok env purged (sc_prev st) rows \<and> (rows = [] \<or> sc_checked st + length rows \<le> ae_maxVerify env)) \<and>
   (scan_ok env purged (sc_prev st) rows \<longrightarrow> sc_break (scan_rows env purged rows st) = None)"
proof (induction rows arbitrary: st)
  case (Cons r rs)
  let ?st = "st\<lparr>sc_prev := Some (row_seq r, al_hash r), sc_checked := sc_checked st + 1\<rparr>"
  have "sc_break ?st = None" "sc_complete ?st" using Cons.prems by simp_all
  from Cons.IH [OF this] show ?case using Cons.prems by (auto split: option.splits)
qed simp

lemma scan_rows_head:
  "sc_break (scan_rows env purged rows st) = None \<Longrightarrow> sc_complete (scan_rows env purged rows st) \<Longrightarrow>
   sc_prev (scan_rows env purged rows st) = (if rows = [] then sc_prev st else Some (row_seq (last rows), al_hash (last rows)))"
  by (induction rows arbitrary: st) (auto split: option.splits if_splits)

lemma chained_sorted: "sorted (map row_seq (chained rows))"
  by (simp add: chained_def)

lemma anchor_all: "anchor all (chained all) = None"
proof (cases "chained all")
  case (Cons r rs)
  from chained_sorted [of all] have "filter (\<lambda>q. row_seq q < row_seq r) (chained all) = []"
    unfolding Cons by (auto simp: filter_empty_conv)
  then show ?thesis by (simp add: anchor_def Cons)
qed (simp add: anchor_def)

lemma integrity_scan:
  "integrity_of env None None s =
     (let st = scan_rows env (purgedSeqRanges (au_runs s)) (chained (au_rows s)) (scan_start None)
      in \<lparr>ir_complete = sc_complete st, ir_checked = sc_checked st,
          ir_unchainedRows = count_where (\<lambda>r. al_seq r = None) (au_rows s),
          ir_from = None, ir_to = None, ir_firstBreak = sc_break st, ir_head = sc_prev st\<rparr>)"
proof -
  have "filter (in_range None None) rows = rows" for rows by (simp add: in_range_def)
  then show ?thesis
    by (simp add: integrity_of_def Let_def anchor_all scan_batches_eq scan_start_def in_range_def)
qed

section \<open>Ranges\<close>

definition range_ok :: "int \<times> int \<Rightarrow> bool" where
  "range_ok p \<longleftrightarrow> fst p \<le> snd p"

definition in_ranges :: "(int \<times> int) list \<Rightarrow> int \<Rightarrow> bool" where
  "in_ranges rs n \<longleftrightarrow> (\<exists>p \<in> set rs. fst p \<le> n \<and> n \<le> snd p)"

text \<open>The newest range first: each starts more than one number after the end of the next.\<close>

definition apart :: "(int \<times> int) list \<Rightarrow> bool" where
  "apart = sorted_wrt (\<lambda>p q. snd q + 1 < fst p)"

lemma merge_ranges_apart:
  "apart merged \<Longrightarrow> list_all range_ok merged \<Longrightarrow> list_all range_ok rs \<Longrightarrow> sorted (map fst rs) \<Longrightarrow>
   (merged \<noteq> [] \<Longrightarrow> rs \<noteq> [] \<Longrightarrow> fst (hd merged) \<le> fst (hd rs)) \<Longrightarrow>
   apart (rev (merge_ranges merged rs)) \<and> list_all range_ok (merge_ranges merged rs) \<and>
   (\<forall>n. in_ranges (merge_ranges merged rs) n \<longleftrightarrow> in_ranges merged n \<or> in_ranges rs n)"
proof (induction merged rs rule: merge_ranges.induct)
  case (2 lo hi rs)
  from "2.prems" have "\<not> rs = [] \<Longrightarrow> lo \<le> fst (hd rs)" by (cases rs) auto
  with 2 show ?case by (auto simp: apart_def in_ranges_def)
next
  case (3 a b ms lo hi rs)
  have h: "rs \<noteq> [] \<Longrightarrow> lo \<le> fst (hd rs)" using "3.prems"(4) by (cases rs) auto
  have al: "a \<le> lo" "lo \<le> hi" "a \<le> b" using "3.prems" by (simp_all add: range_ok_def)
  show ?case
  proof (cases "lo \<le> b + 1")
    case True
    have rk: "range_ok (a, max b hi)" using al by (simp add: range_ok_def)
    have "rs \<noteq> [] \<Longrightarrow> a \<le> fst (hd rs)" using h al by force
    then have ih: "apart (rev (merge_ranges ((a, max b hi) # ms) rs)) \<and> list_all range_ok (merge_ranges ((a, max b hi) # ms) rs) \<and>
        (\<forall>n. in_ranges (merge_ranges ((a, max b hi) # ms) rs) n \<longleftrightarrow> in_ranges ((a, max b hi) # ms) n \<or> in_ranges rs n)"
      using "3.IH"(1) [OF True] "3.prems" rk by (simp add: apart_def)
    have "in_ranges ((a, max b hi) # ms) n \<longleftrightarrow> in_ranges ((a, b) # ms) n \<or> in_ranges [(lo, hi)] n" for n
      using True al by (auto simp: in_ranges_def max_def)
    then have "in_ranges ((a, max b hi) # ms) n \<or> in_ranges rs n \<longleftrightarrow> in_ranges ((a, b) # ms) n \<or> in_ranges ((lo, hi) # rs) n" for n
      by (auto simp: in_ranges_def)
    with ih True show ?thesis by simp
  next
    case False
    have "\<forall>p \<in> set ms. snd p + 1 < lo" using "3.prems"(1) al by (fastforce simp: apart_def)
    then have "apart ((lo, hi) # (a, b) # ms)" using False "3.prems"(1) by (auto simp: apart_def)
    then have "apart (rev (merge_ranges ((lo, hi) # (a, b) # ms) rs)) \<and> list_all range_ok (merge_ranges ((lo, hi) # (a, b) # ms) rs) \<and>
        (\<forall>n. in_ranges (merge_ranges ((lo, hi) # (a, b) # ms) rs) n \<longleftrightarrow> in_ranges ((lo, hi) # (a, b) # ms) n \<or> in_ranges rs n)"
      using "3.IH"(2) [OF False] "3.prems" h by simp
    with False show ?thesis by (auto simp: in_ranges_def)
  qed
qed (auto simp: in_ranges_def)

lemma purged_ranges:
  assumes "list_all range_ok (run_ranges runs)"
  shows "apart (rev (purgedSeqRanges runs))" "in_ranges (purgedSeqRanges runs) n \<longleftrightarrow> in_ranges (run_ranges runs) n"
proof -
  have "list_all range_ok (sort_key fst (run_ranges runs))" using assms by (simp add: list_all_iff)
  from merge_ranges_apart [of "[]", OF _ _ this]
  show "apart (rev (purgedSeqRanges runs))" "in_ranges (purgedSeqRanges runs) n \<longleftrightarrow> in_ranges (run_ranges runs) n"
    by (simp_all add: apart_def purgedSeqRanges_def in_ranges_def)
qed

lemma apart_pair: "apart (rev rs) \<Longrightarrow> p \<in> set rs \<Longrightarrow> q \<in> set rs \<Longrightarrow> p = q \<or> snd q + 1 < fst p \<or> snd p + 1 < fst q"
  by (induction rs) (auto simp: apart_def sorted_wrt_append)

text \<open>Numbers without a hole lie in one range, since two ranges never touch.\<close>

lemma explained_pairs: "explained purged lo hi \<longleftrightarrow> (\<exists>p \<in> set purged. fst p \<le> lo \<and> hi \<le> snd p)"
  by (simp add: explained_def list_ex_iff case_prod_beta)

lemma explained_iff:
  assumes "list_all range_ok (run_ranges runs)" "lo \<le> hi"
  shows "explained (purgedSeqRanges runs) lo hi \<longleftrightarrow> (\<forall>n. lo \<le> n \<and> n \<le> hi \<longrightarrow> in_ranges (run_ranges runs) n)"
proof
  assume "explained (purgedSeqRanges runs) lo hi"
  then have "in_ranges (purgedSeqRanges runs) n" if "lo \<le> n" "n \<le> hi" for n
    using that unfolding explained_pairs in_ranges_def by force
  then show "\<forall>n. lo \<le> n \<and> n \<le> hi \<longrightarrow> in_ranges (run_ranges runs) n" using purged_ranges(2) [OF assms(1)] by simp
next
  assume all: "\<forall>n. lo \<le> n \<and> n \<le> hi \<longrightarrow> in_ranges (run_ranges runs) n"
  then obtain p where p: "p \<in> set (purgedSeqRanges runs)" "fst p \<le> lo" "lo \<le> snd p"
    using assms(2) purged_ranges(2) [OF assms(1), of lo] by (auto simp: in_ranges_def)
  have "hi \<le> snd p"
  proof (rule ccontr)
    assume "\<not> hi \<le> snd p"
    then have "lo \<le> snd p + 1 \<and> snd p + 1 \<le> hi" using p by simp
    with all obtain q where q: "q \<in> set (purgedSeqRanges runs)" "fst q \<le> snd p + 1" "snd p + 1 \<le> snd q"
      using purged_ranges(2) [OF assms(1), of "snd p + 1"] by (auto simp: in_ranges_def)
    have "p = q \<or> snd q + 1 < fst p \<or> snd p + 1 < fst q"
      by (rule apart_pair [OF purged_ranges(1) [OF assms(1)] p(1) q(1)])
    with q p show False by auto
  qed
  with p show "explained (purgedSeqRanges runs) lo hi" unfolding explained_pairs by auto
qed

section \<open>The chain\<close>

definition linked :: "audit_row list \<Rightarrow> audit_row set" where
  "linked rows = {r \<in> set rows. al_seq r \<noteq> None}"

definition row_hashed :: "(jstring \<Rightarrow> jstring) \<Rightarrow> audit_row \<Rightarrow> bool" where
  "row_hashed sha r \<longleftrightarrow> al_hash r = Some (sha (chain_text (row_seq r) (al_prevHash r) r))"

definition chain_wf :: "(jstring \<Rightarrow> jstring) \<Rightarrow> (int \<times> int) list \<Rightarrow> audit_row list \<Rightarrow> bool" where
  "chain_wf sha ranges rows \<longleftrightarrow> distinct (map row_seq (filter (\<lambda>r. al_seq r \<noteq> None) rows)) \<and>
     (\<forall>r \<in> linked rows. row_hashed sha r \<and> 0 < row_seq r) \<and>
     (\<forall>q \<in> linked rows. \<forall>r \<in> linked rows. row_seq r = row_seq q + 1 \<longrightarrow> al_prevHash r = al_hash q) \<and>
     (\<forall>q \<in> linked rows. \<forall>r \<in> linked rows. \<forall>n. row_seq q < n \<and> n < row_seq r \<longrightarrow> n \<in> row_seq ` linked rows \<or> in_ranges ranges n)"

lemma set_chained [simp]: "set (chained rows) = linked rows"
  by (auto simp: chained_def linked_def)

lemma chained_strict:
  "distinct (map row_seq (filter (\<lambda>r. al_seq r \<noteq> None) rows)) \<Longrightarrow> sorted_wrt (<) (map row_seq (chained rows))"
  by (simp add: strict_sorted_iff chained_sorted) (simp add: chained_def distinct_map)

lemma scan_ok_strict:
  assumes "list_all range_ok (run_ranges runs)" "sorted_wrt (<) (map row_seq xs)" "\<forall>r \<in> set xs. row_hashed (ae_sha256 env) r"
    "\<forall>q \<in> set xs. \<forall>r \<in> set xs. row_seq r = row_seq q + 1 \<longrightarrow> al_prevHash r = al_hash q"
    "\<forall>q \<in> set xs. \<forall>r \<in> set xs. \<forall>n. row_seq q < n \<and> n < row_seq r \<longrightarrow> n \<in> row_seq ` set xs \<or> in_ranges (run_ranges runs) n"
  shows "scan_ok env (purgedSeqRanges runs) None xs"
  using assms(2-5)
proof (induction xs)
  case (Cons q xs)
  have hashed: "\<forall>r \<in> set (q # xs). Some (computeHash env (row_seq r) (al_prevHash r) r) = al_hash r"
    using Cons.prems(2) by (simp add: row_hashed_def computeHash_def)
  have holes: "\<forall>a \<in> set xs. \<forall>r \<in> set xs. \<forall>n. row_seq a < n \<and> n < row_seq r \<longrightarrow> n \<in> row_seq ` set xs \<or> in_ranges (run_ranges runs) n"
  proof (intro ballI allI impI)
    fix a r n assume ar: "a \<in> set xs" "r \<in> set xs" "row_seq a < n \<and> n < row_seq r"
    then have "row_seq q < row_seq a" using Cons.prems(1) by simp
    then have "n \<noteq> row_seq q" using ar(3) by simp
    moreover have "n \<in> row_seq ` set (q # xs) \<or> in_ranges (run_ranges runs) n"
      using Cons.prems(4) ar by (meson list.set_intros(2))
    ultimately show "n \<in> row_seq ` set xs \<or> in_ranges (run_ranges runs) n" by simp
  qed
  have ih: "scan_ok env (purgedSeqRanges runs) None xs"
    by (rule Cons.IH) (use Cons.prems holes in simp_all)
  show ?case
  proof (cases xs)
    case Nil
    then show ?thesis using hashed by (simp add: row_break_def)
  next
    case (Cons r ys)
    have lt: "row_seq q < row_seq r" and rest: "\<forall>y \<in> set ys. row_seq r < row_seq y" using Cons.prems(1) Cons by simp_all
    have hr: "Some (computeHash env (row_seq r) (al_prevHash r) r) = al_hash r"
      by (rule bspec [OF hashed]) (simp add: Cons)
    have "row_break env (purgedSeqRanges runs) (Some (row_seq q, al_hash q)) r = None"
    proof (cases "row_seq r = row_seq q + 1")
      case True
      have "al_prevHash r = al_hash q"
        by (rule Cons.prems(3) [rule_format, of q r]) (use True Cons in simp_all)
      with hr True show ?thesis by (simp add: row_break_def)
    next
      case False
      have "\<forall>n. row_seq q + 1 \<le> n \<and> n \<le> row_seq r - 1 \<longrightarrow> in_ranges (run_ranges runs) n"
      proof (intro allI impI)
        fix n assume n: "row_seq q + 1 \<le> n \<and> n \<le> row_seq r - 1"
        then have "n \<notin> row_seq ` set (q # xs)" using rest Cons by auto
        moreover have "n \<in> row_seq ` set (q # xs) \<or> in_ranges (run_ranges runs) n"
          by (rule Cons.prems(4) [rule_format, of q r]) (use n Cons in simp_all)
        ultimately show "in_ranges (run_ranges runs) n" by simp
      qed
      then have "explained (purgedSeqRanges runs) (row_seq q + 1) (row_seq r - 1)"
        using explained_iff [OF assms(1)] lt False by simp
      with hr False show ?thesis by (simp add: row_break_def)
    qed
    moreover have "row_break env (purgedSeqRanges runs) None q = None" using hashed by (simp add: row_break_def)
    ultimately show ?thesis using ih Cons by simp
  qed
qed simp

lemma chain_wf_scan:
  assumes "list_all range_ok (run_ranges runs)" "chain_wf (ae_sha256 env) (run_ranges runs) rows"
  shows "scan_ok env (purgedSeqRanges runs) None (chained rows)"
  by (rule scan_ok_strict [OF assms(1) chained_strict]) (use assms(2) in \<open>auto simp: chain_wf_def\<close>)

section \<open>What the operations do to the rows\<close>

text \<open>The facts of a row that the chain is about.\<close>

definition chain_facts :: "audit_row \<Rightarrow> (int option \<times> jstring option \<times> jstring option) \<times> (int \<times> jstring \<times> audit_outcome \<times> audit_severity) \<times>
    (actor_type \<times> jstring \<times> jstring option \<times> jstring option)" where
  "chain_facts r = ((al_seq r, al_hash r, al_prevHash r), (al_createdAt r, al_action r, al_outcome r, al_severity r),
     (al_actorType r, al_entity r, al_entityId r, al_reason r))"

lemma facts_cong:
  assumes "chain_facts q = chain_facts r"
  shows "al_seq q = al_seq r" "al_hash q = al_hash r" "al_prevHash q = al_prevHash r" "row_seq q = row_seq r"
    "row_hashed sha q = row_hashed sha r"
  using assms by (simp_all add: chain_facts_def row_seq_def row_hashed_def chain_text_def)

lemma facts_map:
  assumes "\<forall>r \<in> set rows. chain_facts (f r) = chain_facts r"
  shows "\<forall>r \<in> set rows. al_seq (f r) = al_seq r \<and> row_seq (f r) = row_seq r \<and> al_hash (f r) = al_hash r \<and>
    al_prevHash (f r) = al_prevHash r \<and> row_hashed sha (f r) = row_hashed sha r"
proof
  fix r assume "r \<in> set rows"
  with assms have "chain_facts (f r) = chain_facts r" by blast
  note facts_cong [OF this]
  then show "al_seq (f r) = al_seq r \<and> row_seq (f r) = row_seq r \<and> al_hash (f r) = al_hash r \<and>
    al_prevHash (f r) = al_prevHash r \<and> row_hashed sha (f r) = row_hashed sha r" by blast
qed

lemma linked_map: "\<forall>r \<in> set rows. al_seq (f r) = al_seq r \<Longrightarrow> linked (map f rows) = f ` linked rows"
  by (auto simp: linked_def)

lemma chain_wf_map:
  assumes "chain_wf sha ranges rows" "\<forall>r \<in> set rows. chain_facts (f r) = chain_facts r"
  shows "chain_wf sha ranges (map f rows)"
proof -
  note fm = facts_map [OF assms(2), of sha]
  have seqs: "map row_seq (filter (\<lambda>r. al_seq r \<noteq> None) (map f rows)) = map row_seq (filter (\<lambda>r. al_seq r \<noteq> None) rows)"
    using fm by (induction rows) auto
  have lk: "linked (map f rows) = f ` linked rows" by (rule linked_map) (use fm in blast)
  have fl: "\<forall>r \<in> linked rows. row_seq (f r) = row_seq r \<and> al_hash (f r) = al_hash r \<and>
    al_prevHash (f r) = al_prevHash r \<and> row_hashed sha (f r) = row_hashed sha r" using fm by (simp add: linked_def)
  then have img: "row_seq ` f ` linked rows = row_seq ` linked rows" by (simp add: image_image)
  show ?thesis using assms(1) unfolding chain_wf_def lk seqs img by (simp add: fl)
qed

lemma chain_wf_mono:
  "chain_wf sha ranges rows \<Longrightarrow> (\<And>n. in_ranges ranges n \<Longrightarrow> in_ranges ranges' n) \<Longrightarrow> chain_wf sha ranges' rows"
  unfolding chain_wf_def by blast

lemma chain_wf_filter:
  assumes "chain_wf sha ranges rows" "\<And>n. in_ranges ranges n \<Longrightarrow> in_ranges ranges' n"
    "\<And>r. r \<in> linked rows \<Longrightarrow> \<not> P r \<Longrightarrow> in_ranges ranges' (row_seq r)"
  shows "chain_wf sha ranges' (filter P rows)"
proof -
  have sub: "linked (filter P rows) = {r \<in> linked rows. P r}" by (auto simp: linked_def)
  have "distinct (map row_seq (filter (\<lambda>r. al_seq r \<noteq> None) (filter P rows)))"
    using assms(1) distinct_map_filter [of row_seq "filter (\<lambda>r. al_seq r \<noteq> None) rows" P]
    by (simp add: chain_wf_def conj_commute)
  moreover have "n \<in> row_seq ` {r \<in> linked rows. P r} \<or> in_ranges ranges' n"
    if "q \<in> linked rows" "r \<in> linked rows" "row_seq q < n \<and> n < row_seq r" for q r n
  proof -
    from assms(1) that have "n \<in> row_seq ` linked rows \<or> in_ranges ranges n" unfolding chain_wf_def by blast
    then show ?thesis using assms(2,3) by blast
  qed
  moreover have "\<forall>r \<in> linked rows. row_hashed sha r \<and> 0 < row_seq r"
      "\<forall>q \<in> linked rows. \<forall>r \<in> linked rows. row_seq r = row_seq q + 1 \<longrightarrow> al_prevHash r = al_hash q"
    using assms(1) unfolding chain_wf_def by blast+
  ultimately show ?thesis unfolding chain_wf_def sub by blast
qed

lemma last_link_None: "last_link rows = None \<longleftrightarrow> linked rows = {}"
  unfolding last_link_def set_chained [symmetric] by (cases "chained rows" rule: rev_cases) simp_all

lemma last_link_Some:
  assumes "last_link rows = Some q"
  shows "q \<in> linked rows" "r \<in> linked rows \<Longrightarrow> row_seq r \<le> row_seq q"
proof -
  from assms obtain xs where xs: "chained rows = xs @ [q]"
    unfolding last_link_def by (cases "chained rows" rule: rev_cases) simp_all
  show "q \<in> linked rows" unfolding set_chained [symmetric] xs by simp
  show "row_seq r \<le> row_seq q" if "r \<in> linked rows"
    using that chained_sorted [of rows] unfolding set_chained [symmetric] xs by (auto simp: sorted_append)
qed

lemma link_row_facts:
  "row_seq (link_row env l r) = (case l of None \<Rightarrow> 1 | Some q \<Rightarrow> row_seq q + 1)"
  "al_seq (link_row env l r) \<noteq> None"
  "al_prevHash (link_row env l r) = Option.bind l al_hash" "row_hashed (ae_sha256 env) (link_row env l r)"
  by (simp_all add: link_row_def row_seq_def row_hashed_def computeHash_def chain_text_def Let_def split: option.split)

lemma chain_wf_append:
  assumes wf: "chain_wf (ae_sha256 env) ranges rows"
  shows "chain_wf (ae_sha256 env) ranges (rows @ [link_row env (last_link rows) r])"
proof -
  let ?n = "link_row env (last_link rows) r"
  note lf = link_row_facts [of env "last_link rows" r]
  have lk: "linked (rows @ [?n]) = insert ?n (linked rows)" using lf(2) by (auto simp: linked_def)
  have above: "\<forall>q \<in> linked rows. row_seq q < row_seq ?n"
    using last_link_Some(2) last_link_None lf(1) by (fastforce split: option.splits)
  have pos: "0 < row_seq ?n"
    using lf(1) last_link_Some(1) wf unfolding chain_wf_def by (cases "last_link rows") (simp, fastforce)
  have dist: "distinct (map row_seq (filter (\<lambda>r. al_seq r \<noteq> None) (rows @ [?n])))"
    using wf above lf(2) by (auto simp: chain_wf_def linked_def)
  have link: "al_prevHash ?n = al_hash q" if "q \<in> linked rows" "row_seq ?n = row_seq q + 1" for q
  proof (cases "last_link rows")
    case None
    then show ?thesis using that last_link_None by blast
  next
    case (Some l)
    have "inj_on row_seq (linked rows)" using wf by (auto simp: chain_wf_def distinct_map linked_def)
    moreover have "row_seq l = row_seq q" using that(2) lf(1) Some by simp
    ultimately have "l = q" using last_link_Some(1) [OF Some] that(1) by (auto dest: inj_onD)
    then show ?thesis using lf(3) Some by simp
  qed
  have holes: "n \<in> row_seq ` linked rows \<or> in_ranges ranges n" if "q \<in> linked rows" "row_seq q < n" "n < row_seq ?n" for q n
  proof (cases "last_link rows")
    case None
    then show ?thesis using that(1) last_link_None by blast
  next
    case (Some l)
    have l: "l \<in> linked rows" by (rule last_link_Some(1) [OF Some])
    show ?thesis
    proof (cases "n = row_seq l")
      case False
      then have "n < row_seq l" using that(3) lf(1) Some by simp
      then show ?thesis using wf that(1,2) l unfolding chain_wf_def by blast
    qed (use l in blast)
  qed
  have old: "\<forall>r \<in> linked rows. row_hashed (ae_sha256 env) r \<and> 0 < row_seq r"
      "\<forall>q \<in> linked rows. \<forall>r \<in> linked rows. row_seq r = row_seq q + 1 \<longrightarrow> al_prevHash r = al_hash q"
      "\<forall>q \<in> linked rows. \<forall>r \<in> linked rows. \<forall>n. row_seq q < n \<and> n < row_seq r \<longrightarrow> n \<in> row_seq ` linked rows \<or> in_ranges ranges n"
    using wf unfolding chain_wf_def by blast+
  have above': "row_seq q < row_seq ?n" if "q \<in> linked rows" for q using above that by blast
  show ?thesis unfolding chain_wf_def lk
  proof (intro conjI)
    show "\<forall>r \<in> insert ?n (linked rows). row_hashed (ae_sha256 env) r \<and> 0 < row_seq r" using old(1) pos lf(4) by blast
    show "\<forall>q \<in> insert ?n (linked rows). \<forall>r \<in> insert ?n (linked rows). row_seq r = row_seq q + 1 \<longrightarrow> al_prevHash r = al_hash q"
    proof (intro ballI impI)
      fix q r assume "q \<in> insert ?n (linked rows)" "r \<in> insert ?n (linked rows)" "row_seq r = row_seq q + 1"
      then show "al_prevHash r = al_hash q" using old(2) link above' [of r] by auto
    qed
    show "\<forall>q \<in> insert ?n (linked rows). \<forall>r \<in> insert ?n (linked rows). \<forall>n. row_seq q < n \<and> n < row_seq r \<longrightarrow>
        n \<in> row_seq ` insert ?n (linked rows) \<or> in_ranges ranges n"
    proof (intro ballI allI impI)
      fix q r n assume qr: "q \<in> insert ?n (linked rows)" "r \<in> insert ?n (linked rows)" "row_seq q < n \<and> n < row_seq r"
      then have "q \<in> linked rows" using above' [of r] by auto
      with qr old(3) holes have "n \<in> row_seq ` linked rows \<or> in_ranges ranges n" by blast
      then show "n \<in> row_seq ` insert ?n (linked rows) \<or> in_ranges ranges n" by blast
    qed
  qed (rule dist)
qed

end
