(* ===== verification/Audit_Moves.thy ===== *)
theory Audit_Moves
  imports Audit_Safety
begin

text \<open>
  The calls of the audit log as moves over its rows, purge runs and archive; the chain invariant holds
  after every move, and a move lowers a hold only in a call that a second administrator asked for.
\<close>

section \<open>Moves\<close>

text \<open>
  What an operation does to rows, runs and archive, as steps: it records an event, leaves them alone,
  rewrites columns the chain does not cover, opens a purge run that deletes nothing, or purges. Only a
  step marked free may lower a hold.
\<close>

inductive audit_move :: "bool \<Rightarrow> audit_env \<Rightarrow> audit_state \<Rightarrow> audit_state \<Rightarrow> bool" for free env where
  m_record: "audit_move free env s (snd (record_event env p s))"
| m_quiet: "au_rows t = au_rows s \<Longrightarrow> au_runs t = au_runs s \<Longrightarrow> au_archive t = au_archive s \<Longrightarrow> au_created s \<le> au_created t \<Longrightarrow>
    audit_move free env s t"
| m_touch: "au_rows t = map f (au_rows s) \<Longrightarrow> (\<And>r. chain_facts (f r) = chain_facts r \<and> al_id (f r) = al_id r) \<Longrightarrow>
    (\<And>r. \<not> free \<Longrightarrow> al_legalHold r \<Longrightarrow> al_legalHold (f r)) \<Longrightarrow>
    au_runs t = au_runs s \<Longrightarrow> au_archive t = au_archive s \<Longrightarrow> au_created s \<le> au_created t \<Longrightarrow> audit_move free env s t"
| m_fail: "au_rows t = au_rows s \<Longrightarrow> au_runs t = au_runs s @ [run] \<Longrightarrow> pr_id run = ae_newId env (au_created s) \<Longrightarrow>
    pr_minSeq run = None \<Longrightarrow> au_archive t = au_archive s \<Longrightarrow> au_created t = Suc (au_created s) \<Longrightarrow> audit_move free env s t"
| m_purge: "au_rows t = filter (\<lambda>r. \<not> (purgeable c r \<and> P r)) (au_rows s) \<Longrightarrow> au_runs t = au_runs s @ [run] \<Longrightarrow>
    pr_id run = ae_newId env (au_created s) \<Longrightarrow> (pr_minSeq run, pr_maxSeq run) = seq_range dead \<Longrightarrow>
    set dead = {r \<in> set (au_rows s). purgeable c r} \<Longrightarrow> au_archive t = au_archive s @ extra \<Longrightarrow>
    (dead \<noteq> [] \<Longrightarrow> dead \<in> snd ` set extra) \<Longrightarrow> au_created t = Suc (au_created s) \<Longrightarrow> audit_move free env s t"

abbreviation audit_moves :: "bool \<Rightarrow> audit_env \<Rightarrow> audit_state \<Rightarrow> audit_state \<Rightarrow> bool" where
  "audit_moves free env \<equiv> (audit_move free env)\<^sup>*\<^sup>*"

lemma moves_self: "audit_moves free env s t \<Longrightarrow> audit_moves free env s (auditSelf env p t)"
  unfolding auditSelf_def by (rule rtranclp.rtrancl_into_rtrancl) (auto intro: m_record)

lemma moves_quiet:
  "audit_moves free env s t \<Longrightarrow> au_rows u = au_rows t \<Longrightarrow> au_runs u = au_runs t \<Longrightarrow> au_archive u = au_archive t \<Longrightarrow>
   au_created t \<le> au_created u \<Longrightarrow> audit_moves free env s u"
  by (rule rtranclp.rtrancl_into_rtrancl) (auto intro: m_quiet)

lemma moves_update:
  assumes "audit_moves free env s t" "au_rows u = update_where P f (au_rows t)"
    "\<And>r. chain_facts (f r) = chain_facts r \<and> al_id (f r) = al_id r"
    "\<And>r. \<not> free \<Longrightarrow> P r \<Longrightarrow> al_legalHold r \<Longrightarrow> al_legalHold (f r)"
    "au_runs u = au_runs t" "au_archive u = au_archive t" "au_created t \<le> au_created u"
  shows "audit_moves free env s u"
  using assms(1)
proof (rule rtranclp.rtrancl_into_rtrancl)
  show "audit_move free env t u"
    by (rule m_touch [where f = "\<lambda>r. if P r then f r else r"]) (use assms(2-) in \<open>auto simp: update_where_def\<close>)
qed

lemma hold_keeps: "chain_facts (r\<lparr>al_legalHold := b\<rparr>) = chain_facts r \<and> al_id (r\<lparr>al_legalHold := b\<rparr>) = al_id r"
  by (simp add: chain_facts_def)

lemma place_hold_moves: "audit_moves free env s (place_hold env h actor s)"
  unfolding place_hold_def hold_rows_def
  by (intro moves_self, rule moves_update [OF rtranclp.rtrancl_refl, where P = "holdWhere (lh_filter h)" and f = "\<lambda>r. r\<lparr>al_legalHold := True\<rparr>"])
    (simp_all add: hold_keeps)

lemma createLegalHold_moves: "audit_moves free env s (snd (createLegalHold env f ref reason actor s))"
  by (simp add: createLegalHold_def Let_def place_hold_moves split: option.split)

lemma verifyIntegrity_moves: "audit_moves free env s (snd (verifyIntegrity env from to actor manual s))"
  by (auto simp: verifyIntegrity_def Let_def intro!: moves_quiet [OF moves_self [OF rtranclp.rtrancl_refl]])

lemma issue_token_state: "snd (issueConfirmToken env i c s) = s \<or> snd (issueConfirmToken env i c s) = s\<lparr>au_created := au_created s + 1\<rparr>"
  by (simp add: issueConfirmToken_def split: sum.split)

lemma issue_token_moves: "audit_moves free env s (snd (issueConfirmToken env i c s))"
  using issue_token_state [of env i c s] by (auto intro: moves_quiet [OF rtranclp.rtrancl_refl])

lemma res_bind_moves:
  "audit_moves free env s (snd m) \<Longrightarrow> (\<And>x t. audit_moves free env t (snd (k x t))) \<Longrightarrow> audit_moves free env s (snd (res_bind m k))"
  by (auto simp: res_bind_def split: prod.split sum.split intro: rtranclp_trans)

lemma previewPurge_moves: "audit_moves free env s (snd (previewPurge env olderThan actor s))"
  unfolding previewPurge_def Let_def
  by (auto split: sum.split intro!: res_bind_moves issue_token_moves moves_self)

lemma anonymized_keeps: "chain_facts (anonymized env r) = chain_facts r \<and> al_id (anonymized env r) = al_id r"
  by (simp add: chain_facts_def anonymized_def)

lemma anonymizeUser_moves: "audit_moves free env s (snd (anonymizeUser env i actor s))"
proof -
  let ?mine = "\<lambda>r. al_userId r = Some i \<and> \<not> al_legalHold r \<and> al_anonymizedAt r = None"
  let ?label = "\<lambda>r. al_entity r = ''User'' \<and> al_entityId r = Some i \<and> \<not> al_legalHold r"
  let ?s1 = "s\<lparr>au_rows := update_where ?mine (anonymized env) (au_rows s)\<rparr>"
  have "audit_moves free env s ?s1"
    by (rule moves_update [OF rtranclp.rtrancl_refl, where P = ?mine and f = "anonymized env"]) (simp_all add: anonymized_keeps)
  then have "audit_moves free env s (?s1\<lparr>au_rows := update_where ?label (\<lambda>r. r\<lparr>al_entityLabel := None\<rparr>) (au_rows ?s1)\<rparr>)"
    by (rule moves_update [where P = ?label and f = "\<lambda>r. r\<lparr>al_entityLabel := None\<rparr>"]) (simp_all add: chain_facts_def)
  then show ?thesis by (auto simp: anonymizeUser_def Let_def intro!: moves_self)
qed

lemma schedulePurge_moves: "audit_moves free env s (snd (schedulePurge env olderThan runAt reason actor s))"
  unfolding schedulePurge_def Let_def
  by (auto split: sum.split option.split intro!: moves_self intro: moves_quiet [OF rtranclp.rtrancl_refl])

lemma cancelPurgeSchedule_moves: "audit_moves free env s (snd (cancelPurgeSchedule env i reason actor s))"
  unfolding cancelPurgeSchedule_def by (auto intro!: moves_self intro: moves_quiet [OF rtranclp.rtrancl_refl])

text \<open>A purge is one step once its run is open: all or nothing.\<close>

definition fresh_runs :: "audit_env \<Rightarrow> audit_state \<Rightarrow> bool" where
  "fresh_runs env s \<longleftrightarrow> (\<forall>r \<in> set (au_runs s). pr_id r \<noteq> ae_newId env (au_created s))"

lemma update_new_run:
  "\<forall>r \<in> set runs. pr_id r \<noteq> i \<Longrightarrow> pr_id run = i \<Longrightarrow> update_where (\<lambda>r. pr_id r = i) f (runs @ [run]) = runs @ [f run]"
  by (simp add: update_where_none count_where_0_iff)

lemma purge_rows_shape:
  "\<exists>res R f. purge_rows env i c s = (res, s\<lparr>au_rows := filter (\<lambda>r. \<not> (purgeable c r \<and> R r)) (au_rows s),
       au_runs := update_where (\<lambda>r. pr_id r = i) f (au_runs s)\<rparr>) \<and>
     (\<forall>r. pr_id (f r) = pr_id r \<and> pr_minSeq (f r) = pr_minSeq r \<and> pr_maxSeq (f r) = pr_maxSeq r)"
proof (cases "ae_deleteFails env")
  case None
  let ?rows = "to_purge env c s"
  let ?held = "count_where (\<lambda>r. al_createdAt r < c \<and> al_legalHold r) (filter (\<lambda>r. \<not> (purgeable c r \<and> al_id r \<in> set (map al_id ?rows))) (au_rows s))"
  show ?thesis
    by (rule exI [of _ "Inr (length ?rows, ?held)"], rule exI [of _ "\<lambda>r. al_id r \<in> set (map al_id ?rows)"],
        rule exI [of _ "\<lambda>r. r\<lparr>pr_status := RUN_COMPLETED, pr_deletedCount := length ?rows, pr_heldCount := ?held, pr_finishedAt := Some (ae_now env)\<rparr>"])
      (simp add: purge_rows_def None Let_def update_run_def)
next
  case (Some p)
  obtain k e where p: "p = (k, e)" by fastforce
  let ?rows = "take (k * PURGE_BATCH) (to_purge env c s)"
  show ?thesis
    by (rule exI [of _ "Inl (ServiceUnavailable (''purge_partially_failed_see_run_'' @ i))"], rule exI [of _ "\<lambda>r. al_id r \<in> set (map al_id ?rows)"],
        rule exI [of _ "\<lambda>r. r\<lparr>pr_status := RUN_FAILED, pr_deletedCount := length ?rows, pr_error := Some (''delete: '' @ e)\<rparr>"])
      (simp add: purge_rows_def Some p Let_def update_run_def)
qed

lemma run_purge_moves:
  assumes fresh: "\<forall>r \<in> set (au_runs s). pr_id r \<noteq> ae_newId env (au_created s)"
    and run: "pr_id run = ae_newId env (au_created s)" "pr_minSeq run = None"
  shows "audit_moves free env s (snd (run_purge env run actor (s\<lparr>au_runs := au_runs s @ [run], au_created := au_created s + 1\<rparr>)))"
    (is "audit_moves free env s (snd (run_purge env run actor ?s1))")
proof -
  let ?c = "pr_cutoff run" and ?dead = "to_purge env (pr_cutoff run) s"
  have dead: "to_purge env ?c ?s1 = ?dead" by (simp add: to_purge_def)
  obtain lo hi where sr: "seq_range ?dead = (lo, hi)" by fastforce
  have "\<forall>r \<in> set (au_runs s). pr_id r \<noteq> pr_id run" using fresh run(1) by simp
  note upd = update_new_run [OF this]
  have failed: "audit_move free env s (failRun env (pr_id run) e ?s1)" for e
    by (rule m_fail [where run = "run\<lparr>pr_status := RUN_FAILED, pr_error := Some e, pr_finishedAt := Some (ae_now env)\<rparr>"])
      (simp_all add: failRun_def update_run_def upd run(2) del: update_where_append, rule run(1))
  show ?thesis
  proof (cases "ae_archive env")
    case None
    have "audit_move free env s ?s1" by (rule m_fail [where run = run]) (use run in simp_all)
    with None show ?thesis by (simp add: run_purge_def archive_rows_def sr dead [simplified] res_bind_def)
  next
    case (Some ans)
    show ?thesis
    proof (cases ans)
      case (Stored key)
      define extra where "extra = (if ?dead = [] then [] else [(key, ?dead)])"
      define stored where "stored = (if ?dead = [] then None else Some key)"
      define run1 where "run1 = run\<lparr>pr_status := RUN_ARCHIVED, pr_archiveKey := stored,
          pr_archivedCount := length ?dead, pr_minSeq := lo, pr_maxSeq := hi\<rparr>"
      let ?s2 = "s\<lparr>au_runs := au_runs s @ [run1], au_created := au_created s + 1, au_archive := au_archive s @ extra\<rparr>"
      have id: "pr_id run1 = pr_id run" by (simp add: run1_def)
      have arch: "archive_rows env (pr_id run) ?c ?s1 = (Inr (length ?dead, stored), ?s2)"
        using Some Stored by (simp add: archive_rows_def sr dead [simplified] update_run_def upd extra_def stored_def run1_def Let_def del: update_where_append)
      obtain res R f where del: "purge_rows env (pr_id run) ?c ?s2 = (res, ?s2\<lparr>au_rows := filter (\<lambda>r. \<not> (purgeable ?c r \<and> R r)) (au_rows ?s2),
          au_runs := update_where (\<lambda>r. pr_id r = pr_id run) f (au_runs ?s2)\<rparr>)"
          and f: "\<forall>r. pr_id (f r) = pr_id r \<and> pr_minSeq (f r) = pr_minSeq r \<and> pr_maxSeq (f r) = pr_maxSeq r"
        using purge_rows_shape by blast
      let ?s3 = "s\<lparr>au_rows := filter (\<lambda>r. \<not> (purgeable ?c r \<and> R r)) (au_rows s), au_runs := au_runs s @ [f run1],
          au_created := au_created s + 1, au_archive := au_archive s @ extra\<rparr>"
      have del': "purge_rows env (pr_id run) ?c ?s2 = (res, ?s3)" using upd [OF id] del by (simp del: update_where_append)
      have mv: "audit_move free env s ?s3"
        by (rule m_purge [where c = ?c and extra = extra and dead = ?dead and run = "f run1" and P = R])
          (use f id run(1) sr in \<open>auto simp: run1_def extra_def to_purge_def\<close>)
      show ?thesis
      proof (cases res)
        case (Inl e)
        with mv arch del' show ?thesis by (simp add: run_purge_def res_bind_def)
      next
        case (Inr n)
        with moves_self [OF r_into_rtranclp [of "audit_move free env", OF mv]] arch del'
        show ?thesis by (simp add: run_purge_def res_bind_def)
      qed
    qed (use Some r_into_rtranclp [of "audit_move free env", OF failed] in \<open>simp_all add: run_purge_def archive_rows_def sr dead [simplified] res_bind_def\<close>)
  qed
qed

lemma purgeOlderThan_moves:
  assumes "fresh_runs env s"
  shows "audit_moves free env s (snd (purgeOlderThan env olderThan reason token actor s))"
  using assms unfolding purgeOlderThan_def Let_def fresh_runs_def
  by (auto split: sum.split simp del: One_nat_def add_Suc_right simp: new_run_def intro!: run_purge_moves)

text \<open>The gate only lets through with a pending request of somebody else, for the same thing.\<close>

definition second_request :: "audit_env \<Rightarrow> approval_kind \<Rightarrow> jstring \<Rightarrow> jstring \<Rightarrow> current_user \<Rightarrow> audit_state \<Rightarrow> bool" where
  "second_request env kind target material actor s \<longleftrightarrow>
     (\<exists>a \<in> set (au_approvals s). asks_for env kind target (ae_sha256 env (kind_name kind @ ''|'' @ target @ ''|'' @ material)) a \<and>
        ar_requestedById a \<noteq> cu_id actor)"

lemma expired_asks:
  "a \<in> set (au_approvals (expire_approvals env s)) \<Longrightarrow> asks_for env kind target hash a \<Longrightarrow> a \<in> set (au_approvals s)"
  by (auto simp: expire_approvals_def asks_for_def in_update_where split: if_splits)

lemma twoPerson_moves: "audit_moves free env s (snd (twoPerson env kind target material reason actor s))"
  unfolding twoPerson_def Let_def
  by (auto split: list.split intro!: moves_self simp: expire_approvals_def intro: moves_quiet [OF rtranclp.rtrancl_refl])

lemma twoPerson_approved:
  assumes "fst (twoPerson env kind target material reason actor s) = Inr (Approved i by)"
  shows "second_request env kind target material actor s"
proof -
  let ?hash = "ae_sha256 env (kind_name kind @ ''|'' @ target @ ''|'' @ material)"
  let ?found = "sort_key ar_createdAt (filter (asks_for env kind target ?hash) (au_approvals (expire_approvals env s)))"
  from assms obtain a as where a: "?found = a # as" "ar_requestedById a \<noteq> cu_id actor"
    by (auto simp: twoPerson_def Let_def split: list.splits if_splits)
  from a(1) have "a \<in> set ?found" by simp
  then have "a \<in> set (au_approvals s)" "asks_for env kind target ?hash a"
    using expired_asks by auto
  with a(2) show ?thesis by (auto simp: second_request_def)
qed

lemma gated_moves:
  assumes "second_request env kind target material actor s \<Longrightarrow> \<forall>by t. audit_moves free env t (snd (k by t))"
  shows "audit_moves free env s (snd (gated (twoPerson env kind target material reason actor s) k))"
proof -
  obtain g t where tp: "twoPerson env kind target material reason actor s = (g, t)" by fastforce
  have st: "audit_moves free env s t" using twoPerson_moves [of free env s kind target material reason actor] by (simp add: tp)
  show ?thesis
  proof (cases "\<exists>i by. g = Inr (Approved i by)")
    case True
    then obtain i "by" where g: "g = Inr (Approved i by)" by blast
    with tp have "second_request env kind target material actor s" using twoPerson_approved by (metis fst_conv)
    with assms have "audit_moves free env t (snd (k by t))" by blast
    then have "audit_moves free env s (snd (k by t))" using st by (rule rtranclp_trans [rotated])
    then show ?thesis by (cases "k by t") (auto simp: gated_def res_bind_def tp g split: sum.split)
  next
    case False
    then show ?thesis using st by (auto simp: gated_def res_bind_def tp split: sum.split gate.split)
  qed
qed

section \<open>Calls\<close>

datatype audit_call =
    Emit audit_payload
  | Verify "int option" "int option" "current_user option" bool
  | Preview "int option option" current_user
  | Purge "int option option" "jstring option" jstring current_user
  | Anonymize jstring current_user
  | SchedulePurge "int option option" "int option" jstring current_user
  | CancelSchedule jstring jstring current_user
  | RunDue
  | CreateHold hold_filter jstring jstring current_user
  | RowHold jstring bool jstring "jstring option" current_user
  | ReleaseHold jstring jstring current_user
  | Retention "retention_policy list" jstring current_user
  | OpenArchive jstring current_user
  | UserDeleted jstring \<comment> \<open>\<open>onDelete: SetNull\<close> of the actor and the target\<close>

definition user_deleted :: "jstring \<Rightarrow> audit_state \<Rightarrow> audit_state" where
  "user_deleted i s = s\<lparr>au_rows := map (\<lambda>r. r\<lparr>al_userId := (if al_userId r = Some i then None else al_userId r),
     al_targetUserId := (if al_targetUserId r = Some i then None else al_targetUserId r)\<rparr>) (au_rows s)\<rparr>"

fun audit_step :: "audit_env \<Rightarrow> audit_call \<Rightarrow> audit_state \<Rightarrow> audit_state" where
  "audit_step env (Emit p) s = handleAuditEvent env p s"
| "audit_step env (Verify from to actor manual) s = snd (verifyIntegrity env from to actor manual s)"
| "audit_step env (Preview olderThan actor) s = snd (previewPurge env olderThan actor s)"
| "audit_step env (Purge olderThan reason token actor) s = snd (purgeOlderThan env olderThan reason token actor s)"
| "audit_step env (Anonymize i actor) s = snd (anonymizeUser env i actor s)"
| "audit_step env (SchedulePurge olderThan runAt reason actor) s = snd (schedulePurge env olderThan runAt reason actor s)"
| "audit_step env (CancelSchedule i reason actor) s = snd (cancelPurgeSchedule env i reason actor s)"
| "audit_step env RunDue s = runDueScheduledPurges env s"
| "audit_step env (CreateHold f ref reason actor) s = snd (createLegalHold env f ref reason actor s)"
| "audit_step env (RowHold i on reason ref actor) s = snd (setRowLegalHold env i on reason ref actor s)"
| "audit_step env (ReleaseHold i reason actor) s = snd (releaseLegalHold env i reason actor s)"
| "audit_step env (Retention ps reason actor) s = snd (updateRetention env ps reason actor s)"
| "audit_step env (OpenArchive i actor) s = snd (retrievePurgeArchive env i actor s)"
| "audit_step env (UserDeleted i) s = user_deleted i s"

definition audit_init :: audit_state where
  "audit_init = \<lparr>au_rows = [], au_runs = [], au_holds = [], au_approvals = [], au_schedules = [], au_retention = [],
     au_integrity = [], au_archive = [], au_created = 0\<rparr>"

text \<open>Calls in order, each with its clock, caller and archive; hash and ids are the deployment's.\<close>

definition same_deployment :: "audit_env \<Rightarrow> audit_env \<Rightarrow> bool" where
  "same_deployment env e \<longleftrightarrow> ae_sha256 e = ae_sha256 env \<and> ae_newId e = ae_newId env"

fun audit_trace :: "(audit_env \<times> audit_call) list \<Rightarrow> audit_state \<Rightarrow> audit_state" where
  "audit_trace [] s = s"
| "audit_trace ((env, c) # cs) s = audit_trace cs (audit_step env c s)"

section \<open>Every call is a sequence of moves\<close>

lemma hold_rows_map: "hold_rows P b rows = map (\<lambda>r. if P r then r\<lparr>al_legalHold := b\<rparr> else r) rows"
  by (simp add: hold_rows_def update_where_def)

lemma fold_hold_rows:
  "\<exists>f. fold (\<lambda>g. hold_rows (P g) b) gs rows = map f rows \<and> (\<forall>r. chain_facts (f r) = chain_facts r \<and> al_id (f r) = al_id r)"
proof (induction gs arbitrary: rows)
  case Nil
  show ?case by (rule exI [of _ "\<lambda>r. r"]) simp
next
  case (Cons g gs)
  let ?h = "\<lambda>r. if P g r then r\<lparr>al_legalHold := b\<rparr> else r"
  obtain f where f: "fold (\<lambda>g. hold_rows (P g) b) gs (hold_rows (P g) b rows) = map f (hold_rows (P g) b rows)"
      "\<forall>r. chain_facts (f r) = chain_facts r \<and> al_id (f r) = al_id r"
    using Cons.IH by blast
  show ?case by (rule exI [of _ "f \<circ> ?h"]) (use f hold_keeps in \<open>simp add: hold_rows_map [of "P g"]\<close>)
qed

lemma release_hold_moves: "audit_moves True env s (snd (release_hold env h reason actor by s))"
proof -
  let ?match = "holdWhere (lh_filter h)"
  let ?holds = "update_where (hold_active (lh_id h)) (release env actor by reason) (au_holds s)"
  obtain f where f: "fold (\<lambda>g. hold_rows (\<lambda>r. ?match r \<and> holdWhere (lh_filter g) r) True) (filter lh_active ?holds) (hold_rows ?match False (au_rows s)) =
      map f (hold_rows ?match False (au_rows s))" "\<forall>r. chain_facts (f r) = chain_facts r \<and> al_id (f r) = al_id r"
    using fold_hold_rows [of "\<lambda>g r. ?match r \<and> holdWhere (lh_filter g) r" True "filter lh_active ?holds" "hold_rows ?match False (au_rows s)"]
    by blast
  have "audit_move True env s (s\<lparr>au_holds := ?holds, au_rows := map f (hold_rows ?match False (au_rows s))\<rparr>)"
    by (rule m_touch [where f = "\<lambda>r. f (if ?match r then r\<lparr>al_legalHold := False\<rparr> else r)"])
      (use f(2) hold_keeps in \<open>simp_all add: hold_rows_map\<close>)
  then show ?thesis by (auto simp: release_hold_def Let_def f(1) intro!: moves_self)
qed

lemma clear_row_moves: "audit_moves True env s (snd (clear_row env r cover reason actor by s))"
  unfolding clear_row_def snd_conv
  by (intro moves_self, rule moves_update [OF rtranclp.rtrancl_refl, where P = "\<lambda>q. al_id q = al_id r" and f = "\<lambda>r. r\<lparr>al_legalHold := False\<rparr>"])
    (simp_all add: hold_keeps hold_rows_def)

lemma write_policies_moves: "audit_moves free env s (snd (write_policies env ps reason actor by s))"
  unfolding write_policies_def Let_def by (auto intro!: moves_self intro: moves_quiet [OF rtranclp.rtrancl_refl])

lemma open_archive_moves: "audit_moves free env s (snd (open_archive env run key actor by s))"
  unfolding open_archive_def by (auto split: option.split intro!: moves_self)

text \<open>The calls that may lower a hold, and what they need.\<close>

fun releases :: "audit_env \<Rightarrow> audit_call \<Rightarrow> audit_state \<Rightarrow> bool" where
  "releases env (RowHold i on reason ref actor) s \<longleftrightarrow>
     \<not> on \<and> isSuperAdmin actor \<and> second_request env HOLD_RELEASE (''row:'' @ i) ''{}'' actor s"
| "releases env (ReleaseHold i reason actor) s \<longleftrightarrow> second_request env HOLD_RELEASE (''hold:'' @ i) ''{}'' actor s"
| "releases env _ s \<longleftrightarrow> False"

lemma setRowLegalHold_moves:
  "audit_moves (releases env (RowHold i on reason ref actor) s) env s (snd (setRowLegalHold env i on reason ref actor s))"
proof -
  have g: "audit_moves (releases env (RowHold i on reason ref actor) s) env s
      (snd (gated (twoPerson env HOLD_RELEASE (''row:'' @ i) ''{}'' (Some w) actor s) (clear_row env r cover w actor)))"
    if "\<not> on" "isSuperAdmin actor" for w r cover
    by (rule gated_moves) (use that clear_row_moves in simp)
  show ?thesis using g place_hold_moves unfolding setRowLegalHold_def Let_def
    by (auto split: option.split simp del: releases.simps)
qed

lemma releaseLegalHold_moves:
  "audit_moves (releases env (ReleaseHold i reason actor) s) env s (snd (releaseLegalHold env i reason actor s))"
proof -
  have g: "audit_moves (releases env (ReleaseHold i reason actor) s) env s
      (snd (gated (twoPerson env HOLD_RELEASE (''hold:'' @ i) ''{}'' (Some w) actor s) (release_hold env h w actor)))" for w h
    by (rule gated_moves) (use release_hold_moves in simp)
  show ?thesis using g unfolding releaseLegalHold_def by (auto split: option.split simp del: releases.simps)
qed

lemma updateRetention_moves: "audit_moves free env s (snd (updateRetention env ps reason actor s))"
  unfolding updateRetention_def by (auto split: option.split intro!: gated_moves write_policies_moves)

lemma retrieve_moves: "audit_moves free env s (snd (retrievePurgeArchive env i actor s))"
  unfolding retrievePurgeArchive_def by (auto split: option.split intro!: gated_moves open_archive_moves)

section \<open>The invariant\<close>

definition audit_wf :: "audit_env \<Rightarrow> audit_state \<Rightarrow> bool" where
  "audit_wf env s \<longleftrightarrow> chain_wf (ae_sha256 env) (run_ranges (au_runs s)) (au_rows s) \<and> list_all range_ok (run_ranges (au_runs s)) \<and>
     (\<forall>r \<in> set (au_runs s). \<exists>k < au_created s. pr_id r = ae_newId env k)"

lemma audit_wf_fresh: "audit_wf env s \<Longrightarrow> inj (ae_newId env) \<Longrightarrow> fresh_runs env s"
  unfolding audit_wf_def fresh_runs_def by (metis injD less_irrefl)

lemma fold_min_max:
  "fold min ns n \<le> (n :: int) \<and> n \<le> fold max ns n \<and> (\<forall>m \<in> set ns. fold min ns n \<le> m \<and> m \<le> fold max ns n)"
proof -
  have "fold min ns n = Min (insert n (set ns)) \<and> fold max ns n = Max (insert n (set ns))"
    by (metis Max.set_eq_fold Min.set_eq_fold list.simps(15))
  then show ?thesis by simp
qed

lemma fold_bounds: "(m :: int) \<in> set (n # ns) \<Longrightarrow> fold min ns n \<le> m \<and> m \<le> fold max ns n"
  using fold_min_max [of ns n] by auto

lemma seq_range_covers:
  assumes "seq_range rows = (lo, hi)"
  shows "r \<in> linked rows \<Longrightarrow> \<exists>a b. lo = Some a \<and> hi = Some b \<and> a \<le> row_seq r \<and> row_seq r \<le> b"
    "lo = Some a \<Longrightarrow> hi = Some b \<Longrightarrow> a \<le> b"
proof -
  let ?ns = "map row_seq (filter (\<lambda>r. al_seq r \<noteq> None) rows)"
  have sr: "(lo, hi) = (case ?ns of [] \<Rightarrow> (None, None) | n # ns \<Rightarrow> (Some (fold min ns n), Some (fold max ns n)))"
    using assms by (simp only: seq_range_def)
  show "\<exists>a b. lo = Some a \<and> hi = Some b \<and> a \<le> row_seq r \<and> row_seq r \<le> b" if "r \<in> linked rows"
  proof -
    from that have mem: "row_seq r \<in> set ?ns" by (auto simp: linked_def)
    then obtain n ns where ns: "?ns = n # ns" by (meson list.set_cases)
    from mem fold_bounds show ?thesis using sr unfolding ns by simp
  qed
  show "a \<le> b" if "lo = Some a" "hi = Some b"
  proof (cases ?ns)
    case Nil
    with sr that show ?thesis unfolding Nil by simp
  next
    case (Cons n ns)
    with sr that fold_min_max [of ns n] show ?thesis unfolding Cons by simp
  qed
qed

lemma run_ranges_snoc:
  "run_ranges (runs @ [r]) = run_ranges runs @ (case (pr_minSeq r, pr_maxSeq r) of (Some a, Some b) \<Rightarrow> [(a, b)] | _ \<Rightarrow> [])"
  by (auto simp: run_ranges_def map_filter_def split: option.splits prod.splits)

lemma in_ranges_append [simp]: "in_ranges (xs @ ys) n \<longleftrightarrow> in_ranges xs n \<or> in_ranges ys n"
  by (auto simp: in_ranges_def)

lemma audit_wf_move: "audit_move free env s t \<Longrightarrow> audit_wf env s \<Longrightarrow> audit_wf env t"
proof (induction rule: audit_move.induct)
  case (m_record s p)
  let ?r = "row_data env p (ae_newId env (au_created s))"
  have "chain_wf (ae_sha256 env) (run_ranges (au_runs s)) (au_rows s @ [link_row env (last_link (au_rows s)) ?r])"
    by (rule chain_wf_append) (use m_record in \<open>simp add: audit_wf_def\<close>)
  moreover have "\<forall>r \<in> set (au_runs s). \<exists>k < Suc (au_created s). pr_id r = ae_newId env k"
    using m_record less_SucI unfolding audit_wf_def by blast
  ultimately show ?case using m_record by (simp add: audit_wf_def record_event_def Let_def)
next
  case (m_quiet t s)
  then show ?case unfolding audit_wf_def by (metis order_less_le_trans)
next
  case (m_touch t f s)
  have "chain_wf (ae_sha256 env) (run_ranges (au_runs s)) (map f (au_rows s))"
    by (rule chain_wf_map) (use m_touch in \<open>simp_all add: audit_wf_def\<close>)
  then show ?case using m_touch unfolding audit_wf_def by (metis order_less_le_trans)
next
  case (m_fail t s run)
  then have "run_ranges (au_runs t) = run_ranges (au_runs s)" by (simp add: run_ranges_snoc)
  then show ?case using m_fail unfolding audit_wf_def by (auto intro: less_SucI)
next
  case (m_purge t c P s run dead extra)
  obtain lo hi where sr: "seq_range dead = (lo, hi)" by fastforce
  with m_purge have lh: "pr_minSeq run = lo" "pr_maxSeq run = hi" by simp_all
  have "chain_wf (ae_sha256 env) (run_ranges (au_runs t)) (au_rows t)"
    unfolding m_purge(1,2)
  proof (rule chain_wf_filter)
    fix r assume "r \<in> linked (au_rows s)" "\<not> \<not> (purgeable c r \<and> P r)"
    then have "r \<in> linked dead" using m_purge(5) by (auto simp: linked_def)
    from seq_range_covers(1) [OF sr this]
    show "in_ranges (run_ranges (au_runs s @ [run])) (row_seq r)" by (auto simp: run_ranges_snoc lh in_ranges_def)
  qed (use m_purge in \<open>auto simp: audit_wf_def run_ranges_snoc\<close>)
  moreover have "list_all range_ok (run_ranges (au_runs t))"
  proof -
    have "run_ranges (au_runs t) = run_ranges (au_runs s) @ (case (lo, hi) of (Some a, Some b) \<Rightarrow> [(a, b)] | _ \<Rightarrow> [])"
      by (simp add: m_purge(2) run_ranges_snoc lh)
    moreover have "list_all range_ok (run_ranges (au_runs s))" using m_purge(9) by (simp add: audit_wf_def)
    ultimately show ?thesis using seq_range_covers(2) [OF sr] by (simp add: range_ok_def split: option.split)
  qed
  moreover have "\<forall>r \<in> set (au_runs s). \<exists>k < Suc (au_created s). pr_id r = ae_newId env k"
    using m_purge(9) less_SucI unfolding audit_wf_def by blast
  ultimately show ?case using m_purge(2,3,8) by (auto simp: audit_wf_def)
qed

lemma audit_wf_moves: "audit_moves free env s t \<Longrightarrow> audit_wf env s \<Longrightarrow> audit_wf env t"
  by (induction rule: rtranclp_induct) (auto intro: audit_wf_move)

lemma run_due_moves:
  assumes "audit_wf env s" "inj (ae_newId env)"
  shows "audit_moves free env s (run_due env p s)"
proof -
  let ?s1 = "s\<lparr>au_schedules := update_where (schedule_in (ps_id p)) (\<lambda>q. q\<lparr>ps_status := PS_RUNNING\<rparr>) (au_schedules s)\<rparr>"
  let ?m = "issueConfirmToken env (ps_createdById p) (ps_olderThan p) ?s1"
  let ?k = "\<lambda>token t. purgeOlderThan env (Some (Some (ps_olderThan p))) (Some (ps_reason p @ '' (scheduled purge '' @ ps_id p @ '')'')) token
                    (worker_as (ps_createdById p)) t"
  have m1: "audit_moves free env s ?s1" by (rule moves_quiet [OF rtranclp.rtrancl_refl]) simp_all
  also have "audit_moves free env ?s1 (snd ?m)" by (rule issue_token_moves)
  finally have m2: "audit_moves free env s (snd ?m)" .
  have "fresh_runs env (snd ?m)" by (rule audit_wf_fresh [OF audit_wf_moves [OF m2 assms(1)] assms(2)])
  then have "audit_moves free env (snd ?m) (snd (?k token (snd ?m)))" for token by (rule purgeOlderThan_moves)
  then have m3: "audit_moves free env s (snd (res_bind ?m ?k))"
    using m2 by (cases ?m) (auto simp: res_bind_def split: sum.split intro: rtranclp_trans)
  show ?thesis
    by (auto simp: run_due_def Let_def split: prod.split sum.split intro!: moves_quiet [OF m3])
qed

lemma runDue_moves:
  assumes "audit_wf env s" "inj (ae_newId env)"
  shows "audit_moves free env s (runDueScheduledPurges env s)"
proof -
  have "audit_moves free env s (fold (run_due env) ps s)" if "audit_wf env s" for ps s
    using that
  proof (induction ps arbitrary: s)
    case (Cons p ps)
    have one: "audit_moves free env s (run_due env p s)" by (rule run_due_moves [OF Cons.prems assms(2)])
    from Cons.IH [OF audit_wf_moves [OF one Cons.prems]] one show ?case by simp
  qed simp
  with assms(1) show ?thesis by (simp add: runDueScheduledPurges_def)
qed

lemma user_deleted_moves: "audit_moves free env s (user_deleted i s)"
  unfolding user_deleted_def
  by (rule r_into_rtranclp, rule m_touch [where f = "\<lambda>r. r\<lparr>al_userId := (if al_userId r = Some i then None else al_userId r),
     al_targetUserId := (if al_targetUserId r = Some i then None else al_targetUserId r)\<rparr>"]) (simp_all add: chain_facts_def)

lemma audit_step_moves:
  assumes "audit_wf env s" "inj (ae_newId env)"
  shows "audit_moves (releases env c s) env s (audit_step env c s)"
proof (cases c)
  case (Emit p)
  then show ?thesis using moves_self [where p = p and t = s, OF rtranclp.rtrancl_refl]
    by (simp add: handleAuditEvent_def auditSelf_def)
next
  case (Purge olderThan reason token actor)
  then show ?thesis using purgeOlderThan_moves [OF audit_wf_fresh [OF assms]] by simp
next
  case RunDue
  then show ?thesis using runDue_moves [OF assms] by simp
next
  case (RowHold i on reason ref actor)
  show ?thesis unfolding RowHold audit_step.simps by (rule setRowLegalHold_moves)
next
  case (ReleaseHold i reason actor)
  show ?thesis unfolding ReleaseHold audit_step.simps by (rule releaseLegalHold_moves)
qed (simp_all add: verifyIntegrity_moves previewPurge_moves anonymizeUser_moves schedulePurge_moves cancelPurgeSchedule_moves
    createLegalHold_moves updateRetention_moves retrieve_moves user_deleted_moves)

lemma audit_wf_same: "same_deployment env e \<Longrightarrow> audit_wf e s \<longleftrightarrow> audit_wf env s"
  by (simp add: audit_wf_def same_deployment_def)

lemma audit_wf_step: "audit_wf env s \<Longrightarrow> inj (ae_newId env) \<Longrightarrow> audit_wf env (audit_step env c s)"
  using audit_wf_moves audit_step_moves by blast

lemma audit_wf_trace:
  "audit_wf env s \<Longrightarrow> inj (ae_newId env) \<Longrightarrow> list_all (\<lambda>p. same_deployment env (fst p)) cs \<Longrightarrow> audit_wf env (audit_trace cs s)"
proof (induction cs arbitrary: s)
  case (Cons p cs)
  obtain e c where p: "p = (e, c)" by fastforce
  then have same: "same_deployment env e" using Cons.prems(3) by simp
  then have "audit_wf env (audit_step e c s)"
    using audit_wf_step [of e s c] Cons.prems(1,2) audit_wf_same [OF same] by (simp add: same_deployment_def)
  with Cons show ?case by (simp add: p)
qed simp

lemma audit_wf_init: "audit_wf env audit_init"
  by (simp add: audit_wf_def audit_init_def chain_wf_def linked_def run_ranges_def map_filter_def)

section \<open>Where rows go\<close>

definition same_event :: "audit_row \<Rightarrow> audit_row \<Rightarrow> bool" where
  "same_event q r \<longleftrightarrow> al_id q = al_id r \<and> chain_facts q = chain_facts r"

definition kept :: "bool \<Rightarrow> audit_row \<Rightarrow> audit_state \<Rightarrow> bool" where
  "kept free r t \<longleftrightarrow> (\<exists>q \<in> set (au_rows t). same_event q r \<and> (\<not> free \<longrightarrow> al_legalHold r \<longrightarrow> al_legalHold q))"

definition in_archive :: "audit_row \<Rightarrow> audit_state \<Rightarrow> bool" where
  "in_archive r t \<longleftrightarrow> (\<exists>q \<in> \<Union> (set ` snd ` set (au_archive t)). same_event q r)"

lemma keptI: "q \<in> set (au_rows t) \<Longrightarrow> same_event q r \<Longrightarrow> (\<not> free \<Longrightarrow> al_legalHold r \<Longrightarrow> al_legalHold q) \<Longrightarrow> kept free r t"
  by (auto simp: kept_def)

lemma same_event_refl [simp]: "same_event r r"
  by (simp add: same_event_def)

lemma move_keeps:
  "audit_move free env s t \<Longrightarrow> r \<in> set (au_rows s) \<Longrightarrow> kept free r t \<or> \<not> al_legalHold r \<and> in_archive r t"
proof (induction rule: audit_move.induct)
  case (m_record s p)
  then show ?case by (auto simp: record_event_def Let_def intro: keptI [of r])
next
  case (m_touch t f s)
  then have "kept free r t" by (intro keptI [of "f r"]) (simp_all add: same_event_def)
  then show ?case ..
next
  case (m_purge t c P s run dead extra)
  show ?case
  proof (cases "purgeable c r")
    case True
    with m_purge(5,9) have "r \<in> set dead" by simp
    moreover with m_purge(7) have "dead \<in> snd ` set extra" by (cases dead) simp_all
    ultimately have "in_archive r t" unfolding in_archive_def m_purge(6) set_append image_Un
      by (metis UN_I UnI2 Union_Un_distrib image_eqI same_event_refl)
    with True show ?thesis by (simp add: purgeable_def)
  next
    case False
    then have "kept free r t" using m_purge(1,9) by (intro keptI [of r]) simp_all
    then show ?thesis ..
  qed
qed (auto intro: keptI [of r])

lemma move_archive: "audit_move free env s t \<Longrightarrow> set (au_archive s) \<subseteq> set (au_archive t)"
  by (induction rule: audit_move.induct) (auto simp: record_event_def Let_def)

lemma in_archive_mono: "set (au_archive s) \<subseteq> set (au_archive t) \<Longrightarrow> in_archive r s \<Longrightarrow> in_archive r t"
  unfolding in_archive_def by blast

lemma same_event_trans: "same_event p q \<Longrightarrow> same_event q r \<Longrightarrow> same_event p r"
  by (simp add: same_event_def)

lemma same_event_archive: "same_event q r \<Longrightarrow> in_archive q t \<Longrightarrow> in_archive r t"
  unfolding in_archive_def using same_event_trans by blast

lemma moves_keep:
  "audit_moves free env s t \<Longrightarrow> r \<in> set (au_rows s) \<Longrightarrow> kept free r t \<or> in_archive r t \<and> (free \<or> \<not> al_legalHold r)"
proof (induction rule: rtranclp_induct)
  case base
  then show ?case by (auto intro: keptI [of r])
next
  case (step t u)
  from step.IH [OF step.prems] show ?case
  proof
    assume "kept free r t"
    then obtain q where q: "q \<in> set (au_rows t)" "same_event q r" "\<not> free \<Longrightarrow> al_legalHold r \<Longrightarrow> al_legalHold q"
      unfolding kept_def by blast
    from move_keeps [OF step.hyps(2) q(1)] show ?thesis
    proof
      assume "kept free q u"
      with q show ?thesis unfolding kept_def using same_event_trans by blast
    next
      assume "\<not> al_legalHold q \<and> in_archive q u"
      with q same_event_archive show ?thesis by blast
    qed
  next
    assume "in_archive r t \<and> (free \<or> \<not> al_legalHold r)"
    with in_archive_mono [OF move_archive [OF step.hyps(2)]] show ?thesis by blast
  qed
qed

end
