(* ===== verification/Audit_Properties.thy ===== *)
theory Audit_Properties
  imports Audit_Moves "HOL-Library.Sublist"
begin

text \<open>
  What the audit log guarantees. The chain: the batched scan finds exactly the breaks of the chain, no
  history of calls makes it report one, and nobody who leaves the head of a verified chain alone can have
  changed what it covers. The rows: none leaves the log except into the archive, held ones stay until a second
  administrator lets them go, and no secret reaches them. Last, what the check cannot see.
\<close>


section \<open>Tampering\<close>

text \<open>What the hash of a row covers.\<close>

definition chain_entry :: "audit_row \<Rightarrow> (int \<times> jstring \<times> jstring option) \<times> (int \<times> jstring \<times> audit_outcome \<times> audit_severity) \<times>
    (actor_type \<times> jstring \<times> jstring option \<times> jstring option)" where
  "chain_entry r = ((row_seq r, prev_text (al_prevHash r), al_hash r), (al_createdAt r, al_action r, al_outcome r, al_severity r),
     (al_actorType r, al_entity r, al_entityId r, al_reason r))"

definition row_text :: "audit_row \<Rightarrow> jstring" where
  "row_text r = chain_text (row_seq r) (al_prevHash r) r"

definition plain_row :: "audit_row \<Rightarrow> bool" where
  "plain_row r \<longleftrightarrow> 0 \<le> row_seq r \<and> js_instant (al_createdAt r)"

lemma chain_outcome_name_inj: "chain_outcome_name a = chain_outcome_name b \<longleftrightarrow> a = b"
  by (cases a; cases b) simp_all

lemma severity_name_inj: "severity_name a = severity_name b \<longleftrightarrow> a = b"
  by (cases a; cases b) simp_all

lemma actor_name_inj: "actor_name a = actor_name b \<longleftrightarrow> a = b"
  by (cases a; cases b) simp_all

lemmas names_inj = chain_outcome_name_inj severity_name_inj actor_name_inj

lemma json_opt_eq: "json_opt a = json_opt b \<Longrightarrow> a = b"
  using json_opt_inj [of a "[]" b "[]"] by simp

lemma row_text_inj:
  assumes "row_text q = row_text r" "plain_row q" "plain_row r"
  shows "row_seq q = row_seq r \<and> prev_text (al_prevHash q) = prev_text (al_prevHash r) \<and> al_createdAt q = al_createdAt r \<and>
    al_action q = al_action r \<and> al_outcome q = al_outcome r \<and> al_severity q = al_severity r \<and> al_actorType q = al_actorType r \<and>
    al_entity q = al_entity r \<and> al_entityId q = al_entityId r \<and> al_reason q = al_reason r"
proof -
  let ?tail = "\<lambda>r. json_string (prev_text (al_prevHash r)) @ '','' @
     json_string (toISOString (al_createdAt r)) @ '','' @ json_string (al_action r) @ '','' @
     json_string (chain_outcome_name (al_outcome r)) @ '','' @ json_string (severity_name (al_severity r)) @ '','' @
     json_string (actor_name (al_actorType r)) @ '','' @ json_string (al_entity r) @ '','' @
     json_opt (al_entityId r) @ '','' @ json_opt (al_reason r) @ '']''"
  have "show_nat (nat (row_seq q)) @ CHR '','' # ?tail q = show_nat (nat (row_seq r)) @ CHR '','' # ?tail r"
    using assms(1) by (simp add: row_text_def chain_text_def)
  from show_nat_apart [OF this] have n: "nat (row_seq q) = nat (row_seq r)" and t: "?tail q = ?tail r" by blast+
  have "prev_text (al_prevHash q) = prev_text (al_prevHash r) \<and> toISOString (al_createdAt q) = toISOString (al_createdAt r) \<and>
    al_action q = al_action r \<and> chain_outcome_name (al_outcome q) = chain_outcome_name (al_outcome r) \<and>
    severity_name (al_severity q) = severity_name (al_severity r) \<and> actor_name (al_actorType q) = actor_name (al_actorType r) \<and>
    al_entity q = al_entity r \<and> al_entityId q = al_entityId r \<and> al_reason q = al_reason r"
    using t by (auto dest!: json_string_inj json_opt_inj json_opt_eq)
  with n assms(2,3) show ?thesis
    using toISOString_inj [of "al_createdAt q" "al_createdAt r"] by (auto simp: plain_row_def names_inj)
qed

lemma scan_ok_append:
  "scan_ok env purged prev (xs @ ys) \<longleftrightarrow> scan_ok env purged prev xs \<and>
     scan_ok env purged (if xs = [] then prev else Some (row_seq (last xs), al_hash (last xs))) ys"
  by (induction xs arbitrary: prev) auto

lemma scan_ok_snoc:
  assumes "scan_ok env [] None (xs @ [r])"
  shows "scan_ok env [] None xs" "al_hash r = Some (ae_sha256 env (row_text r))"
    "xs \<noteq> [] \<Longrightarrow> al_prevHash r = al_hash (last xs)"
proof -
  from assms show "scan_ok env [] None xs" by (simp add: scan_ok_append)
  from assms have "row_break env [] (if xs = [] then None else Some (row_seq (last xs), al_hash (last xs))) r = None"
    by (simp add: scan_ok_append)
  then show "al_hash r = Some (ae_sha256 env (row_text r))" "xs \<noteq> [] \<Longrightarrow> al_prevHash r = al_hash (last xs)"
    by (auto simp: row_break_def computeHash_def row_text_def explained_def split: if_splits)
qed

lemma chains_tied:
  assumes "scan_ok env [] None xs" "scan_ok env [] None ys" "xs \<noteq> []" "ys \<noteq> []" "al_hash (last xs) = al_hash (last ys)"
    "list_all plain_row xs" "list_all plain_row ys" "inj_on (ae_sha256 env) (row_text ` (set xs \<union> set ys))"
  shows "suffix (map chain_entry xs) (map chain_entry ys) \<or> suffix (map chain_entry ys) (map chain_entry xs)"
  using assms
proof (induction xs arbitrary: ys rule: rev_induct)
  case (snoc q xs)
  obtain ys' r where ys: "ys = ys' @ [r]" using snoc.prems(4) by (metis rev_exhaust)
  note q = scan_ok_snoc [OF snoc.prems(1)] and r = scan_ok_snoc [OF snoc.prems(2) [unfolded ys]]
  have hash: "al_hash q = al_hash r" using snoc.prems(5) ys by simp
  then have "ae_sha256 env (row_text q) = ae_sha256 env (row_text r)" using q(2) r(2) by simp
  then have "row_text q = row_text r" by (rule inj_onD [OF snoc.prems(8)]) (simp_all add: ys)
  from row_text_inj [OF this] have eq: "chain_entry q = chain_entry r" "prev_text (al_prevHash q) = prev_text (al_prevHash r)"
    using snoc.prems(6,7) hash by (simp_all add: ys chain_entry_def)
  show ?case
  proof (cases "xs = [] \<or> ys' = []")
    case True
    then show ?thesis using eq(1) by (auto simp: ys suffix_def)
  next
    case False
    then obtain as a bs b where ab: "xs = as @ [a]" "ys' = bs @ [b]" by (metis rev_exhaust)
    have "al_hash (last xs) = al_hash (last ys')"
      using q(3) r(3) eq(2) False scan_ok_snoc(2) [OF q(1) [unfolded ab]] scan_ok_snoc(2) [OF r(1) [unfolded ab]]
      by (simp add: ab prev_text_def)
    moreover have "inj_on (ae_sha256 env) (row_text ` (set xs \<union> set ys'))"
      by (rule inj_on_subset [OF snoc.prems(8)]) (auto simp: ys)
    ultimately have "suffix (map chain_entry xs) (map chain_entry ys') \<or> suffix (map chain_entry ys') (map chain_entry xs)"
      using snoc.IH [OF q(1) r(1)] False snoc.prems(6,7) by (simp add: ys)
    then show ?thesis using eq(1) by (auto simp: ys)
  qed
qed simp

definition chain_texts :: "audit_state \<Rightarrow> jstring set" where
  "chain_texts s = row_text ` linked (au_rows s)"

definition intact :: "audit_env \<Rightarrow> audit_state \<Rightarrow> bool" where
  "intact env s \<longleftrightarrow> ir_ok (integrity_of env None None s) \<and> ir_complete (integrity_of env None None s)"

lemma intact_scan: "intact env s \<Longrightarrow> scan_ok env (purgedSeqRanges (au_runs s)) None (chained (au_rows s))"
  using scan_rows_result [of "scan_start None" env "purgedSeqRanges (au_runs s)" "chained (au_rows s)"]
  by (auto simp: intact_def integrity_scan Let_def ir_ok_def scan_start_def)

lemma intact_head:
  "intact env s \<Longrightarrow> ir_head (integrity_of env None None s) =
     (case rev (chained (au_rows s)) of [] \<Rightarrow> None | r # _ \<Rightarrow> Some (row_seq r, al_hash r))"
  using scan_rows_head [of env "purgedSeqRanges (au_runs s)" "chained (au_rows s)" "scan_start None"]
  by (auto simp: intact_def integrity_scan Let_def ir_ok_def scan_start_def last_rev [symmetric] hd_rev split: list.split)


text \<open>
  The check of the whole log, which reads it in batches, answers that it is intact and complete
  exactly when the log is small enough and every row has the hash of its facts, links to the row with
  the number before, and follows a gap only where purge runs removed every number in between.
\<close>

theorem verification_exact:
  "ir_ok (integrity_of env None None s) \<and> ir_complete (integrity_of env None None s) \<longleftrightarrow>
   scan_ok env (purgedSeqRanges (au_runs s)) None (chained (au_rows s)) \<and> length (chained (au_rows s)) \<le> ae_maxVerify env"
  using scan_rows_result [of "scan_start None" env "purgedSeqRanges (au_runs s)" "chained (au_rows s)"]
  by (auto simp: integrity_scan Let_def ir_ok_def scan_start_def)


lemma moves_archive: "audit_moves free env s t \<Longrightarrow> set (au_archive s) \<subseteq> set (au_archive t)"
  by (induction rule: rtranclp_induct) (auto dest: move_archive)

lemma trace_keeps:
  "audit_wf env s \<Longrightarrow> inj (ae_newId env) \<Longrightarrow> list_all (\<lambda>p. same_deployment env (fst p)) cs \<Longrightarrow> r \<in> set (au_rows s) \<Longrightarrow>
   kept True r (audit_trace cs s) \<or> in_archive r (audit_trace cs s)"
proof -
  assume wf: "audit_wf env s" and nid: "inj (ae_newId env)" and same: "list_all (\<lambda>p. same_deployment env (fst p)) cs"
  have "kept True r (audit_trace cs s) \<or> in_archive r (audit_trace cs s)" if "kept True r s \<or> in_archive r s"
    using wf same that
  proof (induction cs arbitrary: s)
    case (Cons p cs)
    obtain e c where p: "p = (e, c)" by fastforce
    have same: "same_deployment env e" using Cons.prems(2) p by simp
    have e: "audit_wf e s" "inj (ae_newId e)" using Cons.prems(1) nid audit_wf_same [OF same] same by (simp_all add: same_deployment_def)
    have mv: "audit_moves (releases e c s) e s (audit_step e c s)" by (rule audit_step_moves [OF e])
    have "kept True r (audit_step e c s) \<or> in_archive r (audit_step e c s)"
      using Cons.prems(3)
    proof
      assume "kept True r s"
      then obtain q where q: "q \<in> set (au_rows s)" "same_event q r" unfolding kept_def by blast
      from moves_keep [OF mv q(1)] show ?thesis
        using q(2) same_event_trans same_event_archive unfolding kept_def by blast
    next
      assume "in_archive r s"
      with moves_archive [OF mv] in_archive_mono show ?thesis by blast
    qed
    then show ?case
      using Cons.IH [of "audit_step e c s"] audit_wf_step [OF e, of c] audit_wf_same [OF same] Cons.prems(2) by (simp add: p)
  qed simp
  moreover assume "r \<in> set (au_rows s)"
  then have "kept True r s" by (auto intro: keptI [of r])
  ultimately show ?thesis by blast
qed

lemma gated_result:
  "second_request env kind target material actor s \<or>
     (case fst (gated (twoPerson env kind target material why actor s) k) of Inr (Inr x) \<Rightarrow> False | _ \<Rightarrow> True)"
proof (cases "\<exists>i by. fst (twoPerson env kind target material why actor s) = Inr (Approved i by)")
  case True
  then show ?thesis using twoPerson_approved by blast
next
  case False
  then show ?thesis by (auto simp: gated_def res_bind_def split: prod.splits sum.splits gate.splits)
qed

lemma gated_waits:
  "second_request env kind target material actor s \<or>
     snd (gated (twoPerson env kind target material why actor s) k) = snd (twoPerson env kind target material why actor s)"
proof (cases "\<exists>i by. fst (twoPerson env kind target material why actor s) = Inr (Approved i by)")
  case True
  then show ?thesis using twoPerson_approved by blast
next
  case False
  then show ?thesis by (auto simp: gated_def res_bind_def split: prod.splits sum.splits gate.splits)
qed




text \<open>
  C39. Retention periods change, and archived rows are handed out, only when another administrator
  has a pending request for the same policies or the same archive.
\<close>

theorem two_administrators:
  "(second_request env RETENTION_CHANGE ''retention'' (policies_text env ps) actor s \<or>
    au_retention (snd (updateRetention env ps reason actor s)) = au_retention s) \<and>
   (second_request env ARCHIVE_RETRIEVAL (''run:'' @ i) ''{}'' actor s \<or>
    (case fst (retrievePurgeArchive env i actor s) of Inr (Inr rows) \<Rightarrow> False | _ \<Rightarrow> True))"
proof -
  have "au_retention (snd (twoPerson env kind target material why actor s)) = au_retention s" for kind target material why
    by (simp add: twoPerson_def Let_def auditSelf_def record_event_def expire_approvals_def split: list.split)
  then have "second_request env kind target material actor s \<or>
      au_retention (snd (gated (twoPerson env kind target material why actor s) k)) = au_retention s" for kind target material why and k :: "jstring \<Rightarrow> audit_state \<Rightarrow> jval result \<times> audit_state"
    using gated_waits by metis
  moreover have "second_request env kind target material actor s \<or>
      (case fst (gated (twoPerson env kind target material why actor s) k) of Inr (Inr rows) \<Rightarrow> False | _ \<Rightarrow> True)"
    for kind target material why and k :: "jstring \<Rightarrow> audit_state \<Rightarrow> audit_row list result \<times> audit_state"
    by (rule gated_result)
  ultimately show ?thesis
    by (auto simp: updateRetention_def retrievePurgeArchive_def split: option.split)
qed

definition only_archived :: "audit_row list \<Rightarrow> audit_state \<Rightarrow> bool" where
  "only_archived rows t \<longleftrightarrow> set rows \<subseteq> set (au_rows t) \<union> \<Union> (set ` snd ` set (au_archive t))"

lemma only_archived_same [simp]: "au_rows t = rows \<Longrightarrow> only_archived rows t"
  by (auto simp: only_archived_def)

lemma to_purge_set: "set (to_purge env c s) = {r \<in> set (au_rows s). purgeable c r}"
  by (auto simp: to_purge_def)

lemma to_purge_ids: "filter (\<lambda>r. purgeable c r \<longrightarrow> al_id r \<notin> al_id ` set (to_purge env c s)) (au_rows s) = filter (\<lambda>r. \<not> purgeable c r) (au_rows s)"
  by (rule filter_cong) (auto simp: to_purge_set)

lemma to_purge_archived [simp]: "to_purge env c (s\<lparr>au_runs := x, au_archive := y\<rparr>) = to_purge env c s" "to_purge env c (s\<lparr>au_runs := x\<rparr>) = to_purge env c s"
  by (simp_all add: to_purge_def)

lemma run_purge_outcome:
  "case run_purge env run actor s of
     (Inl e, t) \<Rightarrow> (if ae_deleteFails env = None then au_rows t = au_rows s \<and> au_archive t = au_archive s
        else only_archived (au_rows s) t)
   | (Inr r, t) \<Rightarrow> pr_cutoff r = pr_cutoff run \<and> pr_id r = pr_id run \<and> pr_tokenId r = pr_tokenId run \<and>
       pr_deletedCount r = count_where (purgeable (pr_cutoff run)) (au_rows s) \<and>
       (to_purge env (pr_cutoff run) s = [] \<or> to_purge env (pr_cutoff run) s \<in> snd ` set (au_archive t)) \<and>
       (\<exists>q. au_rows t = filter (\<lambda>r. \<not> purgeable (pr_cutoff run) r) (au_rows s) @ [q] \<and> al_action q = ''AUDIT_LOG_PURGED'' \<and>
          al_entityId q = Some (pr_id run) \<and> al_userId q = Some (cu_id actor))"
proof -
  let ?c = "pr_cutoff run"
  have n: "length (to_purge env ?c s) = count_where (purgeable ?c) (au_rows s)" by (simp add: to_purge_def count_where_def)
  obtain lo hi where sr: "seq_range (to_purge env ?c s) = (lo, hi)" by fastforce
  have to_purge_none: "count_where (purgeable ?c) (au_rows s) = 0 \<and> filter (\<lambda>r. \<not> purgeable ?c r) (au_rows s) = au_rows s" if "to_purge env ?c s = []"
    using that to_purge_set [of env ?c s] by (auto simp: count_where_0_iff filter_id_conv)
  have empty: "to_purge env ?c s = [] \<Longrightarrow> {r \<in> set (au_rows s). \<not> purgeable ?c r} = set (au_rows s)"
    using to_purge_set [of env ?c s] by auto
  show ?thesis
  proof (cases "ae_archive env")
    case (Some ans)
    show ?thesis
    proof (cases ans)
      case (Stored key)
      show ?thesis
      proof (cases "ae_deleteFails env")
        case None
        with Some Stored show ?thesis
          by (simp add: run_purge_def archive_rows_def res_bind_def update_run_def purge_rows_def auditSelf_def record_event_def
            link_row_def row_data_def purged_payload_def self_payload_def Let_def sr n to_purge_ids to_purge_none)
      next
        case (Some p)
        obtain k e where p: "p = (k, e)" by fastforce
        show ?thesis using to_purge_set [of env ?c s] empty \<open>ae_archive env = Some ans\<close> Stored
          by (auto simp: run_purge_def archive_rows_def res_bind_def update_run_def purge_rows_def Let_def sr Some p only_archived_def)
      qed
    qed (use Some sr in \<open>auto simp: run_purge_def archive_rows_def res_bind_def failRun_def update_run_def Let_def\<close>)
  qed (auto simp: run_purge_def archive_rows_def res_bind_def Let_def sr)
qed


section \<open>Redaction\<close>

fun clean :: "jval \<Rightarrow> bool" where
  "clean (JStr s) \<longleftrightarrow> \<not> SENSITIVE_VALUE s"
| "clean (JDate t) \<longleftrightarrow> False"
| "clean JBuffer \<longleftrightarrow> False"
| "clean (JArr vs) \<longleftrightarrow> list_all clean vs"
| "clean (JObj fs) \<longleftrightarrow> list_all (\<lambda>(k, v). (if isSensitiveKey k then v = JStr REDACTED else clean v)) fs"
| "clean _ \<longleftrightarrow> True"

definition iso_char :: "char \<Rightarrow> bool" where
  "iso_char c \<longleftrightarrow> is_digit c \<or> c \<in> set ''+-:.TZ''"

lemma pad_digits_digits: "list_all is_digit (pad_digits w n)"
  using show_nat_digits [of n] by (auto simp: pad_digits_def Let_def list_all_iff is_digit_def code_of_def)

lemma pad_digits_iso: "list_all iso_char (pad_digits w n)"
  using pad_digits_digits [of w n] by (auto simp: list_all_iff iso_char_def)

lemma toISOString_chars: "list_all iso_char (toISOString t)"
proof -
  have "list_all iso_char (year_text y)" for y using pad_digits_iso by (simp add: year_text_def iso_char_def)
  moreover have "list_all iso_char (time_text ms)" for ms using pad_digits_iso by (simp add: time_text_def iso_char_def)
  ultimately show ?thesis using pad_digits_iso by (simp add: toISOString_def Let_def iso_char_def split: prod.split)
qed

lemma iso_lower:
  assumes "iso_char c"
  shows "lower_char c \<noteq> CHR ''g'' \<and> lower_char c \<noteq> CHR ''=''"
proof (cases "is_digit c")
  case True
  then show ?thesis by (auto simp: lower_char_def is_digit_def code_of_def)
next
  case False
  with assms have "c \<in> set ''+-:.TZ''" by (simp add: iso_char_def)
  moreover have "list_all (\<lambda>c. lower_char c \<noteq> CHR ''g'' \<and> lower_char c \<noteq> CHR ''='') ''+-:.TZ''" by code_simp
  ultimately show ?thesis unfolding list_all_iff by blast
qed

lemma starts_with_set: "starts_with p s \<Longrightarrow> set p \<subseteq> set s"
  unfolding starts_with_def by (metis in_set_takeD subsetI)

lemma js_includes_set: "js_includes p s \<Longrightarrow> set p \<subseteq> set s"
proof (induction p s rule: js_includes.induct)
  case (2 p c s)
  then show ?case using starts_with_set [of p "c # s"] by auto
qed simp

lemma iso_clean: "\<not> SENSITIVE_VALUE (toISOString t)"
proof -
  have "CHR ''g'' \<notin> set (js_lower (toISOString t)) \<and> CHR ''='' \<notin> set (js_lower (toISOString t))"
    using toISOString_chars [of t] iso_lower unfolding js_lower_def list_all_iff set_map by (metis imageE)
  then have "\<not> js_includes p (js_lower (toISOString t))" if "CHR ''g'' \<in> set p \<or> CHR ''='' \<in> set p" for p
    using js_includes_set [of p "js_lower (toISOString t)"] that by blast
  then show ?thesis by (simp add: SENSITIVE_VALUE_def)
qed

lemma redacted_clean [simp]: "\<not> SENSITIVE_VALUE REDACTED"
  by code_simp

lemma redact_clean: "clean (redact d v)"
proof (induction d v rule: redact.induct)
  case (6 d vs)
  then show ?case by (simp add: list_all_iff)
next
  case (7 d fs)
  then show ?case by (auto simp: list_all_iff)
qed (simp_all add: iso_clean)

text \<open>
  C40. Secrets do not reach the log: whatever an event carries, the difference and the metadata of the row that
  is stored have no signed link, no raw bytes, and behind every key that names a password, token, secret,
  hash or one-time code only the redaction mark, at any depth.
\<close>

theorem secrets_redacted:
  "case fst (record_event env p s) of r \<Rightarrow>
     (case al_diff r of None \<Rightarrow> True | Some v \<Rightarrow> clean v) \<and> (case al_metadata r of None \<Rightarrow> True | Some v \<Rightarrow> clean v)"
proof -
  have "case toAuditJson v of None \<Rightarrow> True | Some w \<Rightarrow> clean w" for v
    using redact_clean [of 0 v] by (cases "redact 0 v") (simp_all add: toAuditJson_def)
  then show ?thesis by (simp add: record_event_def Let_def link_row_def row_data_def)
qed

section \<open>What the check cannot see\<close>

lemma chain_wf_front: "chain_wf sha ranges rows \<Longrightarrow> chain_wf sha ranges (filter (\<lambda>r. n \<le> row_seq r) rows)"
proof -
  assume wf: "chain_wf sha ranges rows"
  have sub: "linked (filter (\<lambda>r. n \<le> row_seq r) rows) = {r \<in> linked rows. n \<le> row_seq r}" by (auto simp: linked_def)
  have "distinct (map row_seq (filter (\<lambda>r. al_seq r \<noteq> None) (filter (\<lambda>r. n \<le> row_seq r) rows)))"
    using wf distinct_map_filter [of row_seq "filter (\<lambda>r. al_seq r \<noteq> None) rows" "\<lambda>r. n \<le> row_seq r"]
    by (simp add: chain_wf_def conj_commute)
  moreover have "m \<in> row_seq ` {r \<in> linked rows. n \<le> row_seq r} \<or> in_ranges ranges m"
    if "q \<in> linked rows" "n \<le> row_seq q" "r \<in> linked rows" "row_seq q < m \<and> m < row_seq r" for q r m
  proof -
    have "m \<in> row_seq ` linked rows \<or> in_ranges ranges m" using wf that unfolding chain_wf_def by blast
    then show ?thesis using that(2,4) by auto
  qed
  moreover have "\<forall>r \<in> linked rows. row_hashed sha r \<and> 0 < row_seq r"
      "\<forall>q \<in> linked rows. \<forall>r \<in> linked rows. row_seq r = row_seq q + 1 \<longrightarrow> al_prevHash r = al_hash q"
    using wf unfolding chain_wf_def by blast+
  ultimately show "chain_wf sha ranges (filter (\<lambda>r. n \<le> row_seq r) rows)" unfolding chain_wf_def sub by blast
qed

text \<open>Rows cut from the front of the log, or inside a range some purge wrote down, are not missed.\<close>

lemma front_cut_unseen: "audit_wf env s \<Longrightarrow> audit_wf env (s\<lparr>au_rows := filter (\<lambda>r. n \<le> row_seq r) (au_rows s)\<rparr>)"
  by (simp add: audit_wf_def chain_wf_front)

lemma purge_range_unseen:
  assumes "audit_wf env s" "\<And>r. r \<in> linked (au_rows s) \<Longrightarrow> \<not> P r \<Longrightarrow> in_ranges (run_ranges (au_runs s)) (row_seq r)"
  shows "audit_wf env (s\<lparr>au_rows := filter P (au_rows s)\<rparr>)"
  using assms chain_wf_filter [of "ae_sha256 env" "run_ranges (au_runs s)" "au_rows s" "run_ranges (au_runs s)" P] by (simp add: audit_wf_def)

lemma audit_wf_ok: "audit_wf env s \<Longrightarrow> ir_ok (integrity_of env None None s)"
  using scan_rows_result [of "scan_start None" env "purgedSeqRanges (au_runs s)" "chained (au_rows s)"] chain_wf_scan [of "au_runs s" env "au_rows s"]
  by (simp add: audit_wf_def integrity_scan Let_def ir_ok_def scan_start_def)

text \<open>The row a check writes about itself does not carry the hash of the head: its key is redacted.\<close>

lemma head_hash_redacted:
  assumes "ir_head rep = Some (n, h)"
  shows "\<exists>fs. redact 0 (report_json rep) = JObj fs \<and> map_of fs ''head'' = Some (JObj [(''seq'', JInt n), (''hash'', JStr REDACTED)])"
proof -
  have keys: "isSensitiveKey ''hash''" "\<not> isSensitiveKey ''seq''" "\<not> isSensitiveKey ''head''" by code_simp+
  show ?thesis by (simp add: report_json_def assms keys MAX_DEPTH_def)
qed

section \<open>Witnesses\<close>

definition audit_demo :: audit_env where
  "audit_demo = \<lparr>ae_now = 1000, ae_newId = show_nat, ae_ctx = None, ae_sha256 = (\<lambda>x. x), ae_archive = Some (Stored ''archive''),
     ae_storage = True, ae_tokenSecret = None, ae_sign = (\<lambda>k c. []), ae_open = (\<lambda>k t. None), ae_maxVerify = 100, ae_batch = 10,
     ae_rank = length, ae_order = length, ae_deleteFails = None, ae_minNotice = 24\<rparr>"

definition demo_event :: audit_payload where
  "demo_event = self_payload None ''LOGIN''"

definition demo_hold :: hold_filter where
  "demo_hold = (row_filter [])\<lparr>hf_entity := Some ''AuditLog''\<rparr>"

definition demo_log :: audit_state where
  "demo_log = audit_trace [(audit_demo, Emit demo_event), (audit_demo, Emit demo_event)] audit_init"

definition demo_held :: audit_state where
  "demo_held = audit_step audit_demo (CreateHold demo_hold ''case'' ''court order'' (worker_as ''a'')) demo_log"

lemma demo_ids: "inj (ae_newId audit_demo)"
  by (simp add: audit_demo_def inj_def show_nat_inj)

lemma demo_same: "same_deployment audit_demo audit_demo"
  by (simp add: same_deployment_def)

lemma demo_wf: "audit_wf audit_demo demo_log"
  unfolding demo_log_def by (rule audit_wf_trace [OF audit_wf_init demo_ids]) (simp add: demo_same)

lemma demo_held_wf: "audit_wf audit_demo demo_held"
  unfolding demo_held_def by (rule audit_wf_step [OF demo_wf demo_ids])

definition demo_row :: "nat \<Rightarrow> audit_row option \<Rightarrow> audit_row" where
  "demo_row n l = link_row audit_demo l (row_data audit_demo demo_event (show_nat n))"

lemma demo_first: "last_link [] = None" "last_link [demo_row 0 None] = Some (demo_row 0 None)"
  using link_row_facts(2) by (simp_all add: last_link_def chained_def demo_row_def)

lemma demo_seqs:
  "row_seq (demo_row 0 None) = 1" "row_seq (demo_row 1 (Some (demo_row 0 None))) = 2"
  "al_seq (demo_row n l) \<noteq> None" "al_legalHold (demo_row n l) = False"
  unfolding demo_row_def by (simp_all add: link_row_facts) (simp add: link_row_def row_data_def Let_def)

lemma demo_rows: "au_rows demo_log = [demo_row 0 None, demo_row 1 (Some (demo_row 0 None))]"
proof -
  have n: "ap_entity demo_event \<noteq> [] \<and> ap_action demo_event \<noteq> []" by (simp add: demo_event_def self_payload_def)
  have ids: "ae_newId audit_demo = show_nat" by (simp add: audit_demo_def)
  show ?thesis using n demo_first
    by (simp add: demo_log_def handleAuditEvent_def record_event_def Let_def audit_init_def ids demo_row_def [symmetric])
qed

lemma demo_chained: "chained (au_rows demo_log) = [demo_row 0 None, demo_row 1 (Some (demo_row 0 None))]"
  using demo_seqs by (simp add: chained_def demo_rows)



lemma demo_held_row: "\<exists>r \<in> set (au_rows demo_held). al_legalHold r"
proof -
  let ?r = "demo_row 0 None"
  have m: "holdWhere demo_hold q" if "al_entity q = ''AuditLog''" for q
    using that by (simp add: holdWhere_def demo_hold_def row_filter_def set_and_def in_range_def)
  have e: "al_entity ?r = ''AuditLog''" by (simp add: demo_row_def link_row_def row_data_def Let_def demo_event_def self_payload_def)
  have he: "hold_error demo_hold = None" by (simp add: hold_error_def demo_hold_def row_filter_def)
  have "count_where (holdWhere demo_hold) (au_rows demo_log) \<noteq> 0" using m [OF e] by (simp add: demo_rows)
  then show ?thesis using m [OF e]
    by (simp add: demo_held_def createLegalHold_def he Let_def place_hold_def auditSelf_def record_event_def hold_rows_def new_hold_def demo_rows)
qed


definition demo_cut :: audit_state where
  "demo_cut = demo_log\<lparr>au_rows := filter (\<lambda>r. 2 \<le> row_seq r) (au_rows demo_log)\<rparr>"

lemma demo_cut_chained: "chained (au_rows demo_cut) = [demo_row 1 (Some (demo_row 0 None))]"
  using demo_seqs by (simp_all add: demo_cut_def demo_rows chained_def)

lemma demo_intact: "intact audit_demo demo_log" "intact audit_demo demo_cut"
proof -
  have ok: "intact audit_demo s" if "audit_wf audit_demo s" "length (chained (au_rows s)) \<le> 100" for s
  proof -
    have "scan_ok audit_demo (purgedSeqRanges (au_runs s)) None (chained (au_rows s))"
      using that(1) unfolding audit_wf_def by (blast intro: chain_wf_scan)
    then show ?thesis
      using that(2) scan_rows_result [of "scan_start None" audit_demo "purgedSeqRanges (au_runs s)" "chained (au_rows s)"]
      by (auto simp: intact_def integrity_scan Let_def ir_ok_def scan_start_def audit_demo_def)
  qed
  show "intact audit_demo demo_log" by (rule ok [OF demo_wf]) (simp add: demo_chained)
  have "audit_wf audit_demo demo_cut" unfolding demo_cut_def by (rule front_cut_unseen [OF demo_wf])
  then show "intact audit_demo demo_cut" by (rule ok) (simp add: demo_cut_chained)
qed

lemma demo_runs: "run_ranges (au_runs demo_log) = []" "run_ranges (au_runs demo_cut) = []"
  by (simp_all add: demo_cut_def demo_log_def handleAuditEvent_def record_event_def Let_def audit_init_def run_ranges_def map_filter_def)

lemma demo_head: "ir_head (integrity_of audit_demo None None demo_log) = ir_head (integrity_of audit_demo None None demo_cut)"
  unfolding intact_head [OF demo_intact(1)] intact_head [OF demo_intact(2)] demo_chained demo_cut_chained by simp

lemma demo_plain: "plain_row (demo_row 0 None)" "plain_row (demo_row 1 (Some (demo_row 0 None)))"
  using demo_seqs by (simp_all add: plain_row_def) (simp_all add: demo_row_def link_row_def row_data_def Let_def js_instant_def audit_demo_def)


end
