(* ===== verification/Spec2Isabelle.thy ===== *)
theory Spec2Isabelle
  imports Payment_Flows Post_Properties Report_Properties Ussd_Properties Auth_Properties Role_Properties Victim_Cases Missing_Properties Audit_Properties
begin

text \<open>
  A model of the Ehte backend: a NestJS application over PostgreSQL (Prisma), Redis and the Chapa
  payment provider, through which people report violence, look for missing persons, publish posts and
  raise money for victims.

  \<^bold>\<open>How the code is rendered.\<close> A database table is the list of its rows, a row a record with the
  columns the services read; a service's state is a record of its tables, its caches and a log of the
  audit events, notifications and cache invalidations it emits. Every service method is a function from
  the request, the environment (clock, configuration, generated ids, answers of external services) and
  the state to a value of \<open>error + 'a\<close> and the new state; an exception is a constructor named after the
  exception class, and a transaction that throws returns the state it started from. Between two awaits
  other requests may run: where a guard is read in one place and written in another, the write is a
  separate function that takes the row as it was read, and the theorems quantify over it.
  JavaScript strings are character lists over the ASCII characters; instants and durations are integers
  in milliseconds; money is a rational number of birr; 32-bit operations are on \<open>32 word\<close>.

  \<^bold>\<open>Theories.\<close>
  \<^item> \<open>Prelude\<close>: strings, errors, effects, tables (\<open>updateMany\<close>, \<open>count\<close>, \<open>findFirst\<close>), and the
    interfaces the components share: \<open>guarded_table\<close> (a row is claimed by a status-guarded update),
    \<open>transition_table\<close>, \<open>invariant_system\<close>, \<open>row_invariant\<close>. Each is interpreted in the theory of the
    component that provides it.
  \<^item> \<open>Access\<close> (\<open>src/common\<close>): actor types, protected roles, the role and permission guards, sensitive
    permissions and the separation-of-duties rules.
  \<^item> \<open>Chapa\<close> (\<open>src/infrastructure/chapa/chapa.service.ts\<close>): requests to the provider, the reading of its
    answers, signatures. The provider itself is a parameter.
  \<^item> \<open>Payments_Data\<close>, \<open>Payout\<close>, \<open>Settlement\<close>, \<open>Donation\<close> (\<open>src/modules/payments/service\<close>): payment and
    disbursement rows, the transfer to a victim and its reconciliation, donations, settlement of provider
    callbacks. \<open>Payment_Safety\<close> has the atomic actions of all of them as one step relation and its
    invariant; \<open>Payment_Properties\<close> and \<open>Payment_Flows\<close> state what follows for the service functions.
  \<^item> \<open>Media\<close>: the media columns of posts, victim profiles and missing persons with their limits and checks.
  \<^item> \<open>Victim_Data\<close>, \<open>Victim_Review\<close>, \<open>Victim_Workflow\<close>, \<open>Victim_Funding\<close>, \<open>Victim_Moderation\<close>,
    \<open>Victim_Mine\<close>, \<open>Victim_Ops\<close> (\<open>src/modules/core/victim-profile/service\<close>, one theory per service):
    profiles from submission through the review gates, the two-person child review and publication to
    completion, takedown and deletion, with bank details, goals, flags and appeals. \<open>Victim_Safety\<close> has all
    operations as one type, the abstract machine of a profile and the proof that every operation is one
    of its moves; \<open>Victim_Properties\<close> follows publication and the child review through runs,
    \<open>Victim_Money\<close> composes profiles with the payments module (takedowns, balances, deletion, the second
    person on a bank account), \<open>Victim_Cases\<close> has the failure behaviour, concrete runs and the findings.
  \<^item> \<open>Post_Data\<close>, \<open>Post_Review\<close>, \<open>Post_Submission\<close>, \<open>Post_Moderation\<close>
    (\<open>src/modules/core/post/service\<close>): submission, review by one or two people, publication, moderation,
    appeals and retention. \<open>Post_Safety\<close> and \<open>Post_Invariants\<close> are the step relation and its invariants,
    \<open>Post_Properties\<close> the results.
  \<^item> \<open>Missing_Data\<close>, \<open>Missing_Review\<close>, \<open>Missing_Owner\<close>, \<open>Missing_Admin\<close>
    (\<open>src/modules/core/missing-person/service\<close>): missing-person cases from submission through review, the
    two-person approval of children, publication, found reports, renewals, takedown, flags, appeals, merging
    of duplicates and deletion. \<open>Missing_Safety\<close> has all operations as one type and the abstract machine
    they refine, \<open>Missing_Properties\<close> the results and the runs that show the findings.
  \<^item> \<open>Report_Data\<close>, \<open>Report_Workflow\<close>, \<open>Report_Properties\<close> (\<open>src/modules/core/report/service\<close>): the status
    table of reports, assignment and the work queue, who may see a report.
  \<^item> \<open>Roles\<close>, \<open>Role_Assignment\<close>, \<open>Role_Permissions\<close>, \<open>Role_Properties\<close> (\<open>role.service.ts\<close>,
    \<open>permission.service.ts\<close> of \<open>src/modules/auth/service\<close>): the life of roles, who holds them directly, on
    request or for a time, their permissions; the results hold for every sequence of operations.
  \<^item> \<open>Redis\<close> (\<open>src/infrastructure/redis\<close>): keys with an expiry, the atomic counter and the lock of the
    scheduled jobs; the locale \<open>attempt_counter\<close> is what rate limits rely on.
  \<^item> \<open>Ussd_Input\<close>, \<open>Ussd\<close>, \<open>Ussd_Menu\<close>, \<open>Ussd_Properties\<close> (\<open>src/modules/ussd\<close>): the gateway adapter, the
    sessions, every step of the menu and the rows the anonymous services add.
  \<^item> \<open>Two_Factor\<close> (\<open>src/common/utils/two-factor.util.ts\<close>): base32 on 32-bit words, HOTP, TOTP, recovery
    codes. \<open>Auth_Data\<close>, \<open>Auth_Session\<close>, \<open>Auth_Second_Factor\<close>, \<open>Auth_Properties\<close>
    (\<open>src/modules/auth/service\<close>, \<open>src/common/guards\<close>, \<open>src/common/utils\<close>): password logins with lockout,
    tokens and their rotation, the per-request session check, re-authentication, the second factor.
  \<^item> \<open>Json_Text\<close> (\<open>src/common/utils/audit-redaction.ts\<close> and the JSON and ISO texts that are hashed, which
    determine what they were made of). \<open>Audit_Log\<close>, \<open>Audit_Control\<close>
    (\<open>src/modules/misc/audit-log/service/audit-log.service.ts\<close>): the hash chain of events and its
    verification; purges, holds, anonymisation, retention and the second administrator. \<open>Audit_Safety\<close> has the
    invariant of the chain, \<open>Audit_Moves\<close> every call as a sequence of moves that keep it, \<open>Audit_Properties\<close>
    what follows, and what the check cannot see.

  \<^bold>\<open>How the parts interact.\<close> The guards of \<open>Access\<close> and the session check of \<open>Auth_Session\<close> stand before
  every route and give a service its acting user. Payments read the victim profile and its payout
  destination (\<open>pay_view\<close> of \<open>Victim_Money\<close> is what they see of the profile tables); the webhook and the reconciliation job settle what payouts and donations started. The USSD
  channel adds reports, missing persons and information rows of its own. Counters and locks of \<open>Ussd\<close>,
  \<open>Auth_Session\<close> and the scheduled jobs are those of \<open>Redis\<close>.

  The events in the effects of every other service are what \<open>handleAuditEvent\<close> of \<open>Audit_Log\<close> records.

  \<^bold>\<open>Bounds.\<close> The retry loops of the source are structural recursions with the source's bound: five case
  references for a report (\<open>create_report\<close>), five attempts at taking a report from the queue
  (\<open>queue_loop\<close>); loops over rows are recursions over the list of rows; the base32 and TOTP loops consume
  their input. Nothing is cut off by fuel. The HOTP counter must fit 64 bits, as in the source, which
  throws otherwise.

  \<^bold>\<open>Not modelled.\<close> Controllers and DTO validation where they only forward, e-mail, SMS, storage and virus
  scanning, rendering of templates, configuration and start-up, migrations and seeds: they hold no state
  of their own or only call libraries. Hashing, encryption, token signing and the provider's answers are
  parameters. Registration, password reset and social login, administration of accounts, notifications,
  tips about missing persons, media, content, help desk, exports and explorers are not modelled; of posts,
  victim profiles, missing persons and the audit log the reading side (lists, searches, statistics, exports, alerts), of reports
  lifecycle, submission, reporter, case management and communication are missing.
\<close>

end
